(* ===== verification/Prelude.thy ===== *)
theory Prelude
  imports Main "HOL-Library.Monad_Syntax" "HOL-Library.Char_ord" "HOL-Library.List_Lexorder"
begin

text \<open>
  What the components share: the result types of the model, the Go string functions the
  sources call, and generic lemmas on options, lists and rounded division.

  A Go function that can only panic has type \<open>'a option\<close>: \<open>None\<close> is the panic. A Go
  function that returns an error as well has type \<open>'a result\<close>: \<open>None\<close> is a panic,
  \<open>Some (Inl e)\<close> a returned error and \<open>Some (Inr x)\<close> a normal return. Panics are
  threaded with the \<open>do\<close> notation of \<open>Option.bind\<close>; errors are inspected with an explicit
  \<open>case\<close>, as the sources inspect \<open>err\<close>.

  Strings are byte strings and the case functions are those of the ASCII range, which is the
  range the parsers of the sources accept (\<open>common/symbol.go\<close>, \<open>common/chain.go\<close>).
\<close>

datatype go_error = GoError string

type_synonym 'a result = "(go_error + 'a) option"

abbreviation ok :: "'a \<Rightarrow> 'a result" where
  "ok x \<equiv> Some (Inr x)"

abbreviation err :: "string \<Rightarrow> 'a result" where
  "err m \<equiv> Some (Inl (GoError m))"

text \<open>A Go method that returns only an error: \<open>None\<close> is \<open>nil\<close>.\<close>

type_synonym check = "go_error option"

abbreviation fails :: "string \<Rightarrow> check" where
  "fails m \<equiv> Some (GoError m)"

text \<open>The active version, as the test whether it is at least a given one (\<open>GTE\<close>).\<close>

type_synonym version = "nat \<times> nat \<times> nat \<Rightarrow> bool"

named_theorems go_string_simps \<open>evaluation of the Go string functions\<close>

section \<open>Go string functions\<close>

definition char_upper :: "char \<Rightarrow> char" where
  "char_upper c =
     (let n = (of_char c :: nat) in if 97 \<le> n \<and> n \<le> 122 then char_of (n - 32) else c)"

definition char_lower :: "char \<Rightarrow> char" where
  "char_lower c =
     (let n = (of_char c :: nat) in if 65 \<le> n \<and> n \<le> 90 then char_of (n + 32) else c)"

definition toUpper :: "string \<Rightarrow> string" where
  "toUpper s = map char_upper s"

definition toLower :: "string \<Rightarrow> string" where
  "toLower s = map char_lower s"

definition equalFold :: "string \<Rightarrow> string \<Rightarrow> bool" where
  "equalFold s t \<longleftrightarrow> toUpper s = toUpper t"

definition is_space :: "char \<Rightarrow> bool" where
  "is_space c \<longleftrightarrow> (let n = (of_char c :: nat) in (9 \<le> n \<and> n \<le> 13) \<or> n = 32)"

definition trimSpace :: "string \<Rightarrow> string" where
  "trimSpace s = rev (dropWhile is_space (rev (dropWhile is_space s)))"

definition is_upper_letter :: "char \<Rightarrow> bool" where
  "is_upper_letter c \<longleftrightarrow> (let n = (of_char c :: nat) in 65 \<le> n \<and> n \<le> 90)"

definition is_symbol_char :: "char \<Rightarrow> bool" where
  "is_symbol_char c \<longleftrightarrow>
     (let n = (of_char c :: nat) in
        (65 \<le> n \<and> n \<le> 90) \<or> (97 \<le> n \<and> n \<le> 122) \<or> (48 \<le> n \<and> n \<le> 57)
        \<or> n = 45 \<or> n = 46 \<or> n = 95)"

text \<open>\<open>strings.SplitN(s, sep, 2)\<close> for a one-byte separator.\<close>

fun splitN2 :: "char \<Rightarrow> string \<Rightarrow> string list" where
  "splitN2 sep s =
     (let p = takeWhile (\<lambda>c. c \<noteq> sep) s; r = dropWhile (\<lambda>c. c \<noteq> sep) s
      in if r = [] then [p] else [p, tl r])"

text \<open>\<open>strings.Split(s, sep)\<close> for a one-byte separator.\<close>

fun splitOn :: "char \<Rightarrow> string \<Rightarrow> string list" where
  "splitOn sep [] = [[]]"
| "splitOn sep (c # s) =
     (if c = sep then [] # splitOn sep s
      else case splitOn sep s of [] \<Rightarrow> [[c]] | p # ps \<Rightarrow> (c # p) # ps)"

fun joinWith :: "string \<Rightarrow> string list \<Rightarrow> string" where
  "joinWith sep [] = []"
| "joinWith sep [x] = x"
| "joinWith sep (x # y # ys) = x @ sep @ joinWith sep (y # ys)"

definition hasPrefix :: "string \<Rightarrow> string \<Rightarrow> bool" where
  "hasPrefix s p \<longleftrightarrow> take (length p) s = p"

text \<open>Decimal rendering of a number, the \<open>%d\<close> verb of \<open>fmt.Sprintf\<close>.\<close>

definition digit_char :: "nat \<Rightarrow> char" where
  "digit_char d = char_of (48 + d)"

fun show_nat :: "nat \<Rightarrow> string" where
  "show_nat n = (if n < 10 then [digit_char n] else show_nat (n div 10) @ [digit_char (n mod 10)])"

declare show_nat.simps [simp del] splitN2.simps [simp del]

definition show_int :: "int \<Rightarrow> string" where
  "show_int i = (if i < 0 then CHR ''-'' # show_nat (nat (- i)) else show_nat (nat i))"

lemmas [go_string_simps] =
  char_upper_def char_lower_def toUpper_def toLower_def equalFold_def is_space_def
  trimSpace_def is_upper_letter_def is_symbol_char_def hasPrefix_def

lemma char_upper_idem [simp]: "char_upper (char_upper c) = char_upper c"
  by (auto simp: char_upper_def Let_def)

lemma toUpper_idem [simp]: "toUpper (toUpper s) = toUpper s"
  by (simp add: toUpper_def)

lemma toUpper_Nil [simp]: "toUpper [] = []"
  by (simp add: toUpper_def)

lemma toUpper_Nil_iff [simp]: "toUpper s = [] \<longleftrightarrow> s = []"
  by (simp add: toUpper_def)

lemma toUpper_append [simp]: "toUpper (s @ t) = toUpper s @ toUpper t"
  by (simp add: toUpper_def)

lemma toUpper_Cons [simp]: "toUpper (c # s) = char_upper c # toUpper s"
  by (simp add: toUpper_def)

lemma length_toUpper [simp]: "length (toUpper s) = length s"
  by (simp add: toUpper_def)

lemma equalFold_refl [simp]: "equalFold s s"
  by (simp add: equalFold_def)

lemma equalFold_sym: "equalFold s t = equalFold t s"
  by (auto simp: equalFold_def)

lemma equalFold_trans: "equalFold s t \<Longrightarrow> equalFold t u \<Longrightarrow> equalFold s u"
  by (simp add: equalFold_def)

lemma equalFold_toUpper [simp]:
  "equalFold (toUpper s) t = equalFold s t" "equalFold s (toUpper t) = equalFold s t"
  by (simp_all add: equalFold_def)

lemma char_upper_id: "is_upper_letter c \<Longrightarrow> char_upper c = c"
  by (simp add: is_upper_letter_def char_upper_def Let_def)

lemma toUpper_id: "list_all is_upper_letter s \<Longrightarrow> toUpper s = s"
  by (induction s) (simp_all add: char_upper_id)

lemma trimSpace_Nil_iff: "trimSpace s = [] \<longleftrightarrow> list_all is_space s"
  by (auto simp: trimSpace_def dropWhile_eq_Nil_conv list_all_iff
      dest: set_dropWhileD)
     (metis dropWhile_eq_Nil_conv hd_dropWhile list.set_sel(1))

lemma trimSpace_upper: "trimSpace (toUpper s) = [] \<longleftrightarrow> trimSpace s = []"
proof -
  have "is_space (char_upper c) = is_space c" for c
    by (auto simp: is_space_def char_upper_def Let_def)
  then show ?thesis
    by (simp add: trimSpace_Nil_iff toUpper_def list_all_iff)
qed

section \<open>Options and lists\<close>

lemma bind_Some_iff: "(x \<bind> f) = Some y \<longleftrightarrow> (\<exists>a. x = Some a \<and> f a = Some y)"
  by (cases x) auto

text \<open>The same for a computation that may panic or fail: either the error was handled, or the result was used.\<close>

lemma bind_sum_iff:
  "(x \<bind> (\<lambda>r. case r of Inl e \<Rightarrow> f e | Inr a \<Rightarrow> g a)) = Some y
   \<longleftrightarrow> (\<exists>e. x = Some (Inl e) \<and> f e = Some y) \<or> (\<exists>a. x = Some (Inr a) \<and> g a = Some y)"
  by (cases x) (auto split: sum.splits)

lemma case_sum_Some_iff:
  "(case r of Inl e \<Rightarrow> f e | Inr a \<Rightarrow> g a) = Some y
   \<longleftrightarrow> (\<exists>e. r = Inl e \<and> f e = Some y) \<or> (\<exists>a. r = Inr a \<and> g a = Some y)"
  by (cases r) auto

lemma case_option_Some_iff:
  "(case r of None \<Rightarrow> f | Some a \<Rightarrow> g a) = Some y
   \<longleftrightarrow> (r = None \<and> f = Some y) \<or> (\<exists>a. r = Some a \<and> g a = Some y)"
  by (cases r) auto

text \<open>The first element of a list that satisfies a predicate, as a Go \<open>for ... range\<close> loop
  with an early return finds it.\<close>

fun first_index :: "('a \<Rightarrow> bool) \<Rightarrow> 'a list \<Rightarrow> nat option" where
  "first_index P [] = None"
| "first_index P (x # xs) = (if P x then Some 0 else map_option Suc (first_index P xs))"

text \<open>Update of the first matching element, the loop \<open>xs[i] = f(xs[i]); return\<close>.\<close>

fun update_first :: "('a \<Rightarrow> bool) \<Rightarrow> ('a \<Rightarrow> 'a) \<Rightarrow> 'a list \<Rightarrow> 'a list" where
  "update_first P f [] = []"
| "update_first P f (x # xs) = (if P x then f x # xs else x # update_first P f xs)"

text \<open>Removal of the first matching element, \<open>append(xs[:i], xs[i+1:]...)\<close>.\<close>

fun remove_first :: "('a \<Rightarrow> bool) \<Rightarrow> 'a list \<Rightarrow> 'a list" where
  "remove_first P [] = []"
| "remove_first P (x # xs) = (if P x then xs else x # remove_first P xs)"

lemma find_None_list_all: "find P xs = None \<longleftrightarrow> list_all (\<lambda>x. \<not> P x) xs"
  by (auto simp: find_None_iff list_all_iff)

lemma update_first_none: "\<not> list_ex P xs \<Longrightarrow> update_first P f xs = xs"
  by (induction xs) auto

lemma length_update_first [simp]: "length (update_first P f xs) = length xs"
  by (induction xs) auto

lemma map_update_first:
  "(\<And>x. g (f x) = g x) \<Longrightarrow> map g (update_first P f xs) = map g xs"
  by (induction xs) auto

lemma find_update_first_other:
  assumes "\<And>x. P x \<Longrightarrow> \<not> Q x" and "\<And>x. P x \<Longrightarrow> \<not> Q (f x)"
  shows "find Q (update_first P f xs) = find Q xs"
  using assms by (induction xs) auto

lemma find_update_first_same:
  assumes "\<And>x. P x \<Longrightarrow> P (f x)"
  shows "find P (update_first P f xs) = map_option f (find P xs)"
  using assms by (induction xs) auto

lemma length_remove_first:
  "list_ex P xs \<Longrightarrow> Suc (length (remove_first P xs)) = length xs"
  by (induction xs) auto

lemma remove_first_none: "\<not> list_ex P xs \<Longrightarrow> remove_first P xs = xs"
  by (induction xs) auto

lemma set_remove_first_subset: "set (remove_first P xs) \<subseteq> set xs"
  by (induction xs) auto

text \<open>Deletion by index, \<open>append(xs[:i], xs[i+1:]...)\<close>.\<close>

definition delete_at :: "nat \<Rightarrow> 'a list \<Rightarrow> 'a list" where
  "delete_at i xs = take i xs @ drop (Suc i) xs"

text \<open>The index a loop without an early exit keeps: the last match.\<close>

definition last_index :: "('a \<Rightarrow> bool) \<Rightarrow> 'a list \<Rightarrow> nat option" where
  "last_index P xs =
     (case first_index P (rev xs) of None \<Rightarrow> None | Some i \<Rightarrow> Some (length xs - 1 - i))"

lemma delete_at_set: "set (delete_at i xs) \<subseteq> set xs"
  by (auto simp: delete_at_def dest: in_set_takeD in_set_dropD)

lemma first_index_None: "first_index P xs = None \<longleftrightarrow> \<not> list_ex P xs"
  by (induction xs) auto

lemma first_index_Some: "first_index P xs = Some i \<Longrightarrow> i < length xs \<and> P (xs ! i)"
  by (induction xs arbitrary: i) (auto split: if_splits)

lemma last_index_Some: "last_index P xs = Some i \<Longrightarrow> i < length xs \<and> P (xs ! i)"
proof (cases "first_index P (rev xs)")
  case (Some j)
  moreover assume "last_index P xs = Some i"
  ultimately have i: "i = length xs - 1 - j" by (simp add: last_index_def)
  have "j < length xs" "P (rev xs ! j)" using first_index_Some [OF Some] by simp_all
  then show ?thesis using i by (auto simp: rev_nth)
qed (simp add: last_index_def)

lemma last_index_None: "last_index P xs = None \<longleftrightarrow> \<not> list_ex P xs"
  using first_index_None [of P "rev xs"]
  by (cases "first_index P (rev xs)") (auto simp: last_index_def list_ex_iff)

section \<open>Machine integers\<close>

text \<open>The value an \<open>int64\<close> holds after an operation with the exact result \<open>x\<close>.\<close>

definition wrap64 :: "int \<Rightarrow> int" where
  "wrap64 x = (x + 2 ^ 63) mod 2 ^ 64 - 2 ^ 63"

lemma wrap64_id: "- (2 ^ 63) \<le> x \<Longrightarrow> x < 2 ^ 63 \<Longrightarrow> wrap64 x = x"
  by (simp add: wrap64_def)

lemma wrap64_range: "- (2 ^ 63) \<le> wrap64 x \<and> wrap64 x < 2 ^ 63"
proof -
  have "0 \<le> (x + 2 ^ 63) mod 2 ^ 64" "(x + 2 ^ 63) mod 2 ^ 64 < 2 ^ 64" by simp_all
  then show ?thesis by (simp add: wrap64_def)
qed

section \<open>Division rounded down\<close>

lemma div_sum_le:
  fixes a b c :: nat
  shows "a div c + b div c \<le> (a + b) div c"
  by (cases "c = 0") (simp_all add: less_eq_div_iff_mult_less_eq distrib_right add_mono)

lemma div_mult_le_left: "(a div b) * b \<le> (a::nat)"
  by simp

lemma div_less_of_mult: "(a::nat) < b * c \<Longrightarrow> a div c < b"
  by (simp add: less_mult_imp_div_less)

section \<open>Numbers in strings\<close>

text \<open>\<open>strconv.Atoi\<close>, in the range of \<open>int\<close>.\<close>

definition is_digit :: "char \<Rightarrow> bool" where
  "is_digit c \<longleftrightarrow> (let n = (of_char c :: nat) in 48 \<le> n \<and> n \<le> 57)"

definition digits_value :: "string \<Rightarrow> int" where
  "digits_value s = foldl (\<lambda>v c. 10 * v + (int (of_char c) - 48)) 0 s"

definition Atoi :: "string \<Rightarrow> int option" where
  "Atoi s =
     (let (neg, d) = (case s of [] \<Rightarrow> (False, []) | c # r \<Rightarrow>
            if c = CHR ''-'' then (True, r) else if c = CHR ''+'' then (False, r) else (False, s));
          v = (if neg then - digits_value d else digits_value d)
      in if d = [] \<or> \<not> list_all is_digit d \<or> v < - (2 ^ 63) \<or> 2 ^ 63 \<le> v then None else Some v)"

text \<open>\<open>strconv.ParseUint(s, 10, 64)\<close>.\<close>

definition ParseUint64 :: "string \<Rightarrow> nat option" where
  "ParseUint64 s =
     (if s = [] \<or> \<not> list_all is_digit s \<or> 2 ^ 64 \<le> digits_value s then None else Some (nat (digits_value s)))"

lemma show_nat_digits: "list_all is_digit (show_nat n) \<and> show_nat n \<noteq> [] \<and> digits_value (show_nat n) = int n"
proof (induction n rule: show_nat.induct)
  case (1 n)
  have d: "is_digit (digit_char m) \<and> (of_char (digit_char m) :: nat) = 48 + m" if "m < 10" for m
  proof -
    have "48 + m < 256" using that by simp
    then show ?thesis using that by (simp add: is_digit_def digit_char_def Let_def of_char_of take_bit_nat_eq_self)
  qed
  show ?case
  proof (cases "n < 10")
    case True
    then show ?thesis using d [OF True] by (subst (1 2 3) show_nat.simps) (simp add: digits_value_def)
  next
    case False
    have m: "n mod 10 < 10" by simp
    from 1 [OF False] have ih: "list_all is_digit (show_nat (n div 10))"
        "digits_value (show_nat (n div 10)) = int (n div 10)" by simp_all
    show ?thesis
      using False d [OF m] ih
      by (subst (1 2 3) show_nat.simps) (simp add: digits_value_def zdiv_int zmod_int)
  qed
qed

lemma Atoi_show_int:
  assumes "- (2 ^ 63) \<le> i" and "i < 2 ^ 63"
  shows "Atoi (show_int i) = Some i"
proof (cases "i < 0")
  case True
  have "list_all is_digit (show_nat (nat (- i)))" "show_nat (nat (- i)) \<noteq> []" "digits_value (show_nat (nat (- i))) = - i"
    using show_nat_digits [of "nat (- i)"] True by simp_all
  then show ?thesis using True assms by (simp add: Atoi_def show_int_def)
next
  case False
  let ?s = "show_nat (nat i)"
  have s: "list_all is_digit ?s" "?s \<noteq> []" "digits_value ?s = i"
    using show_nat_digits [of "nat i"] False by simp_all
  have nd: "\<not> is_digit (CHR ''-'')" "\<not> is_digit (CHR ''+'')" by code_simp+
  obtain c r where cr: "?s = c # r" using s(2) by (cases ?s) auto
  then have "c \<noteq> CHR ''-''" "c \<noteq> CHR ''+''" using s(1) nd by auto
  then show ?thesis using s assms cr False by (auto simp: Atoi_def show_int_def Let_def)
qed

lemma Atoi_show: "0 \<le> i \<Longrightarrow> i < 2 ^ 63 \<Longrightarrow> Atoi (show_int i) = Some i"
  by (rule Atoi_show_int) simp_all

lemma digits_nonneg: "list_all is_digit s \<Longrightarrow> 0 \<le> digits_value s"
proof (induction s rule: rev_induct)
  case (snoc c s)
  then show ?case by (simp add: digits_value_def is_digit_def Let_def)
qed (simp add: digits_value_def)

lemma ParseUint64_show: "n < 2 ^ 64 \<Longrightarrow> ParseUint64 (show_nat n) = Some n"
  using show_nat_digits [of n] by (simp add: ParseUint64_def)

lemma splitOn_no: "c \<notin> set t \<Longrightarrow> splitOn c t = [t]"
  by (induction t) auto

lemma splitOn_append: "c \<notin> set s \<Longrightarrow> splitOn c (s @ c # t) = s # splitOn c t"
  by (induction s) auto

lemma splitOn_joinWith:
  "ps \<noteq> [] \<Longrightarrow> list_all (\<lambda>p. c \<notin> set p) ps \<Longrightarrow> splitOn c (joinWith [c] ps) = ps"
  by (induction "[c]" ps rule: joinWith.induct) (auto simp: splitOn_no splitOn_append)

lemma digits_no: "list_all is_digit s \<Longrightarrow> \<not> is_digit c \<Longrightarrow> c \<notin> set s"
  by (auto simp: list_all_iff)

lemma splitOn_last:
  assumes "c \<notin> set t"
  shows "last (splitOn c (s @ c # t)) = t"
proof -
  have t: "splitOn c t = [t]" using assms by (induction t) auto
  have ne: "splitOn c u \<noteq> []" for u by (induction u) (auto split: list.splits)
  have "last (splitOn c (s @ c # t)) = t \<and> tl (splitOn c (s @ c # t)) \<noteq> []"
  proof (induction s)
    case Nil
    then show ?case by (simp add: t)
  next
    case (Cons d s)
    then show ?case using ne [of "s @ c # t"]
      by (cases "splitOn c (s @ c # t)") (auto simp: t)
  qed
  then show ?thesis by simp
qed

end
