(* ===== verification/Cosmos_SDK.thy ===== *)
theory Cosmos_SDK
  imports Prelude
begin

text \<open>
  The part of the Cosmos SDK the sources rely on. The SDK is not part of the repository: its
  functions are a parameter of the model, the record \<open>sdk\<close>, which every definition that uses
  them takes as its first argument. What the SDK documents is the locale \<open>cosmos_sdk\<close>:

  \<^item> \<open>sdk.Uint\<close> holds integers from 0 to \<open>2^256 - 1\<close>; its operations panic on
    overflow, underflow and division by zero;
  \<^item> \<open>sdk.ParseUint\<close> reads a \<open>Uint\<close> from its decimal digits (and from other notations, which are
    left open);
  \<^item> \<open>sdk.Dec\<close> is a decimal with 18 fractional digits, represented by its numerator over
    \<open>10^18\<close>; \<open>Quo\<close>, \<open>Mul\<close> and \<open>RoundInt\<close> round to the nearest representable
    value (the tie rule is left open), \<open>TruncateInt\<close> drops the fraction, and values below \<open>2^255\<close> are representable;
  \<^item> \<open>AccAddressFromBech32\<close> reads back what \<open>AccAddress.String\<close> prints for a
    non-empty address;
  \<^item> \<open>pubkey_ok\<close> tells whether a string is a bech32 public key, and \<open>pubkey_acc\<close> gives
    the account address that \<open>PubKey.GetThorAddress\<close> derives from a key (\<open>None\<close> where
    it fails); nothing is assumed of either.

  A \<open>Uint\<close> is represented by the natural number it denotes, an \<open>AccAddress\<close> by its bytes.
\<close>

type_synonym acc_address = string

record sdk =
  uint_add :: "nat \<Rightarrow> nat \<Rightarrow> nat option"
  uint_sub :: "nat \<Rightarrow> nat \<Rightarrow> nat option"
  uint_mul :: "nat \<Rightarrow> nat \<Rightarrow> nat option"
  uint_quo :: "nat \<Rightarrow> nat \<Rightarrow> nat option"
  uint_of_int :: "int \<Rightarrow> nat option"
  uint_parse :: "string \<Rightarrow> nat option"
  dec_from_str :: "nat \<Rightarrow> int option"
  dec_from_bigint :: "nat \<Rightarrow> int"
  dec_add :: "int \<Rightarrow> int \<Rightarrow> int option"
  dec_mul :: "int \<Rightarrow> int \<Rightarrow> int option"
  dec_quo :: "int \<Rightarrow> int \<Rightarrow> int option"
  dec_round :: "int \<Rightarrow> int option"
  dec_trunc :: "int \<Rightarrow> int option"
  acc_string :: "acc_address \<Rightarrow> string"
  acc_from_bech32 :: "string \<Rightarrow> acc_address option"
  pubkey_ok :: "string \<Rightarrow> bool"
  pubkey_acc :: "string \<Rightarrow> acc_address option"

definition dec_one :: int where
  "dec_one = 10 ^ 18"

locale cosmos_sdk =
  fixes S :: sdk
  assumes uint_add: "uint_add S a b = (if a + b < 2 ^ 256 then Some (a + b) else None)"
    and uint_sub: "uint_sub S a b = (if b \<le> a then Some (a - b) else None)"
    and uint_mul: "uint_mul S a b = (if a * b < 2 ^ 256 then Some (a * b) else None)"
    and uint_quo: "uint_quo S a b = (if b = 0 then None else Some (a div b))"
    and uint_of_int:
      "uint_of_int S i = (if 0 \<le> i \<and> i < 2 ^ 256 then Some (nat i) else None)"
    and uint_parse_decimal: "n < 2 ^ 256 \<Longrightarrow> uint_parse S (show_nat n) = Some n"
    and uint_parse_range: "uint_parse S s = Some n \<Longrightarrow> n < 2 ^ 256"
    and dec_from_str: "dec_from_str S n = Some x \<Longrightarrow> x = int n * dec_one"
    and dec_from_str_defined: "n < 2 ^ 255 \<Longrightarrow> dec_from_str S n \<noteq> None"
    and dec_from_bigint: "dec_from_bigint S n = int n * dec_one"
    and dec_add: "\<bar>x + y\<bar> < 2 ^ 255 * dec_one \<Longrightarrow> dec_add S x y = Some (x + y)"
    and dec_add_exact: "dec_add S x y = Some z \<Longrightarrow> z = x + y"
    and dec_mul_near:
      "dec_mul S x y = Some q \<Longrightarrow> 2 * \<bar>q * dec_one - x * y\<bar> \<le> dec_one"
    and dec_mul_defined:
      "\<bar>x * y\<bar> < 2 ^ 255 * dec_one * dec_one \<Longrightarrow> dec_mul S x y \<noteq> None"
    and dec_quo_near:
      "dec_quo S x y = Some q \<Longrightarrow> y \<noteq> 0 \<and> 2 * \<bar>q * y - x * dec_one\<bar> \<le> \<bar>y\<bar>"
    and dec_quo_defined:
      "y \<noteq> 0 \<Longrightarrow> \<bar>x\<bar> < 2 ^ 255 * \<bar>y\<bar> \<Longrightarrow> dec_quo S x y \<noteq> None"
    and dec_round_near: "dec_round S x = Some q \<Longrightarrow> 2 * \<bar>q * dec_one - x\<bar> \<le> dec_one"
    and dec_round_defined: "\<bar>x\<bar> < 2 ^ 254 * dec_one \<Longrightarrow> dec_round S x \<noteq> None"
    and dec_trunc_floor: "0 \<le> x \<Longrightarrow> dec_trunc S x = Some q \<Longrightarrow> q = x div dec_one"
    and dec_trunc_defined: "\<bar>x\<bar> < 2 ^ 254 * dec_one \<Longrightarrow> dec_trunc S x \<noteq> None"
    and acc_roundtrip: "addr \<noteq> [] \<Longrightarrow> acc_from_bech32 S (acc_string S addr) = Some addr"

text \<open>
  One implementation that keeps these promises, with ties rounded to the even neighbour and
  addresses printed as they are. The witnesses of the development run on it.
\<close>

definition round_div :: "int \<Rightarrow> int \<Rightarrow> int" where
  "round_div a b =
     (let n = sgn b * a; d = \<bar>b\<bar>; q = n div d; r = n mod d
      in if 2 * r < d \<or> (2 * r = d \<and> even q) then q else q + 1)"

definition sdk256 :: sdk where
  "sdk256 =
     \<lparr>uint_add = \<lambda>a b. if a + b < 2 ^ 256 then Some (a + b) else None,
      uint_sub = \<lambda>a b. if b \<le> a then Some (a - b) else None,
      uint_mul = \<lambda>a b. if a * b < 2 ^ 256 then Some (a * b) else None,
      uint_quo = \<lambda>a b. if b = 0 then None else Some (a div b),
      uint_of_int = \<lambda>i. if 0 \<le> i \<and> i < 2 ^ 256 then Some (nat i) else None,
      uint_parse = \<lambda>s. if s \<noteq> [] \<and> list_all is_digit s \<and> digits_value s < 2 ^ 256
                then Some (nat (digits_value s)) else None,
      dec_from_str = \<lambda>n. if n < 2 ^ 255 then Some (int n * dec_one) else None,
      dec_from_bigint = \<lambda>n. int n * dec_one,
      dec_add = \<lambda>a b. if \<bar>a + b\<bar> < 2 ^ 255 * dec_one then Some (a + b) else None,
      dec_mul = \<lambda>a b. if \<bar>a * b\<bar> < 2 ^ 255 * dec_one * dec_one
                then Some (round_div (a * b) dec_one) else None,
      dec_quo = \<lambda>a b. if b \<noteq> 0 \<and> \<bar>a\<bar> < 2 ^ 255 * \<bar>b\<bar>
                then Some (round_div (a * dec_one) b) else None,
      dec_round = \<lambda>a. if \<bar>a\<bar> < 2 ^ 254 * dec_one then Some (round_div a dec_one) else None,
      dec_trunc = \<lambda>a. if \<bar>a\<bar> < 2 ^ 254 * dec_one then Some (sgn a * (\<bar>a\<bar> div dec_one)) else None,
      acc_string = \<lambda>a. a,
      acc_from_bech32 = \<lambda>s. if s = [] then None else Some s,
      pubkey_ok = \<lambda>s. take 3 s = ''pub'',
      pubkey_acc = \<lambda>s. if s = [] then None else Some (drop 3 s)\<rparr>"

lemma dec_one_pos [simp]: "0 < dec_one" "dec_one \<noteq> 0" "\<bar>dec_one\<bar> = dec_one"
  by (simp_all add: dec_one_def)

lemma round_div_near:
  assumes "b \<noteq> 0"
  shows "2 * \<bar>round_div a b * b - a\<bar> \<le> \<bar>b\<bar>"
proof -
  define n d where "n = sgn b * a" and "d = \<bar>b\<bar>"
  have d: "0 < d" using assms by (simp add: d_def)
  define q r where "q = n div d" and "r = n mod d"
  have n: "n = q * d + r" and r: "0 \<le> r" "r < d"
    using d by (simp_all add: q_def r_def)
  define k where "k = round_div a b"
  have k: "k = (if 2 * r < d \<or> (2 * r = d \<and> even q) then q else q + 1)"
    by (simp add: k_def round_div_def Let_def n_def d_def q_def r_def)
  have "\<bar>k * b - a\<bar> = \<bar>k * d - n\<bar>"
    using assms by (cases "0 < b") (auto simp: n_def d_def sgn_if abs_if)
  also have "2 * \<dots> \<le> d"
    using k n r by (auto simp: algebra_simps split: if_splits)
  finally show ?thesis by (simp add: k_def d_def)
qed

interpretation sdk256: cosmos_sdk sdk256
proof unfold_locales
  show "dec_mul sdk256 a b = Some q \<Longrightarrow> 2 * \<bar>q * dec_one - a * b\<bar> \<le> dec_one" for a b q
    using round_div_near [of dec_one "a * b"] by (auto simp: sdk256_def split: if_splits)
  show "dec_quo sdk256 a b = Some q \<Longrightarrow> b \<noteq> 0 \<and> 2 * \<bar>q * b - a * dec_one\<bar> \<le> \<bar>b\<bar>" for a b q
    using round_div_near [of b "a * dec_one"] by (auto simp: sdk256_def split: if_splits)
  show "dec_round sdk256 a = Some n \<Longrightarrow> 2 * \<bar>n * dec_one - a\<bar> \<le> dec_one" for a n
    using round_div_near [of dec_one a] by (auto simp: sdk256_def split: if_splits)
  show "uint_parse sdk256 (show_nat n) = Some n" if "n < 2 ^ 256" for n
    using that show_nat_digits [of n] by (simp add: sdk256_def)
  show "n < 2 ^ 256" if "uint_parse sdk256 s = Some n" for s n
    using that by (auto simp: sdk256_def nat_less_iff digits_nonneg split: if_splits)
qed (auto simp: sdk256_def sgn_if split: if_splits)

context cosmos_sdk
begin

lemmas uint_laws = uint_add uint_sub uint_mul uint_quo uint_of_int

lemma uint_add_Some: "uint_add S a b = Some c \<longleftrightarrow> c = a + b \<and> a + b < 2 ^ 256"
  by (auto simp: uint_add)

lemma uint_sub_Some: "uint_sub S a b = Some c \<longleftrightarrow> c = a - b \<and> b \<le> a"
  by (auto simp: uint_sub)

lemma uint_mul_Some: "uint_mul S a b = Some c \<longleftrightarrow> c = a * b \<and> a * b < 2 ^ 256"
  by (auto simp: uint_mul)

lemma uint_quo_Some: "uint_quo S a b = Some c \<longleftrightarrow> c = a div b \<and> b \<noteq> 0"
  by (auto simp: uint_quo)

lemmas uint_Some = uint_add_Some uint_sub_Some uint_mul_Some uint_quo_Some

end

end
