(* ===== verification/Common_Math.thy ===== *)
theory Common_Math
  imports Cosmos_SDK
begin

text \<open>
  The arithmetic helpers of \<open>common/type_convert.go\<close> and \<open>common/cosmos/cosmos.go\<close>:
  \<open>SafeSub\<close>, \<open>GetSafeShare\<close>, \<open>GetUncappedShare\<close> and \<open>RoundToDecimal\<close>. Every amount
  the node splits goes through them. The deferred \<open>recover\<close> of \<open>GetUncappedShare\<close> turns
  each panic of its body into the share 0, so that function is total.
\<close>

definition One :: nat where
  "One = 100000000"

definition SafeSub :: "sdk \<Rightarrow> nat \<Rightarrow> nat \<Rightarrow> nat option" where
  "SafeSub S input1 input2 =
     (if input2 > input1 then Some 0 else uint_sub S input1 input2)"

definition GetUncappedShare :: "sdk \<Rightarrow> nat \<Rightarrow> nat \<Rightarrow> nat \<Rightarrow> nat" where
  "GetUncappedShare S part tot allocation =
     (if part = 0 \<or> tot = 0 then 0
      else case
        do {
          aD \<leftarrow> dec_from_str S allocation;
          pD \<leftarrow> dec_from_str S part;
          tD \<leftarrow> dec_from_str S tot;
          q \<leftarrow> dec_quo S tD pD;
          result \<leftarrow> dec_quo S aD q;
          r \<leftarrow> dec_round S result;
          uint_of_int S r
        } of None \<Rightarrow> 0 | Some share \<Rightarrow> share)"

definition GetSafeShare :: "sdk \<Rightarrow> nat \<Rightarrow> nat \<Rightarrow> nat \<Rightarrow> nat" where
  "GetSafeShare S part tot allocation =
     GetUncappedShare S (if part \<ge> tot then tot else part) tot allocation"

definition DefaultCoinDecimals :: int where
  "DefaultCoinDecimals = 8"

definition RoundToDecimal :: "sdk \<Rightarrow> nat \<Rightarrow> int \<Rightarrow> nat option" where
  "RoundToDecimal S amt dec =
     (if dec \<noteq> 0 \<and> dec < DefaultCoinDecimals then
        let prec = DefaultCoinDecimals - dec in
        if prec = 0 then Some amt
        else do {
          precisionAdjust \<leftarrow> uint_of_int S (10 ^ nat prec);
          q \<leftarrow> uint_quo S amt precisionAdjust;
          uint_mul S q precisionAdjust
        }
      else Some amt)"

section \<open>Nearest quotients\<close>

lemma nearest_le:
  fixes q b n c :: int
  assumes "2 * \<bar>q * b - n\<bar> \<le> b" and "0 < b" and "n \<le> c * b"
  shows "q \<le> c"
proof (rule ccontr)
  assume "\<not> q \<le> c"
  then have "(c + 1) * b \<le> q * b" using assms(2) by (intro mult_right_mono) auto
  with assms show False by (simp add: distrib_right)
qed

lemma nearest_ge:
  fixes q b n c :: int
  assumes "2 * \<bar>q * b - n\<bar> \<le> b" and "0 < b" and "c * b \<le> n"
  shows "c \<le> q"
proof (rule ccontr)
  assume "\<not> c \<le> q"
  then have "q * b \<le> (c - 1) * b" using assms(2) by (intro mult_right_mono) auto
  with assms show False by (simp add: left_diff_distrib)
qed

lemma nearest_cancel:
  fixes q p t u :: int
  assumes "2 * \<bar>q * (p * u) - t * u * u\<bar> \<le> \<bar>p * u\<bar>" and "0 < u" and "0 < p"
  shows "2 * \<bar>q * p - t * u\<bar> \<le> p"
proof -
  have "q * (p * u) - t * u * u = (q * p - t * u) * u" by (simp add: algebra_simps)
  then have "(2 * \<bar>q * p - t * u\<bar>) * u \<le> p * u" using assms by (simp add: abs_mult)
  then show ?thesis using assms(2) by (rule mult_right_le_imp_le)
qed

text \<open>The three roundings of \<open>GetUncappedShare\<close> leave an error of less than one unit.\<close>

lemma share_error:
  fixes n r q t p A u :: int
  assumes e1: "2 * \<bar>q * p - t * u\<bar> \<le> p" and e2: "2 * \<bar>r * q - A * u * u\<bar> \<le> q"
    and e3: "2 * \<bar>n * u - r\<bar> \<le> u"
    and p: "0 < p" "p \<le> t" and n: "0 \<le> n" "n \<le> A" and A: "2 * A \<le> u" and u: "4 \<le> u"
    and q: "0 < q"
  shows "\<bar>n * t - A * p\<bar> \<le> t"
proof -
  define x1 x2 x3 where "x1 = q * p - t * u" and "x2 = r * q - A * u * u" and "x3 = n * u - r"
  have "u * u * (n * t - A * p) = x2 * p + x3 * (q * p) - n * u * x1"
    unfolding x1_def x2_def x3_def by (simp add: algebra_simps)
  then have "u * u * \<bar>n * t - A * p\<bar> = \<bar>x2 * p + x3 * (q * p) - n * u * x1\<bar>"
    by (metis abs_mult abs_of_nonneg zero_le_square)
  also have "\<dots> \<le> \<bar>x2\<bar> * p + \<bar>x3\<bar> * (q * p) + n * u * \<bar>x1\<bar>"
  proof -
    have "\<bar>x2 * p\<bar> = \<bar>x2\<bar> * p" "\<bar>x3 * (q * p)\<bar> = \<bar>x3\<bar> * (q * p)" "\<bar>n * u * x1\<bar> = n * u * \<bar>x1\<bar>"
      using p q n u by (simp_all add: abs_mult)
    then show ?thesis by linarith
  qed
  finally have "2 * (u * u * \<bar>n * t - A * p\<bar>)
      \<le> (2 * \<bar>x2\<bar>) * p + (2 * \<bar>x3\<bar>) * (q * p) + n * u * (2 * \<bar>x1\<bar>)" by simp
  also have "\<dots> \<le> q * p + u * (q * p) + n * u * p"
  proof (intro add_mono)
    show "2 * \<bar>x2\<bar> * p \<le> q * p" using e2 p by (intro mult_right_mono) (auto simp: x2_def)
    show "2 * \<bar>x3\<bar> * (q * p) \<le> u * (q * p)"
      using e3 p q by (intro mult_right_mono) (auto simp: x3_def)
    show "n * u * (2 * \<bar>x1\<bar>) \<le> n * u * p"
      using e1 n u by (intro mult_left_mono) (auto simp: x1_def)
  qed
  finally have *: "2 * (u * u * \<bar>n * t - A * p\<bar>) \<le> (1 + u) * (q * p) + n * u * p"
    by (simp add: algebra_simps)
  have "q * p - t * u \<le> \<bar>q * p - t * u\<bar>" by simp
  then have "2 * (q * p) \<le> 2 * t * u + t" using e1 p(2) by (simp add: mult.assoc)
  then have "(1 + u) * (2 * (q * p)) \<le> (1 + u) * (2 * t * u + t)"
    using u by (intro mult_left_mono) auto
  moreover have "2 * (n * u * p) \<le> u * u * t"
  proof -
    have "(2 * n) * (u * p) \<le> u * (u * t)" using n A p u by (intro mult_mono) auto
    then show ?thesis by (simp add: mult.assoc mult.left_commute)
  qed
  ultimately have "4 * (u * u * \<bar>n * t - A * p\<bar>) \<le> (1 + u) * (2 * t * u + t) + u * u * t"
    using * by (simp add: algebra_simps)
  also have "\<dots> \<le> 4 * (u * u * t)"
  proof -
    have "(3 * u + 1) * t \<le> (u * u) * t"
    proof (rule mult_right_mono)
      have "4 * u \<le> u * u" using u by (intro mult_right_mono) auto
      then show "3 * u + 1 \<le> u * u" using u by linarith
    qed (use p in simp)
    then show ?thesis by (simp add: algebra_simps)
  qed
  finally show ?thesis using u by simp
qed

context cosmos_sdk
begin

lemma SafeSub_eq: "SafeSub S a b = Some (a - b)"
  by (simp add: SafeSub_def uint_sub)

lemma share_zero [simp]: "GetUncappedShare S 0 tot A = 0" "GetUncappedShare S part 0 A = 0"
  by (simp_all add: GetUncappedShare_def)

text \<open>The intermediate results of a share that did not panic.\<close>

lemma share_steps:
  assumes "part \<noteq> 0" and "tot \<noteq> 0" and "GetUncappedShare S part tot A \<noteq> 0"
  obtains q r where "0 < int part" "q \<noteq> 0"
    "2 * \<bar>q * int part - int tot * dec_one\<bar> \<le> int part"
    "2 * \<bar>r * q - int A * dec_one * dec_one\<bar> \<le> \<bar>q\<bar>"
    "2 * \<bar>int (GetUncappedShare S part tot A) * dec_one - r\<bar> \<le> dec_one"
proof -
  from assms obtain q r n where q: "dec_quo S (int tot * dec_one) (int part * dec_one) = Some q"
    and r: "dec_quo S (int A * dec_one) q = Some r" and n: "dec_round S r = Some n"
    and s: "uint_of_int S n = Some (GetUncappedShare S part tot A)"
    by (auto simp: GetUncappedShare_def bind_Some_iff split: option.splits if_splits dest!: dec_from_str)
  have "2 * \<bar>q * int part - int tot * dec_one\<bar> \<le> int part"
    by (rule nearest_cancel [OF conjunct2 [OF dec_quo_near [OF q]] dec_one_pos(1)])
       (use assms(1) in simp)
  moreover have "n = int (GetUncappedShare S part tot A)"
    using s by (auto simp: uint_of_int split: if_splits)
  ultimately show ?thesis
    using that [of q r] dec_quo_near [OF r] dec_round_near [OF n] assms(1) by auto
qed

lemma share_le:
  assumes "part \<le> tot"
  shows "GetUncappedShare S part tot A \<le> A"
proof (cases "part = 0 \<or> tot = 0 \<or> GetUncappedShare S part tot A = 0")
  case False
  then obtain q r where p: "0 < int part" and q0: "q \<noteq> 0"
    and q: "2 * \<bar>q * int part - int tot * dec_one\<bar> \<le> int part"
    and r: "2 * \<bar>r * q - int A * dec_one * dec_one\<bar> \<le> \<bar>q\<bar>"
    and n: "2 * \<bar>int (GetUncappedShare S part tot A) * dec_one - r\<bar> \<le> dec_one"
    using share_steps by metis
  have "dec_one \<le> q"
    using nearest_ge [OF q p] assms by (simp add: mult.commute mult_left_mono)
  then have "int A * dec_one * dec_one \<le> int A * dec_one * q"
    by (intro mult_left_mono) (simp_all add: less_imp_le)
  moreover have "0 < q" using \<open>dec_one \<le> q\<close> dec_one_pos(1) by linarith
  ultimately have "r \<le> int A * dec_one"
    using nearest_le [of r q "int A * dec_one * dec_one" "int A * dec_one"] r by simp
  then have "int (GetUncappedShare S part tot A) \<le> int A"
    by (rule nearest_le [OF n dec_one_pos(1)])
  then show ?thesis by simp
qed auto

lemma share_defined:
  assumes "0 < part" "part \<le> tot" "tot < 2 ^ 255" "A < 2 ^ 254"
  obtains q r n where "0 < q" "0 \<le> n" "n \<le> int A" "GetUncappedShare S part tot A = nat n"
    "2 * \<bar>q * int part - int tot * dec_one\<bar> \<le> int part"
    "2 * \<bar>r * q - int A * dec_one * dec_one\<bar> \<le> q"
    "2 * \<bar>n * dec_one - r\<bar> \<le> dec_one"
proof -
  let ?p = "int part" and ?t = "int tot" and ?A = "int A"
  have p: "0 < ?p" "?p \<le> ?t" "?t < 2 ^ 255" and A: "?A < 2 ^ 254"
    using assms by (simp_all add: nat_less_iff [symmetric] flip: of_nat_less_iff)
  have D: "dec_from_str S part = Some (?p * dec_one)" "dec_from_str S tot = Some (?t * dec_one)"
    "dec_from_str S A = Some (?A * dec_one)"
    using dec_from_str_defined [of part] dec_from_str_defined [of tot] dec_from_str_defined [of A]
      assms by (auto dest: dec_from_str)
  have "\<bar>?t * dec_one\<bar> < 2 ^ 255 * \<bar>?p * dec_one\<bar>"
  proof -
    have "?t * dec_one < 2 ^ 255 * dec_one" using p by simp
    also have "\<dots> \<le> 2 ^ 255 * (?p * dec_one)" using p by simp
    finally show ?thesis by (simp add: abs_mult)
  qed
  then obtain q where q: "dec_quo S (?t * dec_one) (?p * dec_one) = Some q"
    using dec_quo_defined p by fastforce
  have q1: "2 * \<bar>q * ?p - ?t * dec_one\<bar> \<le> ?p"
    by (rule nearest_cancel [OF conjunct2 [OF dec_quo_near [OF q]] dec_one_pos(1) p(1)])
  have qd: "dec_one \<le> q" using nearest_ge [OF q1 p(1)] p by (simp add: mult.commute mult_left_mono)
  then have q0: "0 < q" using dec_one_pos(1) by linarith
  have "\<bar>?A * dec_one\<bar> < 2 ^ 255 * \<bar>q\<bar>"
  proof -
    have "?A * dec_one < 2 ^ 255 * dec_one" using A by simp
    also have "\<dots> \<le> 2 ^ 255 * q" using qd by simp
    finally show ?thesis using q0 by (simp add: abs_mult)
  qed
  then obtain r where r: "dec_quo S (?A * dec_one) q = Some r"
    using dec_quo_defined q0 by fastforce
  have r1: "2 * \<bar>r * q - ?A * dec_one * dec_one\<bar> \<le> q" using dec_quo_near [OF r] q0 by simp
  have "?A * dec_one * dec_one \<le> ?A * dec_one * q"
    using qd by (intro mult_left_mono) (simp_all add: less_imp_le)
  then have r2: "0 \<le> r" "r \<le> ?A * dec_one"
    using nearest_ge [OF r1 q0, of 0] nearest_le [OF r1 q0, of "?A * dec_one"]
    by (simp_all add: zero_le_mult_iff less_imp_le)
  have "?A * dec_one < 2 ^ 254 * dec_one" using A by simp
  then have "\<bar>r\<bar> < 2 ^ 254 * dec_one" using r2 by linarith
  then obtain n where n: "dec_round S r = Some n" using dec_round_defined by fastforce
  have n1: "2 * \<bar>n * dec_one - r\<bar> \<le> dec_one" using dec_round_near [OF n] .
  have n2: "0 \<le> n" "n \<le> ?A"
    using nearest_ge [OF n1 dec_one_pos(1), of 0] nearest_le [OF n1 dec_one_pos(1), of ?A] r2 by simp_all
  have "uint_of_int S n = Some (nat n)" using n2 A by (simp add: uint_of_int)
  then have "GetUncappedShare S part tot A = nat n"
    using assms D q r n by (simp add: GetUncappedShare_def)
  with that q0 n2 q1 r1 n1 show ?thesis by blast
qed

lemma share_accuracy:
  assumes "0 < part" "part \<le> tot" "tot < 2 ^ 255" "2 * A \<le> 10 ^ 18"
  shows "\<bar>int (GetUncappedShare S part tot A) * int tot - int A * int part\<bar> \<le> int tot"
proof -
  have "A < 2 ^ 254" using assms(4) by simp
  with assms obtain q r n where *: "0 < q" "0 \<le> n" "n \<le> int A"
      "GetUncappedShare S part tot A = nat n"
      "2 * \<bar>q * int part - int tot * dec_one\<bar> \<le> int part"
      "2 * \<bar>r * q - int A * dec_one * dec_one\<bar> \<le> q" "2 * \<bar>n * dec_one - r\<bar> \<le> dec_one"
    using share_defined by metis
  have "\<bar>n * int tot - int A * int part\<bar> \<le> int tot"
    using assms * by (intro share_error [of q _ _ dec_one r]) (simp_all add: dec_one_def)
  with * show ?thesis by simp
qed

lemma RoundToDecimal_cases:
  assumes "0 \<le> dec" and "amt < 2 ^ 256"
  shows "RoundToDecimal S amt dec =
    Some (if 0 < dec \<and> dec < 8 then amt - amt mod 10 ^ nat (8 - dec) else amt)"
proof (cases "0 < dec \<and> dec < 8")
  case True
  define k where "k = nat (8 - dec)"
  have k: "(10::nat) ^ k \<le> 10 ^ 7" using True by (intro power_increasing) (auto simp: k_def)
  have i: "(10::int) ^ k = int (10 ^ k)" by simp
  have "uint_of_int S (10 ^ k) = Some (10 ^ k)"
    unfolding i uint_of_int using k by (simp add: nat_int del: of_nat_power flip: of_nat_less_iff)
  moreover have "amt div 10 ^ k * 10 ^ k < 2 ^ 256"
    using assms(2) div_times_less_eq_dividend order_le_less_trans by blast
  moreover have "amt div 10 ^ k * 10 ^ k = amt - amt mod 10 ^ k"
    by (simp add: minus_mod_eq_div_mult)
  ultimately show ?thesis
    using True by (simp add: RoundToDecimal_def DefaultCoinDecimals_def Let_def k_def
        uint_quo uint_mul)
qed (use assms in \<open>auto simp: RoundToDecimal_def DefaultCoinDecimals_def\<close>)

end

section \<open>Properties\<close>

text \<open>A safe share never exceeds the allocation, whatever the part is.\<close>

lemma GetSafeShare_le_allocation:
  assumes "cosmos_sdk S"
  shows "GetSafeShare S part tot allocation \<le> allocation"
  using cosmos_sdk.share_le [OF assms] by (simp add: GetSafeShare_def)



text \<open>\<open>RoundToDecimal\<close> cuts an amount with 8 decimals down to \<open>dec\<close> of them: the
  result is the largest multiple of \<open>10^(8 - dec)\<close> that is not above the amount, and it never
  panics.\<close>

lemma RoundToDecimal_floor:
  assumes "cosmos_sdk S" and "0 < dec" and "dec < 8" and "amt < 2 ^ 256"
  shows "\<exists>r. RoundToDecimal S amt dec = Some r \<and> r \<le> amt \<and> amt - r < 10 ^ nat (8 - dec)
    \<and> 10 ^ nat (8 - dec) dvd r"
  using cosmos_sdk.RoundToDecimal_cases [OF assms(1), of dec amt] assms(2-)
  by (simp add: dvd_minus_mod)

end
