(* ===== verification/Assets.thy ===== *)
theory Assets
  imports Common_Math
begin

text \<open>
  Chains, tickers, symbols and assets (\<open>common/chain.go\<close>, \<open>common/ticker.go\<close>,
  \<open>common/symbol.go\<close>, \<open>common/asset.go\<close>). Go's \<open>Chain\<close>, \<open>Ticker\<close> and
  \<open>Symbol\<close> are string types, so they are strings here; a method \<open>T.M\<close> is \<open>T_M\<close>. A Go
  function that returns a value and an error is a sum, \<open>Inl\<close> the error.
\<close>

type_synonym chain = string
type_synonym symbol = string
type_synonym ticker = string

record Asset =
  Asset_Chain :: chain
  Asset_Symbol :: symbol
  Asset_Ticker :: ticker
  Asset_Synth :: bool

section \<open>Chains\<close>

definition EmptyChain :: chain where "EmptyChain = ''''"
definition BNBChain :: chain where "BNBChain = ''BNB''"
definition ETHChain :: chain where "ETHChain = ''ETH''"
definition BTCChain :: chain where "BTCChain = ''BTC''"
definition LTCChain :: chain where "LTCChain = ''LTC''"
definition BCHChain :: chain where "BCHChain = ''BCH''"
definition DASHChain :: chain where "DASHChain = ''DASH''"
definition DOGEChain :: chain where "DOGEChain = ''DOGE''"
definition BASEChain :: chain where "BASEChain = ''MAYA''"
definition AZTECChain :: chain where "AZTECChain = ''AZTEC''"
definition THORChain :: chain where "THORChain = ''THOR''"
definition GAIAChain :: chain where "GAIAChain = ''GAIA''"
definition AVAXChain :: chain where "AVAXChain = ''AVAX''"
definition KUJIChain :: chain where "KUJIChain = ''KUJI''"

lemmas chain_defs =
  EmptyChain_def BNBChain_def ETHChain_def BTCChain_def LTCChain_def BCHChain_def DASHChain_def
  DOGEChain_def BASEChain_def AZTECChain_def THORChain_def GAIAChain_def AVAXChain_def KUJIChain_def

definition Chain_Validate :: "chain \<Rightarrow> check" where
  "Chain_Validate c =
     (if length c < 3 then fails ''chain id len is less than 3''
      else if length c > 10 then fails ''chain id len is more than 10''
      else if list_ex (\<lambda>ch. \<not> is_upper_letter ch) c
        then fails ''chain id can consist only of uppercase letters''
      else None)"

definition NewChain :: "string \<Rightarrow> go_error + chain" where
  "NewChain chainID =
     (let chain = toUpper chainID in
      case Chain_Validate chain of Some e \<Rightarrow> Inl e | None \<Rightarrow> Inr chain)"

definition Chain_String :: "chain \<Rightarrow> string" where
  "Chain_String c = toUpper c"

definition Chain_Equals :: "chain \<Rightarrow> chain \<Rightarrow> bool" where
  "Chain_Equals c c2 \<longleftrightarrow> equalFold (Chain_String c) (Chain_String c2)"

definition Chain_IsBASEChain :: "chain \<Rightarrow> bool" where
  "Chain_IsBASEChain c \<longleftrightarrow> Chain_Equals c BASEChain"

definition GetEVMChains :: "chain list" where
  "GetEVMChains = [ETHChain, AVAXChain]"

definition Chain_IsEVM :: "chain \<Rightarrow> bool" where
  "Chain_IsEVM c \<longleftrightarrow> list_ex (Chain_Equals c) GetEVMChains"

definition Chain_IsEmpty :: "chain \<Rightarrow> bool" where
  "Chain_IsEmpty c \<longleftrightarrow> trimSpace (Chain_String c) = ''''"

definition Chain_IsBNB :: "chain \<Rightarrow> bool" where
  "Chain_IsBNB c \<longleftrightarrow> Chain_Equals c BNBChain"

definition Chains_Has :: "chain list \<Rightarrow> chain \<Rightarrow> bool" where
  "Chains_Has cs c \<longleftrightarrow> list_ex (\<lambda>ch. Chain_Equals ch c) cs"

fun Chains_Distinct_loop :: "chain list \<Rightarrow> chain list \<Rightarrow> chain list" where
  "Chains_Distinct_loop newChains [] = newChains"
| "Chains_Distinct_loop newChains (chain # cs) =
     (if \<not> Chains_Has newChains chain then Chains_Distinct_loop (newChains @ [chain]) cs
      else Chains_Distinct_loop newChains cs)"

definition Chains_Distinct :: "chain list \<Rightarrow> chain list" where
  "Chains_Distinct cs = Chains_Distinct_loop [] cs"

text \<open>The chains a list of names parses to; the names that do not parse are skipped.\<close>

definition parse_chains :: "string list \<Rightarrow> chain list" where
  "parse_chains raw = List.map_filter (\<lambda>c. case NewChain c of Inl _ \<Rightarrow> None | Inr x \<Rightarrow> Some x) raw"

section \<open>Symbols and tickers\<close>

definition NewSymbol :: "string \<Rightarrow> go_error + symbol" where
  "NewSymbol input =
     (if input = [] \<or> \<not> list_all is_symbol_char input then Inl (GoError ''invalid symbol'')
      else Inr (toUpper input))"

definition Symbol_String :: "symbol \<Rightarrow> string" where
  "Symbol_String s = toUpper s"

definition Symbol_Equals :: "symbol \<Rightarrow> symbol \<Rightarrow> bool" where
  "Symbol_Equals s s2 \<longleftrightarrow> equalFold (Symbol_String s) (Symbol_String s2)"

definition Symbol_IsEmpty :: "symbol \<Rightarrow> bool" where
  "Symbol_IsEmpty s \<longleftrightarrow> trimSpace (Symbol_String s) = ''''"

definition NewTicker :: "string \<Rightarrow> go_error + ticker" where
  "NewTicker ticker =
     (if length ticker = 0 then Inl (GoError ''ticker error: empty ticker'')
      else if length ticker > 13 then Inl (GoError ''ticker error: too many characters'')
      else if CHR ''/'' \<in> set ticker then Inl (GoError ''ticker error: cannot contain a /'')
      else Inr (toUpper ticker))"

definition Ticker_String :: "ticker \<Rightarrow> string" where
  "Ticker_String t = toUpper t"

definition Ticker_Equals :: "ticker \<Rightarrow> ticker \<Rightarrow> bool" where
  "Ticker_Equals t t2 \<longleftrightarrow> equalFold (Ticker_String t) (Ticker_String t2)"

definition Ticker_IsEmpty :: "ticker \<Rightarrow> bool" where
  "Ticker_IsEmpty t \<longleftrightarrow> trimSpace (Ticker_String t) = ''''"

definition Symbol_Ticker :: "symbol \<Rightarrow> ticker" where
  "Symbol_Ticker s =
     (case NewTicker (hd (splitOn CHR ''-'' (Symbol_String s))) of Inl _ \<Rightarrow> '''' | Inr t \<Rightarrow> t)"

definition Symbol_IsMiniToken :: "symbol \<Rightarrow> bool" where
  "Symbol_IsMiniToken s =
     (let parts = splitOn CHR ''-'' (Symbol_String s) in
      if length parts = 1 then False
      else length (parts ! 1) = 4 \<and> (Symbol_String s \<noteq> [] \<and> last (Symbol_String s) = CHR ''M''))"

section \<open>Assets\<close>

definition mk_asset :: "chain \<Rightarrow> symbol \<Rightarrow> ticker \<Rightarrow> bool \<Rightarrow> Asset" where
  "mk_asset c s t y = \<lparr>Asset_Chain = c, Asset_Symbol = s, Asset_Ticker = t, Asset_Synth = y\<rparr>"

definition EmptyAsset :: Asset where "EmptyAsset = mk_asset EmptyChain '''' '''' False"
definition RUNEAsset :: Asset where "RUNEAsset = mk_asset THORChain ''RUNE'' ''RUNE'' False"
definition ATOMAsset :: Asset where "ATOMAsset = mk_asset GAIAChain ''ATOM'' ''ATOM'' False"
definition KUJIAsset :: Asset where "KUJIAsset = mk_asset KUJIChain ''KUJI'' ''KUJI'' False"
definition BNBAsset :: Asset where "BNBAsset = mk_asset BNBChain ''BNB'' ''BNB'' False"
definition BTCAsset :: Asset where "BTCAsset = mk_asset BTCChain ''BTC'' ''BTC'' False"
definition LTCAsset :: Asset where "LTCAsset = mk_asset LTCChain ''LTC'' ''LTC'' False"
definition BCHAsset :: Asset where "BCHAsset = mk_asset BCHChain ''BCH'' ''BCH'' False"
definition DASHAsset :: Asset where "DASHAsset = mk_asset DASHChain ''DASH'' ''DASH'' False"
definition DOGEAsset :: Asset where "DOGEAsset = mk_asset DOGEChain ''DOGE'' ''DOGE'' False"
definition ETHAsset :: Asset where "ETHAsset = mk_asset ETHChain ''ETH'' ''ETH'' False"
definition USDTAsset :: Asset where
  "USDTAsset = mk_asset ETHChain ''USDT-0xdAC17F958D2ee523a2206206994597C13D831ec7'' ''ETH'' False"
definition AVAXAsset :: Asset where "AVAXAsset = mk_asset AVAXChain ''AVAX'' ''AVAX'' False"
definition BaseNative :: Asset where "BaseNative = mk_asset BASEChain ''CACAO'' ''CACAO'' False"
definition MayaNative :: Asset where "MayaNative = mk_asset BASEChain ''MAYA'' ''MAYA'' False"

lemmas asset_defs =
  mk_asset_def EmptyAsset_def RUNEAsset_def ATOMAsset_def KUJIAsset_def BNBAsset_def BTCAsset_def
  LTCAsset_def BCHAsset_def DASHAsset_def DOGEAsset_def ETHAsset_def USDTAsset_def AVAXAsset_def
  BaseNative_def MayaNative_def

definition NewAsset :: "string \<Rightarrow> go_error + Asset" where
  "NewAsset input =
     (let synth = CHR ''/'' \<in> set input;
          parts = splitN2 (if synth then CHR ''/'' else CHR ''.'') input
      in case (if length parts = 1 then Inr (BASEChain, parts ! 0)
               else case NewChain (parts ! 0) of Inl e \<Rightarrow> Inl e | Inr c \<Rightarrow> Inr (c, parts ! 1)) of
           Inl e \<Rightarrow> Inl e
         | Inr (chain, sy) \<Rightarrow>
            (case NewSymbol sy of
               Inl e \<Rightarrow> Inl e
             | Inr symbol \<Rightarrow>
                (case NewTicker (hd (splitN2 CHR ''-'' sy)) of
                   Inl e \<Rightarrow> Inl e
                 | Inr ticker \<Rightarrow> Inr (mk_asset chain symbol ticker synth))))"

definition Asset_Equals :: "Asset \<Rightarrow> Asset \<Rightarrow> bool" where
  "Asset_Equals a a2 \<longleftrightarrow>
     Chain_Equals (Asset_Chain a) (Asset_Chain a2)
     \<and> Symbol_Equals (Asset_Symbol a) (Asset_Symbol a2)
     \<and> Ticker_Equals (Asset_Ticker a) (Asset_Ticker a2)
     \<and> Asset_Synth a = Asset_Synth a2"

definition Asset_IsSyntheticAsset :: "Asset \<Rightarrow> bool" where
  "Asset_IsSyntheticAsset a \<longleftrightarrow> Asset_Synth a"

definition Asset_IsVaultAsset :: "Asset \<Rightarrow> bool" where
  "Asset_IsVaultAsset a \<longleftrightarrow> Asset_IsSyntheticAsset a"

definition Asset_GetChain :: "Asset \<Rightarrow> chain" where
  "Asset_GetChain a = (if Asset_Synth a then BASEChain else Asset_Chain a)"

definition Asset_GetLayer1Asset :: "Asset \<Rightarrow> Asset" where
  "Asset_GetLayer1Asset a =
     (if \<not> Asset_IsSyntheticAsset a then a
      else mk_asset (Asset_Chain a) (Asset_Symbol a) (Asset_Ticker a) False)"

definition Asset_GetSyntheticAsset :: "Asset \<Rightarrow> Asset" where
  "Asset_GetSyntheticAsset a =
     (if Asset_IsSyntheticAsset a then a
      else mk_asset (Asset_Chain a) (Asset_Symbol a) (Asset_Ticker a) True)"

definition Asset_IsEmpty :: "Asset \<Rightarrow> bool" where
  "Asset_IsEmpty a \<longleftrightarrow>
     Chain_IsEmpty (Asset_Chain a) \<or> Symbol_IsEmpty (Asset_Symbol a)
     \<or> Ticker_IsEmpty (Asset_Ticker a)"

definition Asset_String :: "Asset \<Rightarrow> string" where
  "Asset_String a =
     (let sep = (if Asset_Synth a then ''/'' else ''.'')
      in Chain_String (Asset_Chain a) @ sep @ Symbol_String (Asset_Symbol a))"

definition Asset_IsBase :: "Asset \<Rightarrow> bool" where
  "Asset_IsBase a \<longleftrightarrow> Asset_Equals a BaseNative"

definition Asset_Native :: "Asset \<Rightarrow> string" where
  "Asset_Native a =
     (if Asset_IsBase a then ''cacao''
      else if Asset_Equals a MayaNative then ''maya''
      else toLower (Asset_String a))"

definition Chain_GetGasAsset :: "chain \<Rightarrow> Asset" where
  "Chain_GetGasAsset c =
     (if c = AZTECChain then BaseNative
      else if c = BASEChain then BaseNative
      else if c = BNBChain then BNBAsset
      else if c = BTCChain then BTCAsset
      else if c = LTCChain then LTCAsset
      else if c = BCHChain then BCHAsset
      else if c = DASHChain then DASHAsset
      else if c = DOGEChain then DOGEAsset
      else if c = ETHChain then ETHAsset
      else if c = THORChain then RUNEAsset
      else if c = AVAXChain then AVAXAsset
      else if c = GAIAChain then ATOMAsset
      else if c = KUJIChain then KUJIAsset
      else EmptyAsset)"

definition Chain_GetGasAssetDecimal :: "chain \<Rightarrow> int" where
  "Chain_GetGasAssetDecimal c =
     (if c = BASEChain \<or> c = THORChain then 8
      else if c = GAIAChain then 6
      else DefaultCoinDecimals)"

definition Chain_DustThreshold :: "chain \<Rightarrow> nat" where
  "Chain_DustThreshold c =
     (if c \<in> {BTCChain, LTCChain, BCHChain} then 10000
      else if c = DOGEChain then 100000000
      else 0)"

definition Chain_MaxMemoLength :: "chain \<Rightarrow> int" where
  "Chain_MaxMemoLength c = (if c \<in> {BTCChain, LTCChain, BCHChain, DOGEChain} then 80 else 0)"

definition Chain_ApproximateBlockMilliseconds :: "chain \<Rightarrow> int" where
  "Chain_ApproximateBlockMilliseconds c =
     (if c = BTCChain then 600000
      else if c = LTCChain then 150000
      else if c = BCHChain then 600000
      else if c = DOGEChain then 60000
      else if c = ETHChain then 15000
      else if c = AVAXChain then 3000
      else if c = BNBChain then 500
      else if c \<in> {GAIAChain, KUJIChain, THORChain, BASEChain} then 6000
      else 0)"

definition Asset_IsGasAsset :: "Asset \<Rightarrow> bool" where
  "Asset_IsGasAsset a =
     (let gasAsset = Chain_GetGasAsset (Asset_GetChain a) in
      if Asset_IsEmpty gasAsset then False else Asset_Equals a gasAsset)"

definition Asset_IsNativeBase :: "Asset \<Rightarrow> bool" where
  "Asset_IsNativeBase a \<longleftrightarrow> Asset_IsBase a \<and> Chain_IsBASEChain (Asset_Chain a)"

definition Asset_IsNative :: "Asset \<Rightarrow> bool" where
  "Asset_IsNative a \<longleftrightarrow> Chain_IsBASEChain (Asset_GetChain a)"

definition Asset_IsBNB :: "Asset \<Rightarrow> bool" where
  "Asset_IsBNB a \<longleftrightarrow> Asset_Equals a BNBAsset"

definition Assets_Contains :: "Asset list \<Rightarrow> Asset \<Rightarrow> bool" where
  "Assets_Contains as a \<longleftrightarrow> list_ex (\<lambda>asset. Asset_Equals asset a) as"

definition Asset_MimirString :: "Asset \<Rightarrow> string" where
  "Asset_MimirString a = Chain_String (Asset_Chain a) @ ''-'' @ Symbol_String (Asset_Symbol a)"

definition ContainsAsset :: "Asset \<Rightarrow> Asset list \<Rightarrow> bool" where
  "ContainsAsset asset assets \<longleftrightarrow> list_ex (\<lambda>a. Asset_Equals a asset) assets"

section \<open>Equality up to letter case\<close>

text \<open>
  \<open>Equals\<close> compares the upper-case forms of the three strings; \<open>asset_norm\<close> is the
  representative it compares.
\<close>

definition asset_norm :: "Asset \<Rightarrow> Asset" where
  "asset_norm a = mk_asset (toUpper (Asset_Chain a)) (toUpper (Asset_Symbol a))
     (toUpper (Asset_Ticker a)) (Asset_Synth a)"

lemma Chain_Equals_iff: "Chain_Equals c d \<longleftrightarrow> toUpper c = toUpper d"
  by (simp add: Chain_Equals_def Chain_String_def equalFold_def)

lemma Asset_Equals_iff: "Asset_Equals a b \<longleftrightarrow> asset_norm a = asset_norm b"
  by (auto simp: Asset_Equals_def Chain_Equals_iff Symbol_Equals_def Ticker_Equals_def
      Symbol_String_def Ticker_String_def equalFold_def asset_norm_def mk_asset_def)

lemma Asset_Equals_refl [simp]: "Asset_Equals a a"
  by (simp add: Asset_Equals_iff)

lemma Asset_Equals_sym: "Asset_Equals a b \<longleftrightarrow> Asset_Equals b a"
  by (auto simp: Asset_Equals_iff)

lemma Asset_Equals_trans: "Asset_Equals a b \<Longrightarrow> Asset_Equals b c \<Longrightarrow> Asset_Equals a c"
  by (simp add: Asset_Equals_iff)

lemma Asset_Equals_cong: "Asset_Equals a b \<Longrightarrow> Asset_Equals a c \<longleftrightarrow> Asset_Equals b c"
  by (auto simp: Asset_Equals_iff)

lemma Asset_String_Equals: "Asset_Equals a b \<Longrightarrow> Asset_String a = Asset_String b"
  by (auto simp: Asset_Equals_iff asset_norm_def mk_asset_def Asset_String_def Chain_String_def
      Symbol_String_def)

section \<open>Parsing what is printed\<close>

text \<open>What the parsers guarantee of their results.\<close>

definition parsed_chain :: "chain \<Rightarrow> bool" where
  "parsed_chain c \<longleftrightarrow> list_all is_upper_letter c \<and> 3 \<le> length c \<and> length c \<le> 10"

lemma NewChain_Inr: "NewChain s = Inr c \<longleftrightarrow> c = toUpper s \<and> parsed_chain c"
  by (auto simp: NewChain_def Chain_Validate_def Let_def parsed_chain_def list_ex_iff list_all_iff)

lemma NewSymbol_Inr:
  "NewSymbol s = Inr y \<longleftrightarrow> s \<noteq> [] \<and> list_all is_symbol_char s \<and> y = toUpper s"
  by (auto simp: NewSymbol_def)

lemma NewTicker_Inr:
  "NewTicker s = Inr y \<longleftrightarrow> s \<noteq> [] \<and> length s \<le> 13 \<and> CHR ''/'' \<notin> set s \<and> y = toUpper s"
  by (auto simp: NewTicker_def)

lemma parsed_chain_upper: "parsed_chain c \<Longrightarrow> toUpper c = c"
  by (simp add: parsed_chain_def toUpper_id)

lemma is_symbol_char_upper: "is_symbol_char c \<Longrightarrow> is_symbol_char (char_upper c)"
  by (auto simp: is_symbol_char_def char_upper_def Let_def)

lemma symbol_upper: "list_all is_symbol_char s \<Longrightarrow> list_all is_symbol_char (toUpper s)"
  by (induction s) (simp_all add: is_symbol_char_upper)

text \<open>Upper-casing neither makes nor removes a separator.\<close>

lemma char_upper_sep:
  "char_upper c = CHR ''/'' \<longleftrightarrow> c = CHR ''/''"
  "char_upper c = CHR ''.'' \<longleftrightarrow> c = CHR ''.''"
  "char_upper c = CHR ''-'' \<longleftrightarrow> c = CHR ''-''"
proof -
  have "of_char (char_upper c) = (if 97 \<le> (of_char c :: nat) \<and> of_char c \<le> (122::nat)
      then of_char c - 32 else of_char c :: nat)"
    by (auto simp: char_upper_def Let_def)
  moreover have "(of_char d :: nat) = n \<longleftrightarrow> d = char_of n" if "n < 256" for d n
    using that by (metis char_of_char of_char_of take_bit_nat_eq_self_iff numeral_2_eq_2
        of_char_mod_256 mod_less)
  ultimately show
    "char_upper c = CHR ''/'' \<longleftrightarrow> c = CHR ''/''"
    "char_upper c = CHR ''.'' \<longleftrightarrow> c = CHR ''.''"
    "char_upper c = CHR ''-'' \<longleftrightarrow> c = CHR ''-''"
    by (auto simp: char_upper_def Let_def)
qed

lemma toUpper_sep:
  "CHR ''/'' \<in> set (toUpper s) \<longleftrightarrow> CHR ''/'' \<in> set s"
  by (induction s) (auto simp: char_upper_sep eq_commute [of "CHR ''/''"])

lemma hd_splitN2: "hd (splitN2 sep s) = takeWhile (\<lambda>c. c \<noteq> sep) s"
  by (simp add: splitN2.simps Let_def)

lemma takeWhile_dash_upper:
  "takeWhile (\<lambda>c. c \<noteq> CHR ''-'') (toUpper s) = toUpper (takeWhile (\<lambda>c. c \<noteq> CHR ''-'') s)"
  by (induction s) (auto simp: char_upper_sep)

lemma symbol_no_slash: "list_all is_symbol_char s \<Longrightarrow> CHR ''/'' \<notin> set s"
  by (induction s) (auto simp: is_symbol_char_def)

lemma chain_no_sep: "parsed_chain c \<Longrightarrow> CHR ''/'' \<notin> set c \<and> CHR ''.'' \<notin> set c"
  by (auto simp: parsed_chain_def list_all_iff is_upper_letter_def)

lemma splitN2_print:
  assumes "sep \<notin> set p"
  shows "splitN2 sep (p @ sep # s) = [p, s]"
proof -
  have "takeWhile (\<lambda>c. c \<noteq> sep) (p @ sep # s) = p" "dropWhile (\<lambda>c. c \<noteq> sep) (p @ sep # s) = sep # s"
    using assms by (induction p) auto
  then show ?thesis by (simp add: splitN2.simps)
qed

lemma BASEChain_parsed: "parsed_chain BASEChain"
  by (simp add: parsed_chain_def BASEChain_def is_upper_letter_def)

text \<open>An asset that came out of the parser.\<close>

definition parsed_asset :: "Asset \<Rightarrow> bool" where
  "parsed_asset a \<longleftrightarrow> parsed_chain (Asset_Chain a)
     \<and> Asset_Symbol a \<noteq> [] \<and> list_all is_symbol_char (Asset_Symbol a)
     \<and> toUpper (Asset_Symbol a) = Asset_Symbol a
     \<and> NewTicker (takeWhile (\<lambda>c. c \<noteq> CHR ''-'') (Asset_Symbol a)) = Inr (Asset_Ticker a)"

lemma NewAsset_parsed: "NewAsset input = Inr a \<Longrightarrow> parsed_asset a"
  unfolding NewAsset_def Let_def hd_splitN2
  by (auto simp: parsed_asset_def mk_asset_def NewChain_Inr NewSymbol_Inr NewTicker_Inr
      BASEChain_parsed symbol_upper takeWhile_dash_upper toUpper_sep
      split: sum.splits if_splits prod.splits)

lemma NewAsset_print:
  assumes "parsed_asset a"
  shows "NewAsset (Asset_String a) = Inr a"
proof -
  let ?c = "Asset_Chain a" and ?s = "Asset_Symbol a"
  from assms have c: "parsed_chain ?c" and s: "?s \<noteq> []" "list_all is_symbol_char ?s" "toUpper ?s = ?s"
    and t: "NewTicker (takeWhile (\<lambda>c. c \<noteq> CHR ''-'') ?s) = Inr (Asset_Ticker a)"
    by (simp_all add: parsed_asset_def)
  define sep where "sep = (if Asset_Synth a then CHR ''/'' else CHR ''.'')"
  have str: "Asset_String a = ?c @ sep # ?s"
    using c s by (simp add: Asset_String_def Chain_String_def Symbol_String_def sep_def
        parsed_chain_upper)
  have synth: "CHR ''/'' \<in> set (?c @ sep # ?s) \<longleftrightarrow> Asset_Synth a"
    using chain_no_sep [OF c] symbol_no_slash [OF s(2)] by (simp add: sep_def)
  have "splitN2 sep (?c @ sep # ?s) = [?c, ?s]"
    using chain_no_sep [OF c] by (intro splitN2_print) (simp add: sep_def)
  moreover have "NewChain ?c = Inr ?c" "NewSymbol ?s = Inr ?s"
    using c s by (auto simp: NewChain_Inr NewSymbol_Inr parsed_chain_upper)
  ultimately show ?thesis
    using t unfolding NewAsset_def Let_def str synth hd_splitN2
    by (simp add: sep_def mk_asset_def)
qed

section \<open>Properties\<close>

text \<open>C38: printing and parsing an asset are inverse: whatever string \<open>NewAsset\<close> accepts, the
  asset it returns prints to a string that parses to the very same asset.\<close>

theorem NewAsset_String_roundtrip:
  assumes "NewAsset input = Inr a"
  shows "NewAsset (Asset_String a) = Inr a"
  using NewAsset_print [OF NewAsset_parsed [OF assms]] .

theorem NewAsset_String_roundtrip_witness:
  "NewAsset (Asset_String (mk_asset ''BNB'' ''RUNE-B1A'' ''RUNE'' True))
     = Inr (mk_asset ''BNB'' ''RUNE-B1A'' ''RUNE'' True)"
  by (rule NewAsset_String_roundtrip [of "''bnb/rune-b1a''"])
     code_simp

text \<open>No parsed asset equals the constant \<open>USDTAsset\<close>: its ticker is written
  \<open>ETH\<close>, while the ticker of every parsed asset is the part of its symbol before the dash.\<close>

lemma USDTAsset_never_parsed:
  assumes "NewAsset input = Inr a"
  shows "\<not> Asset_Equals a USDTAsset"
proof
  assume eq: "Asset_Equals a USDTAsset"
  have p: "parsed_asset a" by (rule NewAsset_parsed [OF assms])
  have "Asset_Symbol a = toUpper (Asset_Symbol USDTAsset)"
    using eq p by (auto simp: Asset_Equals_iff asset_norm_def mk_asset_def parsed_asset_def)
  also have "\<dots> = ''USDT-0XDAC17F958D2EE523A2206206994597C13D831EC7''" by code_simp
  finally have sy: "Asset_Symbol a = ''USDT-0XDAC17F958D2EE523A2206206994597C13D831EC7''" .
  have "NewTicker (takeWhile (\<lambda>c. c \<noteq> CHR ''-'') (Asset_Symbol a)) = Inr (Asset_Ticker a)"
    using p by (simp add: parsed_asset_def)
  then have "Asset_Ticker a = toUpper ''USDT''"
    unfolding sy by (simp add: NewTicker_def)
  moreover have "toUpper (Asset_Ticker a) = toUpper ''ETH''"
    using eq by (simp add: Asset_Equals_iff asset_norm_def mk_asset_def USDTAsset_def)
  ultimately show False by (metis length_toUpper length_Cons list.size(3) n_not_Suc_n)
qed

end
