(* ===== verification/Coins.thy ===== *)
theory Coins
  imports Assets "HOL-Library.Multiset"
begin

text \<open>
  Coins and gas (\<open>common/coin.go\<close>, \<open>common/gas.go\<close>). \<open>Coins\<close> and \<open>Gas\<close> are slices of
  \<open>Coin\<close>, here lists. A method that writes through the slice returns the list it leaves; a
  method that sorts its operands in place (\<open>Coins.Equals\<close>, \<open>Gas.Equals\<close>) returns them with
  its result. \<open>sort.Slice\<close> promises a sorted permutation; the model takes the one that keeps
  equal keys in order, and the theorems about it are for lists without equal keys.
\<close>

record Coin =
  Coin_Asset :: Asset
  Coin_Amount :: nat
  Coin_Decimals :: int

type_synonym coins = "Coin list"
type_synonym gas = "Coin list"

definition NewCoin :: "Asset \<Rightarrow> nat \<Rightarrow> Coin" where
  "NewCoin asset amount = \<lparr>Coin_Asset = asset, Coin_Amount = amount, Coin_Decimals = 0\<rparr>"

definition NoCoin :: Coin where
  "NoCoin = NewCoin EmptyAsset 0"

definition Coin_Equals :: "Coin \<Rightarrow> Coin \<Rightarrow> bool" where
  "Coin_Equals c cc =
     (if \<not> Asset_Equals (Coin_Asset c) (Coin_Asset cc) then False
      else if Coin_Amount c \<noteq> Coin_Amount cc then False
      else True)"

definition Coin_IsEmpty :: "Coin \<Rightarrow> bool" where
  "Coin_IsEmpty c =
     (if Asset_IsEmpty (Coin_Asset c) then True
      else if Coin_Amount c = 0 then True
      else False)"

definition Coin_Valid :: "Coin \<Rightarrow> check" where
  "Coin_Valid c =
     (if Asset_IsEmpty (Coin_Asset c) then fails ''denom cannot be empty''
      else if Coin_Amount c = 0 then fails ''amount cannot be zero''
      else None)"

definition Coin_IsNative :: "Coin \<Rightarrow> bool" where
  "Coin_IsNative c \<longleftrightarrow> Chain_Equals (Asset_GetChain (Coin_Asset c)) BASEChain"

definition Coin_String :: "Coin \<Rightarrow> string" where
  "Coin_String c = show_nat (Coin_Amount c) @ '' '' @ Asset_String (Coin_Asset c)"

definition Coin_WithDecimals :: "Coin \<Rightarrow> int \<Rightarrow> Coin" where
  "Coin_WithDecimals c decimal = c\<lparr>Coin_Decimals := decimal\<rparr>"

fun Coins_Valid :: "coins \<Rightarrow> check" where
  "Coins_Valid [] = None"
| "Coins_Valid (coin # cs) =
     (case Coin_Valid coin of Some e \<Rightarrow> Some e | None \<Rightarrow> Coins_Valid cs)"

definition coin_key :: "Coin \<Rightarrow> string" where
  "coin_key c = Asset_String (Coin_Asset c)"

text \<open>The comparison loop of \<open>Equals\<close> over two slices of one length.\<close>

definition coins_agree :: "coins \<Rightarrow> coins \<Rightarrow> bool" where
  "coins_agree cs cs2 \<longleftrightarrow> list_all2 Coin_Equals cs cs2"

definition Coins_Equals :: "coins \<Rightarrow> coins \<Rightarrow> bool \<times> coins \<times> coins" where
  "Coins_Equals cs cs2 =
     (if length cs \<noteq> length cs2 then (False, cs, cs2)
      else let s = sort_key coin_key cs; s2 = sort_key coin_key cs2 in (coins_agree s s2, s, s2))"

definition Coins_EqualsEx :: "coins \<Rightarrow> coins \<Rightarrow> bool" where
  "Coins_EqualsEx cs cs2 =
     (if length cs \<noteq> length cs2 then False
      else let source = sort_key coin_key cs; dest = sort_key coin_key cs2
           in coins_agree source dest)"

definition Coins_IsEmpty :: "coins \<Rightarrow> bool" where
  "Coins_IsEmpty cs =
     (if length cs = 0 then True
      else if list_ex (\<lambda>coin. \<not> Coin_IsEmpty coin) cs then False
      else True)"

definition Coins_String :: "coins \<Rightarrow> string" where
  "Coins_String cs = joinWith '', '' (map Coin_String cs)"

definition Coins_Contains :: "coins \<Rightarrow> Coin \<Rightarrow> bool" where
  "Coins_Contains cs c \<longleftrightarrow> list_ex (\<lambda>item. Coin_Equals c item) cs"

fun Coins_GetCoin :: "coins \<Rightarrow> Asset \<Rightarrow> Coin" where
  "Coins_GetCoin [] asset = NoCoin"
| "Coins_GetCoin (item # cs) asset =
     (if Asset_Equals asset (Coin_Asset item) then item else Coins_GetCoin cs asset)"

fun Coins_Distinct_loop :: "coins \<Rightarrow> coins \<Rightarrow> coins" where
  "Coins_Distinct_loop newCoins [] = newCoins"
| "Coins_Distinct_loop newCoins (item # cs) =
     (if \<not> Coins_Contains newCoins item then Coins_Distinct_loop (newCoins @ [item]) cs
      else Coins_Distinct_loop newCoins cs)"

definition Coins_Distinct :: "coins \<Rightarrow> coins" where
  "Coins_Distinct cs = Coins_Distinct_loop [] cs"

fun Coins_Add :: "sdk \<Rightarrow> coins \<Rightarrow> Coin \<Rightarrow> coins option" where
  "Coins_Add S [] coin = Some [coin]"
| "Coins_Add S (c # cs) coin =
     (if Asset_Equals (Coin_Asset c) (Coin_Asset coin) then
        do {
          n \<leftarrow> uint_add S (Coin_Amount c) (Coin_Amount coin);
          Some (c\<lparr>Coin_Amount := n\<rparr> # cs)
        }
      else do {
          rest \<leftarrow> Coins_Add S cs coin;
          Some (c # rest)
        })"

fun Coins_Adds :: "sdk \<Rightarrow> coins \<Rightarrow> coins \<Rightarrow> coins option" where
  "Coins_Adds S cs [] = Some cs"
| "Coins_Adds S cs (c # cs2) =
     do {
       cs' \<leftarrow> Coins_Add S cs c;
       Coins_Adds S cs' cs2
     }"

definition Coins_HasNoneNativeRune :: "coins \<Rightarrow> bool" where
  "Coins_HasNoneNativeRune cs \<longleftrightarrow>
     list_ex (\<lambda>c. Asset_IsBase (Coin_Asset c) \<and> \<not> Coin_IsNative c) cs"

definition Coins_HasSynthetic :: "coins \<Rightarrow> bool" where
  "Coins_HasSynthetic cs \<longleftrightarrow> list_ex (\<lambda>c. Asset_IsSyntheticAsset (Coin_Asset c)) cs"

definition Coins_NoneEmpty :: "coins \<Rightarrow> coins" where
  "Coins_NoneEmpty cs = filter (\<lambda>item. \<not> Coin_IsEmpty item) cs"

section \<open>Gas\<close>

fun Gas_Valid :: "gas \<Rightarrow> check" where
  "Gas_Valid [] = None"
| "Gas_Valid (coin # g) = (case Coin_Valid coin of Some e \<Rightarrow> Some e | None \<Rightarrow> Gas_Valid g)"

definition Gas_IsEmpty :: "gas \<Rightarrow> bool" where
  "Gas_IsEmpty g =
     (if length g = 0 then True
      else if list_ex (\<lambda>coin. \<not> Coin_IsEmpty coin) g then False
      else True)"

definition Gas_NoneEmpty :: "gas \<Rightarrow> gas" where
  "Gas_NoneEmpty g = filter (\<lambda>item. \<not> Coin_IsEmpty item) g"

text \<open>One pass of the inner loop of \<open>Gas.Add\<close>: every entry of the asset grows.\<close>

fun gas_add_all :: "sdk \<Rightarrow> gas \<Rightarrow> Coin \<Rightarrow> (bool \<times> gas) option" where
  "gas_add_all S [] gc2 = Some (False, [])"
| "gas_add_all S (gc1 # g) gc2 =
     (if Asset_Equals (Coin_Asset gc1) (Coin_Asset gc2) then
        do {
          n \<leftarrow> uint_add S (Coin_Amount gc1) (Coin_Amount gc2);
          (_, rest) \<leftarrow> gas_add_all S g gc2;
          Some (True, gc1\<lparr>Coin_Amount := n\<rparr> # rest)
        }
      else do {
          (matched, rest) \<leftarrow> gas_add_all S g gc2;
          Some (matched, gc1 # rest)
        })"

fun gas_add_loop :: "sdk \<Rightarrow> gas \<Rightarrow> gas \<Rightarrow> gas \<Rightarrow> gas option" where
  "gas_add_loop S g newGasCoins [] = Some (g @ newGasCoins)"
| "gas_add_loop S g newGasCoins (gc2 # g2) =
     do {
       (matched, g') \<leftarrow> gas_add_all S g gc2;
       gas_add_loop S g' (if matched then newGasCoins else newGasCoins @ [gc2]) g2
     }"

definition Gas_Add :: "sdk \<Rightarrow> gas \<Rightarrow> gas \<Rightarrow> gas option" where
  "Gas_Add S g g2 = gas_add_loop S g [] g2"

fun gas_sub_first :: "sdk \<Rightarrow> gas \<Rightarrow> Coin \<Rightarrow> gas option" where
  "gas_sub_first S [] gc2 = Some []"
| "gas_sub_first S (gc1 # g) gc2 =
     (if Asset_Equals (Coin_Asset gc1) (Coin_Asset gc2) then
        do {
          n \<leftarrow> SafeSub S (Coin_Amount gc1) (Coin_Amount gc2);
          Some (gc1\<lparr>Coin_Amount := n\<rparr> # g)
        }
      else do {
          rest \<leftarrow> gas_sub_first S g gc2;
          Some (gc1 # rest)
        })"

fun Gas_Sub :: "sdk \<Rightarrow> gas \<Rightarrow> gas \<Rightarrow> gas option" where
  "Gas_Sub S g [] = Some g"
| "Gas_Sub S g (gc2 # g2) =
     do {
       g' \<leftarrow> gas_sub_first S g gc2;
       Gas_Sub S g' g2
     }"

definition Gas_Equals :: "gas \<Rightarrow> gas \<Rightarrow> bool \<times> gas \<times> gas" where
  "Gas_Equals g gas2 =
     (if length g \<noteq> length gas2 then (False, g, gas2)
      else let s = sort_key coin_key g; s2 = sort_key coin_key gas2 in (coins_agree s s2, s, s2))"

definition Gas_ToCoins :: "gas \<Rightarrow> coins" where
  "Gas_ToCoins g = map (\<lambda>c. NewCoin (Coin_Asset c) (Coin_Amount c)) g"

text \<open>
  Fees of single chains. \<open>units\<close> is indexed without a length check, so a short slice panics;
  the Go code compares the asset with \<open>==\<close>.
\<close>

definition CalcBinanceGasPrice :: "sdk \<Rightarrow> coins \<Rightarrow> Asset \<Rightarrow> nat list \<Rightarrow> gas option" where
  "CalcBinanceGasPrice S tx_coins asset units =
     (if asset = BNBAsset then
        if length tx_coins = 0 then Some []
        else if length tx_coins = 1 then
          (if 0 < length units then Some [NewCoin BNBAsset (units ! 0)] else None)
        else if 1 < length units then
          map_option (\<lambda>n. [NewCoin BNBAsset n]) (uint_mul S (units ! 1) (length tx_coins))
        else None
      else Some [])"

definition evm_gas_fee :: "sdk \<Rightarrow> Asset \<Rightarrow> int \<Rightarrow> nat \<Rightarrow> gas option" where
  "evm_gas_fee S asset gasPrice msgLen =
     do {
       gasBytes \<leftarrow> uint_mul S 68 msgLen;
       fee \<leftarrow> uint_add S 21000 gasBytes;
       price \<leftarrow> uint_of_int S gasPrice;
       amt \<leftarrow> uint_mul S fee price;
       Some [NewCoin asset amt]
     }"

definition GetETHGasFee :: "sdk \<Rightarrow> int \<Rightarrow> nat \<Rightarrow> gas option" where
  "GetETHGasFee S gasPrice msgLen = evm_gas_fee S ETHAsset gasPrice msgLen"

definition GetAVAXGasFee :: "sdk \<Rightarrow> int \<Rightarrow> nat \<Rightarrow> gas option" where
  "GetAVAXGasFee S gasPrice msgLen = evm_gas_fee S AVAXAsset gasPrice msgLen"

definition make_evm_gas :: "sdk \<Rightarrow> Asset \<Rightarrow> int \<Rightarrow> nat \<Rightarrow> gas option" where
  "make_evm_gas S asset gasPrice gas =
     do {
       price \<leftarrow> uint_of_int S gasPrice;
       total \<leftarrow> uint_mul S gas price;
       gasAmt \<leftarrow> uint_quo S total (One * 100);
       Some [NewCoin asset gasAmt]
     }"

definition MakeETHGas :: "sdk \<Rightarrow> int \<Rightarrow> nat \<Rightarrow> gas option" where
  "MakeETHGas S gasPrice gas = make_evm_gas S ETHAsset gasPrice gas"

definition MakeAVAXGas :: "sdk \<Rightarrow> int \<Rightarrow> nat \<Rightarrow> gas option" where
  "MakeAVAXGas S gasPrice gas = make_evm_gas S AVAXAsset gasPrice gas"

section \<open>Holdings\<close>

text \<open>The amount of an asset in a list of coins, over all the entries that hold it.\<close>

definition coins_total :: "coins \<Rightarrow> Asset \<Rightarrow> nat" where
  "coins_total cs a = sum_list (map Coin_Amount (filter (\<lambda>c. Asset_Equals (Coin_Asset c) a) cs))"

definition coins_distinct :: "coins \<Rightarrow> bool" where
  "coins_distinct cs \<longleftrightarrow> distinct (map (asset_norm \<circ> Coin_Asset) cs)"

lemma coins_total_simps [simp]:
  "coins_total [] a = 0"
  "coins_total (c # cs) a =
     (if Asset_Equals (Coin_Asset c) a then Coin_Amount c else 0) + coins_total cs a"
  "coins_total (xs @ ys) a = coins_total xs a + coins_total ys a"
  by (simp_all add: coins_total_def)

text \<open>
  The contract of a holder of coins: what adding one coin does to the amount of every asset.
  The client lemma lifts it to a whole list, in the order the code adds it.
\<close>

locale coin_holder =
  fixes add :: "'s \<Rightarrow> Coin \<Rightarrow> 's option"
    and adds :: "'s \<Rightarrow> coins \<Rightarrow> 's option"
    and amount :: "'s \<Rightarrow> Asset \<Rightarrow> nat"
    and invar :: "'s \<Rightarrow> bool"
  assumes add_amount: "add s c = Some s' \<Longrightarrow>
      amount s' a = amount s a + (if Asset_Equals (Coin_Asset c) a then Coin_Amount c else 0)"
    and add_invar: "invar s \<Longrightarrow> add s c = Some s' \<Longrightarrow> invar s'"
    and adds_Nil: "adds s [] = Some s"
    and adds_Cons: "adds s (c # cs) = (add s c \<bind> (\<lambda>s'. adds s' cs))"
begin

lemma adds_amount: "adds s cs = Some s' \<Longrightarrow> amount s' a = amount s a + coins_total cs a"
  by (induction cs arbitrary: s) (auto simp: adds_Nil adds_Cons bind_Some_iff add_amount)

lemma adds_invar: "invar s \<Longrightarrow> adds s cs = Some s' \<Longrightarrow> invar s'"
  by (induction cs arbitrary: s) (auto simp: adds_Nil adds_Cons bind_Some_iff dest: add_invar)

lemma adds_append: "adds s (cs @ ds) = (adds s cs \<bind> (\<lambda>s'. adds s' ds))"
  by (induction cs arbitrary: s) (auto simp: adds_Nil adds_Cons split: Option.bind_splits)

end

lemma Coins_Add_assets:
  "Coins_Add S cs coin = Some cs' \<Longrightarrow>
     map (asset_norm \<circ> Coin_Asset) cs' = map (asset_norm \<circ> Coin_Asset) cs
       @ (if list_ex (\<lambda>c. Asset_Equals (Coin_Asset c) (Coin_Asset coin)) cs then []
          else [asset_norm (Coin_Asset coin)])"
  by (induction cs arbitrary: cs') (auto simp: bind_Some_iff split: if_splits)

lemma Coins_Add_distinct:
  "coins_distinct cs \<Longrightarrow> Coins_Add S cs coin = Some cs' \<Longrightarrow> coins_distinct cs'"
  by (auto simp: coins_distinct_def Coins_Add_assets list_ex_iff Asset_Equals_iff)

context cosmos_sdk
begin

lemma Coins_Add_total:
  "Coins_Add S cs coin = Some cs' \<Longrightarrow>
     coins_total cs' a = coins_total cs a
       + (if Asset_Equals (Coin_Asset coin) a then Coin_Amount coin else 0)"
proof (induction cs arbitrary: cs')
  case (Cons c cs)
  then show ?case
    by (auto simp: bind_Some_iff uint_add_Some Asset_Equals_iff split: if_splits)
qed simp

lemma Coins_coin_holder:
  "coin_holder (Coins_Add S) (Coins_Adds S) coins_total coins_distinct"
  by unfold_locales (auto simp: Coins_Add_total intro: Coins_Add_distinct)

end

interpretation coins: coin_holder "Coins_Add sdk256" "Coins_Adds sdk256" coins_total coins_distinct
  by (rule sdk256.Coins_coin_holder)

section \<open>Comparison of coin lists\<close>

definition coin_norm :: "Coin \<Rightarrow> Asset \<times> nat" where
  "coin_norm c = (asset_norm (Coin_Asset c), Coin_Amount c)"

lemma Coin_Equals_iff: "Coin_Equals c d \<longleftrightarrow> coin_norm c = coin_norm d"
  by (simp add: Coin_Equals_def coin_norm_def Asset_Equals_iff)

lemma coins_agree_iff: "coins_agree cs ds \<longleftrightarrow> map coin_norm cs = map coin_norm ds"
proof -
  have "map coin_norm cs = map coin_norm ds \<longleftrightarrow> list_all2 (=) (map coin_norm cs) (map coin_norm ds)"
    by (simp add: list.rel_eq)
  moreover have "Coin_Equals = (\<lambda>c d. coin_norm c = coin_norm d)"
    by (simp add: fun_eq_iff Coin_Equals_iff)
  ultimately show ?thesis
    by (simp add: coins_agree_def list_all2_map1 list_all2_map2)
qed

lemma Asset_String_norm: "Asset_String (asset_norm a) = Asset_String a"
  by (rule Asset_String_Equals) (simp add: Asset_Equals_iff asset_norm_def mk_asset_def)

lemma sort_coin_norm:
  assumes "distinct (map coin_key cs)" and "mset (map coin_norm cs) = mset (map coin_norm ds)"
  shows "map coin_norm (sort_key coin_key ds) = sort_key (Asset_String \<circ> fst) (map coin_norm cs)"
proof -
  have key: "Asset_String (fst (coin_norm c)) = coin_key c" for c
    by (simp add: coin_norm_def coin_key_def Asset_String_norm)
  have "inj_on (Asset_String \<circ> fst) (set (map coin_norm cs))"
    using assms(1) by (auto simp: inj_on_def key distinct_map)
  moreover have "Asset_String \<circ> fst \<circ> coin_norm = coin_key"
    using key by (simp add: fun_eq_iff)
  then have "sorted (map (Asset_String \<circ> fst) (map coin_norm (sort_key coin_key ds)))"
    by simp
  ultimately show ?thesis
    using assms(2) by (intro sort_key_inj_key_eq [symmetric]) simp_all
qed

lemma EqualsEx_mset:
  assumes "distinct (map coin_key cs)"
  shows "Coins_EqualsEx cs ds \<longleftrightarrow> mset (map coin_norm cs) = mset (map coin_norm ds)"
proof
  assume "Coins_EqualsEx cs ds"
  then have "map coin_norm (sort_key coin_key cs) = map coin_norm (sort_key coin_key ds)"
    by (simp add: Coins_EqualsEx_def coins_agree_iff split: if_splits)
  then have "mset (map coin_norm (sort_key coin_key cs)) = mset (map coin_norm (sort_key coin_key ds))"
    by (rule arg_cong)
  then show "mset (map coin_norm cs) = mset (map coin_norm ds)" by simp
next
  assume m: "mset (map coin_norm cs) = mset (map coin_norm ds)"
  then have "length cs = length ds" by (metis length_map mset_eq_length)
  then show "Coins_EqualsEx cs ds"
    using sort_coin_norm [OF assms refl] sort_coin_norm [OF assms m]
    by (simp add: Coins_EqualsEx_def coins_agree_iff)
qed

section \<open>Gas\<close>

context cosmos_sdk
begin

lemma gas_add_all_norm:
  "gas_add_all S g gc = Some (m, g') \<Longrightarrow>
     map (asset_norm \<circ> Coin_Asset) g' = map (asset_norm \<circ> Coin_Asset) g
     \<and> m = list_ex (\<lambda>c. Asset_Equals (Coin_Asset c) (Coin_Asset gc)) g"
  by (induction g arbitrary: m g') (fastforce simp: bind_Some_iff split: if_splits)+

lemma gas_add_all_total:
  "coins_distinct g \<Longrightarrow> gas_add_all S g gc = Some (m, g') \<Longrightarrow>
     coins_total g' a = coins_total g a
       + (if m \<and> Asset_Equals (Coin_Asset gc) a then Coin_Amount gc else 0)"
proof (induction g arbitrary: m g')
  case (Cons c g)
  obtain m' g'' where rest: "gas_add_all S g gc = Some (m', g'')"
    using Cons.prems(2) by (auto simp: bind_Some_iff split: if_splits)
  have dist: "coins_distinct g" using Cons.prems(1) by (simp add: coins_distinct_def)
  have "m' \<longleftrightarrow> list_ex (\<lambda>c. Asset_Equals (Coin_Asset c) (Coin_Asset gc)) g"
    using gas_add_all_norm [OF rest] by simp
  moreover have "\<not> list_ex (\<lambda>c. Asset_Equals (Coin_Asset c) (Coin_Asset gc)) g"
    if "Asset_Equals (Coin_Asset c) (Coin_Asset gc)"
    using that Cons.prems(1)
    by (auto simp: coins_distinct_def list_ex_iff Asset_Equals_iff image_iff)
  ultimately show ?case
    using Cons.prems(2) rest Cons.IH [OF dist rest]
    by (auto simp: uint_add_Some Asset_Equals_iff bind_Some_iff split: if_splits)
qed simp

lemma gas_add_loop_total:
  "coins_distinct g \<Longrightarrow> gas_add_loop S g new g2 = Some r \<Longrightarrow>
     coins_total r a = coins_total g a + coins_total new a + coins_total g2 a"
proof (induction g2 arbitrary: g new)
  case (Cons c g2)
  then obtain m g' where step: "gas_add_all S g c = Some (m, g')"
    and rest: "gas_add_loop S g' (if m then new else new @ [c]) g2 = Some r"
    by (auto simp: bind_Some_iff)
  have "coins_distinct g'"
    using Cons.prems(1) gas_add_all_norm [OF step] by (simp add: coins_distinct_def)
  from Cons.IH [OF this rest] gas_add_all_total [OF Cons.prems(1) step]
  show ?case by auto
qed auto

end

section \<open>Properties\<close>

text \<open>Adding coins to a list neither loses nor creates funds: of every asset the result
  holds exactly what the two lists held together, whatever entries and letter cases they use.\<close>

lemma Coins_Adds_conserves:
  assumes "cosmos_sdk S" and "Coins_Adds S cs ds = Some r"
  shows "coins_total r a = coins_total cs a + coins_total ds a"
  by (rule coin_holder.adds_amount [OF cosmos_sdk.Coins_coin_holder [OF assms(1)] assms(2)])

text \<open>\<open>Gas.Add\<close> accounts for every coin of its argument, when its receiver lists each
  asset once.\<close>

lemma Gas_Add_total:
  assumes "cosmos_sdk S" and "coins_distinct g" and "Gas_Add S g g2 = Some r"
  shows "coins_total r a = coins_total g a + coins_total g2 a"
  using cosmos_sdk.gas_add_loop_total [OF assms(1,2), of "[]" g2 r a] assms(3)
  by (simp add: Gas_Add_def)

text \<open>\<open>Coins.EqualsEx\<close> is equality of multisets: on a list whose assets print
  differently it answers true exactly when both lists hold the same coins, in any order and up to
  the letter case of their assets.\<close>

lemma Coins_EqualsEx_iff_mset:
  assumes "distinct (map coin_key cs)"
  shows "Coins_EqualsEx cs ds \<longleftrightarrow> mset (map coin_norm cs) = mset (map coin_norm ds)"
  by (rule EqualsEx_mset [OF assms])

end
