(* ===== verification/Constants.thy ===== *)
theory Constants
  imports Prelude
begin

text \<open>
  The constant tables of \<open>constants/\<close>. \<open>ConstantName\<close> is an integer enumeration in Go: a
  name is its position in \<open>ConstantNames\<close>, which is what an integer conversion of the name
  yields. The values of a name are looked up in the table of a version, after the overrides of
  the build (empty for mainnet).
\<close>

type_synonym constant_name = string

definition ConstantNames :: "constant_name list" where
  "ConstantNames =
    [
     ''BlocksPerDay'', ''BlocksPerYear'', ''OutboundTransactionFee'',
     ''NativeTransactionFee'', ''KillSwitchStart'', ''KillSwitchDuration'',
     ''PoolCycle'', ''MinCacaoPoolDepth'', ''MaxAvailablePools'',
     ''StagedPoolCost'', ''MinimumNodesForYggdrasil'', ''MinimumNodesForBFT'',
     ''DesiredValidatorSet'', ''AsgardSize'', ''ChurnInterval'',
     ''ChurnRetryInterval'', ''ValidatorsChangeWindow'', ''LeaveProcessPerBlockHeight'',
     ''BadValidatorRedline'', ''BadValidatorRate'', ''OldValidatorRate'',
     ''LowBondValidatorRate'', ''LackOfObservationPenalty'', ''SigningTransactionPeriod'',
     ''DoubleSignMaxAge'', ''PauseBond'', ''PauseUnbond'',
     ''MinimumBondInCacao'', ''FundMigrationInterval'', ''ArtificialRagnarokBlockHeight'',
     ''MaximumLiquidityCacao'', ''StrictBondLiquidityRatio'', ''DefaultPoolStatus'',
     ''MaxOutboundAttempts'', ''SlashPenalty'', ''PauseOnSlashThreshold'',
     ''FailKeygenSlashPoints'', ''FailKeysignSlashPoints'', ''LiquidityLockUpBlocks'',
     ''ObserveSlashPoints'', ''ObservationDelayFlexibility'', ''ForgiveSlashPeriod'',
     ''YggFundLimit'', ''YggFundRetry'', ''JailTimeKeygen'',
     ''JailTimeKeysign'', ''NodePauseChainBlocks'', ''MinSwapsPerBlock'',
     ''MaxSwapsPerBlock'', ''MaxSlashRatio'', ''MaxSynthPerAssetDepth'',
     ''VirtualMultSynths'', ''VirtualMultSynthsBasisPoints'', ''MinSlashPointsForBadValidator'',
     ''FullImpLossProtectionBlocks'', ''BondLockupPeriod'', ''MaxBondProviders'',
     ''NumberOfNewNodesPerChurn'', ''MinTxOutVolumeThreshold'', ''TxOutDelayRate'',
     ''TxOutDelayMax'', ''MaxTxOutOffset'', ''TNSRegisterFee'',
     ''TNSFeeOnSale'', ''TNSFeePerBlock'', ''PermittedSolvencyGap'',
     ''NodeOperatorFee'', ''ValidatorMaxRewardRatio'', ''PoolDepthForYggFundingMin'',
     ''MaxNodeToChurnOutForLowVersion'', ''MayaFundPerc'', ''MinCacaoForMayaFundDist'',
     ''WithdrawLimitTier1'', ''WithdrawLimitTier2'', ''WithdrawLimitTier3'',
     ''WithdrawDaysTier1'', ''WithdrawDaysTier2'', ''WithdrawDaysTier3'',
     ''WithdrawTier1'', ''WithdrawTier2'', ''WithdrawTier3'',
     ''InflationPercentageThreshold'', ''InflationPoolPercentage'', ''InflationFormulaMulValue'',
     ''InflationFormulaSumValue'', ''IBCReceiveEnabled'', ''IBCSendEnabled'',
     ''RagnarokProcessNumOfLPPerIteration'', ''SwapOutDexAggregationDisabled'', ''POLMaxNetworkDeposit'',
     ''POLMaxPoolMovement'', ''POLSynthUtilization'', ''POLBuffer'',
     ''SynthYieldBasisPoints'', ''SynthYieldCycle'', ''MinimumL1OutboundFeeUSD'',
     ''MinimumPoolLiquidityFee'', ''SubsidizeReserveMultiplier'', ''LiquidityAuction'',
     ''IncentiveCurveControl'', ''FullImpLossProtectionBlocksTimes4'', ''ZeroImpLossProtectionBlocks'',
     ''AllowWideBlame''
    ]"

text \<open>\<open>int64(name)\<close>: the position of the name in the \<open>iota\<close> sequence.\<close>

definition constant_iota :: "constant_name \<Rightarrow> int" where
  "constant_iota name =
     (case first_index ((=) name) ConstantNames of None \<Rightarrow> -1 | Some i \<Rightarrow> int i)"

definition nameToString :: "(constant_name \<times> string) list" where
  "nameToString =
    [
     (''BlocksPerDay'', ''BlocksPerDay''), (''BlocksPerYear'', ''BlocksPerYear''),
     (''OutboundTransactionFee'', ''OutboundTransactionFee''), (''NativeTransactionFee'', ''NativeTransactionFee''),
     (''PoolCycle'', ''PoolCycle''), (''MinCacaoPoolDepth'', ''MinRunePoolDepth''),
     (''MaxAvailablePools'', ''MaxAvailablePools''), (''StagedPoolCost'', ''StagedPoolCost''),
     (''KillSwitchStart'', ''KillSwitchStart''), (''KillSwitchDuration'', ''KillSwitchDuration''),
     (''MinimumNodesForYggdrasil'', ''MinimumNodesForYggdrasil''), (''MinimumNodesForBFT'', ''MinimumNodesForBFT''),
     (''DesiredValidatorSet'', ''DesiredValidatorSet''), (''AsgardSize'', ''AsgardSize''),
     (''ChurnInterval'', ''ChurnInterval''), (''ChurnRetryInterval'', ''ChurnRetryInterval''),
     (''ValidatorsChangeWindow'', ''ValidatorsChangeWindow''), (''LeaveProcessPerBlockHeight'', ''LeaveProcessPerBlockHeight''),
     (''BadValidatorRedline'', ''BadValidatorRedline''), (''BadValidatorRate'', ''BadValidatorRate''),
     (''OldValidatorRate'', ''OldValidatorRate''), (''LowBondValidatorRate'', ''LowBondValidatorRate''),
     (''LackOfObservationPenalty'', ''LackOfObservationPenalty''), (''SigningTransactionPeriod'', ''SigningTransactionPeriod''),
     (''DoubleSignMaxAge'', ''DoubleSignMaxAge''), (''PauseBond'', ''PauseBond''),
     (''PauseUnbond'', ''PauseUnbond''), (''MinimumBondInCacao'', ''MinimumBondInRune''),
     (''MaxBondProviders'', ''MaxBondProviders''), (''FundMigrationInterval'', ''FundMigrationInterval''),
     (''ArtificialRagnarokBlockHeight'', ''ArtificialRagnarokBlockHeight''), (''MaximumLiquidityCacao'', ''MaximumLiquidityRune''),
     (''StrictBondLiquidityRatio'', ''StrictBondLiquidityRatio''), (''DefaultPoolStatus'', ''DefaultPoolStatus''),
     (''MaxOutboundAttempts'', ''MaxOutboundAttempts''), (''SlashPenalty'', ''SlashPenalty''),
     (''PauseOnSlashThreshold'', ''PauseOnSlashThreshold''), (''FailKeygenSlashPoints'', ''FailKeygenSlashPoints''),
     (''FailKeysignSlashPoints'', ''FailKeysignSlashPoints''), (''LiquidityLockUpBlocks'', ''LiquidityLockUpBlocks''),
     (''ObserveSlashPoints'', ''ObserveSlashPoints''), (''ObservationDelayFlexibility'', ''ObservationDelayFlexibility''),
     (''ForgiveSlashPeriod'', ''ForgiveSlashPeriod''), (''YggFundLimit'', ''YggFundLimit''),
     (''YggFundRetry'', ''YggFundRetry''), (''JailTimeKeygen'', ''JailTimeKeygen''),
     (''JailTimeKeysign'', ''JailTimeKeysign''), (''NodePauseChainBlocks'', ''NodePauseChainBlocks''),
     (''MinSwapsPerBlock'', ''MinSwapsPerBlock''), (''MaxSwapsPerBlock'', ''MaxSwapsPerBlock''),
     (''VirtualMultSynths'', ''VirtualMultSynths''), (''VirtualMultSynthsBasisPoints'', ''VirtualMultSynthsBasisPoints''),
     (''MaxSynthPerAssetDepth'', ''MaxSynthPerAssetDepth''), (''MinSlashPointsForBadValidator'', ''MinSlashPointsForBadValidator''),
     (''MaxSlashRatio'', ''MaxSlashRatio''), (''FullImpLossProtectionBlocks'', ''FullImpLossProtectionBlocks''),
     (''BondLockupPeriod'', ''BondLockupPeriod''), (''NumberOfNewNodesPerChurn'', ''NumberOfNewNodesPerChurn''),
     (''MinTxOutVolumeThreshold'', ''MinTxOutVolumeThreshold''), (''TxOutDelayRate'', ''TxOutDelayRate''),
     (''TxOutDelayMax'', ''TxOutDelayMax''), (''MaxTxOutOffset'', ''MaxTxOutOffset''),
     (''TNSRegisterFee'', ''TNSRegisterFee''), (''TNSFeeOnSale'', ''TNSFeeOnSale''),
     (''TNSFeePerBlock'', ''TNSFeePerBlock''), (''PermittedSolvencyGap'', ''PermittedSolvencyGap''),
     (''ValidatorMaxRewardRatio'', ''ValidatorMaxRewardRatio''), (''NodeOperatorFee'', ''NodeOperatorFee''),
     (''PoolDepthForYggFundingMin'', ''PoolDepthForYggFundingMin''), (''MaxNodeToChurnOutForLowVersion'', ''MaxNodeToChurnOutForLowVersion''),
     (''MayaFundPerc'', ''MayaFundPerc''), (''MinCacaoForMayaFundDist'', ''MinRuneForMayaFundDist''),
     (''WithdrawLimitTier1'', ''WithdrawLimitTier1''), (''WithdrawLimitTier2'', ''WithdrawLimitTier2''),
     (''WithdrawLimitTier3'', ''WithdrawLimitTier3''), (''WithdrawDaysTier1'', ''WithdrawDaysTier1''),
     (''WithdrawDaysTier2'', ''WithdrawDaysTier2''), (''WithdrawDaysTier3'', ''WithdrawDaysTier3''),
     (''WithdrawTier1'', ''WithdrawTier1''), (''WithdrawTier2'', ''WithdrawTier2''),
     (''WithdrawTier3'', ''WithdrawTier3''), (''InflationPercentageThreshold'', ''InflationPercentageThreshold''),
     (''InflationPoolPercentage'', ''InflationPoolPercentage''), (''InflationFormulaMulValue'', ''InflationFormulaMulValue''),
     (''InflationFormulaSumValue'', ''InflationFormulaSumValue''), (''IBCReceiveEnabled'', ''IBCReceiveEnabled''),
     (''IBCSendEnabled'', ''IBCSendEnabled''), (''SwapOutDexAggregationDisabled'', ''SwapOutDexAggregationDisabled''),
     (''POLMaxNetworkDeposit'', ''POLMaxNetworkDeposit''), (''POLMaxPoolMovement'', ''POLMaxPoolMovement''),
     (''POLSynthUtilization'', ''POLSynthUtilization''), (''POLBuffer'', ''POLBuffer''),
     (''RagnarokProcessNumOfLPPerIteration'', ''RagnarokProcessNumOfLPPerIteration''), (''SynthYieldBasisPoints'', ''SynthYieldBasisPoints''),
     (''SynthYieldCycle'', ''SynthYieldCycle''), (''MinimumL1OutboundFeeUSD'', ''MinimumL1OutboundFeeUSD''),
     (''MinimumPoolLiquidityFee'', ''MinimumPoolLiquidityFee''), (''SubsidizeReserveMultiplier'', ''SubsidizeReserveMultiplier''),
     (''LiquidityAuction'', ''LiquidityAuction''), (''IncentiveCurveControl'', ''IncentiveCurveControl''),
     (''FullImpLossProtectionBlocksTimes4'', ''FullImpLossProtectionBlocksTimes4''), (''ZeroImpLossProtectionBlocks'', ''ZeroImpLossProtectionBlocks''),
     (''AllowWideBlame'', ''AllowWideBlame'')
    ]"

definition ConstantName_String :: "constant_name \<Rightarrow> string" where
  "ConstantName_String cn = (case map_of nameToString cn of None \<Rightarrow> ''NA'' | Some v \<Rightarrow> v)"

record ConstantVals =
  int64values :: "(constant_name \<times> int) list"
  boolValues :: "(constant_name \<times> bool) list"
  stringValues :: "(constant_name \<times> string) list"

definition NewConstantValue102 :: ConstantVals where
  "NewConstantValue102 = \<lparr>
    int64values = [
     (''BlocksPerDay'', 14400), (''BlocksPerYear'', 5256000),
     (''OutboundTransactionFee'', 2000000000), (''NativeTransactionFee'', 2000000000),
     (''PoolCycle'', 43200), (''StagedPoolCost'', 100000000000),
     (''KillSwitchStart'', 0), (''KillSwitchDuration'', 0),
     (''MinCacaoPoolDepth'', 100000000000000), (''MaxAvailablePools'', 100),
     (''MinimumNodesForYggdrasil'', 6), (''MinimumNodesForBFT'', 4),
     (''DesiredValidatorSet'', 100), (''AsgardSize'', 40),
     (''FundMigrationInterval'', 360), (''ChurnInterval'', 43200),
     (''ChurnRetryInterval'', 720), (''BadValidatorRedline'', 3),
     (''BadValidatorRate'', 43200), (''OldValidatorRate'', 43200),
     (''LowBondValidatorRate'', 43200), (''LackOfObservationPenalty'', 2),
     (''SigningTransactionPeriod'', 300), (''DoubleSignMaxAge'', 23),
     (''PauseBond'', 0), (''PauseUnbond'', 0),
     (''MinimumBondInCacao'', 100000000000000), (''MaxBondProviders'', 2),
     (''MaxOutboundAttempts'', 0), (''SlashPenalty'', 15000),
     (''PauseOnSlashThreshold'', 1000000000000), (''FailKeygenSlashPoints'', 720),
     (''FailKeysignSlashPoints'', 2), (''LiquidityLockUpBlocks'', 0),
     (''ObserveSlashPoints'', 1), (''ObservationDelayFlexibility'', 10),
     (''ForgiveSlashPeriod'', 17280), (''YggFundLimit'', 50),
     (''YggFundRetry'', 1000), (''JailTimeKeygen'', 4320),
     (''JailTimeKeysign'', 60), (''NodePauseChainBlocks'', 720),
     (''NodeOperatorFee'', 3300), (''MinSwapsPerBlock'', 10),
     (''MaxSwapsPerBlock'', 100), (''MaxSlashRatio'', 25),
     (''VirtualMultSynths'', 2), (''VirtualMultSynthsBasisPoints'', 10000),
     (''MaxSynthPerAssetDepth'', 3300), (''MinSlashPointsForBadValidator'', 100),
     (''FullImpLossProtectionBlocks'', 2160000), (''FullImpLossProtectionBlocksTimes4'', 6480000),
     (''ZeroImpLossProtectionBlocks'', 720000), (''MinTxOutVolumeThreshold'', 10000000000000),
     (''TxOutDelayRate'', 250000000000), (''TxOutDelayMax'', 17280),
     (''MaxTxOutOffset'', 720), (''TNSRegisterFee'', 100000000000),
     (''TNSFeeOnSale'', 1000), (''TNSFeePerBlock'', 2000),
     (''PermittedSolvencyGap'', 100), (''ValidatorMaxRewardRatio'', 1),
     (''PoolDepthForYggFundingMin'', 5000000000000000), (''MaxNodeToChurnOutForLowVersion'', 1),
     (''MayaFundPerc'', 10), (''MinCacaoForMayaFundDist'', 10000000000),
     (''WithdrawLimitTier1'', 50), (''WithdrawLimitTier2'', 150),
     (''WithdrawLimitTier3'', 450), (''WithdrawDaysTier1'', 200),
     (''WithdrawDaysTier2'', 90), (''WithdrawDaysTier3'', 30),
     (''WithdrawTier1'', 1), (''WithdrawTier2'', 2),
     (''WithdrawTier3'', 3), (''InflationPercentageThreshold'', 9000),
     (''InflationPoolPercentage'', 50), (''InflationFormulaMulValue'', 4000),
     (''InflationFormulaSumValue'', 100), (''POLMaxNetworkDeposit'', 0),
     (''POLMaxPoolMovement'', 100), (''POLSynthUtilization'', 0),
     (''POLBuffer'', 0), (''RagnarokProcessNumOfLPPerIteration'', 200),
     (''SynthYieldBasisPoints'', 5000), (''SynthYieldCycle'', 0),
     (''MinimumL1OutboundFeeUSD'', 1), (''MinimumPoolLiquidityFee'', 0),
     (''SubsidizeReserveMultiplier'', 100), (''AllowWideBlame'', 0)],
    boolValues = [(''StrictBondLiquidityRatio'', False)],
    stringValues = [(''DefaultPoolStatus'', ''Staged'')]\<rparr>"

definition NewConstantValue010 :: ConstantVals where
  "NewConstantValue010 = \<lparr>
    int64values = [
     (''BlocksPerDay'', 14400), (''BlocksPerYear'', 5256000),
     (''OutboundTransactionFee'', 2000000), (''NativeTransactionFee'', 2000000),
     (''PoolCycle'', 43200), (''StagedPoolCost'', 1000000000),
     (''KillSwitchStart'', 0), (''KillSwitchDuration'', 0),
     (''MinCacaoPoolDepth'', 1000000000000), (''MaxAvailablePools'', 100),
     (''MinimumNodesForYggdrasil'', 6), (''MinimumNodesForBFT'', 4),
     (''DesiredValidatorSet'', 100), (''AsgardSize'', 40),
     (''FundMigrationInterval'', 360), (''ChurnInterval'', 43200),
     (''ChurnRetryInterval'', 720), (''BadValidatorRedline'', 3),
     (''BadValidatorRate'', 43200), (''OldValidatorRate'', 43200),
     (''LowBondValidatorRate'', 43200), (''LackOfObservationPenalty'', 2),
     (''SigningTransactionPeriod'', 300), (''DoubleSignMaxAge'', 23),
     (''PauseBond'', 0), (''PauseUnbond'', 0),
     (''MinimumBondInCacao'', 1000000000000), (''MaxBondProviders'', 6),
     (''MaxOutboundAttempts'', 0), (''SlashPenalty'', 15000),
     (''PauseOnSlashThreshold'', 10000000000), (''FailKeygenSlashPoints'', 720),
     (''FailKeysignSlashPoints'', 2), (''LiquidityLockUpBlocks'', 0),
     (''ObserveSlashPoints'', 1), (''ObservationDelayFlexibility'', 10),
     (''ForgiveSlashPeriod'', 17280), (''YggFundLimit'', 50),
     (''YggFundRetry'', 1000), (''JailTimeKeygen'', 4320),
     (''JailTimeKeysign'', 60), (''NodePauseChainBlocks'', 720),
     (''NodeOperatorFee'', 500), (''MinSwapsPerBlock'', 10),
     (''MaxSwapsPerBlock'', 100), (''MaxSlashRatio'', 25),
     (''VirtualMultSynths'', 2), (''VirtualMultSynthsBasisPoints'', 10000),
     (''MaxSynthPerAssetDepth'', 3300), (''MinSlashPointsForBadValidator'', 100),
     (''FullImpLossProtectionBlocks'', 2160000), (''FullImpLossProtectionBlocksTimes4'', 6480000),
     (''ZeroImpLossProtectionBlocks'', 720000), (''MinTxOutVolumeThreshold'', 100000000000),
     (''TxOutDelayRate'', 2500000000), (''TxOutDelayMax'', 17280),
     (''MaxTxOutOffset'', 720), (''TNSRegisterFee'', 1000000000),
     (''TNSFeeOnSale'', 1000), (''TNSFeePerBlock'', 20),
     (''PermittedSolvencyGap'', 100), (''ValidatorMaxRewardRatio'', 1),
     (''PoolDepthForYggFundingMin'', 50000000000000), (''MaxNodeToChurnOutForLowVersion'', 1),
     (''MayaFundPerc'', 10), (''MinCacaoForMayaFundDist'', 100000000),
     (''WithdrawLimitTier1'', 50), (''WithdrawLimitTier2'', 150),
     (''WithdrawLimitTier3'', 450), (''WithdrawDaysTier1'', 200),
     (''WithdrawDaysTier2'', 90), (''WithdrawDaysTier3'', 30),
     (''WithdrawTier1'', 1), (''WithdrawTier2'', 2),
     (''WithdrawTier3'', 3), (''InflationPercentageThreshold'', 9000),
     (''InflationPoolPercentage'', 50), (''InflationFormulaMulValue'', 4000),
     (''InflationFormulaSumValue'', 100), (''POLMaxNetworkDeposit'', 0),
     (''POLMaxPoolMovement'', 100), (''POLSynthUtilization'', 0),
     (''POLBuffer'', 0), (''RagnarokProcessNumOfLPPerIteration'', 200),
     (''SynthYieldBasisPoints'', 5000), (''SynthYieldCycle'', 0),
     (''MinimumL1OutboundFeeUSD'', 1), (''MinimumPoolLiquidityFee'', 0),
     (''SubsidizeReserveMultiplier'', 100)],
    boolValues = [(''StrictBondLiquidityRatio'', False)],
    stringValues = [(''DefaultPoolStatus'', ''Staged'')]\<rparr>"

definition GetInt64Value :: "(constant_name \<rightharpoonup> int) \<Rightarrow> ConstantVals \<Rightarrow> constant_name \<Rightarrow> int" where
  "GetInt64Value int64Overrides cv name =
     (case int64Overrides name of
        Some v \<Rightarrow> v
      | None \<Rightarrow> (case map_of (int64values cv) name of None \<Rightarrow> 0 | Some v \<Rightarrow> v))"

definition GetBoolValue :: "(constant_name \<rightharpoonup> bool) \<Rightarrow> ConstantVals \<Rightarrow> constant_name \<Rightarrow> bool" where
  "GetBoolValue boolOverrides cv name =
     (case boolOverrides name of
        Some v \<Rightarrow> v
      | None \<Rightarrow> (case map_of (boolValues cv) name of None \<Rightarrow> False | Some v \<Rightarrow> v))"

definition GetStringValue :: "(constant_name \<rightharpoonup> string) \<Rightarrow> ConstantVals \<Rightarrow> constant_name \<Rightarrow> string" where
  "GetStringValue stringOverrides cv name =
     (case stringOverrides name of
        Some v \<Rightarrow> v
      | None \<Rightarrow> (case map_of (stringValues cv) name of None \<Rightarrow> [] | Some v \<Rightarrow> v))"

definition MaxMemoSize :: nat where
  "MaxMemoSize = 250"

lemma ForgiveSlashPeriod_value:
  "GetInt64Value Map.empty NewConstantValue102 ''ForgiveSlashPeriod'' = 17280"
  by code_simp

lemma ForgiveSlashPeriod_iota: "constant_iota ''ForgiveSlashPeriod'' = 41"
  by code_simp

end
