(* ===== verification/Nodes.thy ===== *)
theory Nodes
  imports Coins Constants
begin

text \<open>
  Public keys, node accounts and bond providers (\<open>common/pubkey.go\<close>,
  \<open>x/mayachain/types/type_node_account.go\<close>), and the addresses of \<open>common/address.go\<close> as
  far as they are plain string functions. Whether a string is a bech32 public key is decided by
  the SDK, the field \<open>pubkey_ok\<close> of the parameter.
\<close>

type_synonym pub_key = string
type_synonym address = string
type_synonym tx_id = string

definition Address_Equals :: "address \<Rightarrow> address \<Rightarrow> bool" where
  "Address_Equals addr addr2 \<longleftrightarrow> equalFold addr addr2"

definition Address_IsEmpty :: "address \<Rightarrow> bool" where
  "Address_IsEmpty addr \<longleftrightarrow> trimSpace addr = ''''"

definition NoopAddress :: address where
  "NoopAddress = ''noop''"

definition Address_IsNoop :: "address \<Rightarrow> bool" where
  "Address_IsNoop addr \<longleftrightarrow> Address_Equals addr NoopAddress"

definition NewPubKey :: "sdk \<Rightarrow> string \<Rightarrow> go_error + pub_key" where
  "NewPubKey S key =
     (if length key = 0 then Inr ''''
      else if \<not> pubkey_ok S key then Inl (GoError ''not bech32 encoded pub key'')
      else Inr key)"

definition PubKey_IsEmpty :: "pub_key \<Rightarrow> bool" where
  "PubKey_IsEmpty pk \<longleftrightarrow> length pk = 0"

definition PubKeys_Contains :: "pub_key list \<Rightarrow> pub_key \<Rightarrow> bool" where
  "PubKeys_Contains pks pk \<longleftrightarrow> list_ex (\<lambda>p. p = pk) pks"

definition PubKeys_Equals :: "pub_key list \<Rightarrow> pub_key list \<Rightarrow> bool" where
  "PubKeys_Equals pks newPks =
     (if length pks \<noteq> length newPks then False
      else let source = sort pks; dest = sort newPks in list_all2 (=) source dest)"

fun PubKeys_Valid :: "sdk \<Rightarrow> pub_key list \<Rightarrow> check" where
  "PubKeys_Valid S [] = None"
| "PubKeys_Valid S (pk # pks) =
     (case NewPubKey S pk of Inl e \<Rightarrow> Some e | Inr _ \<Rightarrow> PubKeys_Valid S pks)"

text \<open>The keys a list of strings parses to; a string that does not parse is skipped.\<close>

definition parse_pubkeys :: "sdk \<Rightarrow> string list \<Rightarrow> pub_key list" where
  "parse_pubkeys S raw =
     List.map_filter (\<lambda>k. case NewPubKey S k of Inl _ \<Rightarrow> None | Inr pk \<Rightarrow> Some pk) raw"

record PubKeySet =
  Secp256k1 :: pub_key
  Ed25519 :: pub_key

definition PubKeySet_IsEmpty :: "PubKeySet \<Rightarrow> bool" where
  "PubKeySet_IsEmpty pks \<longleftrightarrow> PubKey_IsEmpty (Secp256k1 pks) \<or> PubKey_IsEmpty (Ed25519 pks)"

definition PubKeySet_Equals :: "PubKeySet \<Rightarrow> PubKeySet \<Rightarrow> bool" where
  "PubKeySet_Equals pks pks1 \<longleftrightarrow> Ed25519 pks = Ed25519 pks1 \<and> Secp256k1 pks = Secp256k1 pks1"

definition PubKeySet_Contains :: "PubKeySet \<Rightarrow> pub_key \<Rightarrow> bool" where
  "PubKeySet_Contains pks pk \<longleftrightarrow> Ed25519 pks = pk \<or> Secp256k1 pks = pk"

section \<open>Node accounts\<close>

datatype NodeStatus =
  NodeStatus_Unknown | NodeStatus_Whitelisted | NodeStatus_Standby | NodeStatus_Ready
  | NodeStatus_Active | NodeStatus_Disabled

datatype NodeType = NodeType_TypeValidator | NodeType_TypeVault | NodeType_TypeUnknown

record NodeAccount =
  NA_NodeAddress :: acc_address
  NA_Status :: NodeStatus
  NA_PubKeySet :: PubKeySet
  NA_AztecAddress :: address
  NA_ValidatorConsPubKey :: string
  NA_Bond :: nat
  NA_ActiveBlockHeight :: int
  NA_BondAddress :: address
  NA_StatusSince :: int
  NA_SignerMembership :: "string list"
  NA_RequestedToLeave :: bool
  NA_ForcedToLeave :: bool
  NA_LeaveScore :: nat
  NA_IPAddress :: string
  NA_Version :: string
  NA_Type :: NodeType
  NA_Reward :: nat

definition NodeAccount_UpdateStatus :: "NodeAccount \<Rightarrow> NodeStatus \<Rightarrow> int \<Rightarrow> NodeAccount" where
  "NodeAccount_UpdateStatus m status height =
     (if NA_Status m = status then m
      else
        let m' = m\<lparr>NA_Status := status, NA_StatusSince := height\<rparr>
        in if status \<noteq> NodeStatus_Active then m'\<lparr>NA_ActiveBlockHeight := 0\<rparr> else m')"

definition NewNodeAccount ::
  "acc_address \<Rightarrow> NodeStatus \<Rightarrow> PubKeySet \<Rightarrow> string \<Rightarrow> address \<Rightarrow> nat \<Rightarrow> address \<Rightarrow> int \<Rightarrow> NodeAccount"
where
  "NewNodeAccount nodeAddress status nodePubKeySet validatorConsPubKey aztecAddress bond
       bondAddress height =
     NodeAccount_UpdateStatus
       \<lparr>NA_NodeAddress = nodeAddress, NA_Status = NodeStatus_Unknown, NA_PubKeySet = nodePubKeySet,
        NA_AztecAddress = aztecAddress, NA_ValidatorConsPubKey = validatorConsPubKey,
        NA_Bond = bond, NA_ActiveBlockHeight = 0, NA_BondAddress = bondAddress,
        NA_StatusSince = 0, NA_SignerMembership = [], NA_RequestedToLeave = False,
        NA_ForcedToLeave = False, NA_LeaveScore = 0, NA_IPAddress = '''', NA_Version = '''',
        NA_Type = NodeType_TypeValidator, NA_Reward = 0\<rparr> status height"

definition NodeAccount_IsEmpty :: "NodeAccount \<Rightarrow> bool" where
  "NodeAccount_IsEmpty m \<longleftrightarrow> NA_NodeAddress m = [] \<or> NA_Status m = NodeStatus_Unknown"

definition NodeAccount_Valid :: "NodeAccount \<Rightarrow> check" where
  "NodeAccount_Valid m =
     (if NA_NodeAddress m = [] then fails ''node thor address is empty''
      else if Address_IsEmpty (NA_BondAddress m) then fails ''bond address is empty''
      else if NA_Status m = NodeStatus_Unknown then fails ''node status cannot be unknown''
      else None)"

definition NodeAccount_GetSignerMembership :: "sdk \<Rightarrow> NodeAccount \<Rightarrow> pub_key list" where
  "NodeAccount_GetSignerMembership S m = parse_pubkeys S (NA_SignerMembership m)"

text \<open>
  \<open>float64\<close> of an integer: 53 significant bits, ties to even; and the conversion back to
  \<open>int64\<close>, which for a value out of range is what amd64 computes, the least integer.
\<close>

fun float_shift :: "nat \<Rightarrow> nat" where
  "float_shift n = (if n \<le> 2 ^ 53 then 0 else Suc (float_shift (n div 2)))"

declare float_shift.simps [simp del]

definition float64_of_int :: "int \<Rightarrow> int" where
  "float64_of_int x =
     (let e = float_shift (nat \<bar>x\<bar>) in round_div x (2 ^ e) * 2 ^ e)"

definition int64_of_float :: "int \<Rightarrow> int" where
  "int64_of_float x = (if - (2 ^ 63) \<le> x \<and> x < 2 ^ 63 then x else - (2 ^ 63))"

definition NodeAccount_CalcBondUnits :: "NodeAccount \<Rightarrow> int \<Rightarrow> int \<Rightarrow> nat" where
  "NodeAccount_CalcBondUnits m height slashpoints0 =
     (let slashpoints = int64_of_float (max 0 (float64_of_int slashpoints0)) in
      if height < 0 \<or> NA_ActiveBlockHeight m < 0 \<or> slashpoints < 0 then 0
      else
        let blockCount = wrap64 (height - wrap64 (NA_ActiveBlockHeight m + slashpoints))
        in nat (if blockCount < 0 then 0 else blockCount))"

definition NodeAccount_TryAddSignerPubKey :: "sdk \<Rightarrow> NodeAccount \<Rightarrow> pub_key \<Rightarrow> NodeAccount" where
  "NodeAccount_TryAddSignerPubKey S m key =
     (if PubKey_IsEmpty key then m
      else if list_ex (\<lambda>item. item = key) (NodeAccount_GetSignerMembership S m) then m
      else m\<lparr>NA_SignerMembership := NA_SignerMembership m @ [key]\<rparr>)"

definition NodeAccount_TryRemoveSignerPubKey :: "sdk \<Rightarrow> NodeAccount \<Rightarrow> pub_key \<Rightarrow> NodeAccount" where
  "NodeAccount_TryRemoveSignerPubKey S m key =
     (if PubKey_IsEmpty key then m
      else case last_index (\<lambda>item. item = key) (NodeAccount_GetSignerMembership S m) of
             None \<Rightarrow> m
           | Some idxToDelete \<Rightarrow>
               m\<lparr>NA_SignerMembership := delete_at idxToDelete (NA_SignerMembership m)\<rparr>)"

type_synonym node_accounts = "NodeAccount list"

definition NodeAccounts_IsNodeKeys :: "node_accounts \<Rightarrow> acc_address \<Rightarrow> bool" where
  "NodeAccounts_IsNodeKeys nas addr \<longleftrightarrow>
     list_ex (\<lambda>na. NA_Status na = NodeStatus_Active \<and> addr = NA_NodeAddress na) nas"

definition NodeAccounts_Less :: "sdk \<Rightarrow> node_accounts \<Rightarrow> nat \<Rightarrow> nat \<Rightarrow> bool" where
  "NodeAccounts_Less S nas i j =
     (if NA_StatusSince (nas ! i) < NA_StatusSince (nas ! j) then True
      else if NA_StatusSince (nas ! i) > NA_StatusSince (nas ! j) then False
      else acc_string S (NA_NodeAddress (nas ! i)) < acc_string S (NA_NodeAddress (nas ! j)))"

definition NodeAccounts_GetNodeAddresses :: "node_accounts \<Rightarrow> acc_address list" where
  "NodeAccounts_GetNodeAddresses nas = map NA_NodeAddress nas"

section \<open>Bond providers\<close>

record BondProvider =
  BP_BondAddress :: acc_address
  BP_Bonded :: bool

record BondProviders =
  BPS_NodeAddress :: acc_address
  BPS_NodeOperatorFee :: nat
  BPS_Providers :: "BondProvider list"

definition NewBondProviders :: "acc_address \<Rightarrow> BondProviders" where
  "NewBondProviders acc =
     \<lparr>BPS_NodeAddress = acc, BPS_NodeOperatorFee = 0, BPS_Providers = []\<rparr>"

definition NewBondProvider :: "acc_address \<Rightarrow> BondProvider" where
  "NewBondProvider acc = \<lparr>BP_BondAddress = acc, BP_Bonded = False\<rparr>"

definition BondProvider_IsEmpty :: "BondProvider \<Rightarrow> bool" where
  "BondProvider_IsEmpty m \<longleftrightarrow> BP_BondAddress m = []"

definition BondProviders_Get :: "BondProviders \<Rightarrow> acc_address \<Rightarrow> BondProvider" where
  "BondProviders_Get bp acc =
     (case find (\<lambda>p. BP_BondAddress p = acc) (BPS_Providers bp) of
        Some provider \<Rightarrow> provider
      | None \<Rightarrow> \<lparr>BP_BondAddress = [], BP_Bonded = False\<rparr>)"

definition BondProviders_Has :: "BondProviders \<Rightarrow> acc_address \<Rightarrow> bool" where
  "BondProviders_Has bp acc \<longleftrightarrow> \<not> BondProvider_IsEmpty (BondProviders_Get bp acc)"

definition BondProviders_BondLiquidity :: "BondProviders \<Rightarrow> acc_address \<Rightarrow> BondProviders" where
  "BondProviders_BondLiquidity bp acc =
     bp\<lparr>BPS_Providers :=
       update_first (\<lambda>p. BP_BondAddress p = acc) (\<lambda>p. p\<lparr>BP_Bonded := True\<rparr>) (BPS_Providers bp)\<rparr>"

definition BondProviders_Unbond :: "BondProviders \<Rightarrow> acc_address \<Rightarrow> BondProviders" where
  "BondProviders_Unbond bp acc =
     bp\<lparr>BPS_Providers :=
       update_first (\<lambda>p. BP_BondAddress p = acc) (\<lambda>p. p\<lparr>BP_Bonded := False\<rparr>) (BPS_Providers bp)\<rparr>"

text \<open>The removal loop skips index 0, the node operator, and deletes the first match after it.\<close>

definition BondProviders_Remove :: "BondProviders \<Rightarrow> acc_address \<Rightarrow> bool \<times> BondProviders" where
  "BondProviders_Remove bp acc =
     (case BPS_Providers bp of
        [] \<Rightarrow> (False, bp)
      | p0 # ps \<Rightarrow>
          (case first_index (\<lambda>p. BP_BondAddress p = acc \<and> \<not> BP_Bonded p) ps of
             None \<Rightarrow> (False, bp)
           | Some i \<Rightarrow> (True, bp\<lparr>BPS_Providers := delete_at (Suc i) (p0 # ps)\<rparr>)))"

definition BondProviders_HasProviderBonded :: "BondProviders \<Rightarrow> acc_address \<Rightarrow> bool" where
  "BondProviders_HasProviderBonded bp opBondAddress \<longleftrightarrow>
     list_ex (\<lambda>p. BP_BondAddress p \<noteq> opBondAddress \<and> BP_Bonded p) (BPS_Providers bp)"

section \<open>Lemmas\<close>

lemma float64_exact: "\<bar>x\<bar> \<le> 2 ^ 53 \<Longrightarrow> float64_of_int x = x"
proof -
  assume "\<bar>x\<bar> \<le> 2 ^ 53"
  then have "float_shift (nat \<bar>x\<bar>) = 0" by (simp add: float_shift.simps nat_le_iff)
  then show ?thesis by (simp add: float64_of_int_def round_div_def)
qed

lemma parse_pubkeys_all_ok:
  "list_all (pubkey_ok S) raw \<Longrightarrow> parse_pubkeys S raw = raw"
  by (induction raw) (auto simp: parse_pubkeys_def NewPubKey_def List.map_filter_def)

section \<open>Properties\<close>

text \<open>For heights and slash points in the exact range of \<open>float64\<close>, the bond units of a
  node are the blocks it was active less its slash points, never below zero; negative slash points
  count as zero, so nobody earns units from them.\<close>

lemma CalcBondUnits_value:
  assumes "0 \<le> height" "height < 2 ^ 62" "0 \<le> NA_ActiveBlockHeight m"
    "NA_ActiveBlockHeight m < 2 ^ 62" "\<bar>slashpoints\<bar> \<le> 2 ^ 53"
  shows "NodeAccount_CalcBondUnits m height slashpoints
    = nat (height - NA_ActiveBlockHeight m - max 0 slashpoints)"
proof -
  let ?a = "NA_ActiveBlockHeight m" and ?s = "max 0 slashpoints"
  have s: "int64_of_float (max 0 (float64_of_int slashpoints)) = ?s"
    using assms(5) by (auto simp: float64_exact int64_of_float_def max_def)
  have "wrap64 (?a + ?s) = ?a + ?s" "wrap64 (height - (?a + ?s)) = height - (?a + ?s)"
    using assms by (simp_all add: wrap64_id)
  then show ?thesis using s assms(1,3)
    by (simp add: NodeAccount_CalcBondUnits_def Let_def diff_diff_eq)
qed

text \<open>\<open>TryRemoveSignerPubKey\<close> after \<open>TryAddSignerPubKey\<close> of a new key restores the
  membership, as long as every stored key parses.\<close>

lemma SignerPubKey_add_remove:
  assumes "list_all (pubkey_ok S) (NA_SignerMembership m)" and "pubkey_ok S key" and "key \<noteq> []"
    and "key \<notin> set (NA_SignerMembership m)"
  shows "NodeAccount_TryRemoveSignerPubKey S (NodeAccount_TryAddSignerPubKey S m key) key = m"
proof -
  let ?ms = "NA_SignerMembership m"
  have p: "parse_pubkeys S ?ms = ?ms" "parse_pubkeys S (?ms @ [key]) = ?ms @ [key]"
    using assms by (simp_all add: parse_pubkeys_all_ok)
  have "\<not> list_ex (\<lambda>item. item = key) ?ms" using assms(4) by (auto simp: list_ex_iff)
  then have "NodeAccount_TryAddSignerPubKey S m key = m\<lparr>NA_SignerMembership := ?ms @ [key]\<rparr>"
    using assms(3) p by (simp add: NodeAccount_TryAddSignerPubKey_def PubKey_IsEmpty_def
        NodeAccount_GetSignerMembership_def)
  moreover have "last_index (\<lambda>item. item = key) (?ms @ [key]) = Some (length ?ms)"
    by (simp add: last_index_def)
  ultimately show ?thesis
    using assms(3) p by (simp add: NodeAccount_TryRemoveSignerPubKey_def PubKey_IsEmpty_def
        NodeAccount_GetSignerMembership_def delete_at_def)
qed

definition sample_node :: "string list \<Rightarrow> NodeAccount" where
  "sample_node membership =
     (NewNodeAccount ''a'' NodeStatus_Active \<lparr>Secp256k1 = '''', Ed25519 = ''''\<rparr> '''' '''' 0 '''' 5)
       \<lparr>NA_SignerMembership := membership\<rparr>"

text \<open>\<open>TryRemoveSignerPubKey\<close> looks the key up in the list of keys that parse but deletes
  at that index in the raw list: with an entry that does not parse before the key, another entry
  is deleted and the key stays.\<close>

lemma TryRemoveSignerPubKey_wrong_entry:
  "NA_SignerMembership
     (NodeAccount_TryRemoveSignerPubKey sdk256 (sample_node [''junk'', ''pub1'']) ''pub1'')
   = [''pub1'']"
  by (simp add: sample_node_def NodeAccount_TryRemoveSignerPubKey_def PubKey_IsEmpty_def
      NodeAccount_GetSignerMembership_def parse_pubkeys_def NewPubKey_def sdk256_def
      List.map_filter_def last_index_def delete_at_def)

text \<open>The node operator, the first provider, is never removed, and a provider that has bonded
  is never removed.\<close>

lemma BondProviders_Remove_safe:
  assumes "BondProviders_Remove bp acc = (True, bp')"
  shows "\<exists>p0 ps ps'. BPS_Providers bp = p0 # ps \<and> BPS_Providers bp' = p0 # ps'
    \<and> (\<forall>p \<in> set ps. BP_Bonded p \<longrightarrow> p \<in> set ps') \<and> Suc (length ps') = length ps"
proof -
  obtain p0 ps i where p: "BPS_Providers bp = p0 # ps"
    and i: "first_index (\<lambda>p. BP_BondAddress p = acc \<and> \<not> BP_Bonded p) ps = Some i"
    and bp': "bp' = bp\<lparr>BPS_Providers := delete_at (Suc i) (p0 # ps)\<rparr>"
    using assms by (auto simp: BondProviders_Remove_def split: list.splits option.splits)
  have i': "i < length ps" "\<not> BP_Bonded (ps ! i)" using first_index_Some [OF i] by simp_all
  have split: "ps = take i ps @ ps ! i # drop (Suc i) ps" using i'(1) by (rule id_take_nth_drop)
  have "\<forall>p \<in> set ps. BP_Bonded p \<longrightarrow> p \<in> set (delete_at i ps)"
    using i'(2) by (subst split) (auto simp: delete_at_def)
  moreover have "Suc (length (delete_at i ps)) = length ps"
    using i'(1) by (simp add: delete_at_def)
  ultimately show ?thesis
    using p bp' by (intro exI [of _ p0] exI [of _ ps] exI [of _ "delete_at i ps"])
      (simp add: delete_at_def)
qed

end
