(* ===== verification/Voters.thy ===== *)
theory Voters
  imports Nodes
begin

text \<open>
  The voting structures by which the nodes agree (\<open>x/mayachain/types/types.go\<close> and the
  \<open>type_*.go\<close> voters). Every voter keeps the signers as bech32 strings and reads them back
  through the SDK. The contract they share is the locale \<open>signed_voter\<close>; its consequences
  (one vote per signer, consensus independent of order and repetition, consensus kept by further
  votes) are proved once and hold for each voter by a \<open>sublocale\<close> of \<open>cosmos_sdk\<close>.
\<close>

section \<open>Majorities\<close>

text \<open>\<open>int\<close> arguments; the divisions are reached with a positive total only, where Go's
  truncating division is \<open>div\<close>.\<close>

definition HasSuperMajority :: "int \<Rightarrow> int \<Rightarrow> bool" where
  "HasSuperMajority signers tot =
     (if signers > tot then False
      else if signers \<le> 0 then False
      else
        let mn = tot * 2 div 3;
            mn' = (if (tot * 2) mod 3 > 0 then mn + 1 else mn)
        in signers \<ge> mn')"

definition HasSimpleMajority :: "int \<Rightarrow> int \<Rightarrow> bool" where
  "HasSimpleMajority signers tot =
     (if signers > tot then False
      else if signers \<le> 0 then False
      else
        let mn = tot div 2;
            mn' = (if tot mod 2 > 0 then mn + 1 else mn)
        in signers \<ge> mn')"

definition HasMinority :: "int \<Rightarrow> int \<Rightarrow> bool" where
  "HasMinority signers tot =
     (if signers > tot then False
      else if signers \<le> 0 then False
      else
        let mn = tot div 3;
            mn' = (if tot mod 3 > 0 then mn + 1 else mn)
        in signers \<ge> mn')"

section \<open>Signer lists\<close>

definition signers_of :: "sdk \<Rightarrow> string list \<Rightarrow> acc_address list" where
  "signers_of S strs = List.map_filter (acc_from_bech32 S) strs"

definition has_signed :: "sdk \<Rightarrow> string list \<Rightarrow> acc_address \<Rightarrow> bool" where
  "has_signed S strs signer \<longleftrightarrow> list_ex (\<lambda>sign. sign = signer) (signers_of S strs)"

definition sign_list :: "sdk \<Rightarrow> string list \<Rightarrow> acc_address \<Rightarrow> string list" where
  "sign_list S strs signer = strs @ [acc_string S signer]"

definition count_nodes :: "sdk \<Rightarrow> string list \<Rightarrow> node_accounts \<Rightarrow> int" where
  "count_nodes S strs nas =
     int (length (filter (NodeAccounts_IsNodeKeys nas) (signers_of S strs)))"

subsection \<open>Ban voter\<close>

record BanVoter =
  BV_NodeAddress :: acc_address
  BV_BlockHeight :: int
  BV_Signers :: "string list"

definition NewBanVoter :: "acc_address \<Rightarrow> BanVoter" where
  "NewBanVoter addr = \<lparr>BV_NodeAddress = addr, BV_BlockHeight = 0, BV_Signers = []\<rparr>"

definition BanVoter_Valid :: "BanVoter \<Rightarrow> check" where
  "BanVoter_Valid m =
     (if BV_NodeAddress m = [] then fails ''node address is empty''
      else if BV_BlockHeight m \<le> 0
        then fails ''block height cannot be equal to or less than zero''
      else None)"

definition BanVoter_GetSigners :: "sdk \<Rightarrow> BanVoter \<Rightarrow> acc_address list" where
  "BanVoter_GetSigners S m = signers_of S (BV_Signers m)"

definition BanVoter_HasSigned :: "sdk \<Rightarrow> BanVoter \<Rightarrow> acc_address \<Rightarrow> bool" where
  "BanVoter_HasSigned S m signer = has_signed S (BV_Signers m) signer"

definition BanVoter_Sign :: "sdk \<Rightarrow> BanVoter \<Rightarrow> acc_address \<Rightarrow> BanVoter" where
  "BanVoter_Sign S m signer =
     (if \<not> BanVoter_HasSigned S m signer
      then m\<lparr>BV_Signers := sign_list S (BV_Signers m) signer\<rparr> else m)"

definition BanVoter_HasConsensus :: "sdk \<Rightarrow> BanVoter \<Rightarrow> node_accounts \<Rightarrow> bool" where
  "BanVoter_HasConsensus S m nas =
     HasSuperMajority (count_nodes S (BV_Signers m) nas) (int (length nas))"

subsection \<open>Errata transaction voter\<close>

record ErrataTxVoter =
  EV_TxID :: tx_id
  EV_Chain :: chain
  EV_BlockHeight :: int
  EV_Signers :: "string list"

definition NewErrataTxVoter :: "tx_id \<Rightarrow> chain \<Rightarrow> ErrataTxVoter" where
  "NewErrataTxVoter txID c =
     \<lparr>EV_TxID = txID, EV_Chain = c, EV_BlockHeight = 0, EV_Signers = []\<rparr>"

definition ErrataTxVoter_GetSigners :: "sdk \<Rightarrow> ErrataTxVoter \<Rightarrow> acc_address list" where
  "ErrataTxVoter_GetSigners S m = signers_of S (EV_Signers m)"

definition ErrataTxVoter_HasSigned :: "sdk \<Rightarrow> ErrataTxVoter \<Rightarrow> acc_address \<Rightarrow> bool" where
  "ErrataTxVoter_HasSigned S m signer = has_signed S (EV_Signers m) signer"

definition ErrataTxVoter_Sign :: "sdk \<Rightarrow> ErrataTxVoter \<Rightarrow> acc_address \<Rightarrow> bool \<times> ErrataTxVoter" where
  "ErrataTxVoter_Sign S m signer =
     (if ErrataTxVoter_HasSigned S m signer then (False, m)
      else (True, m\<lparr>EV_Signers := sign_list S (EV_Signers m) signer\<rparr>))"

definition ErrataTxVoter_HasConsensus :: "sdk \<Rightarrow> ErrataTxVoter \<Rightarrow> node_accounts \<Rightarrow> bool" where
  "ErrataTxVoter_HasConsensus S m nas =
     HasSuperMajority (count_nodes S (EV_Signers m) nas) (int (length nas))"

definition ErrataTxVoter_Empty :: "ErrataTxVoter \<Rightarrow> bool" where
  "ErrataTxVoter_Empty m \<longleftrightarrow> trimSpace (EV_TxID m) = '''' \<or> Chain_IsEmpty (EV_Chain m)"

definition ErrataTxVoter_String :: "ErrataTxVoter \<Rightarrow> string" where
  "ErrataTxVoter_String m = Chain_String (EV_Chain m) @ ''-'' @ EV_TxID m"

subsection \<open>Forgive-slash voter\<close>

record ForgiveSlashVoter =
  FV_NodeAddress :: acc_address
  FV_BlockHeight :: int
  FV_ProposedBlockHeight :: int
  FV_Signers :: "string list"

definition NewForgiveSlashVoter :: "acc_address \<Rightarrow> ForgiveSlashVoter" where
  "NewForgiveSlashVoter addr =
     \<lparr>FV_NodeAddress = addr, FV_BlockHeight = 0, FV_ProposedBlockHeight = 0, FV_Signers = []\<rparr>"

definition ForgiveSlashVoter_Valid :: "ForgiveSlashVoter \<Rightarrow> check" where
  "ForgiveSlashVoter_Valid m =
     (if FV_NodeAddress m = [] then fails ''node address is empty''
      else if FV_BlockHeight m \<le> 0
        then fails ''block height cannot be equal to or less than zero''
      else None)"

definition ForgiveSlashVoter_GetSigners :: "sdk \<Rightarrow> ForgiveSlashVoter \<Rightarrow> acc_address list" where
  "ForgiveSlashVoter_GetSigners S m = signers_of S (FV_Signers m)"

definition ForgiveSlashVoter_HasSigned :: "sdk \<Rightarrow> ForgiveSlashVoter \<Rightarrow> acc_address \<Rightarrow> bool" where
  "ForgiveSlashVoter_HasSigned S m signer = has_signed S (FV_Signers m) signer"

definition ForgiveSlashVoter_Sign ::
  "sdk \<Rightarrow> ForgiveSlashVoter \<Rightarrow> acc_address \<Rightarrow> ForgiveSlashVoter" where
  "ForgiveSlashVoter_Sign S m signer =
     (if \<not> ForgiveSlashVoter_HasSigned S m signer
      then m\<lparr>FV_Signers := sign_list S (FV_Signers m) signer\<rparr> else m)"

definition ForgiveSlashVoter_HasConsensus ::
  "sdk \<Rightarrow> ForgiveSlashVoter \<Rightarrow> node_accounts \<Rightarrow> bool" where
  "ForgiveSlashVoter_HasConsensus S m nas =
     HasSuperMajority (count_nodes S (FV_Signers m) nas) (int (length nas))"

text \<open>\<open>int64(constants.ForgiveSlashPeriod)\<close> converts the name of the constant, not its value.\<close>

definition ForgiveSlashVoter_HasExpired :: "ForgiveSlashVoter \<Rightarrow> int \<Rightarrow> bool" where
  "ForgiveSlashVoter_HasExpired m blockHeight \<longleftrightarrow>
     wrap64 (blockHeight - FV_ProposedBlockHeight m) > constant_iota ''ForgiveSlashPeriod''"

subsection \<open>Network fee, solvency and key-signing failure voters\<close>

record ObservedNetworkFeeVoter =
  NV_BlockHeight :: int
  NV_ReportBlockHeight :: int
  NV_Chain :: chain
  NV_Signers :: "string list"
  NV_FeeRate :: int

definition NewObservedNetworkFeeVoter :: "int \<Rightarrow> chain \<Rightarrow> ObservedNetworkFeeVoter" where
  "NewObservedNetworkFeeVoter reportBlockHeight c =
     \<lparr>NV_BlockHeight = 0, NV_ReportBlockHeight = reportBlockHeight, NV_Chain = c,
      NV_Signers = [], NV_FeeRate = 0\<rparr>"

definition NetworkFeeVoter_GetSigners :: "sdk \<Rightarrow> ObservedNetworkFeeVoter \<Rightarrow> acc_address list" where
  "NetworkFeeVoter_GetSigners S m = signers_of S (NV_Signers m)"

definition NetworkFeeVoter_HasSigned :: "sdk \<Rightarrow> ObservedNetworkFeeVoter \<Rightarrow> acc_address \<Rightarrow> bool" where
  "NetworkFeeVoter_HasSigned S m signer = has_signed S (NV_Signers m) signer"

definition NetworkFeeVoter_Sign ::
  "sdk \<Rightarrow> ObservedNetworkFeeVoter \<Rightarrow> acc_address \<Rightarrow> bool \<times> ObservedNetworkFeeVoter" where
  "NetworkFeeVoter_Sign S m signer =
     (if NetworkFeeVoter_HasSigned S m signer then (False, m)
      else (True, m\<lparr>NV_Signers := sign_list S (NV_Signers m) signer\<rparr>))"

definition NetworkFeeVoter_HasConsensus ::
  "sdk \<Rightarrow> ObservedNetworkFeeVoter \<Rightarrow> node_accounts \<Rightarrow> bool" where
  "NetworkFeeVoter_HasConsensus S m nas =
     HasSuperMajority (count_nodes S (NV_Signers m) nas) (int (length nas))"

definition NetworkFeeVoter_IsEmpty :: "ObservedNetworkFeeVoter \<Rightarrow> bool" where
  "NetworkFeeVoter_IsEmpty m \<longleftrightarrow> Chain_IsEmpty (NV_Chain m) \<and> NV_ReportBlockHeight m = 0"

definition NetworkFeeVoter_String :: "ObservedNetworkFeeVoter \<Rightarrow> string" where
  "NetworkFeeVoter_String m =
     (if NV_FeeRate m > 0
      then Chain_String (NV_Chain m) @ ''-'' @ show_int (NV_ReportBlockHeight m) @ ''-''
           @ show_int (NV_FeeRate m)
      else Chain_String (NV_Chain m) @ ''-'' @ show_int (NV_ReportBlockHeight m))"

record SolvencyVoter =
  SV_Id :: tx_id
  SV_Chain :: chain
  SV_PubKey :: pub_key
  SV_Coins :: coins
  SV_Height :: int
  SV_ConsensusBlockHeight :: int
  SV_Signers :: "string list"

definition NewSolvencyVoter ::
  "sdk \<Rightarrow> tx_id \<Rightarrow> chain \<Rightarrow> pub_key \<Rightarrow> coins \<Rightarrow> int \<Rightarrow> acc_address \<Rightarrow> SolvencyVoter" where
  "NewSolvencyVoter S i c pubKey coins height signer =
     \<lparr>SV_Id = i, SV_Chain = c, SV_PubKey = pubKey, SV_Coins = coins, SV_Height = height,
      SV_ConsensusBlockHeight = 0, SV_Signers = [acc_string S signer]\<rparr>"

definition SolvencyVoter_GetSigners :: "sdk \<Rightarrow> SolvencyVoter \<Rightarrow> acc_address list" where
  "SolvencyVoter_GetSigners S m = signers_of S (SV_Signers m)"

definition SolvencyVoter_HasSigned :: "sdk \<Rightarrow> SolvencyVoter \<Rightarrow> acc_address \<Rightarrow> bool" where
  "SolvencyVoter_HasSigned S m signer = has_signed S (SV_Signers m) signer"

definition SolvencyVoter_Sign :: "sdk \<Rightarrow> SolvencyVoter \<Rightarrow> acc_address \<Rightarrow> bool \<times> SolvencyVoter" where
  "SolvencyVoter_Sign S m signer =
     (if SolvencyVoter_HasSigned S m signer then (False, m)
      else (True, m\<lparr>SV_Signers := sign_list S (SV_Signers m) signer\<rparr>))"

definition SolvencyVoter_HasConsensus :: "sdk \<Rightarrow> SolvencyVoter \<Rightarrow> node_accounts \<Rightarrow> bool" where
  "SolvencyVoter_HasConsensus S m nas =
     HasMinority (count_nodes S (SV_Signers m) nas) (int (length nas))"

definition SolvencyVoter_Empty :: "SolvencyVoter \<Rightarrow> bool" where
  "SolvencyVoter_Empty m \<longleftrightarrow>
     trimSpace (SV_Id m) = '''' \<or> Chain_IsEmpty (SV_Chain m) \<or> SV_Height m \<le> 0
     \<or> length (SV_Signers m) = 0"

record TssKeysignFailVoter =
  KV_ID :: string
  KV_Height :: int
  KV_Signers :: "string list"

definition NewTssKeysignFailVoter :: "string \<Rightarrow> int \<Rightarrow> TssKeysignFailVoter" where
  "NewTssKeysignFailVoter i height = \<lparr>KV_ID = i, KV_Height = height, KV_Signers = []\<rparr>"

definition TssKeysignFailVoter_GetSigners :: "sdk \<Rightarrow> TssKeysignFailVoter \<Rightarrow> acc_address list" where
  "TssKeysignFailVoter_GetSigners S m = signers_of S (KV_Signers m)"

definition TssKeysignFailVoter_HasSigned ::
  "sdk \<Rightarrow> TssKeysignFailVoter \<Rightarrow> acc_address \<Rightarrow> bool" where
  "TssKeysignFailVoter_HasSigned S m signer = has_signed S (KV_Signers m) signer"

definition TssKeysignFailVoter_Sign ::
  "sdk \<Rightarrow> TssKeysignFailVoter \<Rightarrow> acc_address \<Rightarrow> bool \<times> TssKeysignFailVoter" where
  "TssKeysignFailVoter_Sign S m signer =
     (if TssKeysignFailVoter_HasSigned S m signer then (False, m)
      else (True, m\<lparr>KV_Signers := sign_list S (KV_Signers m) signer\<rparr>))"

text \<open>This voter counts every listed node, whatever its status, and asks for a simple majority.\<close>

definition TssKeysignFailVoter_HasConsensus ::
  "sdk \<Rightarrow> TssKeysignFailVoter \<Rightarrow> node_accounts \<Rightarrow> bool" where
  "TssKeysignFailVoter_HasConsensus S m nas =
     HasSimpleMajority
       (int (length (filter (\<lambda>signer. list_ex (\<lambda>item. signer = NA_NodeAddress item) nas)
          (TssKeysignFailVoter_GetSigners S m))))
       (int (length nas))"

definition TssKeysignFailVoter_Empty :: "TssKeysignFailVoter \<Rightarrow> bool" where
  "TssKeysignFailVoter_Empty m \<longleftrightarrow> length (KV_ID m) = 0 \<or> KV_Height m = 0"

subsection \<open>Key-generation voter\<close>

record TssVoter =
  TV_ID :: string
  TV_PoolPubKey :: pub_key
  TV_PubKeys :: "string list"
  TV_BlockHeight :: int
  TV_Chains :: "string list"
  TV_Signers :: "string list"
  TV_MajorityConsensusBlockHeight :: int

definition NewTssVoter :: "string \<Rightarrow> string list \<Rightarrow> pub_key \<Rightarrow> TssVoter" where
  "NewTssVoter i pks pool =
     \<lparr>TV_ID = i, TV_PoolPubKey = pool, TV_PubKeys = pks, TV_BlockHeight = 0, TV_Chains = [],
      TV_Signers = [], TV_MajorityConsensusBlockHeight = 0\<rparr>"

definition TssVoter_GetChains :: "TssVoter \<Rightarrow> chain list" where
  "TssVoter_GetChains m = parse_chains (TV_Chains m)"

definition TssVoter_GetPubKeys :: "sdk \<Rightarrow> TssVoter \<Rightarrow> pub_key list" where
  "TssVoter_GetPubKeys S m = parse_pubkeys S (TV_PubKeys m)"

definition TssVoter_GetSigners :: "sdk \<Rightarrow> TssVoter \<Rightarrow> acc_address list" where
  "TssVoter_GetSigners S m = signers_of S (TV_Signers m)"

definition TssVoter_HasSigned :: "sdk \<Rightarrow> TssVoter \<Rightarrow> acc_address \<Rightarrow> bool" where
  "TssVoter_HasSigned S m signer = has_signed S (TV_Signers m) signer"

definition TssVoter_Sign ::
  "sdk \<Rightarrow> TssVoter \<Rightarrow> acc_address \<Rightarrow> string list \<Rightarrow> bool \<times> TssVoter" where
  "TssVoter_Sign S m signer cs =
     (if TssVoter_HasSigned S m signer then (False, m)
      else if list_ex (\<lambda>pk. pubkey_acc S pk = Some signer) (TssVoter_GetPubKeys S m)
      then (True, m\<lparr>TV_Signers := sign_list S (TV_Signers m) signer,
                    TV_Chains := TV_Chains m @ cs\<rparr>)
      else (False, m))"

text \<open>The counts are kept in a map whose keys are visited in any order and then sorted by name;
  the keys are distinct upper-case names, so the sorted list is the same for every order.\<close>

definition TssVoter_ConsensusChains :: "TssVoter \<Rightarrow> chain list" where
  "TssVoter_ConsensusChains m =
     (let cs = TssVoter_GetChains m
      in sort_key Chain_String
           (filter (\<lambda>c. HasSuperMajority (int (count_list cs c)) (int (length (TV_PubKeys m))))
              (remdups cs)))"

definition TssVoter_HasCompleteConsensus :: "TssVoter \<Rightarrow> bool" where
  "TssVoter_HasCompleteConsensus m \<longleftrightarrow> length (TV_Signers m) = length (TV_PubKeys m)"

definition TssVoter_HasConsensus :: "TssVoter \<Rightarrow> bool" where
  "TssVoter_HasConsensus m =
     HasSuperMajority (int (length (TV_Signers m))) (int (length (TV_PubKeys m)))"

definition TssVoter_IsEmpty :: "TssVoter \<Rightarrow> bool" where
  "TssVoter_IsEmpty m \<longleftrightarrow>
     length (TV_ID m) = 0 \<or> length (TV_PoolPubKey m) = 0 \<or> length (TV_PubKeys m) = 0"

section \<open>What the majorities are\<close>

lemma HasSuperMajority_iff: "HasSuperMajority s t \<longleftrightarrow> 0 < s \<and> s \<le> t \<and> 2 * t \<le> 3 * s"
  unfolding HasSuperMajority_def Let_def by presburger

lemma HasSimpleMajority_iff: "HasSimpleMajority s t \<longleftrightarrow> 0 < s \<and> s \<le> t \<and> t \<le> 2 * s"
  unfolding HasSimpleMajority_def Let_def by presburger

lemma HasMinority_iff: "HasMinority s t \<longleftrightarrow> 0 < s \<and> s \<le> t \<and> t \<le> 3 * s"
  unfolding HasMinority_def Let_def by presburger

lemmas majority_iff = HasSuperMajority_iff HasSimpleMajority_iff HasMinority_iff

section \<open>The contract of a voter\<close>

locale signed_voter =
  fixes signers :: "'v \<Rightarrow> acc_address list"
    and hasSigned :: "'v \<Rightarrow> acc_address \<Rightarrow> bool"
    and sign :: "'v \<Rightarrow> acc_address \<Rightarrow> 'v"
  assumes hasSigned_iff: "hasSigned v a \<longleftrightarrow> a \<in> set (signers v)"
    and sign_new: "a \<noteq> [] \<Longrightarrow> a \<notin> set (signers v) \<Longrightarrow> signers (sign v a) = signers v @ [a]"
    and sign_old: "a \<in> set (signers v) \<Longrightarrow> sign v a = v"
begin

lemma signers_sign: "a \<noteq> [] \<Longrightarrow> set (signers (sign v a)) = insert a (set (signers v))"
  by (cases "a \<in> set (signers v)") (auto simp: sign_new sign_old)

lemma hasSigned_sign: "a \<noteq> [] \<Longrightarrow> hasSigned (sign v a) b \<longleftrightarrow> b = a \<or> hasSigned v b"
  by (simp add: hasSigned_iff signers_sign)

lemma sign_twice: "a \<noteq> [] \<Longrightarrow> sign (sign v a) a = sign v a"
  by (rule sign_old) (simp add: signers_sign)

lemma sign_distinct: "a \<noteq> [] \<Longrightarrow> distinct (signers v) \<Longrightarrow> distinct (signers (sign v a))"
  by (cases "a \<in> set (signers v)") (auto simp: sign_new sign_old)

lemma votes_signers:
  "[] \<notin> set votes \<Longrightarrow> set (signers (fold (\<lambda>a v. sign v a) votes v)) = set (signers v) \<union> set votes"
  by (induction votes arbitrary: v) (auto simp: signers_sign)

lemma votes_distinct:
  "[] \<notin> set votes \<Longrightarrow> distinct (signers v) \<Longrightarrow> distinct (signers (fold (\<lambda>a v. sign v a) votes v))"
  by (induction votes arbitrary: v) (auto simp: sign_distinct)

end

text \<open>A voter that decides by counting the signers a set of nodes recognises.\<close>

locale counting_voter = signed_voter signers hasSigned sign
  for signers :: "'v \<Rightarrow> acc_address list" and hasSigned and sign +
  fixes consensus :: "'v \<Rightarrow> node_accounts \<Rightarrow> bool"
    and counts :: "node_accounts \<Rightarrow> acc_address \<Rightarrow> bool"
    and majority :: "int \<Rightarrow> int \<Rightarrow> bool"
  assumes consensus_iff:
      "consensus v nas \<longleftrightarrow>
         majority (int (length (filter (counts nas) (signers v)))) (int (length nas))"
    and counts_node: "counts nas a \<Longrightarrow> a \<in> NA_NodeAddress ` set nas"
    and majority_mono: "majority s t \<Longrightarrow> s \<le> s' \<Longrightarrow> s' \<le> t \<Longrightarrow> majority s' t"
begin

lemma count_card:
  "distinct (signers v) \<Longrightarrow>
     length (filter (counts nas) (signers v)) = card {a \<in> set (signers v). counts nas a}"
  by (metis distinct_card distinct_filter set_filter)

lemma count_le: "distinct (signers v) \<Longrightarrow> length (filter (counts nas) (signers v)) \<le> length nas"
proof -
  assume "distinct (signers v)"
  then have "length (filter (counts nas) (signers v)) = card {a \<in> set (signers v). counts nas a}"
    by (rule count_card)
  also have "\<dots> \<le> card (NA_NodeAddress ` set nas)"
    by (rule card_mono) (auto dest: counts_node)
  also have "\<dots> \<le> length nas"
    by (metis card_image_le card_length finite_set order_trans)
  finally show ?thesis .
qed

lemma consensus_votes:
  assumes "[] \<notin> set votes" and "distinct (signers v)"
  shows "consensus (fold (\<lambda>a v. sign v a) votes v) nas \<longleftrightarrow>
    majority (int (card {a \<in> set (signers v) \<union> set votes. counts nas a})) (int (length nas))"
  using count_card [OF votes_distinct [OF assms]] votes_signers [OF assms(1)]
  by (simp add: consensus_iff)

lemma consensus_stays:
  assumes "distinct (signers v)" and "a \<noteq> []" and "consensus v nas"
  shows "consensus (sign v a) nas"
proof (cases "a \<in> set (signers v)")
  case True
  then show ?thesis using assms(3) by (simp add: sign_old)
next
  case False
  have "length (filter (counts nas) (signers v)) \<le> length (filter (counts nas) (signers (sign v a)))"
    by (simp add: sign_new [OF assms(2) False])
  then show ?thesis
    using assms(3) count_le [OF sign_distinct [OF assms(2,1)]]
    by (auto simp: consensus_iff intro: majority_mono)
qed

end

section \<open>The voters keep it\<close>

lemma IsNodeKeys_node: "NodeAccounts_IsNodeKeys nas a \<Longrightarrow> a \<in> NA_NodeAddress ` set nas"
  by (auto simp: NodeAccounts_IsNodeKeys_def list_ex_iff)

context cosmos_sdk
begin

lemma has_signed_iff: "has_signed S strs a \<longleftrightarrow> a \<in> set (signers_of S strs)"
  by (auto simp: has_signed_def list_ex_iff)

lemma signers_of_sign: "a \<noteq> [] \<Longrightarrow> signers_of S (sign_list S strs a) = signers_of S strs @ [a]"
  by (simp add: signers_of_def sign_list_def List.map_filter_def acc_roundtrip)

end

lemmas voter_defs =
  BanVoter_GetSigners_def BanVoter_HasSigned_def BanVoter_Sign_def BanVoter_HasConsensus_def
  ErrataTxVoter_GetSigners_def ErrataTxVoter_HasSigned_def ErrataTxVoter_Sign_def
  ErrataTxVoter_HasConsensus_def ForgiveSlashVoter_GetSigners_def ForgiveSlashVoter_HasSigned_def
  ForgiveSlashVoter_Sign_def ForgiveSlashVoter_HasConsensus_def NetworkFeeVoter_GetSigners_def
  NetworkFeeVoter_HasSigned_def NetworkFeeVoter_Sign_def NetworkFeeVoter_HasConsensus_def
  SolvencyVoter_GetSigners_def SolvencyVoter_HasSigned_def SolvencyVoter_Sign_def
  SolvencyVoter_HasConsensus_def TssKeysignFailVoter_GetSigners_def
  TssKeysignFailVoter_HasSigned_def TssKeysignFailVoter_Sign_def
  TssKeysignFailVoter_HasConsensus_def count_nodes_def

sublocale cosmos_sdk \<subseteq> ban: counting_voter "BanVoter_GetSigners S" "BanVoter_HasSigned S"
  "BanVoter_Sign S" "BanVoter_HasConsensus S" NodeAccounts_IsNodeKeys HasSuperMajority
  by unfold_locales
    (auto simp: voter_defs has_signed_iff signers_of_sign IsNodeKeys_node majority_iff)

sublocale cosmos_sdk \<subseteq> errata: counting_voter "ErrataTxVoter_GetSigners S"
  "ErrataTxVoter_HasSigned S" "\<lambda>v a. snd (ErrataTxVoter_Sign S v a)"
  "ErrataTxVoter_HasConsensus S" NodeAccounts_IsNodeKeys HasSuperMajority
  by unfold_locales
    (auto simp: voter_defs has_signed_iff signers_of_sign IsNodeKeys_node majority_iff)

sublocale cosmos_sdk \<subseteq> forgive: counting_voter "ForgiveSlashVoter_GetSigners S"
  "ForgiveSlashVoter_HasSigned S" "ForgiveSlashVoter_Sign S"
  "ForgiveSlashVoter_HasConsensus S" NodeAccounts_IsNodeKeys HasSuperMajority
  by unfold_locales
    (auto simp: voter_defs has_signed_iff signers_of_sign IsNodeKeys_node majority_iff)

sublocale cosmos_sdk \<subseteq> netfee: counting_voter "NetworkFeeVoter_GetSigners S"
  "NetworkFeeVoter_HasSigned S" "\<lambda>v a. snd (NetworkFeeVoter_Sign S v a)"
  "NetworkFeeVoter_HasConsensus S" NodeAccounts_IsNodeKeys HasSuperMajority
  by unfold_locales
    (auto simp: voter_defs has_signed_iff signers_of_sign IsNodeKeys_node majority_iff)

sublocale cosmos_sdk \<subseteq> solvency: counting_voter "SolvencyVoter_GetSigners S"
  "SolvencyVoter_HasSigned S" "\<lambda>v a. snd (SolvencyVoter_Sign S v a)"
  "SolvencyVoter_HasConsensus S" NodeAccounts_IsNodeKeys HasMinority
  by unfold_locales
    (auto simp: voter_defs has_signed_iff signers_of_sign IsNodeKeys_node majority_iff)

sublocale cosmos_sdk \<subseteq> keysign: counting_voter "TssKeysignFailVoter_GetSigners S"
  "TssKeysignFailVoter_HasSigned S" "\<lambda>v a. snd (TssKeysignFailVoter_Sign S v a)"
  "TssKeysignFailVoter_HasConsensus S"
  "\<lambda>nas a. list_ex (\<lambda>item. a = NA_NodeAddress item) nas" HasSimpleMajority
  by unfold_locales
    (auto simp: voter_defs has_signed_iff signers_of_sign majority_iff list_ex_iff)

context cosmos_sdk
begin

lemma ban_of_voters:
  assumes "[] \<notin> set votes"
  shows "BanVoter_HasConsensus S (fold (\<lambda>a v. BanVoter_Sign S v a) votes (NewBanVoter addr)) nas
    \<longleftrightarrow> HasSuperMajority (int (card {a \<in> set votes. NodeAccounts_IsNodeKeys nas a})) (int (length nas))"
proof -
  have "BanVoter_GetSigners S (NewBanVoter addr) = []"
    by (simp add: BanVoter_GetSigners_def NewBanVoter_def signers_of_def List.map_filter_def)
  then show ?thesis using ban.consensus_votes [OF assms, of "NewBanVoter addr" nas] by simp
qed

lemma solvency_stays:
  assumes "distinct (SolvencyVoter_GetSigners S v)" and "a \<noteq> []"
    and "SolvencyVoter_HasConsensus S v nas"
  shows "SolvencyVoter_HasConsensus S (snd (SolvencyVoter_Sign S v a)) nas
    \<and> SolvencyVoter_Sign S (snd (SolvencyVoter_Sign S v a)) a
        = (False, snd (SolvencyVoter_Sign S v a))"
  using solvency.consensus_stays [OF assms] solvency.hasSigned_sign [OF assms(2), of v a]
  by (simp add: SolvencyVoter_Sign_def [of S "snd (SolvencyVoter_Sign S v a)"])

end

section \<open>Key generation\<close>

lemma set_parse_pubkeys: "set (parse_pubkeys S raw) \<subseteq> set raw"
  by (induction raw)
    (auto simp: parse_pubkeys_def NewPubKey_def List.map_filter_def split: if_splits sum.splits)

text \<open>The invariant of a key-generation vote: every signer is one of the keygen members, signed
  once, and every signature reads back.\<close>

definition tss_members :: "sdk \<Rightarrow> TssVoter \<Rightarrow> acc_address set" where
  "tss_members S m = {a. \<exists>pk \<in> set (TV_PubKeys m). pubkey_acc S pk = Some a}"

definition tss_ok :: "sdk \<Rightarrow> TssVoter \<Rightarrow> bool" where
  "tss_ok S m \<longleftrightarrow> distinct (TssVoter_GetSigners S m)
     \<and> length (TssVoter_GetSigners S m) = length (TV_Signers m)
     \<and> set (TssVoter_GetSigners S m) \<subseteq> tss_members S m"

lemma card_tss_members: "finite (tss_members S m) \<and> card (tss_members S m) \<le> length (TV_PubKeys m)"
proof -
  have sub: "tss_members S m \<subseteq> (the \<circ> pubkey_acc S) ` set (TV_PubKeys m)"
    by (force simp: tss_members_def)
  have "card (tss_members S m) \<le> card ((the \<circ> pubkey_acc S) ` set (TV_PubKeys m))"
    using sub by (intro card_mono) auto
  also have "\<dots> \<le> length (TV_PubKeys m)"
    by (metis card_image_le card_length finite_set order_trans)
  finally show ?thesis using finite_subset [OF sub] by auto
qed

lemma tss_ok_bound: "tss_ok S m \<Longrightarrow> length (TV_Signers m) \<le> length (TV_PubKeys m)"
  using card_tss_members [of S m] card_mono [of "tss_members S m" "set (TssVoter_GetSigners S m)"]
    distinct_card [of "TssVoter_GetSigners S m"]
  by (auto simp: tss_ok_def)

context cosmos_sdk
begin

lemma TssVoter_Sign_ok:
  assumes "tss_ok S m" and "signer \<noteq> []" and "TssVoter_Sign S m signer cs = (b, m')"
  shows "tss_ok S m'"
proof (cases b)
  case True
  with assms(3) have new: "signer \<notin> set (TssVoter_GetSigners S m)"
    and pk: "list_ex (\<lambda>pk. pubkey_acc S pk = Some signer) (TssVoter_GetPubKeys S m)"
    and m': "m' = m\<lparr>TV_Signers := sign_list S (TV_Signers m) signer, TV_Chains := TV_Chains m @ cs\<rparr>"
    by (auto simp: TssVoter_Sign_def TssVoter_HasSigned_def TssVoter_GetSigners_def has_signed_iff
        split: if_splits)
  have "TssVoter_GetSigners S m' = TssVoter_GetSigners S m @ [signer]"
    by (simp add: m' TssVoter_GetSigners_def signers_of_sign [OF assms(2)])
  moreover have "signer \<in> tss_members S m"
    using pk set_parse_pubkeys [of S "TV_PubKeys m"]
    by (auto simp: list_ex_iff TssVoter_GetPubKeys_def tss_members_def)
  moreover have "tss_members S m' = tss_members S m" by (simp add: tss_members_def m')
  moreover have "length (TV_Signers m') = Suc (length (TV_Signers m))"
    by (simp add: m' sign_list_def)
  ultimately show ?thesis using assms(1) new by (simp add: tss_ok_def)
next
  case False
  then show ?thesis using assms by (auto simp: TssVoter_Sign_def split: if_splits)
qed

lemma TssVoter_votes_ok:
  "tss_ok S m \<Longrightarrow> [] \<notin> fst ` set votes \<Longrightarrow>
     tss_ok S (fold (\<lambda>(a, cs) v. snd (TssVoter_Sign S v a cs)) votes m)"
proof (induction votes arbitrary: m)
  case (Cons vt votes)
  obtain a cs where vt: "vt = (a, cs)" by (cases vt)
  have "tss_ok S (snd (TssVoter_Sign S m a cs))"
    by (rule TssVoter_Sign_ok [OF Cons.prems(1) _ surjective_pairing]) (use Cons.prems(2) vt in auto)
  then show ?case using Cons.IH Cons.prems(2) vt by simp
qed simp

end

lemma TssVoter_PubKeys_Sign: "TV_PubKeys (snd (TssVoter_Sign S m a cs)) = TV_PubKeys m"
  by (simp add: TssVoter_Sign_def)

lemma NewTssVoter_ok: "tss_ok S (NewTssVoter i pks pool)"
  by (simp add: tss_ok_def NewTssVoter_def TssVoter_GetSigners_def signers_of_def List.map_filter_def)

section \<open>Properties\<close>


text \<open>C4: the ban vote is a vote of distinct active nodes: after any sequence of votes, repeated
  and in any order, the node is banned exactly when the active nodes among the voters are a super
  majority of the node accounts.\<close>

theorem BanVoter_consensus_of_voters:
  assumes "cosmos_sdk S" and "[] \<notin> set votes"
  shows "BanVoter_HasConsensus S (fold (\<lambda>a v. BanVoter_Sign S v a) votes (NewBanVoter addr)) nas
    \<longleftrightarrow> HasSuperMajority (int (card {a \<in> set votes. NodeAccounts_IsNodeKeys nas a})) (int (length nas))"
  by (rule cosmos_sdk.ban_of_voters [OF assms])

definition sample_nodes :: "node_accounts" where
  "sample_nodes = map (\<lambda>a. (sample_node [])\<lparr>NA_NodeAddress := a\<rparr>) [''a'', ''b'', ''c'']"

theorem BanVoter_consensus_of_voters_witness:
  "BanVoter_HasConsensus sdk256
     (fold (\<lambda>a v. BanVoter_Sign sdk256 v a) [''a'', ''b'', ''a''] (NewBanVoter ''x'')) sample_nodes"
proof -
  have "{a \<in> set [''a'', ''b'', ''a'']. NodeAccounts_IsNodeKeys sample_nodes a} = {''a'', ''b''}"
    by (auto simp: NodeAccounts_IsNodeKeys_def sample_nodes_def sample_node_def NewNodeAccount_def
        NodeAccount_UpdateStatus_def)
  then show ?thesis
    using BanVoter_consensus_of_voters [OF sdk256.cosmos_sdk_axioms, of "[''a'', ''b'', ''a'']" "''x''"
        sample_nodes] by (simp add: HasSuperMajority_def sample_nodes_def)
qed

text \<open>A solvency report that has its minority keeps it: a further signature never takes the
  consensus away, and signing twice changes nothing.\<close>

lemma SolvencyVoter_consensus_stays:
  assumes "cosmos_sdk S" and "distinct (SolvencyVoter_GetSigners S v)" and "a \<noteq> []"
    and "SolvencyVoter_HasConsensus S v nas"
  shows "SolvencyVoter_HasConsensus S (snd (SolvencyVoter_Sign S v a)) nas
    \<and> SolvencyVoter_Sign S (snd (SolvencyVoter_Sign S v a)) a
        = (False, snd (SolvencyVoter_Sign S v a))"
  by (rule cosmos_sdk.solvency_stays [OF assms])

text \<open>In a key generation only members sign, each once, so the signatures never outnumber the
  keys; complete consensus is the consensus of all, and it implies the two-thirds consensus.\<close>

lemma TssVoter_votes_bounded:
  assumes "cosmos_sdk S" and "[] \<notin> fst ` set votes" and "pks \<noteq> []"
    and v: "v = fold (\<lambda>(a, cs) v. snd (TssVoter_Sign S v a cs)) votes (NewTssVoter i pks pool)"
  shows "tss_ok S v \<and> length (TV_Signers v) \<le> length (TV_PubKeys v)
    \<and> (TssVoter_HasCompleteConsensus v \<longrightarrow> TssVoter_HasConsensus v)"
proof -
  have ok: "tss_ok S v"
    unfolding v by (rule cosmos_sdk.TssVoter_votes_ok [OF assms(1) NewTssVoter_ok assms(2)])
  have "TV_PubKeys (fold (\<lambda>(a, cs) v. snd (TssVoter_Sign S v a cs)) votes u) = TV_PubKeys u" for u
    by (induction votes arbitrary: u) (auto simp: TssVoter_PubKeys_Sign)
  then have "TV_PubKeys v = pks" by (simp add: v NewTssVoter_def)
  then show ?thesis
    using ok tss_ok_bound [OF ok] assms(3)
    by (simp add: TssVoter_HasCompleteConsensus_def TssVoter_HasConsensus_def HasSuperMajority_iff)
qed

text \<open>A proposal to forgive a slash expires 41 blocks after it was made: the code compares
  with the position of the constant's name, while the constant itself is 17280 blocks (a day).\<close>

lemma ForgiveSlash_expires_after_41:
  assumes "0 \<le> FV_ProposedBlockHeight m" and "FV_ProposedBlockHeight m \<le> h" and "h < 2 ^ 63"
  shows "ForgiveSlashVoter_HasExpired m h \<longleftrightarrow> h - FV_ProposedBlockHeight m > 41
    \<and> GetInt64Value Map.empty NewConstantValue102 ''ForgiveSlashPeriod'' = 17280"
  using assms by (simp add: ForgiveSlashVoter_HasExpired_def ForgiveSlashPeriod_iota
      ForgiveSlashPeriod_value wrap64_id)

end
