(* ===== verification/Txs.thy ===== *)
theory Txs
  imports Voters
begin

text \<open>
  Transactions (\<open>common/tx.go\<close>), outbound items (\<open>x/mayachain/types/type_tx_out.go\<close>) and
  the observation of inbound and outbound transactions by the nodes
  (\<open>x/mayachain/types/type_observed_tx.go\<close>).

  \<open>Coins.Equals\<close> and \<open>Gas.Equals\<close> sort the slices they compare in place, so comparing two
  transactions reorders their coins and gas. The model returns the operands as the comparison
  leaves them, and the methods of \<open>ObservedTxVoter\<close> write them back into the list they came
  from. What is not modelled is sharing of a slice between the field \<open>Tx\<close> of a voter and an
  element of \<open>Txs\<close>, which ends as soon as the voter is stored.
\<close>

definition BlankTxID :: tx_id where
  "BlankTxID = replicate 64 CHR ''0''"

definition NewTxID :: "string \<Rightarrow> go_error + tx_id" where
  "NewTxID hash =
     (if length hash = 64 then Inr (toUpper hash)
      else if length hash = 66 then
        if \<not> hasPrefix hash ''0x'' then Inl (GoError ''txid error: must be 66 characters'')
        else Inr (toUpper hash)
      else Inl (GoError ''txid error: must be 64 characters''))"

definition TxID_Equals :: "tx_id \<Rightarrow> tx_id \<Rightarrow> bool" where
  "TxID_Equals tx tx2 \<longleftrightarrow> equalFold tx tx2"

definition TxID_IsEmpty :: "tx_id \<Rightarrow> bool" where
  "TxID_IsEmpty tx \<longleftrightarrow> trimSpace tx = ''''"

record Tx =
  Tx_ID :: tx_id
  Tx_Chain :: chain
  Tx_FromAddress :: address
  Tx_ToAddress :: address
  Tx_Coins :: coins
  Tx_Gas :: gas
  Tx_Memo :: string

definition EmptyTx :: Tx where
  "EmptyTx = \<lparr>Tx_ID = '''', Tx_Chain = '''', Tx_FromAddress = '''', Tx_ToAddress = '''',
     Tx_Coins = [], Tx_Gas = [], Tx_Memo = ''''\<rparr>"

definition GetRagnarokTx :: "chain \<Rightarrow> address \<Rightarrow> address \<Rightarrow> Tx" where
  "GetRagnarokTx c fromAddr toAddr =
     \<lparr>Tx_ID = BlankTxID, Tx_Chain = c, Tx_FromAddress = fromAddr, Tx_ToAddress = toAddr,
      Tx_Coins = [NewCoin BNBAsset 1], Tx_Gas = [NewCoin BNBAsset 1], Tx_Memo = ''Ragnarok''\<rparr>"

definition NewTx :: "tx_id \<Rightarrow> address \<Rightarrow> address \<Rightarrow> coins \<Rightarrow> gas \<Rightarrow> string \<Rightarrow> Tx" where
  "NewTx txID fr to cs g memo =
     (let c = (case cs of [] \<Rightarrow> '''' | coin # _ \<Rightarrow> Asset_GetChain (Coin_Asset coin))
      in \<lparr>Tx_ID = txID, Tx_Chain = c, Tx_FromAddress = fr, Tx_ToAddress = to, Tx_Coins = cs,
          Tx_Gas = g, Tx_Memo = memo\<rparr>)"

definition Tx_IsEmpty :: "Tx \<Rightarrow> bool" where
  "Tx_IsEmpty tx \<longleftrightarrow> TxID_IsEmpty (Tx_ID tx)"

definition Tx_Equals :: "Tx \<Rightarrow> Tx \<Rightarrow> bool \<times> Tx \<times> Tx" where
  "Tx_Equals tx tx2 =
     (if \<not> TxID_Equals (Tx_ID tx) (Tx_ID tx2) then (False, tx, tx2)
      else if \<not> Chain_Equals (Tx_Chain tx) (Tx_Chain tx2) then (False, tx, tx2)
      else if \<not> Address_Equals (Tx_FromAddress tx) (Tx_FromAddress tx2) then (False, tx, tx2)
      else if \<not> Address_Equals (Tx_ToAddress tx) (Tx_ToAddress tx2) then (False, tx, tx2)
      else
        let (sameCoins, cs, cs2) = Coins_Equals (Tx_Coins tx) (Tx_Coins tx2);
            tx' = tx\<lparr>Tx_Coins := cs\<rparr>; tx2' = tx2\<lparr>Tx_Coins := cs2\<rparr>
        in if \<not> sameCoins then (False, tx', tx2')
           else
             let (sameGas, g, g2) = Gas_Equals (Tx_Gas tx) (Tx_Gas tx2);
                 tx'' = tx'\<lparr>Tx_Gas := g\<rparr>; tx2'' = tx2'\<lparr>Tx_Gas := g2\<rparr>
             in if \<not> sameGas then (False, tx'', tx2'')
                else (equalFold (Tx_Memo tx) (Tx_Memo tx2), tx'', tx2''))"

definition Tx_EqualsEx :: "Tx \<Rightarrow> Tx \<Rightarrow> bool \<times> Tx \<times> Tx" where
  "Tx_EqualsEx tx tx2 =
     (if \<not> TxID_Equals (Tx_ID tx) (Tx_ID tx2) then (False, tx, tx2)
      else if \<not> Chain_Equals (Tx_Chain tx) (Tx_Chain tx2) then (False, tx, tx2)
      else if \<not> Address_Equals (Tx_FromAddress tx) (Tx_FromAddress tx2) then (False, tx, tx2)
      else if \<not> Address_Equals (Tx_ToAddress tx) (Tx_ToAddress tx2) then (False, tx, tx2)
      else if \<not> Coins_EqualsEx (Tx_Coins tx) (Tx_Coins tx2) then (False, tx, tx2)
      else
        let (sameGas, g, g2) = Gas_Equals (Tx_Gas tx) (Tx_Gas tx2);
            tx' = tx\<lparr>Tx_Gas := g\<rparr>; tx2' = tx2\<lparr>Tx_Gas := g2\<rparr>
        in if \<not> sameGas then (False, tx', tx2')
           else (equalFold (Tx_Memo tx) (Tx_Memo tx2), tx', tx2'))"

definition Tx_Valid :: "Tx \<Rightarrow> check" where
  "Tx_Valid tx =
     (if TxID_IsEmpty (Tx_ID tx) then fails ''Tx ID cannot be empty''
      else if Address_IsEmpty (Tx_FromAddress tx) then fails ''from address cannot be empty''
      else if Address_IsEmpty (Tx_ToAddress tx) then fails ''to address cannot be empty''
      else if Chain_IsEmpty (Tx_Chain tx) then fails ''chain cannot be empty''
      else if length (Tx_Coins tx) = 0 then fails ''must have at least 1 coin''
      else case Coins_Valid (Tx_Coins tx) of Some e \<Rightarrow> Some e
      | None \<Rightarrow>
          if \<not> Chain_Equals (Tx_Chain tx) BASEChain \<and> length (Tx_Gas tx) = 0
            then fails ''must have at least 1 gas coin''
          else case Gas_Valid (Tx_Gas tx) of Some e \<Rightarrow> Some e
          | None \<Rightarrow>
              if length (Tx_Memo tx) > MaxMemoSize then fails ''memo must not exceed bytes''
              else None)"

section \<open>Outbound items\<close>

record TxOutItem =
  TOI_Chain :: chain
  TOI_ToAddress :: address
  TOI_VaultPubKey :: pub_key
  TOI_Coin :: Coin
  TOI_Memo :: string
  TOI_MaxGas :: gas
  TOI_GasRate :: int
  TOI_InHash :: tx_id
  TOI_OutHash :: tx_id
  TOI_ModuleName :: string
  TOI_Aggregator :: string
  TOI_AggregatorTargetAsset :: string
  TOI_AggregatorTargetLimit :: "nat option"

definition TxOutItem_Valid :: "TxOutItem \<Rightarrow> check" where
  "TxOutItem_Valid m =
     (if Chain_IsEmpty (TOI_Chain m) then fails ''chain cannot be empty''
      else if TxID_IsEmpty (TOI_InHash m) then fails ''In Hash cannot be empty''
      else if Address_IsEmpty (TOI_ToAddress m) then fails ''To address cannot be empty''
      else if PubKey_IsEmpty (TOI_VaultPubKey m) then fails ''vault pubkey cannot be empty''
      else if TOI_GasRate m = 0 then fails ''gas rate is zero''
      else if Asset_IsEmpty (Chain_GetGasAsset (TOI_Chain m)) then fails ''invalid base asset''
      else case Coin_Valid (TOI_Coin m) of Some e \<Rightarrow> Some e
      | None \<Rightarrow> Gas_Valid (TOI_MaxGas m))"

definition TxOutItem_Equals :: "TxOutItem \<Rightarrow> TxOutItem \<Rightarrow> bool" where
  "TxOutItem_Equals m toi2 \<longleftrightarrow>
     Chain_Equals (TOI_Chain m) (TOI_Chain toi2)
     \<and> Address_Equals (TOI_ToAddress m) (TOI_ToAddress toi2)
     \<and> TOI_VaultPubKey m = TOI_VaultPubKey toi2
     \<and> Coin_Equals (TOI_Coin m) (TOI_Coin toi2)
     \<and> TxID_Equals (TOI_InHash m) (TOI_InHash toi2)
     \<and> TOI_Memo m = TOI_Memo toi2
     \<and> TOI_GasRate m = TOI_GasRate toi2"

record TxOut =
  TxOut_Height :: int
  TxOut_TxArray :: "TxOutItem list"

definition NewTxOut :: "int \<Rightarrow> TxOut" where
  "NewTxOut height = \<lparr>TxOut_Height = height, TxOut_TxArray = []\<rparr>"

definition TxOut_IsEmpty :: "TxOut \<Rightarrow> bool" where
  "TxOut_IsEmpty m \<longleftrightarrow> length (TxOut_TxArray m) = 0"

fun TxOutItems_Valid :: "TxOutItem list \<Rightarrow> check" where
  "TxOutItems_Valid [] = None"
| "TxOutItems_Valid (tx # txs) =
     (case TxOutItem_Valid tx of Some e \<Rightarrow> Some e | None \<Rightarrow> TxOutItems_Valid txs)"

definition TxOut_Valid :: "TxOut \<Rightarrow> check" where
  "TxOut_Valid m = TxOutItems_Valid (TxOut_TxArray m)"

section \<open>Observed transactions\<close>

datatype Status = Status_incomplete | Status_done | Status_reverted

record ObservedTx =
  OT_Tx :: Tx
  OT_Status :: Status
  OT_OutHashes :: "string list"
  OT_BlockHeight :: int
  OT_Signers :: "string list"
  OT_ObservedPubKey :: pub_key
  OT_KeysignMs :: int
  OT_FinaliseHeight :: int
  OT_Aggregator :: string
  OT_AggregatorTarget :: string
  OT_AggregatorTargetLimit :: "nat option"

definition NewObservedTx :: "Tx \<Rightarrow> int \<Rightarrow> pub_key \<Rightarrow> int \<Rightarrow> ObservedTx" where
  "NewObservedTx tx height pk finalisedHeight =
     \<lparr>OT_Tx = tx, OT_Status = Status_incomplete, OT_OutHashes = [], OT_BlockHeight = height,
      OT_Signers = [], OT_ObservedPubKey = pk, OT_KeysignMs = 0,
      OT_FinaliseHeight = finalisedHeight, OT_Aggregator = '''', OT_AggregatorTarget = '''',
      OT_AggregatorTargetLimit = None\<rparr>"

definition EmptyObservedTx :: ObservedTx where
  "EmptyObservedTx = NewObservedTx EmptyTx 0 '''' 0"

definition ObservedTx_Valid :: "ObservedTx \<Rightarrow> check" where
  "ObservedTx_Valid m =
     (case Tx_Valid (OT_Tx m) of Some e \<Rightarrow> Some e
      | None \<Rightarrow>
          if OT_BlockHeight m \<le> 0 then fails ''block height can't be zero''
          else if PubKey_IsEmpty (OT_ObservedPubKey m) then fails ''observed pool pubkey is empty''
          else if OT_FinaliseHeight m \<le> 0 then fails ''finalise block height can't be zero''
          else None)"

definition ObservedTx_IsEmpty :: "ObservedTx \<Rightarrow> bool" where
  "ObservedTx_IsEmpty m \<longleftrightarrow> Tx_IsEmpty (OT_Tx m)"

definition ObservedTx_Equals :: "ObservedTx \<Rightarrow> ObservedTx \<Rightarrow> bool \<times> ObservedTx \<times> ObservedTx" where
  "ObservedTx_Equals m tx2 =
     (let (same, t, t2) = Tx_Equals (OT_Tx m) (OT_Tx tx2);
          limit = (\<lambda>l. case l of None \<Rightarrow> (0::nat) | Some n \<Rightarrow> n)
      in (same
          \<and> OT_ObservedPubKey m = OT_ObservedPubKey tx2
          \<and> OT_BlockHeight m = OT_BlockHeight tx2
          \<and> OT_FinaliseHeight m = OT_FinaliseHeight tx2
          \<and> equalFold (OT_Aggregator m) (OT_Aggregator tx2)
          \<and> equalFold (OT_AggregatorTarget m) (OT_AggregatorTarget tx2)
          \<and> limit (OT_AggregatorTargetLimit m) = limit (OT_AggregatorTargetLimit tx2),
          m\<lparr>OT_Tx := t\<rparr>, tx2\<lparr>OT_Tx := t2\<rparr>))"

definition ObservedTx_IsFinal :: "ObservedTx \<Rightarrow> bool" where
  "ObservedTx_IsFinal m \<longleftrightarrow> OT_FinaliseHeight m = OT_BlockHeight m"

definition ObservedTx_GetOutHashes :: "ObservedTx \<Rightarrow> tx_id list" where
  "ObservedTx_GetOutHashes m =
     List.map_filter (\<lambda>h. case NewTxID h of Inl _ \<Rightarrow> None | Inr i \<Rightarrow> Some i) (OT_OutHashes m)"

definition ObservedTx_GetSigners :: "sdk \<Rightarrow> ObservedTx \<Rightarrow> acc_address list" where
  "ObservedTx_GetSigners S m = signers_of S (OT_Signers m)"

definition ObservedTx_HasSigned :: "sdk \<Rightarrow> ObservedTx \<Rightarrow> acc_address \<Rightarrow> bool" where
  "ObservedTx_HasSigned S m signer \<longleftrightarrow>
     list_ex (\<lambda>sign. sign = signer) (ObservedTx_GetSigners S m)"

definition ObservedTx_Sign :: "sdk \<Rightarrow> ObservedTx \<Rightarrow> acc_address \<Rightarrow> bool \<times> ObservedTx" where
  "ObservedTx_Sign S m signer =
     (if ObservedTx_HasSigned S m signer then (False, m)
      else (True, m\<lparr>OT_Signers := sign_list S (OT_Signers m) signer\<rparr>))"

definition ObservedTx_IsDone :: "ObservedTx \<Rightarrow> nat \<Rightarrow> bool" where
  "ObservedTx_IsDone m numOuts \<longleftrightarrow> length (OT_OutHashes m) \<ge> numOuts"

definition ObservedTx_SetDone :: "ObservedTx \<Rightarrow> tx_id \<Rightarrow> nat \<Rightarrow> ObservedTx" where
  "ObservedTx_SetDone m hash numOuts =
     (if list_ex (\<lambda>d. TxID_Equals d hash) (ObservedTx_GetOutHashes m) then m
      else
        let m' = m\<lparr>OT_OutHashes := OT_OutHashes m @ [hash]\<rparr>
        in if ObservedTx_IsDone m' numOuts then m'\<lparr>OT_Status := Status_done\<rparr> else m')"

end
