(* ===== verification/Observations.thy ===== *)
theory Observations
  imports Txs
begin

text \<open>
  The vote of the nodes on an observed transaction: \<open>ObservedTxVoter\<close> of
  \<open>x/mayachain/types/type_observed_tx.go\<close>. A voter collects the versions of a transaction
  that the nodes report, each with its signers; \<open>getConsensusTx\<close> picks the first version that
  a super majority of the active nodes has signed, and \<open>AddOutTx\<close> pairs the outbound
  transactions with the actions that were planned for the inbound one.
\<close>

record ObservedTxVoter =
  OV_TxID :: tx_id
  OV_Tx :: ObservedTx
  OV_Height :: int
  OV_Txs :: "ObservedTx list"
  OV_Actions :: "TxOutItem list"
  OV_OutTxs :: "Tx list"
  OV_FinalisedHeight :: int
  OV_UpdatedVault :: bool
  OV_Reverted :: bool
  OV_OutboundHeight :: int

definition NewObservedTxVoter :: "tx_id \<Rightarrow> ObservedTx list \<Rightarrow> ObservedTxVoter" where
  "NewObservedTxVoter txID txs =
     \<lparr>OV_TxID = txID, OV_Tx = EmptyObservedTx, OV_Height = 0, OV_Txs = txs, OV_Actions = [],
      OV_OutTxs = [], OV_FinalisedHeight = 0, OV_UpdatedVault = False, OV_Reverted = False,
      OV_OutboundHeight = 0\<rparr>"

fun ObservedTxs_Valid :: "ObservedTx list \<Rightarrow> check" where
  "ObservedTxs_Valid [] = None"
| "ObservedTxs_Valid (tx # txs) =
     (case ObservedTx_Valid tx of Some e \<Rightarrow> Some e | None \<Rightarrow> ObservedTxs_Valid txs)"

definition ObservedTxVoter_Valid :: "ObservedTxVoter \<Rightarrow> check" where
  "ObservedTxVoter_Valid m =
     (if TxID_IsEmpty (OV_TxID m) then fails ''cannot have an empty tx id''
      else ObservedTxs_Valid (OV_Txs m))"

definition match_coin :: "sdk \<Rightarrow> TxOutItem \<Rightarrow> Tx \<Rightarrow> bool option" where
  "match_coin S toi outboundTx =
     (let matchCoin = Coins_Contains (Tx_Coins outboundTx) (TOI_Coin toi);
          asset = Chain_GetGasAsset (TOI_Chain toi)
      in if \<not> matchCoin \<and> Asset_Equals (Coin_Asset (TOI_Coin toi)) asset then
           do {
             intendToSpend \<leftarrow> uint_add S (Coin_Amount (TOI_Coin toi))
               (Coin_Amount (Coins_GetCoin (Gas_ToCoins (TOI_MaxGas toi)) asset));
             actualSpend \<leftarrow> uint_add S (Coin_Amount (Coins_GetCoin (Tx_Coins outboundTx) asset))
               (Coin_Amount (Coins_GetCoin (Gas_ToCoins (Tx_Gas outboundTx)) asset));
             Some (intendToSpend = actualSpend)
           }
         else Some matchCoin)"

fun matchActionItem :: "sdk \<Rightarrow> TxOutItem list \<Rightarrow> Tx \<Rightarrow> bool option" where
  "matchActionItem S [] outboundTx = Some False"
| "matchActionItem S (toi # actions) outboundTx =
     do {
       matchCoin \<leftarrow> match_coin S toi outboundTx;
       if equalFold (TOI_Memo toi) (Tx_Memo outboundTx)
          \<and> Address_Equals (TOI_ToAddress toi) (Tx_ToAddress outboundTx)
          \<and> Chain_Equals (TOI_Chain toi) (Tx_Chain outboundTx)
          \<and> matchCoin
       then Some True
       else matchActionItem S actions outboundTx
     }"

definition ObservedTxVoter_AddOutTx ::
  "sdk \<Rightarrow> ObservedTxVoter \<Rightarrow> Tx \<Rightarrow> (bool \<times> ObservedTxVoter) option" where
  "ObservedTxVoter_AddOutTx S m tx =
     do {
       matched \<leftarrow> matchActionItem S (OV_Actions m) tx;
       Some
        (if \<not> matched then (False, m)
         else if list_ex (\<lambda>t. TxID_Equals (Tx_ID tx) (Tx_ID t)) (OV_OutTxs m) then (True, m)
         else
           let n = length (OV_Actions m);
               m' = m\<lparr>OV_OutTxs := OV_OutTxs m @ [tx],
                      OV_Txs := map (\<lambda>t. ObservedTx_SetDone t (Tx_ID tx) n) (OV_Txs m)\<rparr>
           in (True,
               if \<not> ObservedTx_IsEmpty (OV_Tx m')
               then m'\<lparr>OV_Tx := ObservedTx_SetDone (OV_Tx m') (Tx_ID tx) n\<rparr> else m'))
     }"

definition ObservedTxVoter_IsDone :: "ObservedTxVoter \<Rightarrow> bool" where
  "ObservedTxVoter_IsDone m \<longleftrightarrow> length (OV_Actions m) \<le> length (OV_OutTxs m)"

text \<open>
  The first loop of \<open>Add\<close> from index \<open>i\<close> on: whether it returned because the signer has
  signed already, the last index that matched, and the transactions as the comparisons leave
  them.
\<close>

fun vote_scan ::
  "sdk \<Rightarrow> acc_address \<Rightarrow> nat \<Rightarrow> ObservedTx list \<Rightarrow> ObservedTx \<Rightarrow> nat option
    \<Rightarrow> bool \<times> nat option \<times> ObservedTx list \<times> ObservedTx" where
  "vote_scan S signer i [] obs votedIdx = (False, votedIdx, [], obs)"
| "vote_scan S signer i (t # ts) obs votedIdx =
     (let (same, t', obs') = ObservedTx_Equals t obs in
      if same \<and> list_ex (\<lambda>siggy. siggy = signer) (ObservedTx_GetSigners S t)
      then (True, Some i, t' # ts, obs')
      else
        let (signed, v, ts', obs'') =
              vote_scan S signer (Suc i) ts obs' (if same then Some i else votedIdx)
        in (signed, v, t' # ts', obs''))"

definition ObservedTxVoter_Add ::
  "sdk \<Rightarrow> ObservedTxVoter \<Rightarrow> ObservedTx \<Rightarrow> acc_address \<Rightarrow> bool \<times> ObservedTxVoter \<times> ObservedTx" where
  "ObservedTxVoter_Add S m observedTx signer =
     (let (signed, votedIdx, txs, obs) = vote_scan S signer 0 (OV_Txs m) observedTx None in
      if signed then (False, m\<lparr>OV_Txs := txs\<rparr>, obs)
      else case votedIdx of
        Some i \<Rightarrow>
          let (r, t) = ObservedTx_Sign S (txs ! i) signer in (r, m\<lparr>OV_Txs := txs[i := t]\<rparr>, obs)
      | None \<Rightarrow>
          (True, m\<lparr>OV_Txs := txs @ [obs\<lparr>OT_Signers := [acc_string S signer]\<rparr>]\<rparr>, obs))"

text \<open>The map \<open>voters\<close> of \<open>getConsensusTx\<close> is the list of its keys.\<close>

definition add_voters :: "sdk \<Rightarrow> node_accounts \<Rightarrow> string list \<Rightarrow> acc_address list \<Rightarrow> string list" where
  "add_voters S accounts voters signers =
     foldl (\<lambda>vs signer.
       if acc_string S signer \<notin> set vs \<and> NodeAccounts_IsNodeKeys accounts signer
       then vs @ [acc_string S signer] else vs) voters signers"

fun consensus_voters ::
  "sdk \<Rightarrow> node_accounts \<Rightarrow> bool \<Rightarrow> nat \<Rightarrow> nat list \<Rightarrow> ObservedTx list \<Rightarrow> string list
    \<Rightarrow> string list \<times> ObservedTx list" where
  "consensus_voters S accounts final i [] txs voters = (voters, txs)"
| "consensus_voters S accounts final i (j # js) txs voters =
     (if ObservedTx_IsFinal (txs ! j) \<noteq> final
      then consensus_voters S accounts final i js txs voters
      else
        let (same, t, t2) = Tx_EqualsEx (OT_Tx (txs ! i)) (OT_Tx (txs ! j));
            txs' = txs[i := (txs ! i)\<lparr>OT_Tx := t\<rparr>];
            txs'' = txs'[j := (txs' ! j)\<lparr>OT_Tx := t2\<rparr>]
        in consensus_voters S accounts final i js txs''
             (if \<not> same then voters
              else add_voters S accounts voters (ObservedTx_GetSigners S (txs ! j))))"

fun consensus_scan ::
  "sdk \<Rightarrow> node_accounts \<Rightarrow> bool \<Rightarrow> nat list \<Rightarrow> ObservedTx list \<Rightarrow> ObservedTx \<times> ObservedTx list" where
  "consensus_scan S accounts final [] txs = (EmptyObservedTx, txs)"
| "consensus_scan S accounts final (i # is) txs =
     (if ObservedTx_IsFinal (txs ! i) \<noteq> final then consensus_scan S accounts final is txs
      else
        let (voters, txs') = consensus_voters S accounts final i [0..<length txs] txs []
        in if HasSuperMajority (int (length voters)) (int (length accounts)) then (txs' ! i, txs')
           else consensus_scan S accounts final is txs')"

definition getConsensusTx ::
  "sdk \<Rightarrow> ObservedTxVoter \<Rightarrow> node_accounts \<Rightarrow> bool \<Rightarrow> ObservedTx \<times> ObservedTxVoter" where
  "getConsensusTx S m accounts final =
     (let (tx, txs) = consensus_scan S accounts final [0..<length (OV_Txs m)] (OV_Txs m)
      in (tx, m\<lparr>OV_Txs := txs\<rparr>))"

definition ObservedTxVoter_GetTx ::
  "sdk \<Rightarrow> ObservedTxVoter \<Rightarrow> node_accounts \<Rightarrow> ObservedTx \<times> ObservedTxVoter" where
  "ObservedTxVoter_GetTx S m nodeAccounts =
     (if \<not> ObservedTx_IsEmpty (OV_Tx m) \<and> ObservedTx_IsFinal (OV_Tx m) then (OV_Tx m, m)
      else
        let (finalTx, m1) = getConsensusTx S m nodeAccounts True in
        if \<not> ObservedTx_IsEmpty finalTx then (finalTx, m1\<lparr>OV_Tx := finalTx\<rparr>)
        else
          let (discoverTx, m2) = getConsensusTx S m1 nodeAccounts False in
          if \<not> ObservedTx_IsEmpty discoverTx then (discoverTx, m2\<lparr>OV_Tx := discoverTx\<rparr>)
          else (OV_Tx m2, m2))"

definition ObservedTxVoter_HasConsensus ::
  "sdk \<Rightarrow> ObservedTxVoter \<Rightarrow> node_accounts \<Rightarrow> bool \<times> ObservedTxVoter" where
  "ObservedTxVoter_HasConsensus S m nodeAccounts =
     (let (consensusTx, m') = ObservedTxVoter_GetTx S m nodeAccounts
      in (\<not> ObservedTx_IsEmpty consensusTx, m'))"

definition ObservedTxVoter_HasFinalised ::
  "sdk \<Rightarrow> ObservedTxVoter \<Rightarrow> node_accounts \<Rightarrow> bool \<times> ObservedTxVoter" where
  "ObservedTxVoter_HasFinalised S m nodeAccounts =
     (let (finalTx, m') = ObservedTxVoter_GetTx S m nodeAccounts
      in (if ObservedTx_IsEmpty finalTx then False else ObservedTx_IsFinal finalTx, m'))"

text \<open>The loop of \<open>setStatus\<close> assigns to copies of the elements of \<open>Txs\<close>: they keep their
  status.\<close>

definition ObservedTxVoter_setStatus :: "ObservedTxVoter \<Rightarrow> Status \<Rightarrow> ObservedTxVoter" where
  "ObservedTxVoter_setStatus m toStatus =
     (if \<not> ObservedTx_IsEmpty (OV_Tx m) then m\<lparr>OV_Tx := (OV_Tx m)\<lparr>OT_Status := toStatus\<rparr>\<rparr> else m)"

definition ObservedTxVoter_SetReverted :: "ObservedTxVoter \<Rightarrow> ObservedTxVoter" where
  "ObservedTxVoter_SetReverted m =
     (ObservedTxVoter_setStatus m Status_reverted)\<lparr>OV_Reverted := True\<rparr>"

definition ObservedTxVoter_SetDone :: "ObservedTxVoter \<Rightarrow> ObservedTxVoter" where
  "ObservedTxVoter_SetDone m = ObservedTxVoter_setStatus m Status_done"

text \<open>\<open>Contains\<close> compares the items in order and stops at the first match; each comparison
  reorders the argument and the item.\<close>

fun ObservedTxs_Contains :: "ObservedTx list \<Rightarrow> ObservedTx \<Rightarrow> bool \<times> ObservedTx list \<times> ObservedTx" where
  "ObservedTxs_Contains [] tx = (False, [], tx)"
| "ObservedTxs_Contains (item # txs) tx =
     (let (same, item', tx') = ObservedTx_Equals item tx in
      if same then (True, item' # txs, tx')
      else let (r, txs', tx'') = ObservedTxs_Contains txs tx' in (r, item' # txs', tx''))"

section \<open>Comparison of transactions\<close>

text \<open>What a comparison looks at: it ignores letter case and the order of coins and gas.\<close>

definition tx_norm ::
  "Tx \<Rightarrow> (string \<times> string \<times> string \<times> string) \<times> (Asset \<times> nat) list \<times> (Asset \<times> nat) list \<times> string"
where
  "tx_norm t =
     ((toUpper (Tx_ID t), toUpper (Tx_Chain t), toUpper (Tx_FromAddress t), toUpper (Tx_ToAddress t)),
      map coin_norm (sort_key coin_key (Tx_Coins t)), map coin_norm (sort_key coin_key (Tx_Gas t)),
      toUpper (Tx_Memo t))"

lemma coins_agree_sorted:
  "length cs = length ds \<and> coins_agree (sort_key coin_key cs) (sort_key coin_key ds) \<longleftrightarrow>
     map coin_norm (sort_key coin_key cs) = map coin_norm (sort_key coin_key ds)"
  by (metis coins_agree_iff length_map length_sort)

lemma Gas_Equals_norm:
  "fst (Gas_Equals g h) \<longleftrightarrow>
     map coin_norm (sort_key coin_key g) = map coin_norm (sort_key coin_key h)"
  "sort_key coin_key (fst (snd (Gas_Equals g h))) = sort_key coin_key g"
  "sort_key coin_key (snd (snd (Gas_Equals g h))) = sort_key coin_key h"
  using coins_agree_sorted [of g h] by (auto simp: Gas_Equals_def Let_def sort_key_id_if_sorted)

lemma Coins_EqualsEx_norm:
  "Coins_EqualsEx cs ds \<longleftrightarrow>
     map coin_norm (sort_key coin_key cs) = map coin_norm (sort_key coin_key ds)"
  using coins_agree_sorted [of cs ds] by (auto simp: Coins_EqualsEx_def Let_def)

lemmas name_Equals_defs =
  TxID_Equals_def Chain_Equals_def Chain_String_def Address_Equals_def equalFold_def

lemma Tx_EqualsEx_norm:
  assumes "Tx_EqualsEx t u = (same, t', u')"
  shows "same \<longleftrightarrow> tx_norm t = tx_norm u" and "tx_norm t' = tx_norm t" and "tx_norm u' = tx_norm u"
    and "Tx_ID t' = Tx_ID t"
  using assms Gas_Equals_norm [of "Tx_Gas t" "Tx_Gas u"]
  by (auto simp: Tx_EqualsEx_def tx_norm_def Coins_EqualsEx_norm name_Equals_defs Let_def
      split: if_splits prod.splits)

section \<open>Consensus on a transaction\<close>

text \<open>Of a version only this matters: what it is compared by, whether it is final, who signed.\<close>

definition obs_view :: "sdk \<Rightarrow> ObservedTx \<Rightarrow> _" where
  "obs_view S t = (tx_norm (OT_Tx t), ObservedTx_IsFinal t, set (ObservedTx_GetSigners S t))"

text \<open>The active nodes that signed a version equal to a given one, named as they sign.\<close>

definition tx_support ::
  "sdk \<Rightarrow> node_accounts \<Rightarrow> bool \<Rightarrow> ObservedTx list \<Rightarrow> ObservedTx \<Rightarrow> string set" where
  "tx_support S accounts final txs t =
     {acc_string S a | a u. u \<in> set txs \<and> ObservedTx_IsFinal u = final
        \<and> tx_norm (OT_Tx u) = tx_norm (OT_Tx t)
        \<and> a \<in> set (ObservedTx_GetSigners S u) \<and> NodeAccounts_IsNodeKeys accounts a}"

definition has_support :: "sdk \<Rightarrow> node_accounts \<Rightarrow> bool \<Rightarrow> ObservedTx list \<Rightarrow> ObservedTx \<Rightarrow> bool" where
  "has_support S accounts final txs t \<longleftrightarrow>
     ObservedTx_IsFinal t = final
     \<and> HasSuperMajority (int (card (tx_support S accounts final txs t))) (int (length accounts))"

lemma add_voters_set:
  "set (add_voters S accounts vs as) =
     set vs \<union> acc_string S ` {a \<in> set as. NodeAccounts_IsNodeKeys accounts a}
   \<and> (distinct vs \<longrightarrow> distinct (add_voters S accounts vs as))"
proof (induction as arbitrary: vs)
  case (Cons a as)
  then show ?case by (auto simp: add_voters_def)
qed (simp add: add_voters_def)

lemma obs_view_update [simp]:
  "tx_norm t = tx_norm (OT_Tx o1) \<Longrightarrow> obs_view S (o1\<lparr>OT_Tx := t\<rparr>) = obs_view S o1"
  by (simp add: obs_view_def ObservedTx_IsFinal_def ObservedTx_GetSigners_def)

lemma map_list_update_same:
  "i < length xs \<Longrightarrow> f x = f (xs ! i) \<Longrightarrow> map f (xs[i := x]) = map f xs"
  by (metis length_map list_update_id map_update nth_map)

text \<open>One comparison of \<open>getConsensusTx\<close> leaves what matters of every version.\<close>

lemma compare_views:
  assumes "Tx_EqualsEx (OT_Tx (txs ! i)) (OT_Tx (txs ! j)) = (same, t, t2)"
    and "i < length txs" and "j < length txs"
    and "txs1 = txs[i := (txs ! i)\<lparr>OT_Tx := t\<rparr>]" and "txs2 = txs1[j := (txs1 ! j)\<lparr>OT_Tx := t2\<rparr>]"
  shows "map (obs_view S) txs2 = map (obs_view S) txs"
proof -
  note n = Tx_EqualsEx_norm [OF assms(1)]
  have "map (obs_view S) txs1 = map (obs_view S) txs"
    using assms(2-4) n by (auto intro!: map_list_update_same)
  moreover have "tx_norm (OT_Tx (txs1 ! j)) = tx_norm (OT_Tx (txs ! j))"
    using assms(2-4) n by (auto simp: nth_list_update)
  then have "map (obs_view S) txs2 = map (obs_view S) txs1"
    using assms n by (auto intro!: map_list_update_same)
  ultimately show ?thesis by simp
qed

text \<open>The signers that the versions at some indices contribute to the version at \<open>i\<close>.\<close>

definition supporters ::
  "sdk \<Rightarrow> node_accounts \<Rightarrow> bool \<Rightarrow> ObservedTx list \<Rightarrow> nat \<Rightarrow> nat set \<Rightarrow> string set" where
  "supporters S accounts final txs i J =
     {acc_string S a | a j. j \<in> J \<and> ObservedTx_IsFinal (txs ! j) = final
        \<and> tx_norm (OT_Tx (txs ! j)) = tx_norm (OT_Tx (txs ! i))
        \<and> a \<in> set (ObservedTx_GetSigners S (txs ! j)) \<and> NodeAccounts_IsNodeKeys accounts a}"

lemma view_nth:
  assumes "map (obs_view S) txs' = map (obs_view S) txs" and "k < length txs"
  shows "tx_norm (OT_Tx (txs' ! k)) = tx_norm (OT_Tx (txs ! k))"
    and "ObservedTx_IsFinal (txs' ! k) = ObservedTx_IsFinal (txs ! k)"
    and "set (ObservedTx_GetSigners S (txs' ! k)) = set (ObservedTx_GetSigners S (txs ! k))"
  using arg_cong [OF assms(1), of "\<lambda>l. l ! k"] map_eq_imp_length_eq [OF assms(1)] assms(2)
  by (simp_all add: obs_view_def)

lemma supporters_view:
  assumes "map (obs_view S) txs' = map (obs_view S) txs" and "i < length txs"
    and "\<forall>j \<in> J. j < length txs"
  shows "supporters S accounts final txs' i J = supporters S accounts final txs i J"
  using assms(3) unfolding supporters_def
  by (intro Collect_cong) (metis view_nth [OF assms(1)] assms(2))

lemma supporters_insert:
  "supporters S accounts final txs i (insert j J) =
     supporters S accounts final txs i J \<union>
     (if ObservedTx_IsFinal (txs ! j) = final \<and> tx_norm (OT_Tx (txs ! j)) = tx_norm (OT_Tx (txs ! i))
      then acc_string S ` {a \<in> set (ObservedTx_GetSigners S (txs ! j)). NodeAccounts_IsNodeKeys accounts a}
      else {})"
  by (auto simp: supporters_def)

lemma consensus_voters_correct:
  assumes "consensus_voters S accounts final i js txs vs = (vs', txs')"
    and "i < length txs" and "\<forall>j \<in> set js. j < length txs"
  shows "map (obs_view S) txs' = map (obs_view S) txs
    \<and> (distinct vs \<longrightarrow> distinct vs')
    \<and> set vs' = set vs \<union> supporters S accounts final txs i (set js)"
  using assms
proof (induction js arbitrary: txs vs)
  case Nil
  then show ?case by (simp add: supporters_def)
next
  case (Cons j js)
  have ij: "i < length txs" "j < length txs" "\<forall>j \<in> set js. j < length txs" using Cons.prems by auto
  show ?case
  proof (cases "ObservedTx_IsFinal (txs ! j) = final")
    case False
    then have "consensus_voters S accounts final i js txs vs = (vs', txs')" using Cons.prems(1) by simp
    from Cons.IH [OF this ij(1,3)] False show ?thesis by (simp add: supporters_insert)
  next
    case True
    obtain same t t2 where eq: "Tx_EqualsEx (OT_Tx (txs ! i)) (OT_Tx (txs ! j)) = (same, t, t2)"
      by (cases "Tx_EqualsEx (OT_Tx (txs ! i)) (OT_Tx (txs ! j))") auto
    define txs1 where "txs1 = txs[i := (txs ! i)\<lparr>OT_Tx := t\<rparr>]"
    define txs2 where "txs2 = txs1[j := (txs1 ! j)\<lparr>OT_Tx := t2\<rparr>]"
    define vs1 where "vs1 = (if \<not> same then vs
      else add_voters S accounts vs (ObservedTx_GetSigners S (txs ! j)))"
    have v: "map (obs_view S) txs2 = map (obs_view S) txs"
      by (rule compare_views [OF eq ij(1,2) txs1_def txs2_def])
    have l: "length txs2 = length txs" by (simp add: txs2_def txs1_def)
    have "consensus_voters S accounts final i js txs2 vs1 = (vs', txs')"
      using Cons.prems(1) True eq by (simp add: txs1_def txs2_def vs1_def Let_def)
    then have IH: "map (obs_view S) txs' = map (obs_view S) txs2" "distinct vs1 \<longrightarrow> distinct vs'"
      "set vs' = set vs1 \<union> supporters S accounts final txs i (set js)"
      using Cons.IH [of txs2 vs1] ij l supporters_view [OF v] by auto
    have "same \<longleftrightarrow> tx_norm (OT_Tx (txs ! j)) = tx_norm (OT_Tx (txs ! i))"
      using Tx_EqualsEx_norm(1) [OF eq] by auto
    then show ?thesis
      using IH v True add_voters_set [of S accounts vs "ObservedTx_GetSigners S (txs ! j)"]
      by (auto simp: vs1_def supporters_insert)
  qed
qed

lemma tx_support_eq:
  "i < length txs \<Longrightarrow>
     tx_support S accounts final txs (txs ! i) = supporters S accounts final txs i {0..<length txs}"
  by (auto simp: tx_support_def supporters_def in_set_conv_nth)

lemma tx_support_cong:
  "obs_view S ` set txs = obs_view S ` set txs' \<Longrightarrow> tx_norm (OT_Tx t) = tx_norm (OT_Tx t') \<Longrightarrow>
     tx_support S accounts final txs t = tx_support S accounts final txs' t'"
proof -
  have sub: "tx_support S accounts final txs t \<subseteq> tx_support S accounts final txs' t'"
    if v: "obs_view S ` set txs \<subseteq> obs_view S ` set txs'" and n: "tx_norm (OT_Tx t) = tx_norm (OT_Tx t')"
    for txs txs' t t'
  proof
    fix x assume "x \<in> tx_support S accounts final txs t"
    then obtain a u where u: "x = acc_string S a" "u \<in> set txs" "ObservedTx_IsFinal u = final"
      "tx_norm (OT_Tx u) = tx_norm (OT_Tx t)" "a \<in> set (ObservedTx_GetSigners S u)"
      "NodeAccounts_IsNodeKeys accounts a" by (auto simp: tx_support_def)
    from u(2) v obtain u' where "u' \<in> set txs'" "obs_view S u = obs_view S u'" by auto
    with u n show "x \<in> tx_support S accounts final txs' t'"
      by (auto simp: tx_support_def obs_view_def)
  qed
  assume "obs_view S ` set txs = obs_view S ` set txs'" "tx_norm (OT_Tx t) = tx_norm (OT_Tx t')"
  then show ?thesis using sub [of txs txs' t t'] sub [of txs' txs t' t] by auto
qed

lemma has_support_view:
  assumes "map (obs_view S) txs' = map (obs_view S) txs" and "k < length txs"
  shows "has_support S accounts final txs' (txs' ! k) \<longleftrightarrow> has_support S accounts final txs (txs ! k)"
  using view_nth [OF assms] tx_support_cong [of S txs' txs "txs' ! k" "txs ! k"]
    arg_cong [OF assms(1), of set] by (simp add: has_support_def)

text \<open>The scan returns the first version with a super majority, or the empty one if there is
  none.\<close>

lemma consensus_scan_correct:
  assumes "consensus_scan S accounts final is txs = (r, txs')" and "\<forall>i \<in> set is. i < length txs"
  shows "map (obs_view S) txs' = map (obs_view S) txs
    \<and> ((\<exists>i \<in> set is. has_support S accounts final txs (txs ! i) \<and> r = txs' ! i)
       \<or> (\<forall>i \<in> set is. \<not> has_support S accounts final txs (txs ! i)) \<and> r = EmptyObservedTx)"
  using assms
proof (induction "is" arbitrary: txs)
  case (Cons i "is")
  have i: "i < length txs" "\<forall>i \<in> set is. i < length txs" using Cons.prems by auto
  show ?case
  proof (cases "ObservedTx_IsFinal (txs ! i) = final")
    case False
    then have "consensus_scan S accounts final is txs = (r, txs')" using Cons.prems(1) by simp
    from Cons.IH [OF this i(2)] False show ?thesis by (auto simp: has_support_def)
  next
    case True
    obtain vs txs1 where cv: "consensus_voters S accounts final i [0..<length txs] txs [] = (vs, txs1)"
      by (cases "consensus_voters S accounts final i [0..<length txs] txs []") auto
    have v: "map (obs_view S) txs1 = map (obs_view S) txs" "distinct vs"
      "set vs = supporters S accounts final txs i {0..<length txs}"
      using consensus_voters_correct [OF cv i(1)] by simp_all
    have l: "length txs1 = length txs" by (rule map_eq_imp_length_eq [OF v(1)])
    have c: "length vs = card (tx_support S accounts final txs (txs ! i))"
      using distinct_card [OF v(2)] v(3) tx_support_eq [OF i(1)] by simp
    show ?thesis
    proof (cases "HasSuperMajority (int (length vs)) (int (length accounts))")
      case T: True
      then have "r = txs1 ! i" "txs' = txs1" using Cons.prems(1) True cv by auto
      with T True c v(1) show ?thesis by (auto simp: has_support_def)
    next
      case F: False
      then have "consensus_scan S accounts final is txs1 = (r, txs')"
        using Cons.prems(1) True cv by simp
      note IH = Cons.IH [OF this]
      have ni: "\<not> has_support S accounts final txs (txs ! i)" using F c by (simp add: has_support_def)
      have "\<forall>k \<in> set is. has_support S accounts final txs1 (txs1 ! k) \<longleftrightarrow> has_support S accounts final txs (txs ! k)"
        using i(2) has_support_view [OF v(1)] by blast
      with IH i l v(1) ni show ?thesis by auto
    qed
  qed
qed simp

text \<open>Versions that two different super majorities support share more than a third of the
  nodes.\<close>

definition double_signers :: "sdk \<Rightarrow> node_accounts \<Rightarrow> bool \<Rightarrow> ObservedTx list \<Rightarrow> string set" where
  "double_signers S accounts final txs =
     {x. \<exists>t \<in> set txs. \<exists>u \<in> set txs. tx_norm (OT_Tx t) \<noteq> tx_norm (OT_Tx u)
        \<and> x \<in> tx_support S accounts final txs t \<and> x \<in> tx_support S accounts final txs u}"

lemma tx_support_nodes:
  "tx_support S accounts final txs t \<subseteq> acc_string S ` NA_NodeAddress ` set accounts"
  by (auto simp: tx_support_def dest!: IsNodeKeys_node)

lemma card_nodes: "card (acc_string S ` NA_NodeAddress ` set accounts) \<le> length accounts"
  by (metis card_length image_image length_map set_map)

lemma support_agrees:
  assumes few: "3 * card (double_signers S accounts final txs) < length accounts"
    and t: "t \<in> set txs" "has_support S accounts final txs t"
    and u: "u \<in> set txs" "has_support S accounts final txs u"
  shows "tx_norm (OT_Tx t) = tx_norm (OT_Tx u)"
proof (rule ccontr)
  assume ne: "tx_norm (OT_Tx t) \<noteq> tx_norm (OT_Tx u)"
  let ?A = "tx_support S accounts final txs t" and ?B = "tx_support S accounts final txs u"
  let ?N = "acc_string S ` NA_NodeAddress ` set accounts"
  have fin: "finite ?N" "?A \<subseteq> ?N" "?B \<subseteq> ?N" by (simp_all add: tx_support_nodes)
  have "?A \<inter> ?B \<subseteq> double_signers S accounts final txs"
    using t u ne by (auto simp: double_signers_def)
  moreover have "double_signers S accounts final txs \<subseteq> ?N"
    using tx_support_nodes by (fastforce simp: double_signers_def)
  ultimately have "card (?A \<inter> ?B) \<le> card (double_signers S accounts final txs)"
    using fin by (meson card_mono finite_subset)
  moreover have "card ?A + card ?B = card (?A \<union> ?B) + card (?A \<inter> ?B)"
    using fin by (meson card_Un_Int finite_subset)
  moreover have "card (?A \<union> ?B) \<le> length accounts"
    using card_mono [of ?N "?A \<union> ?B"] card_nodes [of S accounts] fin by simp
  moreover have "2 * length accounts \<le> 3 * card ?A" "2 * length accounts \<le> 3 * card ?B"
    using t(2) u(2) by (simp_all add: has_support_def HasSuperMajority_iff)
  ultimately show False using few by linarith
qed

lemma getConsensusTx_result:
  fixes S m accounts final
  defines "r \<equiv> fst (getConsensusTx S m accounts final)"
  shows "(\<exists>t \<in> set (OV_Txs m). has_support S accounts final (OV_Txs m) t \<and> obs_view S r = obs_view S t)
    \<or> (\<forall>t \<in> set (OV_Txs m). \<not> has_support S accounts final (OV_Txs m) t) \<and> r = EmptyObservedTx"
proof -
  let ?txs = "OV_Txs m"
  obtain txs' where cs: "consensus_scan S accounts final [0..<length ?txs] ?txs = (r, txs')"
    by (cases "consensus_scan S accounts final [0..<length ?txs] ?txs")
       (simp add: r_def getConsensusTx_def)
  note c = consensus_scan_correct [OF cs]
  then have v: "map (obs_view S) txs' = map (obs_view S) ?txs" by simp
  have nth: "obs_view S (txs' ! i) = obs_view S (?txs ! i)" if "i < length ?txs" for i
    using arg_cong [OF v, of "\<lambda>l. l ! i"] map_eq_imp_length_eq [OF v] that by simp
  from c consider i where "i < length ?txs" "has_support S accounts final ?txs (?txs ! i)" "r = txs' ! i"
    | "\<forall>t \<in> set ?txs. \<not> has_support S accounts final ?txs t" "r = EmptyObservedTx"
    by (fastforce simp: in_set_conv_nth)
  then show ?thesis
  proof cases
    case (1 i)
    then show ?thesis using nth nth_mem by metis
  qed simp
qed

section \<open>Votes\<close>

lemma Tx_Equals_ID:
  "Tx_Equals t u = (b, t', u') \<Longrightarrow> Tx_ID t' = Tx_ID t \<and> Tx_ID u' = Tx_ID u"
  by (auto simp: Tx_Equals_def Let_def split: if_splits prod.splits)

lemma ObservedTx_Equals_Signers:
  "ObservedTx_Equals t u = (b, t', u') \<Longrightarrow>
     OT_Signers t' = OT_Signers t \<and> OT_Signers u' = OT_Signers u"
  by (auto simp: ObservedTx_Equals_def Let_def split: prod.splits)

lemma vote_scan_Signers:
  "vote_scan S a i ts obs v = (signed, v', ts', obs') \<Longrightarrow>
     map OT_Signers ts' = map OT_Signers ts
     \<and> (pred_option (\<lambda>k. k < i + length ts) v \<longrightarrow> pred_option (\<lambda>k. k < i + length ts) v')"
proof (induction ts arbitrary: i obs v signed v' ts' obs')
  case (Cons t ts)
  obtain b t1 obs1 where e: "ObservedTx_Equals t obs = (b, t1, obs1)"
    by (cases "ObservedTx_Equals t obs") auto
  define v1 where "v1 = (if b then Some i else v)"
  obtain sg v2 ts2 obs2 where r: "vote_scan S a (Suc i) ts obs1 v1 = (sg, v2, ts2, obs2)"
    by (cases "vote_scan S a (Suc i) ts obs1 v1") auto
  have sg1: "OT_Signers t1 = OT_Signers t" using ObservedTx_Equals_Signers [OF e] by simp
  show ?case
  proof (cases "b \<and> list_ex (\<lambda>s. s = a) (ObservedTx_GetSigners S t)")
    case True
    then show ?thesis using Cons.prems e sg1 by auto
  next
    case False
    then have "vote_scan S a i (t # ts) obs v = (sg, v2, t1 # ts2, obs2)"
      by (simp only: vote_scan.simps e r prod.case Let_def if_False flip: v1_def)
    then have eq: "v' = v2" "ts' = t1 # ts2" using Cons.prems by simp_all
    show ?thesis
      unfolding eq using Cons.IH [OF r] sg1 by (cases b) (simp_all add: v1_def)
  qed
qed auto

section \<open>The life of a voter\<close>

text \<open>
  What happens to a voter between its creation and its removal: a node reports a version, an
  outbound transaction is observed, the outbound manager plans a further action, the consensus is
  evaluated, the transaction is marked reverted or done.
\<close>

inductive voter_step :: "sdk \<Rightarrow> ObservedTxVoter \<Rightarrow> ObservedTxVoter \<Rightarrow> bool" for S where
  vote: "signer \<noteq> [] \<Longrightarrow> ObservedTxVoter_Add S m obs signer = (b, m', obs') \<Longrightarrow> voter_step S m m'"
| outbound: "ObservedTxVoter_AddOutTx S m tx = Some (b, m') \<Longrightarrow> voter_step S m m'"
| action: "voter_step S m (m\<lparr>OV_Actions := OV_Actions m @ [toi]\<rparr>)"
| consensus: "ObservedTxVoter_GetTx S m accounts = (t, m') \<Longrightarrow> voter_step S m m'"
| reverted: "voter_step S m (ObservedTxVoter_SetReverted m)"
| finished: "voter_step S m (ObservedTxVoter_SetDone m)"

inductive voter_reach :: "sdk \<Rightarrow> ObservedTxVoter \<Rightarrow> bool" for S where
  init: "voter_reach S (NewObservedTxVoter txID [])"
| step: "voter_reach S m \<Longrightarrow> voter_step S m m' \<Longrightarrow> voter_reach S m'"

text \<open>No node signs a version twice; the outbound transactions are different ones and each
  matches an action.\<close>

definition votes_ok :: "sdk \<Rightarrow> ObservedTxVoter \<Rightarrow> bool" where
  "votes_ok S m \<longleftrightarrow> (\<forall>t \<in> set (OV_Txs m). distinct (ObservedTx_GetSigners S t))"

definition outs_ok :: "sdk \<Rightarrow> ObservedTxVoter \<Rightarrow> bool" where
  "outs_ok S m \<longleftrightarrow>
     distinct (map (toUpper \<circ> Tx_ID) (OV_OutTxs m))
     \<and> (\<forall>t \<in> set (OV_OutTxs m). matchActionItem S (OV_Actions m) t = Some True)"

lemma votes_ok_Signers:
  assumes "map OT_Signers (OV_Txs m') = map OT_Signers (OV_Txs m)"
  shows "votes_ok S m' \<longleftrightarrow> votes_ok S m"
proof -
  have "votes_ok S n \<longleftrightarrow> list_all (\<lambda>sg. distinct (signers_of S sg)) (map OT_Signers (OV_Txs n))" for n
    by (simp add: votes_ok_def ObservedTx_GetSigners_def list_all_iff)
  then show ?thesis using assms by (simp only:)
qed

lemma matchActionItem_append:
  "matchActionItem S acts tx = Some True \<Longrightarrow> matchActionItem S (acts @ acts2) tx = Some True"
  by (induction acts) (auto simp: bind_Some_iff split: if_splits)

lemma SetDone_Signers [simp]: "OT_Signers (ObservedTx_SetDone t h n) = OT_Signers t"
  by (simp add: ObservedTx_SetDone_def Let_def)

lemma AddOutTx_cases:
  assumes "ObservedTxVoter_AddOutTx S m tx = Some (b, m')"
  shows "matchActionItem S (OV_Actions m) tx = Some b" and "OV_Actions m' = OV_Actions m"
    and "map OT_Signers (OV_Txs m') = map OT_Signers (OV_Txs m)"
    and "OV_OutTxs m' = OV_OutTxs m \<or> (OV_OutTxs m' = OV_OutTxs m @ [tx] \<and> b
      \<and> \<not> list_ex (\<lambda>t. TxID_Equals (Tx_ID tx) (Tx_ID t)) (OV_OutTxs m))"
    and "b \<longrightarrow> list_ex (\<lambda>t. TxID_Equals (Tx_ID tx) (Tx_ID t)) (OV_OutTxs m')"
  using assms
  by (auto simp: ObservedTxVoter_AddOutTx_def bind_Some_iff Let_def TxID_Equals_def split: if_splits)

lemma AddOutTx_outs_ok:
  assumes "outs_ok S m" and "ObservedTxVoter_AddOutTx S m tx = Some (b, m')"
  shows "outs_ok S m'"
  using AddOutTx_cases [OF assms(2)] assms(1)
  by (auto simp: outs_ok_def list_ex_iff TxID_Equals_def equalFold_def)

context cosmos_sdk
begin

lemma ObservedTx_Sign_distinct:
  assumes "a \<noteq> []" and "distinct (ObservedTx_GetSigners S t)"
  shows "distinct (ObservedTx_GetSigners S (snd (ObservedTx_Sign S t a)))"
  using assms
  by (auto simp: ObservedTx_Sign_def ObservedTx_GetSigners_def ObservedTx_HasSigned_def
      signers_of_sign list_ex_iff)

lemma signers_of_single: "a \<noteq> [] \<Longrightarrow> signers_of S [acc_string S a] = [a]"
  by (simp add: signers_of_def List.map_filter_def acc_roundtrip)

lemma Add_votes_ok:
  assumes "a \<noteq> []" and "ObservedTxVoter_Add S m obs a = (b, m', obs')" and "votes_ok S m"
  shows "votes_ok S m'"
proof -
  obtain signed v txs obs1 where sc: "vote_scan S a 0 (OV_Txs m) obs None = (signed, v, txs, obs1)"
    by (cases "vote_scan S a 0 (OV_Txs m) obs None") auto
  have ok: "votes_ok S (m\<lparr>OV_Txs := txs\<rparr>)"
    using votes_ok_Signers [of "m\<lparr>OV_Txs := txs\<rparr>" m] vote_scan_Signers [OF sc] assms(3) by simp
  show ?thesis
  proof (cases "signed \<or> v = None")
    case True
    then show ?thesis
      using assms(1,2) sc ok
      by (auto simp: ObservedTxVoter_Add_def votes_ok_def ObservedTx_GetSigners_def signers_of_single
          split: if_splits)
  next
    case False
    then obtain i where i: "v = Some i" "\<not> signed" by auto
    then have len: "i < length txs"
      using vote_scan_Signers [OF sc] map_eq_imp_length_eq [of OT_Signers txs OT_Signers "OV_Txs m"] by simp
    have "m' = m\<lparr>OV_Txs := txs[i := snd (ObservedTx_Sign S (txs ! i) a)]\<rparr>"
      using assms(2) sc i by (simp add: ObservedTxVoter_Add_def split: prod.splits)
    with ok len show ?thesis
      by (auto simp: votes_ok_def dest!: set_update_subset_insert [THEN subsetD]
          intro!: ObservedTx_Sign_distinct [OF assms(1)])
  qed
qed

end

lemma map_Signers_update:
  "map OT_Signers (xs[i := (xs ! i)\<lparr>OT_Tx := t\<rparr>]) = map OT_Signers xs"
  by (cases "i < length xs") (simp_all add: map_list_update_same list_update_beyond)

lemma consensus_voters_Signers:
  "map OT_Signers (snd (consensus_voters S accounts final i js txs vs)) = map OT_Signers txs"
  by (induction js arbitrary: txs vs) (simp_all add: Let_def map_Signers_update split: prod.splits)

lemma consensus_scan_Signers:
  "map OT_Signers (snd (consensus_scan S accounts final is txs)) = map OT_Signers txs"
proof (induction "is" arbitrary: txs)
  case (Cons i "is")
  then show ?case
    using consensus_voters_Signers [of S accounts final i "[0..<length txs]" txs "[]"]
    by (auto split: prod.splits)
qed simp

lemma getConsensusTx_keeps:
  assumes "getConsensusTx S m accounts final = (t, m')"
  shows "map OT_Signers (OV_Txs m') = map OT_Signers (OV_Txs m)"
    and "OV_Actions m' = OV_Actions m" and "OV_OutTxs m' = OV_OutTxs m"
  using assms consensus_scan_Signers [of S accounts final "[0..<length (OV_Txs m)]" "OV_Txs m"]
  by (auto simp: getConsensusTx_def split: prod.splits)

lemma GetTx_keeps:
  assumes "ObservedTxVoter_GetTx S m accounts = (t, m')"
  shows "map OT_Signers (OV_Txs m') = map OT_Signers (OV_Txs m)"
    and "OV_Actions m' = OV_Actions m" and "OV_OutTxs m' = OV_OutTxs m"
  using assms
  by (auto simp: ObservedTxVoter_GetTx_def getConsensusTx_keeps split: if_splits prod.splits)

lemma setStatus_keeps [simp]:
  "OV_Txs (ObservedTxVoter_setStatus m s) = OV_Txs m"
  "OV_Actions (ObservedTxVoter_setStatus m s) = OV_Actions m"
  "OV_OutTxs (ObservedTxVoter_setStatus m s) = OV_OutTxs m"
  by (simp_all add: ObservedTxVoter_setStatus_def)

lemma Add_keeps:
  "ObservedTxVoter_Add S m obs a = (b, m', obs') \<Longrightarrow>
     OV_Actions m' = OV_Actions m \<and> OV_OutTxs m' = OV_OutTxs m"
  by (auto simp: ObservedTxVoter_Add_def Let_def split: if_splits prod.splits option.splits)

context cosmos_sdk
begin

lemma voter_step_ok:
  assumes "voter_step S m m'" and "votes_ok S m" and "outs_ok S m"
  shows "votes_ok S m' \<and> outs_ok S m'"
  using assms
proof cases
  case (vote signer obs b obs')
  with assms show ?thesis using Add_votes_ok Add_keeps by (metis outs_ok_def)
next
  case (outbound tx b)
  with assms show ?thesis
    using AddOutTx_outs_ok votes_ok_Signers [OF AddOutTx_cases(3)] by blast
next
  case (action toi)
  with assms show ?thesis by (simp add: votes_ok_def outs_ok_def matchActionItem_append)
next
  case (consensus accounts t)
  with assms show ?thesis
    using votes_ok_Signers [OF GetTx_keeps(1)] by (simp add: outs_ok_def GetTx_keeps(2,3))
qed (use assms in \<open>auto simp: votes_ok_def outs_ok_def ObservedTxVoter_SetReverted_def
      ObservedTxVoter_SetDone_def\<close>)

lemma voter_reach_ok: "voter_reach S m \<Longrightarrow> votes_ok S m \<and> outs_ok S m"
proof (induction rule: voter_reach.induct)
  case (init txID)
  then show ?case by (simp add: votes_ok_def outs_ok_def NewObservedTxVoter_def)
next
  case (step m m')
  then show ?case using voter_step_ok by blast
qed

end

section \<open>Properties\<close>

text \<open>C2: the transaction the nodes agree on has a super majority: the result of
  \<open>getConsensusTx\<close> is, up to the order of its coins and gas, a reported version that at least
  two thirds of the active nodes signed, and it is the empty transaction exactly when no version
  has such support.\<close>

theorem getConsensusTx_super_majority:
  fixes S m accounts final
  defines "r \<equiv> fst (getConsensusTx S m accounts final)"
    and "supported \<equiv> filter (has_support S accounts final (OV_Txs m)) (OV_Txs m)"
  shows "(\<exists>t. t \<in> set supported \<and> tx_norm (OT_Tx r) = tx_norm (OT_Tx t))
    \<or> (supported = [] \<and> r = EmptyObservedTx)"
  using getConsensusTx_result [of m S accounts final]
  unfolding r_def supported_def obs_view_def by (auto simp: filter_empty_conv)


definition sample_obs :: "string \<Rightarrow> string list \<Rightarrow> ObservedTx" where
  "sample_obs memo signers =
     (NewObservedTx (NewTx (replicate 64 CHR ''A'') ''from'' ''to'' [NewCoin BTCAsset 5] [NewCoin BTCAsset 1] memo)
        7 ''pub'' 7)\<lparr>OT_Signers := signers\<rparr>"

lemma sample_obs_simps [simp]:
  "OT_Signers (sample_obs memo sg) = sg" "ObservedTx_IsFinal (sample_obs memo sg)"
  "tx_norm (OT_Tx (sample_obs memo sg)) = tx_norm (OT_Tx (sample_obs memo' sg'))
     \<longleftrightarrow> toUpper memo = toUpper memo'"
  by (simp_all add: sample_obs_def NewObservedTx_def ObservedTx_IsFinal_def tx_norm_def NewTx_def)




end
