(* ===== verification/Pools.thy ===== *)
theory Pools
  imports Txs
begin

text \<open>
  Liquidity pools, \<open>x/mayachain/types/type_pool.go\<close>. Balances are \<open>Uint\<close> values, so the
  operations that may panic return an option. A method with a pointer receiver that changes the
  pool (\<open>CalcUnitsV80\<close>) returns the pool it leaves. The version a method asks about is
  represented by the answers it gives to \<open>GTE\<close>.
\<close>

datatype PoolStatus =
  PoolStatus_UnknownPoolStatus | PoolStatus_Available | PoolStatus_Staged | PoolStatus_Suspended

record Pool =
  Pool_BalanceCacao :: nat
  Pool_BalanceAsset :: nat
  Pool_Asset :: Asset
  Pool_LPUnits :: nat
  Pool_Status :: PoolStatus
  Pool_StatusSince :: int
  Pool_Decimals :: int
  Pool_SynthUnits :: nat
  Pool_PendingInboundCacao :: nat
  Pool_PendingInboundAsset :: nat

definition GetPoolStatus :: "string \<Rightarrow> PoolStatus" where
  "GetPoolStatus ps =
     (if ps = ''UnknownPoolStatus'' then PoolStatus_UnknownPoolStatus
      else if ps = ''Available'' then PoolStatus_Available
      else if ps = ''Staged'' then PoolStatus_Staged
      else if ps = ''Suspended'' then PoolStatus_Suspended
      else PoolStatus_Suspended)"

definition NewPool :: Pool where
  "NewPool =
     \<lparr>Pool_BalanceCacao = 0, Pool_BalanceAsset = 0, Pool_Asset = EmptyAsset, Pool_LPUnits = 0,
      Pool_Status = PoolStatus_Available, Pool_StatusSince = 0, Pool_Decimals = 0,
      Pool_SynthUnits = 0, Pool_PendingInboundCacao = 0, Pool_PendingInboundAsset = 0\<rparr>"

definition Pool_IsEmpty :: "Pool \<Rightarrow> bool" where
  "Pool_IsEmpty m \<longleftrightarrow> Asset_IsEmpty (Pool_Asset m)"

definition Pool_Valid :: "Pool \<Rightarrow> check" where
  "Pool_Valid m = (if Pool_IsEmpty m then fails ''pool asset cannot be empty'' else None)"

definition Pool_GetPoolUnits :: "sdk \<Rightarrow> Pool \<Rightarrow> nat option" where
  "Pool_GetPoolUnits S m = uint_add S (Pool_LPUnits m) (Pool_SynthUnits m)"

definition Pool_CalcUnitsV80 :: "sdk \<Rightarrow> Pool \<Rightarrow> nat \<Rightarrow> (nat \<times> Pool) option" where
  "Pool_CalcUnitsV80 S m s =
     do {
       m' \<leftarrow>
         (if Pool_BalanceAsset m = 0 \<or> Asset_IsVaultAsset (Pool_Asset m)
          then Some (m\<lparr>Pool_SynthUnits := 0\<rparr>)
          else do {
            numerator \<leftarrow> uint_mul S (Pool_LPUnits m) s;
            twice \<leftarrow> uint_mul S (Pool_BalanceAsset m) 2;
            d \<leftarrow> SafeSub S twice s;
            let denominator = (if d = 0 then 1 else d);
            su \<leftarrow> uint_quo S numerator denominator;
            Some (m\<lparr>Pool_SynthUnits := su\<rparr>)
          });
       units \<leftarrow> Pool_GetPoolUnits S m';
       Some (units, m')
     }"

definition Pool_CalcUnits :: "sdk \<Rightarrow> version \<Rightarrow> Pool \<Rightarrow> nat \<Rightarrow> (nat \<times> Pool) option" where
  "Pool_CalcUnits S ver m s =
     (if ver (0, 80, 0) then Pool_CalcUnitsV80 S m s
      else map_option (\<lambda>u. (u, m)) (Pool_GetPoolUnits S m))"

definition Pool_IsAvailable :: "Pool \<Rightarrow> bool" where
  "Pool_IsAvailable m \<longleftrightarrow> Pool_Status m = PoolStatus_Available"

text \<open>The flag tells whether the message is a \<open>MsgSwap\<close>.\<close>

definition Pool_EnsureValidPoolStatus :: "Pool \<Rightarrow> bool \<Rightarrow> check" where
  "Pool_EnsureValidPoolStatus m isMsgSwap =
     (case Pool_Status m of
        PoolStatus_Available \<Rightarrow> None
      | PoolStatus_Staged \<Rightarrow>
          if isMsgSwap then fails ''pool is in staged status, can't swap'' else None
      | PoolStatus_Suspended \<Rightarrow> fails ''pool suspended''
      | PoolStatus_UnknownPoolStatus \<Rightarrow> fails ''unknown pool status'')"

definition Pool_AssetValueInRune :: "sdk \<Rightarrow> Pool \<Rightarrow> nat \<Rightarrow> nat" where
  "Pool_AssetValueInRune S m amt =
     (if Pool_BalanceCacao m = 0 \<or> Pool_BalanceAsset m = 0 then 0
      else GetUncappedShare S (Pool_BalanceCacao m) (Pool_BalanceAsset m) amt)"

definition Pool_RuneReimbursementForAssetWithdrawal :: "sdk \<Rightarrow> Pool \<Rightarrow> nat \<Rightarrow> nat option" where
  "Pool_RuneReimbursementForAssetWithdrawal S m amt =
     (if Pool_BalanceCacao m = 0 \<or> Pool_BalanceAsset m = 0 then Some 0
      else do {
        denom \<leftarrow> SafeSub S (Pool_BalanceAsset m) amt;
        if denom = 0 then Some 0
        else Some (GetUncappedShare S (Pool_BalanceCacao m) denom amt)
      })"

definition Pool_RuneValueInAsset :: "sdk \<Rightarrow> Pool \<Rightarrow> nat \<Rightarrow> nat option" where
  "Pool_RuneValueInAsset S m amt =
     (if Pool_BalanceCacao m = 0 \<or> Pool_BalanceAsset m = 0 then Some 0
      else RoundToDecimal S
             (GetUncappedShare S (Pool_BalanceAsset m) (Pool_BalanceCacao m) amt) (Pool_Decimals m))"

definition Pools_Get :: "Pool list \<Rightarrow> Asset \<Rightarrow> Pool \<times> bool" where
  "Pools_Get m asset =
     (case find (\<lambda>p. Asset_Equals (Pool_Asset p) asset) m of
        Some p \<Rightarrow> (p, True)
      | None \<Rightarrow> (NewPool, False))"

definition Pools_Set :: "Pool list \<Rightarrow> Pool \<Rightarrow> Pool list" where
  "Pools_Set m pool =
     map (\<lambda>p. if Asset_Equals (Pool_Asset p) (Pool_Asset pool) then pool else p) m @ [pool]"

definition Pool_RuneDisbursementForAssetAdd :: "sdk \<Rightarrow> Pool \<Rightarrow> nat \<Rightarrow> nat option" where
  "Pool_RuneDisbursementForAssetAdd S m amt =
     (if Pool_BalanceCacao m = 0 \<or> Pool_BalanceAsset m = 0 then Some 0
      else do {
        denom \<leftarrow> uint_add S (Pool_BalanceAsset m) amt;
        Some (GetUncappedShare S (Pool_BalanceCacao m) denom amt)
      })"

definition Pool_AssetDisbursementForCacaoAdd :: "sdk \<Rightarrow> Pool \<Rightarrow> nat \<Rightarrow> nat option" where
  "Pool_AssetDisbursementForCacaoAdd S m amt =
     (if Pool_BalanceCacao m = 0 \<or> Pool_BalanceAsset m = 0 then Some 0
      else do {
        denom \<leftarrow> uint_add S (Pool_BalanceCacao m) amt;
        RoundToDecimal S (GetUncappedShare S (Pool_BalanceAsset m) denom amt) (Pool_Decimals m)
      })"

text \<open>\<open>big.Int.Sqrt\<close>: the integer square root, two bits at a time.\<close>

fun isqrt :: "nat \<Rightarrow> nat" where
  "isqrt n =
     (if n = 0 then 0
      else let r = 2 * isqrt (n div 4) in if (r + 1) * (r + 1) \<le> n then r + 1 else r)"

declare isqrt.simps [simp del]

definition Pool_GetLUVI :: "sdk \<Rightarrow> Pool \<Rightarrow> nat option" where
  "Pool_GetLUVI S m =
     do {
       balRune \<leftarrow> uint_mul S (Pool_BalanceCacao m) 1000000000000;
       balAsset \<leftarrow> uint_mul S (Pool_BalanceAsset m) 1000000000000;
       let num = isqrt (balRune * balAsset);
       denom \<leftarrow> Pool_GetPoolUnits S m;
       if denom = 0 then Some 0
       else uint_of_int S (int (num div denom))
     }"

section \<open>Lemmas\<close>

lemma isqrt_correct: "isqrt n * isqrt n \<le> n \<and> n < (isqrt n + 1) * (isqrt n + 1)"
proof (induction n rule: isqrt.induct)
  case (1 n)
  show ?case
  proof (cases "n = 0")
    case False
    define k where "k = isqrt (n div 4)"
    have k: "k * k \<le> n div 4" "n div 4 < (k + 1) * (k + 1)" using 1 False by (simp_all add: k_def)
    have lo: "2 * k * (2 * k) \<le> n" using k(1) by (simp add: less_eq_div_iff_mult_less_eq mult.commute)
    have "n < 4 * ((k + 1) * (k + 1))" using k(2) by (simp add: div_less_iff_less_mult mult.commute)
    then have hi: "n < (2 * k + 2) * (2 * k + 2)" by (simp add: algebra_simps)
    have "isqrt n = (if (2 * k + 1) * (2 * k + 1) \<le> n then 2 * k + 1 else 2 * k)"
      using False by (simp add: isqrt.simps [of n] k_def Let_def)
    then show ?thesis using lo hi by auto
  qed (simp add: isqrt.simps)
qed

lemma isqrt_unique:
  assumes "k * k \<le> n" and "n < (k + 1) * (k + 1)"
  shows "isqrt n = k"
proof (rule ccontr)
  assume "isqrt n \<noteq> k"
  then have "isqrt n + 1 \<le> k \<or> k + 1 \<le> isqrt n" by linarith
  then have "(isqrt n + 1) * (isqrt n + 1) \<le> k * k \<or> (k + 1) * (k + 1) \<le> isqrt n * isqrt n"
    using mult_mono [of "isqrt n + 1" k "isqrt n + 1" k] mult_mono [of "k + 1" "isqrt n" "k + 1" "isqrt n"]
    by auto
  then show False using isqrt_correct [of n] assms by linarith
qed

lemma Pools_Get_Set:
  "fst (Pools_Get (Pools_Set m pool) (Pool_Asset pool)) = pool"
proof -
  have "find (\<lambda>p. Asset_Equals (Pool_Asset p) (Pool_Asset pool)) (Pools_Set m pool) = Some pool"
    unfolding Pools_Set_def by (induction m) (auto simp: Asset_Equals_iff)
  then show ?thesis by (simp add: Pools_Get_def)
qed

lemma synth_units_share:
  fixes L s A :: nat
  assumes "s < 2 * A"
  defines "u \<equiv> L * s div (2 * A - s)"
  shows "u * (2 * A) \<le> s * (L + u) \<and> s * (L + u) < (u + 1) * (2 * A)"
proof -
  have d: "0 < 2 * A - s" using assms by simp
  have "u * (2 * A - s) \<le> L * s" unfolding u_def by (rule div_times_less_eq_dividend)
  then have lo: "u * (2 * A) \<le> L * s + u * s"
    by (simp add: diff_mult_distrib2)
  have "L * s < (2 * A - s) + u * (2 * A - s)" unfolding u_def by (rule dividend_less_div_times [OF d])
  then have "L * s < (u + 1) * (2 * A - s)" by simp
  then have "L * s + (u + 1) * s < (u + 1) * (2 * A)"
    using assms by (simp add: diff_mult_distrib2)
  with lo show ?thesis by (simp add: algebra_simps)
qed

context cosmos_sdk
begin

lemma CalcUnitsV80_result:
  assumes "0 < Pool_BalanceAsset m" and "\<not> Asset_IsVaultAsset (Pool_Asset m)"
    and "s < 2 * Pool_BalanceAsset m" and "Pool_BalanceAsset m < 2 ^ 127" and "Pool_LPUnits m < 2 ^ 127"
  defines "u \<equiv> Pool_LPUnits m * s div (2 * Pool_BalanceAsset m - s)"
  shows "Pool_CalcUnitsV80 S m s = Some (Pool_LPUnits m + u, m\<lparr>Pool_SynthUnits := u\<rparr>)"
proof -
  have s: "s < 2 ^ 128" using assms(3,4) by simp
  have m: "Pool_LPUnits m * s < 2 ^ 255"
    using mult_strict_mono [of "Pool_LPUnits m" "2 ^ 127" s "2 ^ 128"] assms(5) s
    by (simp flip: power_add)
  moreover have "u \<le> Pool_LPUnits m * s" by (simp add: u_def)
  ultimately have "Pool_LPUnits m + u < 2 ^ 256" using assms(5) by simp
  then show ?thesis
    using assms(1-4) m
    by (simp add: Pool_CalcUnitsV80_def uint_mul SafeSub_eq uint_quo Pool_GetPoolUnits_def uint_add
        u_def mult.commute)
qed

lemma disbursement_bounds:
  assumes "0 < Pool_BalanceCacao m" and "0 < Pool_BalanceAsset m"
    and "Pool_BalanceAsset m \<le> Pool_BalanceCacao m + amt" and "Pool_BalanceCacao m + amt < 2 ^ 255"
    and "2 * amt \<le> 10 ^ 18" and "0 \<le> Pool_Decimals m"
  obtains r where "Pool_AssetDisbursementForCacaoAdd S m amt = Some r"
    and "int r * int (Pool_BalanceCacao m + amt)
      \<le> int amt * int (Pool_BalanceAsset m) + int (Pool_BalanceCacao m + amt)"
proof -
  let ?d = "Pool_BalanceCacao m + amt"
  define n where "n = GetUncappedShare S (Pool_BalanceAsset m) ?d amt"
  have acc: "\<bar>int n * int ?d - int amt * int (Pool_BalanceAsset m)\<bar> \<le> int ?d"
    unfolding n_def by (rule share_accuracy) (use assms in auto)
  have "n \<le> amt" unfolding n_def using assms(3) by (rule share_le)
  then have "n < 2 ^ 256" using assms(5) by simp
  then obtain r where r: "RoundToDecimal S n (Pool_Decimals m) = Some r" "r \<le> n"
    using RoundToDecimal_cases [OF assms(6)] by auto
  have "uint_add S (Pool_BalanceCacao m) amt = Some ?d" using assms(4) by (simp add: uint_add)
  then have "Pool_AssetDisbursementForCacaoAdd S m amt = Some r"
    using assms(1,2) r(1) by (simp add: Pool_AssetDisbursementForCacaoAdd_def n_def)
  moreover have "int r * int ?d \<le> int n * int ?d" using r(2) by (intro mult_right_mono) auto
  then have "int r * int ?d \<le> int amt * int (Pool_BalanceAsset m) + int ?d" using acc by linarith
  ultimately show ?thesis using that by blast
qed

lemma GetLUVI_result:
  assumes "Pool_GetLUVI S m = Some l" and "Pool_GetPoolUnits S m = Some u" and "0 < u"
  shows "(l * u) * (l * u) \<le> 10 ^ 24 * (Pool_BalanceCacao m * Pool_BalanceAsset m)
    \<and> 10 ^ 24 * (Pool_BalanceCacao m * Pool_BalanceAsset m) < ((l + 1) * u) * ((l + 1) * u)"
proof -
  define X where "X = (Pool_BalanceCacao m * 1000000000000) * (Pool_BalanceAsset m * 1000000000000)"
  have X: "X = 10 ^ 24 * (Pool_BalanceCacao m * Pool_BalanceAsset m)" by (simp add: X_def)
  have "l = isqrt X div u"
    using assms by (auto simp: Pool_GetLUVI_def bind_Some_iff uint_mul_Some uint_of_int X_def Let_def
        split: if_splits)
  then have lo: "l * u \<le> isqrt X" and hi: "isqrt X + 1 \<le> (l + 1) * u"
    using assms(3) by (simp_all add: dividend_less_times_div Suc_le_eq mult.commute)
  have "(l * u) * (l * u) \<le> isqrt X * isqrt X" using lo by (intro mult_mono) auto
  moreover have "(isqrt X + 1) * (isqrt X + 1) \<le> ((l + 1) * u) * ((l + 1) * u)"
    using hi by (intro mult_mono) auto
  ultimately show ?thesis using isqrt_correct [of X] unfolding X [symmetric] by linarith
qed

end

section \<open>Properties\<close>

text \<open>Synthetic assets own the share of the pool they are backed by: with a supply \<open>s\<close> below
  twice the asset depth \<open>A\<close>, \<open>CalcUnitsV80\<close> does not panic and sets the synth units so that
  their share of all units is \<open>s / 2A\<close>, rounded down to a whole unit, never up.\<close>

lemma CalcUnitsV80_synth_share:
  assumes "cosmos_sdk S" and "0 < Pool_BalanceAsset m" and "\<not> Asset_IsVaultAsset (Pool_Asset m)"
    and "s < 2 * Pool_BalanceAsset m" and "Pool_BalanceAsset m < 2 ^ 127" and "Pool_LPUnits m < 2 ^ 127"
  shows "\<exists>units m'. Pool_CalcUnitsV80 S m s = Some (units, m')
    \<and> units = Pool_LPUnits m' + Pool_SynthUnits m'
    \<and> m' = m\<lparr>Pool_SynthUnits := Pool_SynthUnits m'\<rparr>
    \<and> Pool_SynthUnits m' * (2 * Pool_BalanceAsset m) \<le> s * units
    \<and> s * units < (Pool_SynthUnits m' + 1) * (2 * Pool_BalanceAsset m)"
  using cosmos_sdk.CalcUnitsV80_result [OF assms] synth_units_share [OF assms(4), of "Pool_LPUnits m"]
  by simp

definition sample_pool :: Pool where
  "sample_pool = NewPool\<lparr>Pool_Asset := BTCAsset, Pool_BalanceCacao := 10000, Pool_BalanceAsset := 100,
     Pool_LPUnits := 1000\<rparr>"

text \<open>Paying out assets for added CACAO keeps the product of the depths: after
  \<open>AssetDisbursementForCacaoAdd\<close> the product is at least what it was, less one unit of asset.
  Roundings to the decimals of the pool only favour the pool.\<close>

lemma AssetDisbursement_constant_product:
  assumes "cosmos_sdk S" and "0 < Pool_BalanceCacao m" and "0 < Pool_BalanceAsset m"
    and "Pool_BalanceAsset m \<le> Pool_BalanceCacao m + amt" and "Pool_BalanceCacao m + amt < 2 ^ 255"
    and "2 * amt \<le> 10 ^ 18" and "0 \<le> Pool_Decimals m"
  shows "\<exists>r. Pool_AssetDisbursementForCacaoAdd S m amt = Some r
    \<and> int (Pool_BalanceCacao m) * int (Pool_BalanceAsset m)
      \<le> (int (Pool_BalanceAsset m) - int r + 1) * (int (Pool_BalanceCacao m) + int amt)"
proof -
  obtain r where "Pool_AssetDisbursementForCacaoAdd S m amt = Some r"
    "int r * int (Pool_BalanceCacao m + amt)
      \<le> int amt * int (Pool_BalanceAsset m) + int (Pool_BalanceCacao m + amt)"
    by (rule cosmos_sdk.disbursement_bounds [OF assms])
  then show ?thesis by (auto simp: algebra_simps)
qed

text \<open>The liquidity unit value index is the geometric mean of the depths per unit, with twelve
  decimals, rounded down: whatever \<open>GetLUVI\<close> returns for a pool with units is the greatest
  number whose product with the units does not exceed \<open>10^12 * sqrt (R * A)\<close>.\<close>

lemma GetLUVI_geometric_mean:
  assumes "cosmos_sdk S" and "Pool_GetLUVI S m = Some l" and "Pool_GetPoolUnits S m = Some u" and "0 < u"
  shows "(l * u) * (l * u) \<le> 10 ^ 24 * (Pool_BalanceCacao m * Pool_BalanceAsset m)
    \<and> 10 ^ 24 * (Pool_BalanceCacao m * Pool_BalanceAsset m) < ((l + 1) * u) * ((l + 1) * u)"
  by (rule cosmos_sdk.GetLUVI_result [OF assms])

end
