(* ===== verification/Mimirs.thy ===== *)
theory Mimirs
  imports Voters
begin

text \<open>
  The votes of the nodes on configuration values, \<open>x/mayachain/types/type_mimir.go\<close>.
  \<open>countActive\<close> counts the votes of the active nodes per value and returns a value with the
  majority by ranging over a Go map, in an order the language leaves open. The model returns the
  list of all results the loop can give; a result is deterministic when the list has one element
  only.
\<close>

record NodeMimir =
  NM_Key :: string
  NM_Value :: int
  NM_Signer :: acc_address

type_synonym node_mimirs = "NodeMimir list"

definition mimir_match :: "string \<Rightarrow> acc_address \<Rightarrow> NodeMimir \<Rightarrow> bool" where
  "mimir_match key acc mim \<longleftrightarrow> NM_Signer mim = acc \<and> equalFold (NM_Key mim) key"

definition NodeMimirs_Has :: "node_mimirs \<Rightarrow> string \<Rightarrow> acc_address \<Rightarrow> bool" where
  "NodeMimirs_Has m key acc \<longleftrightarrow> list_ex (mimir_match key acc) m"

definition NodeMimirs_Get :: "node_mimirs \<Rightarrow> string \<Rightarrow> acc_address \<Rightarrow> int \<times> bool" where
  "NodeMimirs_Get m key acc =
     (case find (mimir_match key acc) m of Some mim \<Rightarrow> (NM_Value mim, True) | None \<Rightarrow> (0, False))"

definition NodeMimirs_Set :: "node_mimirs \<Rightarrow> string \<Rightarrow> int \<Rightarrow> acc_address \<Rightarrow> node_mimirs" where
  "NodeMimirs_Set m key val acc =
     (if list_ex (mimir_match key acc) m
      then update_first (mimir_match key acc) (\<lambda>mim. mim\<lparr>NM_Value := val\<rparr>) m
      else m @ [\<lparr>NM_Key = key, NM_Value = val, NM_Signer = acc\<rparr>])"

definition NodeMimirs_Delete :: "node_mimirs \<Rightarrow> string \<Rightarrow> acc_address \<Rightarrow> node_mimirs" where
  "NodeMimirs_Delete m key acc = remove_first (mimir_match key acc) m"

text \<open>\<open>counter[v]++\<close>, on the entries of the map in the order they were created.\<close>

fun counter_incr :: "(int \<times> nat) list \<Rightarrow> int \<Rightarrow> (int \<times> nat) list" where
  "counter_incr [] v = [(v, 1)]"
| "counter_incr ((w, n) # c) v = (if w = v then (w, n + 1) # c else (w, n) # counter_incr c v)"

text \<open>The inner loop: one increment for every active account that is the signer.\<close>

fun count_signer :: "NodeMimir \<Rightarrow> acc_address list \<Rightarrow> (int \<times> nat) list \<Rightarrow> (int \<times> nat) list" where
  "count_signer mimir [] counter = counter"
| "count_signer mimir (acc # active) counter =
     (if acc \<noteq> NM_Signer mimir then count_signer mimir active counter
      else count_signer mimir active (counter_incr counter (NM_Value mimir)))"

fun count_votes ::
  "sdk \<Rightarrow> string \<Rightarrow> acc_address list \<Rightarrow> node_mimirs \<Rightarrow> (int \<times> nat) list \<Rightarrow> string list
    \<Rightarrow> (int \<times> nat) list" where
  "count_votes S key active [] counter voted = counter"
| "count_votes S key active (mimir # m) counter voted =
     (if \<not> equalFold (NM_Key mimir) key then count_votes S key active m counter voted
      else if acc_string S (NM_Signer mimir) \<in> set voted then count_votes S key active m counter voted
      else count_votes S key active m (count_signer mimir active counter)
        (if NM_Signer mimir \<in> set active then acc_string S (NM_Signer mimir) # voted else voted))"

definition countActive ::
  "sdk \<Rightarrow> node_mimirs \<Rightarrow> string \<Rightarrow> acc_address list \<Rightarrow> (int \<Rightarrow> int \<Rightarrow> bool) \<Rightarrow> (int \<times> bool) list" where
  "countActive S m key active maj =
     (let counter = count_votes S key active m [] [];
          winners = filter (\<lambda>(val, count). maj (int count) (int (length active))) counter
      in if winners = [] then [(0, False)] else map (\<lambda>(val, count). (val, True)) winners)"

definition NodeMimirs_HasSuperMajority ::
  "sdk \<Rightarrow> node_mimirs \<Rightarrow> string \<Rightarrow> acc_address list \<Rightarrow> (int \<times> bool) list" where
  "NodeMimirs_HasSuperMajority S m key nas = countActive S m key nas HasSuperMajority"

definition NodeMimirs_HasSimpleMajority ::
  "sdk \<Rightarrow> node_mimirs \<Rightarrow> string \<Rightarrow> acc_address list \<Rightarrow> (int \<times> bool) list" where
  "NodeMimirs_HasSimpleMajority S m key nas = countActive S m key nas HasSimpleMajority"

definition NodeMimirs_HasMinority ::
  "sdk \<Rightarrow> node_mimirs \<Rightarrow> string \<Rightarrow> acc_address list \<Rightarrow> int \<times> bool" where
  "NodeMimirs_HasMinority S m key nas = (0, False)"

section \<open>Lookup after update\<close>

lemma mimir_match_value [simp]: "mimir_match key acc (mim\<lparr>NM_Value := v\<rparr>) = mimir_match key acc mim"
  by (simp add: mimir_match_def)

lemma mimir_match_fold:
  "mimir_match key acc mim \<Longrightarrow> mimir_match key' acc' mim \<longleftrightarrow> acc' = acc \<and> equalFold key' key"
  by (auto simp: mimir_match_def equalFold_def)

lemma Get_Set_same: "NodeMimirs_Get (NodeMimirs_Set m key val acc) key acc = (val, True)"
proof (cases "list_ex (mimir_match key acc) m")
  case True
  then obtain x where "find (mimir_match key acc) m = Some x"
    by (metis find_None_iff list_ex_iff option.exhaust)
  then show ?thesis
    using True by (simp add: NodeMimirs_Get_def NodeMimirs_Set_def find_update_first_same)
next
  case False
  then have "find (mimir_match key acc) m = None" by (simp add: find_None_iff list_ex_iff)
  then have "find (mimir_match key acc) (m @ [\<lparr>NM_Key = key, NM_Value = val, NM_Signer = acc\<rparr>])
      = Some \<lparr>NM_Key = key, NM_Value = val, NM_Signer = acc\<rparr>"
    by (induction m) (auto simp: mimir_match_def split: if_splits)
  with False show ?thesis by (simp add: NodeMimirs_Get_def NodeMimirs_Set_def)
qed

lemma Get_Set_other:
  assumes "\<not> (acc' = acc \<and> equalFold key' key)"
  shows "NodeMimirs_Get (NodeMimirs_Set m key val acc) key' acc' = NodeMimirs_Get m key' acc'"
proof -
  have no: "\<not> mimir_match key' acc' x" if "mimir_match key acc x" for x
    using mimir_match_fold [OF that] assms by blast
  have "mimir_match key acc \<lparr>NM_Key = key, NM_Value = val, NM_Signer = acc\<rparr>"
    by (simp add: mimir_match_def)
  note new = no [OF this]
  have "find (mimir_match key' acc') (NodeMimirs_Set m key val acc) = find (mimir_match key' acc') m"
  proof (cases "list_ex (mimir_match key acc) m")
    case True
    then show ?thesis using no by (simp add: NodeMimirs_Set_def find_update_first_other)
  next
    case False
    moreover have "find (mimir_match key' acc') (m @ [\<lparr>NM_Key = key, NM_Value = val, NM_Signer = acc\<rparr>])
        = find (mimir_match key' acc') m"
      using new by (induction m) auto
    ultimately show ?thesis by (simp add: NodeMimirs_Set_def)
  qed
  then show ?thesis by (simp add: NodeMimirs_Get_def)
qed

section \<open>Counting\<close>

abbreviation counter_total :: "(int \<times> nat) list \<Rightarrow> nat" where
  "counter_total c \<equiv> sum_list (map snd c)"

lemma counter_incr_total [simp]: "counter_total (counter_incr c v) = Suc (counter_total c)"
  by (induction c v rule: counter_incr.induct) auto

lemma counter_incr_keys:
  "set (map fst (counter_incr c v)) = insert v (set (map fst c))
   \<and> (distinct (map fst c) \<longrightarrow> distinct (map fst (counter_incr c v)))"
  by (induction c v rule: counter_incr.induct) (auto split: if_splits)

lemma count_signer_total:
  "counter_total (count_signer x active c) = counter_total c + count_list active (NM_Signer x)"
  by (induction x active c rule: count_signer.induct) auto

lemma count_signer_distinct:
  "distinct (map fst c) \<Longrightarrow> distinct (map fst (count_signer x active c))"
  by (induction x active c rule: count_signer.induct) (use counter_incr_keys in auto)

lemma sum_count_list_le:
  "distinct vs \<Longrightarrow> (\<Sum>v\<leftarrow>vs. count_list xs v) \<le> length xs"
proof -
  assume d: "distinct vs"
  have "(\<Sum>v\<leftarrow>vs. count_list xs v) = sum (count_list xs) (set vs)"
    using d by (simp add: sum_list_distinct_conv_sum_set)
  also have "\<dots> \<le> sum (count_list xs) (set vs \<union> set xs)" by (rule sum_mono2) auto
  also have "\<dots> = sum (count_list xs) (set xs)"
    by (rule sum.mono_neutral_right) (auto simp: count_list_0_iff)
  finally show ?thesis by (simp add: sum_count_set)
qed

text \<open>The votes counted are at most the active nodes, whoever votes how often.\<close>

lemma count_votes_bound:
  assumes "distinct (map (acc_string S) vs)" and "voted = map (acc_string S) vs"
    and "counter_total c = (\<Sum>v\<leftarrow>vs. count_list active v)" and "distinct (map fst c)"
  shows "counter_total (count_votes S key active m c voted) \<le> length active
    \<and> distinct (map fst (count_votes S key active m c voted))"
  using assms
proof (induction m arbitrary: c voted vs)
  case Nil
  then show ?case using sum_count_list_le [of vs active] by (simp add: distinct_map)
next
  case (Cons x m)
  consider "\<not> equalFold (NM_Key x) key \<or> acc_string S (NM_Signer x) \<in> set voted"
    | "equalFold (NM_Key x) key" "acc_string S (NM_Signer x) \<notin> set voted" "NM_Signer x \<in> set active"
    | "equalFold (NM_Key x) key" "acc_string S (NM_Signer x) \<notin> set voted" "NM_Signer x \<notin> set active"
    by blast
  then show ?case
  proof cases
    case 1
    then show ?thesis using Cons.IH [OF Cons.prems] by auto
  next
    case 2
    then show ?thesis
      using Cons.IH [of "NM_Signer x # vs" "acc_string S (NM_Signer x) # voted" "count_signer x active c"]
        Cons.prems by (simp add: count_signer_total count_signer_distinct)
  next
    case 3
    then have "counter_total (count_signer x active c) = counter_total c"
      by (simp add: count_signer_total count_list_0_iff)
    then show ?thesis
      using 3 Cons.IH [of vs voted "count_signer x active c"] Cons.prems
      by (simp add: count_signer_distinct)
  qed
qed

lemma two_winners:
  assumes "(v, i) \<in> set c" "(w, j) \<in> set c" "v \<noteq> w" "counter_total c \<le> n" "distinct (map fst c)"
  shows "i + j \<le> n"
proof -
  have "i + j = sum snd {(v, i), (w, j)}" using assms(3) by simp
  also have "\<dots> \<le> sum snd (set c)" using assms(1,2) by (intro sum_mono2) auto
  also have "\<dots> = counter_total c"
    using assms(5) by (simp add: sum_list_distinct_conv_sum_set distinct_map)
  finally show ?thesis using assms(4) by simp
qed

lemma count_votes_total:
  "counter_total (count_votes S key active m [] []) \<le> length active
   \<and> distinct (map fst (count_votes S key active m [] []))"
  by (rule count_votes_bound [of S "[]"]) simp_all

lemma distinct_at_most_one:
  assumes "distinct xs" and "\<And>x y. x \<in> set xs \<Longrightarrow> y \<in> set xs \<Longrightarrow> x = y" and "xs \<noteq> []"
  shows "\<exists>x. xs = [x]"
proof -
  obtain x ys where xs: "xs = x # ys" using assms(3) by (cases xs) auto
  have "ys = []"
  proof (cases ys)
    case (Cons y zs)
    then have "x = y" using assms(2) [of x y] xs by simp
    then show ?thesis using assms(1) xs Cons by simp
  qed
  with xs show ?thesis by simp
qed

section \<open>Properties\<close>

text \<open>A vote is read back as it was cast: after \<open>Set\<close>, \<open>Get\<close> returns the new value for
  the signer and the key, in whatever letter case, and every other vote as before.\<close>

lemma NodeMimirs_Get_Set:
  "NodeMimirs_Get (NodeMimirs_Set m key val acc) key' acc' =
     (if acc' = acc \<and> equalFold key' key then (val, True) else NodeMimirs_Get m key' acc')"
proof (cases "acc' = acc \<and> equalFold key' key")
  case True
  then have "mimir_match key' acc' = mimir_match key acc"
    by (auto simp: fun_eq_iff mimir_match_def equalFold_def)
  then show ?thesis using True Get_Set_same [of m key val acc] by (simp add: NodeMimirs_Get_def)
qed (use Get_Set_other in auto)

text \<open>The super majority of a configuration value is unique: although \<open>countActive\<close>
  ranges over a Go map, whose order the language leaves open, \<open>HasSuperMajority\<close> has one
  possible result, whoever voted, however often and for whatever values.\<close>

lemma NodeMimirs_HasSuperMajority_deterministic:
  "\<exists>r. NodeMimirs_HasSuperMajority S m key nas = [r]"
proof -
  define c where "c = count_votes S key nas m [] []"
  define ws where "ws = filter (\<lambda>(v, n). HasSuperMajority (int n) (int (length nas))) c"
  have c: "counter_total c \<le> length nas" "distinct (map fst c)"
    using count_votes_total [of S key nas m] by (simp_all add: c_def)
  have eq: "x = y" if "x \<in> set ws" "y \<in> set ws" for x y
  proof (rule ccontr)
    assume "x \<noteq> y"
    with that c(2) have "fst x \<noteq> fst y" by (auto simp: ws_def distinct_map inj_on_def)
    then have "snd x + snd y \<le> length nas"
      using two_winners [of "fst x" "snd x" c "fst y" "snd y"] that c by (auto simp: ws_def)
    with that show False by (auto simp: ws_def HasSuperMajority_iff)
  qed
  have "distinct ws" using c(2) by (simp add: ws_def distinct_map)
  then have "ws = [] \<or> (\<exists>w. ws = [w])" using distinct_at_most_one [OF _ eq] by blast
  then show ?thesis
    by (auto simp: NodeMimirs_HasSuperMajority_def countActive_def Let_def simp flip: c_def ws_def)
qed

text \<open>The simple majority of a configuration value need not be unique: with two active nodes
  that vote for different values both values have the half that \<open>HasSimpleMajority\<close> asks for,
  so what \<open>countActive\<close> returns depends on the order of a Go map, which may differ between the
  nodes of the network.\<close>

lemma NodeMimirs_HasSimpleMajority_ambiguous:
  "NodeMimirs_HasSimpleMajority sdk256
     (NodeMimirs_Set (NodeMimirs_Set [] ''K'' 1 ''a'') ''K'' 2 ''b'') ''K'' [''a'', ''b'']
   = [(1, True), (2, True)]"
  by (simp add: NodeMimirs_HasSimpleMajority_def countActive_def NodeMimirs_Set_def mimir_match_def
      HasSimpleMajority_def sdk256_def)

end
