(* ===== verification/Vaults.thy ===== *)
theory Vaults
  imports Voters
begin

text \<open>
  Vaults, \<open>x/mayachain/types/type_vault.go\<close>: the funds the nodes hold together, by asset. A
  vault satisfies the contract \<open>coin_holder\<close> of the coins, so that adding funds to it conserves
  them. The address of a vault on a chain is derived from its key by code of the chain's own
  libraries: it is the parameter \<open>getAddress\<close> of \<open>HasAddress\<close>.
\<close>

datatype VaultType = VaultType_UnknownVault | VaultType_AsgardVault | VaultType_YggdrasilVault

datatype VaultStatus =
  VaultStatus_InactiveVault | VaultStatus_ActiveVault | VaultStatus_RetiringVault
  | VaultStatus_InitVault

record ChainContract =
  CC_Chain :: chain
  CC_Router :: address

record Vault =
  V_BlockHeight :: int
  V_PubKey :: pub_key
  V_Coins :: coins
  V_Type :: VaultType
  V_Status :: VaultStatus
  V_StatusSince :: int
  V_Membership :: "string list"
  V_Chains :: "string list"
  V_InboundTxCount :: int
  V_OutboundTxCount :: int
  V_PendingTxBlockHeights :: "int list"
  V_Routers :: "ChainContract list"
  V_Frozen :: "string list"

definition NewVault ::
  "int \<Rightarrow> VaultStatus \<Rightarrow> VaultType \<Rightarrow> pub_key \<Rightarrow> string list \<Rightarrow> ChainContract list \<Rightarrow> Vault" where
  "NewVault height status vtype pk cs routers =
     \<lparr>V_BlockHeight = height, V_PubKey = pk, V_Coins = [], V_Type = vtype, V_Status = status,
      V_StatusSince = height, V_Membership = [], V_Chains = cs, V_InboundTxCount = 0,
      V_OutboundTxCount = 0, V_PendingTxBlockHeights = [], V_Routers = routers, V_Frozen = []\<rparr>"

definition EmptyVault :: Vault where
  "EmptyVault = NewVault 0 VaultStatus_InactiveVault VaultType_UnknownVault '''' [] []"

definition Vault_GetChains :: "Vault \<Rightarrow> chain list" where
  "Vault_GetChains m = parse_chains (V_Chains m)"

definition Vault_GetMembership :: "sdk \<Rightarrow> Vault \<Rightarrow> pub_key list" where
  "Vault_GetMembership S m = parse_pubkeys S (V_Membership m)"

definition Vault_IsType :: "Vault \<Rightarrow> VaultType \<Rightarrow> bool" where
  "Vault_IsType m vtype \<longleftrightarrow> V_Type m = vtype"

definition Vault_IsAsgard :: "Vault \<Rightarrow> bool" where
  "Vault_IsAsgard m \<longleftrightarrow> Vault_IsType m VaultType_AsgardVault"

definition Vault_IsYggdrasil :: "Vault \<Rightarrow> bool" where
  "Vault_IsYggdrasil m \<longleftrightarrow> Vault_IsType m VaultType_YggdrasilVault"

definition Vault_IsEmpty :: "Vault \<Rightarrow> bool" where
  "Vault_IsEmpty m \<longleftrightarrow> PubKey_IsEmpty (V_PubKey m)"

definition Vault_Contains :: "sdk \<Rightarrow> Vault \<Rightarrow> pub_key \<Rightarrow> bool" where
  "Vault_Contains S m pubkey \<longleftrightarrow> PubKeys_Contains (Vault_GetMembership S m) pubkey"

definition Vault_MembershipEquals :: "sdk \<Rightarrow> Vault \<Rightarrow> pub_key list \<Rightarrow> bool" where
  "Vault_MembershipEquals S m pks =
     (if length (V_Membership m) \<noteq> length pks then False
      else list_all (Vault_Contains S m) pks)"

definition Vault_UpdateStatus :: "Vault \<Rightarrow> VaultStatus \<Rightarrow> int \<Rightarrow> Vault" where
  "Vault_UpdateStatus m s height = m\<lparr>V_Status := s, V_StatusSince := height\<rparr>"

definition Vault_Valid :: "Vault \<Rightarrow> check" where
  "Vault_Valid m = (if PubKey_IsEmpty (V_PubKey m) then fails ''pubkey cannot be empty'' else None)"

definition Vault_HasFunds :: "Vault \<Rightarrow> bool" where
  "Vault_HasFunds m \<longleftrightarrow>
     list_ex (\<lambda>coin. \<not> Asset_IsBase (Coin_Asset coin) \<and> Coin_Amount coin \<noteq> 0) (V_Coins m)"

definition Vault_HasFundsForChain :: "Vault \<Rightarrow> chain \<Rightarrow> bool" where
  "Vault_HasFundsForChain m c \<longleftrightarrow>
     list_ex (\<lambda>coin. Chain_Equals (Asset_GetChain (Coin_Asset coin)) c \<and> Coin_Amount coin \<noteq> 0)
       (V_Coins m)"

definition Vault_CoinLength :: "Vault \<Rightarrow> nat" where
  "Vault_CoinLength m = length (filter (\<lambda>coin. Coin_Amount coin \<noteq> 0) (V_Coins m))"

definition Vault_CoinLengthByChain :: "Vault \<Rightarrow> chain \<Rightarrow> nat" where
  "Vault_CoinLengthByChain m c =
     length (filter (\<lambda>coin. Chain_Equals (Asset_GetChain (Coin_Asset coin)) c \<and> Coin_Amount coin \<noteq> 0)
       (V_Coins m))"

definition Vault_GetCoin :: "Vault \<Rightarrow> Asset \<Rightarrow> Coin" where
  "Vault_GetCoin m asset =
     (case find (\<lambda>coin. Asset_Equals (Coin_Asset coin) asset) (V_Coins m) of
        Some coin \<Rightarrow> coin
      | None \<Rightarrow> NewCoin asset 0)"

definition Vault_HasAsset :: "Vault \<Rightarrow> Asset \<Rightarrow> bool" where
  "Vault_HasAsset m asset \<longleftrightarrow> Coin_Amount (Vault_GetCoin m asset) \<noteq> 0"

fun members_loop :: "sdk \<Rightarrow> acc_address list \<Rightarrow> pub_key list \<Rightarrow> pub_key list \<Rightarrow> go_error + pub_key list"
where
  "members_loop S observers [] signers = Inr signers"
| "members_loop S observers (k # ks) signers =
     (case pubkey_acc S k of
        None \<Rightarrow> Inl (GoError ''fail to get thor address'')
      | Some addr \<Rightarrow>
          members_loop S observers ks (signers @ map (\<lambda>_. k) (filter (\<lambda>item. item = addr) observers)))"

definition Vault_GetMembers :: "sdk \<Rightarrow> Vault \<Rightarrow> acc_address list \<Rightarrow> go_error + pub_key list" where
  "Vault_GetMembers S m activeObservers = members_loop S activeObservers (Vault_GetMembership S m) []"

definition Vault_GetContract :: "Vault \<Rightarrow> chain \<Rightarrow> ChainContract" where
  "Vault_GetContract v c =
     (case find (\<lambda>item. Chain_Equals (CC_Chain item) c) (V_Routers v) of
        Some item \<Rightarrow> item
      | None \<Rightarrow> \<lparr>CC_Chain = '''', CC_Router = ''''\<rparr>)"

definition Vault_UpdateContract :: "Vault \<Rightarrow> ChainContract \<Rightarrow> Vault" where
  "Vault_UpdateContract v chainContract =
     (let same = (\<lambda>item. Chain_Equals (CC_Chain item) (CC_Chain chainContract));
          routers = map (\<lambda>item. if same item then chainContract else item) (V_Routers v)
      in v\<lparr>V_Routers := (if list_ex same (V_Routers v) then routers else routers @ [chainContract])\<rparr>)"

text \<open>The loop of \<open>addFund\<close> over the coins of the vault is the one of \<open>Coins.Add\<close>.\<close>

definition Vault_addFund :: "sdk \<Rightarrow> Vault \<Rightarrow> Coin \<Rightarrow> Vault option" where
  "Vault_addFund S m coin =
     do {
       cs \<leftarrow> Coins_Add S (V_Coins m) coin;
       if list_ex (\<lambda>ycoin. Asset_Equals (Coin_Asset ycoin) (Coin_Asset coin)) (V_Coins m)
       then Some (m\<lparr>V_Coins := cs\<rparr>)
       else
         let c = Asset_GetChain (Coin_Asset coin);
             m' = (if \<not> Chains_Has (Vault_GetChains m) c
                   then m\<lparr>V_Chains := V_Chains m @ [Chain_String c]\<rparr> else m)
         in Some (m'\<lparr>V_Coins := cs\<rparr>)
     }"

fun Vault_AddFunds :: "sdk \<Rightarrow> Vault \<Rightarrow> coins \<Rightarrow> Vault option" where
  "Vault_AddFunds S m [] = Some m"
| "Vault_AddFunds S m (coin # cs) =
     do {
       m' \<leftarrow> Vault_addFund S m coin;
       Vault_AddFunds S m' cs
     }"

fun sub_first :: "sdk \<Rightarrow> coins \<Rightarrow> Coin \<Rightarrow> coins option" where
  "sub_first S [] coin = Some []"
| "sub_first S (ycoin # cs) coin =
     (if Asset_Equals (Coin_Asset coin) (Coin_Asset ycoin) then
        do {
          n \<leftarrow> SafeSub S (Coin_Amount ycoin) (Coin_Amount coin);
          Some (ycoin\<lparr>Coin_Amount := n\<rparr> # cs)
        }
      else do {
          rest \<leftarrow> sub_first S cs coin;
          Some (ycoin # rest)
        })"

definition Vault_subFund :: "sdk \<Rightarrow> Vault \<Rightarrow> Coin \<Rightarrow> Vault option" where
  "Vault_subFund S m coin =
     do {
       cs \<leftarrow> sub_first S (V_Coins m) coin;
       Some (m\<lparr>V_Coins := cs\<rparr>)
     }"

fun Vault_SubFunds :: "sdk \<Rightarrow> Vault \<Rightarrow> coins \<Rightarrow> Vault option" where
  "Vault_SubFunds S m [] = Some m"
| "Vault_SubFunds S m (coin # cs) =
     do {
       m' \<leftarrow> Vault_subFund S m coin;
       Vault_SubFunds S m' cs
     }"

text \<open>The period is the constant \<open>SigningTransactionPeriod\<close> of the accessor.\<close>

definition Vault_AppendPendingTxBlockHeights :: "Vault \<Rightarrow> int \<Rightarrow> (constant_name \<Rightarrow> int) \<Rightarrow> Vault" where
  "Vault_AppendPendingTxBlockHeights m blockHeight getInt64Value =
     m\<lparr>V_PendingTxBlockHeights := blockHeight #
         filter (\<lambda>item. wrap64 (blockHeight - item) \<le> getInt64Value ''SigningTransactionPeriod'')
           (V_PendingTxBlockHeights m)\<rparr>"

definition Vault_RemovePendingTxBlockHeights :: "Vault \<Rightarrow> int \<Rightarrow> Vault" where
  "Vault_RemovePendingTxBlockHeights m blockHeight =
     m\<lparr>V_PendingTxBlockHeights := remove_first (\<lambda>item. item = blockHeight) (V_PendingTxBlockHeights m)\<rparr>"

definition Vault_LenPendingTxBlockHeights :: "Vault \<Rightarrow> int \<Rightarrow> int \<Rightarrow> nat" where
  "Vault_LenPendingTxBlockHeights m currentBlockHeight maxBlocks =
     length (filter (\<lambda>item. wrap64 (currentBlockHeight - item) \<le> maxBlocks) (V_PendingTxBlockHeights m))"

text \<open>\<open>sort.SliceStable\<close> by descending amount.\<close>

definition Vaults_SortBy :: "Vault list \<Rightarrow> Asset \<Rightarrow> Vault list" where
  "Vaults_SortBy vs sortBy = sort_key (\<lambda>v. - int (Coin_Amount (Vault_GetCoin v sortBy))) vs"

definition Vaults_Has :: "Vault list \<Rightarrow> Coin \<Rightarrow> Vault list" where
  "Vaults_Has vs target =
     filter (\<lambda>v. Coin_Amount (Vault_GetCoin v (Coin_Asset target)) \<ge> Coin_Amount target) vs"

definition Vaults_SelectByMinCoin :: "Vault list \<Rightarrow> Asset \<Rightarrow> Vault" where
  "Vaults_SelectByMinCoin vs asset =
     (if length vs = 1 then vs ! 0
      else foldl (\<lambda>vault v.
        if Vault_IsEmpty vault
           \<or> Coin_Amount (Vault_GetCoin v asset) < Coin_Amount (Vault_GetCoin vault asset)
        then v else vault) EmptyVault vs)"

definition Vaults_SelectByMaxCoin :: "Vault list \<Rightarrow> Asset \<Rightarrow> Vault" where
  "Vaults_SelectByMaxCoin vs asset =
     (if length vs = 1 then vs ! 0
      else foldl (\<lambda>vault v.
        if Vault_IsEmpty vault
           \<or> Coin_Amount (Vault_GetCoin v asset) > Coin_Amount (Vault_GetCoin vault asset)
        then v else vault) EmptyVault vs)"

fun Vaults_HasAddress ::
  "(pub_key \<Rightarrow> chain \<Rightarrow> address option) \<Rightarrow> Vault list \<Rightarrow> chain \<Rightarrow> address \<Rightarrow> go_error + bool" where
  "Vaults_HasAddress getAddress [] c a = Inr False"
| "Vaults_HasAddress getAddress (item # vs) c a =
     (case getAddress (V_PubKey item) c of
        None \<Rightarrow> Inl (GoError ''fail to get address'')
      | Some addr \<Rightarrow> if Address_Equals addr a then Inr True else Vaults_HasAddress getAddress vs c a)"

section \<open>Funds\<close>

lemma addFund_coins:
  "Vault_addFund S m coin = Some m' \<Longrightarrow> Coins_Add S (V_Coins m) coin = Some (V_Coins m')"
  by (auto simp: Vault_addFund_def bind_Some_iff Let_def split: if_splits)

lemma sub_first_norm:
  "sub_first S cs coin = Some cs' \<Longrightarrow>
     map (asset_norm \<circ> Coin_Asset) cs' = map (asset_norm \<circ> Coin_Asset) cs"
  by (induction cs arbitrary: cs') (auto simp: bind_Some_iff split: if_splits)

lemma sub_first_distinct: "coins_distinct cs \<Longrightarrow> sub_first S cs coin = Some cs' \<Longrightarrow> coins_distinct cs'"
  by (simp add: coins_distinct_def sub_first_norm)

lemma coins_total_absent:
  "asset_norm a \<notin> set (map (asset_norm \<circ> Coin_Asset) cs) \<Longrightarrow> coins_total cs a = 0"
  by (induction cs) (auto simp: Asset_Equals_iff)

lemma coins_total_cong: "asset_norm a = asset_norm b \<Longrightarrow> coins_total cs a = coins_total cs b"
  by (simp add: coins_total_def Asset_Equals_iff)

lemma GetCoin_total:
  "coins_distinct (V_Coins m) \<Longrightarrow> Coin_Amount (Vault_GetCoin m a) = coins_total (V_Coins m) a"
proof -
  assume d: "coins_distinct (V_Coins m)"
  have "(case find (\<lambda>coin. Asset_Equals (Coin_Asset coin) a) cs of Some c \<Rightarrow> Coin_Amount c | None \<Rightarrow> 0)
      = coins_total cs a" if "coins_distinct cs" for cs
    using that
  proof (induction cs)
    case (Cons c cs)
    show ?case
    proof (cases "Asset_Equals (Coin_Asset c) a")
      case True
      then have "coins_total cs a = 0"
        using Cons.prems by (intro coins_total_absent) (auto simp: coins_distinct_def Asset_Equals_iff)
      with True show ?thesis by simp
    next
      case False
      then show ?thesis using Cons by (simp add: coins_distinct_def)
    qed
  qed simp
  from this [OF d] show ?thesis
    by (auto simp: Vault_GetCoin_def NewCoin_def split: option.splits)
qed

context cosmos_sdk
begin

lemma Vault_coin_holder:
  "coin_holder (Vault_addFund S) (Vault_AddFunds S) (\<lambda>m. coins_total (V_Coins m)) (\<lambda>m. coins_distinct (V_Coins m))"
proof
  show "coins_total (V_Coins m') a = coins_total (V_Coins m) a + (if Asset_Equals (Coin_Asset c) a then Coin_Amount c else 0)"
    if "Vault_addFund S m c = Some m'" for m c m' a
    using Coins_Add_total [OF addFund_coins [OF that]] .
  show "coins_distinct (V_Coins m')" if "coins_distinct (V_Coins m)" "Vault_addFund S m c = Some m'" for m c m'
    using Coins_Add_distinct [OF that(1) addFund_coins [OF that(2)]] .
qed simp_all

lemma sub_first_total:
  assumes "coins_distinct cs"
  shows "\<exists>cs'. sub_first S cs coin = Some cs' \<and>
    coins_total cs' a = coins_total cs a - (if Asset_Equals (Coin_Asset coin) a then Coin_Amount coin else 0)"
  using assms
proof (induction cs)
  case (Cons y cs)
  obtain cs' where cs': "sub_first S cs coin = Some cs'"
    "coins_total cs' a = coins_total cs a - (if Asset_Equals (Coin_Asset coin) a then Coin_Amount coin else 0)"
    using Cons by (auto simp: coins_distinct_def)
  have absent: "coins_total cs a = 0" if "Asset_Equals (Coin_Asset y) a"
    using Cons.prems that by (intro coins_total_absent) (auto simp: coins_distinct_def Asset_Equals_iff)
  show ?case
    using cs' absent by (auto simp: SafeSub_eq Asset_Equals_iff)
qed simp

lemma SubFunds_total:
  "coins_distinct (V_Coins m) \<Longrightarrow>
     \<exists>m'. Vault_SubFunds S m cs = Some m' \<and> coins_distinct (V_Coins m')
       \<and> coins_total (V_Coins m') a = coins_total (V_Coins m) a - coins_total cs a"
proof (induction cs arbitrary: m)
  case (Cons c cs)
  obtain ds where ds: "sub_first S (V_Coins m) c = Some ds"
    "coins_total ds a = coins_total (V_Coins m) a - (if Asset_Equals (Coin_Asset c) a then Coin_Amount c else 0)"
    using sub_first_total [OF Cons.prems] by blast
  then show ?case
    using Cons.IH [of "m\<lparr>V_Coins := ds\<rparr>"] sub_first_distinct [OF Cons.prems ds(1)]
    by (auto simp: Vault_subFund_def)
qed simp

lemma AddFunds_total:
  assumes "Vault_AddFunds S m cs = Some m'"
  shows "coins_total (V_Coins m') a = coins_total (V_Coins m) a + coins_total cs a"
    and "coins_distinct (V_Coins m) \<Longrightarrow> coins_distinct (V_Coins m')"
  using coin_holder.adds_amount [OF Vault_coin_holder assms] coin_holder.adds_invar [OF Vault_coin_holder _ assms]
  by auto

lemma AddFunds_SubFunds:
  assumes "coins_distinct (V_Coins m)" and "Vault_AddFunds S m cs = Some m'"
  shows "\<exists>m''. Vault_SubFunds S m' cs = Some m'' \<and> coins_total (V_Coins m'') = coins_total (V_Coins m)"
proof -
  have d: "coins_distinct (V_Coins m')" by (rule AddFunds_total(2) [OF assms(2,1)])
  obtain m'' where m'': "Vault_SubFunds S m' cs = Some m''" using SubFunds_total [OF d] by blast
  have "coins_total (V_Coins m'') a = coins_total (V_Coins m) a" for a
    using SubFunds_total [OF d, of cs a] m'' AddFunds_total(1) [OF assms(2), of a] by auto
  with m'' show ?thesis by blast
qed

end

interpretation vault: coin_holder "Vault_addFund sdk256" "Vault_AddFunds sdk256"
  "\<lambda>m. coins_total (V_Coins m)" "\<lambda>m. coins_distinct (V_Coins m)"
  by (rule sdk256.Vault_coin_holder)

section \<open>Chains of a vault\<close>

text \<open>Every coin of the vault is on a chain the vault lists.\<close>

definition vault_chains_ok :: "Vault \<Rightarrow> bool" where
  "vault_chains_ok m \<longleftrightarrow>
     list_all (\<lambda>c. Chains_Has (Vault_GetChains m) (Asset_GetChain (Coin_Asset c))) (V_Coins m)"

definition coin_chain_valid :: "Coin \<Rightarrow> bool" where
  "coin_chain_valid c \<longleftrightarrow> Chain_Validate (Chain_String (Asset_GetChain (Coin_Asset c))) = None"

lemma parse_chains_append [simp]: "parse_chains (xs @ ys) = parse_chains xs @ parse_chains ys"
  by (induction xs) (auto simp: parse_chains_def List.map_filter_simps split: option.splits)

lemma parse_chains_valid:
  "Chain_Validate (Chain_String c) = None \<Longrightarrow> parse_chains [Chain_String c] = [Chain_String c]"
  by (simp add: parse_chains_def List.map_filter_simps NewChain_def Chain_String_def)

lemma Chains_Has_append [simp]: "Chains_Has (xs @ ys) c \<longleftrightarrow> Chains_Has xs c \<or> Chains_Has ys c"
  by (simp add: Chains_Has_def)

lemma toUpper_Chain_String [simp]: "toUpper (Chain_String c) = toUpper c"
  by (simp add: Chain_String_def)

lemma Coins_Add_members:
  "Coins_Add S cs coin = Some cs' \<Longrightarrow>
     Coin_Asset ` set cs' \<subseteq> Coin_Asset ` set cs \<union>
       (if list_ex (\<lambda>y. Asset_Equals (Coin_Asset y) (Coin_Asset coin)) cs then {} else {Coin_Asset coin})"
  by (induction cs arbitrary: cs') (fastforce simp: bind_Some_iff split: if_splits)+

lemma addFund_chains_ok:
  assumes "vault_chains_ok m" and "coin_chain_valid coin" and "Vault_addFund S m coin = Some m'"
  shows "vault_chains_ok m'"
proof -
  have sub: "Coin_Asset ` set (V_Coins m') \<subseteq> Coin_Asset ` set (V_Coins m) \<union>
      (if list_ex (\<lambda>y. Asset_Equals (Coin_Asset y) (Coin_Asset coin)) (V_Coins m) then {} else {Coin_Asset coin})"
    by (rule Coins_Add_members [OF addFund_coins [OF assms(3)]])
  have grow: "Chains_Has (Vault_GetChains m') c" if "Chains_Has (Vault_GetChains m) c" for c
    using that assms(3)
    by (auto simp: Vault_addFund_def Vault_GetChains_def bind_Some_iff Let_def split: if_splits)
  have new: "Chains_Has (Vault_GetChains m') (Asset_GetChain (Coin_Asset coin))"
    if "\<not> list_ex (\<lambda>y. Asset_Equals (Coin_Asset y) (Coin_Asset coin)) (V_Coins m)"
    using that assms(2,3) parse_chains_valid
    by (auto simp: Vault_addFund_def Vault_GetChains_def coin_chain_valid_def bind_Some_iff Let_def
        Chains_Has_def Chain_Equals_iff split: if_splits)
  have "Chains_Has (Vault_GetChains m') (Asset_GetChain a)" if "a \<in> Coin_Asset ` set (V_Coins m')" for a
    using subsetD [OF sub that] grow new assms(1)
    by (auto simp: vault_chains_ok_def list_all_iff split: if_splits)
  then show ?thesis by (auto simp: vault_chains_ok_def list_all_iff)
qed

lemma AddFunds_chains_ok:
  "vault_chains_ok m \<Longrightarrow> list_all coin_chain_valid cs \<Longrightarrow> Vault_AddFunds S m cs = Some m' \<Longrightarrow> vault_chains_ok m'"
  by (induction cs arbitrary: m) (auto simp: bind_Some_iff intro: addFund_chains_ok)

section \<open>Choice of a vault\<close>

lemma select_fold:
  fixes P :: "nat \<Rightarrow> nat \<Rightarrow> bool"
  assumes "\<And>x y. \<not> P x y \<Longrightarrow> R x y" and "\<And>x y. P x y \<Longrightarrow> R y x"
    and "\<And>x. R x x" and "\<And>x y z. R x y \<Longrightarrow> R y z \<Longrightarrow> R x z"
    and "list_all (\<lambda>v. \<not> Vault_IsEmpty v) vs" and "\<not> Vault_IsEmpty v0"
  shows "foldl (\<lambda>vault v. if Vault_IsEmpty vault \<or> P (g v) (g vault) then v else vault) v0 vs \<in> set (v0 # vs)
    \<and> (\<forall>v \<in> set (v0 # vs).
         R (g v) (g (foldl (\<lambda>vault v. if Vault_IsEmpty vault \<or> P (g v) (g vault) then v else vault) v0 vs)))"
  using assms(5,6)
proof (induction vs arbitrary: v0)
  case Nil
  then show ?case by (simp add: assms(3))
next
  case (Cons w vs)
  define v1 where "v1 = (if P (g w) (g v0) then w else v0)"
  have "R (g v0) (g v1)" "R (g w) (g v1)" "v1 \<in> {v0, w}" "\<not> Vault_IsEmpty v1"
    using Cons.prems assms(1-3) by (auto simp: v1_def)
  with Cons.IH [of v1] Cons.prems show ?case
    by (auto simp: v1_def [symmetric] intro: assms(4))
qed

lemma SelectByMaxCoin_max:
  assumes "vs \<noteq> []" and "list_all (\<lambda>v. \<not> Vault_IsEmpty v) vs"
  shows "Vaults_SelectByMaxCoin vs asset \<in> set vs
    \<and> (\<forall>v \<in> set vs. Coin_Amount (Vault_GetCoin v asset)
         \<le> Coin_Amount (Vault_GetCoin (Vaults_SelectByMaxCoin vs asset) asset))"
proof (cases vs)
  case (Cons v0 ws)
  have "Vault_IsEmpty EmptyVault" by (simp add: Vault_IsEmpty_def EmptyVault_def NewVault_def PubKey_IsEmpty_def)
  then show ?thesis
    using select_fold [of "\<lambda>x y. x > y" "\<lambda>x y. x \<le> y" ws v0 "\<lambda>v. Coin_Amount (Vault_GetCoin v asset)"]
      assms Cons
    by (auto simp: Vaults_SelectByMaxCoin_def)
qed (use assms in simp)

section \<open>Properties\<close>

text \<open>C6: adding funds to a vault conserves them: of every asset the vault then holds what it held
  plus what was added, and it still lists each asset once.\<close>

theorem Vault_AddFunds_conserves:
  assumes "cosmos_sdk S" and "coins_distinct (V_Coins m)" and "Vault_AddFunds S m cs = Some m'"
  shows "Coin_Amount (Vault_GetCoin m' a) = Coin_Amount (Vault_GetCoin m a) + coins_total cs a
    \<and> coins_distinct (V_Coins m')"
  using cosmos_sdk.AddFunds_total [OF assms(1,3)] assms(2) by (simp add: GetCoin_total)

definition sample_vault :: Vault where
  "sample_vault = (NewVault 1 VaultStatus_ActiveVault VaultType_AsgardVault ''pub1'' [''BTC''] [])
     \<lparr>V_Coins := [NewCoin BTCAsset 10]\<rparr>"

lemma sample_vault_add:
  "Vault_AddFunds sdk256 sample_vault [NewCoin BTCAsset 5] =
     Some (sample_vault\<lparr>V_Coins := [NewCoin BTCAsset 15]\<rparr>)"
  by (simp add: sample_vault_def Vault_addFund_def NewCoin_def sdk256.uint_add)

theorem Vault_AddFunds_conserves_witness:
  "Coin_Amount (Vault_GetCoin (sample_vault\<lparr>V_Coins := [NewCoin BTCAsset 15]\<rparr>) BTCAsset)
     = Coin_Amount (Vault_GetCoin sample_vault BTCAsset) + coins_total [NewCoin BTCAsset 5] BTCAsset"
  using Vault_AddFunds_conserves [OF sdk256.cosmos_sdk_axioms _ sample_vault_add, of BTCAsset]
  by (simp add: sample_vault_def coins_distinct_def)

text \<open>C7: taking out what was put in restores the vault: after \<open>AddFunds\<close> and \<open>SubFunds\<close> of
  the same coins the vault holds of every asset what it held before, and \<open>SubFunds\<close> never
  panics.\<close>

theorem Vault_AddFunds_SubFunds:
  assumes "cosmos_sdk S" and "coins_distinct (V_Coins m)" and "Vault_AddFunds S m cs = Some m'"
  shows "\<exists>m''. Vault_SubFunds S m' cs = Some m'' \<and> coins_total (V_Coins m'') = coins_total (V_Coins m)"
  by (rule cosmos_sdk.AddFunds_SubFunds [OF assms])

theorem Vault_AddFunds_SubFunds_witness:
  "\<exists>m''. Vault_SubFunds sdk256 (sample_vault\<lparr>V_Coins := [NewCoin BTCAsset 15]\<rparr>) [NewCoin BTCAsset 5] = Some m''
     \<and> coins_total (V_Coins m'') = coins_total [NewCoin BTCAsset 10]"
  using Vault_AddFunds_SubFunds [OF sdk256.cosmos_sdk_axioms _ sample_vault_add]
  by (simp add: sample_vault_def coins_distinct_def)

text \<open>A vault lists the chain of every coin it holds: \<open>AddFunds\<close> keeps this invariant for
  coins whose chain has a valid name.\<close>

lemma Vault_AddFunds_lists_chains:
  assumes "vault_chains_ok m" and "list_all coin_chain_valid cs" and "Vault_AddFunds S m cs = Some m'"
  shows "vault_chains_ok m'"
  by (rule AddFunds_chains_ok [OF assms])

text \<open>\<open>SelectByMaxCoin\<close> returns one of the given vaults, and none of the others holds more of
  the asset.\<close>

lemma Vaults_SelectByMaxCoin_richest:
  assumes "vs \<noteq> []" and "list_all (\<lambda>v. \<not> Vault_IsEmpty v) vs" and "v \<in> set vs"
  shows "Vaults_SelectByMaxCoin vs asset \<in> set vs
    \<and> Coin_Amount (Vault_GetCoin v asset)
        \<le> Coin_Amount (Vault_GetCoin (Vaults_SelectByMaxCoin vs asset) asset)"
  using SelectByMaxCoin_max [OF assms(1,2)] assms(3) by blast

text \<open>\<open>MembershipEquals\<close> compares the number of keys and looks every given key up, so a list
  that repeats a member in place of another one counts as the same membership.\<close>

lemma MembershipEquals_repeated_member:
  "Vault_MembershipEquals sdk256 (sample_vault\<lparr>V_Membership := [''pubA'', ''pubB'']\<rparr>) [''pubA'', ''pubA'']"
  by (simp add: Vault_MembershipEquals_def Vault_Contains_def Vault_GetMembership_def PubKeys_Contains_def
      parse_pubkeys_def List.map_filter_def NewPubKey_def sdk256_def)

end
