(* ===== verification/KVStore.thy ===== *)
theory KVStore
  imports Observations Pools Mimirs Vaults
begin

text \<open>
  The key-value store under the keeper, \<open>x/mayachain/keeper/v1/keeper.go\<close>. A key is a prefix, a
  slash and the upper-case name of the record. The protobuf codec is not modelled: a stored value
  is read back as it was written, so the store holds typed values, one table per type, each sorted
  by key as the iterators of the SDK walk it. The laws of a table are the locale \<open>kv_table\<close>.
\<close>

section \<open>Tables\<close>

type_synonym 'v kv = "(string \<times> 'v) list"

definition kv_get :: "'v kv \<Rightarrow> string \<Rightarrow> 'v option" where
  "kv_get t k = map_of t k"

fun kv_set :: "'v kv \<Rightarrow> string \<Rightarrow> 'v \<Rightarrow> 'v kv" where
  "kv_set [] k v = [(k, v)]"
| "kv_set ((k', v') # t) k v =
     (if k < k' then (k, v) # (k', v') # t
      else if k = k' then (k, v) # t
      else (k', v') # kv_set t k v)"

definition kv_delete :: "'v kv \<Rightarrow> string \<Rightarrow> 'v kv" where
  "kv_delete t k = filter (\<lambda>e. fst e \<noteq> k) t"

definition kv_values :: "'v kv \<Rightarrow> 'v list" where
  "kv_values t = map snd t"

definition kv_invar :: "'v kv \<Rightarrow> bool" where
  "kv_invar t \<longleftrightarrow> sorted (map fst t) \<and> distinct (map fst t)"

locale kv_table =
  fixes get :: "'t \<Rightarrow> string \<Rightarrow> 'v option"
    and set1 :: "'t \<Rightarrow> string \<Rightarrow> 'v \<Rightarrow> 't"
    and del :: "'t \<Rightarrow> string \<Rightarrow> 't"
    and elems :: "'t \<Rightarrow> 'v list"
    and invar :: "'t \<Rightarrow> bool"
  assumes get_set: "get (set1 t k v) k' = (if k' = k then Some v else get t k')"
    and get_del: "get (del t k) k' = (if k' = k then None else get t k')"
    and set_invar: "invar t \<Longrightarrow> invar (set1 t k v)"
    and del_invar: "invar t \<Longrightarrow> invar (del t k)"
    and elems_get: "invar t \<Longrightarrow> v \<in> set (elems t) \<longleftrightarrow> (\<exists>k. get t k = Some v)"
begin

text \<open>A value read with a default, the way the getters fill a preset record.\<close>

definition get_or :: "'v \<Rightarrow> 't \<Rightarrow> string \<Rightarrow> 'v" where
  "get_or d t k = (case get t k of None \<Rightarrow> d | Some v \<Rightarrow> v)"

lemma get_or_set: "get_or d (set1 t k v) k' = (if k' = k then v else get_or d t k')"
  by (simp add: get_or_def get_set)

lemma get_or_del: "get_or d (del t k) k' = (if k' = k then d else get_or d t k')"
  by (simp add: get_or_def get_del)

lemma get_or_raise:
  assumes "R (f (get_or d t k)) (f v)" and "\<And>x. R x x"
  shows "R (f (get_or d t k')) (f (get_or d (set1 t k v) k'))"
  using assms by (simp add: get_or_set)

lemma elems_set_del:
  "invar t \<Longrightarrow> v \<in> set (elems (set1 t k w)) \<Longrightarrow> v = w \<or> v \<in> set (elems t)"
  by (auto simp: elems_get set_invar get_set split: if_splits)

end

lemma kv_get_set: "kv_get (kv_set t k v) k' = (if k' = k then Some v else kv_get t k')"
  by (induction t k v rule: kv_set.induct) (auto simp: kv_get_def)

lemma kv_set_keys: "set (map fst (kv_set t k v)) = insert k (set (map fst t))"
  by (induction t k v rule: kv_set.induct) auto

lemma kv_set_invar: "kv_invar t \<Longrightarrow> kv_invar (kv_set t k v)"
proof (induction t k v rule: kv_set.induct)
  case (2 k' v' t k v)
  then show ?case using kv_set_keys [of t k v] by (fastforce simp: kv_invar_def)
qed (simp add: kv_invar_def)

interpretation kv: kv_table kv_get kv_set kv_delete kv_values kv_invar
proof
  show "kv_get (kv_set t k v) k' = (if k' = k then Some v else kv_get t k')"
    for t :: "'v kv" and k v k' by (rule kv_get_set)
  show "kv_get (kv_delete t k) k' = (if k' = k then None else kv_get t k')" for t :: "'v kv" and k k'
    by (induction t) (auto simp: kv_get_def kv_delete_def)
  show "kv_invar t \<Longrightarrow> kv_invar (kv_set t k v)" for t :: "'v kv" and k v by (rule kv_set_invar)
  show "kv_invar t \<Longrightarrow> kv_invar (kv_delete t k)" for t :: "'v kv" and k
    by (simp add: kv_invar_def kv_delete_def sorted_filter distinct_map_filter)
  show "kv_invar t \<Longrightarrow> v \<in> set (kv_values t) \<longleftrightarrow> (\<exists>k. kv_get t k = Some v)" for t :: "'v kv" and v
    by (auto simp: kv_invar_def kv_values_def kv_get_def intro: map_of_SomeD
        dest: map_of_is_SomeI [rotated]) force
qed

section \<open>Keys\<close>

definition dbPrefixes :: "(string \<times> string) list" where
  "dbPrefixes =
     [(''prefixStoreVersion'', ''_ver/''),
      (''prefixObservedTxIn'', ''observed_tx_in/''),
      (''prefixObservedTxOut'', ''observed_tx_out/''),
      (''prefixObservedLink'', ''ob_link/''),
      (''prefixPool'', ''pool/''),
      (''prefixPoolLUVI'', ''luvi/''),
      (''prefixTxOut'', ''txout/''),
      (''prefixTotalLiquidityFee'', ''total_liquidity_fee/''),
      (''prefixPoolLiquidityFee'', ''pool_liquidity_fee/''),
      (''prefixLiquidityProvider'', ''lp/''),
      (''prefixLastChainHeight'', ''last_chain_height/''),
      (''prefixLastSignedHeight'', ''last_signed_height/''),
      (''prefixLastObserveHeight'', ''last_observe_height/''),
      (''prefixNodeAccount'', ''node_account/''),
      (''prefixBondProviders'', ''bond_providers/''),
      (''prefixVault'', ''vault/''),
      (''prefixVaultAsgardIndex'', ''vault_asgard_index/''),
      (''prefixNetwork'', ''network/''),
      (''prefixPOL'', ''pol/''),
      (''prefixObservingAddresses'', ''observing_addresses/''),
      (''prefixTss'', ''tss/''),
      (''prefixTssKeysignFailure'', ''tssKeysignFailure/''),
      (''prefixKeygen'', ''keygen/''),
      (''prefixRagnarokHeight'', ''ragnarokHeight/''),
      (''prefixRagnarokNth'', ''ragnarokNth/''),
      (''prefixRagnarokPending'', ''ragnarokPending/''),
      (''prefixRagnarokPosition'', ''ragnarokPosition/''),
      (''prefixRagnarokPoolHeight'', ''ragnarokPool/''),
      (''prefixErrataTx'', ''errata/''),
      (''prefixForgiveSlashVoter'', ''forgive_slash/''),
      (''prefixBanVoter'', ''ban/''),
      (''prefixNodeSlashPoints'', ''slash/''),
      (''prefixNodeJail'', ''jail/''),
      (''prefixSwapQueueItem'', ''swapitem/''),
      (''prefixOrderBookItem'', ''o/''),
      (''prefixOrderBookLimitIndex'', ''olim/''),
      (''prefixOrderBookMarketIndex'', ''omark/''),
      (''prefixOrderBookProcessor'', ''oproc/''),
      (''prefixMimir'', ''mimir/''),
      (''prefixNodeMimir'', ''nodemimir/''),
      (''prefixNodePauseChain'', ''node_pause_chain/''),
      (''prefixNetworkFee'', ''network_fee/''),
      (''prefixNetworkFeeVoter'', ''network_fee_voter/''),
      (''prefixTssKeygenMetric'', ''tss_keygen_metric/''),
      (''prefixTssKeysignMetric'', ''tss_keysign_metric/''),
      (''prefixTssKeysignMetricLatest'', ''latest_tss_keysign_metric/''),
      (''prefixChainContract'', ''chain_contract/''),
      (''prefixSolvencyVoter'', ''solvency_voter/''),
      (''prefixMAYAName'', ''mayaname/''),
      (''prefixRollingPoolLiquidityFee'', ''rolling_pool_liquidity_fee/''),
      (''prefixLiquidityAuctionTier'', ''la_tier/''),
      (''prefixVersion'', ''version/'')]"

definition dbPrefix :: "string \<Rightarrow> string" where
  "dbPrefix name = (case map_of dbPrefixes name of None \<Rightarrow> '''' | Some p \<Rightarrow> p)"

definition GetKey :: "string \<Rightarrow> string \<Rightarrow> string" where
  "GetKey prefix key = prefix @ ''/'' @ toUpper key"

text \<open>Every prefix ends in its only slash, so keys of different tables differ.\<close>

lemma dbPrefixes_slash:
  "list_all (\<lambda>(n, p). p = butlast p @ ''/'' \<and> CHR ''/'' \<notin> set (butlast p)) dbPrefixes"
  unfolding dbPrefixes_def by simp

lemma dbPrefixes_distinct: "distinct (map snd dbPrefixes)"
  unfolding dbPrefixes_def by simp

lemma split_at_first:
  "c \<notin> set v \<Longrightarrow> c \<notin> set w \<Longrightarrow> v @ c # x = w @ c # y \<longleftrightarrow> v = w \<and> x = y"
proof (induction v arbitrary: w)
  case Nil
  then show ?case by (cases w) auto
next
  case (Cons a v)
  then show ?case by (cases w) auto
qed

lemma GetKey_inj:
  assumes "p \<in> snd ` set dbPrefixes" and "q \<in> snd ` set dbPrefixes"
  shows "GetKey p x = GetKey q y \<longleftrightarrow> p = q \<and> toUpper x = toUpper y"
proof -
  obtain v w where v: "p = v @ ''/''" "CHR ''/'' \<notin> set v" and w: "q = w @ ''/''" "CHR ''/'' \<notin> set w"
    using assms dbPrefixes_slash by (force simp: list_all_iff)
  then show ?thesis by (simp add: GetKey_def split_at_first)
qed

lemma dbPrefix_inj:
  assumes "n \<in> fst ` set dbPrefixes" and "n' \<in> fst ` set dbPrefixes"
  shows "dbPrefix n = dbPrefix n' \<longleftrightarrow> n = n'" and "dbPrefix n \<in> snd ` set dbPrefixes"
proof -
  have "\<exists>p. map_of dbPrefixes n = Some p" "\<exists>p. map_of dbPrefixes n' = Some p"
    using assms by (auto dest: weak_map_of_SomeI)
  then obtain p p' where p: "map_of dbPrefixes n = Some p" "map_of dbPrefixes n' = Some p'" by blast
  then have m: "(n, p) \<in> set dbPrefixes" "(n', p') \<in> set dbPrefixes" by (simp_all add: map_of_SomeD)
  then show "dbPrefix n = dbPrefix n' \<longleftrightarrow> n = n'"
    using p inj_onD [OF conjunct2 [OF dbPrefixes_distinct [unfolded distinct_map]] _ m]
    by (auto simp: dbPrefix_def)
  show "dbPrefix n \<in> snd ` set dbPrefixes" using p(1) m(1) by (force simp: dbPrefix_def)
qed

section \<open>Properties\<close>

text \<open>Records of different kinds never share a key: the key of a record determines its table
  and its name up to letter case, for all the prefixes the keeper declares.\<close>

lemma GetKey_tables_disjoint:
  assumes "n \<in> fst ` set dbPrefixes" and "n' \<in> fst ` set dbPrefixes"
  shows "GetKey (dbPrefix n) x = GetKey (dbPrefix n') y \<longleftrightarrow> n = n' \<and> toUpper x = toUpper y"
  using GetKey_inj [OF dbPrefix_inj(2) [OF assms] dbPrefix_inj(2) [OF assms(2,1)]]
    dbPrefix_inj(1) [OF assms] by simp

end
