(* ===== verification/Addresses.thy ===== *)
theory Addresses
  imports Nodes
begin

text \<open>
  Addresses of the connected chains, \<open>common/address.go\<close> and the address part of
  \<open>common/chain.go\<close>. The decoders (bech32, hex, the base58 and cash address formats of the chains
  like Bitcoin) are libraries: they are the parameter \<open>codecs\<close>. \<open>bech32.Decode\<close> returns the empty
  prefix with its error, which is what \<open>bech32_prefix\<close> returns there.
\<close>

datatype ChainNetwork = TestNet | MainNet | MockNet | StageNet

definition GetCurrentChainNetwork :: "string \<Rightarrow> ChainNetwork" where
  "GetCurrentChainNetwork env =
     (if equalFold env ''mocknet'' then MockNet
      else if equalFold env ''testnet'' then TestNet
      else if equalFold env ''stagenet'' then StageNet
      else MainNet)"

definition ChainNetwork_SoftEquals :: "ChainNetwork \<Rightarrow> ChainNetwork \<Rightarrow> bool" where
  "ChainNetwork_SoftEquals net net2 \<longleftrightarrow>
     (if net = MainNet \<and> net2 = MainNet then True
      else if net \<noteq> MainNet \<and> net2 \<noteq> MainNet then True
      else False)"

datatype net_params = MainNetParams | TestNetParams | RegressionNetParams

datatype utxo_kind =
  LegacyAddressPubKeyHash | LegacyAddressScriptHash | AddressPubKeyHash | AddressScriptHash | AddressOther

text \<open>\<open>utxo_decode\<close> stands for the \<open>DecodeAddress\<close> of the library of the chain; it gives the kind
  of the address and its script.\<close>

record codecs =
  bech32_decode :: "string \<Rightarrow> string option"
  eth_IsHexAddress :: "string \<Rightarrow> bool"
  utxo_decode :: "chain \<Rightarrow> net_params \<Rightarrow> string \<Rightarrow> (utxo_kind \<times> string) option"
  bch_NewAddressPubKeyHash :: "net_params \<Rightarrow> string \<Rightarrow> string option"
  bch_NewAddressScriptHash :: "net_params \<Rightarrow> string \<Rightarrow> string option"
  bch_NewAddressScriptHashFromHash :: "net_params \<Rightarrow> string \<Rightarrow> string option"
  segwit_prefix :: "chain \<Rightarrow> net_params \<Rightarrow> string"
  bnb_prefix :: "net_params \<Rightarrow> string"
  account_prefix :: string

definition bech32_prefix :: "codecs \<Rightarrow> string \<Rightarrow> string" where
  "bech32_prefix L addr = (case bech32_decode L addr of None \<Rightarrow> '''' | Some p \<Rightarrow> p)"

definition decodes :: "codecs \<Rightarrow> chain \<Rightarrow> net_params \<Rightarrow> string \<Rightarrow> bool" where
  "decodes L c p addr \<longleftrightarrow> utxo_decode L c p addr \<noteq> None"

definition is_alpha_num :: "char \<Rightarrow> bool" where
  "is_alpha_num c \<longleftrightarrow> c = CHR '':'' \<or> (let n = of_char c :: nat in
     (65 \<le> n \<and> n \<le> 90) \<or> (97 \<le> n \<and> n \<le> 122) \<or> (48 \<le> n \<and> n \<le> 57))"

section \<open>Parsing\<close>

definition NewAddress :: "codecs \<Rightarrow> string \<Rightarrow> go_error + address" where
  "NewAddress L addr =
     (if length addr = 0 then Inr ''''
      else if \<not> list_all is_alpha_num addr then Inl (GoError ''address format not supported'')
      else if eth_IsHexAddress L addr then Inr addr
      else if bech32_decode L addr \<noteq> None then Inr addr
      else if decodes L BTCChain MainNetParams addr then Inr addr
      else if decodes L BTCChain TestNetParams addr then Inr addr
      else if decodes L LTCChain MainNetParams addr then Inr addr
      else if decodes L LTCChain TestNetParams addr then Inr addr
      else if decodes L BCHChain MainNetParams addr then Inr addr
      else if decodes L BCHChain TestNetParams addr then Inr addr
      else if decodes L BCHChain RegressionNetParams addr then Inr addr
      else if decodes L DASHChain MainNetParams addr then Inr addr
      else if decodes L DASHChain TestNetParams addr then Inr addr
      else if decodes L DASHChain RegressionNetParams addr then Inr addr
      else if decodes L DOGEChain MainNetParams addr then Inr addr
      else if decodes L DOGEChain TestNetParams addr then Inr addr
      else if decodes L DOGEChain RegressionNetParams addr then Inr addr
      else Inl (GoError ''address format not supported''))"

section \<open>The chain of an address\<close>

definition Address_IsChain :: "codecs \<Rightarrow> address \<Rightarrow> chain \<Rightarrow> bool" where
  "Address_IsChain L addr c \<longleftrightarrow>
     (let prefix = bech32_prefix L addr in
      if Chain_IsEVM c then hasPrefix addr ''0x''
      else if c = BNBChain then prefix = ''bnb'' \<or> prefix = ''tbnb''
      else if c = AZTECChain then prefix = ''aztec'' \<or> prefix = ''taztec'' \<or> prefix = ''saztec''
      else if c = BASEChain then prefix = ''maya'' \<or> prefix = ''tmaya'' \<or> prefix = ''smaya''
      else if c = GAIAChain then prefix = ''cosmos''
      else if c = THORChain then prefix = ''thor'' \<or> prefix = ''tthor''
      else if c = BTCChain then
        prefix = ''bc'' \<or> prefix = ''tb''
        \<or> decodes L BTCChain MainNetParams addr \<or> decodes L BTCChain TestNetParams addr
      else if c = LTCChain then
        prefix = ''ltc'' \<or> prefix = ''tltc'' \<or> prefix = ''rltc''
        \<or> decodes L LTCChain MainNetParams addr \<or> decodes L LTCChain TestNetParams addr
      else if c = BCHChain then
        decodes L BCHChain MainNetParams addr \<or> decodes L BCHChain TestNetParams addr
        \<or> decodes L BCHChain RegressionNetParams addr
      else if c = DASHChain then
        decodes L DASHChain MainNetParams addr \<or> decodes L DASHChain TestNetParams addr
        \<or> decodes L DASHChain RegressionNetParams addr
      else if c = DOGEChain then
        decodes L DOGEChain MainNetParams addr \<or> decodes L DOGEChain TestNetParams addr
        \<or> decodes L DOGEChain RegressionNetParams addr
      else True)"

definition address_chains :: "chain list" where
  "address_chains = [ETHChain, BNBChain, BASEChain, BTCChain, LTCChain, BCHChain, DASHChain, DOGEChain,
     BASEChain, GAIAChain, AVAXChain]"

definition Address_GetChain :: "codecs \<Rightarrow> address \<Rightarrow> chain" where
  "Address_GetChain L addr =
     (case find (Address_IsChain L addr) address_chains of None \<Rightarrow> EmptyChain | Some c \<Rightarrow> c)"

definition Address_IsValidBCHAddress :: "codecs \<Rightarrow> address \<Rightarrow> bool" where
  "Address_IsValidBCHAddress L addr =
     (let modern = (\<lambda>(kind, _). kind \<noteq> LegacyAddressPubKeyHash \<and> kind \<noteq> LegacyAddressScriptHash) in
      case utxo_decode L BCHChain MainNetParams addr of Some a \<Rightarrow> modern a
      | None \<Rightarrow>
      (case utxo_decode L BCHChain TestNetParams addr of Some a \<Rightarrow> modern a
       | None \<Rightarrow>
       (case utxo_decode L BCHChain RegressionNetParams addr of Some a \<Rightarrow> modern a
        | None \<Rightarrow> False)))"

fun bch_params :: "ChainNetwork \<Rightarrow> net_params" where
  "bch_params MockNet = RegressionNetParams"
| "bch_params TestNet = TestNetParams"
| "bch_params MainNet = MainNetParams"
| "bch_params StageNet = MainNetParams"

definition new_or_error :: "codecs \<Rightarrow> string \<Rightarrow> string option \<Rightarrow> go_error + address" where
  "new_or_error L m h = (case h of None \<Rightarrow> Inl (GoError m) | Some s \<Rightarrow> NewAddress L s)"

definition getBCHAddress :: "codecs \<Rightarrow> utxo_kind \<times> string \<Rightarrow> net_params \<Rightarrow> go_error + address" where
  "getBCHAddress L a cfg =
     (case a of (kind, script) \<Rightarrow>
        if kind = LegacyAddressPubKeyHash \<or> kind = AddressPubKeyHash then
          new_or_error L ''fail to convert to new pubkey hash address'' (bch_NewAddressPubKeyHash L cfg script)
        else if kind = LegacyAddressScriptHash \<or> kind = AddressScriptHash then
          new_or_error L ''fail to convert to new address script hash address''
            (bch_NewAddressScriptHash L cfg script)
        else Inl (GoError ''invalid address type''))"

definition getBCHAddressV83 :: "codecs \<Rightarrow> utxo_kind \<times> string \<Rightarrow> net_params \<Rightarrow> go_error + address" where
  "getBCHAddressV83 L a cfg =
     (case a of (kind, script) \<Rightarrow>
        if kind = LegacyAddressPubKeyHash \<or> kind = AddressPubKeyHash then
          new_or_error L ''fail to convert to new pubkey hash address'' (bch_NewAddressPubKeyHash L cfg script)
        else if kind = LegacyAddressScriptHash \<or> kind = AddressScriptHash then
          new_or_error L ''fail to convert to new address script hash address''
            (bch_NewAddressScriptHashFromHash L cfg script)
        else Inl (GoError ''invalid address type''))"

definition ConvertToNewBCHAddressFormat :: "codecs \<Rightarrow> ChainNetwork \<Rightarrow> address \<Rightarrow> go_error + address" where
  "ConvertToNewBCHAddressFormat L net addr =
     (if \<not> Address_IsChain L addr BCHChain then Inl (GoError ''address is not BCH chain'')
      else case utxo_decode L BCHChain (bch_params net) addr of
             None \<Rightarrow> Inl (GoError ''fail to decode address'')
           | Some a \<Rightarrow> getBCHAddress L a (bch_params net))"

definition ConvertToNewBCHAddressFormatV83 :: "codecs \<Rightarrow> ChainNetwork \<Rightarrow> address \<Rightarrow> go_error + address" where
  "ConvertToNewBCHAddressFormatV83 L net addr =
     (if \<not> Address_IsChain L addr BCHChain then Inl (GoError ''address is not BCH chain'')
      else case utxo_decode L BCHChain (bch_params net) addr of
             None \<Rightarrow> Inl (GoError ''fail to decode address'')
           | Some a \<Rightarrow> getBCHAddressV83 L a (bch_params net))"

section \<open>The network of an address\<close>

definition Address_GetNetwork :: "codecs \<Rightarrow> ChainNetwork \<Rightarrow> version \<Rightarrow> address \<Rightarrow> chain \<Rightarrow> ChainNetwork" where
  "Address_GetNetwork L currentNetwork ver addr c =
     (let mainNet = (if currentNetwork = StageNet then StageNet else MainNet);
          prefix = bech32_prefix L addr;
          fallback = (if ver (1, 93, 0) then currentNetwork else MockNet);
          utxo = (\<lambda>main. if decodes L c MainNetParams addr then main
                    else if decodes L c TestNetParams addr then TestNet
                    else if decodes L c RegressionNetParams addr then MockNet
                    else fallback)
      in if Chain_IsEVM c then currentNetwork
         else if c = BNBChain then
           if equalFold prefix ''bnb'' then mainNet
           else if equalFold prefix ''tbnb'' then TestNet else fallback
         else if c = AZTECChain then currentNetwork
         else if c = BASEChain then
           if equalFold prefix ''maya'' then mainNet
           else if equalFold prefix ''tmaya'' then TestNet
           else if equalFold prefix ''smaya'' then StageNet else fallback
         else if c = THORChain then
           if equalFold prefix ''thor'' then mainNet
           else if equalFold prefix ''tthor'' then TestNet else fallback
         else if c = BTCChain then
           if prefix = ''bc'' then mainNet else if prefix = ''tb'' then TestNet
           else if prefix = ''bcrt'' then MockNet else utxo mainNet
         else if c = LTCChain then
           if prefix = ''ltc'' then mainNet else if prefix = ''tltc'' then TestNet
           else if prefix = ''rltc'' then MockNet else utxo mainNet
         else if c = BCHChain then utxo mainNet
         else if c = DASHChain then utxo MainNet
         else if c = DOGEChain then utxo mainNet
         else fallback)"

definition Address_AccAddress :: "sdk \<Rightarrow> address \<Rightarrow> go_error + acc_address" where
  "Address_AccAddress S addr =
     (case acc_from_bech32 S addr of None \<Rightarrow> Inl (GoError ''decoding bech32 failed'') | Some a \<Rightarrow> Inr a)"

fun net_params_of :: "ChainNetwork \<Rightarrow> net_params" where
  "net_params_of MockNet = RegressionNetParams"
| "net_params_of TestNet = TestNetParams"
| "net_params_of StageNet = MainNetParams"
| "net_params_of MainNet = MainNetParams"

definition Chain_AddressPrefix :: "codecs \<Rightarrow> chain \<Rightarrow> ChainNetwork \<Rightarrow> string" where
  "Chain_AddressPrefix L c cn =
     (let test = (cn = MockNet \<or> cn = TestNet) in
      if Chain_IsEVM c then ''0x''
      else if c = AZTECChain then
        if test then ''taztec'' else if cn = StageNet then ''saztec'' else ''aztec''
      else if c = BNBChain then bnb_prefix L (if test then TestNetParams else MainNetParams)
      else if c = THORChain then if test then ''tthor'' else ''thor''
      else if c = GAIAChain then ''cosmos''
      else if c = KUJIChain then ''kujira''
      else if c = ETHChain then ''0x''
      else if c = BASEChain then account_prefix L
      else if c = BTCChain \<or> c = LTCChain \<or> c = DASHChain \<or> c = DOGEChain
        then segwit_prefix L c (net_params_of cn)
      else '''')"

definition Chain_IsValidAddress :: "codecs \<Rightarrow> ChainNetwork \<Rightarrow> chain \<Rightarrow> address \<Rightarrow> bool" where
  "Chain_IsValidAddress L net c addr \<longleftrightarrow> hasPrefix addr (Chain_AddressPrefix L c net)"

section \<open>Lemmas\<close>

lemma IsChain_base: "Address_IsChain L addr BASEChain \<longleftrightarrow>
    bech32_prefix L addr = ''maya'' \<or> bech32_prefix L addr = ''tmaya'' \<or> bech32_prefix L addr = ''smaya''"
proof -
  have "\<not> Chain_IsEVM BASEChain" "BASEChain \<noteq> BNBChain" "BASEChain \<noteq> AZTECChain" by code_simp+
  then show ?thesis by (simp add: Address_IsChain_def Let_def)
qed

lemma IsChain_bech32: "Address_IsChain L addr BASEChain \<Longrightarrow> bech32_decode L addr \<noteq> None"
  by (auto simp: IsChain_base bech32_prefix_def split: option.splits)

lemma NewAddress_id: "NewAddress L addr = Inr a \<Longrightarrow> a = addr"
  by (auto simp: NewAddress_def split: if_splits)

lemma GetChain_sound: "Address_GetChain L addr = c \<Longrightarrow> c \<noteq> EmptyChain \<Longrightarrow> Address_IsChain L addr c"
  by (auto simp: Address_GetChain_def find_Some_iff split: option.splits)

end
