(* ===== verification/Records.thy ===== *)
theory Records
  imports Addresses Txs
begin

text \<open>
  The smaller records the keeper stores: liquidity providers with the units they bonded to nodes
  (\<open>type_liquidity_provider.go\<close>), the network and the liquidity the protocol owns
  (\<open>type_network.go\<close>, \<open>type_pol.go\<close>), network fees, auction tiers, names without their encoded
  key, reserve contributors, key generation blocks and the timing metrics of key generation.
\<close>

section \<open>Liquidity providers\<close>

record LPBondedNode =
  LBN_NodeAddress :: acc_address
  LBN_Units :: nat

definition LPBondedNode_IsEmpty :: "LPBondedNode \<Rightarrow> bool" where
  "LPBondedNode_IsEmpty bn \<longleftrightarrow> LBN_NodeAddress bn = []"

record LiquidityProvider =
  LP_Asset :: Asset
  LP_CacaoAddress :: address
  LP_AssetAddress :: address
  LP_LastAddHeight :: int
  LP_LastWithdrawHeight :: int
  LP_Units :: nat
  LP_PendingCacao :: nat
  LP_PendingAsset :: nat
  LP_PendingTxID :: tx_id
  LP_CacaoDepositValue :: nat
  LP_AssetDepositValue :: nat
  LP_NodeBondAddress :: acc_address
  LP_WithdrawCounter :: nat
  LP_LastWithdrawCounterHeight :: int
  LP_BondedNodes :: "LPBondedNode list"

definition LP_Valid :: "LiquidityProvider \<Rightarrow> check" where
  "LP_Valid m =
     (if LP_LastAddHeight m = 0 then fails ''last add liquidity height cannot be empty''
      else if Address_IsEmpty (LP_AssetAddress m) \<and> Address_IsEmpty (LP_CacaoAddress m)
        then fails ''asset address and rune address cannot be empty''
      else None)"

definition LP_GetAddress :: "LiquidityProvider \<Rightarrow> address" where
  "LP_GetAddress lp =
     (if \<not> Address_IsEmpty (LP_CacaoAddress lp) then LP_CacaoAddress lp else LP_AssetAddress lp)"

definition LP_Key :: "LiquidityProvider \<Rightarrow> string" where
  "LP_Key lp = Asset_String (LP_Asset lp) @ ''/'' @ LP_GetAddress lp"

definition LP_IsLiquidityBondProvider :: "LiquidityProvider \<Rightarrow> bool" where
  "LP_IsLiquidityBondProvider lp \<longleftrightarrow> LP_NodeBondAddress lp \<noteq> []"

definition LPs_SetNodeAccount :: "LiquidityProvider list \<Rightarrow> acc_address \<Rightarrow> LiquidityProvider list" where
  "LPs_SetNodeAccount lps na = map (\<lambda>lp. lp\<lparr>LP_NodeBondAddress := na\<rparr>) lps"

abbreviation bonds_to :: "acc_address \<Rightarrow> LPBondedNode \<Rightarrow> bool" where
  "bonds_to nodeAddr b \<equiv> LBN_NodeAddress b = nodeAddr"

text \<open>The loop of \<open>Bond\<close>; \<open>None\<close> is the panic of an addition that overflows.\<close>

fun bond_units :: "sdk \<Rightarrow> acc_address \<Rightarrow> nat \<Rightarrow> LPBondedNode list \<Rightarrow> LPBondedNode list option" where
  "bond_units S nodeAddr units [] = Some [\<lparr>LBN_NodeAddress = nodeAddr, LBN_Units = units\<rparr>]"
| "bond_units S nodeAddr units (b # bs) =
     (if bonds_to nodeAddr b
      then map_option (\<lambda>u. b\<lparr>LBN_Units := u\<rparr> # bs) (uint_add S (LBN_Units b) units)
      else map_option (Cons b) (bond_units S nodeAddr units bs))"

definition LP_Bond :: "sdk \<Rightarrow> LiquidityProvider \<Rightarrow> acc_address \<Rightarrow> nat \<Rightarrow> LiquidityProvider option" where
  "LP_Bond S lp nodeAddr units =
     map_option (\<lambda>bs. lp\<lparr>LP_BondedNodes := bs\<rparr>) (bond_units S nodeAddr units (LP_BondedNodes lp))"

fun unbond_units :: "sdk \<Rightarrow> acc_address \<Rightarrow> nat \<Rightarrow> LPBondedNode list \<Rightarrow> LPBondedNode list option" where
  "unbond_units S nodeAddr units [] = Some []"
| "unbond_units S nodeAddr units (b # bs) =
     (if bonds_to nodeAddr b
      then map_option (\<lambda>u. if u = 0 then bs else b\<lparr>LBN_Units := u\<rparr> # bs) (SafeSub S (LBN_Units b) units)
      else map_option (Cons b) (unbond_units S nodeAddr units bs))"

definition LP_Unbond :: "sdk \<Rightarrow> LiquidityProvider \<Rightarrow> acc_address \<Rightarrow> nat \<Rightarrow> LiquidityProvider option" where
  "LP_Unbond S lp nodeAddr units =
     (if LP_NodeBondAddress lp \<noteq> [] then
        let lp1 = lp\<lparr>LP_NodeBondAddress := []\<rparr> in
        if LP_Units lp > units then
          map_option (\<lambda>u. lp1\<lparr>LP_BondedNodes := [\<lparr>LBN_NodeAddress = nodeAddr, LBN_Units = u\<rparr>]\<rparr>)
            (SafeSub S (LP_Units lp) units)
        else Some lp1
      else map_option (\<lambda>bs. lp\<lparr>LP_BondedNodes := bs\<rparr>) (unbond_units S nodeAddr units (LP_BondedNodes lp)))"

fun bonded_total :: "sdk \<Rightarrow> nat \<Rightarrow> LPBondedNode list \<Rightarrow> nat option" where
  "bonded_total S acc [] = Some acc"
| "bonded_total S acc (b # bs) = do { a \<leftarrow> uint_add S acc (LBN_Units b); bonded_total S a bs }"

definition LP_GetRemainingUnits :: "sdk \<Rightarrow> LiquidityProvider \<Rightarrow> nat option" where
  "LP_GetRemainingUnits S lp =
     (if LP_NodeBondAddress lp \<noteq> [] then Some 0
      else do { bondedUnits \<leftarrow> bonded_total S 0 (LP_BondedNodes lp); SafeSub S (LP_Units lp) bondedUnits })"

definition LP_GetUnitsBondedToNode :: "LiquidityProvider \<Rightarrow> acc_address \<Rightarrow> nat" where
  "LP_GetUnitsBondedToNode lp nodeAddr =
     (if LP_NodeBondAddress lp = nodeAddr then LP_Units lp
      else case find (bonds_to nodeAddr) (LP_BondedNodes lp) of None \<Rightarrow> 0 | Some b \<Rightarrow> LBN_Units b)"

section \<open>Network, protocol owned liquidity, fees, tiers\<close>

record Network =
  N_BondRewardRune :: nat
  N_TotalBondUnits :: nat
  N_LPIncomeSplit :: int
  N_NodeIncomeSplit :: int

definition NewNetwork :: Network where
  "NewNetwork = \<lparr>N_BondRewardRune = 0, N_TotalBondUnits = 0, N_LPIncomeSplit = 0, N_NodeIncomeSplit = 0\<rparr>"

definition Network_CalcNodeRewards :: "sdk \<Rightarrow> Network \<Rightarrow> nat \<Rightarrow> nat" where
  "Network_CalcNodeRewards S m nodeUnits =
     GetUncappedShare S nodeUnits (N_TotalBondUnits m) (N_BondRewardRune m)"

record ProtocolOwnedLiquidity =
  POL_CacaoDeposited :: nat
  POL_CacaoWithdrawn :: nat

definition NewProtocolOwnedLiquidity :: ProtocolOwnedLiquidity where
  "NewProtocolOwnedLiquidity = \<lparr>POL_CacaoDeposited = 0, POL_CacaoWithdrawn = 0\<rparr>"

text \<open>\<open>cosmos.Int\<close> is \<open>int\<close>; its operations panic beyond 256 bits, which two \<open>Uint\<close> values of at most
  255 bits never reach.\<close>

definition POL_CurrentDeposit :: "ProtocolOwnedLiquidity \<Rightarrow> int" where
  "POL_CurrentDeposit pol = int (POL_CacaoDeposited pol) - int (POL_CacaoWithdrawn pol)"

definition POL_PnL :: "ProtocolOwnedLiquidity \<Rightarrow> nat \<Rightarrow> int" where
  "POL_PnL pol v = int (POL_CacaoWithdrawn pol) - int (POL_CacaoDeposited pol) + int v"

record NetworkFee =
  NF_Chain :: chain
  NF_TransactionSize :: nat
  NF_TransactionFeeRate :: nat

definition NewNetworkFee :: "chain \<Rightarrow> nat \<Rightarrow> nat \<Rightarrow> NetworkFee" where
  "NewNetworkFee c transactionSize transactionFeeRate =
     \<lparr>NF_Chain = c, NF_TransactionSize = transactionSize, NF_TransactionFeeRate = transactionFeeRate\<rparr>"

definition NetworkFee_Valid :: "NetworkFee \<Rightarrow> check" where
  "NetworkFee_Valid m =
     (if Chain_IsEmpty (NF_Chain m) then fails ''chain can't be empty''
      else if NF_TransactionSize m \<le> 0 then fails ''transaction size can't be zero or negative''
      else if NF_TransactionFeeRate m \<le> 0 then fails ''transaction fee rate can't be zero''
      else None)"

record LiquidityAuctionTier =
  LAT_Address :: address
  LAT_Tier :: int

definition LiquidityAuctionTier_Valid :: "LiquidityAuctionTier \<Rightarrow> check" where
  "LiquidityAuctionTier_Valid m =
     (if Address_IsEmpty (LAT_Address m) then fails ''the address should not be empty'' else None)"

definition LiquidityAuctionTier_Key :: "LiquidityAuctionTier \<Rightarrow> string" where
  "LiquidityAuctionTier_Key laTier = LAT_Address laTier"

record RagnarokWithdrawPosition =
  RWP_Number :: int
  RWP_Pool :: Asset

definition RagnarokWithdrawPosition_IsEmpty :: "RagnarokWithdrawPosition \<Rightarrow> bool" where
  "RagnarokWithdrawPosition_IsEmpty m \<longleftrightarrow> RWP_Number m < 0 \<or> Asset_IsEmpty (RWP_Pool m)"

text \<open>The build for the main network; the other builds have their own lists.\<close>

definition LiquidityPoolsV104 :: "Asset list" where
  "LiquidityPoolsV104 = [BTCAsset, BNBAsset, ETHAsset]"

definition LiquidityPoolsV105 :: "Asset list" where
  "LiquidityPoolsV105 = [BTCAsset, RUNEAsset, ETHAsset]"

definition GetLiquidityPools :: "version \<Rightarrow> Asset list" where
  "GetLiquidityPools ver = (if ver (1, 105, 0) then LiquidityPoolsV105 else LiquidityPoolsV104)"

section \<open>Names\<close>

record MAYANameAlias =
  MNA_Chain :: chain
  MNA_Address :: address

record MAYAName =
  MN_Name :: string
  MN_ExpireBlockHeight :: int
  MN_Owner :: acc_address
  MN_PreferredAsset :: Asset
  MN_Aliases :: "MAYANameAlias list"

definition NewMAYAName :: "string \<Rightarrow> int \<Rightarrow> MAYANameAlias list \<Rightarrow> MAYAName" where
  "NewMAYAName name expire aliases =
     \<lparr>MN_Name = name, MN_ExpireBlockHeight = expire, MN_Owner = [], MN_PreferredAsset = EmptyAsset,
      MN_Aliases = aliases\<rparr>"

fun aliases_valid :: "MAYANameAlias list \<Rightarrow> check" where
  "aliases_valid [] = None"
| "aliases_valid (a # as) =
     (if Chain_IsEmpty (MNA_Chain a) then fails ''chain can't be empty''
      else if Address_IsEmpty (MNA_Address a) then fails ''address cannot be empty''
      else aliases_valid as)"

definition MAYAName_Valid :: "MAYAName \<Rightarrow> check" where
  "MAYAName_Valid m =
     (if length (MN_Name m) = 0 then fails ''name can't be empty''
      else if length (MN_Aliases m) = 0 then fails ''aliases can't be empty''
      else aliases_valid (MN_Aliases m))"

definition MAYAName_GetAlias :: "MAYAName \<Rightarrow> chain \<Rightarrow> address" where
  "MAYAName_GetAlias m c =
     (case find (\<lambda>a. Chain_Equals (MNA_Chain a) c) (MN_Aliases m) of
        None \<Rightarrow> '''' | Some a \<Rightarrow> MNA_Address a)"

definition MAYAName_SetAlias :: "MAYAName \<Rightarrow> chain \<Rightarrow> address \<Rightarrow> MAYAName" where
  "MAYAName_SetAlias m c addr =
     m\<lparr>MN_Aliases :=
        if list_ex (\<lambda>a. Chain_Equals (MNA_Chain a) c) (MN_Aliases m)
        then update_first (\<lambda>a. Chain_Equals (MNA_Chain a) c) (\<lambda>a. a\<lparr>MNA_Address := addr\<rparr>) (MN_Aliases m)
        else MN_Aliases m @ [\<lparr>MNA_Chain = c, MNA_Address = addr\<rparr>]\<rparr>"

section \<open>Reserve contributors, key generation, metrics\<close>

record ReserveContributor =
  RC_Address :: address
  RC_Amount :: nat

definition NewReserveContributor :: "address \<Rightarrow> nat \<Rightarrow> ReserveContributor" where
  "NewReserveContributor addr amt = \<lparr>RC_Address = addr, RC_Amount = amt\<rparr>"

definition ReserveContributor_IsEmpty :: "ReserveContributor \<Rightarrow> bool" where
  "ReserveContributor_IsEmpty m \<longleftrightarrow> Address_IsEmpty (RC_Address m)"

definition ReserveContributor_Valid :: "ReserveContributor \<Rightarrow> check" where
  "ReserveContributor_Valid m =
     (if RC_Amount m = 0 then fails ''amount cannot be zero''
      else if Address_IsEmpty (RC_Address m) then fails ''address cannot be empty''
      else None)"

fun ReserveContributors_Add ::
  "sdk \<Rightarrow> ReserveContributor list \<Rightarrow> ReserveContributor \<Rightarrow> ReserveContributor list option" where
  "ReserveContributors_Add S [] res = Some [res]"
| "ReserveContributors_Add S (r # reses) res =
     (if Address_Equals (RC_Address r) (RC_Address res)
      then map_option (\<lambda>a. r\<lparr>RC_Amount := a\<rparr> # reses) (uint_add S (RC_Amount r) (RC_Amount res))
      else map_option (Cons r) (ReserveContributors_Add S reses res))"

datatype KeygenType = KeygenType_UnknownKeygen | KeygenType_AsgardKeygen | KeygenType_YggdrasilKeygen

definition getKeygenTypeFromString :: "string \<Rightarrow> KeygenType" where
  "getKeygenTypeFromString t =
     (if equalFold t ''asgardKeygen'' then KeygenType_AsgardKeygen
      else if equalFold t ''yggdrasilKeygen'' then KeygenType_YggdrasilKeygen
      else KeygenType_UnknownKeygen)"

record Keygen =
  KG_ID :: tx_id
  KG_Type :: KeygenType
  KG_Members :: "string list"

record KeygenBlock =
  KGB_Height :: int
  KGB_Keygens :: "Keygen list"

definition NewKeygenBlock :: "int \<Rightarrow> KeygenBlock" where
  "NewKeygenBlock height = \<lparr>KGB_Height = height, KGB_Keygens = []\<rparr>"

definition KeygenBlock_IsEmpty :: "KeygenBlock \<Rightarrow> bool" where
  "KeygenBlock_IsEmpty m \<longleftrightarrow> length (KGB_Keygens m) = 0 \<and> KGB_Height m \<le> 0"

definition KeygenBlock_Contains :: "KeygenBlock \<Rightarrow> Keygen \<Rightarrow> bool" where
  "KeygenBlock_Contains m keygen \<longleftrightarrow> list_ex (\<lambda>item. TxID_Equals (KG_ID item) (KG_ID keygen)) (KGB_Keygens m)"

definition Keygen_GetMembers :: "sdk \<Rightarrow> Keygen \<Rightarrow> pub_key list" where
  "Keygen_GetMembers S m = parse_pubkeys S (KG_Members m)"

definition Keygen_IsEmpty :: "Keygen \<Rightarrow> bool" where
  "Keygen_IsEmpty m \<longleftrightarrow> length (KG_Members m) = 0 \<or> length (KG_ID m) = 0"

definition Keygen_Valid :: "sdk \<Rightarrow> Keygen \<Rightarrow> check" where
  "Keygen_Valid S m =
     (if KG_Type m = KeygenType_UnknownKeygen then fails ''unknown keygen''
      else PubKeys_Valid S (Keygen_GetMembers S m))"

record NodeTssTime =
  NTT_Address :: acc_address
  NTT_TssTime :: int

record TssKeygenMetric =
  TKM_PubKey :: pub_key
  TKM_NodeTssTimes :: "NodeTssTime list"

record TssKeysignMetric =
  TSM_TxID :: tx_id
  TSM_NodeTssTimes :: "NodeTssTime list"

definition NewTssKeygenMetric :: "pub_key \<Rightarrow> TssKeygenMetric" where
  "NewTssKeygenMetric pubkey = \<lparr>TKM_PubKey = pubkey, TKM_NodeTssTimes = []\<rparr>"

definition NewTssKeysignMetric :: "tx_id \<Rightarrow> TssKeysignMetric" where
  "NewTssKeysignMetric txID = \<lparr>TSM_TxID = txID, TSM_NodeTssTimes = []\<rparr>"

text \<open>The loop assigns to a copy of the entry, so a second time of the same node is dropped.\<close>

definition add_tss_time :: "NodeTssTime list \<Rightarrow> acc_address \<Rightarrow> int \<Rightarrow> NodeTssTime list" where
  "add_tss_time ts addr keygenTime =
     (if list_ex (\<lambda>item. NTT_Address item = addr) ts then ts
      else ts @ [\<lparr>NTT_Address = addr, NTT_TssTime = keygenTime\<rparr>])"

definition TssKeygenMetric_AddNodeTssTime :: "TssKeygenMetric \<Rightarrow> acc_address \<Rightarrow> int \<Rightarrow> TssKeygenMetric" where
  "TssKeygenMetric_AddNodeTssTime m addr keygenTime =
     m\<lparr>TKM_NodeTssTimes := add_tss_time (TKM_NodeTssTimes m) addr keygenTime\<rparr>"

definition TssKeysignMetric_AddNodeTssTime :: "TssKeysignMetric \<Rightarrow> acc_address \<Rightarrow> int \<Rightarrow> TssKeysignMetric" where
  "TssKeysignMetric_AddNodeTssTime m addr keygenTime =
     m\<lparr>TSM_NodeTssTimes := add_tss_time (TSM_NodeTssTimes m) addr keygenTime\<rparr>"

text \<open>Go divides towards zero; the sum of two times wraps like any \<open>int64\<close>.\<close>

definition quot2 :: "int \<Rightarrow> int" where
  "quot2 x = (if 0 \<le> x then x div 2 else - ((- x) div 2))"

definition getMedianTime :: "NodeTssTime list \<Rightarrow> int" where
  "getMedianTime nodeTssTimes =
     (if length nodeTssTimes = 0 then 0
      else let ts = sort_key NTT_TssTime nodeTssTimes; totalLen = length ts; mid = totalLen div 2
           in if totalLen mod 2 \<noteq> 0 then NTT_TssTime (ts ! mid)
              else quot2 (wrap64 (NTT_TssTime (ts ! (mid - 1)) + NTT_TssTime (ts ! mid))))"

definition TssKeygenMetric_GetMedianTime :: "TssKeygenMetric \<Rightarrow> int" where
  "TssKeygenMetric_GetMedianTime m = getMedianTime (TKM_NodeTssTimes m)"

definition TssKeysignMetric_GetMedianTime :: "TssKeysignMetric \<Rightarrow> int" where
  "TssKeysignMetric_GetMedianTime m = getMedianTime (TSM_NodeTssTimes m)"

section \<open>Bonded units\<close>

definition bonds_ok :: "LiquidityProvider \<Rightarrow> bool" where
  "bonds_ok lp \<longleftrightarrow> LP_NodeBondAddress lp = [] \<and> list_all (\<lambda>b. 0 < LBN_Units b) (LP_BondedNodes lp)"

abbreviation units_total :: "LPBondedNode list \<Rightarrow> nat" where
  "units_total bs \<equiv> sum_list (map LBN_Units bs)"

abbreviation units_of :: "acc_address \<Rightarrow> LPBondedNode list \<Rightarrow> nat" where
  "units_of n bs \<equiv> (case find (bonds_to n) bs of None \<Rightarrow> 0 | Some b \<Rightarrow> LBN_Units b)"

context cosmos_sdk
begin

lemma bond_units_result:
  assumes "bond_units S n u bs = Some bs'"
  shows "units_of m bs' = units_of m bs + (if m = n then u else 0)"
    and "units_total bs' = units_total bs + u"
    and "0 < u \<Longrightarrow> list_all (\<lambda>b. 0 < LBN_Units b) bs \<Longrightarrow> list_all (\<lambda>b. 0 < LBN_Units b) bs'"
    and "list_all (\<lambda>b. 0 < LBN_Units b) bs \<Longrightarrow> unbond_units S n u bs' = Some bs"
  using assms by (induction bs arbitrary: bs') (auto simp: uint_add_Some SafeSub_eq split: if_splits option.splits)

lemma bonded_total_eq:
  "bonded_total S acc bs = (if acc + units_total bs < 2 ^ 256 \<or> bs = [] then Some (acc + units_total bs) else None)"
  by (induction bs arbitrary: acc) (auto simp: uint_add)

lemma remaining_units_bond:
  assumes "bonds_ok lp" and "LP_Bond S lp n u = Some lp1" and "LP_Units lp < 2 ^ 256"
    and "LP_GetRemainingUnits S lp = Some r" and "u \<le> r"
  shows "LP_GetRemainingUnits S lp1 = Some (r - u)"
proof -
  obtain bs where b: "bond_units S n u (LP_BondedNodes lp) = Some bs" and lp1: "lp1 = lp\<lparr>LP_BondedNodes := bs\<rparr>"
    using assms(2) by (auto simp: LP_Bond_def)
  let ?t = "units_total (LP_BondedNodes lp)"
  have "r = LP_Units lp - ?t" using assms(1,4)
    by (auto simp: LP_GetRemainingUnits_def bonds_ok_def bonded_total_eq SafeSub_eq split: if_splits)
  moreover have "?t + u < 2 ^ 256 \<or> u = 0" using calculation assms(3,5) by linarith
  moreover have "bonded_total S 0 (LP_BondedNodes lp) \<noteq> None"
    using assms(1,4) by (auto simp: LP_GetRemainingUnits_def bonds_ok_def bind_eq_Some_conv)
  ultimately show ?thesis
    using assms(1) bond_units_result(2) [OF b]
    by (auto simp: LP_GetRemainingUnits_def lp1 bonds_ok_def bonded_total_eq SafeSub_eq split: if_splits)
qed

end

text \<open>C33: units bonded to a node are counted once and can be taken back: \<open>Bond\<close> adds exactly the
  units to what the node has and takes them from what remains, keeps the records positive, and
  \<open>Unbond\<close> of the same units restores the provider.\<close>

theorem LP_Bond_Unbond:
  assumes "cosmos_sdk S" and "bonds_ok lp" and "0 < u" and "LP_Units lp < 2 ^ 256"
    and "LP_GetRemainingUnits S lp = Some r" and "u \<le> r" and "LP_Bond S lp node u = Some lp1"
  shows "bonds_ok lp1 \<and> LP_GetRemainingUnits S lp1 = Some (r - u) \<and> LP_Unbond S lp1 node u = Some lp
    \<and> (n \<noteq> [] \<longrightarrow> LP_GetUnitsBondedToNode lp1 n
          = LP_GetUnitsBondedToNode lp n + (if n = node then u else 0))"
proof -
  obtain bs where b: "bond_units S node u (LP_BondedNodes lp) = Some bs"
    and lp1: "lp1 = lp\<lparr>LP_BondedNodes := bs\<rparr>"
    using assms(7) by (auto simp: LP_Bond_def)
  note res = cosmos_sdk.bond_units_result [OF assms(1) b]
  show ?thesis
    using cosmos_sdk.remaining_units_bond [OF assms(1,2,7,4-6)] res(3) [OF assms(3)] res(4) assms(2)
      res(1) [of n]
    by (auto simp: lp1 bonds_ok_def LP_Unbond_def LP_GetUnitsBondedToNode_def)
qed

definition sample_lp :: LiquidityProvider where
  "sample_lp = \<lparr>LP_Asset = BTCAsset, LP_CacaoAddress = ''maya1'', LP_AssetAddress = ''bc1'',
     LP_LastAddHeight = 1, LP_LastWithdrawHeight = 0, LP_Units = 100, LP_PendingCacao = 0,
     LP_PendingAsset = 0, LP_PendingTxID = '''', LP_CacaoDepositValue = 0, LP_AssetDepositValue = 0,
     LP_NodeBondAddress = [], LP_WithdrawCounter = 0, LP_LastWithdrawCounterHeight = 0,
     LP_BondedNodes = [\<lparr>LBN_NodeAddress = ''n1'', LBN_Units = 30\<rparr>]\<rparr>"

theorem LP_Bond_Unbond_witness:
  "\<exists>lp1. LP_Bond sdk256 sample_lp ''n1'' 20 = Some lp1 \<and> LP_GetRemainingUnits sdk256 lp1 = Some 50
    \<and> LP_Unbond sdk256 lp1 ''n1'' 20 = Some sample_lp \<and> LP_GetUnitsBondedToNode lp1 ''n1'' = 50"
proof -
  have r: "LP_GetRemainingUnits sdk256 sample_lp = Some 70"
    by (simp add: LP_GetRemainingUnits_def sample_lp_def sdk256.uint_add sdk256.SafeSub_eq)
  obtain lp1 where b: "LP_Bond sdk256 sample_lp ''n1'' 20 = Some lp1"
    by (simp add: LP_Bond_def sample_lp_def sdk256.uint_add)
  have "bonds_ok sample_lp" "LP_Units sample_lp < 2 ^ 256" by (simp_all add: sample_lp_def bonds_ok_def)
  with LP_Bond_Unbond [OF sdk256.cosmos_sdk_axioms _ _ _ r _ b, of "''n1''"] b show ?thesis
    by (auto simp: LP_GetUnitsBondedToNode_def sample_lp_def)
qed

end
