(* ===== verification/Messages.thy ===== *)
theory Messages
  imports Records Voters
begin

text \<open>
  The messages of the chain, \<open>x/mayachain/types/msg_*.go\<close>: their fields, their constructors and the
  stateless checks of \<open>ValidateBasic\<close>. A check is a list of conditions with the message of the
  error, tried in the order of the source. Hashing of the identifiers, JSON and the routing keys
  are left out. The decoders behind \<open>IsChain\<close> and \<open>PubKey.GetAddress\<close> are parameters.
\<close>

fun first_error :: "(bool \<times> string) list \<Rightarrow> check" where
  "first_error [] = None"
| "first_error ((b, m) # cs) = (if b then fails m else first_error cs)"

lemma first_error_None: "first_error cs = None \<longleftrightarrow> list_all (\<lambda>(b, m). \<not> b) cs"
  by (induction cs rule: first_error.induct) auto

definition MaxAffiliateFeeBasisPoints :: nat where "MaxAffiliateFeeBasisPoints = 1000"
definition MaxWithdrawBasisPoints :: nat where "MaxWithdrawBasisPoints = 10000"

section \<open>Swaps and liquidity\<close>

datatype OrderType = OrderType_market | OrderType_limit

record MsgSwap =
  MS_Tx :: Tx
  MS_TargetAsset :: Asset
  MS_Destination :: address
  MS_TradeTarget :: nat
  MS_AffiliateAddress :: address
  MS_AffiliateBasisPoints :: nat
  MS_Signer :: acc_address
  MS_Aggregator :: string
  MS_AggregatorTargetAddress :: string
  MS_AggregatorTargetLimit :: "nat option"
  MS_OrderType :: OrderType

definition NewMsgSwap ::
  "Tx \<Rightarrow> Asset \<Rightarrow> address \<Rightarrow> nat \<Rightarrow> address \<Rightarrow> nat \<Rightarrow> string \<Rightarrow> string \<Rightarrow> nat option \<Rightarrow> OrderType
    \<Rightarrow> acc_address \<Rightarrow> MsgSwap" where
  "NewMsgSwap tx target destination tradeTarget affAddr affPts agg aggregatorTargetAddr
       aggregatorTargetLimit otype signer =
     \<lparr>MS_Tx = tx, MS_TargetAsset = target, MS_Destination = destination, MS_TradeTarget = tradeTarget,
      MS_AffiliateAddress = affAddr, MS_AffiliateBasisPoints = affPts, MS_Signer = signer,
      MS_Aggregator = agg, MS_AggregatorTargetAddress = aggregatorTargetAddr,
      MS_AggregatorTargetLimit = aggregatorTargetLimit, MS_OrderType = otype\<rparr>"

definition MsgSwap_ValidateBasic :: "codecs \<Rightarrow> MsgSwap \<Rightarrow> check" where
  "MsgSwap_ValidateBasic L m = first_error
     [(MS_Signer m = [], ''invalid address''),
      (Tx_Valid (MS_Tx m) \<noteq> None, ''tx is not valid''),
      (Asset_IsEmpty (MS_TargetAsset m), ''swap Target cannot be empty''),
      (length (Tx_Coins (MS_Tx m)) > 1, ''not expecting multiple coins in a swap''),
      (Coins_IsEmpty (Tx_Coins (MS_Tx m)), ''swap coin cannot be empty''),
      (list_ex (\<lambda>coin. Asset_Equals (Coin_Asset coin) (MS_TargetAsset m)) (Tx_Coins (MS_Tx m)),
       ''swap Source and Target cannot be the same.''),
      (Coins_HasNoneNativeRune (Tx_Coins (MS_Tx m)), ''only NATIVE RUNE can be used for swap''),
      (Address_IsEmpty (MS_Destination m), ''swap Destination cannot be empty''),
      (Address_IsEmpty (MS_AffiliateAddress m) \<and> MS_AffiliateBasisPoints m \<noteq> 0,
       ''swap affiliate address is empty while affiliate basis points is non-zero''),
      (\<not> Address_IsChain L (MS_Destination m) (Asset_GetChain (MS_TargetAsset m))
         \<and> \<not> Address_IsChain L (MS_Destination m) BASEChain,
       ''swap destination address is not the same chain as the target asset''),
      (\<not> Address_IsEmpty (MS_AffiliateAddress m) \<and> \<not> Address_IsChain L (MS_AffiliateAddress m) BASEChain,
       ''swap affiliate address must be a MAYA address'')]"

definition MsgSwap_ValidateBasicV63 :: "codecs \<Rightarrow> MsgSwap \<Rightarrow> check" where
  "MsgSwap_ValidateBasicV63 L m = first_error
     [(MS_Signer m = [], ''invalid address''),
      (Tx_Valid (MS_Tx m) \<noteq> None, ''tx is not valid''),
      (Asset_IsEmpty (MS_TargetAsset m), ''swap Target cannot be empty''),
      (length (Tx_Coins (MS_Tx m)) > 1, ''not expecting multiple coins in a swap''),
      (Coins_IsEmpty (Tx_Coins (MS_Tx m)), ''swap coin cannot be empty''),
      (list_ex (\<lambda>coin. Asset_Equals (Coin_Asset coin) (MS_TargetAsset m)) (Tx_Coins (MS_Tx m)),
       ''swap Source and Target cannot be the same.''),
      (Coins_HasNoneNativeRune (Tx_Coins (MS_Tx m)), ''only NATIVE RUNE can be used for swap''),
      (Address_IsEmpty (MS_Destination m), ''swap Destination cannot be empty''),
      (Address_IsEmpty (MS_AffiliateAddress m) \<and> MS_AffiliateBasisPoints m \<noteq> 0,
       ''swap affiliate address is empty while affiliate basis points is non-zero''),
      (MS_AffiliateBasisPoints m \<noteq> 0 \<and> MS_AffiliateBasisPoints m > MaxAffiliateFeeBasisPoints,
       ''affiliate fee basis points can't be more than 1000''),
      (\<not> Address_IsNoop (MS_Destination m)
         \<and> \<not> Address_IsChain L (MS_Destination m) (Asset_GetChain (MS_TargetAsset m)),
       ''swap destination address is not the same chain as the target asset''),
      (\<not> Address_IsEmpty (MS_AffiliateAddress m) \<and> \<not> Address_IsChain L (MS_AffiliateAddress m) BASEChain,
       ''swap affiliate address must be a MAYA address''),
      (length (MS_Aggregator m) \<noteq> 0 \<and> length (MS_AggregatorTargetAddress m) = 0,
       ''aggregator target asset address is empty''),
      (length (MS_AggregatorTargetAddress m) > 0 \<and> length (MS_Aggregator m) = 0, ''aggregator is empty'')]"

record MsgAddLiquidity =
  MA_Tx :: Tx
  MA_Asset :: Asset
  MA_AssetAmount :: nat
  MA_CacaoAmount :: nat
  MA_CacaoAddress :: address
  MA_AssetAddress :: address
  MA_AffiliateAddress :: address
  MA_AffiliateBasisPoints :: nat
  MA_Signer :: acc_address
  MA_LiquidityAuctionTier :: int

definition NewMsgAddLiquidity ::
  "Tx \<Rightarrow> Asset \<Rightarrow> nat \<Rightarrow> nat \<Rightarrow> address \<Rightarrow> address \<Rightarrow> address \<Rightarrow> nat \<Rightarrow> acc_address \<Rightarrow> int
    \<Rightarrow> MsgAddLiquidity" where
  "NewMsgAddLiquidity tx asset baseAmount assetAmount runeAddr assetAddr affAddr affPts signer tier =
     \<lparr>MA_Tx = tx, MA_Asset = asset, MA_AssetAmount = assetAmount, MA_CacaoAmount = baseAmount,
      MA_CacaoAddress = runeAddr, MA_AssetAddress = assetAddr, MA_AffiliateAddress = affAddr,
      MA_AffiliateBasisPoints = affPts, MA_Signer = signer, MA_LiquidityAuctionTier = tier\<rparr>"

definition add_liquidity_checks :: "codecs \<Rightarrow> MsgAddLiquidity \<Rightarrow> (bool \<times> string) list" where
  "add_liquidity_checks L m =
     [(MA_Signer m = [], ''invalid address''),
      (Asset_IsEmpty (MA_Asset m), ''add liquidity asset cannot be empty''),
      (Tx_Valid (MA_Tx m) \<noteq> None, ''tx is not valid''),
      (Asset_IsBase (MA_Asset m), ''asset cannot be cacao''),
      (length (Tx_Coins (MA_Tx m)) = 2 \<and> (MA_AssetAmount m = 0 \<or> MA_CacaoAmount m = 0),
       ''did not find both coins''),
      (length (Tx_Coins (MA_Tx m)) > 2, ''not expecting more than two coins in adding liquidity''),
      (MA_CacaoAmount m = 0 \<and> MA_AssetAmount m = 0, ''rune and asset amounts cannot both be empty''),
      (Address_IsEmpty (MA_CacaoAddress m) \<and> Address_IsEmpty (MA_AssetAddress m),
       ''rune address and asset address cannot be empty''),
      (Address_IsEmpty (MA_AffiliateAddress m) \<and> MA_AffiliateBasisPoints m \<noteq> 0,
       ''affiliate address is empty while affiliate basis points is non-zero'')]"

definition MsgAddLiquidity_ValidateBasic :: "codecs \<Rightarrow> MsgAddLiquidity \<Rightarrow> check" where
  "MsgAddLiquidity_ValidateBasic L m = first_error (add_liquidity_checks L m @
     [(\<not> Address_IsEmpty (MA_AffiliateAddress m) \<and> \<not> Address_IsChain L (MA_AffiliateAddress m) BASEChain,
       ''affiliate address must be a THOR address'')])"

definition MsgAddLiquidity_ValidateBasicV63 :: "codecs \<Rightarrow> MsgAddLiquidity \<Rightarrow> check" where
  "MsgAddLiquidity_ValidateBasicV63 L m = first_error (add_liquidity_checks L m @
     [(MA_AffiliateBasisPoints m \<noteq> 0 \<and> MA_AffiliateBasisPoints m > MaxAffiliateFeeBasisPoints,
       ''affiliate fee basis points can't be more than 1000''),
      (\<not> Address_IsEmpty (MA_AffiliateAddress m) \<and> \<not> Address_IsChain L (MA_AffiliateAddress m) BASEChain,
       ''affiliate address must be a THOR address'')])"

record MsgWithdrawLiquidity =
  MW_Tx :: Tx
  MW_WithdrawAddress :: address
  MW_BasisPoints :: nat
  MW_Asset :: Asset
  MW_WithdrawalAsset :: Asset
  MW_Signer :: acc_address

definition NewMsgWithdrawLiquidity ::
  "Tx \<Rightarrow> address \<Rightarrow> nat \<Rightarrow> Asset \<Rightarrow> Asset \<Rightarrow> acc_address \<Rightarrow> MsgWithdrawLiquidity" where
  "NewMsgWithdrawLiquidity tx withdrawAddress withdrawBasisPoints asset withdrawalAsset signer =
     \<lparr>MW_Tx = tx, MW_WithdrawAddress = withdrawAddress, MW_BasisPoints = withdrawBasisPoints,
      MW_Asset = asset, MW_WithdrawalAsset = withdrawalAsset, MW_Signer = signer\<rparr>"

definition MsgWithdrawLiquidity_ValidateBasic :: "MsgWithdrawLiquidity \<Rightarrow> check" where
  "MsgWithdrawLiquidity_ValidateBasic m = first_error
     [(MW_Signer m = [], ''invalid address''),
      (TxID_IsEmpty (Tx_ID (MW_Tx m)), ''tx id cannot be empty''),
      (Asset_IsEmpty (MW_Asset m), ''pool asset cannot be empty''),
      (Asset_IsBase (MW_Asset m), ''asset cannot be cacao''),
      (Address_IsEmpty (MW_WithdrawAddress m), ''address cannot be empty''),
      (MW_BasisPoints m = 0, ''basis points can't be zero''),
      (MW_BasisPoints m > MaxWithdrawBasisPoints,
       ''basis points is larger than maximum withdraw basis points''),
      (\<not> Asset_IsEmpty (MW_WithdrawalAsset m) \<and> \<not> Asset_IsBase (MW_WithdrawalAsset m)
         \<and> \<not> Asset_Equals (MW_WithdrawalAsset m) (MW_Asset m),
       ''withdrawal asset must be empty, rune, or pool asset'')]"

record MsgDonate =
  MD_Asset :: Asset
  MD_AssetAmount :: nat
  MD_CacaoAmount :: nat
  MD_Tx :: Tx
  MD_Signer :: acc_address

definition NewMsgDonate :: "Tx \<Rightarrow> Asset \<Rightarrow> nat \<Rightarrow> nat \<Rightarrow> acc_address \<Rightarrow> MsgDonate" where
  "NewMsgDonate tx asset r amount signer =
     \<lparr>MD_Asset = asset, MD_AssetAmount = amount, MD_CacaoAmount = r, MD_Tx = tx, MD_Signer = signer\<rparr>"

definition MsgDonate_ValidateBasic :: "MsgDonate \<Rightarrow> check" where
  "MsgDonate_ValidateBasic m = first_error
     [(MD_Signer m = [], ''invalid address''),
      (Asset_IsEmpty (MD_Asset m), ''donate asset cannot be empty''),
      (Asset_IsBase (MD_Asset m), ''asset cannot be cacao''),
      (MD_CacaoAmount m = 0 \<and> MD_AssetAmount m = 0, ''rune and asset amount cannot be zero''),
      (Tx_Valid (MD_Tx m) \<noteq> None, ''tx is not valid'')]"

record MsgDeposit =
  MDp_Coins :: coins
  MDp_Memo :: string
  MDp_Signer :: acc_address

definition MsgDeposit_ValidateBasic :: "MsgDeposit \<Rightarrow> check" where
  "MsgDeposit_ValidateBasic m = first_error
     [(MDp_Signer m = [], ''invalid address''),
      (\<not> list_all Coin_IsNative (MDp_Coins m), ''all coins must be native to BASEChain''),
      (length (MDp_Memo m) > MaxMemoSize, ''memo must not exceed bytes'')]"

section \<open>Bonds and nodes\<close>

record MsgBond =
  MB_TxIn :: Tx
  MB_NodeAddress :: acc_address
  MB_Amount :: nat
  MB_BondAddress :: address
  MB_BondProviderAddress :: acc_address
  MB_Signer :: acc_address
  MB_OperatorFee :: int
  MB_Asset :: Asset
  MB_Units :: nat

definition MsgBond_ValidateBasicV96 :: "MsgBond \<Rightarrow> check" where
  "MsgBond_ValidateBasicV96 m = first_error
     [(MB_NodeAddress m = [], ''node address cannot be empty''),
      (MB_Amount m = 0, ''amount cannot be zero''),
      (Address_IsEmpty (MB_BondAddress m), ''bond address cannot be empty''),
      (Tx_Valid (MB_TxIn m) \<noteq> None, ''tx is not valid''),
      (length (Tx_Coins (MB_TxIn m)) > 1, ''cannot bond more than one coin''),
      (length (Tx_Coins (MB_TxIn m)) = 0, ''must send bond msg with at least one rune''),
      (\<not> list_all (\<lambda>c. Asset_IsNativeBase (Coin_Asset c)) (take 1 (Tx_Coins (MB_TxIn m))),
       ''cannot bond non-native rune asset''),
      (MB_Signer m = [], ''empty signer address''),
      (MB_OperatorFee m < -1 \<or> MB_OperatorFee m > 10000, ''operator fee must be 0-10000'')]"

definition MsgBond_ValidateBasic :: "MsgBond \<Rightarrow> check" where
  "MsgBond_ValidateBasic m =
     (case MsgBond_ValidateBasicV96 m of Some e \<Rightarrow> Some e
      | None \<Rightarrow> first_error
          [(Asset_IsEmpty (MB_Asset m) \<and> MB_Units m \<noteq> 0, ''cannot set units without asset'')])"

record MsgUnBond =
  MU_TxIn :: Tx
  MU_NodeAddress :: acc_address
  MU_BondAddress :: address
  MU_BondProviderAddress :: acc_address
  MU_Signer :: acc_address
  MU_Asset :: Asset
  MU_Units :: nat

definition MsgUnBond_ValidateBasic :: "MsgUnBond \<Rightarrow> check" where
  "MsgUnBond_ValidateBasic m = first_error
     [(MU_NodeAddress m = [], ''node address cannot be empty''),
      (Address_IsEmpty (MU_BondAddress m), ''bond address cannot be empty''),
      (TxID_IsEmpty (Tx_ID (MU_TxIn m)), ''tx id cannot be empty''),
      (Address_IsEmpty (Tx_FromAddress (MU_TxIn m)), ''tx from address cannot be empty''),
      (MU_Signer m = [], ''empty signer address''),
      (MU_BondProviderAddress m \<noteq> [] \<and> \<not> Asset_IsEmpty (MU_Asset m),
       ''bond provider address and asset cannot be set at the same time''),
      (Asset_IsEmpty (MU_Asset m) \<and> MU_Units m \<noteq> 0, ''asset cannot be empty when units is not zero'')]"

definition MsgUnBond_ValidateBasicV88 :: "MsgUnBond \<Rightarrow> check" where
  "MsgUnBond_ValidateBasicV88 m = MsgUnBond_ValidateBasic m"

record MsgLeave =
  ML_Tx :: Tx
  ML_NodeAddress :: acc_address
  ML_Signer :: acc_address

definition MsgLeave_ValidateBasic :: "MsgLeave \<Rightarrow> check" where
  "MsgLeave_ValidateBasic m = first_error
     [(Address_IsEmpty (Tx_FromAddress (ML_Tx m)), ''from address cannot be empty''),
      (TxID_IsEmpty (Tx_ID (ML_Tx m)), ''tx id cannot be empty''),
      (ML_Signer m = [], ''signer cannot be empty ''),
      (ML_NodeAddress m = [], ''node address cannot be empty'')]"

record MsgBan =
  MBan_NodeAddress :: acc_address
  MBan_Signer :: acc_address

definition MsgBan_ValidateBasic :: "MsgBan \<Rightarrow> check" where
  "MsgBan_ValidateBasic m = first_error
     [(MBan_Signer m = [], ''invalid address''), (MBan_NodeAddress m = [], ''invalid address'')]"

record MsgForgiveSlash =
  MFS_Blocks :: nat
  MFS_NodeAddress :: acc_address
  MFS_Signer :: acc_address

text \<open>The second check of the source compares \<open>m.Blocks == cosmos.ZeroUint()\<close>. A \<open>Uint\<close> is a struct
  around a pointer and \<open>ZeroUint\<close> allocates, so this comparison of pointers is never true.\<close>

definition uint_pointers_equal :: "nat \<Rightarrow> nat \<Rightarrow> bool" where
  "uint_pointers_equal a fresh \<longleftrightarrow> False"

definition MsgForgiveSlash_ValidateBasic :: "MsgForgiveSlash \<Rightarrow> check" where
  "MsgForgiveSlash_ValidateBasic m = first_error
     [(MFS_Signer m = [], ''invalid address''),
      (uint_pointers_equal (MFS_Blocks m) 0, ''need block amount to slash to forgive_slash'')]"

record MsgMimir =
  MM_Key :: string
  MM_Value :: int
  MM_Signer :: acc_address

definition MsgMimir_ValidateBasic :: "MsgMimir \<Rightarrow> check" where
  "MsgMimir_ValidateBasic m = first_error
     [(MM_Key m = '''', ''key cannot be empty''), (MM_Signer m = [], ''invalid address'')]"

record MsgNodePauseChain =
  MNP_Value :: int
  MNP_Signer :: acc_address

definition MsgNodePauseChain_ValidateBasic :: "MsgNodePauseChain \<Rightarrow> check" where
  "MsgNodePauseChain_ValidateBasic m = first_error [(MNP_Signer m = [], ''invalid address'')]"

record MsgSetNodeKeys =
  MSK_PubKeySetSet :: PubKeySet
  MSK_ValidatorConsPubKey :: string
  MSK_Signer :: acc_address

text \<open>\<open>consOk\<close> is the decoder of consensus keys of the SDK.\<close>

definition MsgSetNodeKeys_ValidateBasic :: "(string \<Rightarrow> bool) \<Rightarrow> MsgSetNodeKeys \<Rightarrow> check" where
  "MsgSetNodeKeys_ValidateBasic consOk m = first_error
     [(MSK_Signer m = [], ''invalid address''),
      (\<not> consOk (MSK_ValidatorConsPubKey m), ''invalid consensus public key''),
      (PubKeySet_IsEmpty (MSK_PubKeySetSet m), ''node pub keys cannot be empty'')]"

record MsgSetAztecAddress =
  MSA_AztecAddress :: address
  MSA_Signer :: acc_address

definition MsgSetAztecAddress_ValidateBasic :: "codecs \<Rightarrow> MsgSetAztecAddress \<Rightarrow> check" where
  "MsgSetAztecAddress_ValidateBasic L m = first_error
     [(MSA_Signer m = [], ''invalid address''),
      (\<not> Address_IsChain L (MSA_AztecAddress m) AZTECChain, ''invalid address'')]"

section \<open>Observations\<close>

record MsgObservedTxs =
  MO_Txs :: "ObservedTx list"
  MO_Signer :: acc_address

text \<open>The checks of one observed transaction; \<open>endpoint\<close> picks the address that has to be the vault's.\<close>

definition observed_checks ::
  "(pub_key \<Rightarrow> chain \<Rightarrow> address option) \<Rightarrow> (Tx \<Rightarrow> address) \<Rightarrow> string \<Rightarrow> ObservedTx \<Rightarrow> check" where
  "observed_checks getAddress endpoint msg tx =
     (case ObservedTx_Valid tx of Some e \<Rightarrow> Some e
      | None \<Rightarrow>
        (case Tx_Coins (OT_Tx tx) of [] \<Rightarrow> fails ''no coins''
         | coin # _ \<Rightarrow>
           (case getAddress (OT_ObservedPubKey tx) (Asset_GetChain (Coin_Asset coin)) of
              None \<Rightarrow> fails ''fail to get address of the vault''
            | Some obAddr \<Rightarrow> first_error
                [(\<not> Address_Equals (endpoint (OT_Tx tx)) obAddr, msg),
                 (length (OT_Signers tx) > 0, ''signers must be empty''),
                 (length (OT_OutHashes tx) > 0, ''out hashes must be empty''),
                 (OT_Status tx \<noteq> Status_incomplete, ''status must be incomplete'')])))"

fun first_check :: "('a \<Rightarrow> check) \<Rightarrow> 'a list \<Rightarrow> check" where
  "first_check f [] = None"
| "first_check f (x # xs) = (case f x of Some e \<Rightarrow> Some e | None \<Rightarrow> first_check f xs)"

definition MsgObservedTxIn_ValidateBasic :: "(pub_key \<Rightarrow> chain \<Rightarrow> address option) \<Rightarrow> MsgObservedTxs \<Rightarrow> check" where
  "MsgObservedTxIn_ValidateBasic getAddress m =
     (case first_error [(MO_Signer m = [], ''invalid address''),
                        (length (MO_Txs m) = 0, ''Txs cannot be empty'')] of
        Some e \<Rightarrow> Some e
      | None \<Rightarrow> first_check
          (observed_checks getAddress Tx_ToAddress ''request is not an inbound observed transaction'')
          (MO_Txs m))"

definition MsgObservedTxOut_ValidateBasic :: "(pub_key \<Rightarrow> chain \<Rightarrow> address option) \<Rightarrow> MsgObservedTxs \<Rightarrow> check" where
  "MsgObservedTxOut_ValidateBasic getAddress m =
     (case first_error [(MO_Signer m = [], ''invalid address''),
                        (length (MO_Txs m) = 0, ''Txs cannot be empty'')] of
        Some e \<Rightarrow> Some e
      | None \<Rightarrow> first_check
          (observed_checks getAddress Tx_FromAddress ''Request is not an outbound observed transaction'')
          (MO_Txs m))"

record MsgObserved =
  MOb_Tx :: ObservedTx
  MOb_Signer :: acc_address

definition MsgConsolidate_ValidateBasic :: "MsgObserved \<Rightarrow> check" where
  "MsgConsolidate_ValidateBasic m = first_error
     [(ObservedTx_Valid (MOb_Tx m) \<noteq> None, ''invalid coins''), (MOb_Signer m = [], ''invalid address'')]"

definition MsgNoOp_ValidateBasic :: "MsgObserved \<Rightarrow> check" where
  "MsgNoOp_ValidateBasic m = first_error
     [(ObservedTx_Valid (MOb_Tx m) \<noteq> None, ''invalid coins''), (MOb_Signer m = [], ''invalid address'')]"

record MsgAtHeight = MsgObserved +
  MH_BlockHeight :: int

definition MsgMigrate_ValidateBasic :: "MsgAtHeight \<Rightarrow> check" where
  "MsgMigrate_ValidateBasic m = first_error
     [(MOb_Signer m = [], ''invalid address''),
      (MH_BlockHeight m \<le> 0, ''invalid block height''),
      (ObservedTx_Valid (MOb_Tx m) \<noteq> None, ''tx is not valid'')]"

definition MsgRagnarok_ValidateBasic :: "MsgAtHeight \<Rightarrow> check" where
  "MsgRagnarok_ValidateBasic m = first_error
     [(MOb_Signer m = [], ''invalid address''),
      (MH_BlockHeight m \<le> 0, ''invalid block height''),
      (ObservedTx_Valid (MOb_Tx m) \<noteq> None, ''tx is not valid'')]"

record MsgOutbound = MsgObserved +
  MOut_InTxID :: tx_id

definition MsgRefundTx_ValidateBasic :: "MsgOutbound \<Rightarrow> check" where
  "MsgRefundTx_ValidateBasic m = first_error
     [(MOb_Signer m = [], ''invalid address''),
      (TxID_IsEmpty (MOut_InTxID m), ''In Tx ID cannot be empty''),
      (ObservedTx_Valid (MOb_Tx m) \<noteq> None, ''tx is not valid'')]"

definition MsgOutboundTx_ValidateBasic :: "MsgOutbound \<Rightarrow> check" where
  "MsgOutboundTx_ValidateBasic m = first_error
     [(MOb_Signer m = [], ''invalid address''),
      (TxID_IsEmpty (MOut_InTxID m), ''In Tx ID cannot be empty''),
      (ObservedTx_Valid (MOb_Tx m) \<noteq> None, ''tx is not valid'')]"

record MsgErrataTx =
  ME_TxID :: tx_id
  ME_Chain :: chain
  ME_Signer :: acc_address

definition MsgErrataTx_ValidateBasic :: "MsgErrataTx \<Rightarrow> check" where
  "MsgErrataTx_ValidateBasic m = first_error
     [(ME_Signer m = [], ''invalid address''),
      (TxID_IsEmpty (ME_TxID m), ''Tx ID cannot be empty''),
      (Chain_IsEmpty (ME_Chain m), ''chain cannot be empty'')]"

record MsgNetworkFee =
  MNF_BlockHeight :: int
  MNF_Chain :: chain
  MNF_TransactionSize :: nat
  MNF_TransactionFeeRate :: nat
  MNF_Signer :: acc_address

definition MsgNetworkFee_ValidateBasic :: "MsgNetworkFee \<Rightarrow> check" where
  "MsgNetworkFee_ValidateBasic m = first_error
     [(MNF_BlockHeight m \<le> 0, ''block height can't be negative, or zero''),
      (MNF_Signer m = [], ''invalid address''),
      (Chain_IsEmpty (MNF_Chain m), ''chain can't be empty''),
      (MNF_TransactionSize m \<le> 0, ''invalid transaction size''),
      (MNF_TransactionFeeRate m \<le> 0, ''invalid transaction fee rate'')]"

record MsgSolvency =
  MSv_Id :: tx_id
  MSv_Chain :: chain
  MSv_PubKey :: pub_key
  MSv_Coins :: coins
  MSv_Height :: int
  MSv_Signer :: acc_address

definition MsgSolvency_ValidateBasic :: "MsgSolvency \<Rightarrow> check" where
  "MsgSolvency_ValidateBasic m = first_error
     [(TxID_IsEmpty (MSv_Id m), ''invalid id''),
      (Chain_IsEmpty (MSv_Chain m), ''chain can't be empty''),
      (PubKey_IsEmpty (MSv_PubKey m), ''pubkey is empty''),
      (MSv_Height m \<le> 0, ''block height is invalid''),
      (MSv_Signer m = [], ''invalid sender'')]"

record MsgReserveContributor =
  MRC_Tx :: Tx
  MRC_Contributor :: ReserveContributor
  MRC_Signer :: acc_address

definition MsgReserveContributor_ValidateBasic :: "MsgReserveContributor \<Rightarrow> check" where
  "MsgReserveContributor_ValidateBasic m = first_error
     [(Tx_Valid (MRC_Tx m) \<noteq> None, ''tx is not valid''),
      (MRC_Signer m = [], ''invalid address''),
      (ReserveContributor_Valid (MRC_Contributor m) \<noteq> None, ''contributor is not valid'')]"

record MsgYggdrasil =
  MY_Tx :: Tx
  MY_PubKey :: pub_key
  MY_AddFunds :: bool
  MY_Coins :: coins
  MY_BlockHeight :: int
  MY_Signer :: acc_address

definition MsgYggdrasil_ValidateBasic :: "MsgYggdrasil \<Rightarrow> check" where
  "MsgYggdrasil_ValidateBasic m = first_error
     [(MY_Signer m = [], ''invalid address''),
      (PubKey_IsEmpty (MY_PubKey m), ''pubkey cannot be empty''),
      (MY_BlockHeight m \<le> 0, ''invalid block height''),
      (Tx_Valid (MY_Tx m) \<noteq> None, ''tx is not valid''),
      (length (MY_Coins m) = 0, ''no coins''),
      (Coins_Valid (MY_Coins m) \<noteq> None, ''invalid coins'')]"

record MsgManageMAYAName =
  MMN_Name :: string
  MMN_Chain :: chain
  MMN_Address :: address
  MMN_Coin :: Coin
  MMN_ExpireBlockHeight :: int
  MMN_PreferredAsset :: Asset
  MMN_Owner :: acc_address
  MMN_Signer :: acc_address

definition MsgManageMAYAName_ValidateBasic :: "codecs \<Rightarrow> MsgManageMAYAName \<Rightarrow> check" where
  "MsgManageMAYAName_ValidateBasic L m = first_error
     [(MMN_Signer m = [], ''invalid address''),
      (Chain_IsEmpty (MMN_Chain m), ''chain can't be empty''),
      (Address_IsEmpty (MMN_Address m), ''address can't be empty''),
      (\<not> Address_IsChain L (MMN_Address m) (MMN_Chain m), ''address and chain must match''),
      (\<not> Asset_IsNativeBase (Coin_Asset (MMN_Coin m)), ''coin must be native rune'')]"

section \<open>Key generation and signing\<close>

record Node =
  Node_Pubkey :: string
  Node_BlameData :: string
  Node_BlameSignature :: string

record Blame =
  Blame_FailReason :: string
  Blame_IsUnicast :: bool
  Blame_BlameNodes :: "Node list"
  Blame_Round :: string

definition Blame_IsEmpty :: "Blame \<Rightarrow> bool" where
  "Blame_IsEmpty m \<longleftrightarrow> length (Blame_FailReason m) = 0"

record MsgTssPool =
  MTP_ID :: string
  MTP_PoolPubKey :: pub_key
  MTP_KeygenType :: KeygenType
  MTP_PubKeys :: "string list"
  MTP_Height :: int
  MTP_Blame :: Blame
  MTP_Chains :: "string list"
  MTP_Signer :: acc_address
  MTP_KeygenTime :: int

definition MsgTssPool_IsSuccess :: "MsgTssPool \<Rightarrow> bool" where
  "MsgTssPool_IsSuccess m \<longleftrightarrow> Blame_IsEmpty (MTP_Blame m)"

definition MsgTssPool_GetChains :: "MsgTssPool \<Rightarrow> chain list" where
  "MsgTssPool_GetChains m = parse_chains (MTP_Chains m)"

definition MsgTssPool_GetPubKeys :: "sdk \<Rightarrow> MsgTssPool \<Rightarrow> pub_key list" where
  "MsgTssPool_GetPubKeys S m = parse_pubkeys S (MTP_PubKeys m)"

text \<open>The loop over the members: an error, or whether the signer is one of them.\<close>

fun signer_in_pubkeys :: "sdk \<Rightarrow> acc_address \<Rightarrow> bool \<Rightarrow> pub_key list \<Rightarrow> go_error + bool" where
  "signer_in_pubkeys S signer found [] = Inr found"
| "signer_in_pubkeys S signer found (pk # pks) =
     (if PubKey_IsEmpty pk then Inl (GoError ''Pubkey cannot be empty'')
      else case pubkey_acc S pk of
             None \<Rightarrow> Inl (GoError ''invalid pub key'')
           | Some a \<Rightarrow> signer_in_pubkeys S signer (found \<or> a = signer) pks)"

definition MsgTssPool_ValidateBasic :: "sdk \<Rightarrow> MsgTssPool \<Rightarrow> check" where
  "MsgTssPool_ValidateBasic S m =
     (case first_error
        [(MTP_Signer m = [], ''invalid address''),
         (length (MTP_ID m) = 0, ''ID cannot be blank''),
         (length (MTP_PubKeys m) < 2, ''Must have at least 2 pub keys''),
         (length (MTP_PubKeys m) > 100, ''Must have no more then 100 pub keys''),
         (length (MTP_PubKeys m) \<noteq> length (MsgTssPool_GetPubKeys S m), ''One or more pubkeys were not valid'')] of
        Some e \<Rightarrow> Some e
      | None \<Rightarrow>
        (case signer_in_pubkeys S (MTP_Signer m) False (MsgTssPool_GetPubKeys S m) of
           Inl e \<Rightarrow> Some e
         | Inr isSignerInPubKeys \<Rightarrow>
           let chs = MsgTssPool_GetChains m in
           first_error
            [(\<not> isSignerInPubKeys, ''signer is not part of keygen member''),
             (MsgTssPool_IsSuccess m \<and> PubKey_IsEmpty (MTP_PoolPubKey m), ''Pool pubkey cannot be empty''),
             (isl (NewPubKey S (MTP_PoolPubKey m)), ''pool pubkey is not valid''),
             (length chs \<noteq> length (MTP_Chains m), ''One or more chains were not valid''),
             (\<not> Chains_Has chs BASEChain, ''must support rune asset chain''),
             (length chs \<noteq> length (Chains_Distinct chs), ''cannot have duplicate chains'')]))"

record MsgTssKeysignFail =
  MTF_ID :: string
  MTF_Height :: int
  MTF_Blame :: Blame
  MTF_Memo :: string
  MTF_Coins :: coins
  MTF_Signer :: acc_address
  MTF_PubKey :: pub_key

definition MsgTssKeysignFail_ValidateBasic :: "MsgTssKeysignFail \<Rightarrow> check" where
  "MsgTssKeysignFail_ValidateBasic m = first_error
     [(MTF_Signer m = [], ''invalid address''),
      (length (MTF_ID m) = 0, ''ID cannot be blank''),
      (length (MTF_Coins m) = 0, ''no coins''),
      (Coins_Valid (MTF_Coins m) \<noteq> None, ''invalid coins''),
      (Blame_IsEmpty (MTF_Blame m), ''tss blame is empty''),
      (MTF_Height m \<le> 0, ''block height cannot be equal to less than zero''),
      (length (MTF_Memo m) > MaxMemoSize, ''memo must not exceed bytes''),
      (PubKey_IsEmpty (MTF_PubKey m), ''vault pubkey cannot be empty'')]"

end
