(* ===== verification/Keeper.thy ===== *)
theory Keeper
  imports KVStore Messages "HOL-Library.AList"
begin

text \<open>
  The keeper, \<open>x/mayachain/keeper/v1/keeper_*.go\<close>: the operations by which the handlers read
  and change the state of the chain. The store is the record \<open>KVStore\<close>, one table per type of
  value; an operation that writes returns the store it leaves. \<open>height\<close> is the block height of
  the context. Telemetry and logging are left out, and so are the errors of the codec, which
  cannot occur in the typed store.
\<close>

record Jail =
  Jail_NodeAddress :: acc_address
  Jail_ReleaseHeight :: int
  Jail_Reason :: string

definition NewJail :: "acc_address \<Rightarrow> Jail" where
  "NewJail addr = \<lparr>Jail_NodeAddress = addr, Jail_ReleaseHeight = 0, Jail_Reason = ''''\<rparr>"

definition Jail_IsJailed :: "Jail \<Rightarrow> int \<Rightarrow> bool" where
  "Jail_IsJailed m height \<longleftrightarrow> Jail_ReleaseHeight m > height"

record KVStore =
  K_version :: version
  K_int64 :: "int kv"
  K_uint64 :: "nat kv"
  K_uint :: "nat kv"
  K_strings :: "string list kv"
  K_accAddresses :: "acc_address list kv"
  K_pools :: "Pool kv"
  K_nodeMimirs :: "node_mimirs kv"
  K_nodeAccounts :: "NodeAccount kv"
  K_bondProviders :: "BondProviders kv"
  K_jails :: "Jail kv"
  K_banVoters :: "BanVoter kv"
  K_errataVoters :: "ErrataTxVoter kv"
  K_forgiveVoters :: "ForgiveSlashVoter kv"
  K_solvencyVoters :: "SolvencyVoter kv"
  K_networkFeeVoters :: "ObservedNetworkFeeVoter kv"
  K_keysignFailVoters :: "TssKeysignFailVoter kv"
  K_observedTxVoters :: "ObservedTxVoter kv"
  K_txOuts :: "TxOut kv"
  K_vaults :: "Vault kv"
  K_chainContracts :: "ChainContract kv"
  K_liquidityProviders :: "LiquidityProvider kv"
  K_auctionTiers :: "LiquidityAuctionTier kv"
  K_networks :: "Network kv"
  K_pols :: "ProtocolOwnedLiquidity kv"
  K_networkFees :: "NetworkFee kv"
  K_keygenBlocks :: "KeygenBlock kv"
  K_swapQueue :: "MsgSwap kv"
  K_mayaNames :: "MAYAName kv"
  K_tssVoters :: "TssVoter kv"
  K_keygenMetrics :: "TssKeygenMetric kv"
  K_keysignMetrics :: "TssKeysignMetric kv"
  K_ragnarokPositions :: "RagnarokWithdrawPosition kv"
  K_orderBook :: "MsgSwap kv"
  K_bools :: "bool list kv"

section \<open>Numbers\<close>

definition setInt64 :: "KVStore \<Rightarrow> string \<Rightarrow> int \<Rightarrow> KVStore" where
  "setInt64 k key record = k\<lparr>K_int64 := kv_set (K_int64 k) key record\<rparr>"

definition getInt64 :: "KVStore \<Rightarrow> string \<Rightarrow> int \<Rightarrow> bool \<times> int" where
  "getInt64 k key record =
     (case kv_get (K_int64 k) key of None \<Rightarrow> (False, record) | Some v \<Rightarrow> (True, v))"

definition delInt64 :: "KVStore \<Rightarrow> string \<Rightarrow> KVStore" where
  "delInt64 k key = k\<lparr>K_int64 := kv_delete (K_int64 k) key\<rparr>"

text \<open>\<open>getUint64\<close> decodes into a message preset with the default, and a zero is not on the
  wire, so a stored zero is read as the default.\<close>

definition setUint64 :: "KVStore \<Rightarrow> string \<Rightarrow> nat \<Rightarrow> KVStore" where
  "setUint64 k key record = k\<lparr>K_uint64 := kv_set (K_uint64 k) key record\<rparr>"

definition getUint64 :: "KVStore \<Rightarrow> string \<Rightarrow> nat \<Rightarrow> bool \<times> nat" where
  "getUint64 k key record =
     (case kv_get (K_uint64 k) key of
        None \<Rightarrow> (False, record)
      | Some v \<Rightarrow> (True, if v = 0 then record else v))"

definition setUint :: "KVStore \<Rightarrow> string \<Rightarrow> nat \<Rightarrow> KVStore" where
  "setUint k key record = k\<lparr>K_uint := kv_set (K_uint k) key record\<rparr>"

definition getUint :: "KVStore \<Rightarrow> string \<Rightarrow> nat \<Rightarrow> bool \<times> nat" where
  "getUint k key record =
     (case kv_get (K_uint k) key of None \<Rightarrow> (False, record) | Some v \<Rightarrow> (True, v))"

definition setStrings :: "KVStore \<Rightarrow> string \<Rightarrow> string list \<Rightarrow> KVStore" where
  "setStrings k key record = k\<lparr>K_strings := kv_set (K_strings k) key record\<rparr>"

definition getStrings :: "KVStore \<Rightarrow> string \<Rightarrow> string list \<Rightarrow> bool \<times> string list" where
  "getStrings k key record =
     (case kv_get (K_strings k) key of None \<Rightarrow> (False, record) | Some v \<Rightarrow> (True, v))"

definition SetStoreVersion :: "KVStore \<Rightarrow> int \<Rightarrow> KVStore" where
  "SetStoreVersion k v = setInt64 k (GetKey (dbPrefix ''prefixStoreVersion'') '''') v"

definition GetStoreVersion :: "KVStore \<Rightarrow> int" where
  "GetStoreVersion k =
     (case kv_get (K_int64 k) (GetKey (dbPrefix ''prefixStoreVersion'') '''') of
        None \<Rightarrow> 38
      | Some v \<Rightarrow> v)"

section \<open>Heights\<close>

definition GetLastSignedHeight :: "KVStore \<Rightarrow> int" where
  "GetLastSignedHeight k = snd (getInt64 k (GetKey (dbPrefix ''prefixLastSignedHeight'') '''') 0)"

definition SetLastSignedHeight :: "KVStore \<Rightarrow> int \<Rightarrow> KVStore" where
  "SetLastSignedHeight k height =
     (let lastHeight = GetLastSignedHeight k in
      if lastHeight > height then k
      else setInt64 k (GetKey (dbPrefix ''prefixLastSignedHeight'') '''') height)"

definition GetLastChainHeight :: "KVStore \<Rightarrow> chain \<Rightarrow> int" where
  "GetLastChainHeight k c =
     snd (getInt64 k (GetKey (dbPrefix ''prefixLastChainHeight'') (Chain_String c)) 0)"

definition SetLastChainHeight :: "KVStore \<Rightarrow> chain \<Rightarrow> int \<Rightarrow> go_error + KVStore" where
  "SetLastChainHeight k c height =
     (let lastHeight = GetLastChainHeight k c in
      if lastHeight > height then Inl (GoError ''block height can't go backward'')
      else Inr (setInt64 k (GetKey (dbPrefix ''prefixLastChainHeight'') (Chain_String c)) height))"

definition observe_key :: "sdk \<Rightarrow> chain \<Rightarrow> acc_address \<Rightarrow> string" where
  "observe_key S c a =
     GetKey (dbPrefix ''prefixLastObserveHeight'') (acc_string S a) @ ''/'' @ Chain_String c"

definition SetLastObserveHeight :: "sdk \<Rightarrow> KVStore \<Rightarrow> chain \<Rightarrow> acc_address \<Rightarrow> int \<Rightarrow> KVStore" where
  "SetLastObserveHeight S k c a height =
     (let (exist, lastHeight) = getInt64 k (observe_key S c a) 0 in
      if exist \<and> lastHeight > height then k
      else setInt64 k (observe_key S c a) height)"

definition trimPrefix :: "string \<Rightarrow> string \<Rightarrow> string" where
  "trimPrefix s p = (if hasPrefix s p then drop (length p) s else s)"

text \<open>The heights under a prefix, by chain; a key that names no chain is an error.\<close>

fun chain_heights :: "string \<Rightarrow> (string \<times> int) list \<Rightarrow> (chain \<times> int) list \<Rightarrow> go_error + (chain \<times> int) list"
where
  "chain_heights p [] result = Inr result"
| "chain_heights p ((key, v) # t) result =
     (if \<not> hasPrefix key p then chain_heights p t result
      else case NewChain (trimPrefix key p) of
             Inl e \<Rightarrow> Inl (GoError ''fail to parse chain'')
           | Inr c \<Rightarrow> chain_heights p t (AList.update c v result))"

definition GetLastChainHeights :: "KVStore \<Rightarrow> go_error + (chain \<times> int) list" where
  "GetLastChainHeights k = chain_heights (dbPrefix ''prefixLastChainHeight'' @ ''/'') (K_int64 k) []"

definition GetLastObserveHeight :: "sdk \<Rightarrow> KVStore \<Rightarrow> acc_address \<Rightarrow> go_error + (chain \<times> int) list" where
  "GetLastObserveHeight S k a =
     chain_heights (GetKey (dbPrefix ''prefixLastObserveHeight'') (acc_string S a) @ ''/'') (K_int64 k) []"

section \<open>Ragnarok\<close>

definition getRagnarokValue :: "KVStore \<Rightarrow> string \<Rightarrow> int" where
  "getRagnarokValue k prefix = snd (getInt64 k (GetKey prefix '''') 0)"

definition GetRagnarokBlockHeight :: "KVStore \<Rightarrow> int" where
  "GetRagnarokBlockHeight k = getRagnarokValue k (dbPrefix ''prefixRagnarokHeight'')"

definition RagnarokInProgress :: "KVStore \<Rightarrow> bool" where
  "RagnarokInProgress k \<longleftrightarrow> GetRagnarokBlockHeight k > 0"

definition SetRagnarokBlockHeight :: "KVStore \<Rightarrow> int \<Rightarrow> KVStore" where
  "SetRagnarokBlockHeight k height = setInt64 k (GetKey (dbPrefix ''prefixRagnarokHeight'') '''') height"

definition GetRagnarokNth :: "KVStore \<Rightarrow> int" where
  "GetRagnarokNth k = getRagnarokValue k (dbPrefix ''prefixRagnarokNth'')"

definition SetRagnarokNth :: "KVStore \<Rightarrow> int \<Rightarrow> KVStore" where
  "SetRagnarokNth k n = setInt64 k (GetKey (dbPrefix ''prefixRagnarokNth'') '''') n"

definition GetRagnarokPending :: "KVStore \<Rightarrow> int" where
  "GetRagnarokPending k = getRagnarokValue k (dbPrefix ''prefixRagnarokPending'')"

definition SetRagnarokPending :: "KVStore \<Rightarrow> int \<Rightarrow> KVStore" where
  "SetRagnarokPending k pending = setInt64 k (GetKey (dbPrefix ''prefixRagnarokPending'') '''') pending"

definition SetPoolRagnarokStart :: "KVStore \<Rightarrow> int \<Rightarrow> Asset \<Rightarrow> KVStore" where
  "SetPoolRagnarokStart k height asset =
     setInt64 k (GetKey (dbPrefix ''prefixRagnarokPoolHeight'') (Asset_String asset)) height"

definition GetPoolRagnarokStart :: "KVStore \<Rightarrow> Asset \<Rightarrow> int" where
  "GetPoolRagnarokStart k asset =
     snd (getInt64 k (GetKey (dbPrefix ''prefixRagnarokPoolHeight'') (Asset_String asset)) 0)"

section \<open>Observers\<close>

definition GetObservingAddresses :: "KVStore \<Rightarrow> acc_address list" where
  "GetObservingAddresses k =
     (case kv_get (K_accAddresses k) (GetKey (dbPrefix ''prefixObservingAddresses'') '''') of
        None \<Rightarrow> []
      | Some v \<Rightarrow> v)"

fun uniq_loop :: "sdk \<Rightarrow> acc_address list \<Rightarrow> string list \<Rightarrow> acc_address list" where
  "uniq_loop S [] m = []"
| "uniq_loop S (val # cur) m =
     (if acc_string S val \<notin> set m then val # uniq_loop S cur (acc_string S val # m)
      else uniq_loop S cur m)"

definition AddObservingAddresses :: "sdk \<Rightarrow> KVStore \<Rightarrow> acc_address list \<Rightarrow> KVStore" where
  "AddObservingAddresses S k inAddresses =
     (if length inAddresses = 0 then k
      else
        let cur = GetObservingAddresses k @ inAddresses;
            uniq = uniq_loop S cur []
        in k\<lparr>K_accAddresses :=
               kv_set (K_accAddresses k) (GetKey (dbPrefix ''prefixObservingAddresses'') '''') uniq\<rparr>)"

definition ClearObservingAddresses :: "KVStore \<Rightarrow> KVStore" where
  "ClearObservingAddresses k =
     k\<lparr>K_accAddresses :=
         kv_delete (K_accAddresses k) (GetKey (dbPrefix ''prefixObservingAddresses'') '''')\<rparr>"

section \<open>Pools\<close>

text \<open>A pool is decoded into \<open>NewPool\<close>: a status of zero, the unknown one, is not on the wire
  and leaves the preset \<open>Available\<close>.\<close>

definition decode_pool :: "Pool \<Rightarrow> Pool" where
  "decode_pool p =
     (if Pool_Status p = PoolStatus_UnknownPoolStatus then p\<lparr>Pool_Status := PoolStatus_Available\<rparr> else p)"

definition pool_key :: "Asset \<Rightarrow> string" where
  "pool_key asset = GetKey (dbPrefix ''prefixPool'') (Asset_String asset)"

definition GetPool :: "KVStore \<Rightarrow> Asset \<Rightarrow> Pool" where
  "GetPool k asset =
     (case kv_get (K_pools k) (pool_key asset) of None \<Rightarrow> NewPool | Some p \<Rightarrow> decode_pool p)"

definition SetPool :: "KVStore \<Rightarrow> Pool \<Rightarrow> go_error + KVStore" where
  "SetPool k pool =
     (if Asset_IsEmpty (Pool_Asset pool) then Inl (GoError ''cannot save a pool with an empty asset'')
      else Inr (k\<lparr>K_pools := kv_set (K_pools k) (pool_key (Pool_Asset pool)) pool\<rparr>))"

definition PoolExist :: "KVStore \<Rightarrow> Asset \<Rightarrow> bool" where
  "PoolExist k asset \<longleftrightarrow> kv_get (K_pools k) (pool_key asset) \<noteq> None"

definition RemovePool :: "KVStore \<Rightarrow> Asset \<Rightarrow> KVStore" where
  "RemovePool k asset = k\<lparr>K_pools := kv_delete (K_pools k) (pool_key asset)\<rparr>"

text \<open>The iterator decodes into an empty \<open>Pool\<close>, so there the status is read as stored.\<close>

definition GetPools :: "KVStore \<Rightarrow> Pool list" where
  "GetPools k = kv_values (K_pools k)"

definition SetPoolLUVI :: "KVStore \<Rightarrow> Asset \<Rightarrow> nat \<Rightarrow> KVStore" where
  "SetPoolLUVI k asset luvi = setUint k (GetKey (dbPrefix ''prefixPoolLUVI'') (Asset_String asset)) luvi"

definition GetPoolLUVI :: "KVStore \<Rightarrow> Asset \<Rightarrow> nat" where
  "GetPoolLUVI k asset = snd (getUint k (GetKey (dbPrefix ''prefixPoolLUVI'') (Asset_String asset)) 0)"

section \<open>Liquidity fees\<close>

text \<open>\<open>Uint.Uint64\<close> panics on a value of more than 64 bits; the sum of the rolling fee is taken
  in \<open>uint64\<close> and wraps. The height is a positive \<open>int64\<close>.\<close>

definition uint64_of :: "nat \<Rightarrow> nat option" where
  "uint64_of n = (if n < 2 ^ 64 then Some n else None)"

definition total_fee_key :: "int \<Rightarrow> string" where
  "total_fee_key height = GetKey (dbPrefix ''prefixTotalLiquidityFee'') (show_int height)"

definition pool_fee_key :: "int \<Rightarrow> Asset \<Rightarrow> string" where
  "pool_fee_key height asset =
     GetKey (dbPrefix ''prefixPoolLiquidityFee'') (show_int height @ ''-'' @ Asset_String asset)"

definition rolling_fee_key :: "Asset \<Rightarrow> string" where
  "rolling_fee_key asset = GetKey (dbPrefix ''prefixRollingPoolLiquidityFee'') (Asset_String asset)"

definition GetTotalLiquidityFees :: "KVStore \<Rightarrow> int \<Rightarrow> nat" where
  "GetTotalLiquidityFees k height = snd (getUint64 k (total_fee_key height) 0)"

definition GetPoolLiquidityFees :: "KVStore \<Rightarrow> int \<Rightarrow> Asset \<Rightarrow> nat" where
  "GetPoolLiquidityFees k height asset = snd (getUint64 k (pool_fee_key height asset) 0)"

definition GetRollingPoolLiquidityFee :: "KVStore \<Rightarrow> Asset \<Rightarrow> nat" where
  "GetRollingPoolLiquidityFee k asset = snd (getUint64 k (rolling_fee_key asset) 0)"

definition ResetRollingPoolLiquidityFee :: "KVStore \<Rightarrow> Asset \<Rightarrow> KVStore" where
  "ResetRollingPoolLiquidityFee k asset = setUint64 k (rolling_fee_key asset) 0"

definition AddToLiquidityFees :: "sdk \<Rightarrow> KVStore \<Rightarrow> int \<Rightarrow> Asset \<Rightarrow> nat \<Rightarrow> KVStore option" where
  "AddToLiquidityFees S k height asset fee =
     do {
       totalFees \<leftarrow> uint_add S (GetTotalLiquidityFees k height) fee;
       poolFees \<leftarrow> uint_add S (GetPoolLiquidityFees k height asset) fee;
       total64 \<leftarrow> uint64_of totalFees;
       let k1 = setUint64 k (total_fee_key height) total64;
       pool64 \<leftarrow> uint64_of poolFees;
       let k2 = setUint64 k1 (pool_fee_key height asset) pool64;
       if K_version k (1, 95, 0) then do {
         let currentValue = GetRollingPoolLiquidityFee k2 asset;
         addend \<leftarrow> (if K_version k (1, 96, 0) then uint64_of fee else uint64_of poolFees);
         Some (setUint64 k2 (rolling_fee_key asset) ((currentValue + addend) mod 2 ^ 64))
       }
       else Some k2
     }"

section \<open>Mimir\<close>

definition mimir_key :: "string \<Rightarrow> string" where
  "mimir_key key = GetKey (dbPrefix ''prefixMimir'') key"

definition KRAKEN :: string where
  "KRAKEN = ''ReleaseTheKraken''"

definition haveKraken :: "KVStore \<Rightarrow> bool" where
  "haveKraken k \<longleftrightarrow> snd (getInt64 k (mimir_key KRAKEN) (-1)) \<ge> 0"

definition ListValidatorsByStatus :: "KVStore \<Rightarrow> NodeStatus \<Rightarrow> node_accounts" where
  "ListValidatorsByStatus k status =
     filter (\<lambda>na. NA_Type na = NodeType_TypeValidator \<and> NA_Status na = status)
       (kv_values (K_nodeAccounts k))"

definition ListActiveValidators :: "KVStore \<Rightarrow> node_accounts" where
  "ListActiveValidators k = ListValidatorsByStatus k NodeStatus_Active"

definition TotalActiveValidators :: "KVStore \<Rightarrow> nat" where
  "TotalActiveValidators k = length (ListActiveValidators k)"

definition node_mimir_key :: "string \<Rightarrow> string" where
  "node_mimir_key key = GetKey (dbPrefix ''prefixNodeMimir'') (toUpper key)"

definition GetNodeMimirs :: "KVStore \<Rightarrow> string \<Rightarrow> node_mimirs" where
  "GetNodeMimirs k key =
     (case kv_get (K_nodeMimirs k) (node_mimir_key key) of None \<Rightarrow> [] | Some v \<Rightarrow> v)"

definition SetNodeMimir :: "KVStore \<Rightarrow> string \<Rightarrow> int \<Rightarrow> acc_address \<Rightarrow> KVStore" where
  "SetNodeMimir k key v acc =
     (let record = NodeMimirs_Set (GetNodeMimirs k key) (toUpper key) v acc in
      if length record = 0 then k\<lparr>K_nodeMimirs := kv_delete (K_nodeMimirs k) (node_mimir_key key)\<rparr>
      else k\<lparr>K_nodeMimirs := kv_set (K_nodeMimirs k) (node_mimir_key key) record\<rparr>)"

text \<open>The results \<open>GetMimir\<close> can return: before version 1.92.0 it asks for the super majority of
  the node votes, which is unique.\<close>

definition GetMimir :: "sdk \<Rightarrow> KVStore \<Rightarrow> string \<Rightarrow> int" where
  "GetMimir S k key =
     (let own = (if haveKraken k then -1 else snd (getInt64 k (mimir_key key) (-1)))
      in if \<not> K_version k (1, 92, 0) then
           let (i, found) = hd (NodeMimirs_HasSuperMajority S (GetNodeMimirs k key) key
                 (NodeAccounts_GetNodeAddresses (ListActiveValidators k)))
           in if found then i else own
         else own)"

definition SetMimir :: "KVStore \<Rightarrow> string \<Rightarrow> int \<Rightarrow> KVStore" where
  "SetMimir k key v = (if haveKraken k then k else setInt64 k (mimir_key key) v)"

definition DeleteMimir :: "KVStore \<Rightarrow> string \<Rightarrow> KVStore" where
  "DeleteMimir k key = delInt64 k (mimir_key key)"

definition GetNodePauseChain :: "sdk \<Rightarrow> KVStore \<Rightarrow> acc_address \<Rightarrow> int" where
  "GetNodePauseChain S k acc =
     snd (getInt64 k (GetKey (dbPrefix ''prefixNodePauseChain'') (acc_string S acc)) (-1))"

definition SetNodePauseChain :: "sdk \<Rightarrow> KVStore \<Rightarrow> int \<Rightarrow> acc_address \<Rightarrow> KVStore" where
  "SetNodePauseChain S k height acc =
     setInt64 k (GetKey (dbPrefix ''prefixNodePauseChain'') (acc_string S acc)) height"

section \<open>Node accounts\<close>

definition node_key :: "sdk \<Rightarrow> acc_address \<Rightarrow> string" where
  "node_key S addr = GetKey (dbPrefix ''prefixNodeAccount'') (acc_string S addr)"

definition slash_key :: "sdk \<Rightarrow> acc_address \<Rightarrow> string" where
  "slash_key S addr = GetKey (dbPrefix ''prefixNodeSlashPoints'') (acc_string S addr)"

text \<open>The preset record of \<open>GetNodeAccount\<close> has only the address set, which every stored account
  has too, so decoding into it gives the account as stored.\<close>

definition GetNodeAccount :: "sdk \<Rightarrow> KVStore \<Rightarrow> int \<Rightarrow> acc_address \<Rightarrow> NodeAccount" where
  "GetNodeAccount S k height addr =
     (case kv_get (K_nodeAccounts k) (node_key S addr) of
        None \<Rightarrow> NewNodeAccount addr NodeStatus_Unknown \<lparr>Secp256k1 = '''', Ed25519 = ''''\<rparr> '''' '''' 0 '''' height
      | Some na \<Rightarrow> na)"

definition GetNodeAccountByPubKey :: "sdk \<Rightarrow> KVStore \<Rightarrow> int \<Rightarrow> pub_key \<Rightarrow> go_error + NodeAccount" where
  "GetNodeAccountByPubKey S k height pk =
     (case pubkey_acc S pk of
        None \<Rightarrow> Inl (GoError ''fail to get thor address'')
      | Some addr \<Rightarrow> Inr (GetNodeAccount S k height addr))"

definition GetNodeAccountSlashPoints :: "sdk \<Rightarrow> KVStore \<Rightarrow> acc_address \<Rightarrow> int" where
  "GetNodeAccountSlashPoints S k addr = snd (getInt64 k (slash_key S addr) 0)"

definition SetNodeAccountSlashPoints :: "sdk \<Rightarrow> KVStore \<Rightarrow> acc_address \<Rightarrow> int \<Rightarrow> KVStore" where
  "SetNodeAccountSlashPoints S k addr pts =
     setInt64 k (slash_key S addr) (if pts < 0 then 0 else pts)"

definition ResetNodeAccountSlashPoints :: "sdk \<Rightarrow> KVStore \<Rightarrow> acc_address \<Rightarrow> KVStore" where
  "ResetNodeAccountSlashPoints S k addr = delInt64 k (slash_key S addr)"

definition IncNodeAccountSlashPoints :: "sdk \<Rightarrow> KVStore \<Rightarrow> acc_address \<Rightarrow> int \<Rightarrow> KVStore" where
  "IncNodeAccountSlashPoints S k addr pts =
     SetNodeAccountSlashPoints S k addr (wrap64 (GetNodeAccountSlashPoints S k addr + pts))"

definition DecNodeAccountSlashPoints :: "sdk \<Rightarrow> KVStore \<Rightarrow> acc_address \<Rightarrow> int \<Rightarrow> KVStore" where
  "DecNodeAccountSlashPoints S k addr pts =
     SetNodeAccountSlashPoints S k addr (wrap64 (GetNodeAccountSlashPoints S k addr - pts))"

definition SetNodeAccount :: "sdk \<Rightarrow> KVStore \<Rightarrow> int \<Rightarrow> NodeAccount \<Rightarrow> KVStore" where
  "SetNodeAccount S k height na =
     (if NodeAccount_IsEmpty na then k
      else
        let first = NA_Status na = NodeStatus_Active \<and> NA_ActiveBlockHeight na = 0;
            na' = (if first then na\<lparr>NA_ActiveBlockHeight := height\<rparr> else na);
            k' = (if first then ResetNodeAccountSlashPoints S k (NA_NodeAddress na) else k)
        in k'\<lparr>K_nodeAccounts := kv_set (K_nodeAccounts k') (node_key S (NA_NodeAddress na)) na'\<rparr>)"

fun node_keys_unique :: "node_accounts \<Rightarrow> string \<Rightarrow> PubKeySet \<Rightarrow> check" where
  "node_keys_unique [] consensusPubKey pubKeys = None"
| "node_keys_unique (na # nas) consensusPubKey pubKeys =
     (if consensusPubKey = '''' then fails ''Validator Consensus Key cannot be empty''
      else if NA_ValidatorConsPubKey na = consensusPubKey then fails ''already exist''
      else if PubKeySet_Equals pubKeys \<lparr>Secp256k1 = '''', Ed25519 = ''''\<rparr>
        then fails ''PubKeySet cannot be empty''
      else if PubKeySet_Equals (NA_PubKeySet na) pubKeys then fails ''already exist''
      else node_keys_unique nas consensusPubKey pubKeys)"

definition EnsureNodeKeysUnique :: "KVStore \<Rightarrow> string \<Rightarrow> PubKeySet \<Rightarrow> check" where
  "EnsureNodeKeysUnique k consensusPubKey pubKeys =
     node_keys_unique (kv_values (K_nodeAccounts k)) consensusPubKey pubKeys"

fun aztec_unique :: "node_accounts \<Rightarrow> address \<Rightarrow> check" where
  "aztec_unique [] aztecAddress = None"
| "aztec_unique (na # nas) aztecAddress =
     (if aztecAddress = '''' then fails ''Aztec Address cannot be empty''
      else if NA_AztecAddress na = aztecAddress then fails ''already exist''
      else aztec_unique nas aztecAddress)"

definition EnsureAztecAddressUnique :: "KVStore \<Rightarrow> address \<Rightarrow> check" where
  "EnsureAztecAddressUnique k aztecAddress = aztec_unique (kv_values (K_nodeAccounts k)) aztecAddress"

definition jail_key :: "sdk \<Rightarrow> acc_address \<Rightarrow> string" where
  "jail_key S addr = GetKey (dbPrefix ''prefixNodeJail'') (acc_string S addr)"

definition GetNodeAccountJail :: "sdk \<Rightarrow> KVStore \<Rightarrow> acc_address \<Rightarrow> Jail" where
  "GetNodeAccountJail S k addr =
     (case kv_get (K_jails k) (jail_key S addr) of None \<Rightarrow> NewJail addr | Some j \<Rightarrow> j)"

definition SetNodeAccountJail :: "sdk \<Rightarrow> KVStore \<Rightarrow> acc_address \<Rightarrow> int \<Rightarrow> string \<Rightarrow> KVStore" where
  "SetNodeAccountJail S k addr height reason =
     (let jail = GetNodeAccountJail S k addr in
      if Jail_ReleaseHeight jail > height then k
      else k\<lparr>K_jails := kv_set (K_jails k) (jail_key S addr)
                (jail\<lparr>Jail_ReleaseHeight := height, Jail_Reason := reason\<rparr>)\<rparr>)"

definition ReleaseNodeAccountFromJail :: "sdk \<Rightarrow> KVStore \<Rightarrow> int \<Rightarrow> acc_address \<Rightarrow> KVStore" where
  "ReleaseNodeAccountFromJail S k height addr =
     (let jail = GetNodeAccountJail S k addr
      in k\<lparr>K_jails := kv_set (K_jails k) (jail_key S addr)
               (jail\<lparr>Jail_ReleaseHeight := height, Jail_Reason := ''''\<rparr>)\<rparr>)"

definition bond_key :: "sdk \<Rightarrow> acc_address \<Rightarrow> string" where
  "bond_key S addr = GetKey (dbPrefix ''prefixBondProviders'') (acc_string S addr)"

definition GetBondProviders :: "sdk \<Rightarrow> KVStore \<Rightarrow> acc_address \<Rightarrow> BondProviders" where
  "GetBondProviders S k addr =
     (case kv_get (K_bondProviders k) (bond_key S addr) of None \<Rightarrow> NewBondProviders addr | Some b \<Rightarrow> b)"

definition SetBondProviders :: "sdk \<Rightarrow> KVStore \<Rightarrow> BondProviders \<Rightarrow> KVStore" where
  "SetBondProviders S k record1 =
     k\<lparr>K_bondProviders := kv_set (K_bondProviders k) (bond_key S (BPS_NodeAddress record1)) record1\<rparr>"

section \<open>Voters\<close>

definition GetBanVoter :: "sdk \<Rightarrow> KVStore \<Rightarrow> acc_address \<Rightarrow> BanVoter" where
  "GetBanVoter S k addr =
     (case kv_get (K_banVoters k) (GetKey (dbPrefix ''prefixBanVoter'') (acc_string S addr)) of
        None \<Rightarrow> NewBanVoter addr
      | Some v \<Rightarrow> v)"

definition SetBanVoter :: "sdk \<Rightarrow> KVStore \<Rightarrow> BanVoter \<Rightarrow> KVStore" where
  "SetBanVoter S k ban =
     k\<lparr>K_banVoters := kv_set (K_banVoters k)
         (GetKey (dbPrefix ''prefixBanVoter'') (acc_string S (BV_NodeAddress ban))) ban\<rparr>"

definition GetErrataTxVoter :: "KVStore \<Rightarrow> tx_id \<Rightarrow> chain \<Rightarrow> ErrataTxVoter" where
  "GetErrataTxVoter k txID c =
     (let voter = NewErrataTxVoter txID c in
      case kv_get (K_errataVoters k) (GetKey (dbPrefix ''prefixErrataTx'') (ErrataTxVoter_String voter)) of
        None \<Rightarrow> voter
      | Some v \<Rightarrow> v)"

definition SetErrataTxVoter :: "KVStore \<Rightarrow> ErrataTxVoter \<Rightarrow> KVStore" where
  "SetErrataTxVoter k errata =
     k\<lparr>K_errataVoters := kv_set (K_errataVoters k)
         (GetKey (dbPrefix ''prefixErrataTx'') (ErrataTxVoter_String errata)) errata\<rparr>"

definition forgive_key :: "sdk \<Rightarrow> acc_address \<Rightarrow> string" where
  "forgive_key S addr = GetKey (dbPrefix ''prefixForgiveSlashVoter'') (acc_string S addr)"

definition GetForgiveSlashVoter :: "sdk \<Rightarrow> KVStore \<Rightarrow> acc_address \<Rightarrow> ForgiveSlashVoter" where
  "GetForgiveSlashVoter S k addr =
     (case kv_get (K_forgiveVoters k) (forgive_key S addr) of
        None \<Rightarrow> NewForgiveSlashVoter addr
      | Some v \<Rightarrow> v)"

definition SetForgiveSlashVoter :: "sdk \<Rightarrow> KVStore \<Rightarrow> ForgiveSlashVoter \<Rightarrow> KVStore" where
  "SetForgiveSlashVoter S k v =
     k\<lparr>K_forgiveVoters := kv_set (K_forgiveVoters k) (forgive_key S (FV_NodeAddress v)) v\<rparr>"

definition DeleteForgiveSlashVoter :: "sdk \<Rightarrow> KVStore \<Rightarrow> acc_address \<Rightarrow> KVStore" where
  "DeleteForgiveSlashVoter S k addr =
     k\<lparr>K_forgiveVoters := kv_delete (K_forgiveVoters k) (forgive_key S addr)\<rparr>"

definition solvency_key :: "chain \<Rightarrow> tx_id \<Rightarrow> string" where
  "solvency_key c i = GetKey (dbPrefix ''prefixSolvencyVoter'') (Chain_String c @ ''-'' @ i)"

definition SetSolvencyVoter :: "KVStore \<Rightarrow> SolvencyVoter \<Rightarrow> KVStore" where
  "SetSolvencyVoter k v =
     k\<lparr>K_solvencyVoters := kv_set (K_solvencyVoters k) (solvency_key (SV_Chain v) (SV_Id v)) v\<rparr>"

definition EmptySolvencyVoter :: SolvencyVoter where
  "EmptySolvencyVoter = \<lparr>SV_Id = '''', SV_Chain = '''', SV_PubKey = '''', SV_Coins = [],
     SV_Height = 0, SV_ConsensusBlockHeight = 0, SV_Signers = []\<rparr>"

definition GetSolvencyVoter :: "KVStore \<Rightarrow> tx_id \<Rightarrow> chain \<Rightarrow> SolvencyVoter" where
  "GetSolvencyVoter k txID c =
     (case kv_get (K_solvencyVoters k) (solvency_key c txID) of
        None \<Rightarrow> EmptySolvencyVoter
      | Some v \<Rightarrow> v)"

definition SetObservedNetworkFeeVoter :: "KVStore \<Rightarrow> ObservedNetworkFeeVoter \<Rightarrow> KVStore" where
  "SetObservedNetworkFeeVoter k v =
     k\<lparr>K_networkFeeVoters := kv_set (K_networkFeeVoters k)
         (GetKey (dbPrefix ''prefixNetworkFeeVoter'') (NetworkFeeVoter_String v)) v\<rparr>"

definition GetObservedNetworkFeeVoter :: "KVStore \<Rightarrow> int \<Rightarrow> chain \<Rightarrow> int \<Rightarrow> ObservedNetworkFeeVoter" where
  "GetObservedNetworkFeeVoter k height c rate =
     (let voter0 = NewObservedNetworkFeeVoter height c;
          voter = (if rate > 0 then voter0\<lparr>NV_FeeRate := rate\<rparr> else voter0)
      in case kv_get (K_networkFeeVoters k)
           (GetKey (dbPrefix ''prefixNetworkFeeVoter'') (NetworkFeeVoter_String voter)) of
           None \<Rightarrow> voter
         | Some v \<Rightarrow> v)"

definition SetTssKeysignFailVoter :: "KVStore \<Rightarrow> TssKeysignFailVoter \<Rightarrow> KVStore" where
  "SetTssKeysignFailVoter k v =
     k\<lparr>K_keysignFailVoters := kv_set (K_keysignFailVoters k)
         (GetKey (dbPrefix ''prefixTssKeysignFailure'') (KV_ID v)) v\<rparr>"

definition GetTssKeysignFailVoter :: "KVStore \<Rightarrow> string \<Rightarrow> TssKeysignFailVoter" where
  "GetTssKeysignFailVoter k i =
     (case kv_get (K_keysignFailVoters k) (GetKey (dbPrefix ''prefixTssKeysignFailure'') i) of
        None \<Rightarrow> \<lparr>KV_ID = i, KV_Height = 0, KV_Signers = []\<rparr>
      | Some v \<Rightarrow> v)"

section \<open>Observed transactions and outbounds\<close>

definition getObservedTxVoter :: "KVStore \<Rightarrow> string \<Rightarrow> tx_id \<Rightarrow> ObservedTxVoter" where
  "getObservedTxVoter k prefix hash =
     (case kv_get (K_observedTxVoters k) (GetKey prefix hash) of
        None \<Rightarrow> NewObservedTxVoter hash []
      | Some v \<Rightarrow> v)"

definition setObservedTxVoter :: "KVStore \<Rightarrow> string \<Rightarrow> ObservedTxVoter \<Rightarrow> KVStore" where
  "setObservedTxVoter k prefix tx =
     k\<lparr>K_observedTxVoters := kv_set (K_observedTxVoters k) (GetKey prefix (OV_TxID tx)) tx\<rparr>"

definition GetObservedTxInVoter :: "KVStore \<Rightarrow> tx_id \<Rightarrow> ObservedTxVoter" where
  "GetObservedTxInVoter k hash = getObservedTxVoter k (dbPrefix ''prefixObservedTxIn'') hash"

definition SetObservedTxInVoter :: "KVStore \<Rightarrow> ObservedTxVoter \<Rightarrow> KVStore" where
  "SetObservedTxInVoter k tx = setObservedTxVoter k (dbPrefix ''prefixObservedTxIn'') tx"

definition GetObservedTxOutVoter :: "KVStore \<Rightarrow> tx_id \<Rightarrow> ObservedTxVoter" where
  "GetObservedTxOutVoter k hash = getObservedTxVoter k (dbPrefix ''prefixObservedTxOut'') hash"

definition SetObservedTxOutVoter :: "KVStore \<Rightarrow> ObservedTxVoter \<Rightarrow> KVStore" where
  "SetObservedTxOutVoter k tx = setObservedTxVoter k (dbPrefix ''prefixObservedTxOut'') tx"

definition SetObservedLink :: "KVStore \<Rightarrow> tx_id \<Rightarrow> tx_id \<Rightarrow> KVStore" where
  "SetObservedLink k inhash outhash =
     (let key = GetKey (dbPrefix ''prefixObservedLink'') inhash;
          links = snd (getStrings k key [])
      in if list_ex (\<lambda>s. s = outhash) links then k
         else setStrings k key (links @ [outhash]))"

definition GetObservedLink :: "KVStore \<Rightarrow> tx_id \<Rightarrow> tx_id list" where
  "GetObservedLink k inhash =
     List.map_filter (\<lambda>s. case NewTxID s of Inl _ \<Rightarrow> None | Inr h \<Rightarrow> Some h)
       (snd (getStrings k (GetKey (dbPrefix ''prefixObservedLink'') inhash) []))"

definition txout_key :: "int \<Rightarrow> string" where
  "txout_key height = GetKey (dbPrefix ''prefixTxOut'') (show_int height)"

definition GetTxOut :: "KVStore \<Rightarrow> int \<Rightarrow> TxOut" where
  "GetTxOut k height =
     (case kv_get (K_txOuts k) (txout_key height) of None \<Rightarrow> NewTxOut height | Some t \<Rightarrow> t)"

definition SetTxOut :: "KVStore \<Rightarrow> TxOut \<Rightarrow> KVStore" where
  "SetTxOut k blockOut =
     (if TxOut_IsEmpty blockOut then k
      else k\<lparr>K_txOuts := kv_set (K_txOuts k) (txout_key (TxOut_Height blockOut)) blockOut\<rparr>)"

definition AppendTxOut :: "KVStore \<Rightarrow> int \<Rightarrow> TxOutItem \<Rightarrow> KVStore" where
  "AppendTxOut k height item =
     (let block = GetTxOut k height
      in SetTxOut k (block\<lparr>TxOut_TxArray := TxOut_TxArray block @ [item]\<rparr>))"

definition ClearTxOut :: "KVStore \<Rightarrow> int \<Rightarrow> KVStore" where
  "ClearTxOut k height = k\<lparr>K_txOuts := kv_delete (K_txOuts k) (txout_key height)\<rparr>"

fun txout_value :: "sdk \<Rightarrow> KVStore \<Rightarrow> TxOutItem list \<Rightarrow> nat \<Rightarrow> nat option" where
  "txout_value S k [] runeValue = Some runeValue"
| "txout_value S k (item # items) runeValue =
     do {
       v \<leftarrow> uint_add S runeValue
         (if Asset_IsBase (Coin_Asset (TOI_Coin item)) then Coin_Amount (TOI_Coin item)
          else Pool_AssetValueInRune S (GetPool k (Coin_Asset (TOI_Coin item))) (Coin_Amount (TOI_Coin item)));
       txout_value S k items v
     }"

definition GetTxOutValue :: "sdk \<Rightarrow> KVStore \<Rightarrow> int \<Rightarrow> nat option" where
  "GetTxOutValue S k height = txout_value S k (TxOut_TxArray (GetTxOut k height)) 0"

section \<open>Vaults\<close>

definition vault_key :: "pub_key \<Rightarrow> string" where
  "vault_key pk = GetKey (dbPrefix ''prefixVault'') pk"

definition asgard_index_key :: string where
  "asgard_index_key = GetKey (dbPrefix ''prefixVaultAsgardIndex'') ''''"

fun parse_all_pubkeys :: "sdk \<Rightarrow> string list \<Rightarrow> go_error + pub_key list" where
  "parse_all_pubkeys S [] = Inr []"
| "parse_all_pubkeys S (s # ss) =
     (case NewPubKey S s of
        Inl e \<Rightarrow> Inl e
      | Inr pk \<Rightarrow> (case parse_all_pubkeys S ss of Inl e \<Rightarrow> Inl e | Inr pks \<Rightarrow> Inr (pk # pks)))"

definition getAsgardIndex :: "sdk \<Rightarrow> KVStore \<Rightarrow> go_error + pub_key list" where
  "getAsgardIndex S k = parse_all_pubkeys S (snd (getStrings k asgard_index_key []))"

definition addAsgardIndex :: "sdk \<Rightarrow> KVStore \<Rightarrow> pub_key \<Rightarrow> go_error + KVStore" where
  "addAsgardIndex S k pubkey =
     (case getAsgardIndex S k of
        Inl e \<Rightarrow> Inl e
      | Inr pks \<Rightarrow>
          if list_ex (\<lambda>pk. pk = pubkey) pks then Inr k
          else Inr (setStrings k asgard_index_key (pks @ [pubkey])))"

definition RemoveFromAsgardIndex :: "sdk \<Rightarrow> KVStore \<Rightarrow> pub_key \<Rightarrow> go_error + KVStore" where
  "RemoveFromAsgardIndex S k pubkey =
     (case getAsgardIndex S k of
        Inl e \<Rightarrow> Inl e
      | Inr pks \<Rightarrow> Inr (setStrings k asgard_index_key (filter (\<lambda>pk. pk \<noteq> pubkey) pks)))"

definition SetVault :: "sdk \<Rightarrow> KVStore \<Rightarrow> Vault \<Rightarrow> go_error + KVStore" where
  "SetVault S k vault =
     (case (if Vault_IsAsgard vault then addAsgardIndex S k (V_PubKey vault) else Inr k) of
        Inl e \<Rightarrow> Inl e
      | Inr k' \<Rightarrow> Inr (k'\<lparr>K_vaults := kv_set (K_vaults k') (vault_key (V_PubKey vault)) vault\<rparr>))"

definition VaultExists :: "KVStore \<Rightarrow> pub_key \<Rightarrow> bool" where
  "VaultExists k pk \<longleftrightarrow> kv_get (K_vaults k) (vault_key pk) \<noteq> None"

text \<open>The preset record of \<open>GetVault\<close> carries the current height and the key: a vault stored
  with height zero or without a key is read with these.\<close>

definition decode_vault :: "int \<Rightarrow> pub_key \<Rightarrow> Vault \<Rightarrow> Vault" where
  "decode_vault height pk v =
     (let v1 = (if V_BlockHeight v = 0 then v\<lparr>V_BlockHeight := height\<rparr> else v)
      in if PubKey_IsEmpty (V_PubKey v1) then v1\<lparr>V_PubKey := pk\<rparr> else v1)"

definition GetVault :: "KVStore \<Rightarrow> int \<Rightarrow> pub_key \<Rightarrow> go_error + Vault" where
  "GetVault k height pk =
     (case kv_get (K_vaults k) (vault_key pk) of
        None \<Rightarrow> Inl (GoError ''vault not found'')
      | Some v \<Rightarrow> Inr (decode_vault height pk v))"

definition HasValidVaultPools :: "KVStore \<Rightarrow> bool" where
  "HasValidVaultPools k \<longleftrightarrow> list_ex Vault_HasFunds (kv_values (K_vaults k))"

fun asgard_vaults :: "KVStore \<Rightarrow> int \<Rightarrow> pub_key list \<Rightarrow> go_error + Vault list" where
  "asgard_vaults k height [] = Inr []"
| "asgard_vaults k height (pk # pks) =
     (case GetVault k height pk of
        Inl e \<Rightarrow> Inl e
      | Inr vault \<Rightarrow>
          (case asgard_vaults k height pks of
             Inl e \<Rightarrow> Inl e
           | Inr vs \<Rightarrow> Inr (if Vault_IsAsgard vault then vault # vs else vs)))"

definition GetAsgardVaults :: "sdk \<Rightarrow> KVStore \<Rightarrow> int \<Rightarrow> go_error + Vault list" where
  "GetAsgardVaults S k height =
     (case getAsgardIndex S k of Inl e \<Rightarrow> Inl e | Inr pks \<Rightarrow> asgard_vaults k height pks)"

definition GetAsgardVaultsByStatus :: "sdk \<Rightarrow> KVStore \<Rightarrow> int \<Rightarrow> VaultStatus \<Rightarrow> go_error + Vault list" where
  "GetAsgardVaultsByStatus S k height status =
     (case GetAsgardVaults S k height of
        Inl e \<Rightarrow> Inl e
      | Inr vs \<Rightarrow> Inr (filter (\<lambda>v. V_Status v = status) vs))"

definition DeleteVault :: "sdk \<Rightarrow> KVStore \<Rightarrow> int \<Rightarrow> pub_key \<Rightarrow> go_error + KVStore" where
  "DeleteVault S k height pubkey =
     (case GetVault k height pubkey of
        Inl _ \<Rightarrow> Inr k
      | Inr vault \<Rightarrow>
          if Vault_HasFunds vault then Inl (GoError ''unable to delete vault: it still contains funds'')
          else
            let k' = (if Vault_IsAsgard vault
                      then (case RemoveFromAsgardIndex S k pubkey of Inl _ \<Rightarrow> k | Inr k1 \<Rightarrow> k1) else k)
            in Inr (k'\<lparr>K_vaults := kv_delete (K_vaults k') (vault_key (V_PubKey vault))\<rparr>))"

definition GetChainContract :: "KVStore \<Rightarrow> chain \<Rightarrow> ChainContract" where
  "GetChainContract k c =
     (case kv_get (K_chainContracts k) (GetKey (dbPrefix ''prefixChainContract'') (Chain_String c)) of
        None \<Rightarrow> \<lparr>CC_Chain = '''', CC_Router = ''''\<rparr>
      | Some cc \<Rightarrow> cc)"

definition SetChainContract :: "KVStore \<Rightarrow> ChainContract \<Rightarrow> KVStore" where
  "SetChainContract k cc =
     k\<lparr>K_chainContracts := kv_set (K_chainContracts k)
         (GetKey (dbPrefix ''prefixChainContract'') (Chain_String (CC_Chain cc))) cc\<rparr>"

definition ChainContract_IsEmpty :: "ChainContract \<Rightarrow> bool" where
  "ChainContract_IsEmpty m \<longleftrightarrow> Chain_IsEmpty (CC_Chain m) \<or> Address_IsEmpty (CC_Router m)"

definition GetChainContracts :: "KVStore \<Rightarrow> chain list \<Rightarrow> ChainContract list" where
  "GetChainContracts k cs =
     filter (\<lambda>cc. \<not> ChainContract_IsEmpty cc) (map (GetChainContract k) cs)"

section \<open>Reading what was written\<close>

lemma kv_get_delete [simp]: "kv_get (kv_delete t k) k' = (if k' = k then None else kv_get t k')"
  by (rule kv.get_del)

declare kv_get_set [simp]

lemma getInt64_set [simp]:
  "getInt64 (setInt64 k key v) key' d = (if key' = key then (True, v) else getInt64 k key' d)"
  by (simp add: getInt64_def setInt64_def)

lemma getInt64_del [simp]:
  "getInt64 (delInt64 k key) key' d = (if key' = key then (False, d) else getInt64 k key' d)"
  by (simp add: getInt64_def delInt64_def)

lemma getStrings_set [simp]:
  "getStrings (setStrings k key v) key' d = (if key' = key then (True, v) else getStrings k key' d)"
  by (simp add: getStrings_def setStrings_def)

lemma getInt64_other_field [simp]:
  "getInt64 (k\<lparr>K_nodeAccounts := t\<rparr>) key d = getInt64 k key d"
  "getInt64 (k\<lparr>K_jails := u\<rparr>) key d = getInt64 k key d"
  by (simp_all add: getInt64_def)

lemma GetKey_same [simp]: "GetKey p x = GetKey p y \<longleftrightarrow> toUpper x = toUpper y"
  by (simp add: GetKey_def)

lemma toUpper_Asset_String [simp]: "toUpper (Asset_String a) = Asset_String a"
proof -
  have "char_upper CHR ''/'' = CHR ''/''" "char_upper CHR ''.'' = CHR ''.''" by code_simp+
  then show ?thesis by (simp add: Asset_String_def Chain_String_def Symbol_String_def)
qed

lemma pool_key_eq: "pool_key a = pool_key b \<longleftrightarrow> Asset_String a = Asset_String b"
  by (simp add: pool_key_def)

lemma GetPool_after_SetPool:
  "SetPool k p = Inr k' \<Longrightarrow>
     GetPool k' a = (if Asset_String a = Asset_String (Pool_Asset p) then decode_pool p else GetPool k a)"
  by (auto simp: SetPool_def GetPool_def pool_key_eq split: if_splits)

section \<open>Heights, slash points and jail\<close>

lemma jail_monotone:
  "Jail_ReleaseHeight (GetNodeAccountJail S k b)
     \<le> Jail_ReleaseHeight (GetNodeAccountJail S (SetNodeAccountJail S k a h r) b)"
proof (cases "Jail_ReleaseHeight (GetNodeAccountJail S k a) > h")
  case True
  then show ?thesis by (simp add: SetNodeAccountJail_def Let_def)
next
  case False
  moreover have "Jail_ReleaseHeight (GetNodeAccountJail S k b) = Jail_ReleaseHeight (GetNodeAccountJail S k a)"
    if "jail_key S b = jail_key S a"
    using that by (simp add: GetNodeAccountJail_def NewJail_def split: option.splits)
  ultimately show ?thesis
    by (auto simp: SetNodeAccountJail_def GetNodeAccountJail_def Let_def split: if_splits)
qed

lemma slash_points_set:
  "GetNodeAccountSlashPoints S (SetNodeAccountSlashPoints S k a pts) a = max 0 pts"
  by (simp add: GetNodeAccountSlashPoints_def SetNodeAccountSlashPoints_def)

section \<open>Observers\<close>

lemma uniq_loop_distinct:
  "distinct (map (acc_string S) (uniq_loop S xs m))
   \<and> set (map (acc_string S) (uniq_loop S xs m)) = acc_string S ` set xs - set m"
proof (induction xs arbitrary: m)
  case (Cons a xs)
  then show ?case using Cons.IH [of m] Cons.IH [of "acc_string S a # m"] by auto
qed simp

lemma AddObservingAddresses_result:
  assumes "xs \<noteq> []"
  shows "GetObservingAddresses (AddObservingAddresses S k xs) = uniq_loop S (GetObservingAddresses k @ xs) []"
  using assms by (simp add: AddObservingAddresses_def GetObservingAddresses_def Let_def)

section \<open>Mimir\<close>

lemma mimir_key_eq [simp]: "mimir_key a = mimir_key b \<longleftrightarrow> toUpper a = toUpper b"
  by (simp add: mimir_key_def)

lemma haveKraken_set: "0 \<le> v \<Longrightarrow> haveKraken (SetMimir k KRAKEN v)"
  by (simp add: SetMimir_def haveKraken_def)

lemma K_version_set [simp]:
  "K_version (setInt64 k key v) = K_version k" "K_version (SetMimir k key v) = K_version k"
  by (simp_all add: SetMimir_def setInt64_def)

lemma GetMimir_SetMimir:
  assumes "K_version k (1, 92, 0)" and "\<not> haveKraken k" and "toUpper key \<noteq> toUpper KRAKEN"
  shows "GetMimir S (SetMimir k key v) key' = (if toUpper key' = toUpper key then v else GetMimir S k key')"
proof -
  have "haveKraken (SetMimir k key v) = haveKraken k"
    using assms(3) by (auto simp: SetMimir_def haveKraken_def)
  then show ?thesis using assms by (auto simp: GetMimir_def Let_def SetMimir_def)
qed

section \<open>Vaults\<close>

text \<open>A vault is stored under its own key, and an Asgard vault is in the index.\<close>

definition vaults_ok :: "KVStore \<Rightarrow> bool" where
  "vaults_ok k \<longleftrightarrow>
     (\<forall>key v. kv_get (K_vaults k) key = Some v \<longrightarrow>
        key = vault_key (V_PubKey v)
        \<and> (Vault_IsAsgard v \<longrightarrow> V_PubKey v \<in> set (snd (getStrings k asgard_index_key []))))"

lemma parse_all_pubkeys_id: "parse_all_pubkeys S ss = Inr pks \<Longrightarrow> pks = ss"
  by (induction ss arbitrary: pks)
     (auto simp: NewPubKey_def split: sum.splits if_splits)

lemma addAsgardIndex_index:
  assumes "addAsgardIndex S k pk = Inr k'"
  shows "K_vaults k' = K_vaults k"
    and "set (snd (getStrings k' asgard_index_key [])) = insert pk (set (snd (getStrings k asgard_index_key [])))"
  using assms
  by (auto simp: addAsgardIndex_def getAsgardIndex_def setStrings_def getStrings_def list_ex_iff
      split: sum.splits if_splits option.splits dest!: parse_all_pubkeys_id)

lemma RemoveFromAsgardIndex_index:
  assumes "RemoveFromAsgardIndex S k pk = Inr k'"
  shows "K_vaults k' = K_vaults k"
    and "set (snd (getStrings k' asgard_index_key [])) = set (snd (getStrings k asgard_index_key [])) - {pk}"
  using assms
  by (auto simp: RemoveFromAsgardIndex_def getAsgardIndex_def setStrings_def getStrings_def
      split: sum.splits option.splits dest!: parse_all_pubkeys_id)

lemma getStrings_vaults [simp]: "getStrings (k\<lparr>K_vaults := t\<rparr>) key d = getStrings k key d"
  by (simp add: getStrings_def)

lemma SetVault_ok:
  assumes "vaults_ok k" and "SetVault S k vault = Inr k'"
  shows "vaults_ok k'"
  using assms addAsgardIndex_index
  by (fastforce simp: SetVault_def vaults_ok_def split: sum.splits if_splits)

lemma decode_vault_simps [simp]:
  "Vault_HasFunds (decode_vault h pk v) = Vault_HasFunds v"
  "Vault_IsAsgard (decode_vault h pk v) = Vault_IsAsgard v"
  "V_PubKey (decode_vault h pk v) = (if PubKey_IsEmpty (V_PubKey v) then pk else V_PubKey v)"
  by (simp_all add: decode_vault_def Let_def Vault_HasFunds_def Vault_IsAsgard_def Vault_IsType_def)

text \<open>What \<open>DeleteVault\<close> removes: the entry of the vault and its key in the index, provided the
  vault has no funds.\<close>

lemma DeleteVault_result:
  assumes "vaults_ok k" and "DeleteVault S k h pk = Inr k'"
  shows "k' = k \<or>
    (\<exists>v. kv_get (K_vaults k) (vault_key pk) = Some v \<and> \<not> Vault_HasFunds v
       \<and> K_vaults k' = kv_delete (K_vaults k) (vault_key pk)
       \<and> set (snd (getStrings k asgard_index_key [])) - {pk} \<subseteq> set (snd (getStrings k' asgard_index_key [])))"
proof (cases "kv_get (K_vaults k) (vault_key pk)")
  case None
  then show ?thesis using assms(2) by (simp add: DeleteVault_def GetVault_def)
next
  case (Some v)
  let ?v = "decode_vault h pk v"
  define k1 where "k1 = (if Vault_IsAsgard v
    then (case RemoveFromAsgardIndex S k pk of Inl _ \<Rightarrow> k | Inr k1 \<Rightarrow> k1) else k)"
  have "vault_key pk = vault_key (V_PubKey v)" using assms(1) Some by (simp add: vaults_ok_def)
  then have key: "vault_key (V_PubKey ?v) = vault_key pk" by simp
  have k': "\<not> Vault_HasFunds v" "k' = k1\<lparr>K_vaults := kv_delete (K_vaults k1) (vault_key pk)\<rparr>"
    using assms(2) Some key by (simp_all add: DeleteVault_def GetVault_def k1_def Let_def split: if_splits)
  have "K_vaults k1 = K_vaults k"
    "set (snd (getStrings k asgard_index_key [])) - {pk} \<subseteq> set (snd (getStrings k1 asgard_index_key []))"
    using RemoveFromAsgardIndex_index by (auto simp: k1_def split: sum.splits)
  with k' Some show ?thesis by simp
qed

lemma DeleteVault_ok:
  assumes "vaults_ok k" and "DeleteVault S k h pk = Inr k'"
  shows "vaults_ok k'"
proof -
  have "vaults_ok k'" if "K_vaults k' = kv_delete (K_vaults k) (vault_key pk)"
    "set (snd (getStrings k asgard_index_key [])) - {pk} \<subseteq> set (snd (getStrings k' asgard_index_key []))"
    using that assms(1) unfolding vaults_ok_def by (auto split: if_splits)
  then show ?thesis using DeleteVault_result [OF assms] assms(1) by auto
qed

lemma DeleteVault_keeps_funds:
  assumes "vaults_ok k" and "DeleteVault S k h pk = Inr k'"
    and "kv_get (K_vaults k) key = Some v" and "Vault_HasFunds v"
  shows "kv_get (K_vaults k') key = Some v"
  using DeleteVault_result [OF assms(1,2)] assms(3,4) by auto

section \<open>Properties\<close>

text \<open>The keeper reads back the pool it wrote: after \<open>SetPool\<close> the pool of the asset is the
  one stored, every other pool is as before, and a pool with an unknown status is read as
  available, the status of a new pool.\<close>

lemma GetPool_SetPool:
  assumes "SetPool k p = Inr k'"
  shows "GetPool k' a = (if Asset_String a = Asset_String (Pool_Asset p)
      then (if Pool_Status p = PoolStatus_UnknownPoolStatus then p\<lparr>Pool_Status := PoolStatus_Available\<rparr> else p)
      else GetPool k a)
    \<and> PoolExist k' a = (Asset_String a = Asset_String (Pool_Asset p) \<or> PoolExist k a)"
  using GetPool_after_SetPool [OF assms] assms
  by (auto simp: decode_pool_def SetPool_def PoolExist_def pool_key_eq split: if_splits)

definition empty_store :: KVStore where
  "empty_store =
     \<lparr>K_version = (\<lambda>_. True), K_int64 = [], K_uint64 = [], K_uint = [], K_strings = [],
      K_accAddresses = [], K_pools = [], K_nodeMimirs = [], K_nodeAccounts = [],
      K_bondProviders = [], K_jails = [], K_banVoters = [], K_errataVoters = [],
      K_forgiveVoters = [], K_solvencyVoters = [], K_networkFeeVoters = [],
      K_keysignFailVoters = [], K_observedTxVoters = [], K_txOuts = [], K_vaults = [],
      K_chainContracts = [],
     K_liquidityProviders = [], K_auctionTiers = [], K_networks = [], K_pols = [], K_networkFees = [],
     K_keygenBlocks = [], K_swapQueue = [], K_mayaNames = [], K_tssVoters = [], K_keygenMetrics = [],
     K_keysignMetrics = [], K_ragnarokPositions = [], K_orderBook = [], K_bools = []\<rparr>"

lemma SetPool_sample:
  "SetPool k sample_pool = Inr (k\<lparr>K_pools := kv_set (K_pools k) (pool_key BTCAsset) sample_pool\<rparr>)"
proof -
  have "\<not> Asset_IsEmpty BTCAsset" by code_simp
  then show ?thesis by (simp add: SetPool_def sample_pool_def)
qed

text \<open>Block heights never go backward: whatever \<open>SetLastChainHeight\<close> and
  \<open>SetLastSignedHeight\<close> are called with, no recorded height becomes smaller, and an accepted
  height is the one recorded.\<close>

lemma SetLastChainHeight_monotone:
  assumes "SetLastChainHeight k c h = Inr k'"
  shows "GetLastChainHeight k d \<le> GetLastChainHeight k' d \<and> GetLastChainHeight k' c = h
    \<and> GetLastSignedHeight k' \<le> GetLastSignedHeight (SetLastSignedHeight k' h2)"
  using assms
  by (auto simp: SetLastChainHeight_def GetLastChainHeight_def SetLastSignedHeight_def
      GetLastSignedHeight_def Let_def Chain_String_def split: if_splits)

text \<open>A sentence is never reduced: \<open>SetNodeAccountJail\<close> leaves no node with an earlier
  release height than it had.\<close>

lemma SetNodeAccountJail_never_reduces:
  "Jail_ReleaseHeight (GetNodeAccountJail S k b)
     \<le> Jail_ReleaseHeight (GetNodeAccountJail S (SetNodeAccountJail S k a h r) b)"
  by (rule jail_monotone)

text \<open>Slash points are never negative, and refunding the points just given restores the
  count, as long as the sum fits an \<open>int64\<close>.\<close>

lemma SlashPoints_inc_dec:
  assumes "0 \<le> GetNodeAccountSlashPoints S k a" and "0 \<le> pts"
    and "GetNodeAccountSlashPoints S k a + pts < 2 ^ 63"
  shows "GetNodeAccountSlashPoints S (IncNodeAccountSlashPoints S k a pts) a
      = GetNodeAccountSlashPoints S k a + pts
    \<and> GetNodeAccountSlashPoints S (DecNodeAccountSlashPoints S (IncNodeAccountSlashPoints S k a pts) a pts) a
      = GetNodeAccountSlashPoints S k a"
  using assms
  by (simp add: IncNodeAccountSlashPoints_def DecNodeAccountSlashPoints_def slash_points_set wrap64_id)

text \<open>C40: the kraken is final: once a value of at least zero is written under its key, every
  configuration value reads as unset, and no later \<open>SetMimir\<close> changes the store.\<close>

theorem Kraken_is_final:
  assumes "K_version k (1, 92, 0)" and "0 \<le> v"
  shows "GetMimir S (SetMimir k KRAKEN v) key = -1
    \<and> SetMimir (SetMimir k KRAKEN v) key w = SetMimir k KRAKEN v"
  using haveKraken_set [OF assms(2), of k] assms(1)
  by (simp add: GetMimir_def SetMimir_def [of "SetMimir k KRAKEN v"] Let_def)

theorem Kraken_is_final_witness:
  "GetMimir sdk256 (SetMimir empty_store KRAKEN 1) ''HaltTrading'' = -1"
  using Kraken_is_final [of empty_store 1 sdk256 "''HaltTrading''" 0] by (simp add: empty_store_def)

text \<open>C5: a vault with funds is never deleted, and the index lists every Asgard vault: both
  \<open>SetVault\<close> and \<open>DeleteVault\<close> keep the invariant, and \<open>DeleteVault\<close> leaves every vault that
  holds funds in the store.\<close>

theorem Vault_store_safe:
  assumes "vaults_ok k" and "SetVault S k vault = Inr k1" and "DeleteVault S k1 h pk = Inr k2"
  shows "vaults_ok k1 \<and> vaults_ok k2
    \<and> (kv_get (K_vaults k1) key = Some v \<and> Vault_HasFunds v \<longrightarrow> kv_get (K_vaults k2) key = Some v)"
  using SetVault_ok [OF assms(1,2)] DeleteVault_ok [OF SetVault_ok [OF assms(1,2)] assms(3)]
    DeleteVault_keeps_funds [OF SetVault_ok [OF assms(1,2)] assms(3)] by blast

theorem Vault_store_safe_witness:
  "\<exists>k1. SetVault sdk256 empty_store sample_vault = Inr k1 \<and> vaults_ok k1"
proof -
  obtain k1 where k1: "SetVault sdk256 empty_store sample_vault = Inr k1"
    by (simp add: SetVault_def Vault_IsAsgard_def Vault_IsType_def sample_vault_def NewVault_def
        addAsgardIndex_def getAsgardIndex_def getStrings_def kv_get_def empty_store_def)
  have "DeleteVault sdk256 k1 1 ''pub9'' = Inr k1"
    using k1 by (auto simp: SetVault_def Vault_IsAsgard_def Vault_IsType_def sample_vault_def NewVault_def
        addAsgardIndex_def getAsgardIndex_def getStrings_def setStrings_def kv_get_def empty_store_def
        DeleteVault_def GetVault_def vault_key_def GetKey_def toUpper_def char_upper_def)
  moreover have "vaults_ok empty_store" by (simp add: vaults_ok_def empty_store_def kv_get_def)
  ultimately show ?thesis using Vault_store_safe [OF _ k1] k1 by blast
qed

end
