(* ===== verification/Bank.thy ===== *)
theory Bank
  imports Keeper
begin

text \<open>
  The part of the keeper that moves coins, and the records around liquidity it stores:
  \<open>keeper.go\<close> (module accounts, mint, burn), \<open>keeper_reserve_contributors.go\<close>,
  \<open>keeper_liquidity_provider.go\<close>, \<open>keeper_network.go\<close>, \<open>keeper_network_fee.go\<close> (with the inflation
  of CACAO), \<open>keeper_swap_queue.go\<close> and \<open>keeper_keygen.go\<close>.

  The bank and the accounts of the SDK are a parameter: the record \<open>bank\<close> over an abstract state, with
  what its documentation promises as the locale \<open>bank_keeper\<close>. A transfer either succeeds and moves
  exactly the coins, or returns an error (the state is then the old one), or panics on a coin that
  is not well formed. \<open>ledger\<close> is an instance.
\<close>

type_synonym denom_coins = "(string \<times> nat) list"

record 'b bank =
  bank_GetSupply :: "'b \<Rightarrow> string \<Rightarrow> nat"
  bank_GetBalance :: "'b \<Rightarrow> acc_address \<Rightarrow> string \<Rightarrow> nat"
  bank_GetModuleAddress :: "string \<Rightarrow> acc_address"
  bank_GetAllAccounts :: "'b \<Rightarrow> acc_address list"
  bank_SendCoinsFromModuleToModule :: "'b \<Rightarrow> string \<Rightarrow> string \<Rightarrow> denom_coins \<Rightarrow> 'b result"
  bank_SendCoinsFromModuleToAccount :: "'b \<Rightarrow> string \<Rightarrow> acc_address \<Rightarrow> denom_coins \<Rightarrow> 'b result"
  bank_SendCoinsFromAccountToModule :: "'b \<Rightarrow> acc_address \<Rightarrow> string \<Rightarrow> denom_coins \<Rightarrow> 'b result"
  bank_BurnCoins :: "'b \<Rightarrow> string \<Rightarrow> denom_coins \<Rightarrow> 'b result"
  bank_MintCoins :: "'b \<Rightarrow> string \<Rightarrow> denom_coins \<Rightarrow> 'b result"

text \<open>What a list of coins holds of a denomination, and what a transfer does to an account.\<close>

definition denom_amount :: "denom_coins \<Rightarrow> string \<Rightarrow> nat" where
  "denom_amount cs d = sum_list (map snd (filter (\<lambda>c. fst c = d) cs))"

locale bank_keeper =
  fixes B :: "'b bank"
  assumes module_inj: "bank_GetModuleAddress B m = bank_GetModuleAddress B m' \<Longrightarrow> m = m'"
    and send_balance:
      "bank_SendCoinsFromModuleToModule B b fr to cs = Some (Inr b') \<Longrightarrow>
        int (bank_GetBalance B b' a d) = int (bank_GetBalance B b a d)
          + (if a = bank_GetModuleAddress B to then int (denom_amount cs d) else 0)
          - (if a = bank_GetModuleAddress B fr then int (denom_amount cs d) else 0)"
    and send_supply:
      "bank_SendCoinsFromModuleToModule B b fr to cs = Some (Inr b') \<Longrightarrow>
        bank_GetSupply B b' d = bank_GetSupply B b d"
    and mint_balance:
      "bank_MintCoins B b m cs = Some (Inr b') \<Longrightarrow>
        bank_GetBalance B b' a d = bank_GetBalance B b a d
          + (if a = bank_GetModuleAddress B m then denom_amount cs d else 0)"
    and mint_supply:
      "bank_MintCoins B b m cs = Some (Inr b') \<Longrightarrow>
        bank_GetSupply B b' d = bank_GetSupply B b d + denom_amount cs d"
    and burn_balance:
      "bank_BurnCoins B b m cs = Some (Inr b') \<Longrightarrow>
        bank_GetBalance B b a d = bank_GetBalance B b' a d
          + (if a = bank_GetModuleAddress B m then denom_amount cs d else 0)"
    and burn_supply:
      "bank_BurnCoins B b m cs = Some (Inr b') \<Longrightarrow>
        bank_GetSupply B b d = bank_GetSupply B b' d + denom_amount cs d"

record 'b world =
  W_kv :: KVStore
  W_bank :: 'b

type_synonym 'b outcome = "(check \<times> 'b world) option"

section \<open>Module accounts\<close>

definition ModuleName :: string where "ModuleName = ''mayachain''"
definition ReserveName :: string where "ReserveName = ''reserve''"
definition AsgardName :: string where "AsgardName = ''asgard''"
definition BondName :: string where "BondName = ''bond''"
definition MayaFund :: string where "MayaFund = ''maya_fund''"

definition BaseAsset :: Asset where
  "BaseAsset = BaseNative"

definition native_coins :: "coins \<Rightarrow> denom_coins" where
  "native_coins cs = map (\<lambda>c. (Asset_Native (Coin_Asset c), Coin_Amount c)) cs"

text \<open>The result of a call of the bank: the new state, or the error with the old one.\<close>

definition bank_outcome :: "'b world \<Rightarrow> 'b result \<Rightarrow> 'b outcome" where
  "bank_outcome w r =
     (case r of None \<Rightarrow> None | Some (Inl e) \<Rightarrow> Some (Some e, w) | Some (Inr b) \<Rightarrow> Some (None, w\<lparr>W_bank := b\<rparr>))"

definition GetTotalSupply :: "'b bank \<Rightarrow> 'b world \<Rightarrow> Asset \<Rightarrow> nat option" where
  "GetTotalSupply B w asset =
     (if K_version (W_kv w) (1, 91, 0)
         \<and> GetPoolRagnarokStart (W_kv w) (Asset_GetLayer1Asset asset) > 0
      then Some 0
      else uint64_of (bank_GetSupply B (W_bank w) (Asset_Native asset)))"

definition GetBalanceOfModule :: "'b bank \<Rightarrow> 'b world \<Rightarrow> string \<Rightarrow> string \<Rightarrow> nat" where
  "GetBalanceOfModule B w moduleName denom =
     bank_GetBalance B (W_bank w) (bank_GetModuleAddress B moduleName) denom"

definition GetRuneBalanceOfModule :: "'b bank \<Rightarrow> 'b world \<Rightarrow> string \<Rightarrow> nat" where
  "GetRuneBalanceOfModule B w moduleName = GetBalanceOfModule B w moduleName (Asset_Native BaseNative)"

definition SendFromModuleToModule ::
  "'b bank \<Rightarrow> 'b world \<Rightarrow> string \<Rightarrow> string \<Rightarrow> coins \<Rightarrow> 'b outcome" where
  "SendFromModuleToModule B w fr to cs =
     bank_outcome w (bank_SendCoinsFromModuleToModule B (W_bank w) fr to (native_coins cs))"

definition SendFromModuleToAccount ::
  "'b bank \<Rightarrow> 'b world \<Rightarrow> string \<Rightarrow> acc_address \<Rightarrow> coins \<Rightarrow> 'b outcome" where
  "SendFromModuleToAccount B w fr to cs =
     bank_outcome w (bank_SendCoinsFromModuleToAccount B (W_bank w) fr to (native_coins cs))"

definition SendFromAccountToModule ::
  "'b bank \<Rightarrow> 'b world \<Rightarrow> acc_address \<Rightarrow> string \<Rightarrow> coins \<Rightarrow> 'b outcome" where
  "SendFromAccountToModule B w fr to cs =
     bank_outcome w (bank_SendCoinsFromAccountToModule B (W_bank w) fr to (native_coins cs))"

definition BurnFromModule :: "'b bank \<Rightarrow> 'b world \<Rightarrow> string \<Rightarrow> Coin \<Rightarrow> 'b outcome" where
  "BurnFromModule B w module coin =
     (if \<not> Coin_IsNative coin then Some (fails ''fail to parse coins: coin is not on thorchain'', w)
      else case bank_BurnCoins B (W_bank w) module (native_coins [coin]) of
             None \<Rightarrow> None
           | Some (Inl e) \<Rightarrow> Some (fails ''fail to burn assets'', w)
           | Some (Inr b) \<Rightarrow> Some (None, w\<lparr>W_bank := b\<rparr>))"

definition halt_everything :: "KVStore \<Rightarrow> KVStore" where
  "halt_everything k =
     SetMimir (SetMimir (SetMimir (SetMimir k ''HaltTrading'' 1) ''HaltChainGlobal'' 1) ''PauseLP'' 1)
       ''HaltTHORChain'' 1"

definition MintToModule :: "sdk \<Rightarrow> 'b bank \<Rightarrow> 'b world \<Rightarrow> string \<Rightarrow> Coin \<Rightarrow> 'b outcome" where
  "MintToModule S B w module coin =
     (if \<not> Coin_IsNative coin then Some (fails ''fail to parse coins: coin is not on thorchain'', w)
      else case bank_MintCoins B (W_bank w) module (native_coins [coin]) of
             None \<Rightarrow> None
           | Some (Inl e) \<Rightarrow> Some (fails ''fail to mint assets'', w)
           | Some (Inr b) \<Rightarrow>
               let maxAmt = GetMimir S (W_kv w) ''MaxRuneSupply'' in
               Some (None, w\<lparr>W_bank := b,
                 W_kv := if K_version (W_kv w) (1, 95, 0) \<and> maxAmt > 0
                            \<and> int (bank_GetSupply B b (Asset_Native BaseAsset)) > maxAmt
                         then halt_everything (W_kv w) else W_kv w\<rparr>))"

definition and_then :: "'b outcome \<Rightarrow> ('b world \<Rightarrow> 'b outcome) \<Rightarrow> 'b outcome" where
  "and_then m f = do { (e, w) \<leftarrow> m; case e of Some er \<Rightarrow> Some (Some er, w) | None \<Rightarrow> f w }"

definition MintAndSendToAccount :: "sdk \<Rightarrow> 'b bank \<Rightarrow> 'b world \<Rightarrow> acc_address \<Rightarrow> Coin \<Rightarrow> 'b outcome" where
  "MintAndSendToAccount S B w to coin =
     and_then (MintToModule S B w ModuleName coin) (\<lambda>w'. SendFromModuleToAccount B w' ModuleName to [coin])"

definition GetModuleAddress :: "sdk \<Rightarrow> codecs \<Rightarrow> 'b bank \<Rightarrow> string \<Rightarrow> go_error + address" where
  "GetModuleAddress S L B module = NewAddress L (acc_string S (bank_GetModuleAddress B module))"

definition AddPoolFeeToReserve :: "'b bank \<Rightarrow> 'b world \<Rightarrow> nat \<Rightarrow> 'b outcome" where
  "AddPoolFeeToReserve B w fee = SendFromModuleToModule B w AsgardName ReserveName [NewCoin BaseNative fee]"

definition AddBondFeeToReserve :: "'b bank \<Rightarrow> 'b world \<Rightarrow> nat \<Rightarrow> 'b outcome" where
  "AddBondFeeToReserve B w fee = SendFromModuleToModule B w BondName ReserveName [NewCoin BaseNative fee]"

section \<open>Constants and configuration\<close>

record accessor =
  C_int64 :: "constant_name \<Rightarrow> int"
  C_bool :: "constant_name \<Rightarrow> bool"
  C_string :: "constant_name \<Rightarrow> string"

text \<open>The accessor of the build for the main network, which overrides nothing.\<close>

definition constant_accessor :: "ConstantVals \<Rightarrow> accessor" where
  "constant_accessor cv =
     \<lparr>C_int64 = GetInt64Value Map.empty cv, C_bool = GetBoolValue Map.empty cv,
      C_string = GetStringValue Map.empty cv\<rparr>"

definition fetchConfigInt64 :: "sdk \<Rightarrow> accessor \<Rightarrow> KVStore \<Rightarrow> constant_name \<Rightarrow> int" where
  "fetchConfigInt64 S cv k key =
     (let val = GetMimir S k (ConstantName_String key) in if val < 0 then C_int64 cv key else val)"

section \<open>Liquidity providers\<close>

definition lp_key :: "LiquidityProvider \<Rightarrow> string" where
  "lp_key lp = GetKey (dbPrefix ''prefixLiquidityProvider'') (LP_Key lp)"

definition empty_provider :: "codecs \<Rightarrow> Asset \<Rightarrow> address \<Rightarrow> LiquidityProvider" where
  "empty_provider L asset addr =
     \<lparr>LP_Asset = asset,
      LP_CacaoAddress = (if Address_IsChain L addr (Asset_Chain BaseAsset) then addr else ''''),
      LP_AssetAddress = (if Address_IsChain L addr (Asset_Chain BaseAsset) then '''' else addr),
      LP_LastAddHeight = 0, LP_LastWithdrawHeight = 0, LP_Units = 0, LP_PendingCacao = 0,
      LP_PendingAsset = 0, LP_PendingTxID = '''', LP_CacaoDepositValue = 0, LP_AssetDepositValue = 0,
      LP_NodeBondAddress = [], LP_WithdrawCounter = 0, LP_LastWithdrawCounterHeight = 0,
      LP_BondedNodes = []\<rparr>"

text \<open>A record in the store is decoded over the preset one: an empty string or list on the wire
  leaves the preset value, which has only the asset and the address.\<close>

definition decode_provider :: "LiquidityProvider \<Rightarrow> LiquidityProvider \<Rightarrow> LiquidityProvider" where
  "decode_provider preset lp =
     lp\<lparr>LP_CacaoAddress := if LP_CacaoAddress lp = '''' then LP_CacaoAddress preset else LP_CacaoAddress lp,
        LP_AssetAddress := if LP_AssetAddress lp = '''' then LP_AssetAddress preset else LP_AssetAddress lp\<rparr>"

definition GetLiquidityProvider :: "codecs \<Rightarrow> KVStore \<Rightarrow> Asset \<Rightarrow> address \<Rightarrow> LiquidityProvider" where
  "GetLiquidityProvider L k asset addr =
     (let preset = empty_provider L asset addr in
      case kv_get (K_liquidityProviders k) (lp_key preset) of
        None \<Rightarrow> preset | Some lp \<Rightarrow> decode_provider preset lp)"

definition SetLiquidityProvider :: "KVStore \<Rightarrow> LiquidityProvider \<Rightarrow> KVStore" where
  "SetLiquidityProvider k lp =
     k\<lparr>K_liquidityProviders := kv_set (K_liquidityProviders k) (lp_key lp) lp\<rparr>"

definition SetLiquidityProviders :: "KVStore \<Rightarrow> LiquidityProvider list \<Rightarrow> KVStore" where
  "SetLiquidityProviders k lps = foldl SetLiquidityProvider k lps"

definition RemoveLiquidityProvider :: "KVStore \<Rightarrow> LiquidityProvider \<Rightarrow> KVStore" where
  "RemoveLiquidityProvider k lp =
     k\<lparr>K_liquidityProviders := kv_delete (K_liquidityProviders k) (lp_key lp)\<rparr>"

definition GetLiquidityProviderByAssets :: "codecs \<Rightarrow> KVStore \<Rightarrow> Asset list \<Rightarrow> address \<Rightarrow> LiquidityProvider list" where
  "GetLiquidityProviderByAssets L k assets addr =
     filter (\<lambda>lp. LP_Units lp > 0) (map (\<lambda>asset. GetLiquidityProvider L k asset addr) assets)"

text \<open>The value in CACAO of some units of a pool, added to a sum.\<close>

definition add_unit_value :: "sdk \<Rightarrow> Pool \<Rightarrow> nat \<Rightarrow> nat \<Rightarrow> nat option" where
  "add_unit_value S pool units liquidity =
     do {
       l \<leftarrow> uint_add S liquidity (GetSafeShare S units (Pool_LPUnits pool) (Pool_BalanceCacao pool));
       uint_add S l (Pool_AssetValueInRune S pool
         (GetSafeShare S units (Pool_LPUnits pool) (Pool_BalanceAsset pool)))
     }"

fun sum_unit_values ::
  "sdk \<Rightarrow> KVStore \<Rightarrow> (LiquidityProvider \<Rightarrow> nat) \<Rightarrow> LiquidityProvider list \<Rightarrow> nat \<Rightarrow> nat option" where
  "sum_unit_values S k units [] liquidity = Some liquidity"
| "sum_unit_values S k units (lp # lps) liquidity =
     do {
       l \<leftarrow> add_unit_value S (GetPool k (LP_Asset lp)) (units lp) liquidity;
       sum_unit_values S k units lps l
     }"

definition units_bonded_to :: "acc_address \<Rightarrow> LiquidityProvider \<Rightarrow> nat" where
  "units_bonded_to nodeAddr lp =
     (if LP_NodeBondAddress lp \<noteq> [] \<and> LP_NodeBondAddress lp = nodeAddr then LP_Units lp
      else case find (bonds_to nodeAddr) (LP_BondedNodes lp) of None \<Rightarrow> 0 | Some b \<Rightarrow> LBN_Units b)"

definition calcLPLiquidityBondV105 :: "sdk \<Rightarrow> codecs \<Rightarrow> KVStore \<Rightarrow> address \<Rightarrow> acc_address \<Rightarrow> nat option" where
  "calcLPLiquidityBondV105 S L k bondAddr nodeAddr =
     sum_unit_values S k (units_bonded_to nodeAddr)
       (GetLiquidityProviderByAssets L k (GetLiquidityPools (K_version k)) bondAddr) 0"

definition calcLPLiquidityBondV1 :: "sdk \<Rightarrow> codecs \<Rightarrow> KVStore \<Rightarrow> address \<Rightarrow> nat option" where
  "calcLPLiquidityBondV1 S L k bondAddr =
     sum_unit_values S k LP_Units
       (GetLiquidityProviderByAssets L k (GetLiquidityPools (K_version k)) bondAddr) 0"

definition CalcLPLiquidityBond :: "sdk \<Rightarrow> codecs \<Rightarrow> KVStore \<Rightarrow> address \<Rightarrow> acc_address \<Rightarrow> nat option" where
  "CalcLPLiquidityBond S L k bondAddr nodeAddr =
     (if K_version k (1, 105, 0) then calcLPLiquidityBondV105 S L k bondAddr nodeAddr
      else calcLPLiquidityBondV1 S L k bondAddr)"

definition CalcTotalBondableLiquidity :: "sdk \<Rightarrow> codecs \<Rightarrow> KVStore \<Rightarrow> address \<Rightarrow> nat option" where
  "CalcTotalBondableLiquidity S L k addr =
     sum_unit_values S k LP_Units
       (GetLiquidityProviderByAssets L k (GetLiquidityPools (K_version k)) addr) 0"

definition tier_key :: "address \<Rightarrow> string" where
  "tier_key addr = GetKey (dbPrefix ''prefixLiquidityAuctionTier'') addr"

definition SetLiquidityAuctionTier :: "KVStore \<Rightarrow> address \<Rightarrow> int \<Rightarrow> KVStore" where
  "SetLiquidityAuctionTier k addr newTier =
     k\<lparr>K_auctionTiers := kv_set (K_auctionTiers k) (tier_key addr) \<lparr>LAT_Address = addr, LAT_Tier = newTier\<rparr>\<rparr>"

definition GetLiquidityAuctionTier :: "codecs \<Rightarrow> KVStore \<Rightarrow> address \<Rightarrow> int" where
  "GetLiquidityAuctionTier L k addr =
     (case kv_get (K_auctionTiers k)
             (tier_key (if Address_IsChain L addr (Asset_Chain BaseAsset) then addr else '''')) of
        None \<Rightarrow> 0 | Some r \<Rightarrow> LAT_Tier r)"

section \<open>Network, owned liquidity, network fees, queues\<close>

definition GetNetwork :: "KVStore \<Rightarrow> Network" where
  "GetNetwork k = (case kv_get (K_networks k) (GetKey (dbPrefix ''prefixNetwork'') '''') of
     None \<Rightarrow> NewNetwork | Some n \<Rightarrow> n)"

definition SetNetwork :: "KVStore \<Rightarrow> Network \<Rightarrow> KVStore" where
  "SetNetwork k n = k\<lparr>K_networks := kv_set (K_networks k) (GetKey (dbPrefix ''prefixNetwork'') '''') n\<rparr>"

definition GetPOL :: "KVStore \<Rightarrow> ProtocolOwnedLiquidity" where
  "GetPOL k = (case kv_get (K_pols k) (GetKey (dbPrefix ''prefixPOL'') '''') of
     None \<Rightarrow> NewProtocolOwnedLiquidity | Some p \<Rightarrow> p)"

definition SetPOL :: "KVStore \<Rightarrow> ProtocolOwnedLiquidity \<Rightarrow> KVStore" where
  "SetPOL k p = k\<lparr>K_pols := kv_set (K_pols k) (GetKey (dbPrefix ''prefixPOL'') '''') p\<rparr>"

definition network_fee_key :: "chain \<Rightarrow> string" where
  "network_fee_key c = GetKey (dbPrefix ''prefixNetworkFee'') (Chain_String c)"

definition GetNetworkFee :: "KVStore \<Rightarrow> chain \<Rightarrow> NetworkFee" where
  "GetNetworkFee k c =
     (case kv_get (K_networkFees k) (network_fee_key c) of None \<Rightarrow> NewNetworkFee c 0 0 | Some f \<Rightarrow> f)"

definition SaveNetworkFee :: "KVStore \<Rightarrow> chain \<Rightarrow> NetworkFee \<Rightarrow> go_error + KVStore" where
  "SaveNetworkFee k c networkFee =
     (case NetworkFee_Valid networkFee of Some e \<Rightarrow> Inl e
      | None \<Rightarrow> Inr (k\<lparr>K_networkFees := kv_set (K_networkFees k) (network_fee_key c) networkFee\<rparr>))"

definition swap_queue_key :: "tx_id \<Rightarrow> int \<Rightarrow> string" where
  "swap_queue_key txID i = GetKey (dbPrefix ''prefixSwapQueueItem'') (txID @ ''-'' @ show_int i)"

definition SetSwapQueueItem :: "KVStore \<Rightarrow> MsgSwap \<Rightarrow> int \<Rightarrow> KVStore" where
  "SetSwapQueueItem k msg i = k\<lparr>K_swapQueue := kv_set (K_swapQueue k) (swap_queue_key (Tx_ID (MS_Tx msg)) i) msg\<rparr>"

definition GetSwapQueueItem :: "KVStore \<Rightarrow> tx_id \<Rightarrow> int \<Rightarrow> go_error + MsgSwap" where
  "GetSwapQueueItem k txID i =
     (case kv_get (K_swapQueue k) (swap_queue_key txID i) of
        None \<Rightarrow> Inl (GoError ''not found'') | Some msg \<Rightarrow> Inr msg)"

definition HasSwapQueueItem :: "KVStore \<Rightarrow> tx_id \<Rightarrow> int \<Rightarrow> bool" where
  "HasSwapQueueItem k txID i \<longleftrightarrow> kv_get (K_swapQueue k) (swap_queue_key txID i) \<noteq> None"

definition RemoveSwapQueueItem :: "KVStore \<Rightarrow> tx_id \<Rightarrow> int \<Rightarrow> KVStore" where
  "RemoveSwapQueueItem k txID i = k\<lparr>K_swapQueue := kv_delete (K_swapQueue k) (swap_queue_key txID i)\<rparr>"

definition SetKeygenBlock :: "KVStore \<Rightarrow> KeygenBlock \<Rightarrow> KVStore" where
  "SetKeygenBlock k keygen =
     k\<lparr>K_keygenBlocks := kv_set (K_keygenBlocks k)
        (GetKey (dbPrefix ''prefixKeygen'') (show_int (KGB_Height keygen))) keygen\<rparr>"

definition GetKeygenBlock :: "KVStore \<Rightarrow> int \<Rightarrow> KeygenBlock" where
  "GetKeygenBlock k height =
     (case kv_get (K_keygenBlocks k) (GetKey (dbPrefix ''prefixKeygen'') (show_int height)) of
        None \<Rightarrow> NewKeygenBlock height | Some b \<Rightarrow> b)"

section \<open>A ledger\<close>

text \<open>An instance of the bank: balances by account and denomination, and the supply.\<close>

record ledger =
  Led_balance :: "acc_address \<Rightarrow> string \<Rightarrow> nat"
  Led_supply :: "string \<Rightarrow> nat"

fun debit :: "(string \<Rightarrow> nat) \<Rightarrow> denom_coins \<Rightarrow> (string \<Rightarrow> nat) option" where
  "debit f [] = Some f"
| "debit f ((d, n) # cs) = (if n \<le> f d then debit (f(d := f d - n)) cs else None)"

fun credit :: "(string \<Rightarrow> nat) \<Rightarrow> denom_coins \<Rightarrow> (string \<Rightarrow> nat)" where
  "credit f [] = f"
| "credit f ((d, n) # cs) = credit (f(d := f d + n)) cs"

definition ledger_send :: "ledger \<Rightarrow> acc_address \<Rightarrow> acc_address \<Rightarrow> denom_coins \<Rightarrow> ledger result" where
  "ledger_send b fr to cs =
     (case debit (Led_balance b fr) cs of
        None \<Rightarrow> Some (Inl (GoError ''insufficient funds''))
      | Some f \<Rightarrow>
          let bal = (Led_balance b)(fr := f)
          in Some (Inr (b\<lparr>Led_balance := bal(to := credit (bal to) cs)\<rparr>)))"

definition module_account :: "string \<Rightarrow> acc_address" where
  "module_account m = ''maya'' @ m"

definition ledger_bank :: "ledger bank" where
  "ledger_bank =
     \<lparr>bank_GetSupply = Led_supply,
      bank_GetBalance = Led_balance,
      bank_GetModuleAddress = module_account,
      bank_GetAllAccounts = (\<lambda>_. []),
      bank_SendCoinsFromModuleToModule = (\<lambda>b fr to. ledger_send b (module_account fr) (module_account to)),
      bank_SendCoinsFromModuleToAccount = (\<lambda>b fr. ledger_send b (module_account fr)),
      bank_SendCoinsFromAccountToModule = (\<lambda>b fr to. ledger_send b fr (module_account to)),
      bank_BurnCoins = (\<lambda>b m cs.
        case debit (Led_balance b (module_account m)) cs of
          None \<Rightarrow> Some (Inl (GoError ''insufficient funds''))
        | Some f \<Rightarrow>
            (case debit (Led_supply b) cs of
               None \<Rightarrow> None
             | Some s \<Rightarrow> Some (Inr (b\<lparr>Led_balance := (Led_balance b)(module_account m := f), Led_supply := s\<rparr>)))),
      bank_MintCoins = (\<lambda>b m cs. Some (Inr
        (b\<lparr>Led_balance := (Led_balance b)(module_account m := credit (Led_balance b (module_account m)) cs),
           Led_supply := credit (Led_supply b) cs\<rparr>)))\<rparr>"

lemma denom_amount_simps [simp]:
  "denom_amount [] d = 0"
  "denom_amount ((e, n) # cs) d = (if e = d then n else 0) + denom_amount cs d"
  by (simp_all add: denom_amount_def)

lemma debit_amount: "debit f cs = Some g \<Longrightarrow> f d = g d + denom_amount cs d"
  by (induction f cs arbitrary: g rule: debit.induct) (force split: if_splits)+

lemma credit_amount: "credit f cs d = f d + denom_amount cs d"
  by (induction cs arbitrary: f rule: list.induct) auto

lemma ledger_send_balance:
  assumes "ledger_send b fr to cs = Some (Inr b')"
  shows "int (Led_balance b' a d) = int (Led_balance b a d)
    + (if a = to then int (denom_amount cs d) else 0) - (if a = fr then int (denom_amount cs d) else 0)"
    and "Led_supply b' = Led_supply b"
proof -
  obtain f where f: "debit (Led_balance b fr) cs = Some f"
    and b': "b' = b\<lparr>Led_balance := ((Led_balance b)(fr := f))(to := credit (((Led_balance b)(fr := f)) to) cs)\<rparr>"
    using assms by (auto simp: ledger_send_def Let_def split: option.splits)
  show "int (Led_balance b' a d) = int (Led_balance b a d)
    + (if a = to then int (denom_amount cs d) else 0) - (if a = fr then int (denom_amount cs d) else 0)"
    using debit_amount [OF f, of d] by (simp add: b' credit_amount)
  show "Led_supply b' = Led_supply b" by (simp add: b')
qed

interpretation ledger: bank_keeper ledger_bank
proof
  show "bank_GetModuleAddress ledger_bank m = bank_GetModuleAddress ledger_bank m' \<Longrightarrow> m = m'" for m m'
    by (simp add: ledger_bank_def module_account_def)
next
  fix b fr to cs b' a d
  assume s: "bank_SendCoinsFromModuleToModule ledger_bank b fr to cs = Some (Inr b')"
  then have "ledger_send b (module_account fr) (module_account to) cs = Some (Inr b')"
    by (simp add: ledger_bank_def)
  from ledger_send_balance [OF this] show
    "int (bank_GetBalance ledger_bank b' a d) = int (bank_GetBalance ledger_bank b a d)
      + (if a = bank_GetModuleAddress ledger_bank to then int (denom_amount cs d) else 0)
      - (if a = bank_GetModuleAddress ledger_bank fr then int (denom_amount cs d) else 0)"
    and "bank_GetSupply ledger_bank b' d = bank_GetSupply ledger_bank b d"
    by (simp_all add: ledger_bank_def)
next
  fix b m cs b' a d
  assume "bank_MintCoins ledger_bank b m cs = Some (Inr b')"
  then show "bank_GetBalance ledger_bank b' a d = bank_GetBalance ledger_bank b a d
      + (if a = bank_GetModuleAddress ledger_bank m then denom_amount cs d else 0)"
    and "bank_GetSupply ledger_bank b' d = bank_GetSupply ledger_bank b d + denom_amount cs d"
    by (auto simp: ledger_bank_def credit_amount)
next
  fix b m cs b' a d
  assume "bank_BurnCoins ledger_bank b m cs = Some (Inr b')"
  then show "bank_GetBalance ledger_bank b a d = bank_GetBalance ledger_bank b' a d
      + (if a = bank_GetModuleAddress ledger_bank m then denom_amount cs d else 0)"
    and "bank_GetSupply ledger_bank b d = bank_GetSupply ledger_bank b' d + denom_amount cs d"
    by (auto simp: ledger_bank_def split: option.splits dest: debit_amount)
qed

definition empty_ledger :: ledger where
  "empty_ledger = \<lparr>Led_balance = (\<lambda>_ _. 0), Led_supply = (\<lambda>_. 0)\<rparr>"

lemma GetMimir_unset:
  assumes "K_int64 k = []" and "K_version k = (\<lambda>_. True)"
  shows "GetMimir S k key = -1"
  using assms by (simp add: GetMimir_def haveKraken_def getInt64_def kv_get_def)

definition sample_accessor :: accessor where
  "sample_accessor = constant_accessor NewConstantValue102"

lemma fetchConfigInt64_unset:
  assumes "K_int64 k = []" and "K_version k = (\<lambda>_. True)"
  shows "fetchConfigInt64 S cv k key = C_int64 cv key"
  using assms by (simp add: fetchConfigInt64_def GetMimir_unset)

lemma world_same_kv [simp]: "w\<lparr>W_bank := b, W_kv := W_kv w\<rparr> = w\<lparr>W_bank := b\<rparr>"
  by (cases w) simp

end
