(* ===== verification/Inflation.thy ===== *)
theory Inflation
  imports Bank
begin

text \<open>
  The inflation of CACAO and the distribution of the MAYA fund, \<open>keeper/v1/keeper_network_fee.go\<close>.
  At each block \<open>DynamicInflation\<close> mints an amount that depends on the part of the circulating
  CACAO that is in the pools, and \<open>distributeDynamicInflation\<close> divides it between the pools, the
  reserve and the fund. The conversion \<open>uint64(x)\<close> of an \<open>int64\<close> is \<open>uint64_cast\<close>.
\<close>

definition uint64_cast :: "int \<Rightarrow> nat" where
  "uint64_cast i = nat (i mod 2 ^ 64)"

text \<open>\<open>AllPoolStatus\<close> is the unknown status.\<close>

definition counts_status :: "PoolStatus \<Rightarrow> Pool \<Rightarrow> bool" where
  "counts_status st pool \<longleftrightarrow> \<not> (st \<noteq> PoolStatus_UnknownPoolStatus \<and> Pool_Status pool \<noteq> st)"

fun sum_uints :: "sdk \<Rightarrow> nat list \<Rightarrow> nat \<Rightarrow> nat option" where
  "sum_uints S [] acc = Some acc"
| "sum_uints S (x # xs) acc = do { a \<leftarrow> uint_add S acc x; sum_uints S xs a }"

definition GetCacaoOnPools :: "sdk \<Rightarrow> KVStore \<Rightarrow> PoolStatus \<Rightarrow> nat option" where
  "GetCacaoOnPools S k poolStatus =
     sum_uints S (map Pool_BalanceCacao (filter (counts_status poolStatus) (GetPools k))) 0"

section \<open>The MAYA fund\<close>

text \<open>The loop over the accounts; the errors of a transfer are only logged.\<close>

fun pay_maya_holders ::
  "sdk \<Rightarrow> 'b bank \<Rightarrow> int \<Rightarrow> Coin \<Rightarrow> nat \<Rightarrow> acc_address list \<Rightarrow> 'b world \<Rightarrow> 'b world option" where
  "pay_maya_holders S B minMultiple token totalAmountOfMaya [] w = Some w"
| "pay_maya_holders S B minMultiple token totalAmountOfMaya (acc # accs) w =
     (let mayaBalance = bank_GetBalance B (W_bank w) acc (Asset_Native MayaNative) in
      if mayaBalance = 0 then pay_maya_holders S B minMultiple token totalAmountOfMaya accs w
      else do {
        millionToken \<leftarrow> uint_quo S (Coin_Amount token) (uint64_cast minMultiple);
        tokenAmt \<leftarrow> uint_mul S (uint64_cast minMultiple) millionToken;
        part \<leftarrow> uint64_of mayaBalance;
        let mayaAmt = GetSafeShare S part totalAmountOfMaya tokenAmt;
        (_, w') \<leftarrow> SendFromModuleToAccount B w MayaFund acc [NewCoin (Coin_Asset token) mayaAmt];
        pay_maya_holders S B minMultiple token totalAmountOfMaya accs w'
      })"

definition DistributeMayaFund :: "sdk \<Rightarrow> 'b bank \<Rightarrow> accessor \<Rightarrow> 'b world \<Rightarrow> 'b world option" where
  "DistributeMayaFund S B cv w =
     do {
       let accounts = bank_GetAllAccounts B (W_bank w);
       let token = NewCoin BaseNative (GetRuneBalanceOfModule B w MayaFund);
       totalAmountOfMaya \<leftarrow> GetTotalSupply B w MayaNative;
       let minMultiple = fetchConfigInt64 S cv (W_kv w) ''MinCacaoForMayaFundDist'';
       if Coin_Amount token \<ge> uint64_cast minMultiple
       then pay_maya_holders S B minMultiple token totalAmountOfMaya accounts w
       else Some w
     }"

section \<open>Inflation\<close>

text \<open>The three parameters of the formula. All of them test whether the value read for the first
  exceeds 10000.\<close>

definition inflation_mul :: "sdk \<Rightarrow> accessor \<Rightarrow> KVStore \<Rightarrow> int" where
  "inflation_mul S cv k =
     (let v = GetMimir S k (ConstantName_String ''InflationFormulaMulValue'')
      in if v < 0 \<or> v > 10000 then C_int64 cv ''InflationFormulaMulValue'' else v)"

definition inflation_param :: "sdk \<Rightarrow> accessor \<Rightarrow> KVStore \<Rightarrow> int \<Rightarrow> constant_name \<Rightarrow> int" where
  "inflation_param S cv k mulValue name =
     (let v = GetMimir S k (ConstantName_String name)
      in if v < 0 \<or> mulValue > 10000 then C_int64 cv name else v)"

definition inflate_pool :: "sdk \<Rightarrow> nat \<Rightarrow> nat \<Rightarrow> Pool \<Rightarrow> Pool option" where
  "inflate_pool S cacaoForPools amtCacaoOnPools pool =
     do {
       p100 \<leftarrow> uint_mul S (Pool_BalanceCacao pool) 100;
       perc \<leftarrow> uint_quo S p100 amtCacaoOnPools;
       x \<leftarrow> uint_mul S cacaoForPools perc;
       share \<leftarrow> uint_quo S x 100;
       bal \<leftarrow> uint_add S (Pool_BalanceCacao pool) share;
       Some (pool\<lparr>Pool_BalanceCacao := bal\<rparr>)
     }"

text \<open>The loop over the pools; an error of \<open>SetPool\<close> is only logged.\<close>

fun inflate_pools :: "sdk \<Rightarrow> nat \<Rightarrow> nat \<Rightarrow> Pool list \<Rightarrow> KVStore \<Rightarrow> KVStore option" where
  "inflate_pools S cacaoForPools amtCacaoOnPools [] k = Some k"
| "inflate_pools S cacaoForPools amtCacaoOnPools (pool # pools) k =
     (if Pool_Status pool \<noteq> PoolStatus_Available
      then inflate_pools S cacaoForPools amtCacaoOnPools pools k
      else do {
        pool' \<leftarrow> inflate_pool S cacaoForPools amtCacaoOnPools pool;
        inflate_pools S cacaoForPools amtCacaoOnPools pools
          (case SetPool k pool' of Inl _ \<Rightarrow> k | Inr k' \<Rightarrow> k')
      })"

definition pay_system_income :: "sdk \<Rightarrow> 'b bank \<Rightarrow> accessor \<Rightarrow> nat \<Rightarrow> 'b world \<Rightarrow> 'b outcome" where
  "pay_system_income S B cv cacaoForSystemIncome w =
     (if cacaoForSystemIncome = 0 then Some (None, w)
      else do {
        x \<leftarrow> uint_mul S cacaoForSystemIncome (uint64_cast (C_int64 cv ''MayaFundPerc''));
        mayaAmt \<leftarrow> uint_quo S x 100;
        reserveAmt \<leftarrow> uint_sub S cacaoForSystemIncome mayaAmt;
        and_then (SendFromModuleToModule B w ModuleName ReserveName [NewCoin BaseNative reserveAmt])
          (\<lambda>w'. SendFromModuleToModule B w' ModuleName MayaFund [NewCoin BaseNative mayaAmt])
      })"

definition distributeDynamicInflation :: "sdk \<Rightarrow> 'b bank \<Rightarrow> accessor \<Rightarrow> 'b world \<Rightarrow> nat \<Rightarrow> 'b outcome" where
  "distributeDynamicInflation S B cv w cacaoToMint =
     (if cacaoToMint = 0 then Some (fails ''nothing to mint on distributeDynamicInflation'', w)
      else and_then (MintToModule S B w ModuleName (NewCoin BaseNative cacaoToMint)) (\<lambda>w1.
        do {
          let poolPerc = fetchConfigInt64 S cv (W_kv w1) ''InflationPoolPercentage'';
          x \<leftarrow> uint_mul S cacaoToMint (uint64_cast poolPerc);
          cacaoForPools \<leftarrow> uint_quo S x 100;
          w2 \<leftarrow>
            (if cacaoForPools = 0 then Some w1
             else do {
               amtCacaoOnPools \<leftarrow> GetCacaoOnPools S (W_kv w1) PoolStatus_Available;
               k2 \<leftarrow> inflate_pools S cacaoForPools amtCacaoOnPools (GetPools (W_kv w1)) (W_kv w1);
               Some (w1\<lparr>W_kv := k2\<rparr>)
             });
          cacaoForSystemIncome \<leftarrow> uint_sub S cacaoToMint cacaoForPools;
          pay_system_income S B cv cacaoForSystemIncome w2
        }))"

text \<open>The amount the formula gives for a block: \<open>None\<close> is a panic, \<open>Some None\<close> means that nothing
  is minted.\<close>

definition cacao_to_mint :: "sdk \<Rightarrow> 'b bank \<Rightarrow> accessor \<Rightarrow> 'b world \<Rightarrow> nat option option" where
  "cacao_to_mint S B cv w =
     do {
       let reserveBalance = GetRuneBalanceOfModule B w ReserveName;
       supply \<leftarrow> GetTotalSupply B w BaseNative;
       amtCacaoOnChain \<leftarrow> uint_sub S supply reserveBalance;
       amtCacaoOnPools \<leftarrow> GetCacaoOnPools S (W_kv w) PoolStatus_UnknownPoolStatus;
       if amtCacaoOnPools = 0 then Some None
       else do {
         let mulValue = inflation_mul S cv (W_kv w);
         let sumValue = inflation_param S cv (W_kv w) mulValue ''InflationFormulaSumValue'';
         let yThold = inflation_param S cv (W_kv w) mulValue ''InflationPercentageThreshold'';
         p \<leftarrow> uint_mul S amtCacaoOnPools 10000;
         y \<leftarrow> uint_quo S p amtCacaoOnChain;
         rest \<leftarrow> uint_sub S 10000 y;
         x \<leftarrow> uint_mul S rest (uint64_cast mulValue);
         inflation \<leftarrow> uint_add S x (uint64_cast (10000 * sumValue));
         if y \<ge> uint64_cast yThold \<or> y = 0 then Some None
         else do {
           _ \<leftarrow> uint64_of inflation;
           n \<leftarrow> uint_mul S amtCacaoOnChain inflation;
           d \<leftarrow> uint_mul S (uint64_cast (C_int64 cv ''BlocksPerYear'')) 100000000;
           q \<leftarrow> uint_quo S n d;
           Some (Some q)
         }
       }
     }"

definition DynamicInflation :: "sdk \<Rightarrow> 'b bank \<Rightarrow> accessor \<Rightarrow> 'b world \<Rightarrow> 'b outcome" where
  "DynamicInflation S B cv w =
     do {
       m \<leftarrow> cacao_to_mint S B cv w;
       case m of None \<Rightarrow> Some (None, w) | Some cacaoToMint \<Rightarrow> distributeDynamicInflation S B cv w cacaoToMint
     }"

section \<open>Transfers under the laws of the bank\<close>

context bank_keeper
begin

lemma SendFromModuleToModule_moves:
  assumes "SendFromModuleToModule B w fr to cs = Some (None, w')" and "fr \<noteq> to"
  shows "bank_GetSupply B (W_bank w') d = bank_GetSupply B (W_bank w) d"
    and "W_kv w' = W_kv w"
    and "GetBalanceOfModule B w' to d = GetBalanceOfModule B w to d + denom_amount (native_coins cs) d"
    and "GetBalanceOfModule B w fr d = GetBalanceOfModule B w' fr d + denom_amount (native_coins cs) d"
    and "a \<noteq> bank_GetModuleAddress B fr \<Longrightarrow> a \<noteq> bank_GetModuleAddress B to \<Longrightarrow>
      bank_GetBalance B (W_bank w') a d = bank_GetBalance B (W_bank w) a d"
proof -
  obtain b where b: "bank_SendCoinsFromModuleToModule B (W_bank w) fr to (native_coins cs) = Some (Inr b)"
    and w': "w' = w\<lparr>W_bank := b\<rparr>"
    using assms(1) by (auto simp: SendFromModuleToModule_def bank_outcome_def split: option.splits sum.splits)
  have ne: "bank_GetModuleAddress B fr \<noteq> bank_GetModuleAddress B to" using module_inj assms(2) by blast
  show "bank_GetSupply B (W_bank w') d = bank_GetSupply B (W_bank w) d" by (simp add: w' send_supply [OF b])
  show "W_kv w' = W_kv w" by (simp add: w')
  note bal = send_balance [OF b, of _ d]
  show "GetBalanceOfModule B w' to d = GetBalanceOfModule B w to d + denom_amount (native_coins cs) d"
    using bal [of "bank_GetModuleAddress B to"] ne by (simp add: GetBalanceOfModule_def w')
  show "GetBalanceOfModule B w fr d = GetBalanceOfModule B w' fr d + denom_amount (native_coins cs) d"
    using bal [of "bank_GetModuleAddress B fr"] ne by (simp add: GetBalanceOfModule_def w')
  show "a \<noteq> bank_GetModuleAddress B fr \<Longrightarrow> a \<noteq> bank_GetModuleAddress B to \<Longrightarrow>
      bank_GetBalance B (W_bank w') a d = bank_GetBalance B (W_bank w) a d"
    using bal [of a] by (simp add: w')
qed

lemma MintToModule_mints:
  assumes "MintToModule S B w m coin = Some (None, w')"
  shows "bank_GetSupply B (W_bank w') d = bank_GetSupply B (W_bank w) d + denom_amount (native_coins [coin]) d"
    and "GetBalanceOfModule B w' m d = GetBalanceOfModule B w m d + denom_amount (native_coins [coin]) d"
    and "a \<noteq> bank_GetModuleAddress B m \<Longrightarrow>
      bank_GetBalance B (W_bank w') a d = bank_GetBalance B (W_bank w) a d"
    and "K_pools (W_kv w') = K_pools (W_kv w)"
proof -
  obtain b where b: "bank_MintCoins B (W_bank w) m (native_coins [coin]) = Some (Inr b)"
    and w': "W_bank w' = b" and k: "W_kv w' = halt_everything (W_kv w) \<or> W_kv w' = W_kv w"
    using assms by (auto simp: MintToModule_def Let_def split: option.splits sum.splits if_splits)
  show "bank_GetSupply B (W_bank w') d = bank_GetSupply B (W_bank w) d + denom_amount (native_coins [coin]) d"
    by (simp add: w' mint_supply [OF b])
  show "GetBalanceOfModule B w' m d = GetBalanceOfModule B w m d + denom_amount (native_coins [coin]) d"
    by (simp add: w' GetBalanceOfModule_def mint_balance [OF b])
  show "a \<noteq> bank_GetModuleAddress B m \<Longrightarrow>
      bank_GetBalance B (W_bank w') a d = bank_GetBalance B (W_bank w) a d"
    by (simp add: w' mint_balance [OF b])
  show "K_pools (W_kv w') = K_pools (W_kv w)"
    using k by (auto simp: halt_everything_def SetMimir_def setInt64_def)
qed

end

lemma module_names_distinct [simp]:
  "ModuleName \<noteq> ReserveName" "ModuleName \<noteq> MayaFund" "ReserveName \<noteq> MayaFund" "AsgardName \<noteq> ReserveName"
  "ModuleName \<noteq> AsgardName" "BondName \<noteq> ReserveName" "ModuleName \<noteq> BondName" "BondName \<noteq> AsgardName"
  "AsgardName \<noteq> MayaFund" "BondName \<noteq> MayaFund"
  by (simp_all add: ModuleName_def ReserveName_def MayaFund_def AsgardName_def BondName_def)

lemma native_base_amount [simp]:
  "denom_amount (native_coins [NewCoin BaseNative n]) (Asset_Native BaseNative) = n"
  by (simp add: native_coins_def NewCoin_def)

section \<open>The pools' part\<close>

lemma sum_uints_Some: "cosmos_sdk S \<Longrightarrow> sum_uints S xs acc = Some t \<Longrightarrow> t = acc + sum_list xs"
  by (induction xs arbitrary: acc) (fastforce simp: bind_Some_iff cosmos_sdk.uint_add_Some)+

definition pool_gain :: "nat \<Rightarrow> nat \<Rightarrow> Pool \<Rightarrow> nat" where
  "pool_gain F t pool = F * (Pool_BalanceCacao pool * 100 div t) div 100"

lemma inflate_pool_Some:
  assumes "cosmos_sdk S" and "inflate_pool S F t pool = Some pool'"
  shows "pool' = pool\<lparr>Pool_BalanceCacao := Pool_BalanceCacao pool + pool_gain F t pool\<rparr>"
  using assms by (auto simp: inflate_pool_def bind_Some_iff cosmos_sdk.uint_Some pool_gain_def)

text \<open>The integer percentages of the parts of a sum add up to at most 100.\<close>

lemma gains_le:
  assumes "sum_list (map Pool_BalanceCacao pools) \<le> t" and "0 < t"
  shows "sum_list (map (pool_gain F t) pools) \<le> F"
proof -
  have "sum_list (map (\<lambda>p. Pool_BalanceCacao p * 100 div t) pools) * t
      \<le> sum_list (map Pool_BalanceCacao pools) * 100"
  proof (induction pools)
    case (Cons p pools)
    have "Pool_BalanceCacao p * 100 div t * t \<le> Pool_BalanceCacao p * 100" by simp
    then show ?case using Cons by (simp only: list.map sum_list.Cons distrib_right add_mono)
  qed simp
  also have "\<dots> \<le> 100 * t" using assms(1) by simp
  finally have perc: "sum_list (map (\<lambda>p. Pool_BalanceCacao p * 100 div t) pools) \<le> 100"
    using assms(2) by simp
  have "sum_list (map (pool_gain F t) pools) * 100
      \<le> F * sum_list (map (\<lambda>p. Pool_BalanceCacao p * 100 div t) pools)"
    by (induction pools) (auto simp: pool_gain_def algebra_simps intro: add_mono)
  also have "\<dots> \<le> F * 100" using perc by simp
  finally show ?thesis by simp
qed

text \<open>Every pool is stored under the key of its asset.\<close>

definition pools_keyed :: "KVStore \<Rightarrow> bool" where
  "pools_keyed k \<longleftrightarrow> kv_invar (K_pools k) \<and> list_all (\<lambda>e. fst e = pool_key (Pool_Asset (snd e))) (K_pools k)"

lemma kv_sum_set:
  fixes f :: "'v \<Rightarrow> nat"
  assumes "kv_invar t" and "kv_get t key = Some v"
  shows "sum_list (map f (kv_values (kv_set t key v'))) + f v = sum_list (map f (kv_values t)) + f v'"
  using assms
proof (induction t key v' rule: kv_set.induct)
  case (2 k1 v1 t k v')
  have "k \<ge> k1" using 2(2,3) by (auto simp: kv_invar_def kv_get_def split: if_splits dest!: map_of_SomeD)
  moreover have "kv_invar t" using 2(2) by (simp add: kv_invar_def)
  ultimately show ?case using 2 by (auto simp: kv_values_def kv_get_def split: if_splits)
qed (simp add: kv_get_def)

definition cacao_in_pools :: "KVStore \<Rightarrow> nat" where
  "cacao_in_pools k = sum_list (map Pool_BalanceCacao (GetPools k))"

lemma SetPool_keyed:
  assumes "pools_keyed k" and "SetPool k p = Inr k'"
  shows "pools_keyed k'"
proof -
  have "list_all (\<lambda>e. fst e = pool_key (Pool_Asset (snd e))) (kv_set t (pool_key (Pool_Asset p)) p)"
    if "list_all (\<lambda>e. fst e = pool_key (Pool_Asset (snd e))) t" for t
    using that by (induction t "pool_key (Pool_Asset p)" p rule: kv_set.induct) auto
  then show ?thesis using assms
    by (auto simp: SetPool_def pools_keyed_def kv_set_invar split: if_splits)
qed

lemma inflate_pools_sum:
  assumes "cosmos_sdk S" and "inflate_pools S F t pools k = Some k'" and "pools_keyed k"
    and "distinct (map (\<lambda>p. pool_key (Pool_Asset p)) pools)"
    and "\<And>p. p \<in> set pools \<Longrightarrow> kv_get (K_pools k) (pool_key (Pool_Asset p)) = Some p"
  shows "cacao_in_pools k' \<le> cacao_in_pools k
    + sum_list (map (pool_gain F t) (filter (\<lambda>p. Pool_Status p = PoolStatus_Available) pools))"
  using assms(2-)
proof (induction pools arbitrary: k)
  case (Cons p pools)
  show ?case
  proof (cases "Pool_Status p = PoolStatus_Available")
    case True
    define p' where "p' = p\<lparr>Pool_BalanceCacao := Pool_BalanceCacao p + pool_gain F t p\<rparr>"
    define k1 where "k1 = (case SetPool k p' of Inl _ \<Rightarrow> k | Inr k' \<Rightarrow> k')"
    have k': "inflate_pools S F t pools k1 = Some k'"
      using Cons.prems(1) True inflate_pool_Some [OF assms(1)]
      by (auto simp: bind_Some_iff k1_def p'_def)
    have p: "kv_get (K_pools k) (pool_key (Pool_Asset p)) = Some p" using Cons.prems(4) by simp
    have k1: "k1 = k \<or> k1 = k\<lparr>K_pools := kv_set (K_pools k) (pool_key (Pool_Asset p)) p'\<rparr>"
      by (simp add: k1_def SetPool_def p'_def)
    then have "cacao_in_pools k1 \<le> cacao_in_pools k + pool_gain F t p"
      using kv_sum_set [OF _ p, of Pool_BalanceCacao p'] Cons.prems(2)
      by (auto simp: cacao_in_pools_def GetPools_def pools_keyed_def p'_def)
    moreover have "pools_keyed k1"
      using SetPool_keyed [OF Cons.prems(2)] Cons.prems(2) by (auto simp: k1_def split: sum.split)
    moreover have "kv_get (K_pools k1) (pool_key (Pool_Asset q)) = Some q" if "q \<in> set pools" for q
    proof -
      have "pool_key (Pool_Asset p) \<notin> (\<lambda>p. pool_key (Pool_Asset p)) ` set pools" using Cons.prems(3) by simp
      then have "pool_key (Pool_Asset q) \<noteq> pool_key (Pool_Asset p)" using that by (metis image_eqI)
      then show ?thesis using k1 that Cons.prems(4) by (auto simp: kv_get_set)
    qed
    ultimately show ?thesis using Cons.IH [OF k'] Cons.prems(3) True by simp
  next
    case False
    then show ?thesis using Cons by simp
  qed
qed simp

lemma pools_keyed_distinct:
  assumes "pools_keyed k"
  shows "distinct (map (\<lambda>p. pool_key (Pool_Asset p)) (GetPools k))"
    and "p \<in> set (GetPools k) \<Longrightarrow> kv_get (K_pools k) (pool_key (Pool_Asset p)) = Some p"
proof -
  have "map (\<lambda>p. pool_key (Pool_Asset p)) (GetPools k) = map fst (K_pools k)"
    using assms by (auto simp: pools_keyed_def GetPools_def kv_values_def list_all_iff)
  then show "distinct (map (\<lambda>p. pool_key (Pool_Asset p)) (GetPools k))"
    using assms by (simp add: pools_keyed_def kv_invar_def)
  show "p \<in> set (GetPools k) \<Longrightarrow> kv_get (K_pools k) (pool_key (Pool_Asset p)) = Some p"
    using assms by (force simp: pools_keyed_def GetPools_def kv_values_def kv_get_def kv_invar_def list_all_iff)
qed

lemma inflate_pools_le:
  assumes "cosmos_sdk S" and "pools_keyed k" and "GetCacaoOnPools S k PoolStatus_Available = Some t"
    and "inflate_pools S F t (GetPools k) k = Some k'"
  shows "cacao_in_pools k' \<le> cacao_in_pools k + F"
proof -
  let ?av = "filter (\<lambda>p. Pool_Status p = PoolStatus_Available) (GetPools k)"
  have t: "sum_list (map Pool_BalanceCacao ?av) = t"
    using sum_uints_Some [OF assms(1) assms(3) [unfolded GetCacaoOnPools_def]]
    by (simp add: counts_status_def cong: filter_cong)
  have "cacao_in_pools k' \<le> cacao_in_pools k + sum_list (map (pool_gain F t) ?av)"
    using inflate_pools_sum [OF assms(1,4,2)] pools_keyed_distinct [OF assms(2)] by blast
  moreover have "sum_list (map (pool_gain F t) ?av) \<le> F"
  proof (cases "t = 0")
    case True
    then have "pool_gain F t = (\<lambda>_. 0)" by (simp add: fun_eq_iff pool_gain_def)
    then show ?thesis by (simp add: map_replicate_const sum_list_replicate)
  next
    case False
    then show ?thesis using gains_le [of ?av t F] t by simp
  qed
  ultimately show ?thesis by simp
qed

section \<open>The whole step\<close>

lemma and_then_None:
  "and_then m f = Some (None, w') \<longleftrightarrow> (\<exists>w. m = Some (None, w) \<and> f w = Some (None, w'))"
  by (auto simp: and_then_def bind_Some_iff split: option.splits)

lemma pay_system_income_moves:
  assumes "cosmos_sdk S" and "bank_keeper B" and "pay_system_income S B cv n w = Some (None, w')"
  defines "d \<equiv> Asset_Native BaseNative"
  shows "bank_GetSupply B (W_bank w') d = bank_GetSupply B (W_bank w) d" and "W_kv w' = W_kv w"
    and "GetBalanceOfModule B w ModuleName d = GetBalanceOfModule B w' ModuleName d + n"
    and "GetBalanceOfModule B w' ReserveName d + GetBalanceOfModule B w' MayaFund d
      = GetBalanceOfModule B w ReserveName d + GetBalanceOfModule B w MayaFund d + n"
    and "a \<notin> bank_GetModuleAddress B ` {ModuleName, ReserveName, MayaFund} \<Longrightarrow>
      bank_GetBalance B (W_bank w') a d = bank_GetBalance B (W_bank w) a d"
proof -
  have "bank_GetSupply B (W_bank w') d = bank_GetSupply B (W_bank w) d \<and> W_kv w' = W_kv w
    \<and> GetBalanceOfModule B w ModuleName d = GetBalanceOfModule B w' ModuleName d + n
    \<and> GetBalanceOfModule B w' ReserveName d + GetBalanceOfModule B w' MayaFund d
      = GetBalanceOfModule B w ReserveName d + GetBalanceOfModule B w MayaFund d + n
    \<and> (a \<notin> bank_GetModuleAddress B ` {ModuleName, ReserveName, MayaFund} \<longrightarrow>
      bank_GetBalance B (W_bank w') a d = bank_GetBalance B (W_bank w) a d)"
  proof (cases "n = 0")
    case True
    then show ?thesis using assms(3) by (simp add: pay_system_income_def)
  next
    case False
    define m r where "m = n * uint64_cast (C_int64 cv ''MayaFundPerc'') div 100" and "r = n - m"
    from False obtain w1 where n: "n = r + m"
      and r: "SendFromModuleToModule B w ModuleName ReserveName [NewCoin BaseNative r] = Some (None, w1)"
      and m: "SendFromModuleToModule B w1 ModuleName MayaFund [NewCoin BaseNative m] = Some (None, w')"
      using assms(3)
      by (auto simp: pay_system_income_def bind_Some_iff and_then_None cosmos_sdk.uint_Some [OF assms(1)]
          m_def r_def)
    have inj: "bank_GetModuleAddress B x = bank_GetModuleAddress B y \<Longrightarrow> x = y" for x y
      by (rule bank_keeper.module_inj [OF assms(2)])
    note rm = bank_keeper.SendFromModuleToModule_moves [OF assms(2) r]
    note mm = bank_keeper.SendFromModuleToModule_moves [OF assms(2) m]
    have "GetBalanceOfModule B w1 MayaFund d = GetBalanceOfModule B w MayaFund d"
      "GetBalanceOfModule B w' ReserveName d = GetBalanceOfModule B w1 ReserveName d"
      unfolding GetBalanceOfModule_def
      by (rule rm(5) mm(5); use inj module_names_distinct in metis)+
    then show ?thesis
      using rm(2) mm(2) rm(1,3,4) [of d] mm(1,3,4) [of d] rm(5) [of a d] mm(5) [of a d] by (simp add: d_def n)
  qed
  then show "bank_GetSupply B (W_bank w') d = bank_GetSupply B (W_bank w) d" and "W_kv w' = W_kv w"
    and "GetBalanceOfModule B w ModuleName d = GetBalanceOfModule B w' ModuleName d + n"
    and "GetBalanceOfModule B w' ReserveName d + GetBalanceOfModule B w' MayaFund d
      = GetBalanceOfModule B w ReserveName d + GetBalanceOfModule B w MayaFund d + n"
    and "a \<notin> bank_GetModuleAddress B ` {ModuleName, ReserveName, MayaFund} \<Longrightarrow>
      bank_GetBalance B (W_bank w') a d = bank_GetBalance B (W_bank w) a d"
    by blast+
qed

lemma distribute_steps:
  assumes "cosmos_sdk S" and "distributeDynamicInflation S B cv w m = Some (None, w')"
  obtains w1 w2 F where "MintToModule S B w ModuleName (NewCoin BaseNative m) = Some (None, w1)"
    and "F \<le> m" and "pay_system_income S B cv (m - F) w2 = Some (None, w')"
    and "F = m * uint64_cast (fetchConfigInt64 S cv (W_kv w1) ''InflationPoolPercentage'') div 100"
    and "W_bank w2 = W_bank w1"
    and "F = 0 \<and> W_kv w2 = W_kv w1
      \<or> (\<exists>t. GetCacaoOnPools S (W_kv w1) PoolStatus_Available = Some t
             \<and> inflate_pools S F t (GetPools (W_kv w1)) (W_kv w1) = Some (W_kv w2))"
  using assms(2)
  by (auto simp: distributeDynamicInflation_def and_then_None bind_Some_iff
      cosmos_sdk.uint_Some [OF assms(1)] Let_def split: if_splits)


definition inflation_world :: "ledger world" where
  "inflation_world =
     \<lparr>W_kv = empty_store\<lparr>K_pools := [(pool_key BTCAsset, sample_pool)]\<rparr>, W_bank = empty_ledger\<rparr>"

lemma inflation_store:
  "K_int64 (W_kv inflation_world) = []" "K_version (W_kv inflation_world) = (\<lambda>_. True)"
  "W_bank inflation_world = empty_ledger" "GetPools (W_kv inflation_world) = [sample_pool]" "pools_keyed (W_kv inflation_world)"
  by (simp_all add: inflation_world_def empty_store_def GetPools_def kv_values_def pools_keyed_def kv_invar_def
      sample_pool_def)

lemma inflation_constants:
  "C_int64 sample_accessor ''InflationPoolPercentage'' = 50" "C_int64 sample_accessor ''MayaFundPerc'' = 10"
  "C_int64 sample_accessor ''InflationFormulaMulValue'' = 4000" "C_int64 sample_accessor ''InflationFormulaSumValue'' = 100"
  "C_int64 sample_accessor ''InflationPercentageThreshold'' = 9000" "C_int64 sample_accessor ''BlocksPerYear'' = 5256000"
  by (code_simp | rule conjI)+

lemma inflation_sample:
  "\<exists>w'. distributeDynamicInflation sdk256 ledger_bank sample_accessor inflation_world 1000 = Some (None, w')"
proof -
  define b where "b = (empty_ledger
    \<lparr>Led_balance := (Led_balance empty_ledger)(module_account ModuleName := (\<lambda>_. 0)(Asset_Native BaseNative := 1000)),
     Led_supply := (\<lambda>_. 0)(Asset_Native BaseNative := 1000)\<rparr>)"
  have n: "Coin_IsNative (NewCoin BaseNative 1000)" by code_simp
  have mint: "MintToModule sdk256 ledger_bank inflation_world ModuleName (NewCoin BaseNative 1000)
      = Some (None, inflation_world\<lparr>W_bank := b\<rparr>)"
    using n
    by (simp add: MintToModule_def GetMimir_unset [OF inflation_store(1,2)] inflation_store ledger_bank_def
        native_coins_def NewCoin_def b_def empty_ledger_def)
  have a: "Pool_Status sample_pool = PoolStatus_Available" "Pool_BalanceCacao sample_pool = 10000"
    by (simp_all add: sample_pool_def NewPool_def)
  have t: "GetCacaoOnPools sdk256 (W_kv inflation_world) PoolStatus_Available = Some 10000"
    by (simp add: GetCacaoOnPools_def inflation_store counts_status_def a sdk256.uint_add)
  have p: "\<exists>k. inflate_pools sdk256 500 10000 [sample_pool] (W_kv inflation_world) = Some k"
    by (simp add: a inflate_pool_def sdk256.uint_laws)
  have u: "uint64_cast 50 = 50" "uint64_cast 10 = 10" by (simp_all add: uint64_cast_def)
  have pay: "\<exists>w'. pay_system_income sdk256 ledger_bank sample_accessor 500 w = Some (None, w')" if "W_bank w = b" for w
    using that
    by (simp add: pay_system_income_def and_then_def inflation_constants u sdk256.uint_laws SendFromModuleToModule_def
        bank_outcome_def ledger_bank_def ledger_send_def native_coins_def NewCoin_def b_def Let_def module_account_def
        ModuleName_def ReserveName_def MayaFund_def)
  obtain k where k: "inflate_pools sdk256 500 10000 [sample_pool] (W_kv inflation_world) = Some k" using p by blast
  show ?thesis
    using pay [of "inflation_world\<lparr>W_bank := b, W_kv := k\<rparr>"]
    by (simp add: distributeDynamicInflation_def and_then_def mint fetchConfigInt64_unset inflation_store
        inflation_constants t u k sdk256.uint_laws del: inflate_pools.simps)
qed



definition rich_world :: "ledger world" where
  "rich_world =
     \<lparr>W_kv = empty_store\<lparr>K_pools := [(pool_key BTCAsset, sample_pool\<lparr>Pool_BalanceCacao := 5 * 10 ^ 12\<rparr>)]\<rparr>,
      W_bank = empty_ledger\<lparr>Led_supply := (\<lambda>_. 10 ^ 13)\<rparr>\<rparr>"

lemma rich_store:
  "K_int64 (W_kv rich_world) = []" "K_version (W_kv rich_world) = (\<lambda>_. True)"
  "GetRuneBalanceOfModule ledger_bank rich_world m = 0"
  "GetTotalSupply ledger_bank rich_world BaseNative = Some (10 ^ 13)"
  "GetCacaoOnPools sdk256 (W_kv rich_world) PoolStatus_UnknownPoolStatus = Some (5 * 10 ^ 12)"
  by (simp_all add: rich_world_def empty_store_def GetPools_def kv_values_def GetRuneBalanceOfModule_def
      GetBalanceOfModule_def ledger_bank_def empty_ledger_def GetTotalSupply_def GetPoolRagnarokStart_def
      getInt64_def kv_get_def uint64_of_def GetCacaoOnPools_def counts_status_def sdk256.uint_add)

lemma rich_parameters:
  "inflation_mul S sample_accessor (W_kv rich_world) = 4000"
  "inflation_param S sample_accessor (W_kv rich_world) 4000 ''InflationFormulaSumValue'' = 100"
  "inflation_param S sample_accessor (W_kv rich_world) 4000 ''InflationPercentageThreshold'' = 9000"
  by (simp_all add: inflation_mul_def inflation_param_def GetMimir_unset [OF rich_store(1,2)] inflation_constants)


end
