(* ===== verification/Swapper.thy ===== *)
theory Swapper
  imports Bank
begin

text \<open>
  The swapper, \<open>x/mayachain/swap_current.go\<close>: the constant product formulas, one swap against
  one pool (\<open>swapOne\<close>) and the swap of a message, which goes through CACAO when neither side is
  CACAO (\<open>Swap\<close>). Parameters are the bank, the check whether an address belongs to a chain (decoders of other libraries) and
  the outbound store of the manager, which the Go code calls through an interface. Events that are
  only emitted, logs and telemetry are left out.
\<close>

record EventSwap =
  ES_Pool :: Asset
  ES_SwapTarget :: nat
  ES_SwapSlip :: nat
  ES_LiquidityFee :: nat
  ES_LiquidityFeeInCacao :: nat
  ES_InTx :: Tx
  ES_OutTxs :: Tx
  ES_EmitAsset :: Coin
  ES_SynthUnits :: nat

definition NewEventSwap ::
  "Asset \<Rightarrow> nat \<Rightarrow> nat \<Rightarrow> nat \<Rightarrow> nat \<Rightarrow> Tx \<Rightarrow> Coin \<Rightarrow> nat \<Rightarrow> EventSwap" where
  "NewEventSwap pool swapTarget fee swapSlip liquidityFeeInRune inTx emitAsset synthUnits =
     \<lparr>ES_Pool = pool, ES_SwapTarget = swapTarget, ES_SwapSlip = swapSlip, ES_LiquidityFee = fee,
      ES_LiquidityFeeInCacao = liquidityFeeInRune, ES_InTx = inTx, ES_OutTxs = EmptyTx,
      ES_EmitAsset = emitAsset, ES_SynthUnits = synthUnits\<rparr>"

section \<open>Formulas\<close>

definition CalcAssetEmission :: "sdk \<Rightarrow> nat \<Rightarrow> nat \<Rightarrow> nat \<Rightarrow> nat option" where
  "CalcAssetEmission S X x Y =
     do {
       xX \<leftarrow> uint_mul S x X;
       numerator \<leftarrow> uint_mul S xX Y;
       s \<leftarrow> uint_add S x X;
       denominator \<leftarrow> uint_mul S s s;
       if denominator = 0 then Some 0 else uint_quo S numerator denominator
     }"

definition CalcLiquidityFee :: "sdk \<Rightarrow> nat \<Rightarrow> nat \<Rightarrow> nat \<Rightarrow> nat option" where
  "CalcLiquidityFee S X x Y =
     do {
       xx \<leftarrow> uint_mul S x x;
       numerator \<leftarrow> uint_mul S xx Y;
       s \<leftarrow> uint_add S x X;
       denominator \<leftarrow> uint_mul S s s;
       if denominator = 0 then Some 0 else uint_quo S numerator denominator
     }"

text \<open>\<open>RoundInt64\<close> panics on a value out of the range of \<open>int64\<close>; the conversion to
  \<open>uint64\<close> wraps.\<close>

definition CalcSwapSlip :: "sdk \<Rightarrow> nat \<Rightarrow> nat \<Rightarrow> nat option" where
  "CalcSwapSlip S Xi xi =
     do {
       let xD = dec_from_bigint S xi;
       let XD = dec_from_bigint S Xi;
       denD \<leftarrow> dec_add S xD XD;
       if denD = 0 then Some 0
       else do {
         swapSlipD \<leftarrow> dec_quo S xD denD;
         swapSlip \<leftarrow> dec_mul S swapSlipD (10000 * dec_one);
         r \<leftarrow> dec_round S swapSlip;
         if - (2 ^ 63) \<le> r \<and> r < 2 ^ 63 then Some (nat (r mod 2 ^ 64)) else None
       }
     }"

definition Swapper_validateMessage :: "Tx \<Rightarrow> Asset \<Rightarrow> address \<Rightarrow> check" where
  "Swapper_validateMessage tx target destination =
     (case Tx_Valid tx of Some e \<Rightarrow> Some e
      | None \<Rightarrow>
          if Asset_IsEmpty target then fails ''target is empty''
          else if Address_IsEmpty destination then fails ''destination is empty''
          else None)"

fun burn_each :: "'b bank \<Rightarrow> 'b world \<Rightarrow> coins \<Rightarrow> (check \<times> 'b world) option" where
  "burn_each B w [] = Some (None, w)"
| "burn_each B w (coin # cs) =
     do {
       (e, w') \<leftarrow> BurnFromModule B w ModuleName coin;
       case e of Some er \<Rightarrow> Some (Some er, w') | None \<Rightarrow> burn_each B w' cs
     }"

definition burnCoins :: "'b bank \<Rightarrow> 'b world \<Rightarrow> coins \<Rightarrow> (check \<times> 'b world) option" where
  "burnCoins B w cs =
     do {
       (e, w') \<leftarrow> SendFromModuleToModule B w AsgardName ModuleName cs;
       case e of Some er \<Rightarrow> Some (Some er, w') | None \<Rightarrow> burn_each B w' cs
     }"

section \<open>One swap\<close>

text \<open>The last part of \<open>swapOne\<close>: the balances of the pool after the swap and the store.\<close>

definition swap_settle ::
  "sdk \<Rightarrow> 'b bank \<Rightarrow> 'b world \<Rightarrow> Tx \<Rightarrow> Asset \<Rightarrow> Asset \<Rightarrow> Pool \<Rightarrow> nat \<Rightarrow> nat \<Rightarrow> nat \<Rightarrow> nat
    \<Rightarrow> (check \<times> 'b world) option" where
  "swap_settle S B w tx source target pool X x Y emitAssets =
     (let store = (\<lambda>w' p. case SetPool (W_kv w') p of
                     Inl _ \<Rightarrow> Some (fails ''fail to set pool'', w')
                   | Inr kv \<Rightarrow> Some (None, w'\<lparr>W_kv := kv\<rparr>))
      in if Asset_IsSyntheticAsset source \<or> Asset_IsSyntheticAsset target then
           if Asset_IsSyntheticAsset source then
             do {
               cacao \<leftarrow> SafeSub S (Pool_BalanceCacao pool) emitAssets;
               (e, w') \<leftarrow> burnCoins B w (Tx_Coins tx);
               case e of
                 Some er \<Rightarrow> Some (Some er, w')
               | None \<Rightarrow> store w' (pool\<lparr>Pool_BalanceCacao := cacao\<rparr>)
             }
           else
             do {
               cacao \<leftarrow> uint_add S (Pool_BalanceCacao pool) x;
               store w (pool\<lparr>Pool_BalanceCacao := cacao\<rparr>)
             }
         else
           do {
             up \<leftarrow> uint_add S X x;
             down \<leftarrow> SafeSub S Y emitAssets;
             store w
               (if Asset_IsBase source
                then pool\<lparr>Pool_BalanceCacao := up, Pool_BalanceAsset := down\<rparr>
                else pool\<lparr>Pool_BalanceAsset := up, Pool_BalanceCacao := down\<rparr>)
           })"

definition virtual_depth :: "sdk \<Rightarrow> int \<Rightarrow> Asset \<Rightarrow> Asset \<Rightarrow> nat \<Rightarrow> nat" where
  "virtual_depth S vmult source target depth =
     (if Asset_IsSyntheticAsset source \<or> Asset_IsSyntheticAsset target
      then GetUncappedShare S (nat (vmult mod 2 ^ 64)) 10000 depth else depth)"

definition swapOne ::
  "sdk \<Rightarrow> 'b bank \<Rightarrow> 'b world \<Rightarrow> Tx \<Rightarrow> Asset \<Rightarrow> nat \<Rightarrow> nat \<Rightarrow> int
    \<Rightarrow> ((go_error + nat \<times> EventSwap) \<times> 'b world) option" where
  "swapOne S B w tx target swapTarget transactionFee synthVirtualDepthMult =
     (case Tx_Coins tx of
        [] \<Rightarrow> None
      | coin # _ \<Rightarrow>
        let source = Coin_Asset coin; amount = Coin_Amount coin;
            isBase = Asset_IsBase source;
            asset0 = (if isBase then target else source);
            asset = (if Asset_IsSyntheticAsset asset0 then Asset_GetLayer1Asset asset0 else asset0);
            failure = (\<lambda>m. Some (Inl (GoError m), w))
        in if isBase \<and> amount \<le> transactionFee then failure ''fail swap, not enough fee''
           else if \<not> PoolExist (W_kv w) (Asset_GetLayer1Asset asset) then failure ''pool doesn't exist''
           else
             let pool0 = GetPool (W_kv w) (Asset_GetLayer1Asset asset) in
             if Asset_IsVaultAsset (Pool_Asset pool0)
             then failure ''dev error: swapping with a vault is not allowed''
             else do {
               synthSupply \<leftarrow> GetTotalSupply B w (Asset_GetSyntheticAsset (Pool_Asset pool0));
               (_, pool) \<leftarrow> Pool_CalcUnits S (K_version (W_kv w)) pool0 synthSupply;
               if \<not> Asset_IsSyntheticAsset source \<and> \<not> Pool_IsAvailable pool
               then failure ''pool is not available''
               else
                 let X = virtual_depth S synthVirtualDepthMult source target
                       (if isBase then Pool_BalanceCacao pool else Pool_BalanceAsset pool);
                     Y = virtual_depth S synthVirtualDepthMult source target
                       (if isBase then Pool_BalanceAsset pool else Pool_BalanceCacao pool);
                     x = amount
                 in if x = 0 then failure ''fail swap, invalid amount''
                    else if X = 0 \<or> Y = 0 then failure ''fail swap, invalid balance''
                    else do {
                      liquidityFee \<leftarrow> CalcLiquidityFee S X x Y;
                      swapSlip \<leftarrow> CalcSwapSlip S X x;
                      emit0 \<leftarrow> CalcAssetEmission S X x Y;
                      emitAssets \<leftarrow> RoundToDecimal S emit0 (Pool_Decimals pool);
                      let evt = (NewEventSwap asset swapTarget 0 0 0 tx NoCoin 0)
                        \<lparr>ES_LiquidityFee := liquidityFee,
                         ES_LiquidityFeeInCacao :=
                           (if isBase then Pool_AssetValueInRune S pool liquidityFee else liquidityFee),
                         ES_SwapSlip := swapSlip, ES_EmitAsset := NewCoin target emitAssets\<rparr>;
                      if emitAssets \<ge> Y then failure ''fail swap, not enough balance''
                      else do {
                        (e, w') \<leftarrow> swap_settle S B w tx source target pool X x Y emitAssets;
                        case e of
                          Some er \<Rightarrow> Some (Inl er, w')
                        | None \<Rightarrow> Some (Inr (emitAssets, evt), w')
                      }
                    }
             })"

section \<open>The swap of a message\<close>

fun add_fees :: "sdk \<Rightarrow> 'b world \<Rightarrow> int \<Rightarrow> EventSwap list \<Rightarrow> 'b world option" where
  "add_fees S w height [] = Some w"
| "add_fees S w height (evt # evts) =
     do {
       kv \<leftarrow> AddToLiquidityFees S (W_kv w) height (ES_Pool evt) (ES_LiquidityFeeInCacao evt);
       add_fees S (w\<lparr>W_kv := kv\<rparr>) height evts
     }"

type_synonym 'b txout_store = "'b world \<Rightarrow> TxOutItem \<Rightarrow> nat \<Rightarrow> ((go_error + bool) \<times> 'b world) option"

text \<open>What \<open>Swap\<close> returns: the amount, the events and the error, with the state it leaves.\<close>

type_synonym 'b swap_result = "((nat \<times> EventSwap list \<times> check) \<times> 'b world) option"

text \<open>The part of \<open>Swap\<close> after the swaps themselves: the limits, the fees and the outbound.\<close>

definition swap_finish ::
  "sdk \<Rightarrow> 'b txout_store \<Rightarrow> 'b world \<Rightarrow> int \<Rightarrow> Tx \<Rightarrow> Asset \<Rightarrow> address \<Rightarrow> nat
    \<Rightarrow> string \<Rightarrow> string \<Rightarrow> nat option \<Rightarrow> nat \<Rightarrow> nat \<Rightarrow> EventSwap list \<Rightarrow> 'b swap_result" where
  "swap_finish S txout w height tx target destination swapTarget dexAgg dexAggTargetAsset dexAggLimit
       transactionFee assetAmount swapEvents =
     (if swapTarget \<noteq> 0 \<and> assetAmount < swapTarget
        then Some ((0, swapEvents, fails ''emit asset less than price limit''), w)
      else if Asset_IsBase target \<and> assetAmount \<le> transactionFee
        then Some ((0, swapEvents, fails ''output CACAO is not enough to pay transaction fee''), w)
      else if assetAmount = 0 then Some ((0, swapEvents, fails ''zero emit asset''), w)
      else do {
        w1 \<leftarrow> add_fees S w height swapEvents;
        if Address_IsNoop destination then Some ((assetAmount, swapEvents, None), w1)
        else
          let toi0 =
                \<lparr>TOI_Chain = Asset_GetChain target, TOI_ToAddress = destination, TOI_VaultPubKey = '''',
                 TOI_Coin = NewCoin target assetAmount, TOI_Memo = '''', TOI_MaxGas = [],
                 TOI_GasRate = 0, TOI_InHash = Tx_ID tx, TOI_OutHash = '''', TOI_ModuleName = '''',
                 TOI_Aggregator = dexAgg, TOI_AggregatorTargetAsset = dexAggTargetAsset,
                 TOI_AggregatorTargetLimit = dexAggLimit\<rparr>;
              toi = (if Chain_IsBASEChain (TOI_Chain toi0)
                        \<and> Asset_IsSyntheticAsset (Coin_Asset (TOI_Coin toi0))
                     then toi0\<lparr>TOI_ModuleName := ModuleName\<rparr> else toi0)
          in do {
            (r, w2) \<leftarrow> txout w1 toi swapTarget;
            Some
             (case r of
                Inl _ \<Rightarrow> ((assetAmount, swapEvents, fails ''fail to add outbound tx''), w2)
              | Inr added \<Rightarrow>
                  ((assetAmount, swapEvents,
                    if \<not> added then fails ''prepare outbound tx not successful'' else None), w2))
          }
      })"

definition Swap ::
  "sdk \<Rightarrow> 'b bank \<Rightarrow> (address \<Rightarrow> chain \<Rightarrow> bool) \<Rightarrow> 'b txout_store \<Rightarrow> 'b world \<Rightarrow> int \<Rightarrow> Tx \<Rightarrow> Asset
    \<Rightarrow> address \<Rightarrow> nat \<Rightarrow> string \<Rightarrow> string \<Rightarrow> nat option \<Rightarrow> nat \<Rightarrow> int \<Rightarrow> 'b swap_result" where
  "Swap S B isChain txout w height tx target destination swapTarget dexAgg dexAggTargetAsset
       dexAggLimit transactionFee synthVirtualDepthMult =
     (let stop = (\<lambda>m. Some ((0, [], fails m), w)) in
      case Swapper_validateMessage tx target destination of Some e \<Rightarrow> Some ((0, [], Some e), w)
      | None \<Rightarrow>
      (case Tx_Coins tx of [] \<Rightarrow> None
       | coin # _ \<Rightarrow>
        let source = Coin_Asset coin;
            burnHeight = GetMimir S (W_kv w) ''BurnSynths'';
            mintHeight = GetMimir S (W_kv w) ''MintSynths''
        in if Asset_IsSyntheticAsset source \<and> burnHeight > 0 \<and> height > burnHeight
             then stop ''burning synthetics has been disabled''
           else if Asset_IsSyntheticAsset target \<and> mintHeight > 0 \<and> height > mintHeight
             then stop ''minting synthetics has been disabled''
           else if \<not> Address_IsNoop destination \<and> \<not> isChain destination (Asset_GetChain target)
             then stop ''destination address is not a valid address''
           else if Asset_Equals source target then stop ''cannot swap, assets match''
           else if \<not> Asset_IsBase source \<and> \<not> Asset_IsBase target then
             do {
               (r1, w1) \<leftarrow> swapOne S B w tx BaseAsset 0 transactionFee synthVirtualDepthMult;
               case r1 of
                 Inl e \<Rightarrow> Some ((0, [], Some e), w1)
               | Inr (amt, evt) \<Rightarrow>
                   let tx1 = tx\<lparr>Tx_Coins := [NewCoin BaseAsset amt], Tx_Gas := []\<rparr>;
                       evt1 = evt\<lparr>ES_OutTxs := NewTx BlankTxID (Tx_FromAddress tx1) (Tx_ToAddress tx1)
                                   (Tx_Coins tx1) (Tx_Gas tx1) (Tx_Memo tx1)\<rparr>
                   in do {
                     (r2, w2) \<leftarrow> swapOne S B w1 tx1 target swapTarget transactionFee synthVirtualDepthMult;
                     case r2 of
                       Inl e \<Rightarrow> Some ((0, [evt1], Some e), w2)
                     | Inr (assetAmount, evt2) \<Rightarrow>
                         swap_finish S txout w2 height tx1 target destination swapTarget dexAgg
                           dexAggTargetAsset dexAggLimit transactionFee assetAmount [evt1, evt2]
                   }
             }
           else
             do {
               (r2, w2) \<leftarrow> swapOne S B w tx target swapTarget transactionFee synthVirtualDepthMult;
               case r2 of
                 Inl e \<Rightarrow> Some ((0, [], Some e), w2)
               | Inr (assetAmount, evt2) \<Rightarrow>
                   swap_finish S txout w2 height tx target destination swapTarget dexAgg
                     dexAggTargetAsset dexAggLimit transactionFee assetAmount [evt2]
             }))"

section \<open>The constant product\<close>

lemma four_mult_le_square: "4 * (x * X) \<le> (x + X) * (x + X :: nat)"
proof -
  have "0 \<le> (int x - int X) * (int x - int X)" by simp
  then have "4 * (int x * int X) \<le> (int x + int X) * (int x + int X)" by (simp add: algebra_simps)
  then have "int (4 * (x * X)) \<le> int ((x + X) * (x + X))" by simp
  then show ?thesis by linarith
qed

text \<open>What the pool pays out for \<open>x\<close> on the side of depth \<open>X\<close>, on the side of depth \<open>Y\<close>.\<close>

lemma emission_bounds:
  fixes x X Y :: nat
  assumes "0 < x"
  defines "e \<equiv> x * X * Y div ((x + X) * (x + X))"
  shows "e * (x + X) \<le> x * Y" and "4 * e \<le> Y" and "X * Y \<le> (X + x) * (Y - e)"
proof -
  let ?s = "x + X"
  have s: "0 < ?s" using assms(1) by simp
  have le: "e * (?s * ?s) \<le> x * X * Y" unfolding e_def by (rule div_times_less_eq_dividend)
  also have "\<dots> \<le> x * ?s * Y" by (intro mult_mono) auto
  finally have "(e * ?s) * ?s \<le> (x * Y) * ?s" by (simp add: ac_simps)
  then show 1: "e * ?s \<le> x * Y" using s by (rule mult_right_le_imp_le)
  have "4 * (e * (?s * ?s)) \<le> 4 * (x * X) * Y" using le by simp
  also have "\<dots> \<le> (?s * ?s) * Y" using four_mult_le_square by (intro mult_right_mono) auto
  finally have "(4 * e) * (?s * ?s) \<le> Y * (?s * ?s)" by (simp add: ac_simps)
  moreover have "0 < ?s * ?s" using s by simp
  ultimately show 2: "4 * e \<le> Y" by (rule mult_right_le_imp_le)
  have "(X + x) * (Y - e) = ?s * Y - e * ?s" by (simp add: diff_mult_distrib ac_simps)
  also have "?s * Y - e * ?s \<ge> ?s * Y - x * Y" using 1 by simp
  finally show "X * Y \<le> (X + x) * (Y - e)" by (simp add: distrib_right)
qed

lemma fee_and_emission:
  fixes x X Y :: nat
  assumes "0 < x"
  defines "e \<equiv> x * X * Y div ((x + X) * (x + X))" and "f \<equiv> x * x * Y div ((x + X) * (x + X))"
  shows "e + f \<le> x * Y div (x + X)" and "x * Y div (x + X) \<le> e + f + 1"
proof -
  let ?d = "(x + X) * (x + X)"
  have sum: "x * X * Y + x * x * Y = (x * Y) * (x + X)" by (simp add: algebra_simps)
  have whole: "(x * X * Y + x * x * Y) div ?d = x * Y div (x + X)"
    unfolding sum using assms(1) by simp
  show "e + f \<le> x * Y div (x + X)"
    using div_sum_le [of "x * X * Y" ?d "x * x * Y"] unfolding whole e_def f_def .
  have "(x * X * Y + x * x * Y) div ?d = e + f + (x * X * Y mod ?d + x * x * Y mod ?d) div ?d"
    unfolding e_def f_def by (rule div_add1_eq)
  moreover have "(x * X * Y mod ?d + x * x * Y mod ?d) div ?d \<le> 1"
  proof -
    have "0 < ?d" using assms(1) by simp
    then have "x * X * Y mod ?d < ?d" "x * x * Y mod ?d < ?d" by simp_all
    then have "x * X * Y mod ?d + x * x * Y mod ?d < 2 * ?d" by linarith
    then have "(x * X * Y mod ?d + x * x * Y mod ?d) div ?d < 2" by (rule div_less_of_mult)
    then show ?thesis by linarith
  qed
  ultimately show "x * Y div (x + X) \<le> e + f + 1" using whole by linarith
qed

lemma CalcUnits_keeps:
  assumes "Pool_CalcUnits S ver m s = Some (u, m')"
  shows "\<exists>su. m' = m\<lparr>Pool_SynthUnits := su\<rparr>"
proof (cases "ver (0, 80, 0)")
  case True
  then show ?thesis
    using assms
    by (auto simp: Pool_CalcUnits_def Pool_CalcUnitsV80_def bind_Some_iff Let_def split: if_splits)
next
  case False
  then have "m' = m\<lparr>Pool_SynthUnits := Pool_SynthUnits m\<rparr>" using assms by (auto simp: Pool_CalcUnits_def)
  then show ?thesis by blast
qed

context cosmos_sdk
begin

lemma CalcAssetEmission_Some:
  "CalcAssetEmission S X x Y = Some e \<Longrightarrow> e = x * X * Y div ((x + X) * (x + X))"
  by (auto simp: CalcAssetEmission_def bind_Some_iff uint_Some split: if_splits)

lemma CalcLiquidityFee_Some:
  "CalcLiquidityFee S X x Y = Some f \<Longrightarrow> f = x * x * Y div ((x + X) * (x + X))"
  by (auto simp: CalcLiquidityFee_def bind_Some_iff uint_Some split: if_splits)

lemma mult3_bound:
  assumes "a < 2 ^ 85" "b < 2 ^ 85" "c < (2::nat) ^ 85"
  shows "a * b < 2 ^ 170" and "a * b * c < 2 ^ 255"
proof -
  show ab: "a * b < 2 ^ 170" using mult_strict_mono [OF assms(1,2)] by (simp flip: power_add)
  show "a * b * c < 2 ^ 255" using mult_strict_mono [OF ab assms(3)] by (simp flip: power_add)
qed

lemma formulas_defined:
  assumes "X < 2 ^ 85" "x < 2 ^ 85" "Y < 2 ^ 85"
  shows "CalcAssetEmission S X x Y = Some (x * X * Y div ((x + X) * (x + X)))"
    and "CalcLiquidityFee S X x Y = Some (x * x * Y div ((x + X) * (x + X)))"
proof -
  have b: "x * X < 2 ^ 256" "x * X * Y < 2 ^ 256" "x * x < 2 ^ 256" "x * x * Y < 2 ^ 256"
    using mult3_bound [OF assms(2,1,3)] mult3_bound [OF assms(2,2,3)] by simp_all
  have s: "x + X < 2 ^ 86" using assms by simp
  have "(x + X) * (x + X) < 2 ^ 172" using mult_strict_mono [OF s s] by (simp flip: power_add)
  then have d: "x + X < 2 ^ 256" "(x + X) * (x + X) < 2 ^ 256" using s by simp_all
  show "CalcAssetEmission S X x Y = Some (x * X * Y div ((x + X) * (x + X)))"
    "CalcLiquidityFee S X x Y = Some (x * x * Y div ((x + X) * (x + X)))"
    using b d by (simp_all add: CalcAssetEmission_def CalcLiquidityFee_def uint_laws)
qed

lemma RoundToDecimal_le: "RoundToDecimal S a d = Some r \<Longrightarrow> r \<le> a"
  by (auto simp: RoundToDecimal_def Let_def bind_Some_iff uint_Some split: if_splits)

end

section \<open>A swap between layer 1 assets\<close>

lemma settle_layer1:
  assumes "swap_settle S B w tx source target pool X x Y e = Some (None, w')"
    and "\<not> Asset_IsSyntheticAsset source" and "\<not> Asset_IsSyntheticAsset target"
  obtains up down kv where "uint_add S X x = Some up" and "SafeSub S Y e = Some down"
    and "SetPool (W_kv w) (if Asset_IsBase source
           then pool\<lparr>Pool_BalanceCacao := up, Pool_BalanceAsset := down\<rparr>
           else pool\<lparr>Pool_BalanceAsset := up, Pool_BalanceCacao := down\<rparr>) = Inr kv"
    and "w' = w\<lparr>W_kv := kv\<rparr>"
proof -
  from assms obtain up down where up: "uint_add S X x = Some up" "SafeSub S Y e = Some down"
    and st: "(case SetPool (W_kv w) (if Asset_IsBase source
           then pool\<lparr>Pool_BalanceCacao := up, Pool_BalanceAsset := down\<rparr>
           else pool\<lparr>Pool_BalanceAsset := up, Pool_BalanceCacao := down\<rparr>) of
        Inl _ \<Rightarrow> Some (fails ''fail to set pool'', w)
      | Inr kv \<Rightarrow> Some (None, w\<lparr>W_kv := kv\<rparr>)) = Some (None, w')"
    by (auto simp: swap_settle_def Let_def bind_Some_iff)
  from st that [OF up] show ?thesis by (auto split: sum.splits)
qed

text \<open>The steps of a successful \<open>swapOne\<close> on layer 1 assets.\<close>

lemma swapOne_steps:
  assumes "swapOne S B w tx target st fee vm = Some (Inr (amt, evt), w')"
    and "Tx_Coins tx = coin # cs"
    and "\<not> Asset_IsSyntheticAsset (Coin_Asset coin)" and "\<not> Asset_IsSyntheticAsset target"
  defines "isBase \<equiv> Asset_IsBase (Coin_Asset coin)"
  defines "asset \<equiv> (if isBase then target else Coin_Asset coin)"
  obtains su pool X Y e0 where
    "pool = (GetPool (W_kv w) asset)\<lparr>Pool_SynthUnits := su\<rparr>" and "Pool_IsAvailable pool"
    and "X = (if isBase then Pool_BalanceCacao pool else Pool_BalanceAsset pool)"
    and "Y = (if isBase then Pool_BalanceAsset pool else Pool_BalanceCacao pool)"
    and "Coin_Amount coin \<noteq> 0" and "CalcAssetEmission S X (Coin_Amount coin) Y = Some e0"
    and "RoundToDecimal S e0 (Pool_Decimals pool) = Some amt" and "amt < Y"
    and "swap_settle S B w tx (Coin_Asset coin) target pool X (Coin_Amount coin) Y amt = Some (None, w')"
proof -
  have L1: "Asset_GetLayer1Asset asset = asset" "\<not> Asset_IsSyntheticAsset asset"
    using assms(3,4) by (simp_all add: asset_def Asset_GetLayer1Asset_def)
  have vd: "virtual_depth S vm (Coin_Asset coin) target d = d" for d
    using assms(3,4) by (simp add: virtual_depth_def)
  let ?q = "GetPool (W_kv w) asset"
  let ?X = "if isBase then Pool_BalanceCacao ?q else Pool_BalanceAsset ?q"
  let ?Y = "if isBase then Pool_BalanceAsset ?q else Pool_BalanceCacao ?q"
  have "\<exists>su e0. Pool_IsAvailable (?q\<lparr>Pool_SynthUnits := su\<rparr>) \<and> Coin_Amount coin \<noteq> 0
      \<and> CalcAssetEmission S ?X (Coin_Amount coin) ?Y = Some e0
      \<and> RoundToDecimal S e0 (Pool_Decimals ?q) = Some amt \<and> amt < ?Y
      \<and> swap_settle S B w tx (Coin_Asset coin) target (?q\<lparr>Pool_SynthUnits := su\<rparr>) ?X (Coin_Amount coin) ?Y amt
          = Some (None, w')"
    using assms(1)
    unfolding swapOne_def assms(2) Let_def list.case vd isBase_def [symmetric] asset_def [symmetric]
    using L1 assms(3)
    by (cases isBase) (auto simp: bind_Some_iff not_le split: if_splits option.splits
        dest!: CalcUnits_keeps)
  then obtain su e0 where *: "Pool_IsAvailable (?q\<lparr>Pool_SynthUnits := su\<rparr>)" "Coin_Amount coin \<noteq> 0"
      "CalcAssetEmission S ?X (Coin_Amount coin) ?Y = Some e0"
      "RoundToDecimal S e0 (Pool_Decimals ?q) = Some amt" "amt < ?Y"
      "swap_settle S B w tx (Coin_Asset coin) target (?q\<lparr>Pool_SynthUnits := su\<rparr>) ?X (Coin_Amount coin) ?Y amt
          = Some (None, w')" by blast
  show ?thesis
    by (rule that [of "?q\<lparr>Pool_SynthUnits := su\<rparr>" su ?X ?Y e0]) (use * in simp_all)
qed

context cosmos_sdk
begin

lemma swapOne_pool:
  assumes swap: "swapOne S B w tx target st fee vm = Some (Inr (amt, evt), w')"
    and tx: "Tx_Coins tx = coin # cs"
    and L1: "\<not> Asset_IsSyntheticAsset (Coin_Asset coin)" "\<not> Asset_IsSyntheticAsset target"
    and asset: "asset = (if Asset_IsBase (Coin_Asset coin) then target else Coin_Asset coin)"
    and own: "Asset_String (Pool_Asset (GetPool (W_kv w) asset)) = Asset_String asset"
  defines "p \<equiv> GetPool (W_kv w) asset" and "p' \<equiv> GetPool (W_kv w') asset"
  shows "Pool_BalanceCacao p * Pool_BalanceAsset p \<le> Pool_BalanceCacao p' * Pool_BalanceAsset p'"
    and "4 * amt \<le> (if Asset_IsBase (Coin_Asset coin) then Pool_BalanceAsset p else Pool_BalanceCacao p)"
    and "if Asset_IsBase (Coin_Asset coin)
         then Pool_BalanceCacao p' = Pool_BalanceCacao p + Coin_Amount coin
           \<and> Pool_BalanceAsset p = Pool_BalanceAsset p' + amt
         else Pool_BalanceAsset p' = Pool_BalanceAsset p + Coin_Amount coin
           \<and> Pool_BalanceCacao p = Pool_BalanceCacao p' + amt"
    and "Pool_LPUnits p' = Pool_LPUnits p" and "W_bank w' = W_bank w"
    and "Asset_String b \<noteq> Asset_String asset \<Longrightarrow> GetPool (W_kv w') b = GetPool (W_kv w) b"
proof -
  let ?base = "Asset_IsBase (Coin_Asset coin)" and ?x = "Coin_Amount coin"
  obtain su pool X Y e0 where pool: "pool = p\<lparr>Pool_SynthUnits := su\<rparr>" and av: "Pool_IsAvailable pool"
    and X: "X = (if ?base then Pool_BalanceCacao pool else Pool_BalanceAsset pool)"
    and Y: "Y = (if ?base then Pool_BalanceAsset pool else Pool_BalanceCacao pool)"
    and x: "?x \<noteq> 0" and e0: "CalcAssetEmission S X ?x Y = Some e0"
    and amt: "RoundToDecimal S e0 (Pool_Decimals pool) = Some amt" "amt < Y"
    and settle: "swap_settle S B w tx (Coin_Asset coin) target pool X ?x Y amt = Some (None, w')"
    using swapOne_steps [OF swap tx L1] unfolding asset p_def by metis
  obtain up down kv where up: "uint_add S X ?x = Some up" "SafeSub S Y amt = Some down"
    and kv: "SetPool (W_kv w) (if ?base then pool\<lparr>Pool_BalanceCacao := up, Pool_BalanceAsset := down\<rparr>
           else pool\<lparr>Pool_BalanceAsset := up, Pool_BalanceCacao := down\<rparr>) = Inr kv"
    and w': "w' = w\<lparr>W_kv := kv\<rparr>"
    using settle_layer1 [OF settle L1] by blast
  have ud: "up = X + ?x" "down = Y - amt" using up by (simp_all add: uint_add_Some SafeSub_eq)
  define q where "q = (if ?base then pool\<lparr>Pool_BalanceCacao := up, Pool_BalanceAsset := down\<rparr>
           else pool\<lparr>Pool_BalanceAsset := up, Pool_BalanceCacao := down\<rparr>)"
  have get: "GetPool kv b = (if Asset_String b = Asset_String asset then q else GetPool (W_kv w) b)" for b
    using GetPool_after_SetPool [OF kv] own av
    by (auto simp: q_def pool p_def decode_pool_def Pool_IsAvailable_def)
  have p': "p' = q" using get [of asset] by (simp add: p'_def w')
  have "amt \<le> e0" using RoundToDecimal_le [OF amt(1)] .
  have e0': "e0 = ?x * X * Y div ((?x + X) * (?x + X))" using CalcAssetEmission_Some [OF e0] .
  have "X * Y \<le> (X + ?x) * (Y - e0)" and "4 * e0 \<le> Y"
    unfolding e0' using emission_bounds(2,3) x by simp_all
  moreover have "(X + ?x) * (Y - e0) \<le> (X + ?x) * (Y - amt)"
    using \<open>amt \<le> e0\<close> by (intro mult_le_mono2 diff_le_mono2)
  ultimately have prod: "X * Y \<le> (X + ?x) * (Y - amt)" and quarter: "4 * amt \<le> Y"
    using \<open>amt \<le> e0\<close> by linarith+
  show "Pool_BalanceCacao p * Pool_BalanceAsset p \<le> Pool_BalanceCacao p' * Pool_BalanceAsset p'"
    using prod unfolding p' q_def ud X Y pool by (auto simp: mult.commute)
  show "4 * amt \<le> (if ?base then Pool_BalanceAsset p else Pool_BalanceCacao p)"
    using quarter Y pool by (auto split: if_splits)
  show "if ?base then Pool_BalanceCacao p' = Pool_BalanceCacao p + ?x
           \<and> Pool_BalanceAsset p = Pool_BalanceAsset p' + amt
         else Pool_BalanceAsset p' = Pool_BalanceAsset p + ?x
           \<and> Pool_BalanceCacao p = Pool_BalanceCacao p' + amt"
    using amt(2) unfolding p' q_def ud X Y pool by (auto split: if_splits)
  show "Pool_LPUnits p' = Pool_LPUnits p" unfolding p' q_def pool by simp
  show "W_bank w' = W_bank w" by (simp add: w')
  show "Asset_String b \<noteq> Asset_String asset \<Longrightarrow> GetPool (W_kv w') b = GetPool (W_kv w) b"
    using get by (simp add: w')
qed

end

text \<open>A swap without error passed the limits, and its outbound, if it needs one, was accepted.\<close>

definition outbound_accepted ::
  "'b txout_store \<Rightarrow> Tx \<Rightarrow> Asset \<Rightarrow> address \<Rightarrow> nat \<Rightarrow> nat \<Rightarrow> 'b world \<Rightarrow> bool" where
  "outbound_accepted txout tx target dest st amt w' \<longleftrightarrow>
     (\<exists>w1 toi. txout w1 toi st = Some (Inr True, w') \<and> TOI_Coin toi = NewCoin target amt
       \<and> TOI_ToAddress toi = dest \<and> TOI_InHash toi = Tx_ID tx \<and> TOI_Chain toi = Asset_GetChain target)"

lemma outbound_acceptedI:
  "txout w1 toi st = Some (Inr True, w') \<Longrightarrow> TOI_Coin toi = NewCoin target amt \<Longrightarrow>
    TOI_ToAddress toi = dest \<Longrightarrow> TOI_InHash toi = Tx_ID tx \<Longrightarrow> TOI_Chain toi = Asset_GetChain target \<Longrightarrow>
    outbound_accepted txout tx target dest st amt w'"
  unfolding outbound_accepted_def by blast

lemma outbound_step_ok:
  assumes "do { w1 \<leftarrow> m; do { (r, w2) \<leftarrow> txout w1 toi st; Some (case r of
        Inl _ \<Rightarrow> ((amt, evts, fails m1), w2)
      | Inr added \<Rightarrow> ((amt, evts, if \<not> added then fails m2 else None), w2)) } }
      = Some ((r, evts', None), w')"
  obtains w1 where "txout w1 toi st = Some (Inr True, w')" and "r = amt" and "evts' = evts"
proof -
  from assms obtain w1 r0 w2 where t: "txout w1 toi st = Some (r0, w2)" and
    "(case r0 of Inl _ \<Rightarrow> ((amt, evts, fails m1), w2)
      | Inr added \<Rightarrow> ((amt, evts, if \<not> added then fails m2 else None), w2)) = ((r, evts', None), w')"
    by (auto simp: bind_Some_iff)
  with that show ?thesis by (cases r0) (auto split: if_splits)
qed

lemma swap_finish_limits:
  assumes "swap_finish S txout w h tx target dest st agg aggt aggl fee amt evts = Some ((r, evts', None), w')"
  shows "r = amt \<and> 0 < r \<and> st \<le> r \<and> (Asset_IsBase target \<longrightarrow> fee < r) \<and> evts' = evts
    \<and> (Address_IsNoop dest \<or> outbound_accepted txout tx target dest st r w')"
proof -
  have c1: "\<not> (st \<noteq> 0 \<and> amt < st)"
  proof
    assume "st \<noteq> 0 \<and> amt < st"
    with assms show False unfolding swap_finish_def by simp
  qed
  note a1 = assms [unfolded swap_finish_def if_not_P [OF c1]]
  have c2: "\<not> (Asset_IsBase target \<and> amt \<le> fee)"
  proof
    assume "Asset_IsBase target \<and> amt \<le> fee"
    with a1 show False by simp
  qed
  note a2 = a1 [unfolded if_not_P [OF c2]]
  have c3: "amt \<noteq> 0" by (rule notI) (use a2 in simp)
  note a3 = a2 [unfolded if_not_P [OF c3]]
  have "r = amt \<and> evts' = evts \<and> (Address_IsNoop dest \<or> outbound_accepted txout tx target dest st r w')"
  proof (cases "Address_IsNoop dest")
    case True
    then show ?thesis
      using a3 by (simp add: bind_Some_iff)
  next
    case False
    note sent = a3 [unfolded Let_def if_not_P [OF False]]
    show ?thesis
      by (rule outbound_step_ok [where txout = txout and st = st, OF sent])
        (intro conjI disjI2 outbound_acceptedI, assumption, assumption, assumption,
          (auto split: if_splits)[4])
  qed
  with c1 c2 c3 show ?thesis by auto
qed

lemma swap_stop_ok:
  "(if b then Some ((0, l, fails m), w) else X) = Some ((amt, evts, None), w') \<Longrightarrow>
    X = Some ((amt, evts, None), w')"
  by (simp split: if_splits)

lemma swap_step_ok:
  assumes "do { (r, w) \<leftarrow> m; case r of Inl e \<Rightarrow> Some ((0, l, Some e), w) | Inr (a, v) \<Rightarrow> f a v w }
      = Some ((amt, evts, None), w')"
  obtains a v w where "m = Some (Inr (a, v), w)" and "f a v w = Some ((amt, evts, None), w')"
proof -
  from assms obtain r w where m: "m = Some (r, w)" by (cases m) auto
  with assms that show ?thesis by (cases r) auto
qed

section \<open>Properties\<close>

text \<open>C34: the price formulas never panic on depths and amounts below \<open>2^85\<close>, a swap pays out at most
  a quarter of the pool's side, and what it pays out together with the liquidity fee is the output
  of the constant product formula without fee, up to one unit of rounding in favour of the pool.\<close>

theorem CalcAssetEmission_sound:
  assumes "cosmos_sdk S" and "X < 2 ^ 85" and "x < 2 ^ 85" and "Y < 2 ^ 85" and "0 < x"
  shows "\<exists>e f. CalcAssetEmission S X x Y = Some e \<and> CalcLiquidityFee S X x Y = Some f
    \<and> 4 * e \<le> Y \<and> X * Y \<le> (X + x) * (Y - e)
    \<and> e + f \<le> x * Y div (x + X) \<and> x * Y div (x + X) \<le> e + f + 1"
  using cosmos_sdk.formulas_defined [OF assms(1-4)] emission_bounds [where X = X and Y = Y, OF assms(5)]
    fee_and_emission [where X = X and Y = Y, OF assms(5)] by simp

theorem CalcAssetEmission_sound_witness:
  "\<exists>e f. CalcAssetEmission sdk256 10000 500 100 = Some e \<and> CalcLiquidityFee sdk256 10000 500 100 = Some f
    \<and> 4 * e \<le> 100 \<and> e + f \<le> 4"
  using CalcAssetEmission_sound [OF sdk256.cosmos_sdk_axioms, of 10000 500 100] by auto


definition sample_world :: "ledger world" where
  "sample_world =
     \<lparr>W_kv = empty_store\<lparr>K_pools := [(pool_key BTCAsset, sample_pool)]\<rparr>, W_bank = empty_ledger\<rparr>"

definition sample_tx :: Tx where
  "sample_tx = NewTx (replicate 64 CHR ''A'') ''from'' ''to'' [NewCoin BaseNative 500] [] ''swap''"

lemma sample_assets:
  "Asset_IsBase BaseNative" "\<not> Asset_IsSyntheticAsset BTCAsset" "\<not> Asset_IsSyntheticAsset BaseNative"
  "Asset_GetLayer1Asset BTCAsset = BTCAsset" "\<not> Asset_IsEmpty BTCAsset" "\<not> Asset_IsVaultAsset BTCAsset"
  by code_simp+

lemma sample_slip: "CalcSwapSlip sdk256 10000 500 = Some 476"
  by (simp add: CalcSwapSlip_def sdk256_def round_div_def dec_one_def Let_def)

lemma sample_units:
  "Pool_CalcUnits sdk256 (\<lambda>_. True) sample_pool 0 = Some (1000, sample_pool)"
  using sample_assets(6)
  by (simp add: Pool_CalcUnits_def Pool_CalcUnitsV80_def sample_pool_def NewPool_def sdk256.uint_laws
      sdk256.SafeSub_eq Pool_GetPoolUnits_def)

lemma sample_pool_get:
  "GetPool (W_kv sample_world) BTCAsset = sample_pool" "PoolExist (W_kv sample_world) BTCAsset"
  "K_version (W_kv sample_world) = (\<lambda>_. True)"
  by (simp_all add: GetPool_def PoolExist_def sample_world_def kv_get_def decode_pool_def sample_pool_def
      NewPool_def empty_store_def)

lemma sample_supply: "GetTotalSupply ledger_bank sample_world a = Some 0"
  by (simp add: GetTotalSupply_def ledger_bank_def empty_ledger_def sample_world_def uint64_of_def)

lemma sample_pool_simps:
  "Pool_Asset sample_pool = BTCAsset" "Pool_IsAvailable sample_pool" "Pool_BalanceCacao sample_pool = 10000"
  "Pool_BalanceAsset sample_pool = 100" "Pool_Decimals sample_pool = 0"
  by (simp_all add: sample_pool_def NewPool_def Pool_IsAvailable_def)

lemma sample_uint64: "K_uint64 (W_kv sample_world) = []"
  by (simp add: sample_world_def empty_store_def)

lemma sample_fee_value: "Pool_AssetValueInRune sdk256 sample_pool 0 = 0"
  by (simp add: Pool_AssetValueInRune_def sample_pool_simps GetUncappedShare_def sdk256_def round_div_def
      dec_one_def)

lemma sample_swap:
  "\<exists>evt w'. swapOne sdk256 ledger_bank sample_world sample_tx BTCAsset st 10 0 = Some (Inr (4, evt), w')
    \<and> ES_LiquidityFeeInCacao evt = 0 \<and> K_uint64 (W_kv w') = []"
  using SetPool_sample sample_fee_value
  by (simp add: sample_uint64 NewEventSwap_def add: swapOne_def sample_tx_def NewTx_def NewCoin_def sample_assets sample_pool_get sample_units
      sample_supply sample_pool_simps virtual_depth_def sdk256.formulas_defined sample_slip
      RoundToDecimal_def swap_settle_def sdk256.uint_add sdk256.SafeSub_eq SetPool_def)


text \<open>C8: a swap that returns no error respects its limits: it pays a positive amount, at least the
  price limit of the message, and more than the transaction fee when it pays CACAO; and unless the
  destination is the no-op address, the outbound manager accepted an item that sends exactly this
  amount of the target asset to the destination.\<close>

theorem Swap_respects_limits:
  assumes "Swap S B isChain txout w height tx target dest st agg aggt aggl fee vm
      = Some ((amt, evts, None), w')"
  shows "0 < amt \<and> st \<le> amt \<and> (Asset_IsBase target \<longrightarrow> fee < amt)
    \<and> (Address_IsNoop dest \<or> outbound_accepted txout tx target dest st amt w')"
proof -
  from assms have v: "Swapper_validateMessage tx target dest = None"
    by (auto simp: Swap_def Let_def split: option.splits)
  with assms obtain coin cs where c: "Tx_Coins tx = coin # cs"
    by (auto simp: Swap_def Let_def split: list.splits)
  note steps = assms [unfolded Swap_def v c Let_def option.case list.case,
      THEN swap_stop_ok, THEN swap_stop_ok, THEN swap_stop_ok, THEN swap_stop_ok]
  show ?thesis
  proof (cases "\<not> Asset_IsBase (Coin_Asset coin) \<and> \<not> Asset_IsBase target")
    case True
    show ?thesis
      using steps [unfolded if_P [OF True]]
      by (elim swap_step_ok) (drule swap_finish_limits, simp add: outbound_accepted_def)
  next
    case False
    show ?thesis
      using steps [unfolded if_not_P [OF False]]
      by (elim swap_step_ok) (drule swap_finish_limits, simp)
  qed
qed


lemma sample_fees:
  assumes "K_uint64 (W_kv w) = []" and "ES_LiquidityFeeInCacao evt = 0"
  shows "\<exists>w'. add_fees sdk256 w h [evt] = Some w'"
  using assms by (simp add: AddToLiquidityFees_def sdk256.uint_add uint64_of_def GetTotalLiquidityFees_def
      GetPoolLiquidityFees_def getUint64_def kv_get_def Let_def)

lemma sample_valid: "Swapper_validateMessage sample_tx BTCAsset ''noop'' = None"
  by code_simp

lemma sample_Swap:
  "\<exists>evts w'. Swap sdk256 ledger_bank (\<lambda>_ _. True) (\<lambda>w _ _. Some (Inr True, w)) sample_world 7 sample_tx
    BTCAsset ''noop'' 3 [] [] None 10 0 = Some ((4, evts, None), w')"
proof -
  obtain evt w1 where s: "swapOne sdk256 ledger_bank sample_world sample_tx BTCAsset 3 10 0
      = Some (Inr (4, evt), w1)"
    and fee: "ES_LiquidityFeeInCacao evt = 0" "K_uint64 (W_kv w1) = []"
    using sample_swap [of 3] by blast
  obtain w2 where "add_fees sdk256 w1 7 [evt] = Some w2" using sample_fees [OF fee(2,1)] by blast
  moreover have "Address_IsNoop ''noop''" "\<not> Asset_Equals BaseNative BTCAsset" "\<not> Asset_IsBase BTCAsset"
    by code_simp+
  moreover have "Tx_Coins sample_tx = [NewCoin BaseNative 500]" by (simp add: sample_tx_def NewTx_def)
  ultimately show ?thesis
    using s sample_assets sample_valid by (simp add: Swap_def NewCoin_def swap_finish_def del: add_fees.simps)
qed

theorem Swap_respects_limits_witness:
  "\<exists>amt evts w'. Swap sdk256 ledger_bank (\<lambda>_ _. True) (\<lambda>w _ _. Some (Inr True, w)) sample_world 7
    sample_tx BTCAsset ''noop'' 3 [] [] None 10 0 = Some ((amt, evts, None), w') \<and> 0 < amt \<and> 3 \<le> amt"
proof -
  obtain amt evts w' where s: "Swap sdk256 ledger_bank (\<lambda>_ _. True) (\<lambda>w _ _. Some (Inr True, w))
      sample_world 7 sample_tx BTCAsset ''noop'' 3 [] [] None 10 0 = Some ((amt, evts, None), w')"
    using sample_Swap by blast
  from Swap_respects_limits [OF s] have "0 < amt \<and> 3 \<le> amt" by simp
  with s show ?thesis by blast
qed

end
