(* ===== verification/Helpers.thy ===== *)
theory Helpers
  imports Inflation "HOL-Library.Multiset"
begin

text \<open>
  The helpers the handlers and managers share, \<open>x/mayachain/helpers.go\<close>: the tests whether trading, a
  chain or liquidity actions are halted, the withdrawal tiers, the price of a dollar, the security
  bond of the network, the fee of a refund and the split of gas. What the sources read from the
  context and the manager (the SDK, the address codecs, the constants, the block height) is the
  record \<open>env\<close>; the keeper is the store, or the world where coins move.
\<close>

record env =
  E_sdk :: sdk
  E_codecs :: codecs
  E_cv :: accessor
  E_height :: int

definition mimir :: "env \<Rightarrow> KVStore \<Rightarrow> string \<Rightarrow> int" where
  "mimir E k key = GetMimir (E_sdk E) k key"

definition config :: "env \<Rightarrow> KVStore \<Rightarrow> constant_name \<Rightarrow> int" where
  "config E k key = fetchConfigInt64 (E_sdk E) (E_cv E) k key"

section \<open>Authorisation\<close>

definition active_signer :: "env \<Rightarrow> 'b bank \<Rightarrow> KVStore \<Rightarrow> acc_address \<Rightarrow> bool" where
  "active_signer E B k signer \<longleftrightarrow>
     signer = bank_GetModuleAddress B AsgardName
     \<or> (let na = GetNodeAccount (E_sdk E) k (E_height E) signer
        in \<not> NodeAccount_IsEmpty na \<and> NA_Status na = NodeStatus_Active \<and> NA_Type na = NodeType_TypeValidator)"

definition isSignedByActiveNodeAccounts :: "env \<Rightarrow> 'b bank \<Rightarrow> KVStore \<Rightarrow> acc_address list \<Rightarrow> bool" where
  "isSignedByActiveNodeAccounts E B k signers \<longleftrightarrow> signers \<noteq> [] \<and> list_all (active_signer E B k) signers"

section \<open>Halts\<close>

text \<open>A halt that starts after the height in the mimir, and one that ends at it.\<close>

definition halted_since :: "env \<Rightarrow> KVStore \<Rightarrow> string \<Rightarrow> bool" where
  "halted_since E k key \<longleftrightarrow> mimir E k key > 0 \<and> mimir E k key < E_height E"

definition paused_until :: "env \<Rightarrow> KVStore \<Rightarrow> string \<Rightarrow> bool" where
  "paused_until E k key \<longleftrightarrow> mimir E k key > E_height E"

definition isChainHaltedV87 :: "env \<Rightarrow> KVStore \<Rightarrow> chain \<Rightarrow> bool" where
  "isChainHaltedV87 E k c \<longleftrightarrow>
     halted_since E k ''HaltChainGlobal'' \<or> paused_until E k ''NodePauseChainGlobal''
     \<or> halted_since E k (''Halt'' @ Chain_String c @ ''Chain'')
     \<or> halted_since E k (''SolvencyHalt'' @ Chain_String c @ ''Chain'')"

definition isChainHaltedV65 :: "env \<Rightarrow> KVStore \<Rightarrow> chain \<Rightarrow> bool" where
  "isChainHaltedV65 E k c \<longleftrightarrow>
     halted_since E k ''HaltChainGlobal'' \<or> paused_until E k ''NodePauseChainGlobal''
     \<or> halted_since E k (''Halt'' @ Chain_String c @ ''Chain'')"

definition isChainHalted :: "env \<Rightarrow> KVStore \<Rightarrow> chain \<Rightarrow> bool" where
  "isChainHalted E k c \<longleftrightarrow>
     (if K_version k (1, 87, 0) then isChainHaltedV87 E k c
      else if K_version k (0, 65, 0) then isChainHaltedV65 E k c else False)"

definition isGlobalTradingHalted :: "env \<Rightarrow> KVStore \<Rightarrow> bool" where
  "isGlobalTradingHalted E k \<longleftrightarrow> halted_since E k ''HaltTrading'' \<or> RagnarokInProgress k"

definition isChainTradingHalted :: "env \<Rightarrow> KVStore \<Rightarrow> chain \<Rightarrow> bool" where
  "isChainTradingHalted E k c \<longleftrightarrow>
     halted_since E k (''Halt'' @ Chain_String c @ ''Trading'') \<or> isChainHalted E k c"

definition WhitelistedArbs :: "string list" where
  "WhitelistedArbs =
     [''maya1a7gg93dgwlulsrqf6qtage985ujhpu068zllw7'', ''thor1a7gg93dgwlulsrqf6qtage985ujhpu0684pncw'',
      ''bc1qztdn5395243l3zwskwdxaghgrgs8swy5fjrhls'', ''qq2pan7svvhwc5ttyc4u3dqnl2hlmfzkmudfsj8ayh'',
      ''0xef1c6f153afaf86424fd984728d32535902f1c3d'', ''bnb13sjakc98xrjz4we6d8a546xvlvrzver3pdfhap'',
      ''ltc1qwhlcemz3vwpzph8tmad47r4gm5r0mdwwhf4sl9'']"

definition whitelisted :: "codecs \<Rightarrow> address \<Rightarrow> bool" where
  "whitelisted L fromAddress \<longleftrightarrow>
     list_ex (\<lambda>raw. case NewAddress L (trimSpace raw) of Inl _ \<Rightarrow> False | Inr a \<Rightarrow> Address_Equals a fromAddress)
       WhitelistedArbs"

text \<open>The message whose trading is tested.\<close>

datatype trade_msg = Trade_Swap MsgSwap | Trade_AddLiquidity MsgAddLiquidity | Trade_Other

fun isTradingHaltV65 :: "env \<Rightarrow> KVStore \<Rightarrow> trade_msg \<Rightarrow> bool" where
  "isTradingHaltV65 E k (Trade_Swap m) =
     (\<not> whitelisted (E_codecs E) (Tx_FromAddress (MS_Tx m))
      \<and> (let source = (case Tx_Coins (MS_Tx m) of [] \<Rightarrow> EmptyChain
                         | coin # _ \<Rightarrow> Asset_Chain (Asset_GetLayer1Asset (Coin_Asset coin)));
             target = Asset_Chain (Asset_GetLayer1Asset (MS_TargetAsset m))
         in isChainTradingHalted E k source \<or> isChainTradingHalted E k target \<or> isGlobalTradingHalted E k))"
| "isTradingHaltV65 E k (Trade_AddLiquidity m) =
     (isChainTradingHalted E k (Asset_Chain (MA_Asset m)) \<or> isGlobalTradingHalted E k)"
| "isTradingHaltV65 E k Trade_Other = isGlobalTradingHalted E k"

definition isTradingHalt :: "env \<Rightarrow> KVStore \<Rightarrow> trade_msg \<Rightarrow> bool" where
  "isTradingHalt E k m \<longleftrightarrow> K_version k (0, 65, 0) \<and> isTradingHaltV65 E k m"

definition isLPPausedV1 :: "env \<Rightarrow> KVStore \<Rightarrow> chain \<Rightarrow> bool" where
  "isLPPausedV1 E k c \<longleftrightarrow> halted_since E k ''PauseLP'' \<or> halted_since E k (''PauseLP'' @ Chain_String c)"

definition isLPPaused :: "env \<Rightarrow> KVStore \<Rightarrow> chain \<Rightarrow> bool" where
  "isLPPaused E k c \<longleftrightarrow> K_version k (0, 1, 0) \<and> isLPPausedV1 E k c"

section \<open>Liquidity auction and withdrawal tiers\<close>

definition isLiquidityAuction :: "env \<Rightarrow> KVStore \<Rightarrow> bool" where
  "isLiquidityAuction E k \<longleftrightarrow>
     (let v = mimir E k (ConstantName_String ''LiquidityAuction'') in \<not> v < 0 \<and> v > 0 \<and> E_height E \<le> v)"

text \<open>The value of a tier, \<open>None\<close> for the default case of the switch.\<close>

definition by_tier :: "env \<Rightarrow> KVStore \<Rightarrow> int \<Rightarrow> constant_name \<Rightarrow> constant_name \<Rightarrow> constant_name \<Rightarrow> int option" where
  "by_tier E k tier n1 n2 n3 =
     (if tier = C_int64 (E_cv E) ''WithdrawTier1'' then Some (config E k n1)
      else if tier = C_int64 (E_cv E) ''WithdrawTier2'' then Some (config E k n2)
      else if tier = C_int64 (E_cv E) ''WithdrawTier3'' then Some (config E k n3)
      else None)"

definition isWithinWithdrawDaysLimit :: "env \<Rightarrow> KVStore \<Rightarrow> address \<Rightarrow> bool" where
  "isWithinWithdrawDaysLimit E k addr \<longleftrightarrow>
     (let blocksPerDay = C_int64 (E_cv E) ''BlocksPerDay'';
          tier = GetLiquidityAuctionTier (E_codecs E) k addr;
          liquidityAuction = mimir E k (ConstantName_String ''LiquidityAuction'')
      in \<not> liquidityAuction < 1
         \<and> (case by_tier E k tier ''WithdrawDaysTier1'' ''WithdrawDaysTier2'' ''WithdrawDaysTier3'' of
              None \<Rightarrow> False
            | Some withdrawDays \<Rightarrow> E_height E > liquidityAuction
                \<and> E_height E \<le> wrap64 (liquidityAuction + wrap64 (withdrawDays * blocksPerDay))))"

definition getWithdrawLimit :: "env \<Rightarrow> KVStore \<Rightarrow> address \<Rightarrow> int" where
  "getWithdrawLimit E k addr =
     (case by_tier E k (GetLiquidityAuctionTier (E_codecs E) k addr)
             ''WithdrawLimitTier1'' ''WithdrawLimitTier2'' ''WithdrawLimitTier3'' of
        None \<Rightarrow> 10000 | Some withdrawLimit \<Rightarrow> withdrawLimit)"

section \<open>The dollar\<close>

definition usd_assets :: "Asset list" where
  "usd_assets = map (\<lambda>s. case NewAsset s of Inl _ \<Rightarrow> EmptyAsset | Inr a \<Rightarrow> a)
     [''BNB.BUSD-BD1'', ''ETH.USDC-0XA0B86991C6218B36C1D19D4A2E9EB0CE3606EB48'',
      ''ETH.USDT-0XDAC17F958D2EE523A2206206994597C13D831EC7'']"

definition usd_prices :: "env \<Rightarrow> KVStore \<Rightarrow> nat list" where
  "usd_prices E k =
     filter (\<lambda>v. v \<noteq> 0)
       (map (\<lambda>a. Pool_AssetValueInRune (E_sdk E) (GetPool k a) One)
         (filter (\<lambda>a. \<not> (isGlobalTradingHalted E k \<or> isChainTradingHalted E k (Asset_Chain a))
                      \<and> Pool_Status (GetPool k a) = PoolStatus_Available) usd_assets))"

text \<open>The order compares by \<open>Uint64\<close>, which panics on a wider price as soon as there are two.\<close>

definition median_price :: "sdk \<Rightarrow> nat list \<Rightarrow> nat option" where
  "median_price S usd =
     (if usd = [] then Some 0
      else if length usd > 1 \<and> list_ex (\<lambda>v. uint64_of v = None) usd then None
      else
        let sorted_usd = sort usd; n = length usd in
        if n mod 2 > 0 then Some (sorted_usd ! (n div 2))
        else do { s \<leftarrow> uint_add S (sorted_usd ! (n div 2 - 1)) (sorted_usd ! (n div 2)); uint_quo S s 2 })"

definition DollarInRune :: "env \<Rightarrow> KVStore \<Rightarrow> nat option" where
  "DollarInRune E k =
     (let dollarInRune = mimir E k ''DollarInRune'' in
      if dollarInRune > 0 then Some (uint64_cast dollarInRune)
      else median_price (E_sdk E) (usd_prices E k))"

section \<open>Bonds\<close>

fun node_bond_loop :: "env \<Rightarrow> KVStore \<Rightarrow> acc_address \<Rightarrow> BondProvider list \<Rightarrow> nat \<Rightarrow> nat option" where
  "node_bond_loop E k node [] nodeBond = Some nodeBond"
| "node_bond_loop E k node (b # bs) nodeBond =
     (if \<not> BP_Bonded b then node_bond_loop E k node bs nodeBond
      else do {
        bond \<leftarrow> CalcLPLiquidityBond (E_sdk E) (E_codecs E) k (acc_string (E_sdk E) (BP_BondAddress b)) node;
        nb \<leftarrow> uint_add (E_sdk E) nodeBond bond;
        node_bond_loop E k node bs nb
      })"

definition CalcNodeLiquidityBond :: "env \<Rightarrow> KVStore \<Rightarrow> NodeAccount \<Rightarrow> nat option" where
  "CalcNodeLiquidityBond E k na =
     node_bond_loop E k (NA_NodeAddress na)
       (BPS_Providers (GetBondProviders (E_sdk E) k (NA_NodeAddress na))) 0"

fun getNodeAccountsBond :: "env \<Rightarrow> KVStore \<Rightarrow> node_accounts \<Rightarrow> nat list option" where
  "getNodeAccountsBond E k [] = Some []"
| "getNodeAccountsBond E k (na # nas) =
     do {
       naBond \<leftarrow> CalcNodeLiquidityBond E k na;
       rest \<leftarrow> getNodeAccountsBond E k nas;
       Some (if naBond \<noteq> 0 then naBond # rest else rest)
     }"

definition two_thirds_index :: "nat \<Rightarrow> nat" where
  "two_thirds_index n = (if n mod 3 = 0 then n * 2 div 3 - 1 else n * 2 div 3)"

definition getEffectiveSecurityBond :: "env \<Rightarrow> KVStore \<Rightarrow> node_accounts \<Rightarrow> nat option" where
  "getEffectiveSecurityBond E k nas =
     do {
       naBonds \<leftarrow> getNodeAccountsBond E k nas;
       if naBonds = [] then Some 0
       else sum_uints (E_sdk E) (take (two_thirds_index (length naBonds) + 1) (sort naBonds)) 0
     }"

definition getHardBondCap :: "env \<Rightarrow> KVStore \<Rightarrow> node_accounts \<Rightarrow> nat option" where
  "getHardBondCap E k nas =
     (if nas = [] then Some 0
      else do {
        naBonds \<leftarrow> getNodeAccountsBond E k nas;
        if naBonds = [] then Some 0
        else Some (sort naBonds ! two_thirds_index (length naBonds))
      })"

definition removeBondAddress :: "env \<Rightarrow> KVStore \<Rightarrow> address \<Rightarrow> KVStore" where
  "removeBondAddress E k addr =
     SetLiquidityProviders k
       (LPs_SetNodeAccount
         (GetLiquidityProviderByAssets (E_codecs E) k (GetLiquidityPools (K_version k)) addr) [])"

definition calcLiquidityInCacao :: "env \<Rightarrow> KVStore \<Rightarrow> Asset \<Rightarrow> nat \<Rightarrow> nat result" where
  "calcLiquidityInCacao E k asset units =
     (let pool = GetPool k asset; S = E_sdk E in
      if Pool_LPUnits pool < units then err ''pool doesn't have enough LP units''
      else map_option Inr (uint_add S (GetSafeShare S units (Pool_LPUnits pool) (Pool_BalanceCacao pool))
             (Pool_AssetValueInRune S pool (GetSafeShare S units (Pool_LPUnits pool) (Pool_BalanceAsset pool)))))"

section \<open>Fees and gas\<close>

record Fee =
  Fee_Coins :: coins
  Fee_PoolDeduct :: nat

text \<open>The first refunded coin of the asset, \<open>NoCoin\<close> where there is none.\<close>

definition refunded :: "coins \<Rightarrow> Asset \<Rightarrow> Coin" where
  "refunded output asset =
     (case find (\<lambda>c. Asset_Equals (Coin_Asset c) asset) output of None \<Rightarrow> NoCoin | Some c \<Rightarrow> c)"

fun fee_coins :: "sdk \<Rightarrow> coins \<Rightarrow> coins \<Rightarrow> coins option" where
  "fee_coins S [] output = Some []"
| "fee_coins S (i # input) output =
     (let outCoin = refunded output (Coin_Asset i) in
      if Coin_IsEmpty outCoin then
        do {
          rest \<leftarrow> fee_coins S input output;
          Some (if Coin_Amount i \<noteq> 0 then NewCoin (Coin_Asset i) (Coin_Amount i) # rest else rest)
        }
      else
        do {
          d \<leftarrow> uint_sub S (Coin_Amount i) (Coin_Amount outCoin);
          rest \<leftarrow> fee_coins S input output;
          Some (if d \<noteq> 0 then NewCoin (Coin_Asset i) d # rest else rest)
        })"

definition getFee :: "sdk \<Rightarrow> coins \<Rightarrow> coins \<Rightarrow> nat \<Rightarrow> Fee option" where
  "getFee S input output transactionFee =
     do {
       fc \<leftarrow> fee_coins S input output;
       d \<leftarrow> uint_mul S transactionFee (length (filter (\<lambda>c. \<not> Asset_IsBase (Coin_Asset c)) output));
       Some \<lparr>Fee_Coins = fc, Fee_PoolDeduct = d\<rparr>
     }"

fun ygg_value :: "env \<Rightarrow> KVStore \<Rightarrow> coins \<Rightarrow> nat \<Rightarrow> nat option" where
  "ygg_value E k [] yggRune = Some yggRune"
| "ygg_value E k (coin # cs) yggRune =
     do {
       v \<leftarrow> uint_add (E_sdk E) yggRune
         (if Asset_IsBase (Coin_Asset coin) then Coin_Amount coin
          else Pool_AssetValueInRune (E_sdk E) (GetPool k (Coin_Asset coin)) (Coin_Amount coin));
       ygg_value E k cs v
     }"

definition getTotalYggValueInRune :: "env \<Rightarrow> KVStore \<Rightarrow> Vault \<Rightarrow> nat option" where
  "getTotalYggValueInRune E k ygg = ygg_value E k (V_Coins ygg) 0"

text \<open>The loop over the pools of the protocol owned liquidity; the version of the manager is the
  version of the store.\<close>

fun pol_value :: "env \<Rightarrow> 'b bank \<Rightarrow> 'b world \<Rightarrow> address \<Rightarrow> Pool list \<Rightarrow> nat \<Rightarrow> nat option" where
  "pol_value E B w polAddress [] acc = Some acc"
| "pol_value E B w polAddress (pool # pools) acc =
     (if Asset_IsNative (Pool_Asset pool) \<or> Pool_BalanceCacao pool = 0
      then pol_value E B w polAddress pools acc
      else do {
        synthSupply \<leftarrow> GetTotalSupply B w (Asset_GetSyntheticAsset (Pool_Asset pool));
        (_, pool') \<leftarrow> Pool_CalcUnits (E_sdk E) (K_version (W_kv w)) pool synthSupply;
        units \<leftarrow> Pool_GetPoolUnits (E_sdk E) pool';
        let lp = GetLiquidityProvider (E_codecs E) (W_kv w) (Pool_Asset pool) polAddress;
        twice \<leftarrow> uint_mul (E_sdk E) (GetSafeShare (E_sdk E) (LP_Units lp) units (Pool_BalanceCacao pool')) 2;
        acc' \<leftarrow> uint_add (E_sdk E) acc twice;
        pol_value E B w polAddress pools acc'
      })"

definition polPoolValue :: "env \<Rightarrow> 'b bank \<Rightarrow> 'b world \<Rightarrow> nat result" where
  "polPoolValue E B w =
     (case GetModuleAddress (E_sdk E) (E_codecs E) B ReserveName of
        Inl e \<Rightarrow> Some (Inl e)
      | Inr polAddress \<Rightarrow> map_option Inr (pol_value E B w polAddress (GetPools (W_kv w)) 0))"

definition updateTxOutGasV88 :: "KVStore \<Rightarrow> TxOutItem \<Rightarrow> gas \<Rightarrow> go_error + KVStore" where
  "updateTxOutGasV88 k txOut g =
     (if TOI_InHash txOut = BlankTxID then Inr k
      else
        let voter = GetObservedTxInVoter k (TOI_InHash txOut) in
        if list_ex (\<lambda>a. TxOutItem_Equals a txOut) (OV_Actions voter)
        then Inr (SetObservedTxInVoter k
               (voter\<lparr>OV_Actions := update_first (\<lambda>a. TxOutItem_Equals a txOut)
                  (\<lambda>a. a\<lparr>TOI_MaxGas := g\<rparr>) (OV_Actions voter)\<rparr>))
        else Inl (GoError ''fail to find tx out in ObservedTxVoter''))"

definition updateTxOutGas :: "KVStore \<Rightarrow> TxOutItem \<Rightarrow> gas \<Rightarrow> go_error + KVStore" where
  "updateTxOutGas k txOut g =
     (if K_version k (1, 88, 0) then updateTxOutGasV88 k txOut g
      else if K_version k (0, 1, 0) then Inr k
      else Inl (GoError ''updateTxOutGas: invalid version''))"

text \<open>The remainder of a \<open>uint64\<close> division panics on a period of zero.\<close>

definition IsPeriodLastBlock :: "env \<Rightarrow> nat \<Rightarrow> bool option" where
  "IsPeriodLastBlock E blocksPerPeriod =
     (if blocksPerPeriod = 0 then None else Some (uint64_cast (E_height E) mod blocksPerPeriod = 0))"

definition CalculateMayaFundPercentage :: "env \<Rightarrow> Coin \<Rightarrow> (Coin \<times> Coin) option" where
  "CalculateMayaFundPercentage E coin =
     do {
       let mayaFundPerc = C_int64 (E_cv E) ''MayaFundPerc'';
       let reservePerc = wrap64 (100 - mayaFundPerc);
       x \<leftarrow> uint_mul (E_sdk E) (Coin_Amount coin) (uint64_cast mayaFundPerc);
       mayaGasAmt \<leftarrow> uint_quo (E_sdk E) x 100;
       y \<leftarrow> uint_mul (E_sdk E) (Coin_Amount coin) (uint64_cast reservePerc);
       gasAmt \<leftarrow> uint_quo (E_sdk E) y 100;
       Some (coin\<lparr>Coin_Amount := gasAmt\<rparr>, NewCoin (Coin_Asset coin) mayaGasAmt)
     }"

section \<open>The security bond\<close>

text \<open>In a sorted list no choice of as many elements has a smaller sum than the front.\<close>

lemma sum_front_least:
  fixes xs :: "nat list"
  assumes "sorted xs" and "M \<subseteq># mset xs" and "n \<le> size M"
  shows "sum_list (take n xs) \<le> sum_mset M"
  using assms
proof (induction xs arbitrary: n M)
  case (Cons x xs)
  show ?case
  proof (cases n)
    case (Suc j)
    obtain y M' where M: "M = add_mset y M'" and y: "x \<le> y" and M': "M' \<subseteq># mset xs"
    proof (cases "x \<in># M")
      case True
      then obtain M' where "M = add_mset x M'" by (metis insert_DiffM)
      then show ?thesis using that [of x M'] Cons.prems(2) by simp
    next
      case False
      then have sub: "M \<subseteq># mset xs" using Cons.prems(2) by (simp add: subset_eq_diff_conv [symmetric])
          (metis diff_single_trivial mset.simps(2) subset_eq_diff_conv add_mset_add_single union_commute)
      from Suc Cons.prems(3) obtain y where "y \<in># M" by (metis Suc_le_D size_eq_Suc_imp_elem)
      then obtain M' where M: "M = add_mset y M'" by (metis insert_DiffM)
      moreover have "x \<le> y" using Cons.prems(1) mset_subset_eqD [OF sub \<open>y \<in># M\<close>] by simp
      moreover have "M' \<subseteq># mset xs" using sub M by (metis add_mset_subseteq_single_iff mset_subset_eq_insertD subset_mset.less_imp_le)
      ultimately show ?thesis using that by blast
    qed
    have "sum_list (take j xs) \<le> sum_mset M'"
      using Cons.IH [OF _ M'] Cons.prems(1,3) Suc M by simp
    then show ?thesis using Suc M y by simp
  qed simp
qed simp

lemma two_thirds_count: "0 < n \<Longrightarrow> 2 * n \<le> 3 * m \<Longrightarrow> two_thirds_index n + 1 \<le> m"
  by (auto simp: two_thirds_index_def) presburger+

section \<open>A sample environment\<close>

definition sample_codecs :: codecs where
  "sample_codecs =
     \<lparr>bech32_decode = (\<lambda>s. if hasPrefix s ''maya'' then Some ''maya'' else if hasPrefix s ''bc'' then Some ''bc'' else None),
      eth_IsHexAddress = (\<lambda>s. hasPrefix s ''0x''), utxo_decode = (\<lambda>_ _ _. None),
      bch_NewAddressPubKeyHash = (\<lambda>_ s. Some s), bch_NewAddressScriptHash = (\<lambda>_ s. Some s),
      bch_NewAddressScriptHashFromHash = (\<lambda>_ s. Some s), segwit_prefix = (\<lambda>_ _. ''bc''),
      bnb_prefix = (\<lambda>_. ''bnb''), account_prefix = ''maya''\<rparr>"

definition sample_env :: "int \<Rightarrow> env" where
  "sample_env h = \<lparr>E_sdk = sdk256, E_codecs = sample_codecs, E_cv = sample_accessor, E_height = h\<rparr>"

lemma sample_env_simps [simp]:
  "E_sdk (sample_env h) = sdk256" "E_codecs (sample_env h) = sample_codecs"
  "E_cv (sample_env h) = sample_accessor" "E_height (sample_env h) = h"
  by (simp_all add: sample_env_def)

text \<open>A node with one bonded provider, who bonds 30 of the 100 units of a pool.\<close>

definition bonded_pool :: Pool where
  "bonded_pool = sample_pool\<lparr>Pool_LPUnits := 100\<rparr>"

definition bonded_store :: KVStore where
  "bonded_store = empty_store
     \<lparr>K_pools := [(pool_key BTCAsset, bonded_pool)],
      K_liquidityProviders := [(lp_key sample_lp, sample_lp)],
      K_bondProviders := [(bond_key sdk256 ''n1'',
        \<lparr>BPS_NodeAddress = ''n1'', BPS_NodeOperatorFee = 0,
         BPS_Providers = [\<lparr>BP_BondAddress = ''maya1'', BP_Bonded = True\<rparr>]\<rparr>)]\<rparr>"

lemma bonded_keys:
  "lp_key (empty_provider sample_codecs BTCAsset ''maya1'') = lp_key sample_lp"
  "lp_key (empty_provider sample_codecs RUNEAsset ''maya1'') \<noteq> lp_key sample_lp"
  "lp_key (empty_provider sample_codecs ETHAsset ''maya1'') \<noteq> lp_key sample_lp"
  "Asset_Chain BaseAsset = BASEChain" "Address_IsChain sample_codecs ''maya1'' BASEChain"
  by (code_simp | rule conjI)+

lemma bonded_providers:
  "GetLiquidityProviderByAssets sample_codecs bonded_store (GetLiquidityPools (K_version bonded_store)) ''maya1''
    = [sample_lp]"
proof -
  have v: "GetLiquidityPools (K_version bonded_store) = [BTCAsset, RUNEAsset, ETHAsset]"
    by (simp add: GetLiquidityPools_def LiquidityPoolsV105_def bonded_store_def empty_store_def)
  have "GetLiquidityProvider sample_codecs bonded_store BTCAsset ''maya1'' = sample_lp"
    using bonded_keys(1) by (simp add: GetLiquidityProvider_def kv_get_def bonded_store_def decode_provider_def sample_lp_def)
  moreover have "LP_Units (GetLiquidityProvider sample_codecs bonded_store a ''maya1'') = 0"
    if "a \<in> {RUNEAsset, ETHAsset}" for a
    using that bonded_keys(2,3)
    by (auto simp: GetLiquidityProvider_def kv_get_def bonded_store_def empty_provider_def)
  ultimately show ?thesis by (simp add: GetLiquidityProviderByAssets_def v sample_lp_def)
qed

lemma bonded_value:
  "CalcLPLiquidityBond sdk256 sample_codecs bonded_store ''maya1'' ''n1'' = Some 6000"
proof -
  have p: "GetPool bonded_store BTCAsset = bonded_pool"
    by (simp add: GetPool_def kv_get_def bonded_store_def decode_pool_def bonded_pool_def sample_pool_def NewPool_def)
  have u: "units_bonded_to ''n1'' sample_lp = 30"
    by (simp add: units_bonded_to_def sample_lp_def)
  have "K_version bonded_store (1, 105, 0)" "LP_Asset sample_lp = BTCAsset"
    by (simp_all add: bonded_store_def empty_store_def sample_lp_def)
  then show ?thesis
    using bonded_providers
    by (simp add: CalcLPLiquidityBond_def calcLPLiquidityBondV105_def p u add_unit_value_def bonded_pool_def
        sample_pool_def NewPool_def GetSafeShare_def GetUncappedShare_def Pool_AssetValueInRune_def
        sdk256_def round_div_def dec_one_def)
qed

lemma bonded_nodes:
  "getNodeAccountsBond (sample_env 5) bonded_store [(sample_node [])\<lparr>NA_NodeAddress := ''n1''\<rparr>] = Some [6000]"
  using bonded_value
  by (simp add: CalcNodeLiquidityBond_def GetBondProviders_def kv_get_def bonded_store_def sdk256_def)

section \<open>Properties\<close>

text \<open>C30: the effective security bond is what an attack must lose. No choice of two thirds of the
  bonded nodes has less bond in all than \<open>getEffectiveSecurityBond\<close> says, and some choice has exactly
  that.\<close>

theorem getEffectiveSecurityBond_least:
  assumes "cosmos_sdk (E_sdk E)" and "getNodeAccountsBond E k nas = Some bonds"
    and "getEffectiveSecurityBond E k nas = Some eff" and "bonds \<noteq> []"
  shows "(\<forall>M. M \<subseteq># mset bonds \<and> 2 * length bonds \<le> 3 * size M \<longrightarrow> eff \<le> sum_mset M)
    \<and> (\<exists>M. M \<subseteq># mset bonds \<and> 2 * length bonds \<le> 3 * size M \<and> eff = sum_mset M)"
proof -
  let ?n = "two_thirds_index (length bonds) + 1"
  have eff: "eff = sum_list (take ?n (sort bonds))"
    using assms(2,3,4) sum_uints_Some [OF assms(1)] by (fastforce simp: getEffectiveSecurityBond_def)
  have least: "eff \<le> sum_mset M" if "M \<subseteq># mset bonds" "2 * length bonds \<le> 3 * size M" for M
    using sum_front_least [of "sort bonds" M ?n] that two_thirds_count [of "length bonds" "size M"] assms(4)
    by (simp add: eff)
  have "mset (take ?n (sort bonds)) \<subseteq># mset bonds"
    by (metis append_take_drop_id mset_append mset_sort mset_subset_eq_add_left)
  moreover have "2 * length bonds \<le> 3 * size (mset (take ?n (sort bonds)))"
    using assms(4) by (auto simp: two_thirds_index_def min_def)
  ultimately show ?thesis using least eff by (metis sum_mset_sum_list)
qed

theorem getEffectiveSecurityBond_least_witness:
  "\<exists>eff. getEffectiveSecurityBond (sample_env 5) bonded_store [(sample_node [])\<lparr>NA_NodeAddress := ''n1''\<rparr>] = Some eff
    \<and> (\<forall>M. M \<subseteq># {#6000#} \<and> 2 \<le> 3 * size M \<longrightarrow> eff \<le> sum_mset M)"
proof -
  have e: "getEffectiveSecurityBond (sample_env 5) bonded_store [(sample_node [])\<lparr>NA_NodeAddress := ''n1''\<rparr>] = Some 6000"
    by (simp add: getEffectiveSecurityBond_def bonded_nodes two_thirds_index_def sdk256.uint_add del: getNodeAccountsBond.simps)
  show ?thesis
    using getEffectiveSecurityBond_least [OF _ bonded_nodes e] sdk256.cosmos_sdk_axioms e by simp
qed

text \<open>C31: minting CACAO beyond the limit stops the network. When \<open>MintToModule\<close> leaves a supply above
  the configured maximum, trading, liquidity actions and every chain are halted from the second
  block on.\<close>

theorem MintToModule_overmint_halts:
  assumes "MintToModule (E_sdk E) B w m coin = Some (None, w')"
    and "K_version (W_kv w) = (\<lambda>_. True)" and "\<not> haveKraken (W_kv w)"
    and "0 < mimir E (W_kv w) ''MaxRuneSupply''"
    and "mimir E (W_kv w) ''MaxRuneSupply'' < int (bank_GetSupply B (W_bank w') (Asset_Native BaseAsset))"
    and "1 < E_height E"
  shows "isGlobalTradingHalted E (W_kv w') \<and> isLPPaused E (W_kv w') c \<and> isChainHalted E (W_kv w') c"
proof -
  have k: "W_kv w' = halt_everything (W_kv w)"
    using assms(1,2,4,5) by (auto simp: MintToModule_def Let_def mimir_def split: if_splits option.splits sum.splits)
  have keys: "toUpper KRAKEN = ''RELEASETHEKRAKEN''" "toUpper ''HaltTrading'' = ''HALTTRADING''"
    "toUpper ''HaltChainGlobal'' = ''HALTCHAINGLOBAL''" "toUpper ''PauseLP'' = ''PAUSELP''"
    "toUpper ''HaltTHORChain'' = ''HALTTHORCHAIN''"
    by (code_simp | rule conjI)+
  have kraken: "\<not> haveKraken (SetMimir k key v)" if "\<not> haveKraken k" "toUpper key \<noteq> toUpper KRAKEN" for k key v
    using that by (auto simp: SetMimir_def haveKraken_def)
  have v: "K_version (halt_everything (W_kv w)) = (\<lambda>_. True)" using assms(2) by (simp add: halt_everything_def)
  have g: "GetMimir S (halt_everything (W_kv w)) key = 1"
    if "toUpper key \<in> {''HALTTRADING'', ''HALTCHAINGLOBAL'', ''PAUSELP''}" for S key
    using that assms(2,3)
    by (auto simp: halt_everything_def GetMimir_SetMimir kraken keys simp del: toUpper_Cons)
  show ?thesis
    using g [of "''HaltTrading''"] g [of "''HaltChainGlobal''"] g [of "''PauseLP''"] assms(6) v
    by (simp add: k keys isGlobalTradingHalted_def isLPPaused_def isLPPausedV1_def isChainHalted_def
        isChainHaltedV87_def halted_since_def mimir_def del: toUpper_Cons)
qed

definition limited_world :: "ledger world" where
  "limited_world =
     \<lparr>W_kv = empty_store\<lparr>K_int64 := [(mimir_key ''MaxRuneSupply'', 5)]\<rparr>, W_bank = empty_ledger\<rparr>"

lemma limited_store:
  "K_version (W_kv limited_world) = (\<lambda>_. True)" "\<not> haveKraken (W_kv limited_world)"
  "GetMimir S (W_kv limited_world) ''MaxRuneSupply'' = 5"
proof -
  have u: "toUpper ''ReleaseTheKraken'' \<noteq> toUpper ''MaxRuneSupply''" by code_simp
  show "K_version (W_kv limited_world) = (\<lambda>_. True)" by (simp add: limited_world_def empty_store_def)
  show n: "\<not> haveKraken (W_kv limited_world)"
    using u by (simp add: haveKraken_def getInt64_def kv_get_def limited_world_def KRAKEN_def)
  then show "GetMimir S (W_kv limited_world) ''MaxRuneSupply'' = 5"
    by (simp add: GetMimir_def getInt64_def kv_get_def limited_world_def empty_store_def)
qed

theorem MintToModule_overmint_halts_witness:
  "\<exists>w'. MintToModule sdk256 ledger_bank limited_world ModuleName (NewCoin BaseNative 7) = Some (None, w')
    \<and> isGlobalTradingHalted (sample_env 2) (W_kv w') \<and> isChainHalted (sample_env 2) (W_kv w') BTCChain"
proof -
  have n: "Coin_IsNative (NewCoin BaseNative 7)" by code_simp
  obtain w' where m: "MintToModule sdk256 ledger_bank limited_world ModuleName (NewCoin BaseNative 7) = Some (None, w')"
    and s: "Led_supply (W_bank w') (Asset_Native BaseAsset) = 7"
    using n by (simp add: MintToModule_def Let_def ledger_bank_def native_coins_def NewCoin_def limited_world_def
        empty_ledger_def BaseAsset_def)
  have "mimir (sample_env 2) (W_kv limited_world) ''MaxRuneSupply'' = 5"
    by (simp add: mimir_def limited_store)
  then show ?thesis
    using MintToModule_overmint_halts [of "sample_env 2" ledger_bank limited_world ModuleName _ w' BTCChain]
      m s limited_store by (simp add: ledger_bank_def)
qed

lemma uint64_cast_id: "0 \<le> i \<Longrightarrow> i < 2 ^ 64 \<Longrightarrow> uint64_cast i = nat i"
  by (simp add: uint64_cast_def)

text \<open>The MAYA fund takes its part of gas and no more. The two coins of
  \<open>CalculateMayaFundPercentage\<close> are of the asset of the gas, add up to the gas or to one unit less, and
  the fund's is the configured percentage, rounded down.\<close>

lemma CalculateMayaFundPercentage_split:
  assumes "cosmos_sdk (E_sdk E)" and "CalculateMayaFundPercentage E coin = Some (g, m)"
    and "0 \<le> C_int64 (E_cv E) ''MayaFundPerc''" and "C_int64 (E_cv E) ''MayaFundPerc'' \<le> 100"
  shows "Coin_Asset g = Coin_Asset coin \<and> Coin_Asset m = Coin_Asset coin
    \<and> Coin_Amount m = Coin_Amount coin * nat (C_int64 (E_cv E) ''MayaFundPerc'') div 100
    \<and> Coin_Amount g + Coin_Amount m \<le> Coin_Amount coin
    \<and> Coin_Amount coin \<le> Coin_Amount g + Coin_Amount m + 1"
proof -
  obtain p where p: "C_int64 (E_cv E) ''MayaFundPerc'' = int p" "p \<le> 100"
    using assms(3,4) by (metis nonneg_int_cases of_nat_le_iff of_nat_numeral)
  have c: "uint64_cast (int p) = p" "uint64_cast (wrap64 (100 - int p)) = 100 - p"
    using p(2) by (simp_all add: uint64_cast_id wrap64_id nat_diff_distrib')
  let ?a = "Coin_Amount coin"
  have gm: "g = coin\<lparr>Coin_Amount := ?a * (100 - p) div 100\<rparr>" "m = NewCoin (Coin_Asset coin) (?a * p div 100)"
    using assms(2) by (auto simp: CalculateMayaFundPercentage_def bind_Some_iff p(1) c
        cosmos_sdk.uint_Some [OF assms(1)] Let_def)
  have "?a * (100 - p) + ?a * p = ?a * 100" using p(2) by (simp add: distrib_left [symmetric])
  then have "?a * (100 - p) div 100 + ?a * p div 100 \<le> ?a \<and> ?a \<le> ?a * (100 - p) div 100 + ?a * p div 100 + 1"
    by linarith
  then show ?thesis by (simp add: gm NewCoin_def p(1))
qed

end
