(* ===== verification/Gas.thy ===== *)
theory Gas
  imports Helpers
begin

text \<open>
  The gas manager, \<open>x/mayachain/manager_gas_current.go\<close> (\<open>GasMgrV104\<close>), and \<open>addGasFees\<close> of
  \<open>helpers.go\<close>. The manager collects the gas of the outbound transactions of a block; at the end of the
  block the pools that paid it are compensated with CACAO from the reserve. Its counters of
  transactions are a function with default 0, as the Go map; \<open>GM_started\<close> tells whether
  \<open>BeginBlock\<close> has set the manager.
\<close>

record GasPool =
  GP_Asset :: Asset
  GP_AssetAmt :: nat
  GP_CacaoAmt :: nat
  GP_Count :: int

record GasMgr =
  GM_gasEvent :: "GasPool list"
  GM_gas :: gas
  GM_gasCount :: "Asset \<Rightarrow> int"
  GM_started :: bool

definition newGasMgrV104 :: GasMgr where
  "newGasMgrV104 = \<lparr>GM_gasEvent = [], GM_gas = [], GM_gasCount = (\<lambda>_. 0), GM_started = False\<rparr>"

definition GasMgr_reset :: "GasMgr \<Rightarrow> GasMgr" where
  "GasMgr_reset gm = gm\<lparr>GM_gasEvent := [], GM_gas := [], GM_gasCount := (\<lambda>_. 0)\<rparr>"

definition GasMgr_BeginBlock :: "GasMgr \<Rightarrow> GasMgr" where
  "GasMgr_BeginBlock gm = GasMgr_reset (gm\<lparr>GM_started := True\<rparr>)"

definition AddGasAsset :: "sdk \<Rightarrow> GasMgr \<Rightarrow> gas \<Rightarrow> bool \<Rightarrow> GasMgr option" where
  "AddGasAsset S gm g increaseTxCount =
     do {
       total_gas \<leftarrow> Gas_Add S (GM_gas gm) g;
       let gm1 = gm\<lparr>GM_gas := total_gas\<rparr>;
       Some (if increaseTxCount
             then foldl (\<lambda>m coin. m\<lparr>GM_gasCount := (GM_gasCount m)
                    (Coin_Asset coin := wrap64 (GM_gasCount m (Coin_Asset coin) + 1))\<rparr>) gm1 g
             else gm1)
     }"

definition GasMgr_GetGas :: "GasMgr \<Rightarrow> gas" where
  "GasMgr_GetGas gm = GM_gas gm"

definition SubGas :: "sdk \<Rightarrow> GasMgr \<Rightarrow> gas \<Rightarrow> GasMgr option" where
  "SubGas S gm g = map_option (\<lambda>t. gm\<lparr>GM_gas := t\<rparr>) (Gas_Sub S (GM_gas gm) g)"

section \<open>Fees\<close>

definition getRuneInAssetValue :: "env \<Rightarrow> KVStore \<Rightarrow> nat \<Rightarrow> Asset \<Rightarrow> nat option" where
  "getRuneInAssetValue E k transactionFee asset =
     (let a = (if Asset_IsSyntheticAsset asset then Asset_GetLayer1Asset asset else asset); pool = GetPool k a in
      if Pool_BalanceAsset pool = 0 \<or> Pool_BalanceCacao pool = 0 then Some transactionFee
      else Pool_RuneValueInAsset (E_sdk E) pool transactionFee)"

text \<open>The least fee in the gas asset, from the least fee in dollars.\<close>

definition min_outbound :: "env \<Rightarrow> KVStore \<Rightarrow> GasMgr \<Rightarrow> Pool \<Rightarrow> nat option" where
  "min_outbound E k gm pool =
     do {
       let minOutboundUSD = config E k ''MinimumL1OutboundFeeUSD'';
       oneDollarRune \<leftarrow> (if GM_started gm then DollarInRune E k else Some 0);
       if oneDollarRune = 0 then Some 0
       else Pool_RuneValueInAsset (E_sdk E) pool
              (GetUncappedShare (E_sdk E) (uint64_cast minOutboundUSD) One oneDollarRune)
     }"

text \<open>The fee of an outbound transaction in the gas asset of a chain; \<open>Some None\<close> where the network
  fee of the chain is not valid.\<close>

definition network_fee_of :: "env \<Rightarrow> KVStore \<Rightarrow> GasMgr \<Rightarrow> chain \<Rightarrow> Pool \<Rightarrow> nat option option" where
  "network_fee_of E k gm c pool =
     (if Chain_Equals c THORChain then Some (Some 6000000)
      else
        let networkFee = GetNetworkFee k c in
        if NetworkFee_Valid networkFee \<noteq> None then Some None
        else do {
          minAsset \<leftarrow> min_outbound E k gm pool;
          fee \<leftarrow> RoundToDecimal (E_sdk E)
            (NF_TransactionSize networkFee * NF_TransactionFeeRate networkFee * 3 mod 2 ^ 64) (Pool_Decimals pool);
          Some (Some (if fee < minAsset then minAsset else fee))
        })"

definition GetFee :: "env \<Rightarrow> KVStore \<Rightarrow> GasMgr \<Rightarrow> chain \<Rightarrow> Asset \<Rightarrow> nat option" where
  "GetFee E k gm c asset =
     (let transactionFee = uint64_cast (config E k ''OutboundTransactionFee'') in
      if Asset_IsBase asset \<and> Chain_Equals c BASEChain then Some transactionFee
      else if Asset_IsSyntheticAsset asset then getRuneInAssetValue E k transactionFee asset
      else
        let pool = GetPool k (Chain_GetGasAsset c) in
        do {
          nf \<leftarrow> network_fee_of E k gm c pool;
          case nf of
            None \<Rightarrow> Some transactionFee
          | Some fee \<Rightarrow>
              if Asset_Equals asset (Chain_GetGasAsset (Asset_GetChain asset)) \<and> Chain_Equals c (Asset_GetChain asset)
              then Some fee
              else if Pool_BalanceAsset pool = 0 \<or> Pool_BalanceCacao pool = 0 then Some 2000000
              else
                let runeFee = Pool_AssetValueInRune (E_sdk E) pool fee in
                if Asset_IsBase asset then Some runeFee
                else
                  let pool2 = GetPool k asset in
                  if Pool_BalanceAsset pool2 = 0 \<or> Pool_BalanceCacao pool2 = 0 then Some 2000000
                  else Pool_RuneValueInAsset (E_sdk E) pool2 runeFee
        })"

definition GetGasRate :: "env \<Rightarrow> KVStore \<Rightarrow> chain \<Rightarrow> nat option" where
  "GetGasRate E k c =
     (let transactionFee = uint64_cast (config E k ''OutboundTransactionFee'') in
      if Chain_Equals c BASEChain then Some transactionFee
      else if Chain_Equals c THORChain
      then RoundToDecimal (E_sdk E) (2000000 * 3 div 2) (Chain_GetGasAssetDecimal c)
      else
        let networkFee = GetNetworkFee k c in
        if NetworkFee_Valid networkFee \<noteq> None then Some transactionFee
        else RoundToDecimal (E_sdk E) (NF_TransactionFeeRate networkFee * 3 mod 2 ^ 64 div 2)
               (Chain_GetGasAssetDecimal c))"

definition GetMaxGas :: "env \<Rightarrow> KVStore \<Rightarrow> chain \<Rightarrow> Coin option" where
  "GetMaxGas E k c =
     do {
       let nf = GetNetworkFee k c;
       let base = NF_TransactionSize nf * NF_TransactionFeeRate nf mod 2 ^ 64;
       amount \<leftarrow> (if Chain_IsBNB c then Some base
                  else do { x \<leftarrow> uint_mul (E_sdk E) base 3; uint_quo (E_sdk E) x 2 });
       rounded \<leftarrow> RoundToDecimal (E_sdk E) amount (Chain_GetGasAssetDecimal c);
       Some ((NewCoin (Chain_GetGasAsset c) amount)
               \<lparr>Coin_Amount := rounded, Coin_Decimals := Chain_GetGasAssetDecimal c\<rparr>)
     }"

section \<open>End of the block\<close>

fun UpsertGasPool :: "sdk \<Rightarrow> GasPool list \<Rightarrow> GasPool \<Rightarrow> GasPool list option" where
  "UpsertGasPool S [] pool = Some [pool]"
| "UpsertGasPool S (p # ps) pool =
     (if GP_Asset p = GP_Asset pool then
        do {
          c \<leftarrow> uint_add S (GP_CacaoAmt p) (GP_CacaoAmt pool);
          a \<leftarrow> uint_add S (GP_AssetAmt p) (GP_AssetAmt pool);
          Some (p\<lparr>GP_CacaoAmt := c, GP_AssetAmt := a\<rparr> # ps)
        }
      else map_option ((#) p) (UpsertGasPool S ps pool))"

text \<open>The payment from the reserve: the CACAO the pool gets, with the world after it; \<open>Inl\<close> where the
  transfer fails and the loop continues with the next coin.\<close>

definition pay_gas :: "'b bank \<Rightarrow> 'b world \<Rightarrow> nat \<Rightarrow> (unit + nat \<times> 'b world) option" where
  "pay_gas B w runeGas =
     (if runeGas < GetRuneBalanceOfModule B w ReserveName then
        do {
          (e, w') \<leftarrow> SendFromModuleToModule B w ReserveName AsgardName [NewCoin BaseNative runeGas];
          Some (case e of Some _ \<Rightarrow> Inl () | None \<Rightarrow> Inr (runeGas, w'))
        }
      else Some (Inr (0, w)))"

definition process_coin :: "env \<Rightarrow> 'b bank \<Rightarrow> 'b world \<times> GasMgr \<Rightarrow> Coin \<Rightarrow> ('b world \<times> GasMgr) option" where
  "process_coin E B st coin =
     (let (w, gm) = st; S = E_sdk E; pool = GetPool (W_kv w) (Coin_Asset coin) in
      if Coin_Amount coin = 0 \<or> Pool_Valid pool \<noteq> None then Some st
      else
        let runeGas = Pool_AssetValueInRune S pool (Coin_Amount coin) in
        if runeGas = 0 then Some st
        else do {
          paid \<leftarrow> pay_gas B w runeGas;
          case paid of
            Inl _ \<Rightarrow> Some st
          | Inr (cacao, w1) \<Rightarrow> do {
              bal \<leftarrow> uint_add S (Pool_BalanceCacao pool) cacao;
              asset_bal \<leftarrow> SafeSub S (Pool_BalanceAsset pool) (Coin_Amount coin);
              case SetPool (W_kv w1) (pool\<lparr>Pool_BalanceCacao := bal, Pool_BalanceAsset := asset_bal\<rparr>) of
                Inl _ \<Rightarrow> Some (w1, gm)
              | Inr k' \<Rightarrow> do {
                  evt \<leftarrow> UpsertGasPool S (GM_gasEvent gm)
                    \<lparr>GP_Asset = Coin_Asset coin, GP_AssetAmt = Coin_Amount coin, GP_CacaoAmt = cacao,
                     GP_Count = GM_gasCount gm (Coin_Asset coin)\<rparr>;
                  Some (w1\<lparr>W_kv := k'\<rparr>, gm\<lparr>GM_gasEvent := evt\<rparr>)
                }
            }
        })"

fun process_coins :: "env \<Rightarrow> 'b bank \<Rightarrow> gas \<Rightarrow> 'b world \<times> GasMgr \<Rightarrow> ('b world \<times> GasMgr) option" where
  "process_coins E B [] st = Some st"
| "process_coins E B (coin # cs) st = do { st' \<leftarrow> process_coin E B st coin; process_coins E B cs st' }"

definition ProcessGas :: "env \<Rightarrow> 'b bank \<Rightarrow> 'b world \<Rightarrow> GasMgr \<Rightarrow> ('b world \<times> GasMgr) option" where
  "ProcessGas E B w gm =
     (if RagnarokInProgress (W_kv w) then Some (w, gm)
      else do {
        let vault = GetNetwork (W_kv w);
        (w', gm') \<leftarrow> process_coins E B (GM_gas gm) (w, gm);
        Some (w'\<lparr>W_kv := SetNetwork (W_kv w') vault\<rparr>, gm')
      })"

definition GasMgr_EndBlock :: "env \<Rightarrow> 'b bank \<Rightarrow> 'b world \<Rightarrow> GasMgr \<Rightarrow> ('b world \<times> GasMgr) option" where
  "GasMgr_EndBlock E B w gm =
     do {
       (w1, gm1) \<leftarrow> ProcessGas E B w gm;
       last_block \<leftarrow> IsPeriodLastBlock E (uint64_cast (C_int64 (E_cv E) ''BlocksPerDay''));
       w2 \<leftarrow> (if last_block then DistributeMayaFund (E_sdk E) B (E_cv E) w1 else Some w1);
       Some (w2, if GM_gasEvent gm1 = [] then gm1 else GasMgr_reset gm1)
     }"

section \<open>Gas of an observed transaction\<close>

definition addGasFeesV1 :: "env \<Rightarrow> KVStore \<Rightarrow> GasMgr \<Rightarrow> ObservedTx \<Rightarrow> (check \<times> KVStore \<times> GasMgr) option" where
  "addGasFeesV1 E k gm tx =
     (let t = OT_Tx tx in
      if Tx_Gas t = [] then Some (None, k, gm)
      else do {
        gm1 \<leftarrow>
          (if RagnarokInProgress k \<and> \<not> Coin_IsEmpty (Coins_GetCoin (Tx_Coins t) (Chain_GetGasAsset (Tx_Chain t)))
           then Some gm else AddGasAsset (E_sdk E) gm (Tx_Gas t) True);
        if VaultExists k (OT_ObservedPubKey tx) then
          (case GetVault k (E_height E) (OT_ObservedPubKey tx) of
             Inl e \<Rightarrow> Some (Some e, k, gm1)
           | Inr vault \<Rightarrow> do {
               vault' \<leftarrow> Vault_SubFunds (E_sdk E) vault (Gas_ToCoins (Tx_Gas t));
               Some (case SetVault (E_sdk E) k vault' of Inl e \<Rightarrow> (Some e, k, gm1) | Inr k' \<Rightarrow> (None, k', gm1))
             })
        else Some (None, k, gm1)
      })"

definition addGasFees :: "env \<Rightarrow> KVStore \<Rightarrow> GasMgr \<Rightarrow> ObservedTx \<Rightarrow> (check \<times> KVStore \<times> GasMgr) option" where
  "addGasFees E k gm tx =
     (if K_version k (0, 1, 0) then addGasFeesV1 E k gm tx else Some (fails ''bad version'', k, gm))"

section \<open>Properties\<close>

lemma GetPool_stored:
  assumes "pools_keyed k" and "Pool_Valid (GetPool k a) = None"
  obtains p where "kv_get (K_pools k) (pool_key a) = Some p" and "GetPool k a = decode_pool p"
    and "pool_key (Pool_Asset (GetPool k a)) = pool_key a"
proof -
  have "Pool_Valid NewPool \<noteq> None" by code_simp
  then obtain p where p: "kv_get (K_pools k) (pool_key a) = Some p" "GetPool k a = decode_pool p"
    using assms(2) by (auto simp: GetPool_def split: option.splits)
  then have "pool_key (Pool_Asset p) = pool_key a"
    using assms(1) by (auto simp: pools_keyed_def list_all_iff kv_get_def dest!: map_of_SomeD)
  then show ?thesis using that p by (simp add: decode_pool_def)
qed

text \<open>What a step keeps: the coins the reserve and the pools have together, and the difference
  between the coins of Asgard and the balances of the pools.\<close>

definition backing_kept :: "'b bank \<Rightarrow> 'b world \<Rightarrow> 'b world \<Rightarrow> bool" where
  "backing_kept B w w' \<longleftrightarrow>
     GetRuneBalanceOfModule B w' ReserveName + cacao_in_pools (W_kv w')
       = GetRuneBalanceOfModule B w ReserveName + cacao_in_pools (W_kv w)
     \<and> GetRuneBalanceOfModule B w' AsgardName + cacao_in_pools (W_kv w)
       = GetRuneBalanceOfModule B w AsgardName + cacao_in_pools (W_kv w')"

lemma backing_refl: "backing_kept B w w" and
  backing_trans: "backing_kept B w w1 \<Longrightarrow> backing_kept B w1 w2 \<Longrightarrow> backing_kept B w w2"
  by (auto simp: backing_kept_def)

lemma pay_gas_moves:
  assumes "bank_keeper B" and "pay_gas B w n = Some (Inr (cacao, w1))"
  shows "W_kv w1 = W_kv w"
    and "GetRuneBalanceOfModule B w ReserveName = GetRuneBalanceOfModule B w1 ReserveName + cacao"
    and "GetRuneBalanceOfModule B w1 AsgardName = GetRuneBalanceOfModule B w AsgardName + cacao"
proof -
  have ne: "ReserveName \<noteq> AsgardName" using module_names_distinct by metis
  have "W_kv w1 = W_kv w \<and> GetRuneBalanceOfModule B w ReserveName = GetRuneBalanceOfModule B w1 ReserveName + cacao
    \<and> GetRuneBalanceOfModule B w1 AsgardName = GetRuneBalanceOfModule B w AsgardName + cacao"
  proof (cases "n < GetRuneBalanceOfModule B w ReserveName")
    case True
    then have s: "SendFromModuleToModule B w ReserveName AsgardName [NewCoin BaseNative n] = Some (None, w1)"
      and c: "cacao = n"
      using assms(2) by (auto simp: pay_gas_def bind_Some_iff split: option.splits)
    note bank_keeper.SendFromModuleToModule_moves [OF assms(1) s ne]
    then show ?thesis using c by (simp add: GetRuneBalanceOfModule_def)
  next
    case False
    then show ?thesis using assms(2) by (simp add: pay_gas_def)
  qed
  then show "W_kv w1 = W_kv w"
    and "GetRuneBalanceOfModule B w ReserveName = GetRuneBalanceOfModule B w1 ReserveName + cacao"
    and "GetRuneBalanceOfModule B w1 AsgardName = GetRuneBalanceOfModule B w AsgardName + cacao" by blast+
qed

lemma cacao_after_SetPool:
  assumes "pools_keyed k" and "kv_get (K_pools k) (pool_key (Pool_Asset q)) = Some p"
    and "SetPool k q = Inr k'"
  shows "cacao_in_pools k' + Pool_BalanceCacao p = cacao_in_pools k + Pool_BalanceCacao q"
  using kv_sum_set [of "K_pools k" "pool_key (Pool_Asset q)" p Pool_BalanceCacao q] assms
  by (auto simp: cacao_in_pools_def GetPools_def SetPool_def pools_keyed_def split: if_splits)

lemma process_coin_keeps:
  assumes "cosmos_sdk (E_sdk E)" and "bank_keeper B" and "pools_keyed (W_kv w)"
    and "process_coin E B (w, gm) coin = Some (w', gm')"
  shows "pools_keyed (W_kv w') \<and> backing_kept B w w'"
proof (cases "w' = w")
  case True
  then show ?thesis using assms(3) by (simp add: backing_refl)
next
  case False
  let ?pool = "GetPool (W_kv w) (Coin_Asset coin)"
  let ?q = "\<lambda>cacao ab. ?pool\<lparr>Pool_BalanceCacao := Pool_BalanceCacao ?pool + cacao, Pool_BalanceAsset := ab\<rparr>"
  define n where "n = Pool_AssetValueInRune (E_sdk E) ?pool (Coin_Amount coin)"
  have v: "Pool_Valid ?pool = None"
    using False assms(4) by (auto simp: process_coin_def Let_def split: if_splits)
  obtain cacao w1 where pay: "pay_gas B w n = Some (Inr (cacao, w1))"
    using False assms(4)
    by (cases "pay_gas B w n"; cases "the (pay_gas B w n)")
       (auto simp: process_coin_def Let_def n_def split: if_splits)
  define ab where "ab = Pool_BalanceAsset ?pool - Coin_Amount coin"
  have set: "(\<exists>e. w' = w1 \<and> SetPool (W_kv w1) (?q cacao ab) = Inl e)
      \<or> (\<exists>k'. w' = w1\<lparr>W_kv := k'\<rparr> \<and> SetPool (W_kv w1) (?q cacao ab) = Inr k')"
    using False assms(4) pay
    by (cases "SetPool (W_kv w1) (?q cacao ab)")
       (auto simp: process_coin_def Let_def n_def ab_def bind_Some_iff cosmos_sdk.uint_Some [OF assms(1)]
        cosmos_sdk.SafeSub_eq [OF assms(1)] split: if_splits)
  note m = pay_gas_moves [OF assms(2) pay]
  obtain p where p: "kv_get (K_pools (W_kv w)) (pool_key (Coin_Asset coin)) = Some p"
      "?pool = decode_pool p" "pool_key (Pool_Asset ?pool) = pool_key (Coin_Asset coin)"
    using GetPool_stored [OF assms(3) v] by blast
  define q where "q = ?pool\<lparr>Pool_BalanceCacao := Pool_BalanceCacao ?pool + cacao, Pool_BalanceAsset := ab\<rparr>"
  have qa: "Pool_Asset q = Pool_Asset ?pool" by (simp add: q_def)
  have "\<not> Asset_IsEmpty (Pool_Asset q)" using v by (simp add: qa Pool_Valid_def Pool_IsEmpty_def split: if_splits)
  then obtain k' where k': "w' = w1\<lparr>W_kv := k'\<rparr>" "SetPool (W_kv w) q = Inr k'"
    using set m(1) by (auto simp: q_def [symmetric] SetPool_def)
  have "cacao_in_pools k' + Pool_BalanceCacao p = cacao_in_pools (W_kv w) + Pool_BalanceCacao q"
    using cacao_after_SetPool [OF assms(3) _ k'(2)] p by (simp add: qa)
  moreover have "Pool_BalanceCacao q = Pool_BalanceCacao p + cacao"
    using p(2) by (simp add: q_def decode_pool_def)
  ultimately have "backing_kept B w w'"
    using m(2,3) by (simp add: backing_kept_def k'(1) GetRuneBalanceOfModule_def GetBalanceOfModule_def)
  then show ?thesis using SetPool_keyed [OF assms(3) k'(2)] by (simp add: k'(1))
qed

lemma process_coins_keeps:
  assumes "cosmos_sdk (E_sdk E)" and "bank_keeper B" and "pools_keyed (W_kv w)"
    and "process_coins E B cs (w, gm) = Some (w', gm')"
  shows "backing_kept B w w' \<and> pools_keyed (W_kv w')"
  using assms(3,4)
proof (induction cs arbitrary: w gm)
  case (Cons coin cs)
  then obtain w1 gm1 where s: "process_coin E B (w, gm) coin = Some (w1, gm1)"
    and r: "process_coins E B cs (w1, gm1) = Some (w', gm')" by (auto simp: bind_Some_iff)
  from process_coin_keeps [OF assms(1,2) Cons.prems(1) s] Cons.IH [OF _ r] backing_trans
  show ?case by blast
qed (simp add: backing_refl)

text \<open>C23: paying for gas creates no CACAO. When a block's gas is processed, what the reserve loses is
  exactly what the pools record as their gain and what the Asgard account gets, so the coins Asgard
  holds beyond the balances of the pools do not change.\<close>

theorem ProcessGas_keeps_backing:
  assumes "cosmos_sdk (E_sdk E)" and "bank_keeper B" and "pools_keyed (W_kv w)"
    and "ProcessGas E B w gm = Some (w', gm')"
  shows "backing_kept B w w' \<and> pools_keyed (W_kv w')"
proof (cases "RagnarokInProgress (W_kv w)")
  case True
  then show ?thesis using assms by (simp add: ProcessGas_def backing_refl)
next
  case False
  then obtain w1 where "process_coins E B (GM_gas gm) (w, gm) = Some (w1, gm')"
    and w': "w' = w1\<lparr>W_kv := SetNetwork (W_kv w1) (GetNetwork (W_kv w))\<rparr>"
    using assms(4) by (auto simp: ProcessGas_def Let_def bind_Some_iff)
  from process_coins_keeps [OF assms(1,2,3) this(1)] show ?thesis
    by (simp add: w' backing_kept_def pools_keyed_def cacao_in_pools_def GetPools_def SetNetwork_def
        GetRuneBalanceOfModule_def GetBalanceOfModule_def)
qed

definition gas_world :: "ledger world" where
  "gas_world =
     \<lparr>W_kv = empty_store\<lparr>K_pools := [(pool_key BTCAsset, sample_pool)]\<rparr>,
      W_bank = empty_ledger\<lparr>Led_balance := (\<lambda>_ _. 0)(module_account ReserveName := (\<lambda>_. 500))\<rparr>\<rparr>"

lemma gas_store:
  "GetPool (W_kv gas_world) BTCAsset = sample_pool" "pools_keyed (W_kv gas_world)"
  "\<not> RagnarokInProgress (W_kv gas_world)" "Pool_Valid sample_pool = None"
  "GetRuneBalanceOfModule ledger_bank gas_world ReserveName = 500"
  "GetRuneBalanceOfModule ledger_bank gas_world AsgardName = 0"
  "cacao_in_pools (W_kv gas_world) = 10000"
proof -
  show "Pool_Valid sample_pool = None" by code_simp
qed (simp_all add: gas_world_def empty_store_def GetPool_def kv_get_def decode_pool_def sample_pool_def NewPool_def
    pools_keyed_def kv_invar_def RagnarokInProgress_def GetRagnarokBlockHeight_def getRagnarokValue_def getInt64_def
    GetRuneBalanceOfModule_def GetBalanceOfModule_def ledger_bank_def module_account_def
    ReserveName_def AsgardName_def cacao_in_pools_def GetPools_def kv_values_def)

lemma gas_sample:
  "\<exists>w' gm'. ProcessGas (sample_env 7) ledger_bank gas_world (newGasMgrV104\<lparr>GM_gas := [NewCoin BTCAsset 2]\<rparr>)
    = Some (w', gm')"
proof -
  have v: "Pool_AssetValueInRune sdk256 sample_pool 2 = 200"
    by (simp add: Pool_AssetValueInRune_def sample_pool_def NewPool_def GetUncappedShare_def sdk256_def round_div_def
        dec_one_def)
  have pay: "\<exists>w1. pay_gas ledger_bank gas_world 200 = Some (Inr (200, w1)) \<and> W_kv w1 = W_kv gas_world"
    by (simp add: pay_gas_def GetRuneBalanceOfModule_def GetBalanceOfModule_def SendFromModuleToModule_def
        bank_outcome_def ledger_bank_def ledger_send_def native_coins_def NewCoin_def gas_world_def Let_def)
  have e: "\<not> Asset_IsEmpty (Pool_Asset sample_pool)" by code_simp
  have b: "Pool_BalanceCacao sample_pool = 10000" "Pool_BalanceAsset sample_pool = 100"
    by (simp_all add: sample_pool_def NewPool_def)
  show ?thesis
    using pay e by (auto simp: ProcessGas_def gas_store newGasMgrV104_def process_coin_def NewCoin_def v b Let_def
        sdk256.uint_add sdk256.SafeSub_eq SetPool_def)
qed

theorem ProcessGas_keeps_backing_witness:
  "\<exists>w' gm'. ProcessGas (sample_env 7) ledger_bank gas_world (newGasMgrV104\<lparr>GM_gas := [NewCoin BTCAsset 2]\<rparr>)
      = Some (w', gm')
    \<and> GetRuneBalanceOfModule ledger_bank w' ReserveName + cacao_in_pools (W_kv w') = 10500
    \<and> GetRuneBalanceOfModule ledger_bank w' AsgardName + 10000 = cacao_in_pools (W_kv w')"
proof -
  obtain w' gm' where p: "ProcessGas (sample_env 7) ledger_bank gas_world
      (newGasMgrV104\<lparr>GM_gas := [NewCoin BTCAsset 2]\<rparr>) = Some (w', gm')" using gas_sample by blast
  have "backing_kept ledger_bank gas_world w'"
    using ProcessGas_keeps_backing [OF _ ledger.bank_keeper_axioms gas_store(2) p] sdk256.cosmos_sdk_axioms by simp
  then show ?thesis using p by (auto simp: backing_kept_def gas_store)
qed

end
