(* ===== verification/Memos.thy ===== *)
theory Memos
  imports Helpers
begin

text \<open>
  Names in the store (\<open>keeper/v1/keeper_mayaname.go\<close>) and memos, \<open>x/mayachain/memo\<close>: the memo of an
  observed transaction says what the sender asks for, as fields separated by colons. The parsers
  recover from panics, so a panic is an error like any other. \<open>ParseMemo\<close> runs without a store: its
  keeper is \<open>nil\<close>, which is \<open>None\<close> here, and then a name is not resolved.
\<close>

section \<open>Names in the store\<close>

text \<open>Base 64 in the standard alphabet, over the bytes of a string.\<close>

definition b64_char :: "nat \<Rightarrow> char" where
  "b64_char n =
     (if n < 26 then char_of (65 + n) else if n < 52 then char_of (71 + n)
      else if n < 62 then char_of (n - 4) else if n = 62 then CHR ''+'' else CHR ''/'')"

fun b64_encode :: "nat list \<Rightarrow> string" where
  "b64_encode [] = []"
| "b64_encode [a] = [b64_char (a div 4), b64_char (a mod 4 * 16), CHR ''='', CHR ''='']"
| "b64_encode [a, b] =
     [b64_char (a div 4), b64_char (a mod 4 * 16 + b div 16), b64_char (b mod 16 * 4), CHR ''='']"
| "b64_encode (a # b # c # bs) =
     b64_char (a div 4) # b64_char (a mod 4 * 16 + b div 16) # b64_char (b mod 16 * 4 + c div 64)
       # b64_char (c mod 64) # b64_encode bs"

definition MAYAName_Key :: "string \<Rightarrow> string" where
  "MAYAName_Key name = b64_encode (map of_char (toLower name))"

definition mayaname_key :: "string \<Rightarrow> string" where
  "mayaname_key name = GetKey (dbPrefix ''prefixMAYAName'') (MAYAName_Key name)"

definition SetMAYAName :: "KVStore \<Rightarrow> MAYAName \<Rightarrow> KVStore" where
  "SetMAYAName k name = k\<lparr>K_mayaNames := kv_set (K_mayaNames k) (mayaname_key (MN_Name name)) name\<rparr>"

definition EmptyMAYAName :: "string \<Rightarrow> MAYAName" where
  "EmptyMAYAName name =
     \<lparr>MN_Name = name, MN_ExpireBlockHeight = 0, MN_Owner = [], MN_PreferredAsset = EmptyAsset, MN_Aliases = []\<rparr>"

definition GetMAYAName :: "KVStore \<Rightarrow> int \<Rightarrow> string \<Rightarrow> go_error + MAYAName" where
  "GetMAYAName k height name =
     (case kv_get (K_mayaNames k) (mayaname_key name) of
        None \<Rightarrow> Inl (GoError ''MAYAName doesn't exist'')
      | Some n \<Rightarrow>
          if MN_ExpireBlockHeight n < height then Inr (EmptyMAYAName name)
          else Inr (if MN_Name n = '''' then n\<lparr>MN_Name := name\<rparr> else n))"

text \<open>A name that has expired is read back empty, with the expiry height zero.\<close>

definition MAYANameExists :: "KVStore \<Rightarrow> int \<Rightarrow> string \<Rightarrow> bool" where
  "MAYANameExists k height name \<longleftrightarrow>
     (case kv_get (K_mayaNames k) (mayaname_key name) of
        None \<Rightarrow> False
      | Some _ \<Rightarrow> (case GetMAYAName k height name of
                     Inl _ \<Rightarrow> False | Inr n \<Rightarrow> MN_ExpireBlockHeight n \<ge> height))"

definition DeleteMAYAName :: "KVStore \<Rightarrow> string \<Rightarrow> KVStore" where
  "DeleteMAYAName k name = k\<lparr>K_mayaNames := kv_delete (K_mayaNames k) (mayaname_key name)\<rparr>"

section \<open>Types of memos\<close>

datatype TxType =
  TxUnknown | TxAdd | TxWithdraw | TxSwap | TxOutbound | TxDonate | TxBond | TxUnbond | TxLeave
| TxYggdrasilFund | TxYggdrasilReturn | TxReserve | TxRefund | TxMigrate | TxRagnarok | TxNoOp
| TxConsolidate | TxMAYAName | TxForgiveSlash

definition stringToTxTypeMap :: "(string \<times> TxType) list" where
  "stringToTxTypeMap =
     [(''add'', TxAdd), (''+'', TxAdd), (''withdraw'', TxWithdraw), (''wd'', TxWithdraw), (''-'', TxWithdraw),
      (''swap'', TxSwap), (''s'', TxSwap), (''='', TxSwap), (''out'', TxOutbound), (''donate'', TxDonate),
      (''d'', TxDonate), (''bond'', TxBond), (''unbond'', TxUnbond), (''leave'', TxLeave),
      (''yggdrasil+'', TxYggdrasilFund), (''yggdrasil-'', TxYggdrasilReturn), (''reserve'', TxReserve),
      (''refund'', TxRefund), (''migrate'', TxMigrate), (''ragnarok'', TxRagnarok), (''noop'', TxNoOp),
      (''consolidate'', TxConsolidate), (''name'', TxMAYAName), (''n'', TxMAYAName), (''~'', TxMAYAName)]"

definition StringToTxType :: "string \<Rightarrow> go_error + TxType" where
  "StringToTxType s =
     (case map_of stringToTxTypeMap (toLower s) of
        Some t \<Rightarrow> Inr t | None \<Rightarrow> Inl (GoError ''invalid tx type''))"

fun TxType_String :: "TxType \<Rightarrow> string" where
  "TxType_String TxAdd = ''add''"
| "TxType_String TxWithdraw = ''withdraw''"
| "TxType_String TxSwap = ''swap''"
| "TxType_String TxOutbound = ''out''"
| "TxType_String TxRefund = ''refund''"
| "TxType_String TxDonate = ''donate''"
| "TxType_String TxBond = ''bond''"
| "TxType_String TxUnbond = ''unbond''"
| "TxType_String TxLeave = ''leave''"
| "TxType_String TxYggdrasilFund = ''yggdrasil+''"
| "TxType_String TxYggdrasilReturn = ''yggdrasil-''"
| "TxType_String TxReserve = ''reserve''"
| "TxType_String TxMigrate = ''migrate''"
| "TxType_String TxRagnarok = ''ragnarok''"
| "TxType_String TxNoOp = ''noop''"
| "TxType_String TxConsolidate = ''consolidate''"
| "TxType_String TxMAYAName = ''mayaname''"
| "TxType_String TxForgiveSlash = ''forgive_slash''"
| "TxType_String TxUnknown = ''''"

definition TxType_IsInbound :: "TxType \<Rightarrow> bool" where
  "TxType_IsInbound t \<longleftrightarrow>
     t \<in> {TxAdd, TxWithdraw, TxSwap, TxDonate, TxBond, TxUnbond, TxLeave, TxReserve, TxNoOp, TxMAYAName, TxForgiveSlash}"

definition TxType_IsOutbound :: "TxType \<Rightarrow> bool" where
  "TxType_IsOutbound t \<longleftrightarrow> t \<in> {TxOutbound, TxRefund, TxRagnarok}"

definition TxType_IsInternal :: "TxType \<Rightarrow> bool" where
  "TxType_IsInternal t \<longleftrightarrow> t \<in> {TxYggdrasilFund, TxYggdrasilReturn, TxMigrate, TxConsolidate}"

definition TxType_HasOutbound :: "TxType \<Rightarrow> bool" where
  "TxType_HasOutbound t \<longleftrightarrow>
     t \<notin> {TxAdd, TxBond, TxDonate, TxYggdrasilReturn, TxReserve, TxMigrate, TxRagnarok}"

definition TxType_IsEmpty :: "TxType \<Rightarrow> bool" where
  "TxType_IsEmpty t \<longleftrightarrow> t = TxUnknown"

section \<open>Memos\<close>

datatype Memo =
  AddLiquidityMemo (Memo_asset: Asset) (AM_Address: address) (AM_AffiliateAddress: address)
    (AM_AffiliateBasisPoints: nat) (AM_Tier: int)
| WithdrawLiquidityMemo (Memo_asset: Asset) (WM_Amount: nat) (WM_WithdrawalAsset: Asset) (WM_PairAddress: address)
| SwapMemo (Memo_asset: Asset) (SM_Destination: address) (SM_SlipLimit: nat) (SM_AffiliateAddress: address)
    (SM_AffiliateBasisPoints: nat) (SM_DexAggregator: string) (SM_DexTargetAddress: string)
    (SM_DexTargetLimit: "nat option") (SM_OrderType: OrderType)
| OutboundMemo (Memo_txid: tx_id)
| RefundMemo (Memo_txid: tx_id)
| DonateMemo (Memo_asset: Asset)
| BondMemo (Memo_asset: Asset) (BM_NodeAddress: acc_address) (BM_BondProviderAddress: acc_address)
    (BM_Units: nat) (BM_NodeOperatorFee: int)
| UnbondMemo (Memo_asset: Asset) (UM_NodeAddress: acc_address) (UM_BondProviderAddress: acc_address) (UM_Units: nat)
| LeaveMemo (LM_NodeAddress: acc_address)
| YggdrasilFundMemo (Memo_height: int)
| YggdrasilReturnMemo (Memo_height: int)
| ReserveMemo
| MigrateMemo (Memo_height: int)
| RagnarokMemo (Memo_height: int)
| NoOpMemo (NM_Action: string)
| ConsolidateMemo
| ManageMAYANameMemo (MM_Name: string) (MM_Chain: chain) (MM_Address: address) (MM_Expire: int)
    (MM_PreferredAsset: Asset) (MM_Owner: acc_address)
| ForgiveSlashMemo (FM_Blocks: nat) (FM_ForgiveAddress: acc_address)

fun Memo_GetType :: "Memo \<Rightarrow> TxType" where
  "Memo_GetType (AddLiquidityMemo _ _ _ _ _) = TxAdd"
| "Memo_GetType (WithdrawLiquidityMemo _ _ _ _) = TxWithdraw"
| "Memo_GetType (SwapMemo _ _ _ _ _ _ _ _ _) = TxSwap"
| "Memo_GetType (OutboundMemo _) = TxOutbound"
| "Memo_GetType (RefundMemo _) = TxRefund"
| "Memo_GetType (DonateMemo _) = TxDonate"
| "Memo_GetType (BondMemo _ _ _ _ _) = TxBond"
| "Memo_GetType (UnbondMemo _ _ _ _) = TxUnbond"
| "Memo_GetType (LeaveMemo _) = TxLeave"
| "Memo_GetType (YggdrasilFundMemo _) = TxYggdrasilFund"
| "Memo_GetType (YggdrasilReturnMemo _) = TxYggdrasilReturn"
| "Memo_GetType ReserveMemo = TxReserve"
| "Memo_GetType (MigrateMemo _) = TxMigrate"
| "Memo_GetType (RagnarokMemo _) = TxRagnarok"
| "Memo_GetType (NoOpMemo _) = TxNoOp"
| "Memo_GetType ConsolidateMemo = TxConsolidate"
| "Memo_GetType (ManageMAYANameMemo _ _ _ _ _ _) = TxMAYAName"
| "Memo_GetType (ForgiveSlashMemo _ _) = TxForgiveSlash"

fun Memo_GetTxID :: "Memo \<Rightarrow> tx_id" where
  "Memo_GetTxID (OutboundMemo txID) = txID"
| "Memo_GetTxID (RefundMemo txID) = txID"
| "Memo_GetTxID _ = ''''"

fun Memo_GetBlockHeight :: "Memo \<Rightarrow> int" where
  "Memo_GetBlockHeight (YggdrasilFundMemo h) = h"
| "Memo_GetBlockHeight (YggdrasilReturnMemo h) = h"
| "Memo_GetBlockHeight (MigrateMemo h) = h"
| "Memo_GetBlockHeight (RagnarokMemo h) = h"
| "Memo_GetBlockHeight _ = 0"

section \<open>Printing\<close>

definition OutboundMemo_String :: "tx_id \<Rightarrow> string" where
  "OutboundMemo_String txID = ''OUT:'' @ txID"

definition RefundMemo_String :: "tx_id \<Rightarrow> string" where
  "RefundMemo_String txID = ''REFUND:'' @ txID"

definition MigrateMemo_String :: "int \<Rightarrow> string" where
  "MigrateMemo_String h = ''MIGRATE:'' @ show_int h"

definition RagnarokMemo_String :: "int \<Rightarrow> string" where
  "RagnarokMemo_String h = ''RAGNAROK:'' @ show_int h"

definition YggdrasilFundMemo_String :: "int \<Rightarrow> string" where
  "YggdrasilFundMemo_String h = ''YGGDRASIL+:'' @ show_int h"

definition YggdrasilReturnMemo_String :: "int \<Rightarrow> string" where
  "YggdrasilReturnMemo_String h = ''YGGDRASIL-:'' @ show_int h"

definition NoOpMemo_String :: "string \<Rightarrow> string" where
  "NoOpMemo_String action = (if action = '''' then ''noop'' else ''noop:'' @ action)"

definition DonateMemo_String :: "Asset \<Rightarrow> string" where
  "DonateMemo_String asset = ''DONATE:'' @ Asset_String asset"

definition SwapMemo_String ::
  "Asset \<Rightarrow> address \<Rightarrow> nat \<Rightarrow> address \<Rightarrow> nat \<Rightarrow> string \<Rightarrow> string \<Rightarrow> nat option \<Rightarrow> string" where
  "SwapMemo_String asset dest slip affAddr affPts dexAgg dexTargetAddress dexTargetLimit =
     (let args = [''='', Asset_String asset, dest, if slip = 0 then '''' else show_nat slip, affAddr, show_nat affPts,
                  dexAgg, dexTargetAddress];
          n3 = (if slip \<noteq> 0 then 4 else 3);
          n4 = (if \<not> Address_IsEmpty affAddr then 6 else n3);
          n5 = (if dexAgg \<noteq> '''' then 8 else n4)
      in case dexTargetLimit of
           Some l \<Rightarrow> if l \<noteq> 0 then joinWith '':'' (args @ [show_nat l]) else joinWith '':'' (take n5 args)
         | None \<Rightarrow> joinWith '':'' (take n5 args))"

fun Memo_String :: "Memo \<Rightarrow> string" where
  "Memo_String (SwapMemo a d s f p g t l _) = SwapMemo_String a d s f p g t l"
| "Memo_String (OutboundMemo txID) = OutboundMemo_String txID"
| "Memo_String (RefundMemo txID) = RefundMemo_String txID"
| "Memo_String (DonateMemo a) = DonateMemo_String a"
| "Memo_String (YggdrasilFundMemo h) = YggdrasilFundMemo_String h"
| "Memo_String (YggdrasilReturnMemo h) = YggdrasilReturnMemo_String h"
| "Memo_String (MigrateMemo h) = MigrateMemo_String h"
| "Memo_String (RagnarokMemo h) = RagnarokMemo_String h"
| "Memo_String (NoOpMemo action) = NoOpMemo_String action"
| "Memo_String ConsolidateMemo = ''consolidate''"
| "Memo_String _ = ''''"

section \<open>Parsing\<close>

definition parseBase :: "string \<Rightarrow> go_error + TxType \<times> Asset \<times> string list" where
  "parseBase memo =
     (let parts = splitOn (CHR '':'') memo in
      if length memo = 0 then Inl (GoError ''memo can't be empty'')
      else case StringToTxType (hd parts) of
             Inl e \<Rightarrow> Inl e
           | Inr t \<Rightarrow>
               if t \<in> {TxDonate, TxAdd, TxSwap, TxWithdraw} then
                 if length parts < 2 then Inl (GoError ''cannot parse given memo'')
                 else (case NewAsset (parts ! 1) of Inl e \<Rightarrow> Inl e | Inr a \<Rightarrow> Inr (t, a, parts))
               else Inr (t, EmptyAsset, parts))"

definition FetchAddress :: "env \<Rightarrow> KVStore \<Rightarrow> string \<Rightarrow> chain \<Rightarrow> go_error + address" where
  "FetchAddress E k name c =
     (case NewAddress (E_codecs E) name of
        Inr addr \<Rightarrow> Inr addr
      | Inl _ \<Rightarrow>
          let parts = splitN2 (CHR ''.'') name in
          case (if length parts > 1 then NewChain (parts ! 1) else Inr c) of
            Inl e \<Rightarrow> Inl e
          | Inr c' \<Rightarrow>
              if MAYANameExists k (E_height E) (hd parts) then
                (case GetMAYAName k (E_height E) (hd parts) of
                   Inl e \<Rightarrow> Inl e | Inr n \<Rightarrow> Inr (MAYAName_GetAlias n c'))
              else Inl (GoError ''not recognizable''))"

text \<open>The address in a field: with a store a name stands for an address, without one it does not.\<close>

definition memo_address :: "env \<Rightarrow> KVStore option \<Rightarrow> string \<Rightarrow> chain \<Rightarrow> go_error + address" where
  "memo_address E keeper s c =
     (case keeper of None \<Rightarrow> NewAddress (E_codecs E) s | Some k \<Rightarrow> FetchAddress E k s c)"

text \<open>A field that is missing or empty.\<close>

definition part :: "string list \<Rightarrow> nat \<Rightarrow> string" where
  "part parts i = (if i < length parts then parts ! i else '''')"

definition memo_tier :: "string \<Rightarrow> int" where
  "memo_tier s = (if s = ''TIER1'' then 1 else if s = ''TIER2'' then 2 else 3)"

definition ParseAddLiquidityMemo :: "env \<Rightarrow> KVStore option \<Rightarrow> Asset \<Rightarrow> string list \<Rightarrow> go_error + Memo" where
  "ParseAddLiquidityMemo E keeper asset parts =
     (case (if part parts 2 \<noteq> '''' then memo_address E keeper (part parts 2) (Asset_Chain asset) else Inr '''') of
        Inl e \<Rightarrow> Inl e
      | Inr addr \<Rightarrow>
          if length parts = 4 \<and> (part parts 3 = ''TIER1'' \<or> part parts 3 = ''TIER2'')
          then Inr (AddLiquidityMemo asset addr '''' 0 (memo_tier (part parts 3)))
          else if part parts 3 \<noteq> '''' \<and> part parts 4 \<noteq> '''' then
            (case memo_address E keeper (part parts 3) BASEChain of
               Inl e \<Rightarrow> Inl e
             | Inr affAddr \<Rightarrow>
                 (case ParseUint64 (part parts 4) of
                    None \<Rightarrow> Inl (GoError ''invalid affiliate basis points'')
                  | Some affPts \<Rightarrow> Inr (AddLiquidityMemo asset addr affAddr affPts (memo_tier (part parts 5)))))
          else Inr (AddLiquidityMemo asset addr '''' 0 3))"

definition ParseWithdrawLiquidityMemo :: "env \<Rightarrow> KVStore option \<Rightarrow> Asset \<Rightarrow> string list \<Rightarrow> go_error + Memo" where
  "ParseWithdrawLiquidityMemo E keeper asset parts =
     (if length parts < 2 then Inl (GoError ''not enough parameters'')
      else case (if length parts > 2 then
                   (case uint_parse (E_sdk E) (parts ! 2) of
                      None \<Rightarrow> Inl (GoError ''invalid basis points'')
                    | Some p \<Rightarrow> if p = 0 \<or> p > MaxWithdrawBasisPoints
                                then Inl (GoError ''withdraw amount is invalid'') else Inr p)
                 else Inr 0) of
             Inl e \<Rightarrow> Inl e
           | Inr pts \<Rightarrow>
               (case (if length parts > 3 then NewAsset (parts ! 3) else Inr EmptyAsset) of
                  Inl e \<Rightarrow> Inl e
                | Inr withdrawalAsset \<Rightarrow>
                    (case (if length parts > 4 then memo_address E keeper (parts ! 4) (Asset_Chain asset) else Inr '''') of
                       Inl e \<Rightarrow> Inl e
                     | Inr pairAddress \<Rightarrow> Inr (WithdrawLiquidityMemo asset pts withdrawalAsset pairAddress))))"

definition NewSwapMemo ::
  "Asset \<Rightarrow> address \<Rightarrow> nat \<Rightarrow> address \<Rightarrow> nat \<Rightarrow> string \<Rightarrow> string \<Rightarrow> nat \<Rightarrow> OrderType \<Rightarrow> Memo" where
  "NewSwapMemo asset dest slip affAddr affPts dexAgg dexTargetAddress dexTargetLimit orderType =
     SwapMemo asset dest slip affAddr affPts dexAgg dexTargetAddress
       (if dexTargetLimit \<noteq> 0 then Some dexTargetLimit else None) orderType"

text \<open>The fields both versions of the swap memo have; the affiliate's name is resolved on the chain given.\<close>

definition swap_fields ::
  "env \<Rightarrow> KVStore option \<Rightarrow> chain \<Rightarrow> Asset \<Rightarrow> string list \<Rightarrow> go_error + address \<times> nat \<times> address \<times> nat" where
  "swap_fields E keeper affChain asset parts =
     (if length parts < 2 then Inl (GoError ''not enough parameters'')
      else case (if part parts 2 \<noteq> '''' then memo_address E keeper (part parts 2) (Asset_Chain asset) else Inr '''') of
             Inl e \<Rightarrow> Inl e
           | Inr destination \<Rightarrow>
               (case (if part parts 3 \<noteq> '''' then
                        (case uint_parse (E_sdk E) (part parts 3) of
                           None \<Rightarrow> Inl (GoError ''swap price limit is invalid'') | Some a \<Rightarrow> Inr a)
                      else Inr 0) of
                  Inl e \<Rightarrow> Inl e
                | Inr slip \<Rightarrow>
                    if part parts 4 \<noteq> '''' \<and> part parts 5 \<noteq> '''' then
                      (case memo_address E keeper (part parts 4) affChain of
                         Inl e \<Rightarrow> Inl e
                       | Inr affAddr \<Rightarrow>
                           (case ParseUint64 (part parts 5) of
                              None \<Rightarrow> Inl (GoError ''invalid affiliate basis points'')
                            | Some affPts \<Rightarrow> Inr (destination, slip, affAddr, affPts)))
                    else Inr (destination, slip, '''', 0)))"

definition ParseSwapMemoV1 :: "env \<Rightarrow> KVStore option \<Rightarrow> Asset \<Rightarrow> string list \<Rightarrow> go_error + Memo" where
  "ParseSwapMemoV1 E keeper asset parts =
     (case swap_fields E keeper THORChain asset parts of
        Inl e \<Rightarrow> Inl e
      | Inr (destination, slip, affAddr, affPts) \<Rightarrow>
          Inr (NewSwapMemo asset destination slip affAddr affPts '''' '''' 0 OrderType_market))"

definition ParseSwapMemoV92 :: "env \<Rightarrow> KVStore option \<Rightarrow> Asset \<Rightarrow> string list \<Rightarrow> go_error + Memo" where
  "ParseSwapMemoV92 E keeper asset parts =
     (case swap_fields E keeper BASEChain asset parts of
        Inl e \<Rightarrow> Inl e
      | Inr (destination, slip, affAddr, affPts) \<Rightarrow>
          Inr (NewSwapMemo asset destination slip affAddr affPts (part parts 6) (part parts 7)
            (if part parts 8 \<noteq> '''' then case uint_parse (E_sdk E) (part parts 8) of None \<Rightarrow> 0 | Some l \<Rightarrow> l else 0)
            OrderType_market))"

definition ParseSwapMemo :: "env \<Rightarrow> KVStore option \<Rightarrow> Asset \<Rightarrow> string list \<Rightarrow> go_error + Memo" where
  "ParseSwapMemo E keeper asset parts =
     (case keeper of
        None \<Rightarrow> ParseSwapMemoV1 E keeper asset parts
      | Some k \<Rightarrow> if K_version k (1, 92, 0) then ParseSwapMemoV92 E keeper asset parts
                  else ParseSwapMemoV1 E keeper asset parts)"

text \<open>Both bond memos of version 1.105 may start with an asset and its units; the fields that follow are
  then counted from there.\<close>

definition asset_units :: "sdk \<Rightarrow> string list \<Rightarrow> go_error + Asset \<times> nat \<times> string list" where
  "asset_units S parts =
     (case NewAsset (parts ! 1) of
        Inl _ \<Rightarrow> Inr (EmptyAsset, 0, parts)
      | Inr asset \<Rightarrow>
          if length parts < 4 then Inl (GoError ''not enough parameters'')
          else (case uint_parse S (parts ! 2) of
                  None \<Rightarrow> Inl (GoError ''invalid units'') | Some units \<Rightarrow> Inr (asset, units, drop 2 parts)))"

text \<open>An optional field with an account address.\<close>

definition memo_account :: "sdk \<Rightarrow> bool \<Rightarrow> string \<Rightarrow> go_error + acc_address" where
  "memo_account S present s =
     (if present then (case acc_from_bech32 S s of None \<Rightarrow> Inl (GoError ''invalid thorchain address'') | Some a \<Rightarrow> Inr a)
      else Inr [])"

definition memo_int64 :: "bool \<Rightarrow> int \<Rightarrow> string \<Rightarrow> go_error + int" where
  "memo_int64 present preset s =
     (if present then (case Atoi s of None \<Rightarrow> Inl (GoError ''invalid number'') | Some i \<Rightarrow> Inr i) else Inr preset)"

definition bond_fields ::
  "sdk \<Rightarrow> Asset \<Rightarrow> nat \<Rightarrow> string list \<Rightarrow> bool \<Rightarrow> bool \<Rightarrow> go_error + Memo" where
  "bond_fields S asset units parts additionalGiven feeGiven =
     (case memo_account S True (part parts 1) of
        Inl e \<Rightarrow> Inl e
      | Inr addr \<Rightarrow>
          (case memo_account S additionalGiven (part parts 2) of
             Inl e \<Rightarrow> Inl e
           | Inr additional \<Rightarrow>
               (case memo_int64 feeGiven (- 1) (part parts 3) of
                  Inl e \<Rightarrow> Inl e
                | Inr operatorFee \<Rightarrow> Inr (BondMemo asset addr additional units operatorFee))))"

definition ParseBondMemoV105 :: "sdk \<Rightarrow> string list \<Rightarrow> go_error + Memo" where
  "ParseBondMemoV105 S parts =
     (if length parts < 3 then Inl (GoError ''not enough parameters'')
      else case asset_units S parts of
             Inl e \<Rightarrow> Inl e
           | Inr (asset, units, rest) \<Rightarrow> bond_fields S asset units rest (length rest \<ge> 3) (length rest \<ge> 4))"

definition ParseBondMemoV88 :: "sdk \<Rightarrow> string list \<Rightarrow> go_error + Memo" where
  "ParseBondMemoV88 S parts =
     (if length parts < 2 then Inl (GoError ''not enough parameters'')
      else bond_fields S EmptyAsset 0 parts (length parts = 3 \<or> length parts = 4) (length parts = 4))"

definition ParseBondMemoV81 :: "sdk \<Rightarrow> string list \<Rightarrow> go_error + Memo" where
  "ParseBondMemoV81 S parts =
     (if length parts < 2 then Inl (GoError ''not enough parameters'')
      else bond_fields S EmptyAsset 0 parts (length parts \<ge> 3) False)"

definition ParseBondMemo :: "sdk \<Rightarrow> version \<Rightarrow> string list \<Rightarrow> go_error + Memo" where
  "ParseBondMemo S ver parts =
     (if ver (1, 105, 0) then ParseBondMemoV105 S parts
      else if ver (1, 88, 0) then ParseBondMemoV88 S parts
      else if ver (0, 81, 0) then ParseBondMemoV81 S parts
      else Inl (GoError ''invalid version''))"

definition unbond_fields :: "sdk \<Rightarrow> Asset \<Rightarrow> nat \<Rightarrow> string list \<Rightarrow> go_error + Memo" where
  "unbond_fields S asset units parts =
     (case memo_account S True (part parts 1) of
        Inl e \<Rightarrow> Inl e
      | Inr addr \<Rightarrow>
          (case memo_account S (length parts \<ge> 3) (part parts 2) of
             Inl e \<Rightarrow> Inl e | Inr additional \<Rightarrow> Inr (UnbondMemo asset addr additional units)))"

definition ParseUnbondMemoV105 :: "sdk \<Rightarrow> string list \<Rightarrow> go_error + Memo" where
  "ParseUnbondMemoV105 S parts =
     (if length parts < 2 then Inl (GoError ''not enough parameters'')
      else case asset_units S parts of
             Inl e \<Rightarrow> Inl e | Inr (asset, units, rest) \<Rightarrow> unbond_fields S asset units rest)"

definition ParseUnbondMemoV81 :: "sdk \<Rightarrow> string list \<Rightarrow> go_error + Memo" where
  "ParseUnbondMemoV81 S parts =
     (if length parts < 2 then Inl (GoError ''not enough parameters'') else unbond_fields S EmptyAsset 0 parts)"

definition ParseUnbondMemo :: "sdk \<Rightarrow> version \<Rightarrow> string list \<Rightarrow> go_error + Memo" where
  "ParseUnbondMemo S ver parts =
     (if ver (1, 105, 0) then ParseUnbondMemoV105 S parts
      else if ver (0, 81, 0) then ParseUnbondMemoV81 S parts
      else Inl (GoError ''invalid version''))"

definition ParseLeaveMemo :: "sdk \<Rightarrow> string list \<Rightarrow> go_error + Memo" where
  "ParseLeaveMemo S parts =
     (if length parts < 2 then Inl (GoError ''not enough parameters'')
      else case memo_account S True (parts ! 1) of Inl e \<Rightarrow> Inl e | Inr addr \<Rightarrow> Inr (LeaveMemo addr))"

definition memo_with_txid :: "(tx_id \<Rightarrow> Memo) \<Rightarrow> string list \<Rightarrow> go_error + Memo" where
  "memo_with_txid mk parts =
     (if length parts < 2 then Inl (GoError ''not enough parameters'')
      else case NewTxID (parts ! 1) of Inl e \<Rightarrow> Inl e | Inr txID \<Rightarrow> Inr (mk txID))"

definition ParseOutboundMemo :: "string list \<Rightarrow> go_error + Memo" where
  "ParseOutboundMemo = memo_with_txid OutboundMemo"

definition ParseRefundMemo :: "string list \<Rightarrow> go_error + Memo" where
  "ParseRefundMemo = memo_with_txid RefundMemo"

definition memo_with_height :: "(int \<Rightarrow> Memo) \<Rightarrow> string list \<Rightarrow> go_error + Memo" where
  "memo_with_height mk parts =
     (if length parts < 2 then Inl (GoError ''not enough parameters'')
      else case memo_int64 True 0 (parts ! 1) of Inl e \<Rightarrow> Inl e | Inr h \<Rightarrow> Inr (mk h))"

definition ParseMigrateMemo :: "string list \<Rightarrow> go_error + Memo" where
  "ParseMigrateMemo = memo_with_height MigrateMemo"

definition ParseRagnarokMemo :: "string list \<Rightarrow> go_error + Memo" where
  "ParseRagnarokMemo = memo_with_height RagnarokMemo"

definition ParseYggdrasilFundMemo :: "string list \<Rightarrow> go_error + Memo" where
  "ParseYggdrasilFundMemo = memo_with_height YggdrasilFundMemo"

definition ParseYggdrasilReturnMemo :: "string list \<Rightarrow> go_error + Memo" where
  "ParseYggdrasilReturnMemo = memo_with_height YggdrasilReturnMemo"

definition ParseNoOpMemo :: "string list \<Rightarrow> go_error + Memo" where
  "ParseNoOpMemo parts = Inr (NoOpMemo (part parts 1))"

definition ParseManageMAYANameMemo :: "env \<Rightarrow> string list \<Rightarrow> go_error + Memo" where
  "ParseManageMAYANameMemo E parts =
     (if length parts < 4 then Inl (GoError ''not enough parameters'')
      else case NewChain (parts ! 2) of
             Inl e \<Rightarrow> Inl e
           | Inr c \<Rightarrow>
               (case NewAddress (E_codecs E) (parts ! 3) of
                  Inl e \<Rightarrow> Inl e
                | Inr addr \<Rightarrow>
                    (case memo_account (E_sdk E) (length parts \<ge> 5) (part parts 4) of
                       Inl e \<Rightarrow> Inl e
                     | Inr owner \<Rightarrow>
                         (case (if length parts \<ge> 6 then NewAsset (parts ! 5) else Inr EmptyAsset) of
                            Inl e \<Rightarrow> Inl e
                          | Inr preferredAsset \<Rightarrow>
                              (case memo_int64 (length parts \<ge> 7) 0 (part parts 6) of
                                 Inl e \<Rightarrow> Inl e
                               | Inr expire \<Rightarrow>
                                   Inr (ManageMAYANameMemo (parts ! 1) c addr expire preferredAsset owner))))))"

definition ParseForgiveSlashMemo :: "sdk \<Rightarrow> string list \<Rightarrow> go_error + Memo" where
  "ParseForgiveSlashMemo S parts =
     (if length parts < 3 then Inl (GoError ''not enough parameters'')
      else case uint_parse S (parts ! 1) of
             None \<Rightarrow> Inl (GoError ''forgive amount is invalid'')
           | Some blocks \<Rightarrow>
               (case memo_account S True (parts ! 2) of
                  Inl e \<Rightarrow> Inl e | Inr addr \<Rightarrow> Inr (ForgiveSlashMemo blocks addr)))"

text \<open>\<open>ParseMemo\<close> does not know names (\<open>keeper\<close> is \<open>None\<close>); \<open>ParseMemoWithMAYANames\<close> does.\<close>

fun parse_typed :: "env \<Rightarrow> version \<Rightarrow> KVStore option \<Rightarrow> TxType \<Rightarrow> Asset \<Rightarrow> string list \<Rightarrow> go_error + Memo" where
  "parse_typed E ver keeper TxLeave asset parts = ParseLeaveMemo (E_sdk E) parts"
| "parse_typed E ver keeper TxDonate asset parts = Inr (DonateMemo asset)"
| "parse_typed E ver keeper TxAdd asset parts = ParseAddLiquidityMemo E keeper asset parts"
| "parse_typed E ver keeper TxWithdraw asset parts = ParseWithdrawLiquidityMemo E keeper asset parts"
| "parse_typed E ver keeper TxSwap asset parts = ParseSwapMemo E keeper asset parts"
| "parse_typed E ver keeper TxOutbound asset parts = ParseOutboundMemo parts"
| "parse_typed E ver keeper TxRefund asset parts = ParseRefundMemo parts"
| "parse_typed E ver keeper TxBond asset parts = ParseBondMemo (E_sdk E) ver parts"
| "parse_typed E ver keeper TxUnbond asset parts = ParseUnbondMemo (E_sdk E) ver parts"
| "parse_typed E ver keeper TxYggdrasilFund asset parts = ParseYggdrasilFundMemo parts"
| "parse_typed E ver keeper TxYggdrasilReturn asset parts = ParseYggdrasilReturnMemo parts"
| "parse_typed E ver keeper TxReserve asset parts = Inr ReserveMemo"
| "parse_typed E ver keeper TxMigrate asset parts = ParseMigrateMemo parts"
| "parse_typed E ver keeper TxRagnarok asset parts = ParseRagnarokMemo parts"
| "parse_typed E ver keeper TxNoOp asset parts = ParseNoOpMemo parts"
| "parse_typed E ver keeper TxConsolidate asset parts = Inr ConsolidateMemo"
| "parse_typed E ver keeper TxMAYAName asset parts =
     (if keeper = None then Inl (GoError ''TxType not supported'') else ParseManageMAYANameMemo E parts)"
| "parse_typed E ver keeper TxForgiveSlash asset parts = ParseForgiveSlashMemo (E_sdk E) parts"
| "parse_typed E ver keeper TxUnknown asset parts = Inl (GoError ''TxType not supported'')"

definition ParseMemo :: "env \<Rightarrow> version \<Rightarrow> string \<Rightarrow> go_error + Memo" where
  "ParseMemo E ver memo =
     (case parseBase memo of
        Inl e \<Rightarrow> Inl e | Inr (t, asset, parts) \<Rightarrow> parse_typed E ver None t asset parts)"

definition ParseMemoWithMAYANames :: "env \<Rightarrow> KVStore \<Rightarrow> string \<Rightarrow> go_error + Memo" where
  "ParseMemoWithMAYANames E k memo =
     (case parseBase memo of
        Inl e \<Rightarrow> Inl e | Inr (t, asset, parts) \<Rightarrow> parse_typed E (K_version k) (Some k) t asset parts)"

section \<open>Round trips\<close>

lemma colon_facts:
  "\<not> is_digit (CHR '':'')" "\<not> is_upper_letter (CHR '':'')" "\<not> is_symbol_char (CHR '':'')" "\<not> is_digit (CHR ''-'')"
  by (code_simp | rule conjI)+

lemma show_no_colon [simp]: "CHR '':'' \<notin> set (show_nat n)" "CHR '':'' \<notin> set (show_int i)"
  using show_nat_digits digits_no [OF _ colon_facts(1)] by (auto simp: show_int_def)

lemma asset_no_colon: "parsed_asset a \<Longrightarrow> CHR '':'' \<notin> set (Asset_String a)"
  using colon_facts
  by (auto simp: parsed_asset_def parsed_chain_def list_all_iff Asset_String_def Chain_String_def Symbol_String_def
      parsed_chain_upper toUpper_id split: if_splits)

lemma memo_types:
  "StringToTxType ''OUT'' = Inr TxOutbound" "StringToTxType ''REFUND'' = Inr TxRefund"
  "StringToTxType ''MIGRATE'' = Inr TxMigrate" "StringToTxType ''RAGNAROK'' = Inr TxRagnarok"
  "StringToTxType ''YGGDRASIL+'' = Inr TxYggdrasilFund" "StringToTxType ''YGGDRASIL-'' = Inr TxYggdrasilReturn"
  "StringToTxType ''DONATE'' = Inr TxDonate" "StringToTxType ''noop'' = Inr TxNoOp"
  "StringToTxType ''consolidate'' = Inr TxConsolidate" "StringToTxType ''='' = Inr TxSwap"
  by (code_simp | rule conjI)+

lemma parseBase_join:
  assumes "list_all (\<lambda>p. CHR '':'' \<notin> set p) (p # ps)" and "p \<noteq> ''''" and "StringToTxType p = Inr t"
    and "t \<in> {TxDonate, TxAdd, TxSwap, TxWithdraw} \<Longrightarrow> \<exists>q qs. ps = q # qs \<and> NewAsset q = Inr a"
    and "t \<notin> {TxDonate, TxAdd, TxSwap, TxWithdraw} \<Longrightarrow> a = EmptyAsset"
  shows "parseBase (joinWith '':'' (p # ps)) = Inr (t, a, p # ps)"
proof -
  have "joinWith '':'' (p # ps) \<noteq> []" using assms(2) by (cases ps) auto
  then show ?thesis
    using assms splitOn_joinWith [OF _ assms(1)] by (auto simp: parseBase_def Let_def simp del: splitOn.simps)
qed

text \<open>Memos that print to something that parses back. Without a store the memo of a swap is read by
  the first version of the parser, which knows no aggregator.\<close>

definition plain_address :: "env \<Rightarrow> address \<Rightarrow> bool" where
  "plain_address E s \<longleftrightarrow> CHR '':'' \<notin> set s \<and> NewAddress (E_codecs E) s = Inr s"

fun printable :: "env \<Rightarrow> Memo \<Rightarrow> bool" where
  "printable E (OutboundMemo txID) \<longleftrightarrow> length txID = 64 \<and> toUpper txID = txID \<and> CHR '':'' \<notin> set txID"
| "printable E (RefundMemo txID) \<longleftrightarrow> length txID = 64 \<and> toUpper txID = txID \<and> CHR '':'' \<notin> set txID"
| "printable E (DonateMemo a) \<longleftrightarrow> parsed_asset a"
| "printable E (YggdrasilFundMemo h) \<longleftrightarrow> - (2 ^ 63) \<le> h \<and> h < 2 ^ 63"
| "printable E (YggdrasilReturnMemo h) \<longleftrightarrow> - (2 ^ 63) \<le> h \<and> h < 2 ^ 63"
| "printable E (MigrateMemo h) \<longleftrightarrow> - (2 ^ 63) \<le> h \<and> h < 2 ^ 63"
| "printable E (RagnarokMemo h) \<longleftrightarrow> - (2 ^ 63) \<le> h \<and> h < 2 ^ 63"
| "printable E (NoOpMemo action) \<longleftrightarrow> CHR '':'' \<notin> set action"
| "printable E ConsolidateMemo \<longleftrightarrow> True"
| "printable E (SwapMemo a d s f p g t l ty) \<longleftrightarrow>
     parsed_asset a \<and> plain_address E d \<and> plain_address E f \<and> s < 2 ^ 256 \<and> p < 2 ^ 64 \<and> (f = '''' \<longrightarrow> p = 0)
     \<and> g = '''' \<and> t = '''' \<and> l = None \<and> ty = OrderType_market"
| "printable E _ \<longleftrightarrow> False"

lemma plain_nonempty: "plain_address E s \<Longrightarrow> s \<noteq> '''' \<Longrightarrow> \<not> Address_IsEmpty s"
proof -
  assume p: "plain_address E s" and ne: "s \<noteq> ''''"
  have "list_all is_alpha_num s"
    using p ne by (auto simp: plain_address_def NewAddress_def split: if_splits)
  moreover have "is_alpha_num c \<Longrightarrow> \<not> is_space c" for c
    by (auto simp: is_alpha_num_def is_space_def Let_def)
  ultimately have "list_all (\<lambda>c. \<not> is_space c) s" by (auto simp: list_all_iff)
  then have "dropWhile is_space s = s" "dropWhile is_space (rev s) = rev s"
    using ne by (cases s, auto, cases "rev s", auto simp: list_all_iff dest: arg_cong [of _ _ set])
  then show ?thesis using ne by (simp add: Address_IsEmpty_def trimSpace_def)
qed

lemma parse_two:
  assumes "StringToTxType p = Inr t" and "p \<noteq> ''''" and "CHR '':'' \<notin> set p" and "CHR '':'' \<notin> set x"
    and "t \<notin> {TxDonate, TxAdd, TxSwap, TxWithdraw}"
  shows "ParseMemo E ver (p @ CHR '':'' # x) = parse_typed E ver None t EmptyAsset [p, x]"
  using parseBase_join [of p "[x]" t EmptyAsset] assms by (simp add: ParseMemo_def)

lemma swap_roundtrip:
  assumes "cosmos_sdk (E_sdk E)" and "parsed_asset a" and "plain_address E d" and "plain_address E f"
    and "s < 2 ^ 256" and "p < 2 ^ 64" and "f = '''' \<longrightarrow> p = 0"
  shows "ParseMemo E ver (SwapMemo_String a d s f p '''' '''' None) = Inr (SwapMemo a d s f p '''' '''' None OrderType_market)"
proof -
  let ?slip = "if s = 0 then '''' else show_nat s"
  define args where "args = [Asset_String a, d] @ (if f = '''' then if s = 0 then [] else [?slip] else [?slip, f, show_nat p])"
  have str: "SwapMemo_String a d s f p '''' '''' None = joinWith '':'' (''='' # args)"
    using plain_nonempty [OF assms(4)]
    by (auto simp: SwapMemo_String_def args_def Address_IsEmpty_def trimSpace_def)
  have "parseBase (joinWith '':'' (''='' # args)) = Inr (TxSwap, a, ''='' # args)"
  proof (rule parseBase_join)
    show "list_all (\<lambda>p. CHR '':'' \<notin> set p) (''='' # args)"
      using assms(2-4) asset_no_colon by (auto simp: args_def plain_address_def)
  qed (use memo_types NewAsset_print [OF assms(2)] in \<open>auto simp: args_def\<close>)
  moreover have "swap_fields E None THORChain a (''='' # args) = Inr (d, s, f, p)"
  proof -
    have "show_nat n \<noteq> ''''" for n using show_nat_digits by blast
    then show ?thesis
      using assms cosmos_sdk.uint_parse_decimal [OF assms(1,5)] ParseUint64_show [OF assms(6)]
      by (auto simp: swap_fields_def args_def part_def memo_address_def plain_address_def)
  qed
  ultimately show ?thesis
    by (simp add: str ParseMemo_def ParseSwapMemo_def ParseSwapMemoV1_def NewSwapMemo_def)
qed



section \<open>What a memo can ask for\<close>

lemma Inr_caseI: "(case r of Inl e \<Rightarrow> Inl e | Inr a \<Rightarrow> f a) = Inr b \<longleftrightarrow> (\<exists>a. r = Inr a \<and> f a = Inr b)"
  by (cases r) auto

lemma bond_fields_type: "bond_fields S asset units parts g h = Inr m \<Longrightarrow> Memo_GetType m = TxBond"
  by (auto simp: bond_fields_def Inr_caseI)

lemma unbond_fields_type: "unbond_fields S asset units parts = Inr m \<Longrightarrow> Memo_GetType m = TxUnbond"
  by (auto simp: unbond_fields_def Inr_caseI)

lemma ParseSwapMemo_type: "ParseSwapMemo E keeper asset parts = Inr m \<Longrightarrow> Memo_GetType m = TxSwap"
  by (auto simp: ParseSwapMemo_def ParseSwapMemoV1_def ParseSwapMemoV92_def NewSwapMemo_def Inr_caseI
      split: option.splits if_splits)

lemma ParseAddLiquidityMemo_type: "ParseAddLiquidityMemo E keeper asset parts = Inr m \<Longrightarrow> Memo_GetType m = TxAdd"
  by (auto simp: ParseAddLiquidityMemo_def Inr_caseI split: option.splits if_splits)

lemma ParseWithdrawLiquidityMemo_type:
  "ParseWithdrawLiquidityMemo E keeper asset parts = Inr m \<Longrightarrow> Memo_GetType m = TxWithdraw"
  by (auto simp: ParseWithdrawLiquidityMemo_def split: if_splits sum.splits)

lemma ParseManageMAYANameMemo_type: "ParseManageMAYANameMemo E parts = Inr m \<Longrightarrow> Memo_GetType m = TxMAYAName"
  by (auto simp: ParseManageMAYANameMemo_def split: if_splits sum.splits)

lemmas memo_parser_types = ParseSwapMemo_type ParseAddLiquidityMemo_type ParseWithdrawLiquidityMemo_type
  ParseManageMAYANameMemo_type bond_fields_type unbond_fields_type

lemma parse_typed_type: "parse_typed E ver keeper t asset parts = Inr m \<Longrightarrow> Memo_GetType m = t"
proof (cases t)
  case TxBond
  moreover assume "parse_typed E ver keeper t asset parts = Inr m"
  ultimately show ?thesis
    by (auto simp: ParseBondMemo_def ParseBondMemoV105_def ParseBondMemoV88_def ParseBondMemoV81_def Inr_caseI
        dest: bond_fields_type split: if_splits)
next
  case TxUnbond
  moreover assume "parse_typed E ver keeper t asset parts = Inr m"
  ultimately show ?thesis
    by (auto simp: ParseUnbondMemo_def ParseUnbondMemoV105_def ParseUnbondMemoV81_def Inr_caseI
        dest: unbond_fields_type split: if_splits)
qed (auto simp: ParseLeaveMemo_def ParseOutboundMemo_def ParseRefundMemo_def ParseMigrateMemo_def ParseRagnarokMemo_def
    ParseYggdrasilFundMemo_def ParseYggdrasilReturnMemo_def memo_with_txid_def memo_with_height_def ParseNoOpMemo_def
    ParseForgiveSlashMemo_def Inr_caseI dest: memo_parser_types split: if_splits option.splits)

lemma StringToTxType_range: "StringToTxType s = Inr t \<Longrightarrow> t \<noteq> TxUnknown \<and> t \<noteq> TxForgiveSlash"
  by (auto simp: StringToTxType_def stringToTxTypeMap_def split: option.splits if_splits)

lemma parseBase_type: "parseBase memo = Inr (t, a, parts) \<Longrightarrow> StringToTxType (hd parts) = Inr t \<and> parts = splitOn (CHR '':'') memo"
  by (auto simp: parseBase_def Let_def Inr_caseI split: if_splits)

text \<open>C20: a memo that parses has the type its first field names, with or without names; no memo at
  all parses to the forgiveness of a slash, because the table of the types has no entry for it.\<close>

theorem ParseMemo_typed:
  assumes "ParseMemo E ver memo = Inr m \<or> ParseMemoWithMAYANames E k memo = Inr m"
  shows "StringToTxType (hd (splitOn (CHR '':'') memo)) = Inr (Memo_GetType m) \<and> Memo_GetType m \<noteq> TxForgiveSlash"
proof -
  obtain t a parts ver' keeper where b: "parseBase memo = Inr (t, a, parts)"
    and "parse_typed E ver' keeper t a parts = Inr m"
    using assms by (auto simp: ParseMemo_def ParseMemoWithMAYANames_def Inr_caseI)
  then have "Memo_GetType m = t" using parse_typed_type by blast
  then show ?thesis using parseBase_type [OF b] StringToTxType_range by auto
qed

theorem ParseMemo_typed_witness:
  "ParseMemo (sample_env 1) (\<lambda>_. True) ''noop:novault'' = Inr (NoOpMemo ''novault'')
   \<and> StringToTxType (hd (splitOn (CHR '':'') ''noop:novault'')) = Inr (Memo_GetType (NoOpMemo ''novault''))"
proof -
  have "ParseMemo (sample_env 1) (\<lambda>_. True) ''noop:novault'' = Inr (NoOpMemo ''novault'')"
    using parse_two [OF memo_types(8), of "''novault''" "sample_env 1" "\<lambda>_. True"] by (simp add: ParseNoOpMemo_def part_def)
  then show ?thesis using ParseMemo_typed [of "sample_env 1" "\<lambda>_. True" "''noop:novault''" "NoOpMemo ''novault''"] by simp
qed

text \<open>The id of an Ethereum transaction as the observer reports it, \<open>0x\<close> and 64 digits, is stored with
  the prefix \<open>0X\<close>; its own printed form is refused afterwards.\<close>

lemma NewTxID_not_idempotent:
  assumes "length hash = 66" and "NewTxID hash = Inr txID"
  shows "\<exists>e. NewTxID txID = Inl e" and "\<exists>e. ParseOutboundMemo [''OUT'', txID] = Inl e"
proof -
  have "txID = toUpper hash" and "take 2 hash = ''0x''"
    using assms by (auto simp: NewTxID_def hasPrefix_def numeral_2_eq_2 split: if_splits)
  moreover have "toUpper ''0x'' = ''0X''" by code_simp
  ultimately have "take 2 txID = ''0X''" and "length txID = 66"
    using assms(1) by (auto simp: toUpper_def take_map)
  then show "\<exists>e. NewTxID txID = Inl e" by (auto simp: NewTxID_def hasPrefix_def numeral_2_eq_2)
  then show "\<exists>e. ParseOutboundMemo [''OUT'', txID] = Inl e" by (auto simp: ParseOutboundMemo_def memo_with_txid_def)
qed

end
