(* ===== verification/SwapQueue.thy ===== *)
theory SwapQueue
  imports Swapper Gas Memos
begin

text \<open>
  The swap queue, \<open>x/mayachain/manager_swap_queue_current.go\<close> (\<open>SwapQv95\<close>), with the refund of a
  transaction (\<open>refundTx\<close> of \<open>helpers.go\<close>) and the dispatch of an internal message
  (\<open>NewInternalHandler\<close> of \<open>handler.go\<close>). Swaps wait in the store; at the end of a block they are scored
  by fee and slip, sorted, and a part of them is handed to the swap handler.

  Parameters are the outbound store of the manager, an interface in the sources, and the handler of
  \<open>MsgSwap\<close>, which the dispatcher looks up by message type.
\<close>

section \<open>Refunds\<close>

text \<open>The refund event is only emitted; its fee is computed, which may panic.\<close>

definition refund_event :: "env \<Rightarrow> KVStore \<Rightarrow> GasMgr \<Rightarrow> Tx \<Rightarrow> coins \<Rightarrow> unit option" where
  "refund_event E k gm tx refundCoins =
     (if refundCoins = [] then Some ()
      else do {
        transactionFee \<leftarrow> GetFee E k gm (Tx_Chain tx) BaseAsset;
        _ \<leftarrow> getFee (E_sdk E) (Tx_Coins tx) refundCoins transactionFee;
        Some ()
      })"

definition refund_item :: "ObservedTx \<Rightarrow> string \<Rightarrow> Coin \<Rightarrow> TxOutItem" where
  "refund_item tx nativeRuneModuleName coin =
     \<lparr>TOI_Chain = Asset_GetChain (Coin_Asset coin), TOI_ToAddress = Tx_FromAddress (OT_Tx tx),
      TOI_VaultPubKey = OT_ObservedPubKey tx, TOI_Coin = coin,
      TOI_Memo = RefundMemo_String (Tx_ID (OT_Tx tx)), TOI_MaxGas = [], TOI_GasRate = 0,
      TOI_InHash = Tx_ID (OT_Tx tx), TOI_OutHash = '''', TOI_ModuleName = nativeRuneModuleName,
      TOI_Aggregator = '''', TOI_AggregatorTargetAsset = '''', TOI_AggregatorTargetLimit = None\<rparr>"

text \<open>The loop over the coins. The versions differ in the asset whose pool is read.\<close>

fun refund_coins ::
  "(Asset \<Rightarrow> Asset) \<Rightarrow> 'b txout_store \<Rightarrow> ObservedTx \<Rightarrow> string \<Rightarrow> coins \<Rightarrow> 'b world \<Rightarrow> coins
    \<Rightarrow> (coins \<times> 'b world) option" where
  "refund_coins pool_of txout tx module [] w done_coins = Some (done_coins, w)"
| "refund_coins pool_of txout tx module (coin # cs) w done_coins =
     (if Asset_IsBase (Coin_Asset coin) \<and> Chain_Equals (Asset_GetChain (Coin_Asset coin)) ETHChain
      then refund_coins pool_of txout tx module cs w done_coins
      else if Asset_IsBase (Coin_Asset coin) \<or> Pool_BalanceCacao (GetPool (W_kv w) (pool_of (Coin_Asset coin))) \<noteq> 0
      then do {
        (r, w') \<leftarrow> txout w (refund_item tx module coin) 0;
        refund_coins pool_of txout tx module cs w'
          (case r of Inr True \<Rightarrow> done_coins @ [coin] | _ \<Rightarrow> done_coins)
      }
      else refund_coins pool_of txout tx module cs w done_coins)"

definition refund_with ::
  "(Asset \<Rightarrow> Asset) \<Rightarrow> env \<Rightarrow> 'b txout_store \<Rightarrow> GasMgr \<Rightarrow> 'b world \<Rightarrow> ObservedTx \<Rightarrow> string \<Rightarrow> 'b outcome" where
  "refund_with pool_of E txout gm w tx module =
     (let t = OT_Tx tx; native = Chain_Equals (Tx_Chain t) BASEChain in
      do {
        _ \<leftarrow> (if native then refund_event E (W_kv w) gm t (Tx_Coins t) else Some ());
        (refundCoins, w') \<leftarrow> refund_coins pool_of txout tx module (Tx_Coins t) w [];
        _ \<leftarrow> (if native then Some () else refund_event E (W_kv w') gm t refundCoins);
        Some (None, w')
      })"

definition refundTxV104 :: "env \<Rightarrow> 'b txout_store \<Rightarrow> GasMgr \<Rightarrow> 'b world \<Rightarrow> ObservedTx \<Rightarrow> string \<Rightarrow> 'b outcome" where
  "refundTxV104 = refund_with Asset_GetLayer1Asset"

definition refundTxV47 :: "env \<Rightarrow> 'b txout_store \<Rightarrow> GasMgr \<Rightarrow> 'b world \<Rightarrow> ObservedTx \<Rightarrow> string \<Rightarrow> 'b outcome" where
  "refundTxV47 = refund_with (\<lambda>a. a)"

definition refundTx :: "env \<Rightarrow> 'b txout_store \<Rightarrow> GasMgr \<Rightarrow> 'b world \<Rightarrow> ObservedTx \<Rightarrow> string \<Rightarrow> 'b outcome" where
  "refundTx E txout gm w tx module =
     (if K_version (W_kv w) (1, 104, 0) then refundTxV104 E txout gm w tx module
      else if K_version (W_kv w) (0, 47, 0) then refundTxV47 E txout gm w tx module
      else Some (fails ''bad version'', w))"

section \<open>Internal messages\<close>

text \<open>From version 1.88.1 on the changes of a handler that fails are discarded. Before 1.90 the version
  asked is the lowest one the active nodes run, for which the version of the state stands here; the
  handler of the message type is the argument \<open>run\<close>.\<close>

definition NewInternalHandler :: "('b world \<Rightarrow> 'm \<Rightarrow> 'b outcome) \<Rightarrow> 'b world \<Rightarrow> 'm \<Rightarrow> 'b outcome" where
  "NewInternalHandler run w msg =
     do {
       (e, w') \<leftarrow> run w msg;
       Some (e, if K_version (W_kv w) (1, 88, 1) \<and> e \<noteq> None then w else w')
     }"

section \<open>Items and their order\<close>

record swapItem =
  SI_index :: int
  SI_msg :: MsgSwap
  SI_fee :: nat
  SI_slip :: nat

record swap_score =
  SS_msg :: MsgSwap
  SS_score :: nat
  SS_index :: int

definition item_id :: "swapItem \<Rightarrow> tx_id" where
  "item_id i = Tx_ID (MS_Tx (SI_msg i))"

definition score_id :: "swap_score \<Rightarrow> tx_id" where
  "score_id s = Tx_ID (MS_Tx (SS_msg s))"

definition same_swap :: "swap_score \<Rightarrow> swapItem \<Rightarrow> bool" where
  "same_swap s i \<longleftrightarrow> TxID_Equals (score_id s) (item_id i) \<and> SS_index s = SI_index i"

definition empty_swapItem :: swapItem where
  "empty_swapItem =
     \<lparr>SI_index = 0, SI_msg = NewMsgSwap EmptyTx EmptyAsset '''' 0 '''' 0 '''' '''' None OrderType_market [],
      SI_fee = 0, SI_slip = 0\<rparr>"

text \<open>
  In \<open>swapItems.Sort\<close> the slices \<open>byFee\<close> and \<open>bySlip\<close> are assigned from \<open>items\<close>: all three are the
  same array, which is sorted in place twice before any score is taken. \<open>sort_key\<close> is stable, as
  \<open>sort.SliceStable\<close>.
\<close>

definition sorted_array :: "swapItem list \<Rightarrow> swapItem list" where
  "sorted_array items =
     sort_key (\<lambda>i. - int (SI_slip i)) (sort_key (\<lambda>i. - int (SI_fee i)) items)"

definition fee_scores :: "swapItem list \<Rightarrow> swap_score list" where
  "fee_scores byFee =
     map (\<lambda>(n, item). \<lparr>SS_msg = SI_msg item, SS_score = n, SS_index = SI_index item\<rparr>) (enumerate 0 byFee)"

definition add_slip_scores :: "swapItem list \<Rightarrow> swap_score list \<Rightarrow> swap_score list" where
  "add_slip_scores bySlip scores =
     foldl (\<lambda>ss (n, item). update_first (\<lambda>s. same_swap s item) (\<lambda>s. s\<lparr>SS_score := SS_score s + n\<rparr>) ss)
       scores (enumerate 0 bySlip)"

definition item_of :: "swapItem list \<Rightarrow> swap_score \<Rightarrow> swapItem" where
  "item_of items s = (case find (same_swap s) items of None \<Rightarrow> empty_swapItem | Some i \<Rightarrow> i)"

definition swapItems_Sort :: "swapItem list \<Rightarrow> swapItem list" where
  "swapItems_Sort items0 =
     (let items = sorted_array items0;
          scores = add_slip_scores items (fee_scores items);
          byID = sort_key score_id scores;
          byScore = sort_key SS_score byID
      in map (item_of items) byScore)"

section \<open>The queue\<close>

definition queue_item :: "string \<times> MsgSwap \<Rightarrow> swapItem option" where
  "queue_item e =
     map_option (\<lambda>i. \<lparr>SI_index = i, SI_msg = snd e, SI_fee = 0, SI_slip = 0\<rparr>)
       (Atoi (last (splitOn (CHR ''-'') (fst e))))"

definition FetchQueue :: "KVStore \<Rightarrow> swapItem list" where
  "FetchQueue k = map the (filter (\<lambda>i. i \<noteq> None) (map queue_item (K_swapQueue k)))"

definition getTodoNum :: "int \<Rightarrow> int \<Rightarrow> int \<Rightarrow> int" where
  "getTodoNum queueLen minSwapsPerBlock maxSwapsPerBlock =
     (let todo = (if minSwapsPerBlock \<ge> queueLen then queueLen else queueLen div 2)
      in if maxSwapsPerBlock < todo then maxSwapsPerBlock else todo)"

section \<open>Scores\<close>

definition getLiquidityFeeAndSlip :: "sdk \<Rightarrow> Pool \<Rightarrow> Coin \<Rightarrow> swapItem \<Rightarrow> int \<Rightarrow> swapItem option" where
  "getLiquidityFeeAndSlip S pool sourceCoin item virtualDepthMult =
     do {
       let x = Coin_Amount sourceCoin;
       let base = Asset_IsBase (Coin_Asset sourceCoin);
       let share = (\<lambda>d. GetUncappedShare S (uint64_cast virtualDepthMult) 10000 d);
       let X = share (if base then Pool_BalanceCacao pool else Pool_BalanceAsset pool);
       let Y = share (if base then Pool_BalanceAsset pool else Pool_BalanceCacao pool);
       fee0 \<leftarrow> CalcLiquidityFee S X x Y;
       let fee = (if base then Pool_AssetValueInRune S pool fee0 else fee0);
       slip \<leftarrow> CalcSwapSlip S X x;
       f \<leftarrow> uint_add S (SI_fee item) fee;
       s \<leftarrow> uint_add S (SI_slip item) slip;
       Some (item\<lparr>SI_fee := f, SI_slip := s\<rparr>)
     }"

text \<open>The pool of a side of a swap; the map of pools has no entry for CACAO.\<close>

definition score_pool :: "KVStore \<Rightarrow> Asset \<Rightarrow> Pool" where
  "score_pool k a =
     (if Asset_IsBase a then NewPool\<lparr>Pool_Status := PoolStatus_UnknownPoolStatus\<rparr>
      else GetPool k (Asset_GetLayer1Asset a))"

definition pool_unusable :: "Pool \<Rightarrow> bool" where
  "pool_unusable pool \<longleftrightarrow> Pool_IsEmpty pool \<or> Pool_BalanceCacao pool = 0 \<or> Pool_BalanceAsset pool = 0"

definition scoreMsg :: "sdk \<Rightarrow> KVStore \<Rightarrow> int \<Rightarrow> swapItem \<Rightarrow> swapItem option" where
  "scoreMsg S k synthVirtualDepthMult item =
     (case Tx_Coins (MS_Tx (SI_msg item)) of
        [] \<Rightarrow> None
      | coin # _ \<Rightarrow>
          let sourceAsset = Coin_Asset coin; targetAsset = MS_TargetAsset (SI_msg item);
              nonBaseAsset = (if Asset_IsBase sourceAsset then targetAsset else sourceAsset);
              pool = score_pool k nonBaseAsset;
              depth = (\<lambda>a. if Asset_IsSyntheticAsset a then synthVirtualDepthMult else 10000)
          in if pool_unusable pool then Some item
             else if \<not> Pool_IsAvailable pool \<and> \<not> Asset_IsSyntheticAsset sourceAsset then Some item
             else do {
               item1 \<leftarrow> getLiquidityFeeAndSlip S pool coin item (depth nonBaseAsset);
               if Asset_IsBase sourceAsset \<or> Asset_IsBase targetAsset then Some item1
               else
                 let runeCoin = NewCoin BaseAsset (Pool_AssetValueInRune S pool (Coin_Amount coin));
                     pool2 = score_pool k targetAsset
                 in if pool_unusable pool2 \<or> \<not> Pool_IsAvailable pool2 then Some item1
                    else getLiquidityFeeAndSlip S pool2 runeCoin item1 (depth targetAsset)
             })"

definition scoreMsgs :: "sdk \<Rightarrow> KVStore \<Rightarrow> int \<Rightarrow> swapItem list \<Rightarrow> swapItem list option" where
  "scoreMsgs S k synthVirtualDepthMult items = those (map (scoreMsg S k synthVirtualDepthMult) items)"

section \<open>End of the block\<close>

definition process_swap ::
  "env \<Rightarrow> 'b txout_store \<Rightarrow> GasMgr \<Rightarrow> ('b world \<Rightarrow> MsgSwap \<Rightarrow> 'b outcome) \<Rightarrow> 'b world \<Rightarrow> swapItem
    \<Rightarrow> 'b world option" where
  "process_swap E txout gm handler w pick =
     do {
       (e, w1) \<leftarrow> NewInternalHandler handler w (SI_msg pick);
       w2 \<leftarrow>
         (case e of
            None \<Rightarrow> Some w1
          | Some _ \<Rightarrow>
              map_option snd (refundTx E txout gm w1 (EmptyObservedTx\<lparr>OT_Tx := MS_Tx (SI_msg pick)\<rparr>) ''''));
       Some (w2\<lparr>W_kv := RemoveSwapQueueItem (W_kv w2) (item_id pick) (SI_index pick)\<rparr>)
     }"

fun process_swaps ::
  "env \<Rightarrow> 'b txout_store \<Rightarrow> GasMgr \<Rightarrow> ('b world \<Rightarrow> MsgSwap \<Rightarrow> 'b outcome) \<Rightarrow> swapItem list \<Rightarrow> 'b world
    \<Rightarrow> 'b world option" where
  "process_swaps E txout gm handler [] w = Some w"
| "process_swaps E txout gm handler (pick # picks) w =
     do { w' \<leftarrow> process_swap E txout gm handler w pick; process_swaps E txout gm handler picks w' }"

definition synth_depth_mult :: "env \<Rightarrow> KVStore \<Rightarrow> int" where
  "synth_depth_mult E k =
     (let v = mimir E k (ConstantName_String ''VirtualMultSynthsBasisPoints'')
      in if v < 1 then C_int64 (E_cv E) ''VirtualMultSynthsBasisPoints'' else v)"

definition SwapQ_EndBlock ::
  "env \<Rightarrow> 'b txout_store \<Rightarrow> GasMgr \<Rightarrow> ('b world \<Rightarrow> MsgSwap \<Rightarrow> 'b outcome) \<Rightarrow> 'b world \<Rightarrow> 'b world option" where
  "SwapQ_EndBlock E txout gm handler w =
     do {
       let minSwapsPerBlock = config E (W_kv w) ''MinSwapsPerBlock'';
       let maxSwapsPerBlock = config E (W_kv w) ''MaxSwapsPerBlock'';
       scored \<leftarrow> scoreMsgs (E_sdk E) (W_kv w) (synth_depth_mult E (W_kv w)) (FetchQueue (W_kv w));
       let swaps = swapItems_Sort scored;
       process_swaps E txout gm handler
         (take (nat (getTodoNum (int (length swaps)) minSwapsPerBlock maxSwapsPerBlock)) swaps) w
     }"

section \<open>What the sort computes\<close>

lemma update_first_skip:
  "list_all (\<lambda>x. \<not> P x) pre \<Longrightarrow> update_first P f (pre @ rest) = pre @ update_first P f rest"
  by (induction pre) auto

lemma find_unique:
  assumes "distinct (map key xs)" and "x \<in> set xs" and "\<And>y. P y \<longleftrightarrow> key y = key x"
  shows "find P xs = Some x"
  using assms(1,2) by (induction xs) (auto simp: assms(3) image_iff)

text \<open>A pass over the items that adds to the entry with the same key changes each entry once.\<close>

lemma update_each:
  assumes "\<And>s i. P s i \<longleftrightarrow> ks s = ki i" and "\<And>n s. ks (f n s) = ks s"
    and "map ks rest = map ki xs" and "distinct (map ki xs)" and "ks ` set pre \<inter> ki ` set xs = {}"
  shows "foldl (\<lambda>ss (n, i). update_first (\<lambda>s. P s i) (f n) ss) (pre @ rest) (enumerate m xs)
    = pre @ map (\<lambda>(n, s). f n s) (enumerate m rest)"
  using assms(3-5)
proof (induction xs arbitrary: pre rest m)
  case (Cons i xs)
  then obtain s rest' where rest: "rest = s # rest'" and s: "ks s = ki i" "map ks rest' = map ki xs"
    by (cases rest) auto
  have "list_all (\<lambda>t. \<not> P t i) pre" using Cons.prems(3) by (force simp: list_all_iff assms(1))
  then have "update_first (\<lambda>t. P t i) (f m) (pre @ rest) = (pre @ [f m s]) @ rest'"
    by (simp add: update_first_skip rest assms(1) s(1))
  moreover have "ks ` set (pre @ [f m s]) \<inter> ki ` set xs = {}"
    using Cons.prems(2,3) s(1) assms(2) by auto
  ultimately show ?case
    using Cons.IH [of rest' "pre @ [f m s]" "Suc m"] s(2) Cons.prems(2) rest by simp
qed simp

definition swap_key :: "swapItem \<Rightarrow> string \<times> int" where
  "swap_key i = (toUpper (item_id i), SI_index i)"

definition score_key :: "swap_score \<Rightarrow> string \<times> int" where
  "score_key s = (toUpper (score_id s), SS_index s)"

lemma same_swap_key: "same_swap s i \<longleftrightarrow> score_key s = swap_key i"
  by (auto simp: same_swap_def score_key_def swap_key_def TxID_Equals_def equalFold_def)

lemma map_enumerate_nth: "map g (enumerate 0 xs) = map (\<lambda>n. g (n, xs ! n)) [0..<length xs]"
  by (intro nth_equalityI) (simp_all add: nth_enumerate_eq)

lemma scores_doubled:
  assumes "distinct (map swap_key A)"
  shows "add_slip_scores A (fee_scores A)
    = map (\<lambda>n. \<lparr>SS_msg = SI_msg (A ! n), SS_score = 2 * n, SS_index = SI_index (A ! n)\<rparr>) [0..<length A]"
proof -
  have fs: "fee_scores A
      = map (\<lambda>n. \<lparr>SS_msg = SI_msg (A ! n), SS_score = n, SS_index = SI_index (A ! n)\<rparr>) [0..<length A]"
    by (simp add: fee_scores_def map_enumerate_nth)
  have keys: "map score_key (fee_scores A) = map swap_key A"
    by (rule nth_equalityI) (simp_all add: fs score_key_def swap_key_def score_id_def item_id_def)
  have "add_slip_scores A (fee_scores A)
      = [] @ map (\<lambda>(n, s). s\<lparr>SS_score := SS_score s + n\<rparr>) (enumerate 0 (fee_scores A))"
    using update_each [of same_swap score_key swap_key "\<lambda>n s. s\<lparr>SS_score := SS_score s + n\<rparr>"
        "fee_scores A" A "[]" 0] assms keys
    by (simp add: add_slip_scores_def same_swap_key score_key_def score_id_def)
  then show ?thesis by (simp add: map_enumerate_nth fs)
qed

lemma set_sorted_array: "mset (sorted_array items) = mset items"
  by (simp add: sorted_array_def)

lemma swapItems_Sort_by_slip_conv:
  assumes "distinct (map swap_key items)"
  shows "swapItems_Sort items = sorted_array items"
proof -
  define A where "A = sorted_array items"
  have dA: "distinct (map swap_key A)"
    using assms set_sorted_array [of items] unfolding A_def
    by (metis distinct_map mset_eq_imp_distinct_iff mset_eq_setD mset_map)
  define sc where "sc = add_slip_scores A (fee_scores A)"
  note dbl = scores_doubled [OF dA, folded sc_def]
  have "sorted (map SS_score sc)" "inj_on SS_score (set sc)"
    by (auto simp: dbl sorted_iff_nth_mono inj_on_def)
  then have "sort_key SS_score (sort_key score_id sc) = sc"
    by (intro sort_key_inj_key_eq) (simp_all)
  moreover have "map (item_of A) sc = A"
  proof (rule nth_equalityI)
    fix n assume "n < length (map (item_of A) sc)"
    then have n: "n < length A" by (simp add: dbl)
    have "find (same_swap (sc ! n)) A = Some (A ! n)"
      by (rule find_unique [OF dA nth_mem [OF n]])
         (use n in \<open>auto simp: dbl same_swap_key score_key_def score_id_def swap_key_def item_id_def\<close>)
    then show "map (item_of A) sc ! n = A ! n" using n by (simp add: item_of_def dbl)
  qed (simp add: dbl)
  ultimately have "swapItems_Sort items = A"
    by (simp add: swapItems_Sort_def Let_def sc_def A_def)
  then show ?thesis by (simp add: A_def)
qed


definition sample_item :: "string \<Rightarrow> nat \<Rightarrow> nat \<Rightarrow> swapItem" where
  "sample_item txid fee slip =
     empty_swapItem\<lparr>SI_msg := SI_msg empty_swapItem\<lparr>MS_Tx := EmptyTx\<lparr>Tx_ID := txid\<rparr>\<rparr>, SI_fee := fee, SI_slip := slip\<rparr>"


section \<open>The queue drains\<close>

lemma toUpper_digits: "list_all is_digit s \<Longrightarrow> toUpper s = s"
  by (induction s) (auto simp: is_digit_def char_upper_def Let_def)

lemma minus_not_digit: "list_all is_digit s \<Longrightarrow> CHR ''-'' \<notin> set s"
proof -
  have "\<not> is_digit (CHR ''-'')" by code_simp
  then show "list_all is_digit s \<Longrightarrow> CHR ''-'' \<notin> set s" by (auto simp: list_all_iff)
qed

lemma queue_item_key:
  assumes "0 \<le> i" and "i < 2 ^ 63"
  shows "queue_item (swap_queue_key txid i, msg) = Some \<lparr>SI_index = i, SI_msg = msg, SI_fee = 0, SI_slip = 0\<rparr>"
proof -
  have d: "list_all is_digit (show_int i)" using show_nat_digits assms(1) by (simp add: show_int_def)
  have m: "char_upper (CHR ''-'') = CHR ''-''" by code_simp
  have "swap_queue_key txid i = (dbPrefix ''prefixSwapQueueItem'' @ ''/'' @ toUpper txid) @ CHR ''-'' # show_int i"
    using d m by (simp add: swap_queue_key_def GetKey_def toUpper_digits)
  then have "last (splitOn (CHR ''-'') (swap_queue_key txid i)) = show_int i"
    using splitOn_last [OF minus_not_digit [OF d]] by metis
  then show ?thesis using Atoi_show [OF assms] by (simp add: queue_item_def)
qed

text \<open>Every swap is stored under the key of its hash and an index.\<close>

definition swap_queue_ok :: "KVStore \<Rightarrow> bool" where
  "swap_queue_ok k \<longleftrightarrow> distinct (map fst (K_swapQueue k)) \<and>
     (\<forall>e \<in> set (K_swapQueue k). \<exists>i. 0 \<le> i \<and> i < 2 ^ 63 \<and> fst e = swap_queue_key (Tx_ID (MS_Tx (snd e))) i)"

definition queue_key :: "swapItem \<Rightarrow> string" where
  "queue_key i = swap_queue_key (item_id i) (SI_index i)"

lemma queue_key_swap_key: "queue_key i = GetKey (dbPrefix ''prefixSwapQueueItem'') (fst (swap_key i) @ ''-'' @ show_int (snd (swap_key i)))"
  by (simp add: queue_key_def swap_key_def swap_queue_key_def GetKey_def)

lemma map_queue_key:
  "map queue_key is = map (\<lambda>p. GetKey (dbPrefix ''prefixSwapQueueItem'') (fst p @ ''-'' @ show_int (snd p))) (map swap_key is)"
  by (simp add: queue_key_swap_key)

lemma FetchQueue_keys:
  assumes "swap_queue_ok k"
  shows "map queue_key (FetchQueue k) = map fst (K_swapQueue k)" and "map SI_msg (FetchQueue k) = map snd (K_swapQueue k)"
proof -
  have item: "queue_item e \<noteq> None \<and> queue_key (the (queue_item e)) = fst e \<and> SI_msg (the (queue_item e)) = snd e"
    if e: "e \<in> set (K_swapQueue k)" for e
  proof -
    obtain i where "0 \<le> i" "i < 2 ^ 63" "fst e = swap_queue_key (Tx_ID (MS_Tx (snd e))) i"
      using bspec [OF conjunct2 [OF assms [unfolded swap_queue_ok_def]] e] by (elim exE conjE) simp
    then show ?thesis using queue_item_key [of i "Tx_ID (MS_Tx (snd e))" "snd e"]
      by (cases e) (simp add: queue_key_def item_id_def)
  qed
  have "filter (\<lambda>i. i \<noteq> None) (map queue_item (K_swapQueue k)) = map queue_item (K_swapQueue k)"
    using item by (intro filter_True) auto
  then have f: "FetchQueue k = map (the \<circ> queue_item) (K_swapQueue k)" by (simp add: FetchQueue_def)
  show "map queue_key (FetchQueue k) = map fst (K_swapQueue k)" "map SI_msg (FetchQueue k) = map snd (K_swapQueue k)"
    using item by (simp_all add: f)
qed

lemma distinct_of_image: "distinct (map (\<lambda>x. g (f x)) xs) \<Longrightarrow> distinct (map f xs)"
  by (induction xs) auto

lemma FetchQueue_distinct:
  assumes "swap_queue_ok k"
  shows "distinct (map swap_key (FetchQueue k))" and "length (FetchQueue k) = length (K_swapQueue k)"
proof -
  have "distinct (map queue_key (FetchQueue k))"
    using assms FetchQueue_keys(1) [OF assms] by (simp add: swap_queue_ok_def)
  then show "distinct (map swap_key (FetchQueue k))"
    unfolding queue_key_swap_key by (rule distinct_of_image)
  show "length (FetchQueue k) = length (K_swapQueue k)"
    using FetchQueue_keys(1) [OF assms] by (metis length_map)
qed

lemma fee_and_slip_keeps:
  "getLiquidityFeeAndSlip S pool c item m = Some item' \<Longrightarrow> SI_msg item' = SI_msg item \<and> SI_index item' = SI_index item"
  by (auto simp: getLiquidityFeeAndSlip_def bind_Some_iff Let_def)

lemma scoreMsg_keeps:
  assumes "scoreMsg S k m item = Some item'"
  shows "SI_msg item' = SI_msg item \<and> SI_index item' = SI_index item"
  using assms
  by (auto simp: scoreMsg_def Let_def bind_Some_iff split: list.splits if_splits dest!: fee_and_slip_keeps)

lemma those_map_Some:
  assumes "those (map f xs) = Some ys" and "\<And>x y. f x = Some y \<Longrightarrow> g y = g x"
  shows "map g ys = map g xs"
  using assms(1)
proof (induction xs arbitrary: ys)
  case (Cons x xs)
  then obtain y zs where "f x = Some y" "those (map f xs) = Some zs" "ys = y # zs"
    by (auto split: option.splits)
  then show ?case using Cons.IH assms(2) by simp
qed simp

text \<open>A step that leaves the queue alone, as the swaps and the outbounds do.\<close>

definition keeps_queue :: "('b world \<Rightarrow> 'a \<Rightarrow> ('c \<times> 'b world) option) \<Rightarrow> bool" where
  "keeps_queue f \<longleftrightarrow> (\<forall>w x r w'. f w x = Some (r, w') \<longrightarrow> K_swapQueue (W_kv w') = K_swapQueue (W_kv w))"

definition outbound_keeps_queue :: "'b txout_store \<Rightarrow> bool" where
  "outbound_keeps_queue txout \<longleftrightarrow>
     (\<forall>w t n r w'. txout w t n = Some (r, w') \<longrightarrow> K_swapQueue (W_kv w') = K_swapQueue (W_kv w))"

lemma refund_coins_queue:
  assumes "outbound_keeps_queue txout" and "refund_coins p txout tx m cs w d = Some (d', w')"
  shows "K_swapQueue (W_kv w') = K_swapQueue (W_kv w)"
  using assms(2)
proof (induction cs arbitrary: w d)
  case (Cons c cs)
  then show ?case using assms(1)
    by (auto simp: outbound_keeps_queue_def bind_Some_iff split: if_splits)
qed simp

lemma process_swap_queue:
  assumes "keeps_queue handler" and "outbound_keeps_queue txout"
    and "process_swap E txout gm handler w pick = Some w'"
  shows "K_swapQueue (W_kv w') = kv_delete (K_swapQueue (W_kv w)) (queue_key pick)"
proof -
  obtain e w1 w2 where h: "NewInternalHandler handler w (SI_msg pick) = Some (e, w1)"
    and r: "w2 = w1 \<or> (\<exists>x t. refundTx E txout gm w1 t '''' = Some (x, w2))"
    and w': "w' = w2\<lparr>W_kv := RemoveSwapQueueItem (W_kv w2) (item_id pick) (SI_index pick)\<rparr>"
    using assms(3) by (auto simp: process_swap_def bind_Some_iff split: option.splits) blast+
  have "K_swapQueue (W_kv w1) = K_swapQueue (W_kv w)"
    using h assms(1) by (auto simp: NewInternalHandler_def bind_Some_iff keeps_queue_def split: if_splits)
  moreover have "K_swapQueue (W_kv w2) = K_swapQueue (W_kv w1)"
    using r refund_coins_queue [OF assms(2)]
    by (auto simp: refundTx_def refundTxV104_def refundTxV47_def refund_with_def bind_Some_iff Let_def split: if_splits)
  ultimately show ?thesis by (simp add: w' RemoveSwapQueueItem_def queue_key_def)
qed

lemma process_swaps_queue:
  assumes "keeps_queue handler" and "outbound_keeps_queue txout"
    and "process_swaps E txout gm handler picks w = Some w'"
  shows "K_swapQueue (W_kv w') = filter (\<lambda>e. fst e \<notin> set (map queue_key picks)) (K_swapQueue (W_kv w))"
  using assms(3)
proof (induction picks arbitrary: w)
  case (Cons pick picks)
  then obtain w1 where "process_swap E txout gm handler w pick = Some w1"
    and "process_swaps E txout gm handler picks w1 = Some w'" by (auto simp: bind_Some_iff)
  with Cons.IH process_swap_queue [OF assms(1,2)] show ?case
    by (simp add: kv_delete_def conj_commute)
qed simp

lemma length_without:
  assumes "distinct (map f xs)" and "distinct ks" and "set ks \<subseteq> f ` set xs"
  shows "length (filter (\<lambda>x. f x \<notin> set ks) xs) = length xs - length ks"
proof -
  have "distinct xs" "inj_on f (set xs)" using assms(1) by (simp_all add: distinct_map)
  have "length (filter (\<lambda>x. f x \<in> set ks) xs) = card (f ` {x \<in> set xs. f x \<in> set ks})"
    using \<open>inj_on f (set xs)\<close> distinct_card [OF distinct_filter [OF \<open>distinct xs\<close>], of "\<lambda>x. f x \<in> set ks"]
    by (subst card_image) (auto intro: inj_on_subset)
  also have "f ` {x \<in> set xs. f x \<in> set ks} = set ks" using assms(3) by auto
  also have "card (set ks) = length ks" using assms(2) by (rule distinct_card)
  finally show ?thesis using sum_length_filter_compl [of "\<lambda>x. f x \<in> set ks" xs] by linarith
qed

lemma EndBlock_length:
  assumes "keeps_queue handler" and "outbound_keeps_queue txout" and "swap_queue_ok (W_kv w)"
    and "SwapQ_EndBlock E txout gm handler w = Some w'"
  defines "todo \<equiv> getTodoNum (int (length (K_swapQueue (W_kv w))))
      (config E (W_kv w) ''MinSwapsPerBlock'') (config E (W_kv w) ''MaxSwapsPerBlock'')"
  shows "length (K_swapQueue (W_kv w')) = length (K_swapQueue (W_kv w)) - nat todo" and "swap_queue_ok (W_kv w')"
proof -
  let ?q = "K_swapQueue (W_kv w)"
  obtain scored where sc: "scoreMsgs (E_sdk E) (W_kv w) (synth_depth_mult E (W_kv w)) (FetchQueue (W_kv w)) = Some scored"
    and pr: "process_swaps E txout gm handler (take (nat (getTodoNum (int (length (swapItems_Sort scored)))
        (config E (W_kv w) ''MinSwapsPerBlock'') (config E (W_kv w) ''MaxSwapsPerBlock''))) (swapItems_Sort scored)) w = Some w'"
    using assms(4) by (auto simp: SwapQ_EndBlock_def bind_Some_iff Let_def)
  have sk: "map swap_key scored = map swap_key (FetchQueue (W_kv w))"
    using those_map_Some [OF sc [unfolded scoreMsgs_def], of swap_key] scoreMsg_keeps
    by (auto simp: swap_key_def item_id_def)
  then have dk: "distinct (map swap_key scored)" using FetchQueue_distinct(1) [OF assms(3)] by simp
  have so: "mset (swapItems_Sort scored) = mset scored"
    unfolding swapItems_Sort_by_slip_conv [OF dk] by (rule set_sorted_array)
  have len: "length (swapItems_Sort scored) = length ?q"
    using so sk FetchQueue_distinct(2) [OF assms(3)] by (metis length_map size_mset)
  have qk: "map queue_key scored = map fst ?q"
    using FetchQueue_keys(1) [OF assms(3)] unfolding map_queue_key sk .
  define picks where "picks = take (nat todo) (swapItems_Sort scored)"
  have q': "K_swapQueue (W_kv w') = filter (\<lambda>e. fst e \<notin> set (map queue_key picks)) ?q"
    using process_swaps_queue [OF assms(1,2) pr] by (simp add: len picks_def todo_def)
  have d: "distinct (map fst ?q)" using assms(3) by (simp add: swap_queue_ok_def)
  have "mset (map queue_key (swapItems_Sort scored)) = mset (map fst ?q)" using so qk by (metis mset_map)
  then have ds: "distinct (map queue_key (swapItems_Sort scored))"
    and ss: "set (map queue_key (swapItems_Sort scored)) = set (map fst ?q)"
    using d by (metis mset_eq_imp_distinct_iff, metis mset_eq_setD)
  have "distinct (map queue_key picks)" using distinct_take [OF ds, of "nat todo"] by (simp add: picks_def take_map)
  moreover have "set (map queue_key picks) \<subseteq> fst ` set ?q"
    using ss by (auto simp: picks_def dest!: in_set_takeD)
  ultimately have "length (K_swapQueue (W_kv w')) = length ?q - length (map queue_key picks)"
    unfolding q' by (intro length_without d)
  then show "length (K_swapQueue (W_kv w')) = length ?q - nat todo" by (simp add: picks_def len)
  show "swap_queue_ok (W_kv w')"
    using assms(3) by (auto simp: swap_queue_ok_def q' distinct_map_filter)
qed

lemma getTodoNum_progress:
  assumes "0 < n" and "1 \<le> lo" and "1 \<le> hi"
  shows "1 \<le> getTodoNum n lo hi \<and> getTodoNum n lo hi \<le> n"
  using assms by (auto simp: getTodoNum_def Let_def)

text \<open>Blocks in which no swap arrives: each ends with \<open>EndBlock\<close>, under limits of at least one swap.\<close>

inductive quiet_blocks ::
  "sdk \<Rightarrow> (env \<Rightarrow> GasMgr \<Rightarrow> 'b txout_store) \<Rightarrow> (env \<Rightarrow> GasMgr \<Rightarrow> 'b world \<Rightarrow> MsgSwap \<Rightarrow> 'b outcome) \<Rightarrow> nat
    \<Rightarrow> 'b world \<Rightarrow> 'b world \<Rightarrow> bool"
  for S txout handler where
  start: "quiet_blocks S txout handler 0 w w"
| block: "quiet_blocks S txout handler n w w1 \<Longrightarrow> E_sdk E = S \<Longrightarrow>
    1 \<le> config E (W_kv w1) ''MinSwapsPerBlock'' \<Longrightarrow> 1 \<le> config E (W_kv w1) ''MaxSwapsPerBlock'' \<Longrightarrow>
    SwapQ_EndBlock E (txout E gm) gm (handler E gm) w1 = Some w2 \<Longrightarrow> quiet_blocks S txout handler (Suc n) w w2"

text \<open>A handler and an outbound store that leave the queue alone, whatever the block.\<close>

definition serves_queue ::
  "sdk \<Rightarrow> (env \<Rightarrow> GasMgr \<Rightarrow> 'b txout_store) \<Rightarrow> (env \<Rightarrow> GasMgr \<Rightarrow> 'b world \<Rightarrow> MsgSwap \<Rightarrow> 'b outcome) \<Rightarrow> bool" where
  "serves_queue S txout handler \<longleftrightarrow>
     (\<forall>E gm. E_sdk E = S \<longrightarrow> outbound_keeps_queue (txout E gm) \<and> keeps_queue (handler E gm))"

lemma quiet_blocks_length:
  assumes "quiet_blocks S txout handler n w w'" and "serves_queue S txout handler" and "swap_queue_ok (W_kv w)"
  shows "length (K_swapQueue (W_kv w')) \<le> length (K_swapQueue (W_kv w)) - n \<and> swap_queue_ok (W_kv w')"
  using assms(1,3)
proof (induction rule: quiet_blocks.induct)
  case (block n w w1 E gm w2)
  let ?n = "length (K_swapQueue (W_kv w1))"
  let ?todo = "getTodoNum (int ?n) (config E (W_kv w1) ''MinSwapsPerBlock'') (config E (W_kv w1) ''MaxSwapsPerBlock'')"
  have ih: "?n \<le> length (K_swapQueue (W_kv w)) - n" and w1: "swap_queue_ok (W_kv w1)" using block by blast+
  have "keeps_queue (handler E gm)" "outbound_keeps_queue (txout E gm)"
    using assms(2) block.hyps(2) by (simp_all add: serves_queue_def)
  note l = EndBlock_length [OF this w1 block.hyps(5)]
  show ?case
  proof (cases "?n = 0")
    case True
    then show ?thesis using l by simp
  next
    case False
    then have "1 \<le> ?todo" using getTodoNum_progress [of "int ?n"] block.hyps(3,4) by simp
    then show ?thesis using l ih by linarith
  qed
qed simp


definition queued_world :: "ledger world" where
  "queued_world =
     \<lparr>W_kv = SetSwapQueueItem empty_store (SI_msg (sample_item ''A'' 0 0)\<lparr>MS_Tx := sample_tx, MS_TargetAsset := BTCAsset\<rparr>) 0,
      W_bank = empty_ledger\<rparr>"

text \<open>A handler and an outbound store that accept everything.\<close>

definition accepting_handler :: "ledger world \<Rightarrow> MsgSwap \<Rightarrow> ledger outcome" where
  "accepting_handler w m = Some (None, w)"

definition accepting_txout :: "ledger txout_store" where
  "accepting_txout w toi minOut = Some (Inr True, w)"

lemma queued_store:
  "length (K_swapQueue (W_kv queued_world)) = 1" "swap_queue_ok (W_kv queued_world)"
  "1 \<le> config (sample_env 3) (W_kv queued_world) ''MinSwapsPerBlock''"
  "1 \<le> config (sample_env 3) (W_kv queued_world) ''MaxSwapsPerBlock''"
proof -
  have c: "C_int64 sample_accessor ''MinSwapsPerBlock'' = 10" "C_int64 sample_accessor ''MaxSwapsPerBlock'' = 100"
    by (code_simp | rule conjI)+
  have k: "K_int64 (W_kv queued_world) = []" "K_version (W_kv queued_world) = (\<lambda>_. True)"
    by (simp_all add: queued_world_def SetSwapQueueItem_def empty_store_def)
  show "1 \<le> config (sample_env 3) (W_kv queued_world) ''MinSwapsPerBlock''"
    "1 \<le> config (sample_env 3) (W_kv queued_world) ''MaxSwapsPerBlock''"
    by (simp_all add: config_def fetchConfigInt64_unset [OF k] c)
  show "length (K_swapQueue (W_kv queued_world)) = 1"
    by (simp add: queued_world_def SetSwapQueueItem_def empty_store_def)
  show "swap_queue_ok (W_kv queued_world)"
    by (auto simp: swap_queue_ok_def queued_world_def SetSwapQueueItem_def empty_store_def intro!: exI [of _ 0])
qed

lemma queued_endblock:
  "\<exists>w'. SwapQ_EndBlock (sample_env 3) accepting_txout newGasMgrV104 accepting_handler queued_world = Some w'"
proof -
  have e: "pool_unusable NewPool" "pool_unusable (NewPool\<lparr>Pool_Status := PoolStatus_UnknownPoolStatus\<rparr>)" by code_simp+
  have p: "GetPool (W_kv queued_world) a = NewPool" for a
    by (simp add: GetPool_def kv_get_def queued_world_def SetSwapQueueItem_def empty_store_def)
  have u: "pool_unusable (score_pool (W_kv queued_world) a)" for a using e by (simp add: score_pool_def p)
  have same: "scoreMsg S (W_kv queued_world) m i = Some i" if "Tx_Coins (MS_Tx (SI_msg i)) \<noteq> []" for S m i
    using that u by (simp add: scoreMsg_def Let_def split: list.split)
  obtain i where f: "FetchQueue (W_kv queued_world) = [i]"
    using FetchQueue_distinct(2) [OF queued_store(2)] queued_store(1)
    by (cases "FetchQueue (W_kv queued_world)") auto
  have "MS_Tx (SI_msg i) = sample_tx"
    using FetchQueue_keys(2) [OF queued_store(2)] f
    by (simp add: queued_world_def SetSwapQueueItem_def empty_store_def)
  then have sc: "scoreMsgs S (W_kv queued_world) m (FetchQueue (W_kv queued_world)) = Some [i]" for S m
    by (simp add: scoreMsgs_def f same sample_tx_def NewTx_def)
  have run: "\<exists>w'. process_swaps E accepting_txout gm accepting_handler picks w = Some w'" for E gm picks w
    by (induction picks arbitrary: w) (simp_all add: process_swap_def NewInternalHandler_def accepting_handler_def)
  show ?thesis using run by (simp add: SwapQ_EndBlock_def sc Let_def)
qed


end
