(* ===== verification/Dispatch.thy ===== *)
theory Dispatch
  imports Memos
begin

text \<open>
  From the memo of an observed transaction to a message, \<open>x/mayachain/handler.go\<close>: assets in a memo may
  be shortened, \<open>fuzzyAssetMatch\<close> and \<open>externalAssetMatch\<close> complete them; \<open>processOneTxIn\<close> builds the
  message and validates it. The messages of the internal handler are one datatype. The lists of
  tokens of the external chains are data, the argument \<open>tokens\<close> (addresses by chain).
\<close>

datatype internal_msg =
  Msg_Swap MsgSwap
| Msg_AddLiquidity MsgAddLiquidity
| Msg_WithdrawLiquidity MsgWithdrawLiquidity
| Msg_Donate MsgDonate
| Msg_RefundTx MsgOutbound
| Msg_OutboundTx MsgOutbound
| Msg_Migrate MsgAtHeight
| Msg_Ragnarok MsgAtHeight
| Msg_Bond MsgBond
| Msg_UnBond MsgUnBond
| Msg_Leave MsgLeave
| Msg_Yggdrasil MsgYggdrasil
| Msg_ReserveContributor MsgReserveContributor
| Msg_NoOp MsgObserved string
| Msg_Consolidate MsgObserved
| Msg_ManageMAYAName MsgManageMAYAName
| Msg_ForgiveSlash MsgForgiveSlash

section \<open>Shortened assets\<close>

definition hasSuffix :: "string \<Rightarrow> string \<Rightarrow> bool" where
  "hasSuffix s p \<longleftrightarrow> hasPrefix (rev s) (rev p)"

definition fuzzy_matches :: "Asset \<Rightarrow> Pool \<Rightarrow> bool" where
  "fuzzy_matches asset pool \<longleftrightarrow>
     Chain_Equals (Asset_Chain asset) (Asset_Chain (Pool_Asset pool))
     \<and> Ticker_Equals (Asset_Ticker asset) (Asset_Ticker (Pool_Asset pool))
     \<and> (let parts = splitOn (CHR ''-'') (Symbol_String (Asset_Symbol asset)) in
        length parts < 2 \<or> equalFold (parts ! 1) ''''
        \<or> hasSuffix (toLower (Symbol_String (Asset_Symbol (Pool_Asset pool)))) (toLower (parts ! 1)))"

text \<open>The deepest of the pools that match; the search starts from an empty pool.\<close>

definition deeper :: "Pool \<Rightarrow> Pool \<Rightarrow> Pool" where
  "deeper winner pool = (if Pool_BalanceCacao winner < Pool_BalanceCacao pool then pool else winner)"

definition deepest_pool :: "Pool list \<Rightarrow> Pool" where
  "deepest_pool pools = foldl deeper NewPool pools"

definition fuzzyAssetMatchV83 :: "KVStore \<Rightarrow> Asset \<Rightarrow> Asset" where
  "fuzzyAssetMatchV83 k origAsset =
     (let asset = Asset_GetLayer1Asset origAsset in
      if PoolExist k (Asset_GetLayer1Asset asset) then origAsset
      else
        let found = filter (fuzzy_matches asset) (kv_values (K_pools k)) in
        if found = [] then origAsset
        else (Pool_Asset (deepest_pool found))\<lparr>Asset_Synth := Asset_Synth origAsset\<rparr>)"

definition fuzzyAssetMatchV1 :: "KVStore \<Rightarrow> Asset \<Rightarrow> Asset" where
  "fuzzyAssetMatchV1 k asset =
     (if PoolExist k (Asset_GetLayer1Asset asset) then asset
      else
        let found = filter (fuzzy_matches asset) (kv_values (K_pools k)) in
        if found = [] then asset else Pool_Asset (deepest_pool found))"

definition fuzzyAssetMatch :: "KVStore \<Rightarrow> Asset \<Rightarrow> Asset" where
  "fuzzyAssetMatch k asset =
     (if K_version k (1, 83, 0) then fuzzyAssetMatchV83 k asset else fuzzyAssetMatchV1 k asset)"

definition match_token :: "string list \<Rightarrow> string \<Rightarrow> string" where
  "match_token tokens hint =
     (case filter (\<lambda>t. hasSuffix (toLower t) (toLower hint)) tokens of [t] \<Rightarrow> t | _ \<Rightarrow> hint)"

definition externalAssetMatchV95 :: "(chain \<Rightarrow> string list) \<Rightarrow> chain \<Rightarrow> string \<Rightarrow> string" where
  "externalAssetMatchV95 tokens c hint =
     (if length hint = 0 then hint else if Chain_IsEVM c then match_token (tokens c) hint else hint)"

definition externalAssetMatchV93 :: "(chain \<Rightarrow> string list) \<Rightarrow> chain \<Rightarrow> string \<Rightarrow> string" where
  "externalAssetMatchV93 tokens c hint =
     (if length hint = 0 then hint else if c = ETHChain then match_token (tokens ETHChain) hint else hint)"

definition externalAssetMatch :: "(chain \<Rightarrow> string list) \<Rightarrow> version \<Rightarrow> chain \<Rightarrow> string \<Rightarrow> string" where
  "externalAssetMatch tokens ver c hint =
     (if ver (1, 95, 0) then externalAssetMatchV95 tokens c hint
      else if ver (1, 93, 0) then externalAssetMatchV93 tokens c hint else hint)"

section \<open>Messages from memos\<close>

definition getMsgSwapFromMemo ::
  "Asset \<Rightarrow> address \<Rightarrow> nat \<Rightarrow> address \<Rightarrow> nat \<Rightarrow> string \<Rightarrow> string \<Rightarrow> nat option \<Rightarrow> OrderType
     \<Rightarrow> ObservedTx \<Rightarrow> acc_address \<Rightarrow> MsgSwap" where
  "getMsgSwapFromMemo asset dest slip affAddr affPts dexAgg dexTarget dexLimit otype tx signer =
     NewMsgSwap (OT_Tx tx) asset (if Address_IsEmpty dest then Tx_FromAddress (OT_Tx tx) else dest) slip affAddr
       affPts dexAgg dexTarget dexLimit otype signer"

definition getMsgWithdrawFromMemo ::
  "codecs \<Rightarrow> Asset \<Rightarrow> nat \<Rightarrow> Asset \<Rightarrow> address \<Rightarrow> ObservedTx \<Rightarrow> acc_address \<Rightarrow> MsgWithdrawLiquidity" where
  "getMsgWithdrawFromMemo L asset amount withdrawalAsset pairAddress tx signer =
     (let fromAddress = Tx_FromAddress (OT_Tx tx);
          from' = (if \<not> Chain_Equals (Address_GetChain L fromAddress) BASEChain \<and> \<not> Address_Equals pairAddress ''''
                      \<and> Chain_Equals (Address_GetChain L pairAddress) BASEChain
                   then pairAddress else fromAddress)
      in NewMsgWithdrawLiquidity (OT_Tx tx) from' (if amount \<noteq> 0 then amount else MaxWithdrawBasisPoints)
           asset withdrawalAsset signer)"

definition getMsgAddLiquidityFromMemo ::
  "Asset \<Rightarrow> address \<Rightarrow> address \<Rightarrow> nat \<Rightarrow> int \<Rightarrow> ObservedTx \<Rightarrow> acc_address \<Rightarrow> MsgAddLiquidity" where
  "getMsgAddLiquidityFromMemo asset dest affAddr affPts tier tx signer =
     (let t = OT_Tx tx;
          runeCoin = Coins_GetCoin (Tx_Coins t) BaseAsset;
          assetCoin = Coins_GetCoin (Tx_Coins t) asset;
          runeAddr = (if Chain_Equals (Tx_Chain t) BASEChain then Tx_FromAddress t else dest);
          assetAddr = (if Chain_Equals (Tx_Chain t) BASEChain then dest else Tx_FromAddress t);
          assetAddr' = (if Chain_Equals (Asset_Chain asset) BASEChain then runeAddr else assetAddr)
      in NewMsgAddLiquidity t asset (Coin_Amount runeCoin) (Coin_Amount assetCoin) runeAddr assetAddr' affAddr
           affPts signer tier)"

definition getMsgDonateFromMemo :: "Asset \<Rightarrow> ObservedTx \<Rightarrow> acc_address \<Rightarrow> MsgDonate" where
  "getMsgDonateFromMemo asset tx signer =
     NewMsgDonate (OT_Tx tx) asset (Coin_Amount (Coins_GetCoin (Tx_Coins (OT_Tx tx)) BaseAsset))
       (Coin_Amount (Coins_GetCoin (Tx_Coins (OT_Tx tx)) asset)) signer"

definition getMsgRefundFromMemo :: "tx_id \<Rightarrow> ObservedTx \<Rightarrow> acc_address \<Rightarrow> MsgOutbound" where
  "getMsgRefundFromMemo txID tx signer = \<lparr>MOb_Tx = tx, MOb_Signer = signer, MOut_InTxID = txID\<rparr>"

definition getMsgOutboundFromMemo :: "tx_id \<Rightarrow> ObservedTx \<Rightarrow> acc_address \<Rightarrow> MsgOutbound" where
  "getMsgOutboundFromMemo txID tx signer = \<lparr>MOb_Tx = tx, MOb_Signer = signer, MOut_InTxID = txID\<rparr>"

definition getMsgMigrateFromMemo :: "int \<Rightarrow> ObservedTx \<Rightarrow> acc_address \<Rightarrow> MsgAtHeight" where
  "getMsgMigrateFromMemo h tx signer = \<lparr>MOb_Tx = tx, MOb_Signer = signer, MH_BlockHeight = h\<rparr>"

definition getMsgRagnarokFromMemo :: "int \<Rightarrow> ObservedTx \<Rightarrow> acc_address \<Rightarrow> MsgAtHeight" where
  "getMsgRagnarokFromMemo h tx signer = \<lparr>MOb_Tx = tx, MOb_Signer = signer, MH_BlockHeight = h\<rparr>"

definition getMsgLeaveFromMemo :: "acc_address \<Rightarrow> ObservedTx \<Rightarrow> acc_address \<Rightarrow> MsgLeave" where
  "getMsgLeaveFromMemo addr tx signer = \<lparr>ML_Tx = OT_Tx tx, ML_NodeAddress = addr, ML_Signer = signer\<rparr>"

definition getMsgBondFromMemo ::
  "Asset \<Rightarrow> acc_address \<Rightarrow> acc_address \<Rightarrow> nat \<Rightarrow> int \<Rightarrow> ObservedTx \<Rightarrow> acc_address \<Rightarrow> MsgBond" where
  "getMsgBondFromMemo asset addr provider units operatorFee tx signer =
     \<lparr>MB_TxIn = OT_Tx tx, MB_NodeAddress = addr,
      MB_Amount = Coin_Amount (Coins_GetCoin (Tx_Coins (OT_Tx tx)) BaseAsset),
      MB_BondAddress = Tx_FromAddress (OT_Tx tx), MB_BondProviderAddress = provider, MB_Signer = signer,
      MB_OperatorFee = operatorFee, MB_Asset = asset, MB_Units = units\<rparr>"

definition getMsgUnbondFromMemo ::
  "Asset \<Rightarrow> acc_address \<Rightarrow> acc_address \<Rightarrow> nat \<Rightarrow> ObservedTx \<Rightarrow> acc_address \<Rightarrow> MsgUnBond" where
  "getMsgUnbondFromMemo asset addr provider units tx signer =
     \<lparr>MU_TxIn = OT_Tx tx, MU_NodeAddress = addr, MU_BondAddress = Tx_FromAddress (OT_Tx tx),
      MU_BondProviderAddress = provider, MU_Signer = signer, MU_Asset = asset, MU_Units = units\<rparr>"

definition getMsgManageMAYANameFromMemo ::
  "string \<Rightarrow> chain \<Rightarrow> address \<Rightarrow> int \<Rightarrow> Asset \<Rightarrow> acc_address \<Rightarrow> ObservedTx \<Rightarrow> acc_address
     \<Rightarrow> go_error + MsgManageMAYAName" where
  "getMsgManageMAYANameFromMemo name c addr expire preferred owner tx signer =
     (case Tx_Coins (OT_Tx tx) of
        [] \<Rightarrow> Inl (GoError ''transaction must have rune in it'')
      | coin # _ \<Rightarrow> Inr \<lparr>MMN_Name = name, MMN_Chain = c, MMN_Address = addr, MMN_Coin = coin,
          MMN_ExpireBlockHeight = expire, MMN_PreferredAsset = preferred, MMN_Owner = owner, MMN_Signer = signer\<rparr>)"

definition getMsgForgiveSlashFromMemo :: "nat \<Rightarrow> acc_address \<Rightarrow> acc_address \<Rightarrow> MsgForgiveSlash" where
  "getMsgForgiveSlashFromMemo blocks addr signer =
     \<lparr>MFS_Blocks = blocks, MFS_NodeAddress = addr, MFS_Signer = signer\<rparr>"

definition yggdrasil_msg :: "int \<Rightarrow> bool \<Rightarrow> ObservedTx \<Rightarrow> acc_address \<Rightarrow> MsgYggdrasil" where
  "yggdrasil_msg h addFunds tx signer =
     \<lparr>MY_Tx = OT_Tx tx, MY_PubKey = OT_ObservedPubKey tx, MY_AddFunds = addFunds,
      MY_Coins = Tx_Coins (OT_Tx tx), MY_BlockHeight = h, MY_Signer = signer\<rparr>"

text \<open>The message a memo stands for.\<close>

fun message_of_memo ::
  "env \<Rightarrow> (chain \<Rightarrow> string list) \<Rightarrow> KVStore \<Rightarrow> Memo \<Rightarrow> ObservedTx \<Rightarrow> acc_address \<Rightarrow> go_error + internal_msg" where
  "message_of_memo E tokens k (AddLiquidityMemo a d f p tier) tx signer =
     Inr (Msg_AddLiquidity (getMsgAddLiquidityFromMemo (fuzzyAssetMatch k a) d f p tier tx signer))"
| "message_of_memo E tokens k (WithdrawLiquidityMemo a n w p) tx signer =
     Inr (Msg_WithdrawLiquidity (getMsgWithdrawFromMemo (E_codecs E) (fuzzyAssetMatch k a) n w p tx signer))"
| "message_of_memo E tokens k (SwapMemo a d s f p g t l ty) tx signer =
     (let a' = fuzzyAssetMatch k a in
      Inr (Msg_Swap (getMsgSwapFromMemo a' d s f p g
             (externalAssetMatch tokens (K_version k) (Asset_GetChain a') t) l ty tx signer)))"
| "message_of_memo E tokens k (DonateMemo a) tx signer =
     Inr (Msg_Donate (getMsgDonateFromMemo (fuzzyAssetMatch k a) tx signer))"
| "message_of_memo E tokens k (RefundMemo i) tx signer = Inr (Msg_RefundTx (getMsgRefundFromMemo i tx signer))"
| "message_of_memo E tokens k (OutboundMemo i) tx signer = Inr (Msg_OutboundTx (getMsgOutboundFromMemo i tx signer))"
| "message_of_memo E tokens k (MigrateMemo h) tx signer = Inr (Msg_Migrate (getMsgMigrateFromMemo h tx signer))"
| "message_of_memo E tokens k (RagnarokMemo h) tx signer = Inr (Msg_Ragnarok (getMsgRagnarokFromMemo h tx signer))"
| "message_of_memo E tokens k (BondMemo a n p u fee) tx signer = Inr (Msg_Bond (getMsgBondFromMemo a n p u fee tx signer))"
| "message_of_memo E tokens k (UnbondMemo a n p u) tx signer = Inr (Msg_UnBond (getMsgUnbondFromMemo a n p u tx signer))"
| "message_of_memo E tokens k (LeaveMemo n) tx signer = Inr (Msg_Leave (getMsgLeaveFromMemo n tx signer))"
| "message_of_memo E tokens k (YggdrasilFundMemo h) tx signer = Inr (Msg_Yggdrasil (yggdrasil_msg h True tx signer))"
| "message_of_memo E tokens k (YggdrasilReturnMemo h) tx signer = Inr (Msg_Yggdrasil (yggdrasil_msg h False tx signer))"
| "message_of_memo E tokens k ReserveMemo tx signer =
     Inr (Msg_ReserveContributor \<lparr>MRC_Tx = OT_Tx tx,
       MRC_Contributor = NewReserveContributor (Tx_FromAddress (OT_Tx tx))
         (Coin_Amount (Coins_GetCoin (Tx_Coins (OT_Tx tx)) BaseAsset)), MRC_Signer = signer\<rparr>)"
| "message_of_memo E tokens k (NoOpMemo action) tx signer = Inr (Msg_NoOp \<lparr>MOb_Tx = tx, MOb_Signer = signer\<rparr> action)"
| "message_of_memo E tokens k ConsolidateMemo tx signer = Inr (Msg_Consolidate \<lparr>MOb_Tx = tx, MOb_Signer = signer\<rparr>)"
| "message_of_memo E tokens k (ManageMAYANameMemo n c a x pa ow) tx signer =
     (case getMsgManageMAYANameFromMemo n c a x pa ow tx signer of Inl e \<Rightarrow> Inl e | Inr m \<Rightarrow> Inr (Msg_ManageMAYAName m))"
| "message_of_memo E tokens k (ForgiveSlashMemo b a) tx signer =
     Inr (Msg_ForgiveSlash (getMsgForgiveSlashFromMemo b a signer))"

text \<open>The validation of a message: deposits and swaps have a new version of it.\<close>

fun internal_ValidateBasic :: "env \<Rightarrow> KVStore \<Rightarrow> internal_msg \<Rightarrow> check" where
  "internal_ValidateBasic E k (Msg_AddLiquidity m) =
     (if K_version k (0, 63, 0) then MsgAddLiquidity_ValidateBasicV63 (E_codecs E) m
      else MsgAddLiquidity_ValidateBasic (E_codecs E) m)"
| "internal_ValidateBasic E k (Msg_Swap m) = MsgSwap_ValidateBasicV63 (E_codecs E) m"
| "internal_ValidateBasic E k (Msg_WithdrawLiquidity m) = MsgWithdrawLiquidity_ValidateBasic m"
| "internal_ValidateBasic E k (Msg_Donate m) = MsgDonate_ValidateBasic m"
| "internal_ValidateBasic E k (Msg_RefundTx m) = MsgRefundTx_ValidateBasic m"
| "internal_ValidateBasic E k (Msg_OutboundTx m) = MsgOutboundTx_ValidateBasic m"
| "internal_ValidateBasic E k (Msg_Migrate m) = MsgMigrate_ValidateBasic m"
| "internal_ValidateBasic E k (Msg_Ragnarok m) = MsgRagnarok_ValidateBasic m"
| "internal_ValidateBasic E k (Msg_Bond m) = MsgBond_ValidateBasic m"
| "internal_ValidateBasic E k (Msg_UnBond m) = MsgUnBond_ValidateBasic m"
| "internal_ValidateBasic E k (Msg_Leave m) = MsgLeave_ValidateBasic m"
| "internal_ValidateBasic E k (Msg_Yggdrasil m) = MsgYggdrasil_ValidateBasic m"
| "internal_ValidateBasic E k (Msg_ReserveContributor m) = MsgReserveContributor_ValidateBasic m"
| "internal_ValidateBasic E k (Msg_NoOp m _) = MsgNoOp_ValidateBasic m"
| "internal_ValidateBasic E k (Msg_Consolidate m) = MsgConsolidate_ValidateBasic m"
| "internal_ValidateBasic E k (Msg_ManageMAYAName m) = MsgManageMAYAName_ValidateBasic (E_codecs E) m"
| "internal_ValidateBasic E k (Msg_ForgiveSlash m) = MsgForgiveSlash_ValidateBasic m"

definition processOneTxInV63 ::
  "env \<Rightarrow> (chain \<Rightarrow> string list) \<Rightarrow> KVStore \<Rightarrow> ObservedTx \<Rightarrow> acc_address \<Rightarrow> go_error + internal_msg" where
  "processOneTxInV63 E tokens k tx signer =
     (case ParseMemoWithMAYANames E k (Tx_Memo (OT_Tx tx)) of
        Inl e \<Rightarrow> Inl e
      | Inr memo \<Rightarrow>
          (case message_of_memo E tokens k memo tx signer of
             Inl e \<Rightarrow> Inl e
           | Inr m \<Rightarrow> (case internal_ValidateBasic E k m of Some e \<Rightarrow> Inl e | None \<Rightarrow> Inr m)))"

definition processOneTxIn ::
  "env \<Rightarrow> (chain \<Rightarrow> string list) \<Rightarrow> KVStore \<Rightarrow> ObservedTx \<Rightarrow> acc_address \<Rightarrow> go_error + internal_msg" where
  "processOneTxIn E tokens k tx signer =
     (if K_version k (0, 63, 0) then processOneTxInV63 E tokens k tx signer else Inl (GoError ''bad version''))"

section \<open>Lemmas\<close>

lemma deepest_in:
  "(foldl deeper p0 pools = p0 \<or> foldl deeper p0 pools \<in> set pools)
   \<and> (\<forall>p \<in> insert p0 (set pools). Pool_BalanceCacao p \<le> Pool_BalanceCacao (foldl deeper p0 pools))"
proof (induction pools arbitrary: p0)
  case (Cons q pools)
  show ?case using Cons.IH [of "deeper p0 q"] by (auto simp: deeper_def split: if_splits)
qed simp

lemma deepest_pool_greatest: "p \<in> set pools \<Longrightarrow> Pool_BalanceCacao p \<le> Pool_BalanceCacao (deepest_pool pools)"
  using deepest_in [of NewPool pools] by (simp add: deepest_pool_def)

lemma NewPool_no_cacao [simp]: "Pool_BalanceCacao NewPool = 0"
  by (simp add: NewPool_def)

lemma deepest_pool_member:
  assumes "p \<in> set pools" and "Pool_BalanceCacao p > 0"
  shows "deepest_pool pools \<in> set pools"
proof -
  have "deepest_pool pools \<noteq> NewPool" using deepest_pool_greatest [OF assms(1)] assms(2) by auto
  then show ?thesis using deepest_in [of NewPool pools] by (auto simp: deepest_pool_def)
qed


definition usdt_pool :: Pool where
  "usdt_pool = NewPool\<lparr>Pool_Asset := \<lparr>Asset_Chain = ''ETH'', Asset_Symbol = ''USDT-0XDAC'', Asset_Ticker = ''USDT'', Asset_Synth = False\<rparr>,
     Pool_BalanceCacao := 7\<rparr>"

definition usdt_store :: KVStore where
  "usdt_store = empty_store\<lparr>K_pools := kv_set (K_pools empty_store) (pool_key (Pool_Asset usdt_pool)) usdt_pool\<rparr>"

definition usdt_short :: Asset where
  "usdt_short = \<lparr>Asset_Chain = ''ETH'', Asset_Symbol = ''USDT'', Asset_Ticker = ''USDT'', Asset_Synth = False\<rparr>"


text \<open>Where no pool that matches holds CACAO, the search ends with the pool it started from, and the
  asset of the memo is replaced by the empty one.\<close>

lemma fuzzyAssetMatch_lost:
  assumes "K_version k (1, 83, 0)" and "\<not> PoolExist k (Asset_GetLayer1Asset (Asset_GetLayer1Asset a))"
    and "filter (fuzzy_matches (Asset_GetLayer1Asset a)) (kv_values (K_pools k)) = [p]" and "Pool_BalanceCacao p = 0"
  shows "fuzzyAssetMatch k a = EmptyAsset\<lparr>Asset_Synth := Asset_Synth a\<rparr>"
  using assms by (simp add: fuzzyAssetMatch_def fuzzyAssetMatchV83_def Let_def deepest_pool_def deeper_def NewPool_def)

fun msg_type :: "internal_msg \<Rightarrow> TxType set" where
  "msg_type (Msg_Swap _) = {TxSwap}"
| "msg_type (Msg_AddLiquidity _) = {TxAdd}"
| "msg_type (Msg_WithdrawLiquidity _) = {TxWithdraw}"
| "msg_type (Msg_Donate _) = {TxDonate}"
| "msg_type (Msg_RefundTx _) = {TxRefund}"
| "msg_type (Msg_OutboundTx _) = {TxOutbound}"
| "msg_type (Msg_Migrate _) = {TxMigrate}"
| "msg_type (Msg_Ragnarok _) = {TxRagnarok}"
| "msg_type (Msg_Bond _) = {TxBond}"
| "msg_type (Msg_UnBond _) = {TxUnbond}"
| "msg_type (Msg_Leave _) = {TxLeave}"
| "msg_type (Msg_Yggdrasil _) = {TxYggdrasilFund, TxYggdrasilReturn}"
| "msg_type (Msg_ReserveContributor _) = {TxReserve}"
| "msg_type (Msg_NoOp _ _) = {TxNoOp}"
| "msg_type (Msg_Consolidate _) = {TxConsolidate}"
| "msg_type (Msg_ManageMAYAName _) = {TxMAYAName}"
| "msg_type (Msg_ForgiveSlash _) = {TxForgiveSlash}"

lemma message_of_memo_type:
  "message_of_memo E tokens k memo tx signer = Inr m \<Longrightarrow> Memo_GetType memo \<in> msg_type m"
  by (cases memo) (auto simp: Let_def split: sum.splits)

text \<open>A message made from a transaction is of the type the memo has, and valid.\<close>

lemma processOneTxIn_valid:
  assumes "processOneTxIn E tokens k tx signer = Inr m"
  shows "internal_ValidateBasic E k m = None"
    and "\<exists>memo. ParseMemoWithMAYANames E k (Tx_Memo (OT_Tx tx)) = Inr memo \<and> Memo_GetType memo \<in> msg_type m"
  using assms message_of_memo_type
  by (fastforce simp: processOneTxIn_def processOneTxInV63_def split: if_splits sum.splits option.splits)+

end
