(* ===== verification/Keys.thy ===== *)
theory Keys
  imports Helpers
begin

text \<open>
  The address of a public key on each chain, \<open>GetAddress\<close> of \<open>common/pubkey.go\<close>, and the order of the
  vaults by their security, \<open>SortBySecurity\<close> of \<open>keeper/v1/keeper_vault.go\<close>, which needs it. The decoding of
  a key and the encodings of the chain libraries are the record \<open>keys\<close>, with the network the node
  runs on; \<open>None\<close> is an error of the library.
\<close>

record keys =
  Y_net :: ChainNetwork
  Y_address_bytes :: "pub_key \<Rightarrow> string option"
  Y_evm_address :: "pub_key \<Rightarrow> string option"
  Y_bech32_encode :: "string \<Rightarrow> string \<Rightarrow> string option"
  Y_utxo_address :: "chain \<Rightarrow> net_params \<Rightarrow> string \<Rightarrow> string option"

definition EVMPubkeyToAddress :: "codecs \<Rightarrow> keys \<Rightarrow> pub_key \<Rightarrow> go_error + address" where
  "EVMPubkeyToAddress L Y pubKey =
     (case Y_evm_address Y pubKey of
        None \<Rightarrow> Inl (GoError ''fail to parse pubkey'') | Some s \<Rightarrow> NewAddress L (toLower s))"

definition key_address :: "codecs \<Rightarrow> keys \<Rightarrow> pub_key \<Rightarrow> (string \<Rightarrow> string option) \<Rightarrow> go_error + address" where
  "key_address L Y pubKey encode =
     (case Y_address_bytes Y pubKey of
        None \<Rightarrow> Inl (GoError ''fail to parse pubkey'')
      | Some bs \<Rightarrow>
          (case encode bs of None \<Rightarrow> Inl (GoError ''fail to encode the address'') | Some s \<Rightarrow> NewAddress L s))"

definition PubKey_GetAddress :: "codecs \<Rightarrow> keys \<Rightarrow> pub_key \<Rightarrow> chain \<Rightarrow> go_error + address" where
  "PubKey_GetAddress L Y pubKey c =
     (if PubKey_IsEmpty pubKey then Inr ''''
      else if Chain_IsEVM c then EVMPubkeyToAddress L Y pubKey
      else if c \<in> {BNBChain, BASEChain, THORChain, GAIAChain, KUJIChain}
      then key_address L Y pubKey (Y_bech32_encode Y (Chain_AddressPrefix L c (Y_net Y)))
      else if c \<in> {BTCChain, LTCChain, DASHChain, DOGEChain, BCHChain}
      then key_address L Y pubKey (Y_utxo_address Y c (net_params_of (Y_net Y)))
      else Inr '''')"

definition PubKey_GetThorAddress :: "sdk \<Rightarrow> codecs \<Rightarrow> keys \<Rightarrow> pub_key \<Rightarrow> go_error + acc_address" where
  "PubKey_GetThorAddress S L Y pubKey =
     (case PubKey_GetAddress L Y pubKey BASEChain of
        Inl e \<Rightarrow> Inl e
      | Inr addr \<Rightarrow> (case acc_from_bech32 S addr of None \<Rightarrow> Inl (GoError ''decoding bech32 failed'') | Some a \<Rightarrow> Inr a))"

section \<open>Security of a vault\<close>

text \<open>The bond of the active members; a member whose key does not parse is skipped.\<close>

fun members_bond :: "env \<Rightarrow> KVStore \<Rightarrow> pub_key list \<Rightarrow> nat \<Rightarrow> nat option" where
  "members_bond E k [] totalBond = Some totalBond"
| "members_bond E k (pk # pks) totalBond =
     (case GetNodeAccountByPubKey (E_sdk E) k (E_height E) pk of
        Inl _ \<Rightarrow> members_bond E k pks totalBond
      | Inr na \<Rightarrow> do {
          naBond \<leftarrow> CalcNodeLiquidityBond E k na;
          t \<leftarrow> (if NA_Status na = NodeStatus_Active then uint_add (E_sdk E) totalBond naBond else Some totalBond);
          members_bond E k pks t
        })"

definition coin_value :: "env \<Rightarrow> KVStore \<Rightarrow> Coin \<Rightarrow> nat" where
  "coin_value E k coin =
     (if Asset_IsBase (Coin_Asset coin) then Coin_Amount coin
      else Pool_AssetValueInRune (E_sdk E) (GetPool k (Coin_Asset coin)) (Coin_Amount coin))"

fun coins_value :: "env \<Rightarrow> KVStore \<Rightarrow> coins \<Rightarrow> nat \<Rightarrow> nat option" where
  "coins_value E k [] totalValue = Some totalValue"
| "coins_value E k (coin # cs) totalValue =
     (if Asset_IsBase (Coin_Asset coin) then coins_value E k cs totalValue
      else do { t \<leftarrow> uint_add (E_sdk E) totalValue (coin_value E k coin); coins_value E k cs t })"

text \<open>Outbounds that are not sent yet: those of the vault lower its value, those to it raise it.\<close>

fun unsent_items :: "env \<Rightarrow> keys \<Rightarrow> KVStore \<Rightarrow> pub_key \<Rightarrow> TxOutItem list \<Rightarrow> nat \<Rightarrow> nat option" where
  "unsent_items E Y k pk [] totalValue = Some totalValue"
| "unsent_items E Y k pk (item # items) totalValue =
     (if \<not> TxID_IsEmpty (TOI_OutHash item) then unsent_items E Y k pk items totalValue
      else case PubKey_GetAddress (E_codecs E) Y pk (Asset_GetChain (Coin_Asset (TOI_Coin item))) of
             Inl _ \<Rightarrow> unsent_items E Y k pk items totalValue
           | Inr toAddress \<Rightarrow> do {
               t \<leftarrow> (if TOI_VaultPubKey item = pk then SafeSub (E_sdk E) totalValue (coin_value E k (TOI_Coin item))
                     else if Address_Equals (TOI_ToAddress item) toAddress
                     then uint_add (E_sdk E) totalValue (coin_value E k (TOI_Coin item))
                     else Some totalValue);
               unsent_items E Y k pk items t
             })"

fun unsent_blocks :: "env \<Rightarrow> keys \<Rightarrow> KVStore \<Rightarrow> pub_key \<Rightarrow> int list \<Rightarrow> nat \<Rightarrow> nat option" where
  "unsent_blocks E Y k pk [] totalValue = Some totalValue"
| "unsent_blocks E Y k pk (h # hs) totalValue =
     do { t \<leftarrow> unsent_items E Y k pk (TxOut_TxArray (GetTxOut k h)) totalValue; unsent_blocks E Y k pk hs t }"

text \<open>The bond minus the value as \<open>int64\<close>; an amount of more than 64 bits panics.\<close>

definition vault_security :: "env \<Rightarrow> keys \<Rightarrow> KVStore \<Rightarrow> int \<Rightarrow> Vault \<Rightarrow> int option" where
  "vault_security E Y k signingTransPeriod vault =
     do {
       totalBond \<leftarrow> members_bond E k (Vault_GetMembership (E_sdk E) vault) 0;
       v \<leftarrow> coins_value E k (V_Coins vault) 0;
       totalValue \<leftarrow> unsent_blocks E Y k (V_PubKey vault)
         [max 1 (E_height E - signingTransPeriod)..E_height E] v;
       d \<leftarrow> (if totalValue > totalBond then SafeSub (E_sdk E) totalValue totalBond
              else SafeSub (E_sdk E) totalBond totalValue);
       u \<leftarrow> uint64_of d;
       Some (if totalValue > totalBond then wrap64 (- wrap64 (int u)) else wrap64 (int u))
     }"

fun vault_securities :: "env \<Rightarrow> keys \<Rightarrow> KVStore \<Rightarrow> int \<Rightarrow> Vault list \<Rightarrow> (int \<times> Vault) list option" where
  "vault_securities E Y k period [] = Some []"
| "vault_securities E Y k period (v # vs) =
     do { d \<leftarrow> vault_security E Y k period v; rest \<leftarrow> vault_securities E Y k period vs; Some ((d, v) # rest) }"

definition SortBySecurity :: "env \<Rightarrow> keys \<Rightarrow> KVStore \<Rightarrow> Vault list \<Rightarrow> int \<Rightarrow> Vault list option" where
  "SortBySecurity E Y k vaults signingTransPeriod =
     (if length vaults \<le> 1 then Some vaults
      else map_option (\<lambda>ds. map snd (sort_key fst ds)) (vault_securities E Y k signingTransPeriod vaults))"

definition GetMostSecure :: "env \<Rightarrow> keys \<Rightarrow> KVStore \<Rightarrow> Vault list \<Rightarrow> int \<Rightarrow> Vault option" where
  "GetMostSecure E Y k vaults period =
     map_option (\<lambda>vs. if vs = [] then EmptyVault else vs ! (length vs - 1)) (SortBySecurity E Y k vaults period)"

definition GetLeastSecure :: "env \<Rightarrow> keys \<Rightarrow> KVStore \<Rightarrow> Vault list \<Rightarrow> int \<Rightarrow> Vault option" where
  "GetLeastSecure E Y k vaults period =
     map_option (\<lambda>vs. if vs = [] then EmptyVault else vs ! 0) (SortBySecurity E Y k vaults period)"

lemma vault_securities_snd: "vault_securities E Y k period vs = Some ds \<Longrightarrow> map snd ds = vs"
  by (induction vs arbitrary: ds) (auto simp: bind_Some_iff)

lemma vault_securities_fst:
  "vault_securities E Y k period vs = Some ds \<Longrightarrow> (d, v) \<in> set ds \<Longrightarrow> vault_security E Y k period v = Some d"
  by (induction vs arbitrary: ds) (auto simp: bind_Some_iff)

text \<open>Sorting keeps the vaults and orders them from the least to the most secure.\<close>

lemma SortBySecurity_mset:
  assumes "SortBySecurity E Y k vaults period = Some vs"
  shows "mset vs = mset vaults"
  using assms vault_securities_snd
  by (auto simp: SortBySecurity_def split: if_splits) (metis mset_map mset_sort)

lemma SortBySecurity_set: "SortBySecurity E Y k vaults period = Some vs \<Longrightarrow> set vs = set vaults"
  using SortBySecurity_mset by (metis set_mset_mset)

lemma SortBySecurity_sorted:
  assumes "SortBySecurity E Y k vaults period = Some vs" and "length vaults > 1"
  shows "\<exists>ds. map (vault_security E Y k period) vs = map Some ds \<and> sorted ds"
proof -
  obtain ds where ds: "vault_securities E Y k period vaults = Some ds" and vs: "vs = map snd (sort_key fst ds)"
    using assms by (auto simp: SortBySecurity_def)
  have "map (vault_security E Y k period) vs = map Some (map fst (sort_key fst ds))"
    using vault_securities_fst [OF ds] by (auto simp: vs)
  then show ?thesis by (intro exI [of _ "map fst (sort_key fst ds)"]) simp
qed

end
