(* ===== verification/LiquidityMath.thy ===== *)
theory LiquidityMath
  imports Helpers
begin

text \<open>
  The formulas of liquidity: the units a deposit earns (\<open>calculatePoolUnitsV1\<close> and
  \<open>calculateVaultUnitsV1\<close> of \<open>handler_add_liquidity.go\<close>), what a withdrawal pays
  (\<open>calculateWithdrawV102\<close>, \<open>calculateVaultWithdrawV1\<close> and \<open>calcAsymWithdrawalV1\<close> of
  \<open>withdraw_current.go\<close>) and the protection against impermanent loss. \<open>Dec.Sub\<close> is the addition of
  the negative, \<open>cosmos.NewDec\<close> the multiple of one.
\<close>

section \<open>Deposits\<close>

definition NewDec :: "int \<Rightarrow> int" where
  "NewDec i = i * dec_one"

definition dec_sub :: "sdk \<Rightarrow> int \<Rightarrow> int \<Rightarrow> int option" where
  "dec_sub S x y = dec_add S x (- y)"

definition slip_adjustment :: "sdk \<Rightarrow> int \<Rightarrow> int \<Rightarrow> int \<Rightarrow> int \<Rightarrow> int option" where
  "slip_adjustment S R A r a =
     do {
       rR \<leftarrow> dec_add S r R;
       aA \<leftarrow> dec_add S a A;
       slipAdjDenominator \<leftarrow> dec_mul S rR aA;
       Ra \<leftarrow> dec_mul S R a;
       rA \<leftarrow> dec_mul S r A;
       d \<leftarrow> (if Ra > rA then dec_sub S Ra rA else dec_sub S rA Ra);
       s \<leftarrow> dec_quo S d slipAdjDenominator;
       dec_sub S (NewDec 1) s
     }"

definition calculatePoolUnitsV1 :: "sdk \<Rightarrow> nat \<Rightarrow> nat \<Rightarrow> nat \<Rightarrow> nat \<Rightarrow> nat \<Rightarrow> (nat \<times> nat) result" where
  "calculatePoolUnitsV1 S oldPoolUnits poolRune poolAsset addRune addAsset =
     do {
       totalRune \<leftarrow> uint_add S addRune poolRune;
       if totalRune = 0 then err ''total RUNE in the pool is zero''
       else do {
         totalAsset \<leftarrow> uint_add S addAsset poolAsset;
         if totalAsset = 0 then err ''total asset in the pool is zero''
         else if poolRune = 0 \<or> poolAsset = 0 then ok (addRune, addRune)
         else do {
           let P = dec_from_bigint S oldPoolUnits;
           let R = dec_from_bigint S poolRune;
           let A = dec_from_bigint S poolAsset;
           let r = dec_from_bigint S addRune;
           let a = dec_from_bigint S addAsset;
           slipAdjustment \<leftarrow> slip_adjustment S R A r a;
           aR \<leftarrow> dec_mul S a R;
           Ar \<leftarrow> dec_mul S A r;
           both \<leftarrow> dec_add S aR Ar;
           numerator \<leftarrow> dec_mul S P both;
           twoA \<leftarrow> dec_mul S (NewDec 2) A;
           denominator \<leftarrow> dec_mul S twoA R;
           q \<leftarrow> dec_quo S numerator denominator;
           liquidityUnits \<leftarrow> dec_mul S q slipAdjustment;
           newPoolUnit \<leftarrow> dec_add S P liquidityUnits;
           p \<leftarrow> dec_trunc S newPoolUnit;
           pUnits \<leftarrow> uint_of_int S p;
           s \<leftarrow> dec_trunc S liquidityUnits;
           sUnits \<leftarrow> uint_of_int S s;
           ok (pUnits, sUnits)
         }
       }
     }"

definition calculateVaultUnitsV1 :: "sdk \<Rightarrow> nat \<Rightarrow> nat \<Rightarrow> nat \<Rightarrow> (nat \<times> nat) option" where
  "calculateVaultUnitsV1 S oldPoolUnits poolAmt addAmt =
     (if oldPoolUnits = 0 \<or> poolAmt = 0 then Some (addAmt, addAmt)
      else if addAmt = 0 then Some (oldPoolUnits, 0)
      else
        let lpUnits = GetUncappedShare S addAmt poolAmt oldPoolUnits in
        map_option (\<lambda>u. (u, lpUnits)) (uint_add S oldPoolUnits lpUnits))"

section \<open>Withdrawals\<close>

definition calcAsymWithdrawalV1 :: "sdk \<Rightarrow> nat \<Rightarrow> nat \<Rightarrow> nat \<Rightarrow> nat option" where
  "calcAsymWithdrawalV1 S s t a =
     do {
       part1 \<leftarrow> uint_mul S s a;
       tt \<leftarrow> uint_mul S t t;
       part2 \<leftarrow> uint_mul S tt 2;
       ts \<leftarrow> uint_mul S t s;
       part3 \<leftarrow> uint_mul S ts 2;
       part4 \<leftarrow> uint_mul S s s;
       d \<leftarrow> SafeSub S part2 part3;
       f \<leftarrow> uint_add S d part4;
       numerator \<leftarrow> uint_mul S part1 f;
       tt' \<leftarrow> uint_mul S t t;
       part5 \<leftarrow> uint_mul S tt' t;
       uint_quo S numerator part5
     }"

definition calculateVaultWithdrawV1 :: "sdk \<Rightarrow> nat \<Rightarrow> nat \<Rightarrow> nat \<Rightarrow> nat \<Rightarrow> (nat \<times> nat \<times> nat) option" where
  "calculateVaultWithdrawV1 S vaultUnits assetAmt lpUnits withdrawBasisPoints =
     (if vaultUnits = 0 \<or> lpUnits = 0 \<or> assetAmt = 0 \<or> withdrawBasisPoints = 0 then Some (0, 0, 0)
      else do {
        let unitsToClaim = GetSafeShare S withdrawBasisPoints MaxWithdrawBasisPoints lpUnits;
        unitAfter \<leftarrow> SafeSub S lpUnits unitsToClaim;
        Some (0, GetSafeShare S unitsToClaim vaultUnits assetAmt, unitAfter)
      })"

definition calculateWithdrawV102 ::
  "sdk \<Rightarrow> nat \<Rightarrow> nat \<Rightarrow> nat \<Rightarrow> nat \<Rightarrow> nat \<Rightarrow> nat \<Rightarrow> Asset \<Rightarrow> (nat \<times> nat \<times> nat) result" where
  "calculateWithdrawV102 S poolUnits poolRune poolAsset lpUnits extraUnits withdrawBasisPoints withdrawalAsset =
     (if poolUnits = 0 then err ''poolUnits can't be zero''
      else if poolRune = 0 then err ''pool rune balance can't be zero''
      else if poolAsset = 0 then err ''pool asset balance can't be zero''
      else if lpUnits = 0 then err ''liquidity provider unit can't be zero''
      else if withdrawBasisPoints > MaxWithdrawBasisPoints then err ''withdraw basis point is not valid''
      else do {
        let claim0 = GetSafeShare S withdrawBasisPoints 10000 lpUnits;
        unitAfter \<leftarrow> SafeSub S lpUnits claim0;
        unitsToClaim \<leftarrow> uint_add S claim0 extraUnits;
        if Asset_IsEmpty withdrawalAsset then
          ok (GetSafeShare S unitsToClaim poolUnits poolRune, GetSafeShare S unitsToClaim poolUnits poolAsset, unitAfter)
        else if Asset_IsBase withdrawalAsset then
          do { x \<leftarrow> calcAsymWithdrawalV1 S unitsToClaim poolUnits poolRune; ok (x, 0, unitAfter) }
        else
          do { x \<leftarrow> calcAsymWithdrawalV1 S unitsToClaim poolUnits poolAsset; ok (0, x, unitAfter) }
      })"

section \<open>Impermanent loss\<close>

text \<open>The quotient of \<open>int64\<close> rounds toward zero.\<close>

definition quot64 :: "int \<Rightarrow> int \<Rightarrow> int" where
  "quot64 a b = sgn a * sgn b * (\<bar>a\<bar> div \<bar>b\<bar>)"

text \<open>The percentage in basis points. The divisor is positive where the division is reached.\<close>

definition calcImpLossProtectionAmtV2 :: "env \<Rightarrow> KVStore \<Rightarrow> int \<Rightarrow> int \<Rightarrow> int" where
  "calcImpLossProtectionAmtV2 E k lastDepositHeight target =
     (let age = wrap64 (E_height E - lastDepositHeight);
          zeroILPBlocks = config E k ''ZeroImpLossProtectionBlocks''
      in if age < zeroILPBlocks then 0
         else if age \<ge> target then 10000
         else quot64 (wrap64 (wrap64 (age - zeroILPBlocks) * 10000)) (wrap64 (target - zeroILPBlocks)))"

text \<open>\<open>BigInt().Int64()\<close> keeps the low 64 bits. The result is the protection, the value of the
  deposit and the value it redeems for.\<close>

definition calcImpLossV102 ::
  "env \<Rightarrow> KVStore \<Rightarrow> int \<Rightarrow> LiquidityProvider \<Rightarrow> nat \<Rightarrow> int \<Rightarrow> Pool \<Rightarrow> (nat \<times> nat \<times> nat) option" where
  "calcImpLossV102 E k lastAddHeight lp withdrawBasisPoints fullProtectionLine pool =
     do {
       let S = E_sdk E;
       let A0 = LP_AssetDepositValue lp;
       let R0 = LP_CacaoDepositValue lp;
       poolUnits \<leftarrow> Pool_GetPoolUnits S pool;
       let A1 = GetSafeShare S (LP_Units lp) poolUnits (Pool_BalanceAsset pool);
       let R1 = GetSafeShare S (LP_Units lp) poolUnits (Pool_BalanceCacao pool);
       if A1 = 0 then Some (0, 0, 0)
       else do {
         x \<leftarrow> uint_mul S A0 R1;
         y \<leftarrow> uint_quo S x A1;
         depositValue \<leftarrow> uint_add S y R0;
         redeemValue \<leftarrow> uint_add S R1 R1;
         cover0 \<leftarrow> SafeSub S depositValue redeemValue;
         let coverage = GetSafeShare S withdrawBasisPoints 10000 cover0;
         let prevAssetDec = NewDec (wrap64 (int A0));
         let prevCacaoDec = NewDec (wrap64 (int R0));
         let currentAssetDec = NewDec (wrap64 (int A1));
         let currentCacaoDec = NewDec (wrap64 (int R1));
         if prevAssetDec = 0 \<or> currentAssetDec = 0 then Some (0, 0, 0)
         else do {
           prevRatio \<leftarrow> dec_quo S prevCacaoDec prevAssetDec;
           currRatio \<leftarrow> dec_quo S currentCacaoDec currentAssetDec;
           let line = (if currRatio \<le> prevRatio then config E k ''FullImpLossProtectionBlocksTimes4''
                       else fullProtectionLine);
           z \<leftarrow> uint_mul S coverage (uint64_cast (calcImpLossProtectionAmtV2 E k lastAddHeight line));
           result \<leftarrow> uint_quo S z 10000;
           Some (result, depositValue, redeemValue)
         }
       }
     }"

section \<open>Asymmetric withdrawals\<close>

lemma asym_factor:
  fixes s t :: nat
  assumes "s \<le> t"
  shows "t * t \<le> 2 * (t * t) - 2 * (t * s) + s * s" and "s * (2 * (t * t) - 2 * (t * s) + s * s) \<le> t * t * t"
proof -
  obtain d where t: "t = s + d" using assms le_Suc_ex by blast
  have f: "2 * (t * t) - 2 * (t * s) + s * s = t * t + d * d"
  proof -
    have "2 * (t * s) + (t * t + d * d) = 2 * (t * t) + s * s" unfolding t by (simp add: algebra_simps)
    moreover have "2 * (t * s) \<le> 2 * (t * t)" using assms by simp
    ultimately show ?thesis by linarith
  qed
  show "t * t \<le> 2 * (t * t) - 2 * (t * s) + s * s" unfolding f by simp
  show "s * (2 * (t * t) - 2 * (t * s) + s * s) \<le> t * t * t"
    unfolding f t by (simp add: algebra_simps)
qed

lemma calcAsym_Some:
  assumes "cosmos_sdk S" and "calcAsymWithdrawalV1 S s t a = Some x"
  shows "x = s * a * (2 * (t * t) - 2 * (t * s) + s * s) div (t * t * t)" and "0 < t"
  using assms(2)
  by (auto simp: calcAsymWithdrawalV1_def bind_Some_iff cosmos_sdk.uint_Some [OF assms(1)]
      cosmos_sdk.SafeSub_eq [OF assms(1)] mult.commute mult.left_commute)

lemma calcAsym_le:
  assumes "cosmos_sdk S" and "calcAsymWithdrawalV1 S s t a = Some x" and "s \<le> t"
  shows "x \<le> a"
proof -
  note x = calcAsym_Some [OF assms(1,2)]
  let ?f = "2 * (t * t) - 2 * (t * s) + s * s"
  have "s * a * ?f = (s * ?f) * a" by (simp add: ac_simps)
  also have "\<dots> \<le> (t * t * t) * a" using asym_factor(2) [OF assms(3)] by (intro mult_right_mono) auto
  finally have "s * a * ?f div (t * t * t) \<le> (t * t * t) * a div (t * t * t)" by (rule div_le_mono)
  then show ?thesis using x by simp
qed

text \<open>An asymmetric withdrawal pays a fair amount. For \<open>s\<close> of \<open>t\<close> units it pays at least the
  proportional share of the side it is taken from, never more than the whole side, and exactly the
  whole side for all the units.\<close>

lemma calcAsymWithdrawal_bounds:
  assumes "cosmos_sdk S" and "calcAsymWithdrawalV1 S s t a = Some x" and "s \<le> t"
  shows "s * a div t \<le> x \<and> x \<le> a \<and> (s = t \<longrightarrow> x = a)"
proof -
  note x = calcAsym_Some [OF assms(1,2)]
  let ?f = "2 * (t * t) - 2 * (t * s) + s * s"
  have "s * a div t = (s * a * (t * t)) div (t * t * t)"
    using x(2) by (simp add: mult.assoc [symmetric])
  also have "\<dots> \<le> s * a * ?f div (t * t * t)"
    using asym_factor(1) [OF assms(3)] by (intro div_le_mono mult_left_mono) auto
  finally have lo: "s * a div t \<le> x" by (simp add: x(1))
  have "x = a" if "s = t" using x that by (simp add: ac_simps)
  then show ?thesis using lo calcAsym_le [OF assms] by blast
qed

section \<open>Units of a deposit\<close>

lemma half_unit_eq: "2 * \<bar>q * u - x * u\<bar> \<le> u \<Longrightarrow> 0 < u \<Longrightarrow> q = (x::int)"
proof (rule ccontr)
  assume a: "2 * \<bar>q * u - x * u\<bar> \<le> u" "0 < u" and "q \<noteq> x"
  then have "1 \<le> \<bar>q - x\<bar>" by linarith
  then have "u \<le> \<bar>q - x\<bar> * u" using a(2) by (simp add: mult_le_cancel_right1)
  then show False using a by (simp add: left_diff_distrib [symmetric] abs_mult)
qed

context cosmos_sdk
begin

lemma dec_mul_exact: "dec_mul S (x * dec_one) y = Some q \<Longrightarrow> q = x * y"
  using dec_mul_near [of "x * dec_one" y q] half_unit_eq [of q dec_one "x * y"] by (simp add: ac_simps)

lemma dec_sub_exact: "dec_sub S x y = Some z \<Longrightarrow> z = x - y"
  using dec_add_exact by (fastforce simp: dec_sub_def)

lemma dec_near_le: "dec_quo S x y = Some q \<Longrightarrow> 0 < y \<Longrightarrow> x * dec_one \<le> c * y \<Longrightarrow> q \<le> c"
  using dec_quo_near [of x y q] nearest_le [of q y "x * dec_one" c] by simp

lemma dec_near_ge: "dec_quo S x y = Some q \<Longrightarrow> 0 < y \<Longrightarrow> c * y \<le> x * dec_one \<Longrightarrow> c \<le> q"
  using dec_quo_near [of x y q] nearest_ge [of q y "x * dec_one" c] by simp

lemma slip_adjustment_range:
  fixes R A r a :: nat
  assumes "slip_adjustment S (dec_from_bigint S R) (dec_from_bigint S A) (dec_from_bigint S r)
      (dec_from_bigint S a) = Some t" and "0 < R" and "0 < A"
  shows "0 \<le> t \<and> t \<le> dec_one"
proof -
  let ?D = dec_one
  from assms(1) obtain s where s: "dec_quo S (\<bar>int R * int a - int r * int A\<bar> * ?D)
        ((int r + int R) * (int a + int A) * ?D) = Some s" and t: "t = ?D - s"
  proof -
    from assms(1) obtain rR aA den Ra rA d s where st: "dec_add S (dec_from_bigint S r) (dec_from_bigint S R) = Some rR"
      "dec_add S (dec_from_bigint S a) (dec_from_bigint S A) = Some aA" "dec_mul S rR aA = Some den"
      "dec_mul S (dec_from_bigint S R) (dec_from_bigint S a) = Some Ra"
      "dec_mul S (dec_from_bigint S r) (dec_from_bigint S A) = Some rA"
      "(if Ra > rA then dec_sub S Ra rA else dec_sub S rA Ra) = Some d" "dec_quo S d den = Some s"
      "dec_sub S (NewDec 1) s = Some t"
      unfolding slip_adjustment_def bind_Some_iff by blast
    have 1: "rR = (int r + int R) * ?D" "aA = (int a + int A) * ?D"
      using dec_add_exact [OF st(1)] dec_add_exact [OF st(2)] by (simp_all add: dec_from_bigint distrib_right)
    have 2: "den = (int r + int R) * (int a + int A) * ?D"
      using dec_mul_exact st(3) 1 by (metis mult.assoc)
    have 3: "Ra = int R * int a * ?D" "rA = int r * int A * ?D"
      using dec_mul_exact st(4,5) by (metis dec_from_bigint mult.assoc)+
    have "d = \<bar>Ra - rA\<bar>" using st(6) by (auto split: if_splits dest!: dec_sub_exact)
    then have "d = \<bar>int R * int a - int r * int A\<bar> * ?D"
      by (simp add: 3 left_diff_distrib [symmetric] abs_mult)
    moreover have "t = ?D - s" using dec_sub_exact [OF st(8)] by (simp add: NewDec_def)
    ultimately show ?thesis using that st(7) 2 by blast
  qed
  let ?den = "(int r + int R) * (int a + int A) * ?D"
  have den: "0 < ?den" using assms(2,3) by simp
  have "\<bar>int R * int a - int r * int A\<bar> \<le> (int r + int R) * (int a + int A)"
    using assms(2,3) by (auto simp: abs_le_iff algebra_simps intro: add_nonneg_nonneg)
  then have "\<bar>int R * int a - int r * int A\<bar> * ?D * ?D \<le> (int r + int R) * (int a + int A) * ?D * ?D"
    by (intro mult_right_mono) (simp_all add: less_imp_le)
  then have "s \<le> ?D" by (intro dec_near_le [OF s den]) (simp add: ac_simps)
  moreover have "0 \<le> s" by (rule dec_near_ge [OF s den]) (simp add: less_imp_le)
  ultimately show ?thesis using t by simp
qed

end

context cosmos_sdk
begin

text \<open>The units of a deposit into a pool with both sides, before truncation: \<open>L\<close> is the product of
  the quotient \<open>q\<close> and an adjustment \<open>t\<close> of at most one.\<close>

lemma pool_units_steps:
  assumes "calculatePoolUnitsV1 S P R A r a = ok (pU, sU)" and "0 < R" and "0 < A"
  obtains q t L where "0 \<le> t" "t \<le> dec_one" "0 \<le> q" "0 \<le> L" "L \<le> q"
    and "2 * \<bar>q * (2 * int A * int R) - int P * (int a * int R + int A * int r) * dec_one\<bar> \<le> 2 * int A * int R"
    and "int sU = L div dec_one" and "int pU = int P + L div dec_one"
proof -
  let ?D = dec_one
  let ?b = "dec_from_bigint S"
  from assms obtain t aR Ar both N twoA M q L pu p s where st:
      "slip_adjustment S (?b R) (?b A) (?b r) (?b a) = Some t" "dec_mul S (?b a) (?b R) = Some aR"
      "dec_mul S (?b A) (?b r) = Some Ar" "dec_add S aR Ar = Some both" "dec_mul S (?b P) both = Some N"
      "dec_mul S (NewDec 2) (?b A) = Some twoA" "dec_mul S twoA (?b R) = Some M" "dec_quo S N M = Some q"
      "dec_mul S q t = Some L" "dec_add S (?b P) L = Some pu" "dec_trunc S pu = Some p" "uint_of_int S p = Some pU"
      "dec_trunc S L = Some s" "uint_of_int S s = Some sU"
    by (auto simp: calculatePoolUnitsV1_def bind_Some_iff Let_def split: if_splits)
  have t: "0 \<le> t \<and> t \<le> ?D" using slip_adjustment_range [OF st(1) assms(2,3)] .
  have e: "aR = int a * int R * ?D" "Ar = int A * int r * ?D"
    using dec_mul_exact st(2,3) by (metis dec_from_bigint mult.assoc)+
  have both: "both = (int a * int R + int A * int r) * ?D"
    using dec_add_exact [OF st(4)] e by (simp add: distrib_right)
  have N: "N = int P * (int a * int R + int A * int r) * ?D"
    using dec_mul_exact st(5) both by (metis dec_from_bigint mult.assoc)
  have twoA: "twoA = 2 * int A * ?D" using dec_mul_exact st(6) by (metis NewDec_def dec_from_bigint mult.assoc)
  have M: "M = 2 * int A * int R * ?D" using dec_mul_exact st(7) twoA by (metis dec_from_bigint mult.assoc)
  have Mpos: "0 < M" using assms(2,3) by (simp add: M)
  have "2 * \<bar>q * (2 * int A * int R * ?D) - N * ?D\<bar> \<le> \<bar>2 * int A * int R * ?D\<bar>"
    using dec_quo_near [OF st(8)] by (simp add: M)
  then have near: "2 * \<bar>q * (2 * int A * int R) - int P * (int a * int R + int A * int r) * ?D\<bar> \<le> 2 * int A * int R"
    unfolding N by (rule nearest_cancel [OF _ dec_one_pos(1)]) (use assms(2,3) in simp)
  have q: "0 \<le> q" by (rule dec_near_ge [OF st(8) Mpos]) (simp add: N less_imp_le)
  have L: "2 * \<bar>L * ?D - q * t\<bar> \<le> ?D" by (rule dec_mul_near [OF st(9)])
  have "0 \<le> L" using nearest_ge [of L ?D "q * t" 0] L q t by simp
  moreover have "L \<le> q" using nearest_le [of L ?D "q * t" q] L q t by (simp add: mult_left_mono)
  moreover have "pu = int P * ?D + L" using dec_add_exact [OF st(10)] by (simp add: dec_from_bigint)
  moreover have "int sU = s" "int pU = p"
    using st(12,14) by (auto simp: uint_of_int split: if_splits)
  ultimately show ?thesis
    using that [of t q L] t q near dec_trunc_floor [OF _ st(13)] dec_trunc_floor [OF _ st(11)]
    by (simp add: less_imp_le)
qed

end

text \<open>C24: a deposit earns no more than its share. The pool's units grow by exactly the units the
  provider gets, and these are at most the mean of the two relative deposits, \<open>P (a R + A r) / (2 A R)\<close>,
  up to half a unit of the 18th decimal.\<close>

theorem calculatePoolUnits_fair:
  assumes "cosmos_sdk S" and "calculatePoolUnitsV1 S P R A r a = ok (pU, sU)" and "0 < R" and "0 < A"
  shows "pU = P + sU \<and> sU * (2 * A * R) * 10 ^ 18 \<le> P * (a * R + A * r) * 10 ^ 18 + A * R"
proof -
  let ?D = dec_one
  obtain q t L where L: "0 \<le> L" "L \<le> q" and q: "0 \<le> q"
    and near: "2 * \<bar>q * (2 * int A * int R) - int P * (int a * int R + int A * int r) * ?D\<bar> \<le> 2 * int A * int R"
    and s: "int sU = L div ?D" and p: "int pU = int P + L div ?D"
    using cosmos_sdk.pool_units_steps [OF assms] by metis
  have "int sU * ?D \<le> L" unfolding s by (simp add: div_mult_mod_eq [of L, symmetric] minus_mod_eq_div_mult [symmetric])
  then have "int sU * ?D * (2 * int A * int R) \<le> q * (2 * int A * int R)"
    using L by (intro mult_right_mono) auto
  also have "q * (2 * int A * int R) \<le> int P * (int a * int R + int A * int r) * ?D + int A * int R"
  proof -
    define m y where "m = int A * int R" and "y = int P * (int a * int R + int A * int r) * ?D"
    have "2 * \<bar>q * (2 * m) - y\<bar> \<le> 2 * m" using near by (simp add: m_def y_def mult.assoc)
    then have "\<bar>q * (2 * m) - y\<bar> \<le> m" by simp
    from abs_le_D1 [OF this] have "q * (2 * m) \<le> y + m" by simp
    then show ?thesis by (simp add: m_def y_def mult.assoc)
  qed
  finally have "int (sU * (2 * A * R) * 10 ^ 18) \<le> int (P * (a * R + A * r) * 10 ^ 18 + A * R)"
    by (simp add: dec_one_def ac_simps)
  then have "sU * (2 * A * R) * 10 ^ 18 \<le> P * (a * R + A * r) * 10 ^ 18 + A * R" by (simp only: of_nat_le_iff)
  moreover have "pU = P + sU" using s p by linarith
  ultimately show ?thesis by blast
qed

theorem calculatePoolUnits_fair_witness:
  "calculatePoolUnitsV1 sdk256 100 1000 50 200 10 = ok (120, 20)
    \<and> 20 * (2 * 50 * 1000) \<le> (100::nat) * (10 * 1000 + 50 * 200)"
proof -
  have c: "calculatePoolUnitsV1 sdk256 100 1000 50 200 10 = ok (120, 20)"
    by (simp add: calculatePoolUnitsV1_def slip_adjustment_def dec_sub_def NewDec_def sdk256_def round_div_def
        dec_one_def Let_def)
  show ?thesis using calculatePoolUnits_fair [OF sdk256.cosmos_sdk_axioms c] c by simp
qed

section \<open>What a withdrawal pays\<close>

lemma safe_share_le: "cosmos_sdk S \<Longrightarrow> GetSafeShare S x y z \<le> z"
  unfolding GetSafeShare_def by (rule cosmos_sdk.share_le) auto

lemma calculateWithdraw_le:
  assumes "cosmos_sdk S"
    and "calculateWithdrawV102 S poolUnits poolRune poolAsset lpUnits extraUnits bp wa = ok (r, a, after)"
    and "lpUnits + extraUnits \<le> poolUnits"
  shows "r \<le> poolRune \<and> a \<le> poolAsset"
proof -
  note share = safe_share_le [OF assms(1)]
  define c where "c = GetSafeShare S bp 10000 lpUnits"
  have "c \<le> lpUnits" unfolding c_def by (rule share)
  then have "c + extraUnits \<le> poolUnits" using assms(3) by simp
  note asym = calcAsym_le [OF assms(1) _ this]
  show ?thesis
    using assms(2) share
    by (auto simp: calculateWithdrawV102_def bind_Some_iff cosmos_sdk.uint_Some [OF assms(1)]
        cosmos_sdk.SafeSub_eq [OF assms(1)] Let_def c_def [symmetric] split: if_splits dest!: asym)
qed

text \<open>C25: a withdrawal never pays more than the pool holds. Whatever is paid of each side is at most
  the balance of the side, the units left to the provider are the units minus the claimed part, and
  a symmetric withdrawal takes from both sides.\<close>

theorem calculateWithdraw_within_pool:
  assumes "cosmos_sdk S"
    and "calculateWithdrawV102 S poolUnits poolRune poolAsset lpUnits extraUnits bp wa = ok (r, a, after)"
    and "lpUnits + extraUnits \<le> poolUnits"
  shows "r \<le> poolRune \<and> a \<le> poolAsset \<and> after = lpUnits - GetSafeShare S bp 10000 lpUnits
    \<and> (Asset_IsEmpty wa \<longrightarrow>
        r = GetSafeShare S (lpUnits - after + extraUnits) poolUnits poolRune
        \<and> a = GetSafeShare S (lpUnits - after + extraUnits) poolUnits poolAsset)"
proof -
  have "GetSafeShare S bp 10000 lpUnits \<le> lpUnits" by (rule safe_share_le [OF assms(1)])
  then show ?thesis
    using assms(2) calculateWithdraw_le [OF assms]
    by (auto simp: calculateWithdrawV102_def bind_Some_iff cosmos_sdk.uint_Some [OF assms(1)]
        cosmos_sdk.SafeSub_eq [OF assms(1)] Let_def split: if_splits)
qed

theorem calculateWithdraw_within_pool_witness:
  "calculateWithdrawV102 sdk256 100 1000 50 40 0 5000 EmptyAsset = ok (200, 10, 20) \<and> 200 \<le> (1000::nat)"
proof -
  have e: "Asset_IsEmpty EmptyAsset" by code_simp
  have c: "calculateWithdrawV102 sdk256 100 1000 50 40 0 5000 EmptyAsset = ok (200, 10, 20)"
    by (simp add: e calculateWithdrawV102_def GetSafeShare_def GetUncappedShare_def MaxWithdrawBasisPoints_def
        SafeSub_def sdk256_def round_div_def dec_one_def)
  show ?thesis using calculateWithdraw_within_pool [OF sdk256.cosmos_sdk_axioms c] c by simp
qed

section \<open>Protection against impermanent loss\<close>

lemma protection_points:
  assumes "0 \<le> config E k ''ZeroImpLossProtectionBlocks''"
    and "\<bar>E_height E\<bar> < 2 ^ 48" and "\<bar>since\<bar> < 2 ^ 48" and "target < 2 ^ 48"
  shows "0 \<le> calcImpLossProtectionAmtV2 E k since target \<and> calcImpLossProtectionAmtV2 E k since target \<le> 10000"
proof -
  let ?z = "config E k ''ZeroImpLossProtectionBlocks''" and ?age = "E_height E - since"
  have age: "wrap64 ?age = ?age" using assms(2,3) by (intro wrap64_id) auto
  show ?thesis
  proof (cases "?age < ?z \<or> ?age \<ge> target")
    case True
    then show ?thesis by (auto simp: calcImpLossProtectionAmtV2_def Let_def age)
  next
    case False
    define d n where "d = ?age - ?z" and "n = target - ?z"
    have r: "0 \<le> d" "d < n" using False by (auto simp: d_def n_def)
    have b: "d < 2 ^ 48" "n < 2 ^ 48" using r assms(1,4) by (auto simp: n_def)
    have w: "wrap64 d = d" "wrap64 n = n" "wrap64 (d * 10000) = d * 10000"
      using r b by (auto intro!: wrap64_id)
    have "calcImpLossProtectionAmtV2 E k since target = quot64 (wrap64 (wrap64 d * 10000)) (wrap64 n)"
      using False by (auto simp: calcImpLossProtectionAmtV2_def Let_def age d_def n_def)
    also have "\<dots> = d * 10000 div n" using r by (auto simp: w quot64_def sgn_if abs_if)
    finally have "calcImpLossProtectionAmtV2 E k since target = d * 10000 div n" .
    moreover have "d * 10000 div n \<le> 10000" using zdiv_mono1 [of "d * 10000" "10000 * n" n] r by simp
    ultimately show ?thesis using r by (simp add: pos_imp_zdiv_nonneg_iff)
  qed
qed

text \<open>C32: protection never exceeds the loss. What a provider is granted is at most the part of the
  value of the deposit that the redeemed value does not reach, and nothing when nothing was lost.\<close>

theorem calcImpLoss_at_most_loss:
  assumes "cosmos_sdk (E_sdk E)"
    and "calcImpLossV102 E k since lp bp line pool = Some (protection, deposit, redeem)"
    and "0 \<le> config E k ''ZeroImpLossProtectionBlocks''"
    and "\<bar>E_height E\<bar> < 2 ^ 48" and "\<bar>since\<bar> < 2 ^ 48" and "line < 2 ^ 48"
    and "config E k ''FullImpLossProtectionBlocksTimes4'' < 2 ^ 48"
  shows "protection \<le> deposit - redeem"
proof (cases "protection = 0")
  case False
  have pts: "uint64_cast (calcImpLossProtectionAmtV2 E k since t) \<le> 10000" if "t < 2 ^ 48" for t
    using protection_points [OF assms(3-5) that] by (simp add: uint64_cast_def nat_le_iff)
  define cover where "cover = GetSafeShare (E_sdk E) bp 10000 (deposit - redeem)"
  have cover: "cover \<le> deposit - redeem"
    unfolding cover_def GetSafeShare_def by (rule cosmos_sdk.share_le [OF assms(1)]) simp
  let ?F = "\<lambda>t. cover * uint64_cast (calcImpLossProtectionAmtV2 E k since t) div 10000"
  have "protection = ?F (config E k ''FullImpLossProtectionBlocksTimes4'') \<or> protection = ?F line"
    using False assms(2)
    by (auto simp: calcImpLossV102_def bind_Some_iff cosmos_sdk.uint_Some [OF assms(1)]
        cosmos_sdk.SafeSub_eq [OF assms(1)] Let_def cover_def split: if_splits)
  then obtain t where t: "t < 2 ^ 48" and p: "protection = ?F t" using assms(6,7) by blast
  have "cover * uint64_cast (calcImpLossProtectionAmtV2 E k since t) \<le> cover * 10000"
    using pts [OF t] by simp
  then have "protection \<le> cover * 10000 div 10000" unfolding p by (rule div_le_mono)
  then show ?thesis using cover by simp
qed simp

lemma protection_constants:
  "C_int64 sample_accessor ''ZeroImpLossProtectionBlocks'' = 720000"
  "C_int64 sample_accessor ''FullImpLossProtectionBlocksTimes4'' = 6480000"
  by (code_simp | rule conjI)+

lemma protection_config:
  "config (sample_env h) empty_store ''ZeroImpLossProtectionBlocks'' = 720000"
  "config (sample_env h) empty_store ''FullImpLossProtectionBlocksTimes4'' = 6480000"
proof -
  have "K_int64 empty_store = []" "K_version empty_store = (\<lambda>_. True)" by (simp_all add: empty_store_def)
  from fetchConfigInt64_unset [OF this] show
    "config (sample_env h) empty_store ''ZeroImpLossProtectionBlocks'' = 720000"
    "config (sample_env h) empty_store ''FullImpLossProtectionBlocksTimes4'' = 6480000"
    by (simp_all add: config_def protection_constants)
qed

theorem calcImpLoss_at_most_loss_witness:
  "calcImpLossV102 (sample_env 1440000) empty_store 0
      (sample_lp\<lparr>LP_AssetDepositValue := 100, LP_CacaoDepositValue := 10000\<rparr>) 10000 2160000
      (sample_pool\<lparr>Pool_LPUnits := 100, Pool_BalanceAsset := 50, Pool_BalanceCacao := 20000\<rparr>)
    = Some (5000, 50000, 40000) \<and> 5000 \<le> 50000 - (40000::nat)"
proof -
  have c: "calcImpLossV102 (sample_env 1440000) empty_store 0
      (sample_lp\<lparr>LP_AssetDepositValue := 100, LP_CacaoDepositValue := 10000\<rparr>) 10000 2160000
      (sample_pool\<lparr>Pool_LPUnits := 100, Pool_BalanceAsset := 50, Pool_BalanceCacao := 20000\<rparr>)
    = Some (5000, 50000, 40000)"
    by (simp add: calcImpLossV102_def calcImpLossProtectionAmtV2_def protection_config Pool_GetPoolUnits_def sample_lp_def
        sample_pool_def NewPool_def GetSafeShare_def GetUncappedShare_def SafeSub_def wrap64_def quot64_def
        uint64_cast_def NewDec_def sdk256_def round_div_def dec_one_def)
  show ?thesis
    using calcImpLoss_at_most_loss [OF _ c] c sdk256.cosmos_sdk_axioms by (simp add: protection_config)
qed

end
