(* ===== verification/TxOutStore.thy ===== *)
theory TxOutStore
  imports SwapQueue Dispatch Keys LiquidityMath "HOL-Library.Sublist"
begin

text \<open>
  The outbound manager, \<open>x/mayachain/manager_txout_current.go\<close> (\<open>TxOutStorageV104\<close>): the vaults an
  outbound is sent from, the fee it pays, the block it is scheduled for, and the transfer of native
  assets. Events and metrics are not modelled. \<open>run\<close> is the handler the dispatcher looks up for
  an internal message (\<open>NewInternalHandler\<close> keeps its changes only when it succeeds); it is a
  parameter, since the handlers of the messages call this manager in turn.
\<close>

text \<open>A constant that a positive value of the configuration overrides.\<close>

definition positive_config :: "env \<Rightarrow> KVStore \<Rightarrow> constant_name \<Rightarrow> int" where
  "positive_config E k key =
     (let v = mimir E k (ConstantName_String key) in if v \<le> 0 then C_int64 (E_cv E) key else v)"

definition toi_amount :: "TxOutItem \<Rightarrow> nat" where
  "toi_amount toi = Coin_Amount (TOI_Coin toi)"

definition set_amount :: "TxOutItem \<Rightarrow> nat \<Rightarrow> TxOutItem" where
  "set_amount toi a = toi\<lparr>TOI_Coin := (TOI_Coin toi)\<lparr>Coin_Amount := a\<rparr>\<rparr>"

section \<open>End of the block\<close>

text \<open>The caches of the loop only save reads: the network fees they are computed from do not change in it.\<close>

definition refresh_gas :: "env \<Rightarrow> KVStore \<Rightarrow> TxOutItem \<Rightarrow> (TxOutItem \<times> KVStore) option" where
  "refresh_gas E k tx =
     do {
       maxGas \<leftarrow> GetMaxGas E k (TOI_Chain tx);
       rate \<leftarrow> GetGasRate E k (TOI_Chain tx);
       gasRate \<leftarrow> uint64_of rate;
       let stale = (TOI_MaxGas tx = [] \<or> Coin_Amount maxGas > Coin_Amount (hd (TOI_MaxGas tx)));
       let k' = (if stale then case updateTxOutGas k tx [maxGas] of Inl _ \<Rightarrow> k | Inr k' \<Rightarrow> k' else k);
       let tx' = (if stale then tx\<lparr>TOI_MaxGas := [maxGas]\<rparr> else tx);
       Some (tx'\<lparr>TOI_GasRate := wrap64 (int gasRate)\<rparr>, k')
     }"

fun refresh_gas_all :: "env \<Rightarrow> KVStore \<Rightarrow> TxOutItem list \<Rightarrow> (TxOutItem list \<times> KVStore) option" where
  "refresh_gas_all E k [] = Some ([], k)"
| "refresh_gas_all E k (tx # txs) =
     do {
       (tx', k1) \<leftarrow> refresh_gas E k tx;
       (txs', k2) \<leftarrow> refresh_gas_all E k1 txs;
       Some (tx' # txs', k2)
     }"

definition TxOutStore_GetBlockOut :: "env \<Rightarrow> KVStore \<Rightarrow> TxOut" where
  "TxOutStore_GetBlockOut E k = GetTxOut k (E_height E)"

definition TxOutStore_EndBlock :: "env \<Rightarrow> KVStore \<Rightarrow> KVStore option" where
  "TxOutStore_EndBlock E k =
     do {
       let txOut = TxOutStore_GetBlockOut E k;
       (txs, k') \<leftarrow> refresh_gas_all E k (TxOut_TxArray txOut);
       Some (SetTxOut k' (txOut\<lparr>TxOut_TxArray := txs\<rparr>))
     }"

definition GetOutboundItems :: "env \<Rightarrow> KVStore \<Rightarrow> TxOutItem list" where
  "GetOutboundItems E k = TxOut_TxArray (GetTxOut k (E_height E))"

definition GetOutboundItemByToAddress :: "env \<Rightarrow> KVStore \<Rightarrow> address \<Rightarrow> TxOutItem list" where
  "GetOutboundItemByToAddress E k to = filter (\<lambda>item. Address_Equals (TOI_ToAddress item) to) (GetOutboundItems E k)"

definition ClearOutboundItems :: "env \<Rightarrow> KVStore \<Rightarrow> KVStore" where
  "ClearOutboundItems E k = ClearTxOut k (E_height E)"

section \<open>The vaults of an outbound\<close>

definition usable_vault :: "env \<Rightarrow> keys \<Rightarrow> nat \<Rightarrow> Coin \<Rightarrow> TxOutItem \<Rightarrow> Vault \<Rightarrow> bool" where
  "usable_vault E Y transactionFeeAsset maxGasAsset toi vault \<longleftrightarrow>
     \<not> (V_Frozen vault \<noteq> []
        \<and> Chains_Has (parse_chains (V_Frozen vault)) (Asset_GetChain (Coin_Asset maxGasAsset)))
     \<and> (case PubKey_GetAddress (E_codecs E) Y (V_PubKey vault) (TOI_Chain toi) of
          Inl _ \<Rightarrow> False
        | Inr fromAddr \<Rightarrow> \<not> Address_IsEmpty fromAddr \<and> \<not> Address_Equals (TOI_ToAddress toi) fromAddr)
     \<and> Coin_Amount (Vault_GetCoin vault (Coin_Asset (TOI_Coin toi))) > transactionFeeAsset
     \<and> (let gasAsset = Vault_GetCoin vault (Chain_GetGasAsset (TOI_Chain toi))
        in \<not> Coin_IsEmpty gasAsset \<and> Coin_Amount gasAsset \<ge> Coin_Amount maxGasAsset)"

fun discoverOutbounds ::
  "env \<Rightarrow> keys \<Rightarrow> nat \<Rightarrow> Coin \<Rightarrow> TxOutItem \<Rightarrow> Vault list \<Rightarrow> (TxOutItem list \<times> nat) option" where
  "discoverOutbounds E Y fee maxGas toi [] = Some ([], toi_amount toi)"
| "discoverOutbounds E Y fee maxGas toi (vault # vaults) =
     (if \<not> usable_vault E Y fee maxGas toi vault then discoverOutbounds E Y fee maxGas toi vaults
      else
        let toi' = toi\<lparr>TOI_VaultPubKey := V_PubKey vault\<rparr>;
            holds = Coin_Amount (Vault_GetCoin vault (Coin_Asset (TOI_Coin toi))) in
        if toi_amount toi' \<le> holds then Some ([toi'], 0)
        else do {
          remainingAmount \<leftarrow> SafeSub (E_sdk E) (toi_amount toi') holds;
          a \<leftarrow> SafeSub (E_sdk E) (toi_amount toi') remainingAmount;
          (outputs, remaining) \<leftarrow> discoverOutbounds E Y fee maxGas (set_amount toi' remainingAmount) vaults;
          Some (set_amount toi' a # outputs, remaining)
        })"

fun collect_ygg :: "env \<Rightarrow> keys \<Rightarrow> KVStore \<Rightarrow> ObservedTx \<Rightarrow> Asset \<Rightarrow> Vault list \<Rightarrow> go_error + Vault list" where
  "collect_ygg E Y k tx gasAsset [] = Inr []"
| "collect_ygg E Y k tx gasAsset (vault # vaults) =
     (if \<not> Vault_IsYggdrasil vault \<or> \<not> Vault_HasAsset vault gasAsset then collect_ygg E Y k tx gasAsset vaults
      else case PubKey_GetThorAddress (E_sdk E) (E_codecs E) Y (V_PubKey vault) of
             Inl e \<Rightarrow> Inl e
           | Inr addr \<Rightarrow>
               if \<not> ObservedTx_HasSigned (E_sdk E) tx addr
                  \<or> Jail_IsJailed (GetNodeAccountJail (E_sdk E) k addr) (E_height E)
               then collect_ygg E Y k tx gasAsset vaults
               else case collect_ygg E Y k tx gasAsset vaults of Inl e \<Rightarrow> Inl e | Inr vs \<Rightarrow> Inr (vault # vs))"

definition collectYggdrasilPools :: "env \<Rightarrow> keys \<Rightarrow> KVStore \<Rightarrow> ObservedTx \<Rightarrow> Asset \<Rightarrow> go_error + Vault list" where
  "collectYggdrasilPools E Y k tx gasAsset = collect_ygg E Y k tx gasAsset (kv_values (K_vaults k))"

text \<open>The loop over the blocks stops at an empty block after the largest offset.\<close>

fun pending_blocks :: "KVStore \<Rightarrow> Asset \<Rightarrow> int \<Rightarrow> int list \<Rightarrow> TxOutItem list" where
  "pending_blocks k asset lastOffset [] = []"
| "pending_blocks k asset lastOffset (h # hs) =
     (let items = TxOut_TxArray (GetTxOut k h) in
      if h > lastOffset \<and> items = [] then []
      else filter (\<lambda>i. Asset_Equals (Coin_Asset (TOI_Coin i)) asset \<and> TxID_IsEmpty (TOI_OutHash i)) items
           @ pending_blocks k asset lastOffset hs)"

definition getPendingOutbounds :: "env \<Rightarrow> KVStore \<Rightarrow> Asset \<Rightarrow> TxOutItem list" where
  "getPendingOutbounds E k asset =
     pending_blocks k asset (E_height E + positive_config E k ''MaxTxOutOffset'')
       [max 1 (E_height E)..E_height E + positive_config E k ''TxOutDelayMax'']"

text \<open>The coins of a vault less an outbound and its gas. Without gas the coin to deduct is the zero value,
  whose amount is a null pointer.\<close>

definition deduct_coin :: "sdk \<Rightarrow> Coin \<Rightarrow> Coin option \<Rightarrow> Coin \<Rightarrow> Coin option" where
  "deduct_coin S coin gasCoin c =
     do {
       a \<leftarrow> (if Asset_Equals (Coin_Asset c) (Coin_Asset coin) then SafeSub S (Coin_Amount c) (Coin_Amount coin)
             else Some (Coin_Amount c));
       b \<leftarrow> (case gasCoin of
               None \<Rightarrow> if Asset_Equals (Coin_Asset c) EmptyAsset then None else Some a
             | Some g \<Rightarrow> if Asset_Equals (Coin_Asset c) (Coin_Asset g) then SafeSub S a (Coin_Amount g) else Some a);
       Some (c\<lparr>Coin_Amount := b\<rparr>)
     }"

definition item_gas :: "TxOutItem \<Rightarrow> Coin option" where
  "item_gas i =
     (if Gas_IsEmpty (TOI_MaxGas i) then None
      else Some (Coins_GetCoin (Gas_ToCoins (TOI_MaxGas i)) (Chain_GetGasAsset (TOI_Chain i))))"

fun deduct_coins :: "sdk \<Rightarrow> Coin \<Rightarrow> Coin option \<Rightarrow> coins \<Rightarrow> coins option" where
  "deduct_coins S coin gasCoin [] = Some []"
| "deduct_coins S coin gasCoin (c # cs) =
     do { c' \<leftarrow> deduct_coin S coin gasCoin c; cs' \<leftarrow> deduct_coins S coin gasCoin cs; Some (c' # cs') }"

fun deductVaultPendingOutbounds :: "sdk \<Rightarrow> Vault \<Rightarrow> TxOutItem list \<Rightarrow> Vault option" where
  "deductVaultPendingOutbounds S vault [] = Some vault"
| "deductVaultPendingOutbounds S vault (i # items) =
     (if TOI_VaultPubKey i \<noteq> V_PubKey vault \<or> \<not> TxID_IsEmpty (TOI_OutHash i)
      then deductVaultPendingOutbounds S vault items
      else do {
        cs \<leftarrow> deduct_coins S (TOI_Coin i) (item_gas i) (V_Coins vault);
        deductVaultPendingOutbounds S (vault\<lparr>V_Coins := cs\<rparr>) items
      })"

fun deduct_all :: "sdk \<Rightarrow> TxOutItem list \<Rightarrow> Vault list \<Rightarrow> Vault list option" where
  "deduct_all S pending [] = Some []"
| "deduct_all S pending (v # vs) =
     do { v' \<leftarrow> deductVaultPendingOutbounds S v pending; vs' \<leftarrow> deduct_all S pending vs; Some (v' # vs') }"

text \<open>Outbounds from a list of vaults that are not reserved by others; a failed read of the vaults is
  logged and counts as none.\<close>

definition asgards_by_security ::
  "env \<Rightarrow> keys \<Rightarrow> KVStore \<Rightarrow> TxOutItem list \<Rightarrow> VaultStatus \<Rightarrow> Vault list option" where
  "asgards_by_security E Y k pending status =
     do {
       vs \<leftarrow> deduct_all (E_sdk E) pending
         (case GetAsgardVaultsByStatus (E_sdk E) k (E_height E) status of Inl _ \<Rightarrow> [] | Inr vs \<Rightarrow> vs);
       SortBySecurity E Y k vs (C_int64 (E_cv E) ''SigningTransactionPeriod'')
     }"

definition candidate_yggs :: "env \<Rightarrow> keys \<Rightarrow> KVStore \<Rightarrow> TxOutItem list \<Rightarrow> TxOutItem \<Rightarrow> Vault list result" where
  "candidate_yggs E Y k pending toi =
     (let active = ListActiveValidators k in
      if active = [] then ok []
      else
        let (tx, _) = ObservedTxVoter_GetTx (E_sdk E) (GetObservedTxInVoter k (TOI_InHash toi)) active in
        case collectYggdrasilPools E Y k tx (Chain_GetGasAsset (TOI_Chain toi)) of
          Inl e \<Rightarrow> Some (Inl e)
        | Inr yggs \<Rightarrow>
            map_option (\<lambda>vs. Inr (Vaults_SortBy vs (Coin_Asset (TOI_Coin toi)))) (deduct_all (E_sdk E) pending yggs))"

definition better_plan :: "TxOutItem list \<times> nat \<Rightarrow> TxOutItem list \<times> nat \<Rightarrow> TxOutItem list \<times> nat" where
  "better_plan a b = (if length (fst a) > length (fst b) \<and> snd a \<ge> snd b then b else a)"

definition choose_plan ::
  "env \<Rightarrow> keys \<Rightarrow> nat \<Rightarrow> Coin \<Rightarrow> TxOutItem \<Rightarrow> Vault list \<Rightarrow> Vault list \<Rightarrow> Vault list
     \<Rightarrow> (TxOutItem list \<times> nat) option" where
  "choose_plan E Y fee maxGas toi yggs asgards retiring =
     do {
       a \<leftarrow> discoverOutbounds E Y fee maxGas toi (yggs @ asgards);
       b \<leftarrow> discoverOutbounds E Y fee maxGas toi (asgards @ yggs);
       let ab = better_plan a b;
       if retiring = [] then Some ab
       else do { c \<leftarrow> discoverOutbounds E Y fee maxGas toi retiring; Some (better_plan ab c) }
     }"

definition plan_outputs ::
  "env \<Rightarrow> keys \<Rightarrow> KVStore \<Rightarrow> nat \<Rightarrow> Coin \<Rightarrow> TxOutItem \<Rightarrow> TxOutItem list result" where
  "plan_outputs E Y k fee maxGas toi =
     (if Chain_Equals (TOI_Chain toi) BASEChain \<or> \<not> PubKey_IsEmpty (TOI_VaultPubKey toi) then ok [toi]
      else
        let pending = getPendingOutbounds E k (Coin_Asset (TOI_Coin toi)) in
        do {
          r \<leftarrow> candidate_yggs E Y k pending toi;
          case r of
            Inl e \<Rightarrow> Some (Inl e)
          | Inr yggs \<Rightarrow> do {
              asgards \<leftarrow> asgards_by_security E Y k pending VaultStatus_ActiveVault;
              retiring \<leftarrow> asgards_by_security E Y k pending VaultStatus_RetiringVault;
              (outputs, remaining) \<leftarrow> choose_plan E Y fee maxGas toi yggs asgards retiring;
              if remaining \<noteq> 0 then err ''insufficient funds for outbound request'' else ok outputs
            }
        })"

section \<open>Fees\<close>

text \<open>The type of a memo that may not parse. On an error the parsers leave the type unknown, or that of
  an inbound transaction, which the manager does not ask for. Only the memos of outbounds and refunds
  keep their type when the hash in them is wrong, which \<open>ignored_memo_type\<close> accounts for where the
  error is ignored.\<close>

definition memo_type :: "go_error + Memo \<Rightarrow> TxType" where
  "memo_type r = (case r of Inl _ \<Rightarrow> TxUnknown | Inr m \<Rightarrow> Memo_GetType m)"

definition ignored_memo_type :: "env \<Rightarrow> version \<Rightarrow> string \<Rightarrow> TxType" where
  "ignored_memo_type E ver memo =
     (case ParseMemo E ver memo of
        Inr m \<Rightarrow> Memo_GetType m
      | Inl _ \<Rightarrow>
          (case parseBase memo of
             Inl _ \<Rightarrow> TxUnknown
           | Inr (t, _, parts) \<Rightarrow> if t \<in> {TxOutbound, TxRefund} \<and> length parts \<ge> 2 then t else TxUnknown))"

text \<open>A synthetic asset that pays a fee is burned when it is sent from Asgard; errors are logged.\<close>

definition burn_synth_fee :: "'b bank \<Rightarrow> 'b world \<Rightarrow> TxOutItem \<Rightarrow> nat \<Rightarrow> 'b world option" where
  "burn_synth_fee B w o1 assetFee =
     (let coin = NewCoin (Coin_Asset (TOI_Coin o1)) assetFee in
      if Asset_IsSyntheticAsset (Coin_Asset (TOI_Coin o1)) \<and> (TOI_ModuleName o1 = '''' \<or> TOI_ModuleName o1 = AsgardName)
      then do {
        (e, w1) \<leftarrow> SendFromModuleToModule B w AsgardName ModuleName [coin];
        if e \<noteq> None then Some w1 else map_option snd (BurnFromModule B w1 ModuleName coin)
      }
      else Some w)"

text \<open>What the fee of an output in an asset takes: the output, the pool, the fee in CACAO so far and the world.\<close>

definition charge_asset ::
  "env \<Rightarrow> 'b bank \<Rightarrow> nat \<Rightarrow> TxOutItem \<Rightarrow> Pool \<Rightarrow> nat \<Rightarrow> 'b world
     \<Rightarrow> (TxOutItem \<times> Pool \<times> nat \<times> 'b world) option" where
  "charge_asset E B transactionFeeAsset o1 pool finalRuneFee w =
     (let S = E_sdk E;
          assetFee = (if toi_amount o1 \<le> transactionFeeAsset then toi_amount o1 else transactionFeeAsset) in
      do {
        a \<leftarrow> SafeSub S (toi_amount o1) assetFee;
        w1 \<leftarrow> burn_synth_fee B w o1 assetFee;
        if isLiquidityAuction E (W_kv w1) then Some (set_amount o1 a, pool, finalRuneFee, w1)
        else do {
          runeFee \<leftarrow> Pool_RuneDisbursementForAssetAdd S pool assetFee;
          let poolDeduct = (if runeFee > Pool_BalanceCacao pool then Pool_BalanceCacao pool else runeFee);
          f \<leftarrow> uint_add S finalRuneFee poolDeduct;
          balanceAsset \<leftarrow> (if Asset_IsSyntheticAsset (Coin_Asset (TOI_Coin o1)) then Some (Pool_BalanceAsset pool)
                           else uint_add S (Pool_BalanceAsset pool) assetFee);
          balanceCacao \<leftarrow> SafeSub S (Pool_BalanceCacao pool) poolDeduct;
          Some (set_amount o1 a, pool\<lparr>Pool_BalanceAsset := balanceAsset, Pool_BalanceCacao := balanceCacao\<rparr>, f, w1)
        }
      })"

definition charge_fee ::
  "env \<Rightarrow> 'b bank \<Rightarrow> TxOutItem \<Rightarrow> nat \<Rightarrow> nat \<Rightarrow> TxOutItem \<Rightarrow> Pool \<Rightarrow> nat \<Rightarrow> 'b world
     \<Rightarrow> (TxOutItem \<times> Pool \<times> nat \<times> 'b world) option" where
  "charge_fee E B toi transactionFeeRune transactionFeeAsset o1 pool finalRuneFee w =
     (if Asset_IsBase (Coin_Asset (TOI_Coin o1)) then
        let runeFee = (if toi_amount o1 \<le> transactionFeeRune then toi_amount o1 else transactionFeeRune) in
        do {
          f \<leftarrow> uint_add (E_sdk E) finalRuneFee runeFee;
          a \<leftarrow> SafeSub (E_sdk E) (toi_amount o1) runeFee;
          Some (set_amount o1 a, pool, f, w)
        }
      else
        let pool1 = (if Pool_IsEmpty pool then GetPool (W_kv w) (Asset_GetLayer1Asset (Coin_Asset (TOI_Coin toi)))
                     else pool) in
        do {
          units \<leftarrow> Pool_GetPoolUnits (E_sdk E) pool1;
          if units = 0 then Some (o1, pool1, finalRuneFee, w)
          else charge_asset E B transactionFeeAsset o1 pool1 finalRuneFee w
        })"

definition set_max_gas :: "env \<Rightarrow> KVStore \<Rightarrow> TxOutItem \<Rightarrow> TxOutItem result" where
  "set_max_gas E k o1 =
     (if \<not> Gas_IsEmpty (TOI_MaxGas o1) then ok o1
      else do {
        maxGasCoin \<leftarrow> GetMaxGas E k (TOI_Chain o1);
        if Gas_IsEmpty [maxGasCoin] \<and> \<not> Chain_Equals (TOI_Chain o1) BASEChain \<and> \<not> Chain_Equals (TOI_Chain o1) THORChain
        then err ''max gas cannot be empty''
        else do {
          rate \<leftarrow> GetGasRate E k (TOI_Chain o1);
          gasRate \<leftarrow> uint64_of rate;
          ok (o1\<lparr>TOI_MaxGas := [maxGasCoin], TOI_GasRate := wrap64 (int gasRate)\<rparr>)
        }
      })"

definition fee_free :: "TxType \<Rightarrow> bool" where
  "fee_free t \<longleftrightarrow> t \<in> {TxYggdrasilFund, TxYggdrasilReturn, TxMigrate, TxRagnarok}"

text \<open>An output without a coin is dropped, or is an error when a withdrawal asked for it.\<close>

definition drop_output :: "env \<Rightarrow> KVStore \<Rightarrow> TxOutItem \<Rightarrow> check" where
  "drop_output E k o1 =
     (if \<not> TxID_IsEmpty (TOI_InHash o1) \<and> \<not> TxID_Equals (TOI_InHash o1) BlankTxID then
        let inbound = OV_Tx (GetObservedTxInVoter k (TOI_InHash o1)) in
        if \<not> ObservedTx_IsEmpty inbound
           \<and> memo_type (ParseMemoWithMAYANames E k (Tx_Memo (OT_Tx inbound))) = TxWithdraw
        then fails ''tx out item has zero coin'' else None
      else None)"

text \<open>The action is recorded with the inbound transaction, unless there is none.\<close>

definition record_action :: "env \<Rightarrow> KVStore \<Rightarrow> TxOutItem \<Rightarrow> KVStore" where
  "record_action E k o1 =
     (if TxID_Equals (TOI_InHash o1) BlankTxID then k
      else
        let voter = GetObservedTxInVoter k (TOI_InHash o1) in
        SetObservedTxInVoter k
          (voter\<lparr>OV_FinalisedHeight := E_height E, OV_Actions := OV_Actions voter @ [o1]\<rparr>))"

definition charge_output ::
  "env \<Rightarrow> 'b bank \<Rightarrow> TxOutItem \<Rightarrow> nat \<Rightarrow> nat \<Rightarrow> go_error + Memo \<Rightarrow> TxOutItem \<Rightarrow> Pool \<Rightarrow> nat \<Rightarrow> 'b world
     \<Rightarrow> (TxOutItem \<times> Pool \<times> nat \<times> 'b world) option" where
  "charge_output E B toi feeRune feeAsset memo o1 pool fee w =
     (case memo of
        Inr m \<Rightarrow> if fee_free (Memo_GetType m) then Some (o1, pool, fee, w)
                 else charge_fee E B toi feeRune feeAsset o1 pool fee w
      | Inl _ \<Rightarrow> Some (o1, pool, fee, w))"

text \<open>In Ragnarok there is no fee, but an output in the gas asset pays its own gas.\<close>

definition ragnarok_gas :: "sdk \<Rightarrow> TxType \<Rightarrow> TxOutItem \<Rightarrow> TxOutItem option" where
  "ragnarok_gas S t o1 =
     (if t = TxRagnarok \<and> Asset_IsGasAsset (Coin_Asset (TOI_Coin o1)) then
        map_option (set_amount o1) (SafeSub S (toi_amount o1)
          (Coin_Amount (Coins_GetCoin (Gas_ToCoins (TOI_MaxGas o1)) (Coin_Asset (TOI_Coin o1)))))
      else Some o1)"

definition finish_output ::
  "env \<Rightarrow> TxType \<Rightarrow> int \<Rightarrow> TxOutItem \<Rightarrow> 'b world \<Rightarrow> ((go_error + TxOutItem option) \<times> 'b world) option" where
  "finish_output E t decimals o1 w =
     (if Coin_IsEmpty (TOI_Coin o1) \<and> t \<noteq> TxYggdrasilReturn
      then Some (case drop_output E (W_kv w) o1 of Some e \<Rightarrow> Inl e | None \<Rightarrow> Inr None, w)
      else do {
        a \<leftarrow> RoundToDecimal (E_sdk E) (toi_amount o1) decimals;
        Some (Inr (Some (set_amount o1 a)), w\<lparr>W_kv := record_action E (W_kv w) (set_amount o1 a)\<rparr>)
      })"

definition prepare_output ::
  "env \<Rightarrow> 'b bank \<Rightarrow> TxOutItem \<Rightarrow> nat \<Rightarrow> nat \<Rightarrow> int \<Rightarrow> TxOutItem \<Rightarrow> Pool \<Rightarrow> nat \<Rightarrow> 'b world
     \<Rightarrow> ((go_error + TxOutItem option) \<times> Pool \<times> nat \<times> 'b world) option" where
  "prepare_output E B toi feeRune feeAsset decimals o0 pool fee w =
     do {
       r \<leftarrow> set_max_gas E (W_kv w) o0;
       case r of
         Inl e \<Rightarrow> Some (Inl e, pool, fee, w)
       | Inr o1 \<Rightarrow> do {
           let memo = ParseMemoWithMAYANames E (W_kv w) (TOI_Memo o1);
           (o2, pool2, fee2, w2) \<leftarrow> charge_output E B toi feeRune feeAsset memo o1 pool fee w;
           o3 \<leftarrow> ragnarok_gas (E_sdk E) (memo_type memo) o2;
           (out, w3) \<leftarrow> finish_output E (memo_type memo) decimals o3 w2;
           Some (out, pool2, fee2, w3)
         }
     }"

fun prepare_outputs ::
  "env \<Rightarrow> 'b bank \<Rightarrow> TxOutItem \<Rightarrow> nat \<Rightarrow> nat \<Rightarrow> int \<Rightarrow> TxOutItem list \<Rightarrow> Pool \<Rightarrow> nat \<Rightarrow> 'b world
     \<Rightarrow> ((go_error + TxOutItem list) \<times> Pool \<times> nat \<times> 'b world) option" where
  "prepare_outputs E B toi feeRune feeAsset decimals [] pool fee w = Some (Inr [], pool, fee, w)"
| "prepare_outputs E B toi feeRune feeAsset decimals (o0 # os) pool fee w =
     do {
       (r, pool1, fee1, w1) \<leftarrow> prepare_output E B toi feeRune feeAsset decimals o0 pool fee w;
       case r of
         Inl e \<Rightarrow> Some (Inl e, pool1, fee1, w1)
       | Inr out \<Rightarrow> do {
           (rs, pool2, fee2, w2) \<leftarrow> prepare_outputs E B toi feeRune feeAsset decimals os pool1 fee1 w1;
           Some (case rs of Inl e \<Rightarrow> Inl e | Inr outs \<Rightarrow> Inr (case out of None \<Rightarrow> outs | Some o1 \<Rightarrow> o1 # outs),
             pool2, fee2, w2)
         }
     }"

text \<open>The checks of the item: the memo and the inbound id get defaults, addresses of Bitcoin Cash the new format.\<close>

definition to_new_bch :: "env \<Rightarrow> keys \<Rightarrow> TxOutItem \<Rightarrow> go_error + TxOutItem" where
  "to_new_bch E Y toi =
     (if \<not> Chain_Equals (TOI_Chain toi) BCHChain then Inr toi
      else case ConvertToNewBCHAddressFormatV83 (E_codecs E) (Y_net Y) (TOI_ToAddress toi) of
             Inl e \<Rightarrow> Inl e
           | Inr addr \<Rightarrow>
               if Address_IsEmpty addr then Inl (GoError ''empty to address , can't send out'')
               else Inr (toi\<lparr>TOI_ToAddress := addr\<rparr>))"

definition check_item :: "env \<Rightarrow> keys \<Rightarrow> TxOutItem \<Rightarrow> go_error + TxOutItem" where
  "check_item E Y toi0 =
     (let toi1 = (if TOI_Memo toi0 = '''' then toi0\<lparr>TOI_Memo := OutboundMemo_String (TOI_InHash toi0)\<rparr> else toi0);
          toi = (if TxID_IsEmpty (TOI_InHash toi1) then toi1\<lparr>TOI_InHash := BlankTxID\<rparr> else toi1) in
      if Address_IsEmpty (TOI_ToAddress toi) then Inl (GoError ''empty to address, can't send out'')
      else if \<not> Address_IsChain (E_codecs E) (TOI_ToAddress toi) (TOI_Chain toi)
      then Inl (GoError ''to address is not of chain'')
      else to_new_bch E Y toi)"

text \<open>At the end the pool is stored and the fee moves to the reserve; errors of the transfer are logged.\<close>

definition pay_fee :: "'b bank \<Rightarrow> string \<Rightarrow> nat \<Rightarrow> 'b world \<Rightarrow> 'b world option" where
  "pay_fee B module fee w =
     (if fee = 0 then Some w
      else map_option snd (if module = BondName then AddBondFeeToReserve B w fee else AddPoolFeeToReserve B w fee))"

definition store_pool :: "'b bank \<Rightarrow> TxOutItem \<Rightarrow> Pool \<Rightarrow> nat \<Rightarrow> 'a \<Rightarrow> 'b world \<Rightarrow> ((go_error + 'a) \<times> 'b world) option" where
  "store_pool B toi pool fee finalOutput w =
     (case (if Pool_IsEmpty pool then Inr (W_kv w) else SetPool (W_kv w) pool) of
        Inl e \<Rightarrow> Some (Inl e, w)
      | Inr k \<Rightarrow> map_option (\<lambda>w'. (Inr finalOutput, w')) (pay_fee B (TOI_ModuleName toi) fee (w\<lparr>W_kv := k\<rparr>)))"

definition prepareTxOutItem ::
  "env \<Rightarrow> keys \<Rightarrow> 'b bank \<Rightarrow> GasMgr \<Rightarrow> 'b world \<Rightarrow> TxOutItem \<Rightarrow> ((go_error + TxOutItem list) \<times> 'b world) option" where
  "prepareTxOutItem E Y B gm w toi0 =
     (case check_item E Y toi0 of
        Inl e \<Rightarrow> Some (Inl e, w)
      | Inr toi \<Rightarrow>
          let k = W_kv w; toiPool = GetPool k (Asset_GetLayer1Asset (Coin_Asset (TOI_Coin toi))) in
          do {
            feeRune \<leftarrow> GetFee E k gm (TOI_Chain toi) BaseAsset;
            feeAsset \<leftarrow> GetFee E k gm (TOI_Chain toi) (Coin_Asset (TOI_Coin toi));
            maxGas \<leftarrow> GetMaxGas E k (TOI_Chain toi);
            plan \<leftarrow> plan_outputs E Y k feeAsset maxGas toi;
            case plan of
              Inl e \<Rightarrow> Some (Inl e, w)
            | Inr outputs \<Rightarrow> do {
                (r, pool, fee, w1) \<leftarrow> prepare_outputs E B toi feeRune feeAsset (Pool_Decimals toiPool) outputs NewPool 0 w;
                case r of
                  Inl e \<Rightarrow> Some (Inl e, w1)
                | Inr finalOutput \<Rightarrow> store_pool B toi pool fee finalOutput w1
              }
          })"

section \<open>The block of an outbound\<close>

fun scheduled_value :: "sdk \<Rightarrow> KVStore \<Rightarrow> int \<Rightarrow> int list \<Rightarrow> nat \<Rightarrow> nat option" where
  "scheduled_value S k lastOffset [] sumValue = Some sumValue"
| "scheduled_value S k lastOffset (h # hs) sumValue =
     do {
       v \<leftarrow> GetTxOutValue S k h;
       if h > lastOffset \<and> v = 0 then Some sumValue
       else do { s \<leftarrow> uint_add S sumValue v; scheduled_value S k lastOffset hs s }
     }"

text \<open>The first block that is empty or has room, within a number of blocks.\<close>

fun find_block :: "sdk \<Rightarrow> KVStore \<Rightarrow> nat \<Rightarrow> nat \<Rightarrow> nat \<Rightarrow> int \<Rightarrow> int option" where
  "find_block S k runeValue minVolume 0 targetBlock = Some targetBlock"
| "find_block S k runeValue minVolume (Suc n) targetBlock =
     do {
       v \<leftarrow> GetTxOutValue S k targetBlock;
       if v = 0 then Some targetBlock
       else do {
         s \<leftarrow> uint_add S v runeValue;
         if s \<le> minVolume then Some targetBlock else find_block S k runeValue minVolume n (wrap64 (targetBlock + 1))
       }
     }"

definition toi_value :: "env \<Rightarrow> KVStore \<Rightarrow> TxOutItem \<Rightarrow> nat" where
  "toi_value E k toi =
     (let asset = Coin_Asset (TOI_Coin toi) in
      if Asset_IsBase asset then toi_amount toi
      else Pool_AssetValueInRune (E_sdk E) (GetPool k (Asset_GetLayer1Asset asset)) (toi_amount toi))"

text \<open>The least number of blocks an outbound waits: the more is scheduled, the lower the rate.\<close>

definition min_blocks :: "int \<Rightarrow> int \<Rightarrow> int \<Rightarrow> int \<Rightarrow> int \<Rightarrow> int" where
  "min_blocks threshold delayRate maxOffset sumValue runeValue =
     (let rate = wrap64 (delayRate - quot64 sumValue threshold);
          minBlocks = quot64 runeValue (if rate < 1 then 1 else rate)
      in if minBlocks > maxOffset then maxOffset else minBlocks)"

definition CalcTxOutHeight :: "env \<Rightarrow> KVStore \<Rightarrow> version \<Rightarrow> TxOutItem \<Rightarrow> int option" where
  "CalcTxOutHeight E k ver toi =
     (let S = E_sdk E; height = E_height E; t = ignored_memo_type E ver (TOI_Memo toi) in
      if t \<noteq> TxRefund \<and> t \<noteq> TxOutbound then Some height
      else
        let threshold = positive_config E k ''MinTxOutVolumeThreshold'';
            minVolume = uint64_cast threshold;
            delayRate = positive_config E k ''TxOutDelayRate'';
            delayMax = positive_config E k ''TxOutDelayMax'';
            maxOffset = positive_config E k ''MaxTxOutOffset'' in
        if minVolume = 0 \<or> delayRate = 0 then Some height
        else
          let runeValue = toi_value E k toi in
          do {
            sumValue \<leftarrow> scheduled_value S k (height + maxOffset) [height + 1..height + delayMax] runeValue;
            s \<leftarrow> uint64_of sumValue;
            r \<leftarrow> uint64_of runeValue;
            let minBlocks = min_blocks threshold delayRate maxOffset (wrap64 (int s)) (wrap64 (int r));
            find_block S k runeValue minVolume (nat delayMax) (wrap64 (height + minBlocks))
          })"

section \<open>Adding an outbound\<close>

text \<open>A native outbound is a transaction of its own, observed at once by the first active vault.\<close>

definition native_tx :: "env \<Rightarrow> KVStore \<Rightarrow> address \<Rightarrow> TxOutItem \<Rightarrow> Tx" where
  "native_tx E k from toi =
     NewTx BlankTxID from (TOI_ToAddress toi) [TOI_Coin toi]
       [NewCoin BaseAsset (uint64_cast (config E k ''OutboundTransactionFee''))] (TOI_Memo toi)"

definition observe_native ::
  "env \<Rightarrow> 'b bank \<Rightarrow> (chain \<Rightarrow> string list) \<Rightarrow> ('b world \<Rightarrow> internal_msg \<Rightarrow> 'b outcome) \<Rightarrow> string \<Rightarrow> TxOutItem
     \<Rightarrow> 'b world \<Rightarrow> 'b outcome" where
  "observe_native E B tokens run module toi w =
     (case GetModuleAddress (E_sdk E) (E_codecs E) B module of
        Inl e \<Rightarrow> Some (Some e, w)
      | Inr from \<Rightarrow>
          (case GetAsgardVaultsByStatus (E_sdk E) (W_kv w) (E_height E) VaultStatus_ActiveVault of
             Inl e \<Rightarrow> Some (Some e, w)
           | Inr active \<Rightarrow>
               if active = [] then Some (fails ''dev error: no pubkey for native txn'', w)
               else
                 (case processOneTxIn E tokens (W_kv w)
                         (NewObservedTx (native_tx E (W_kv w) from toi) (E_height E) (V_PubKey (hd active)) (E_height E))
                         (bank_GetModuleAddress B AsgardName) of
                    Inl e \<Rightarrow> Some (Some e, w)
                  | Inr m \<Rightarrow> NewInternalHandler run w m)))"

definition native_transfer :: "env \<Rightarrow> 'b bank \<Rightarrow> string \<Rightarrow> acc_address \<Rightarrow> TxOutItem \<Rightarrow> 'b world \<Rightarrow> 'b outcome" where
  "native_transfer E B module addr toi w =
     (case GetModuleAddress (E_sdk E) (E_codecs E) B ReserveName of
        Inl e \<Rightarrow> Some (Some e, w)
      | Inr polAddress \<Rightarrow>
          if Address_Equals polAddress (TOI_ToAddress toi)
          then SendFromModuleToModule B w module ReserveName [TOI_Coin toi]
          else SendFromModuleToAccount B w module addr [TOI_Coin toi])"

definition nativeTxOut ::
  "env \<Rightarrow> 'b bank \<Rightarrow> (chain \<Rightarrow> string list) \<Rightarrow> ('b world \<Rightarrow> internal_msg \<Rightarrow> 'b outcome) \<Rightarrow> 'b world \<Rightarrow> TxOutItem
     \<Rightarrow> 'b outcome" where
  "nativeTxOut E B tokens run w toi =
     (let S = E_sdk E; module = (if TOI_ModuleName toi = '''' then AsgardName else TOI_ModuleName toi) in
      case acc_from_bech32 S (TOI_ToAddress toi) of
        None \<Rightarrow> Some (fails ''decoding bech32 failed'', w)
      | Some addr \<Rightarrow>
          and_then (if module = ModuleName then MintToModule S B w module (TOI_Coin toi) else Some (None, w)) (\<lambda>w1.
          and_then (native_transfer E B module addr toi w1) (observe_native E B tokens run module toi)))"

definition addToBlockOut ::
  "env \<Rightarrow> 'b bank \<Rightarrow> (chain \<Rightarrow> string list) \<Rightarrow> ('b world \<Rightarrow> internal_msg \<Rightarrow> 'b outcome) \<Rightarrow> 'b world \<Rightarrow> TxOutItem
     \<Rightarrow> int \<Rightarrow> 'b outcome" where
  "addToBlockOut E B tokens run w item outboundHeight =
     (if Chain_IsBASEChain (TOI_Chain item) then nativeTxOut E B tokens run w item
      else Some (None, w\<lparr>W_kv := AppendTxOut (W_kv w) outboundHeight item\<rparr>))"

definition UnSafeAddTxOutItem ::
  "env \<Rightarrow> keys \<Rightarrow> 'b bank \<Rightarrow> (chain \<Rightarrow> string list) \<Rightarrow> ('b world \<Rightarrow> internal_msg \<Rightarrow> 'b outcome) \<Rightarrow> 'b world \<Rightarrow> TxOutItem
     \<Rightarrow> 'b outcome" where
  "UnSafeAddTxOutItem E Y B tokens run w toi =
     (case to_new_bch E Y toi of
        Inl e \<Rightarrow> Some (Some e, w) | Inr toi' \<Rightarrow> addToBlockOut E B tokens run w toi' (E_height E))"

fun add_outputs ::
  "env \<Rightarrow> 'b bank \<Rightarrow> (chain \<Rightarrow> string list) \<Rightarrow> ('b world \<Rightarrow> internal_msg \<Rightarrow> 'b outcome) \<Rightarrow> int \<Rightarrow> TxOutItem list \<Rightarrow> 'b world
     \<Rightarrow> 'b outcome" where
  "add_outputs E B tokens run h [] w = Some (None, w)"
| "add_outputs E B tokens run h (o1 # os) w =
     and_then (addToBlockOut E B tokens run w o1 h) (add_outputs E B tokens run h os)"

text \<open>The height of an outbound to another chain; all outbounds of one inbound share it.\<close>

definition outbound_height :: "env \<Rightarrow> KVStore \<Rightarrow> TxOutItem \<Rightarrow> (int \<times> KVStore) option" where
  "outbound_height E k toi =
     (if Chain_IsBASEChain (TOI_Chain toi) \<or> TxID_IsEmpty (TOI_InHash toi) \<or> TxID_Equals (TOI_InHash toi) BlankTxID
      then Some (E_height E, k)
      else do {
        targetHeight \<leftarrow> CalcTxOutHeight E k (K_version k) toi;
        let h = (if targetHeight > E_height E then targetHeight else E_height E);
        let voter = GetObservedTxInVoter k (TOI_InHash toi);
        Some (if OV_OutboundHeight voter > 0 then (OV_OutboundHeight voter, k)
              else (h, SetObservedTxInVoter k (voter\<lparr>OV_OutboundHeight := h\<rparr>)))
      })"

definition outbound_blacklist :: "address list" where
  "outbound_blacklist = [''bnb136ns6lfw4zs5hg4n85vdthaad7hq5m4gtkgf23'']"

definition schedule_outputs ::
  "env \<Rightarrow> 'b bank \<Rightarrow> (chain \<Rightarrow> string list) \<Rightarrow> ('b world \<Rightarrow> internal_msg \<Rightarrow> 'b outcome) \<Rightarrow> TxOutItem \<Rightarrow> nat
     \<Rightarrow> TxOutItem list \<Rightarrow> 'b world \<Rightarrow> ((go_error + bool) \<times> 'b world) option" where
  "schedule_outputs E B tokens run toi minOut outputs w =
     (if outputs = [] then Some (Inl (GoError ''not enough asset to pay for fees''), w)
      else do {
        sumOut \<leftarrow> sum_uints (E_sdk E) (map toi_amount outputs) 0;
        if sumOut < minOut then do {
          _ \<leftarrow> uint64_of sumOut;
          _ \<leftarrow> uint64_of minOut;
          Some (Inl (GoError ''outbound amount does not meet requirements''), w)
        }
        else if list_ex (Address_Equals (TOI_ToAddress toi)) outbound_blacklist
        then Some (Inl (GoError ''non-supported outbound address''), w)
        else do {
          (h, k) \<leftarrow> outbound_height E (W_kv w) (toi\<lparr>TOI_Memo := TOI_Memo (hd outputs)\<rparr>);
          (e, w') \<leftarrow> add_outputs E B tokens run h outputs (w\<lparr>W_kv := k\<rparr>);
          Some (case e of Some er \<Rightarrow> Inl er | None \<Rightarrow> Inr True, w')
        }
      })"

definition TryAddTxOutItem ::
  "env \<Rightarrow> keys \<Rightarrow> 'b bank \<Rightarrow> (chain \<Rightarrow> string list) \<Rightarrow> ('b world \<Rightarrow> internal_msg \<Rightarrow> 'b outcome) \<Rightarrow> GasMgr
     \<Rightarrow> 'b txout_store" where
  "TryAddTxOutItem E Y B tokens run gm w toi minOut =
     do {
       (r, w1) \<leftarrow> prepareTxOutItem E Y B gm w toi;
       case r of Inl e \<Rightarrow> Some (Inl e, w1) | Inr outputs \<Rightarrow> schedule_outputs E B tokens run toi minOut outputs w1
     }"

section \<open>Plans\<close>

lemma toi_simps [simp]:
  "toi_amount (set_amount toi a) = a" "TOI_Chain (set_amount toi a) = TOI_Chain toi"
  "TOI_ToAddress (set_amount toi a) = TOI_ToAddress toi" "TOI_VaultPubKey (set_amount toi a) = TOI_VaultPubKey toi"
  "TOI_Memo (set_amount toi a) = TOI_Memo toi" "TOI_InHash (set_amount toi a) = TOI_InHash toi"
  "TOI_MaxGas (set_amount toi a) = TOI_MaxGas toi" "TOI_ModuleName (set_amount toi a) = TOI_ModuleName toi"
  "Coin_Asset (TOI_Coin (set_amount toi a)) = Coin_Asset (TOI_Coin toi)"
  "toi_amount (toi\<lparr>TOI_VaultPubKey := pk\<rparr>) = toi_amount toi"
  by (simp_all add: set_amount_def toi_amount_def)

text \<open>An output that pays part of an item from a vault.\<close>

definition pays_part :: "TxOutItem \<Rightarrow> TxOutItem \<Rightarrow> Vault \<Rightarrow> bool" where
  "pays_part toi o1 vault \<longleftrightarrow>
     TOI_VaultPubKey o1 = V_PubKey vault
     \<and> toi_amount o1 \<le> Coin_Amount (Vault_GetCoin vault (Coin_Asset (TOI_Coin toi)))
     \<and> Coin_Asset (TOI_Coin o1) = Coin_Asset (TOI_Coin toi) \<and> TOI_Chain o1 = TOI_Chain toi
     \<and> TOI_ToAddress o1 = TOI_ToAddress toi \<and> TOI_Memo o1 = TOI_Memo toi \<and> TOI_InHash o1 = TOI_InHash toi
     \<and> TOI_ModuleName o1 = TOI_ModuleName toi"

lemma usable_vault_same:
  assumes "TOI_Chain toi' = TOI_Chain toi" and "TOI_ToAddress toi' = TOI_ToAddress toi"
    and "Coin_Asset (TOI_Coin toi') = Coin_Asset (TOI_Coin toi)"
  shows "usable_vault E Y fee maxGas toi' = usable_vault E Y fee maxGas toi"
  by (rule ext) (unfold usable_vault_def assms, rule refl)

lemma pays_part_step:
  assumes "pays_part (set_amount (toi\<lparr>TOI_VaultPubKey := pk\<rparr>) a) o1 v"
  shows "pays_part toi o1 v"
  using assms by (simp add: pays_part_def)

lemma list_all2_pays_step:
  "list_all2 (pays_part (set_amount (toi\<lparr>TOI_VaultPubKey := pk\<rparr>) a)) os vs \<Longrightarrow> list_all2 (pays_part toi) os vs"
  by (erule list_all2_mono) (rule pays_part_step)

lemma discoverOutbounds_step:
  assumes "cosmos_sdk (E_sdk E)" and "usable_vault E Y fee maxGas toi v"
    and "Coin_Amount (Vault_GetCoin v (Coin_Asset (TOI_Coin toi))) < toi_amount toi"
  shows "discoverOutbounds E Y fee maxGas toi (v # vs) =
    (let h = Coin_Amount (Vault_GetCoin v (Coin_Asset (TOI_Coin toi))); toi' = toi\<lparr>TOI_VaultPubKey := V_PubKey v\<rparr> in
     map_option (\<lambda>(os, r). (set_amount toi' h # os, r))
       (discoverOutbounds E Y fee maxGas (set_amount toi' (toi_amount toi - h)) vs))"
proof -
  note s = cosmos_sdk.SafeSub_eq [OF assms(1)]
  show ?thesis
    using assms(2,3) by (cases "discoverOutbounds E Y fee maxGas (set_amount (toi\<lparr>TOI_VaultPubKey := V_PubKey v\<rparr>)
      (toi_amount toi - Coin_Amount (Vault_GetCoin v (Coin_Asset (TOI_Coin toi))))) vs")
      (auto simp: s Let_def)
qed

lemma discoverOutbounds_shares:
  assumes "cosmos_sdk (E_sdk E)" and "discoverOutbounds E Y fee maxGas toi vaults = Some (outputs, remaining)"
  shows "sum_list (map toi_amount outputs) + remaining = toi_amount toi
    \<and> (\<exists>vs. subseq vs (filter (usable_vault E Y fee maxGas toi) vaults) \<and> list_all2 (pays_part toi) outputs vs)"
  using assms(2)
proof (induction vaults arbitrary: toi outputs)
  case (Cons v vaults)
  let ?h = "Coin_Amount (Vault_GetCoin v (Coin_Asset (TOI_Coin toi)))"
  let ?toi = "set_amount (toi\<lparr>TOI_VaultPubKey := V_PubKey v\<rparr>) (toi_amount toi - ?h)"
  show ?case
  proof (cases "usable_vault E Y fee maxGas toi v")
    case False
    then show ?thesis using Cons by simp
  next
    case u: True
    show ?thesis
    proof (cases "toi_amount toi \<le> ?h")
      case True
      then have "outputs = [toi\<lparr>TOI_VaultPubKey := V_PubKey v\<rparr>]" "remaining = 0" using Cons.prems u by (auto simp: Let_def)
      then show ?thesis using True u by (auto simp: pays_part_def intro!: exI [of _ "[v]"])
    next
      case False
      then obtain os where d: "discoverOutbounds E Y fee maxGas ?toi vaults = Some (os, remaining)"
        and o: "outputs = set_amount (toi\<lparr>TOI_VaultPubKey := V_PubKey v\<rparr>) ?h # os"
        using Cons.prems discoverOutbounds_step [OF assms(1) u, of vaults]
        by (auto simp: Let_def not_le simp del: discoverOutbounds.simps dest: sym)
      have same: "usable_vault E Y fee maxGas ?toi = usable_vault E Y fee maxGas toi"
        by (rule usable_vault_same) simp_all
      obtain vs where s: "sum_list (map toi_amount os) + remaining = toi_amount toi - ?h"
        and vs: "subseq vs (filter (usable_vault E Y fee maxGas toi) vaults)" "list_all2 (pays_part ?toi) os vs"
        using Cons.IH [OF d] by (auto simp: same)
      have "pays_part toi (set_amount (toi\<lparr>TOI_VaultPubKey := V_PubKey v\<rparr>) ?h) v" by (simp add: pays_part_def)
      then have "list_all2 (pays_part toi) outputs (v # vs)" using list_all2_pays_step [OF vs(2)] by (simp add: o)
      moreover have "subseq (v # vs) (filter (usable_vault E Y fee maxGas toi) (v # vaults))" using vs(1) u by simp
      ultimately show ?thesis using s False by (auto simp: o intro!: exI [of _ "v # vs"])
    qed
  qed
qed simp

text \<open>C13: the outbounds planned for an item share it without loss. They pay, with what remains, the amount
  of the item; each is sent from another of the usable vaults in their order, to the address and with
  the memo of the item, and takes no more than the vault holds.\<close>

theorem discoverOutbounds_plan:
  assumes "cosmos_sdk (E_sdk E)" and "discoverOutbounds E Y fee maxGas toi vaults = Some (outputs, remaining)"
  shows "sum_list (map toi_amount outputs) + remaining = toi_amount toi
    \<and> (\<exists>vs. subseq vs (filter (usable_vault E Y fee maxGas toi) vaults) \<and> list_all2 (pays_part toi) outputs vs)"
  by (rule discoverOutbounds_shares [OF assms])

definition sample_keys :: keys where
  "sample_keys =
     \<lparr>Y_net = MainNet, Y_address_bytes = Some, Y_evm_address = (\<lambda>_. None), Y_bech32_encode = (\<lambda>p s. Some (p @ s)),
      Y_utxo_address = (\<lambda>_ _ s. Some (''bc'' @ s))\<rparr>"

definition sample_toi :: TxOutItem where
  "sample_toi =
     \<lparr>TOI_Chain = BTCChain, TOI_ToAddress = ''bcuser'', TOI_VaultPubKey = '''', TOI_Coin = NewCoin BTCAsset 25,
      TOI_Memo = '''', TOI_MaxGas = [], TOI_GasRate = 0, TOI_InHash = replicate 64 CHR ''A'', TOI_OutHash = '''',
      TOI_ModuleName = '''', TOI_Aggregator = '''', TOI_AggregatorTargetAsset = '''', TOI_AggregatorTargetLimit = None\<rparr>"

lemma sample_usable: "usable_vault (sample_env h) sample_keys 1 (NewCoin BTCAsset 2) sample_toi sample_vault"
proof -
  have "PubKey_GetAddress sample_codecs sample_keys (V_PubKey sample_vault) (TOI_Chain sample_toi) = Inr ''bcpub1''"
    "\<not> Address_IsEmpty ''bcpub1''" "\<not> Address_Equals (TOI_ToAddress sample_toi) ''bcpub1''" "V_Frozen sample_vault = []"
    "Vault_GetCoin sample_vault (Coin_Asset (TOI_Coin sample_toi)) = NewCoin BTCAsset 10"
    "Vault_GetCoin sample_vault (Chain_GetGasAsset (TOI_Chain sample_toi)) = NewCoin BTCAsset 10"
    "\<not> Coin_IsEmpty (NewCoin BTCAsset 10)"
    by code_simp+
  then show ?thesis by (simp add: usable_vault_def NewCoin_def)
qed

theorem discoverOutbounds_plan_witness:
  "\<exists>outputs. discoverOutbounds (sample_env 1) sample_keys 1 (NewCoin BTCAsset 2) sample_toi [sample_vault] = Some (outputs, 15)
    \<and> sum_list (map toi_amount outputs) + 15 = toi_amount sample_toi"
proof -
  have v: "Coin_Amount (Vault_GetCoin sample_vault (Coin_Asset (TOI_Coin sample_toi))) = 10" "toi_amount sample_toi = 25"
    by code_simp+
  then obtain outputs where "discoverOutbounds (sample_env 1) sample_keys 1 (NewCoin BTCAsset 2) sample_toi [sample_vault]
      = Some (outputs, 15)"
    using discoverOutbounds_step [OF _ sample_usable, of 1 "[]"] sdk256.cosmos_sdk_axioms by (auto simp: Let_def)
  then show ?thesis
    using discoverOutbounds_plan [of "sample_env 1"] sdk256.cosmos_sdk_axioms by fastforce
qed

section \<open>Scheduling\<close>

lemma find_block_bounds:
  assumes "cosmos_sdk S" and "find_block S k r m n t = Some h" and "- (2 ^ 63) \<le> t" and "t + int n < 2 ^ 63"
  shows "t \<le> h \<and> h \<le> t + int n \<and> (h < t + int n \<longrightarrow> (\<exists>v. GetTxOutValue S k h = Some v \<and> (v = 0 \<or> v + r \<le> m)))"
  using assms(2-)
proof (induction n arbitrary: t)
  case (Suc n)
  have w: "wrap64 (t + 1) = t + 1" using Suc.prems by (intro wrap64_id) auto
  obtain v where v: "GetTxOutValue S k t = Some v" using Suc.prems(1) by (auto simp: bind_Some_iff)
  show ?case
  proof (cases "v = 0 \<or> v + r \<le> m")
    case True
    then show ?thesis
      using Suc.prems(1) v by (auto simp: bind_Some_iff cosmos_sdk.uint_add [OF assms(1)] split: if_splits)
  next
    case False
    then have "find_block S k r m n (t + 1) = Some h"
      using Suc.prems(1) v w by (auto simp: bind_Some_iff cosmos_sdk.uint_add [OF assms(1)] split: if_splits)
    then show ?thesis using Suc.IH [of "t + 1"] Suc.prems(2,3) by auto
  qed
qed simp

lemma min_blocks_bounds: "0 \<le> r \<Longrightarrow> 0 < off \<Longrightarrow> 0 \<le> min_blocks t d off v r \<and> min_blocks t d off v r \<le> off"
proof -
  have "0 \<le> a \<Longrightarrow> 1 \<le> b \<Longrightarrow> 0 \<le> quot64 a b" for a b
    by (simp add: quot64_def sgn_if pos_imp_zdiv_nonneg_iff)
  then show "0 \<le> r \<Longrightarrow> 0 < off \<Longrightarrow> ?thesis" by (simp add: min_blocks_def Let_def)
qed

lemma CalcTxOutHeight_bounds:
  assumes "cosmos_sdk (E_sdk E)" and "CalcTxOutHeight E k ver toi = Some h"
    and "0 \<le> E_height E" and "0 < positive_config E k ''MaxTxOutOffset''" and "0 < positive_config E k ''TxOutDelayMax''"
    and "E_height E + positive_config E k ''MaxTxOutOffset'' + positive_config E k ''TxOutDelayMax'' < 2 ^ 63"
    and "toi_value E k toi < 2 ^ 63"
  shows "E_height E \<le> h \<and> h \<le> E_height E + positive_config E k ''MaxTxOutOffset'' + positive_config E k ''TxOutDelayMax''
    \<and> (h = E_height E \<or> E_height E + positive_config E k ''TxOutDelayMax'' \<le> h
       \<or> (\<exists>v. GetTxOutValue (E_sdk E) k h = Some v
            \<and> (v = 0 \<or> v + toi_value E k toi \<le> uint64_cast (positive_config E k ''MinTxOutVolumeThreshold''))))"
proof -
  let ?off = "positive_config E k ''MaxTxOutOffset''" and ?max = "positive_config E k ''TxOutDelayMax''"
  let ?m = "uint64_cast (positive_config E k ''MinTxOutVolumeThreshold'')"
  show ?thesis
  proof (cases "h = E_height E")
    case False
    have r: "wrap64 (int (toi_value E k toi)) = int (toi_value E k toi)" using assms(7) by (intro wrap64_id) auto
    obtain d where d: "0 \<le> d" "d \<le> ?off"
      and f': "find_block (E_sdk E) k (toi_value E k toi) ?m (nat ?max) (wrap64 (E_height E + d)) = Some h"
      using assms(2) False r min_blocks_bounds [of "int (toi_value E k toi)" ?off] assms(4)
      by (auto simp: CalcTxOutHeight_def Let_def bind_Some_iff uint64_of_def split: if_splits)
    have "wrap64 (E_height E + d) = E_height E + d" using d assms(3-6) by (intro wrap64_id) auto
    then show ?thesis using find_block_bounds [OF assms(1) f'] d assms(3-6) by auto
  qed (use assms(3-5) in auto)
qed

lemma scheduled_value_total:
  assumes "cosmos_sdk S" and "\<And>h. \<exists>v. GetTxOutValue S k h = Some v \<and> v \<le> V" and "s + length hs * V < 2 ^ 256"
  shows "\<exists>s'. scheduled_value S k lastOff hs s = Some s' \<and> s' \<le> s + length hs * V"
  using assms(3)
proof (induction hs arbitrary: s)
  case (Cons h hs)
  obtain v where v: "GetTxOutValue S k h = Some v" "v \<le> V" using assms(2) by blast
  have "uint_add S s v = Some (s + v)" using Cons.prems v(2) by (simp add: cosmos_sdk.uint_add [OF assms(1)])
  moreover have "\<exists>s'. scheduled_value S k lastOff hs (s + v) = Some s' \<and> s' \<le> s + v + length hs * V"
    using Cons.prems v(2) by (intro Cons.IH) simp
  ultimately show ?case using v by auto
qed simp

lemma find_block_total:
  assumes "cosmos_sdk S" and "\<And>h. \<exists>v. GetTxOutValue S k h = Some v \<and> v \<le> V" and "V + r < 2 ^ 256"
  shows "\<exists>h. find_block S k r m n t = Some h"
proof (induction n arbitrary: t)
  case (Suc n)
  obtain v where v: "GetTxOutValue S k t = Some v" "v \<le> V" using assms(2) by blast
  then have "uint_add S v r = Some (v + r)" using assms(3) by (simp add: cosmos_sdk.uint_add [OF assms(1)])
  then show ?case using v(1) Suc.IH by auto
qed simp


lemma no_txouts: "K_txOuts k = [] \<Longrightarrow> GetTxOutValue S k h = Some 0"
  by (simp add: GetTxOutValue_def GetTxOut_def kv_get_def NewTxOut_def)

lemma scheduled_value_none:
  "cosmos_sdk S \<Longrightarrow> K_txOuts k = [] \<Longrightarrow> s < 2 ^ 256 \<Longrightarrow> scheduled_value S k lastOff hs s = Some s"
  by (induction hs) (simp_all add: no_txouts cosmos_sdk.uint_add)

lemma positive_config_unset:
  assumes "K_int64 k = []" and "K_version k = (\<lambda>_. True)"
  shows "positive_config (sample_env h) k key = C_int64 sample_accessor key"
  using assms by (simp add: positive_config_def mimir_def Let_def GetMimir_def getInt64_def kv_get_def haveKraken_def)

definition base_toi :: TxOutItem where
  "base_toi = sample_toi\<lparr>TOI_Memo := OutboundMemo_String (replicate 64 CHR ''A''), TOI_Coin := NewCoin BaseNative 10000000000000\<rparr>"


section \<open>What an outbound changes\<close>

text \<open>The tables a preparation leaves alone: all but the pools and the voters of inbound transactions.\<close>

definition outbound_stable :: "(KVStore \<Rightarrow> 'x) \<Rightarrow> bool" where
  "outbound_stable f \<longleftrightarrow>
     (\<forall>k p k'. SetPool k p = Inr k' \<longrightarrow> f k' = f k) \<and> (\<forall>k v. f (SetObservedTxInVoter k v) = f k)"

lemma outbound_stable_tables:
  "outbound_stable K_txOuts" "outbound_stable K_swapQueue" "outbound_stable K_vaults" "outbound_stable K_networkFees"
  by (auto simp: outbound_stable_def SetPool_def SetObservedTxInVoter_def setObservedTxVoter_def split: if_splits)

lemma bank_keeps_kv:
  "SendFromModuleToModule B w a b cs = Some (e, w') \<Longrightarrow> W_kv w' = W_kv w"
  "BurnFromModule B w m coin = Some (e, w') \<Longrightarrow> W_kv w' = W_kv w"
  "SendFromModuleToAccount B w a addr cs = Some (e, w') \<Longrightarrow> W_kv w' = W_kv w"
  "SendFromAccountToModule B w addr m cs = Some (e, w') \<Longrightarrow> W_kv w' = W_kv w"
  by (auto simp: SendFromModuleToModule_def SendFromModuleToAccount_def SendFromAccountToModule_def BurnFromModule_def
      bank_outcome_def split: option.splits sum.splits if_splits)

lemma burn_synth_fee_kv: "burn_synth_fee B w o1 fee = Some w' \<Longrightarrow> W_kv w' = W_kv w"
  by (auto simp: burn_synth_fee_def Let_def bind_Some_iff dest!: bank_keeps_kv split: if_splits)

lemma pay_fee_kv: "pay_fee B m fee w = Some w' \<Longrightarrow> W_kv w' = W_kv w"
  by (auto simp: pay_fee_def AddBondFeeToReserve_def AddPoolFeeToReserve_def dest: bank_keeps_kv split: if_splits)

lemma rounded_at_most: "cosmos_sdk S \<Longrightarrow> RoundToDecimal S a d = Some b \<Longrightarrow> b \<le> a"
  by (auto simp: RoundToDecimal_def Let_def bind_Some_iff cosmos_sdk.uint_mul cosmos_sdk.uint_quo split: if_splits)

text \<open>An output that differs from another in amount and gas, and pays no more.\<close>

definition reduced :: "TxOutItem \<Rightarrow> TxOutItem \<Rightarrow> bool" where
  "reduced o1 o2 \<longleftrightarrow>
     toi_amount o2 \<le> toi_amount o1 \<and> Coin_Asset (TOI_Coin o2) = Coin_Asset (TOI_Coin o1)
     \<and> TOI_Chain o2 = TOI_Chain o1 \<and> TOI_ToAddress o2 = TOI_ToAddress o1 \<and> TOI_InHash o2 = TOI_InHash o1
     \<and> TOI_Memo o2 = TOI_Memo o1 \<and> TOI_VaultPubKey o2 = TOI_VaultPubKey o1"

lemma reduced_refl [simp]: "reduced o1 o1"
  by (simp add: reduced_def)

lemma reduced_trans: "reduced o1 o2 \<Longrightarrow> reduced o2 o3 \<Longrightarrow> reduced o1 o3"
  by (simp add: reduced_def)

lemma reduced_amount: "a \<le> toi_amount o1 \<Longrightarrow> reduced o1 (set_amount o1 a)"
  by (simp add: reduced_def)

lemma set_max_gas_reduced: "set_max_gas E k o1 = Some (Inr o2) \<Longrightarrow> reduced o1 o2"
  by (auto simp: set_max_gas_def bind_Some_iff reduced_def toi_amount_def split: if_splits)

lemma charge_asset_keeps:
  assumes "cosmos_sdk (E_sdk E)" and "charge_asset E B fee o1 pool f w = Some (o2, pool2, f2, w2)"
  shows "reduced o1 o2 \<and> W_kv w2 = W_kv w"
  using assms(2)
  by (auto simp: charge_asset_def Let_def bind_Some_iff cosmos_sdk.SafeSub_eq [OF assms(1)]
      dest: burn_synth_fee_kv intro!: reduced_amount split: if_splits)

lemma charge_fee_keeps:
  assumes "cosmos_sdk (E_sdk E)" and "charge_fee E B toi fr fa o1 pool f w = Some (o2, pool2, f2, w2)"
  shows "reduced o1 o2 \<and> W_kv w2 = W_kv w"
  using assms(2)
  by (auto simp: charge_fee_def Let_def bind_Some_iff cosmos_sdk.SafeSub_eq [OF assms(1)]
      dest: charge_asset_keeps [OF assms(1)] intro!: reduced_amount split: if_splits)

lemma record_action_stable: "outbound_stable f \<Longrightarrow> f (record_action E k o1) = f k"
  by (simp add: record_action_def outbound_stable_def Let_def)

lemma charge_output_keeps:
  assumes "cosmos_sdk (E_sdk E)" and "charge_output E B toi fr fa memo o1 pool f w = Some (o2, pool2, f2, w2)"
  shows "reduced o1 o2 \<and> W_kv w2 = W_kv w"
  using assms(2) by (auto simp: charge_output_def dest: charge_fee_keeps [OF assms(1)] split: sum.splits if_splits)

lemma ragnarok_gas_reduced: "cosmos_sdk S \<Longrightarrow> ragnarok_gas S t o1 = Some o2 \<Longrightarrow> reduced o1 o2"
  by (auto simp: ragnarok_gas_def cosmos_sdk.SafeSub_eq intro: reduced_amount split: if_splits)

lemma finish_output_keeps:
  assumes "cosmos_sdk (E_sdk E)" and "outbound_stable f" and "finish_output E t dec o1 w = Some (r, w')"
  shows "f (W_kv w') = f (W_kv w) \<and> (\<forall>o2. r = Inr (Some o2) \<longrightarrow> reduced o1 o2)"
  using assms(3) record_action_stable [OF assms(2)] rounded_at_most [OF assms(1)]
  by (auto simp: finish_output_def bind_Some_iff intro: reduced_amount split: if_splits option.splits)

lemma prepare_output_keeps:
  assumes "cosmos_sdk (E_sdk E)" and "outbound_stable f"
    and "prepare_output E B toi fr fa dec o0 pool fee w = Some (r, pool', fee', w')"
  shows "f (W_kv w') = f (W_kv w) \<and> (\<forall>o1. r = Inr (Some o1) \<longrightarrow> reduced o0 o1)"
proof -
  consider (error) e where "r = Inl e" "w' = w"
    | (finished) o1 memo o2 pool2 fee2 w2 o3 where "set_max_gas E (W_kv w) o0 = Some (Inr o1)"
        "charge_output E B toi fr fa memo o1 pool fee w = Some (o2, pool2, fee2, w2)"
        "ragnarok_gas (E_sdk E) (memo_type memo) o2 = Some o3"
        "finish_output E (memo_type memo) dec o3 w2 = Some (r, w')"
  proof -
    obtain a where "set_max_gas E (W_kv w) o0 = Some a" using assms(3) by (auto simp: prepare_output_def bind_Some_iff)
    then show thesis
      using assms(3) that by (cases a) (auto simp: prepare_output_def bind_Some_iff Let_def)
  qed
  then show ?thesis
  proof cases
    case finished
    then have "reduced o0 o3" "W_kv w2 = W_kv w"
      using set_max_gas_reduced [OF finished(1)] charge_output_keeps [OF assms(1) finished(2)]
        ragnarok_gas_reduced [OF assms(1) finished(3)] by (auto intro: reduced_trans)
    then show ?thesis using finish_output_keeps [OF assms(1,2) finished(4)] reduced_trans by auto
  qed simp
qed

text \<open>The outputs that remain come from the planned ones, in their order, and pay no more.\<close>

lemma prepare_outputs_keeps:
  assumes "cosmos_sdk (E_sdk E)" and "outbound_stable f"
    and "prepare_outputs E B toi fr fa dec os pool fee w = Some (r, pool', fee', w')"
  shows "f (W_kv w') = f (W_kv w) \<and> (\<forall>outs. r = Inr outs \<longrightarrow> (\<exists>os'. subseq os' os \<and> list_all2 reduced os' outs))"
  using assms(3)
proof (induction os arbitrary: pool fee w r)
  case (Cons o0 os)
  obtain r1 pool1 fee1 w1 where p: "prepare_output E B toi fr fa dec o0 pool fee w = Some (r1, pool1, fee1, w1)"
    using Cons.prems by (auto simp: bind_Some_iff)
  note k = prepare_output_keeps [OF assms(1,2) p]
  show ?case
  proof (cases r1)
    case (Inl e)
    then show ?thesis using Cons.prems p k by auto
  next
    case (Inr out)
    then obtain rs where q: "prepare_outputs E B toi fr fa dec os pool1 fee1 w1 = Some (rs, pool', fee', w')"
      and r: "r = (case rs of Inl e \<Rightarrow> Inl e | Inr outs \<Rightarrow> Inr (case out of None \<Rightarrow> outs | Some o1 \<Rightarrow> o1 # outs))"
      using Cons.prems p by (auto simp: bind_Some_iff)
    note ih = Cons.IH [OF q]
    have "\<exists>os'. subseq os' (o0 # os) \<and> list_all2 reduced os' outs" if ro: "r = Inr outs" for outs
    proof -
      obtain outs' where o': "rs = Inr outs'" "outs = (case out of None \<Rightarrow> outs' | Some o1 \<Rightarrow> o1 # outs')"
        using ro r by (cases rs) auto
      then obtain os' where "subseq os' os" "list_all2 reduced os' outs'" using ih by auto
      then show ?thesis
        using o'(2) k Inr by (cases out) (auto intro: exI [of _ os'] exI [of _ "o0 # os'"])
    qed
    then show ?thesis using k ih by simp
  qed
qed simp

section \<open>Scheduled outbounds\<close>

definition same_target :: "TxOutItem \<Rightarrow> TxOutItem \<Rightarrow> bool" where
  "same_target toi o1 \<longleftrightarrow>
     Coin_Asset (TOI_Coin o1) = Coin_Asset (TOI_Coin toi) \<and> TOI_Chain o1 = TOI_Chain toi
     \<and> TOI_ToAddress o1 = TOI_ToAddress toi \<and> TOI_Memo o1 = TOI_Memo toi \<and> TOI_InHash o1 = TOI_InHash toi"

lemma list_all2_ball: "list_all2 P xs ys \<Longrightarrow> (\<And>x y. P x y \<Longrightarrow> Q x) \<Longrightarrow> \<forall>x \<in> set xs. Q x"
  by (induction rule: list_all2_induct) auto

lemma discover_target:
  assumes "cosmos_sdk (E_sdk E)" and "discoverOutbounds E Y fee maxGas toi vaults = Some (outputs, 0)"
  shows "sum_list (map toi_amount outputs) = toi_amount toi \<and> (\<forall>o1 \<in> set outputs. same_target toi o1)"
proof -
  note d = discoverOutbounds_shares [OF assms]
  then obtain vs where "list_all2 (pays_part toi) outputs vs" by blast
  then have "\<forall>o1 \<in> set outputs. same_target toi o1"
    by (rule list_all2_ball) (simp add: pays_part_def same_target_def)
  then show ?thesis using d by simp
qed

lemma choose_plan_cases:
  assumes "choose_plan E Y fee maxGas toi yggs asgards retiring = Some p"
  shows "\<exists>vs. discoverOutbounds E Y fee maxGas toi vs = Some p"
  using assms by (auto simp: choose_plan_def bind_Some_iff Let_def better_plan_def split: if_splits)

lemma plan_outputs_shares:
  assumes "cosmos_sdk (E_sdk E)" and "plan_outputs E Y k fee maxGas toi = Some (Inr outputs)"
  shows "sum_list (map toi_amount outputs) = toi_amount toi \<and> (\<forall>o1 \<in> set outputs. same_target toi o1)"
proof (cases "Chain_Equals (TOI_Chain toi) BASEChain \<or> \<not> PubKey_IsEmpty (TOI_VaultPubKey toi)")
  case True
  then have "outputs = [toi]" using assms(2) by (auto simp: plan_outputs_def)
  then show ?thesis by (simp add: same_target_def)
next
  case False
  then obtain y a r where "choose_plan E Y fee maxGas toi y a r = Some (outputs, 0)"
    using assms(2) by (auto simp: plan_outputs_def Let_def case_sum_Some_iff bind_Some_iff split: if_splits)
  then show ?thesis using choose_plan_cases discover_target [OF assms(1)] by blast
qed

lemma reduced_sum:
  assumes "subseq os' os" and "list_all2 reduced os' outs"
  shows "sum_list (map toi_amount outs) \<le> sum_list (map toi_amount os)"
proof -
  have "sum_list (map toi_amount outs) \<le> sum_list (map toi_amount os')"
    using assms(2) by (induction rule: list_all2_induct) (auto simp: reduced_def)
  moreover have "sum_list (map toi_amount os') \<le> sum_list (map toi_amount os)"
    using assms(1) by (induction rule: list_emb.induct) auto
  ultimately show ?thesis by linarith
qed

lemma reduced_target:
  assumes "\<forall>o1 \<in> set os. same_target toi o1" and "subseq os' os" and "list_all2 reduced os' outs"
  shows "\<forall>o1 \<in> set outs. same_target toi o1"
proof -
  have "set os' \<subseteq> set os" using assms(2) by (induction rule: list_emb.induct) auto
  moreover have "\<exists>o1 \<in> set os'. reduced o1 o2" if "o2 \<in> set outs" for o2
    using assms(3) that by (induction rule: list_all2_induct) auto
  ultimately have "\<exists>o1. same_target toi o1 \<and> reduced o1 o2" if "o2 \<in> set outs" for o2
    using assms(1) that by blast
  then show ?thesis by (fastforce simp: reduced_def same_target_def)
qed

text \<open>A preparation never pays out more than the item asks for, to the address of the item.\<close>

lemma prepareTxOutItem_reduces:
  assumes "cosmos_sdk (E_sdk E)" and "outbound_stable f"
    and "prepareTxOutItem E Y B gm w toi = Some (r, w')"
  shows "f (W_kv w') = f (W_kv w)
    \<and> (\<forall>outs. r = Inr outs \<longrightarrow> sum_list (map toi_amount outs) \<le> toi_amount toi
         \<and> (\<exists>toi'. check_item E Y toi = Inr toi' \<and> (\<forall>o1 \<in> set outs. same_target toi' o1)))"
proof (cases "check_item E Y toi")
  case (Inr toi')
  have amount: "toi_amount toi' = toi_amount toi"
    using Inr by (auto simp: check_item_def to_new_bch_def toi_amount_def Let_def split: if_splits sum.splits)
  consider (plan) e where "r = Inl e" "w' = w"
    | (outputs) outputs fr fa mg dec r1 pool fee w1 where "plan_outputs E Y (W_kv w) fa mg toi' = Some (Inr outputs)"
      "prepare_outputs E B toi' fr fa dec outputs NewPool 0 w = Some (r1, pool, fee, w1)"
      "case r1 of Inl e \<Rightarrow> (r, w') = (Inl e, w1) | Inr outs \<Rightarrow> store_pool B toi' pool fee outs w1 = Some (r, w')"
    using assms(3) Inr
    by (auto simp: prepareTxOutItem_def bind_sum_iff bind_Some_iff case_sum_Some_iff Let_def)
  then show ?thesis
  proof cases
    case outputs
    note p = prepare_outputs_keeps [OF assms(1,2) outputs(2)] and s = plan_outputs_shares [OF assms(1) outputs(1)]
    have st: "store_pool B toi' pool fee x w1 = Some (y, w2) \<Longrightarrow> f (W_kv w2) = f (W_kv w1) \<and> (\<forall>z. y = Inr z \<longrightarrow> z = x)" for x y w2
      using assms(2) by (auto simp: store_pool_def outbound_stable_def case_sum_Some_iff dest!: pay_fee_kv split: if_splits)
    have "f (W_kv w') = f (W_kv w)" and "\<And>outs. r = Inr outs \<Longrightarrow> r1 = Inr outs"
      using outputs(3) p by (auto dest: st split: sum.splits)
    moreover have "sum_list (map toi_amount outs) \<le> toi_amount toi \<and> (\<forall>o1 \<in> set outs. same_target toi' o1)"
      if outs: "r1 = Inr outs" for outs
    proof -
      obtain os' where "subseq os' outputs" "list_all2 reduced os' outs" using p outs by blast
      then show ?thesis using reduced_sum reduced_target s amount by metis
    qed
    ultimately show ?thesis using Inr by blast
  qed simp
qed (use assms(3) in \<open>auto simp: prepareTxOutItem_def\<close>)

lemma AppendTxOut_get:
  assumes "TxOut_Height (GetTxOut k h) = h"
  shows "TxOut_TxArray (GetTxOut (AppendTxOut k h item) h) = TxOut_TxArray (GetTxOut k h) @ [item]
    \<and> TxOut_Height (GetTxOut (AppendTxOut k h item) h) = h"
  using assms by (simp add: AppendTxOut_def Let_def SetTxOut_def TxOut_IsEmpty_def GetTxOut_def kv_get_set)

lemma add_outputs_appends:
  assumes "add_outputs E B tokens run h os w = Some (None, w')" and "\<forall>o1 \<in> set os. \<not> Chain_IsBASEChain (TOI_Chain o1)"
    and "TxOut_Height (GetTxOut (W_kv w) h) = h"
  shows "TxOut_TxArray (GetTxOut (W_kv w') h) = TxOut_TxArray (GetTxOut (W_kv w) h) @ os"
  using assms
proof (induction os arbitrary: w)
  case (Cons o1 os)
  let ?w = "w\<lparr>W_kv := AppendTxOut (W_kv w) h o1\<rparr>"
  have "add_outputs E B tokens run h os ?w = Some (None, w')"
    using Cons.prems by (simp add: addToBlockOut_def and_then_def)
  then show ?case using Cons.IH [of ?w] Cons.prems(2,3) AppendTxOut_get [OF Cons.prems(3), of o1] by simp
qed simp

lemma outbound_height_keeps:
  "outbound_height E k toi = Some (h, k') \<Longrightarrow> outbound_stable f \<Longrightarrow> f k' = f k"
  by (auto simp: outbound_height_def bind_Some_iff Let_def outbound_stable_def split: if_splits)

lemma GetTxOut_same: "K_txOuts k' = K_txOuts k \<Longrightarrow> GetTxOut k' h = GetTxOut k h"
  by (simp add: GetTxOut_def)

lemma check_item_chain: "check_item E Y toi = Inr toi' \<Longrightarrow> TOI_Chain toi' = TOI_Chain toi"
  by (auto simp: check_item_def to_new_bch_def Let_def split: if_splits sum.splits)

lemma sum_uints_exact: "cosmos_sdk S \<Longrightarrow> sum_uints S xs a = Some s \<Longrightarrow> s = a + sum_list xs"
proof (induction xs arbitrary: a)
  case (Cons x xs)
  then have "sum_uints S xs (a + x) = Some s" by (auto simp: bind_Some_iff cosmos_sdk.uint_add split: if_splits)
  then show ?case using Cons.IH [OF Cons.prems(1)] by fastforce
qed simp

text \<open>C14: an outbound to another chain that is accepted is scheduled in one block: its parts are appended to
  the outbounds of the block, they go where the item says, and together they pay at least the
  minimum the caller set and at most the amount of the item.\<close>

theorem TryAddTxOutItem_scheduled:
  assumes "cosmos_sdk (E_sdk E)" and "TryAddTxOutItem E Y B tokens run gm w toi minOut = Some (Inr True, w')"
    and "\<not> Chain_IsBASEChain (TOI_Chain toi)" and "\<forall>h. TxOut_Height (GetTxOut (W_kv w) h) = h"
  shows "\<exists>h outs toi'. TxOut_TxArray (GetTxOut (W_kv w') h) = TxOut_TxArray (GetTxOut (W_kv w) h) @ outs \<and> outs \<noteq> []
    \<and> check_item E Y toi = Inr toi' \<and> (\<forall>o1 \<in> set outs. same_target toi' o1)
    \<and> minOut \<le> sum_list (map toi_amount outs) \<and> sum_list (map toi_amount outs) \<le> toi_amount toi"
proof -
  obtain outs w1 where p: "prepareTxOutItem E Y B gm w toi = Some (Inr outs, w1)"
    and sch: "schedule_outputs E B tokens run toi minOut outs w1 = Some (Inr True, w')"
    using assms(2) by (auto simp: TryAddTxOutItem_def bind_Some_iff case_sum_Some_iff)
  then have ne: "outs \<noteq> []" by (auto simp: schedule_outputs_def)
  obtain s h k where s: "sum_uints (E_sdk E) (map toi_amount outs) 0 = Some s" "minOut \<le> s"
    and h: "outbound_height E (W_kv w1) (toi\<lparr>TOI_Memo := TOI_Memo (hd outs)\<rparr>) = Some (h, k)"
    and add: "add_outputs E B tokens run h outs (w1\<lparr>W_kv := k\<rparr>) = Some (None, w')"
    using sch ne by (auto simp: schedule_outputs_def bind_Some_iff split: if_splits option.splits)
  note r = prepareTxOutItem_reduces [OF assms(1) outbound_stable_tables(1) p]
  then obtain toi' where c: "check_item E Y toi = Inr toi'" and t: "\<forall>o1 \<in> set outs. same_target toi' o1"
    and le: "sum_list (map toi_amount outs) \<le> toi_amount toi" by blast
  have "K_txOuts k = K_txOuts (W_kv w)" using r outbound_height_keeps [OF h outbound_stable_tables(1)] by simp
  then have k: "GetTxOut k h' = GetTxOut (W_kv w) h'" for h' by (rule GetTxOut_same)
  have "\<forall>o1 \<in> set outs. \<not> Chain_IsBASEChain (TOI_Chain o1)"
    using t check_item_chain [OF c] assms(3) by (auto simp: same_target_def)
  then have "TxOut_TxArray (GetTxOut (W_kv w') h) = TxOut_TxArray (GetTxOut (W_kv w) h) @ outs"
    using add_outputs_appends [OF add] assms(4) by (simp add: k)
  moreover have "minOut \<le> sum_list (map toi_amount outs)" using sum_uints_exact [OF assms(1) s(1)] s(2) by simp
  ultimately show ?thesis using ne c t le by blast
qed

text \<open>The outbound store keeps the queue of swaps, as long as the handlers do, so that the queue drains with it.\<close>

lemma MintToModule_tables: "MintToModule S B w m coin = Some (e, w') \<Longrightarrow> K_swapQueue (W_kv w') = K_swapQueue (W_kv w)"
  by (auto simp: MintToModule_def Let_def halt_everything_def SetMimir_def setInt64_def
      split: if_splits option.splits sum.splits)

lemma and_then_queue:
  assumes "and_then m f = Some (e, w')" and "\<And>e w1. m = Some (e, w1) \<Longrightarrow> K_swapQueue (W_kv w1) = q"
    and "\<And>w1. K_swapQueue (W_kv w1) = q \<Longrightarrow> f w1 = Some (e, w') \<Longrightarrow> K_swapQueue (W_kv w') = q"
  shows "K_swapQueue (W_kv w') = q"
  using assms by (auto simp: and_then_def bind_Some_iff split: option.splits)

lemma nativeTxOut_queue:
  assumes "keeps_queue run" and "nativeTxOut E B tokens run w toi = Some (e, w')"
  shows "K_swapQueue (W_kv w') = K_swapQueue (W_kv w)"
proof -
  let ?q = "K_swapQueue (W_kv w)"
  have run: "NewInternalHandler run w1 m = Some (e, w2) \<Longrightarrow> K_swapQueue (W_kv w2) = K_swapQueue (W_kv w1)" for w1 m e w2
    using assms(1) by (auto simp: NewInternalHandler_def bind_Some_iff keeps_queue_def)
  have obs: "observe_native E B tokens run md toi w1 = Some (e, w2) \<Longrightarrow> K_swapQueue (W_kv w2) = K_swapQueue (W_kv w1)" for md w1 e w2
    by (auto simp: observe_native_def case_sum_Some_iff run split: if_splits)
  have tr: "native_transfer E B md addr toi w1 = Some (e, w2) \<Longrightarrow> W_kv w2 = W_kv w1" for md addr w1 e w2
    by (auto simp: native_transfer_def case_sum_Some_iff dest: bank_keeps_kv split: if_splits)
  have "K_swapQueue (W_kv w') = ?q"
    if "and_then (if md = ModuleName then MintToModule (E_sdk E) B w md (TOI_Coin toi) else Some (None, w))
         (\<lambda>w1. and_then (native_transfer E B md addr toi w1) (observe_native E B tokens run md toi)) = Some (e, w')" for md addr
    using that
  proof (rule and_then_queue)
    fix e1 w1
    assume "(if md = ModuleName then MintToModule (E_sdk E) B w md (TOI_Coin toi) else Some (None, w)) = Some (e1, w1)"
    then show "K_swapQueue (W_kv w1) = ?q" by (auto dest: MintToModule_tables split: if_splits)
  next
    fix w1
    assume q: "K_swapQueue (W_kv w1) = ?q"
      and "and_then (native_transfer E B md addr toi w1) (observe_native E B tokens run md toi) = Some (e, w')"
    from this(2) show "K_swapQueue (W_kv w') = ?q"
      by (rule and_then_queue) (use q in \<open>auto dest: tr obs\<close>)
  qed
  then show ?thesis using assms(2) by (auto simp: nativeTxOut_def Let_def split: option.splits)
qed

lemma add_outputs_queue:
  assumes "keeps_queue run" and "add_outputs E B tokens run h os w = Some (r, w')"
  shows "K_swapQueue (W_kv w') = K_swapQueue (W_kv w)"
  using assms(2)
proof (induction os arbitrary: w)
  case (Cons o1 os)
  have "K_swapQueue (W_kv w1) = K_swapQueue (W_kv w)" if "addToBlockOut E B tokens run w o1 h = Some (e, w1)" for e w1
    using that nativeTxOut_queue [OF assms(1)]
    by (auto simp: addToBlockOut_def AppendTxOut_def SetTxOut_def Let_def split: if_splits)
  then show ?case using Cons by (auto simp: and_then_def bind_Some_iff split: option.splits)
qed simp

lemma TryAddTxOutItem_keeps_queue:
  assumes "cosmos_sdk (E_sdk E)" and "keeps_queue run"
  shows "outbound_keeps_queue (TryAddTxOutItem E Y B tokens run gm)"
proof -
  have "K_swapQueue (W_kv w') = K_swapQueue (W_kv w)" if tr: "TryAddTxOutItem E Y B tokens run gm w t n = Some (r, w')" for w t n r w'
  proof -
    obtain r1 w1 where p: "prepareTxOutItem E Y B gm w t = Some (r1, w1)"
      and s: "case r1 of Inl e \<Rightarrow> (r, w') = (Inl e, w1) | Inr outs \<Rightarrow> schedule_outputs E B tokens run t n outs w1 = Some (r, w')"
      using tr by (auto simp: TryAddTxOutItem_def bind_Some_iff case_sum_Some_iff)
    have "schedule_outputs E B tokens run t n outs w1 = Some (r, w') \<Longrightarrow> K_swapQueue (W_kv w') = K_swapQueue (W_kv w1)" for outs
      by (auto simp: schedule_outputs_def bind_Some_iff split: if_splits
          dest!: add_outputs_queue [OF assms(2)] outbound_height_keeps [OF _ outbound_stable_tables(2)])
    then show ?thesis
      using s prepareTxOutItem_reduces [OF assms(1) outbound_stable_tables(2) p] by (auto split: sum.splits)
  qed
  then show ?thesis by (auto simp: outbound_keeps_queue_def)
qed

definition migrate_toi :: TxOutItem where
  "migrate_toi = sample_toi\<lparr>TOI_Memo := MigrateMemo_String 5, TOI_InHash := BlankTxID, TOI_VaultPubKey := ''pub1'',
     TOI_MaxGas := [NewCoin BTCAsset 2]\<rparr>"

definition migrate_world :: "ledger world" where
  "migrate_world = \<lparr>W_kv = empty_store, W_bank = empty_ledger\<rparr>"

lemma migrate_prepared:
  "prepareTxOutItem (sample_env 7) sample_keys ledger_bank newGasMgrV104 migrate_world migrate_toi
     = Some (Inr [migrate_toi], migrate_world)"
proof -
  have c: "check_item (sample_env 7) sample_keys migrate_toi = Inr migrate_toi"
  proof -
    have "TOI_Memo migrate_toi \<noteq> ''''" "\<not> TxID_IsEmpty (TOI_InHash migrate_toi)" "\<not> Address_IsEmpty (TOI_ToAddress migrate_toi)"
      "Address_IsChain sample_codecs (TOI_ToAddress migrate_toi) (TOI_Chain migrate_toi)" "\<not> Chain_Equals (TOI_Chain migrate_toi) BCHChain"
      by code_simp+
    then show ?thesis by (simp add: check_item_def to_new_bch_def)
  qed
  have k: "K_networkFees empty_store = []" "K_pools empty_store = []" by (simp_all add: empty_store_def)
  have f: "NetworkFee_Valid (GetNetworkFee empty_store BTCChain) \<noteq> None" by code_simp
  have ch: "TOI_Chain migrate_toi = BTCChain" "Coin_Asset (TOI_Coin migrate_toi) = BTCAsset"
    "\<not> Chain_Equals BTCChain BASEChain" "\<not> Chain_Equals BTCChain THORChain" "\<not> Asset_IsSyntheticAsset BTCAsset"
    "\<not> Asset_IsSyntheticAsset BaseAsset" "\<not> Asset_IsBase BTCAsset" "\<not> Chain_IsBNB BTCChain"
    "\<not> PubKey_IsEmpty (TOI_VaultPubKey migrate_toi)" "\<not> Gas_IsEmpty (TOI_MaxGas migrate_toi)"
    "\<not> Coin_IsEmpty (TOI_Coin migrate_toi)" "TxID_Equals (TOI_InHash migrate_toi) BlankTxID"
    "Chain_GetGasAssetDecimal BTCChain = 8" "NF_TransactionSize (GetNetworkFee empty_store BTCChain) = 0" "Pool_IsEmpty NewPool"
    "Pool_Decimals (GetPool empty_store (Asset_GetLayer1Asset BTCAsset)) = 0"
    by code_simp+
  have fee: "\<exists>x. GetFee (sample_env 7) empty_store newGasMgrV104 BTCChain a = Some x" if "a = BTCAsset \<or> a = BaseAsset" for a
    using that f ch by (auto simp: GetFee_def network_fee_of_def Let_def)
  have mg: "\<exists>x. GetMaxGas (sample_env 7) empty_store BTCChain = Some x"
    by (simp add: GetMaxGas_def ch Let_def sdk256.uint_laws RoundToDecimal_def DefaultCoinDecimals_def)
  have memo: "ParseMemoWithMAYANames (sample_env 7) empty_store (TOI_Memo migrate_toi) = Inr (MigrateMemo 5)"
  proof -
    have "parseBase (joinWith '':'' [''MIGRATE'', show_int 5]) = Inr (TxMigrate, EmptyAsset, [''MIGRATE'', show_int 5])"
      by (rule parseBase_join) (use memo_types in auto)
    then show ?thesis
      by (simp add: ParseMemoWithMAYANames_def migrate_toi_def MigrateMemo_String_def ParseMigrateMemo_def
          memo_with_height_def memo_int64_def Atoi_show_int)
  qed
  have amt: "set_amount migrate_toi (toi_amount migrate_toi) = migrate_toi" by (simp add: set_amount_def toi_amount_def)
  have prep: "prepare_outputs (sample_env 7) ledger_bank migrate_toi fr fa 0 [migrate_toi] NewPool 0 migrate_world
      = Some (Inr [migrate_toi], NewPool, 0, migrate_world)" for fr fa
    by (simp add: prepare_output_def set_max_gas_def ch memo charge_output_def fee_free_def ragnarok_gas_def memo_type_def
        finish_output_def RoundToDecimal_def record_action_def amt migrate_world_def)
  show ?thesis
    using fee [of BTCAsset] fee [of BaseAsset] mg
    by (auto simp: prepareTxOutItem_def c ch migrate_world_def plan_outputs_def Let_def
        prep [unfolded migrate_world_def] store_pool_def pay_fee_def simp del: prepare_outputs.simps)
qed

theorem TryAddTxOutItem_scheduled_witness:
  "\<exists>w' h outs. TryAddTxOutItem (sample_env 7) sample_keys ledger_bank (\<lambda>_. []) (\<lambda>w m. Some (None, w)) newGasMgrV104
       migrate_world migrate_toi 3 = Some (Inr True, w')
     \<and> TxOut_TxArray (GetTxOut (W_kv w') h) = TxOut_TxArray (GetTxOut (W_kv migrate_world) h) @ outs \<and> outs \<noteq> []
     \<and> 3 \<le> sum_list (map toi_amount outs)"
proof -
  let ?run = "\<lambda>w m. Some (None, w)"
  have ch: "\<not> Chain_IsBASEChain (TOI_Chain migrate_toi)" "toi_amount migrate_toi = 25" "TxID_Equals (TOI_InHash migrate_toi) BlankTxID"
    "\<not> list_ex (Address_Equals (TOI_ToAddress migrate_toi)) outbound_blacklist"
    by code_simp+
  have "\<exists>w'. TryAddTxOutItem (sample_env 7) sample_keys ledger_bank (\<lambda>_. []) ?run newGasMgrV104 migrate_world migrate_toi 3
      = Some (Inr True, w')"
    by (simp add: TryAddTxOutItem_def migrate_prepared schedule_outputs_def ch sdk256.uint_laws outbound_height_def
        addToBlockOut_def and_then_def)
  then obtain w' where t: "TryAddTxOutItem (sample_env 7) sample_keys ledger_bank (\<lambda>_. []) ?run newGasMgrV104
      migrate_world migrate_toi 3 = Some (Inr True, w')" by blast
  have "\<forall>h. TxOut_Height (GetTxOut (W_kv migrate_world) h) = h"
    by (simp add: GetTxOut_def migrate_world_def empty_store_def kv_get_def NewTxOut_def)
  then show ?thesis
    using TryAddTxOutItem_scheduled [of "sample_env 7", OF _ t ch(1)] sdk256.cosmos_sdk_axioms t by auto
qed

end
