(* ===== verification/Slasher.thy ===== *)
theory Slasher
  imports TxOutStore
begin

text \<open>
  The slasher, \<open>x/mayachain/manager_slasher_current.go\<close> (\<open>SlasherV105\<close>), with \<open>subsidizePoolsWithSlashBond\<close>
  and \<open>refundBond\<close> of \<open>helpers.go\<close>: slash points for what a node fails to do, the outbounds that are
  scheduled again, and the liquidity units that a node loses to the reserve. Events and metrics are
  not modelled. \<open>run\<close> is the handler of the internal messages, as for the outbound manager; the address of a
  consensus key is computed by the SDK and an argument.
\<close>

section \<open>Slash points\<close>

definition IncSlashPoints :: "sdk \<Rightarrow> KVStore \<Rightarrow> int \<Rightarrow> acc_address list \<Rightarrow> KVStore" where
  "IncSlashPoints S k point addresses = foldl (\<lambda>k addr. IncNodeAccountSlashPoints S k addr point) k addresses"

definition DecSlashPoints :: "sdk \<Rightarrow> KVStore \<Rightarrow> int \<Rightarrow> acc_address list \<Rightarrow> KVStore" where
  "DecSlashPoints S k point addresses = foldl (\<lambda>k addr. DecNodeAccountSlashPoints S k addr point) k addresses"

definition checkSignerAndSlash :: "env \<Rightarrow> KVStore \<Rightarrow> node_accounts \<Rightarrow> int \<Rightarrow> acc_address list \<Rightarrow> KVStore" where
  "checkSignerAndSlash E k nodes blockHeight signers =
     foldl (\<lambda>k na.
       if NA_ActiveBlockHeight na > blockHeight \<or> NA_NodeAddress na \<in> set signers then k
       else IncNodeAccountSlashPoints (E_sdk E) k (NA_NodeAddress na) (C_int64 (E_cv E) ''LackOfObservationPenalty'')) k nodes"

definition slashNotObserving :: "env \<Rightarrow> KVStore \<Rightarrow> tx_id \<Rightarrow> KVStore" where
  "slashNotObserving E k txHash =
     (let voter = GetObservedTxInVoter k txHash; tx = OV_Tx voter in
      if OV_Txs voter = [] \<or> ObservedTx_IsEmpty tx \<or> OT_Signers tx = [] then k
      else checkSignerAndSlash E k (ListActiveValidators k)
             (if ObservedTx_IsFinal tx then OV_FinalisedHeight voter else OV_Height voter)
             (concat (map (ObservedTx_GetSigners (E_sdk E)) (OV_Txs voter))))"

definition LackObserving :: "env \<Rightarrow> KVStore \<Rightarrow> KVStore" where
  "LackObserving E k =
     (let period = C_int64 (E_cv E) ''SigningTransactionPeriod'' in
      if E_height E < period then k
      else foldl (\<lambda>k item.
             if TxID_IsEmpty (TOI_InHash item) \<or> TxID_Equals (TOI_InHash item) BlankTxID then k
             else slashNotObserving E k (TOI_InHash item)) k (TxOut_TxArray (GetTxOut k (E_height E - period))))"

section \<open>Slashing the liquidity of a node\<close>

definition GenesisNodes :: "string list" where
  "GenesisNodes =
     [''maya1q3jj8n8pkvl2kjv3pajdyju4hp92cmxnadknd2'', ''maya10sy79jhw9hw9sqwdgu0k4mw4qawzl7czewzs47'',
      ''maya1gv85v0jvc0rsjunku3qxempax6kmrg5jqh8vmg'', ''maya1vm43yk3jq0evzn2u6a97mh2k9x4xf5mzp62g23'',
      ''maya12amvthg5jqv99j0w4pnmqwqnysgvgljxmazgnq'']"

definition is_genesis_node :: "codecs \<Rightarrow> address \<Rightarrow> bool" where
  "is_genesis_node L addr \<longleftrightarrow>
     list_ex (\<lambda>g. case NewAddress L g of Inl _ \<Rightarrow> False | Inr a \<Rightarrow> Address_Equals addr a) GenesisNodes"

text \<open>What a slash has taken so far: the amount, and the amounts by pool.\<close>

type_synonym slashed = "nat \<times> (Asset \<times> int) list"

definition slash_position ::
  "env \<Rightarrow> address \<Rightarrow> acc_address \<Rightarrow> nat \<Rightarrow> nat \<Rightarrow> LiquidityProvider \<Rightarrow> KVStore \<times> slashed \<Rightarrow> (KVStore \<times> slashed) option" where
  "slash_position E polAddress node slash naBond lp st =
     (let (k, totalSlashed, amounts) = st; S = E_sdk E; pool = GetPool k (LP_Asset lp);
          bondedUnits = LP_GetUnitsBondedToNode lp node in
      if \<not> Pool_IsAvailable pool \<or> bondedUnits = 0 then Some st
      else
        let polLP = GetLiquidityProvider (E_codecs E) k (Pool_Asset pool) polAddress;
            slashLPUnits = GetSafeShare S slash naBond bondedUnits;
            slashedAmount = GetSafeShare S slash naBond naBond in
        do {
          t \<leftarrow> uint_add S totalSlashed slashedAmount;
          lp1 \<leftarrow> LP_Unbond S lp node slashLPUnits;
          units \<leftarrow> uint_sub S (LP_Units lp1) slashLPUnits;
          polUnits \<leftarrow> uint_add S (LP_Units polLP) slashLPUnits;
          Some (SetLiquidityProviders k [lp1\<lparr>LP_Units := units\<rparr>, polLP\<lparr>LP_Units := polUnits\<rparr>],
            t, amounts @ [(Pool_Asset pool, wrap64 (int slashedAmount))])
        })"

fun slash_positions ::
  "env \<Rightarrow> address \<Rightarrow> acc_address \<Rightarrow> nat \<Rightarrow> nat \<Rightarrow> LiquidityProvider list \<Rightarrow> KVStore \<times> slashed \<Rightarrow> (KVStore \<times> slashed) option" where
  "slash_positions E polAddress node slash naBond [] st = Some st"
| "slash_positions E polAddress node slash naBond (lp # lps) st =
     do { st' \<leftarrow> slash_position E polAddress node slash naBond lp st; slash_positions E polAddress node slash naBond lps st' }"

fun slash_providers ::
  "env \<Rightarrow> address \<Rightarrow> acc_address \<Rightarrow> nat \<Rightarrow> nat \<Rightarrow> BondProvider list \<Rightarrow> KVStore \<times> slashed \<Rightarrow> (KVStore \<times> slashed) option" where
  "slash_providers E polAddress node slash naBond [] st = Some st"
| "slash_providers E polAddress node slash naBond (b # bs) st =
     do {
       st' \<leftarrow> slash_positions E polAddress node slash naBond
         (GetLiquidityProviderByAssets (E_codecs E) (fst st) (GetLiquidityPools (K_version (fst st)))
            (acc_string (E_sdk E) (BP_BondAddress b))) st;
       slash_providers E polAddress node slash naBond bs st'
     }"

definition SlashNodeAccountLP ::
  "env \<Rightarrow> 'b bank \<Rightarrow> KVStore \<Rightarrow> NodeAccount \<Rightarrow> nat \<Rightarrow> ((go_error + slashed) \<times> KVStore) option" where
  "SlashNodeAccountLP E B k na slash0 =
     (if slash0 = 0 \<or> is_genesis_node (E_codecs E) (NA_BondAddress na) then Some (Inr (0, []), k)
      else do {
        naBond \<leftarrow> CalcNodeLiquidityBond E k na;
        case GetModuleAddress (E_sdk E) (E_codecs E) B ReserveName of
          Inl e \<Rightarrow> Some (Inl e, k)
        | Inr polAddress \<Rightarrow>
            if naBond = 0 then Some (Inl (GoError ''validator's bond is zero, can't be slashed''), k)
            else do {
              let slash = (if slash0 > naBond then naBond else slash0);
              (k', s) \<leftarrow> slash_providers E polAddress (NA_NodeAddress na) slash naBond
                (BPS_Providers (GetBondProviders (E_sdk E) k (NA_NodeAddress na))) (k, 0, []);
              Some (Inr s, k')
            }
      })"

text \<open>A node that signed two blocks at one height loses five percent of the minimum bond; \<open>consAddress\<close> is the
  address of a consensus key, \<open>None\<close> where it does not decode.\<close>

fun double_signer :: "(string \<Rightarrow> string option) \<Rightarrow> string \<Rightarrow> node_accounts \<Rightarrow> go_error + NodeAccount" where
  "double_signer consAddress addr [] = Inl (GoError ''could not find node account with validator address'')"
| "double_signer consAddress addr (na # nas) =
     (case consAddress (NA_ValidatorConsPubKey na) of
        None \<Rightarrow> Inl (GoError ''decoding bech32 failed'')
      | Some a \<Rightarrow> if addr = a then Inr na else double_signer consAddress addr nas)"

definition HandleDoubleSign ::
  "env \<Rightarrow> 'b bank \<Rightarrow> (string \<Rightarrow> string option) \<Rightarrow> KVStore \<Rightarrow> string \<Rightarrow> int \<Rightarrow> (check \<times> KVStore) option" where
  "HandleDoubleSign E B consAddress k addr infractionHeight =
     (if E_height E - infractionHeight > C_int64 (E_cv E) ''DoubleSignMaxAge'' then Some (None, k)
      else case double_signer consAddress addr (ListActiveValidators k) of
             Inl e \<Rightarrow> Some (Some e, k)
           | Inr na \<Rightarrow> do {
               naBond \<leftarrow> CalcNodeLiquidityBond E k na;
               if naBond = 0 then Some (fails ''found account to slash for double signing, but did not have any bond to slash'', k)
               else do {
                 x \<leftarrow> uint_mul (E_sdk E) (uint64_cast (config E k ''MinimumBondInCacao'')) 5;
                 slashAmount \<leftarrow> uint_quo (E_sdk E) x 100;
                 (r, k') \<leftarrow> SlashNodeAccountLP E B k na (if slashAmount > naBond then naBond else slashAmount);
                 Some (case r of Inl e \<Rightarrow> Some e | Inr _ \<Rightarrow> None, k')
               }
             })"

text \<open>The evidence of a block: double votes are handled, other kinds are ignored, errors are logged.\<close>

fun Slasher_BeginBlock ::
  "env \<Rightarrow> 'b bank \<Rightarrow> (string \<Rightarrow> string option) \<Rightarrow> (bool \<times> string \<times> int) list \<Rightarrow> KVStore \<Rightarrow> KVStore option" where
  "Slasher_BeginBlock E B consAddress [] k = Some k"
| "Slasher_BeginBlock E B consAddress ((duplicateVote, addr, h) # es) k =
     (if duplicateVote
      then do { (_, k') \<leftarrow> HandleDoubleSign E B consAddress k addr h; Slasher_BeginBlock E B consAddress es k' }
      else Slasher_BeginBlock E B consAddress es k)"

section \<open>Outbounds that were not signed\<close>

text \<open>The longest list of signers of the transaction \<open>hash\<close>, when the voter has an observation of the vault.\<close>

definition longest_signers :: "pub_key \<Rightarrow> tx_id \<Rightarrow> ObservedTx list \<Rightarrow> string list" where
  "longest_signers pk hash txs =
     (if list_ex (\<lambda>t. OT_ObservedPubKey t = pk) txs
      then foldl (\<lambda>signers t.
             if TxID_Equals (Tx_ID (OT_Tx t)) hash \<and> length signers < length (OT_Signers t) then OT_Signers t
             else signers) [] txs
      else [])"

fun needs_new_vault :: "env \<Rightarrow> KVStore \<Rightarrow> nat \<Rightarrow> int \<Rightarrow> int \<Rightarrow> pub_key \<Rightarrow> tx_id list \<Rightarrow> bool" where
  "needs_new_vault E k nas period startHeight pk [] = True"
| "needs_new_vault E k nas period startHeight pk (hash # hashes) =
     (let signers = longest_signers pk hash (OV_Txs (GetObservedTxOutVoter k hash)) in
      if signers = [] then needs_new_vault E k nas period startHeight pk hashes
      else if nas > 0 \<and> HasMinority (int (length signers)) (int nas) then False
      else wrap64 (startHeight + (int (length signers) + 1) * period) < E_height E)"

definition needsNewVault :: "env \<Rightarrow> KVStore \<Rightarrow> nat \<Rightarrow> int \<Rightarrow> int \<Rightarrow> tx_id \<Rightarrow> pub_key \<Rightarrow> bool" where
  "needsNewVault E k nas period startHeight inhash pk =
     needs_new_vault E k nas period startHeight pk (GetObservedLink k inhash)"

text \<open>A negative remainder is no index.\<close>

definition rotate_to :: "Vault list \<Rightarrow> int \<Rightarrow> Vault option" where
  "rotate_to vs rep =
     (let n = int (length vs); i = rep - quot64 rep n * n in if i < 0 then None else Some (vs ! nat i))"

text \<open>The vault for the next attempt: the older the inbound, the later in the order by funds, and not the vault
  that failed where there is another one.\<close>

definition next_vault :: "env \<Rightarrow> int \<Rightarrow> int \<Rightarrow> TxOutItem \<Rightarrow> Vault list \<Rightarrow> Vault \<Rightarrow> Vault option" where
  "next_vault E period finalisedHeight tx active vault =
     (let available = Vaults_SortBy (Vaults_Has active (TOI_Coin tx)) (Coin_Asset (TOI_Coin tx)) in
      if available = [] then Some (if active = [] then vault else hd active)
      else if period = 0 then None
      else
        let age0 = E_height E - finalisedHeight;
            age = (if Vault_IsYggdrasil vault then max 0 (age0 - period) else age0);
            rep = quot64 age period
        in do {
          v \<leftarrow> rotate_to available rep;
          if V_PubKey vault = V_PubKey v then rotate_to available (rep + 1) else Some v
        })"

text \<open>What the loop does with an item: it ends with an error, or it goes on with the item as it leaves it and maybe
  an error to report at the end.\<close>

type_synonym 'b retried = "((go_error + (check \<times> TxOutItem)) \<times> 'b world) option"

definition retry_item ::
  "env \<Rightarrow> keys \<Rightarrow> 'b bank \<Rightarrow> (chain \<Rightarrow> string list) \<Rightarrow> ('b world \<Rightarrow> internal_msg \<Rightarrow> 'b outcome) \<Rightarrow> TxOutItem
     \<Rightarrow> pub_key \<Rightarrow> 'b world \<Rightarrow> 'b retried" where
  "retry_item E Y B tokens run item pk w =
     do {
       maxGas \<leftarrow> GetMaxGas E (W_kv w) (TOI_Chain item);
       rate \<leftarrow> GetGasRate E (W_kv w) (TOI_Chain item);
       gasRate \<leftarrow> uint64_of rate;
       let tx = item\<lparr>TOI_VaultPubKey := pk, TOI_MaxGas := [maxGas]\<rparr>;
       let w1 = (case updateTxOutGas (W_kv w) tx [maxGas] of Inl _ \<Rightarrow> w | Inr k \<Rightarrow> w\<lparr>W_kv := k\<rparr>);
       if \<not> Asset_IsBase (Coin_Asset (TOI_Coin tx)) \<and> \<not> PoolExist (W_kv w1) (Coin_Asset (TOI_Coin tx))
       then Some (Inr (None, item), w1)
       else do {
         (e, w2) \<leftarrow> UnSafeAddTxOutItem E Y B tokens run w1 (tx\<lparr>TOI_GasRate := wrap64 (int gasRate)\<rparr>);
         Some (Inr (case e of Some er \<Rightarrow> (fails ''failed to add outbound tx'', item)
                    | None \<Rightarrow> (None, item\<lparr>TOI_OutHash := BlankTxID\<rparr>)), w2)
       }
     }"

definition voter_moved :: "ObservedTxVoter \<Rightarrow> TxOutItem \<Rightarrow> pub_key \<Rightarrow> ObservedTxVoter" where
  "voter_moved voter tx pk =
     voter\<lparr>OV_Actions := map (\<lambda>a. if TxOutItem_Equals a tx then a\<lparr>TOI_VaultPubKey := pk\<rparr> else a) (OV_Actions voter)\<rparr>"

text \<open>The item moves to another vault, unless its inbound has all its outbounds already.\<close>

definition move_item ::
  "env \<Rightarrow> keys \<Rightarrow> 'b bank \<Rightarrow> (chain \<Rightarrow> string list) \<Rightarrow> ('b world \<Rightarrow> internal_msg \<Rightarrow> 'b outcome) \<Rightarrow> int \<Rightarrow> bool
     \<Rightarrow> ObservedTxVoter \<Rightarrow> Vault \<Rightarrow> TxOutItem \<Rightarrow> 'b world \<Rightarrow> 'b retried" where
  "move_item E Y B tokens run period ragnarok voter vault tx w =
     (case GetAsgardVaultsByStatus (E_sdk E) (W_kv w) (E_height E) VaultStatus_ActiveVault of
        Inl e \<Rightarrow> Some (Inl e, w)
      | Inr active \<Rightarrow> do {
          v \<leftarrow> next_vault E period (OV_FinalisedHeight voter) tx active vault;
          let (voterTx, voter') = ObservedTxVoter_GetTx (E_sdk E) voter [];
          if ragnarok then retry_item E Y B tokens run tx (V_PubKey v) w
          else if ObservedTx_IsDone voterTx (length (OV_Actions voter'))
          then Some (Inr (None, case ObservedTx_GetOutHashes voterTx of
                                  [] \<Rightarrow> tx | h # _ \<Rightarrow> tx\<lparr>TOI_OutHash := h\<rparr>), w)
          else retry_item E Y B tokens run tx (V_PubKey v)
                 (w\<lparr>W_kv := SetObservedTxInVoter (W_kv w) (voter_moved voter' tx (V_PubKey v))\<rparr>)
        })"

text \<open>An operator of a yggdrasil vault gets slash points and is jailed; the item is skipped when its key has no
  address.\<close>

definition slash_unsigned :: "env \<Rightarrow> int \<Rightarrow> Vault \<Rightarrow> TxOutItem \<Rightarrow> KVStore \<Rightarrow> KVStore option" where
  "slash_unsigned E period vault tx k =
     (if Vault_IsYggdrasil vault \<and> \<not> isChainHalted E k (TOI_Chain tx) then
        case GetNodeAccountByPubKey (E_sdk E) k (E_height E) (TOI_VaultPubKey tx) of
          Inl _ \<Rightarrow> None
        | Inr na \<Rightarrow>
            Some (SetNodeAccountJail (E_sdk E)
              (IncNodeAccountSlashPoints (E_sdk E) k (NA_NodeAddress na) (period * 2)) (NA_NodeAddress na)
              (E_height E + period * 2) ''fail to send yggdrasil transaction'')
      else Some k)"

definition too_many_attempts :: "env \<Rightarrow> KVStore \<Rightarrow> int \<Rightarrow> int \<Rightarrow> bool" where
  "too_many_attempts E k period finalisedHeight \<longleftrightarrow>
     config E k ''MaxOutboundAttempts'' > 0
     \<and> quot64 (E_height E - finalisedHeight) period \<ge> config E k ''MaxOutboundAttempts''"

definition retry_unsigned ::
  "env \<Rightarrow> keys \<Rightarrow> 'b bank \<Rightarrow> (chain \<Rightarrow> string list) \<Rightarrow> ('b world \<Rightarrow> internal_msg \<Rightarrow> 'b outcome) \<Rightarrow> int \<Rightarrow> Vault
     \<Rightarrow> TxOutItem \<Rightarrow> 'b world \<Rightarrow> 'b retried" where
  "retry_unsigned E Y B tokens run period vault tx w =
     (let k = W_kv w; t = memo_type (ParseMemoWithMAYANames E k (TOI_Memo tx)); ragnarok = (t = TxRagnarok);
          voter = (if ragnarok then NewObservedTxVoter '''' [] else GetObservedTxInVoter k (TOI_InHash tx)) in
      if TxType_IsInternal t then Some (Inr (None, tx), w)
      else if config E k ''MaxOutboundAttempts'' > 0 \<and> period = 0 then None
      else if too_many_attempts E k period (OV_FinalisedHeight voter) then Some (Inr (None, tx), w)
      else if needsNewVault E k (length (ListActiveValidators k)) period (OV_FinalisedHeight voter)
                (TOI_InHash tx) (TOI_VaultPubKey tx)
      then move_item E Y B tokens run period ragnarok voter vault tx w
      else retry_item E Y B tokens run tx (TOI_VaultPubKey tx) w)"

definition vault_or_unknown :: "env \<Rightarrow> KVStore \<Rightarrow> pub_key \<Rightarrow> Vault" where
  "vault_or_unknown E k pk =
     (case GetVault k (E_height E) pk of
        Inl _ \<Rightarrow> EmptyVault\<lparr>V_BlockHeight := E_height E, V_PubKey := pk\<rparr> | Inr v \<Rightarrow> v)"

definition lack_signing_item ::
  "env \<Rightarrow> keys \<Rightarrow> 'b bank \<Rightarrow> (chain \<Rightarrow> string list) \<Rightarrow> ('b world \<Rightarrow> internal_msg \<Rightarrow> 'b outcome) \<Rightarrow> int
     \<Rightarrow> TxOutItem \<Rightarrow> 'b world \<Rightarrow> 'b retried" where
  "lack_signing_item E Y B tokens run period tx w =
     (let k = W_kv w; vault = vault_or_unknown E k (TOI_VaultPubKey tx) in
      if \<not> ChainNetwork_SoftEquals (Y_net Y)
           (Address_GetNetwork (E_codecs E) (Y_net Y) (K_version k) (TOI_ToAddress tx) (TOI_Chain tx))
         \<or> \<not> TxID_IsEmpty (TOI_OutHash tx)
         \<or> Chains_Has (parse_chains (V_Frozen vault)) (Asset_GetChain (Coin_Asset (TOI_Coin tx)))
      then Some (Inr (None, tx), w)
      else case slash_unsigned E period vault tx k of
             None \<Rightarrow> Some (Inr (None, tx), w)
           | Some k' \<Rightarrow> retry_unsigned E Y B tokens run period vault tx (w\<lparr>W_kv := k'\<rparr>))"

text \<open>The loop: the error of the last item that has one is the result.\<close>

fun lack_signing_items ::
  "env \<Rightarrow> keys \<Rightarrow> 'b bank \<Rightarrow> (chain \<Rightarrow> string list) \<Rightarrow> ('b world \<Rightarrow> internal_msg \<Rightarrow> 'b outcome) \<Rightarrow> int
     \<Rightarrow> TxOutItem list \<Rightarrow> check \<Rightarrow> 'b world \<Rightarrow> ((go_error + (check \<times> TxOutItem list)) \<times> 'b world) option" where
  "lack_signing_items E Y B tokens run period [] resultErr w = Some (Inr (resultErr, []), w)"
| "lack_signing_items E Y B tokens run period (tx # txs) resultErr w =
     do {
       (r, w1) \<leftarrow> lack_signing_item E Y B tokens run period tx w;
       case r of
         Inl e \<Rightarrow> Some (Inl e, w1)
       | Inr (e, tx') \<Rightarrow> do {
           (r2, w2) \<leftarrow> lack_signing_items E Y B tokens run period txs (if e = None then resultErr else e) w1;
           Some (case r2 of Inl e2 \<Rightarrow> Inl e2 | Inr (e2, txs') \<Rightarrow> Inr (e2, tx' # txs'), w2)
         }
     }"

definition LackSigning ::
  "env \<Rightarrow> keys \<Rightarrow> 'b bank \<Rightarrow> (chain \<Rightarrow> string list) \<Rightarrow> ('b world \<Rightarrow> internal_msg \<Rightarrow> 'b outcome) \<Rightarrow> 'b world \<Rightarrow> 'b outcome" where
  "LackSigning E Y B tokens run w =
     (let period = C_int64 (E_cv E) ''SigningTransactionPeriod'' in
      if E_height E < period then Some (None, w)
      else do {
        let txs = GetTxOut (W_kv w) (E_height E - period);
        (r, w1) \<leftarrow> lack_signing_items E Y B tokens run period (TxOut_TxArray txs) None w;
        Some (case r of
          Inl e \<Rightarrow> (Some e, w1)
        | Inr (e, items) \<Rightarrow> (e, w1\<lparr>W_kv := SetTxOut (W_kv w1) (txs\<lparr>TxOut_TxArray := items\<rparr>)\<rparr>))
      })"

section \<open>Slashing the members of a vault\<close>

fun membership_bond :: "env \<Rightarrow> KVStore \<Rightarrow> pub_key list \<Rightarrow> nat \<Rightarrow> nat option" where
  "membership_bond E k [] totalBond = Some totalBond"
| "membership_bond E k (member # members) totalBond =
     (case GetNodeAccountByPubKey (E_sdk E) k (E_height E) member of
        Inl _ \<Rightarrow> membership_bond E k members totalBond
      | Inr na \<Rightarrow> do {
          naBond \<leftarrow> CalcNodeLiquidityBond E k na;
          t \<leftarrow> uint_add (E_sdk E) totalBond naBond;
          membership_bond E k members t
        })"

text \<open>A coin adds its value to what was stolen and its penalty to what is slashed; beyond a threshold the
  chain is halted.\<close>

definition halt_on_slash :: "env \<Rightarrow> KVStore \<Rightarrow> chain \<Rightarrow> nat \<Rightarrow> KVStore" where
  "halt_on_slash E k c toSlash =
     (if config E k ''PauseOnSlashThreshold'' > 0 \<and> toSlash \<ge> uint64_cast (config E k ''PauseOnSlashThreshold'')
      then SetMimir (SetMimir k ''StopFundYggdrasil'' (E_height E)) (''Halt'' @ c @ ''Chain'') (E_height E)
      else k)"

fun stolen_coins :: "env \<Rightarrow> Vault \<Rightarrow> coins \<Rightarrow> KVStore \<times> nat \<times> nat \<Rightarrow> (KVStore \<times> nat \<times> nat) option" where
  "stolen_coins E vault [] st = Some st"
| "stolen_coins E vault (coin # cs) (k, toSlash, stolen) =
     (let S = E_sdk E; pool = GetPool k (Coin_Asset coin);
          amount = min (min (Coin_Amount coin) (Coin_Amount (Vault_GetCoin vault (Coin_Asset coin)))) (Pool_BalanceAsset pool);
          value = Pool_AssetValueInRune S pool amount in
      if Coin_IsEmpty coin \<or> Pool_IsEmpty pool then stolen_coins E vault cs (k, toSlash, stolen)
      else do {
        stolen' \<leftarrow> uint_add S stolen value;
        if value = 0 then stolen_coins E vault cs (k, toSlash, stolen')
        else do {
          toSlash' \<leftarrow> uint_add S toSlash
            (GetUncappedShare S (uint64_cast (config E k ''SlashPenalty'')) 10000 value);
          stolen_coins E vault cs (halt_on_slash E k (Asset_Chain (Coin_Asset coin)) toSlash', toSlash', stolen')
        }
      })"

text \<open>Each member loses its share of the slash. The code then marks the operator of an empty yggdrasil vault as forced
  to leave, in a copy of the account that it does not store.\<close>

fun slash_members ::
  "env \<Rightarrow> 'b bank \<Rightarrow> nat \<Rightarrow> nat \<Rightarrow> pub_key list \<Rightarrow> KVStore \<times> nat \<Rightarrow> (KVStore \<times> nat) option" where
  "slash_members E B totalBond toSlash [] st = Some st"
| "slash_members E B totalBond toSlash (member # members) (k, slashedSum) =
     (case GetNodeAccountByPubKey (E_sdk E) k (E_height E) member of
        Inl _ \<Rightarrow> slash_members E B totalBond toSlash members (k, slashedSum)
      | Inr na \<Rightarrow> do {
          naBond \<leftarrow> CalcNodeLiquidityBond E k na;
          if naBond = 0 then slash_members E B totalBond toSlash members (k, slashedSum)
          else do {
            (r, k') \<leftarrow> SlashNodeAccountLP E B k na (min (GetSafeShare (E_sdk E) naBond totalBond toSlash) naBond);
            case r of
              Inl _ \<Rightarrow> slash_members E B totalBond toSlash members (k', slashedSum)
            | Inr (amount, _) \<Rightarrow> do {
                s \<leftarrow> uint_add (E_sdk E) slashedSum amount;
                slash_members E B totalBond toSlash members (k', s)
              }
          }
        })"

section \<open>Subsidies from the slashed bond\<close>

text \<open>What a pool lost: the asset, its amount and its value.\<close>

type_synonym fund = "Asset \<times> nat \<times> nat"

definition funds_to_subsidize :: "env \<Rightarrow> KVStore \<Rightarrow> coins \<Rightarrow> fund list" where
  "funds_to_subsidize E k cs =
     filter (\<lambda>(_, _, value). value \<noteq> 0)
       (map (\<lambda>coin. (Coin_Asset coin, Coin_Amount coin,
                     Pool_AssetValueInRune (E_sdk E) (GetPool k (Coin_Asset coin)) (Coin_Amount coin)))
         (filter (\<lambda>coin. \<not> Coin_IsEmpty coin \<and> \<not> Asset_IsBase (Coin_Asset coin)) cs))"

definition subsidize_pool :: "sdk \<Rightarrow> Pool \<Rightarrow> nat \<Rightarrow> nat \<Rightarrow> Pool option" where
  "subsidize_pool S pool stolen value =
     do {
       c \<leftarrow> uint_add S (Pool_BalanceCacao pool) value;
       a \<leftarrow> SafeSub S (Pool_BalanceAsset pool) stolen;
       Some (pool\<lparr>Pool_BalanceCacao := c, Pool_BalanceAsset := a\<rparr>)
     }"

fun subsidize_pools :: "env \<Rightarrow> 'b bank \<Rightarrow> fund list \<Rightarrow> 'b world \<Rightarrow> 'b outcome" where
  "subsidize_pools E B [] w = Some (None, w)"
| "subsidize_pools E B ((asset, stolen, value) # fs) w =
     (let pool = GetPool (W_kv w) asset in
      if Pool_IsEmpty pool then subsidize_pools E B fs w
      else do {
        pool' \<leftarrow> subsidize_pool (E_sdk E) pool stolen value;
        case SetPool (W_kv w) pool' of
          Inl _ \<Rightarrow> subsidize_pools E B fs w
        | Inr k \<Rightarrow>
            and_then (SendFromModuleToModule B (w\<lparr>W_kv := k\<rparr>) ReserveName AsgardName [NewCoin BaseAsset value]) (\<lambda>w'.
              do { _ \<leftarrow> uint64_of stolen; _ \<leftarrow> uint64_of value; subsidize_pools E B fs w' })
      })"

definition subsidy_part :: "sdk \<Rightarrow> Asset \<Rightarrow> nat \<Rightarrow> fund list \<Rightarrow> nat" where
  "subsidy_part S asset stolen fs = foldl (\<lambda>part (a, _, value). if Asset_Equals a asset then value div 2 else part) stolen fs"

text \<open>The reserve withdraws its liquidity from the pools whose mimir allows it; errors are logged.\<close>

fun withdraw_pol ::
  "env \<Rightarrow> ('b world \<Rightarrow> internal_msg \<Rightarrow> 'b outcome) \<Rightarrow> address \<Rightarrow> address \<Rightarrow> acc_address \<Rightarrow> nat \<Rightarrow> nat \<Rightarrow> fund list
     \<Rightarrow> Asset list \<Rightarrow> 'b world \<Rightarrow> 'b world option" where
  "withdraw_pol E run polAddress asgardAddress signer polLiquidity stolen fs [] w = Some w"
| "withdraw_pol E run polAddress asgardAddress signer polLiquidity stolen fs (asset # assets) w =
     (let val = mimir E (W_kv w) (''POL-'' @ Asset_MimirString asset);
          basisPts = GetSafeShare (E_sdk E) (subsidy_part (E_sdk E) asset stolen fs) polLiquidity 10000;
          tx = NewTx BlankTxID polAddress asgardAddress [NewCoin BaseAsset 1] [] ''MAYA-POL-REMOVE'' in
      if val = - 1 \<or> val = 0
      then withdraw_pol E run polAddress asgardAddress signer polLiquidity stolen fs assets w
      else do {
        (_, w') \<leftarrow> NewInternalHandler run w
          (Msg_WithdrawLiquidity (NewMsgWithdrawLiquidity tx polAddress basisPts asset BaseAsset signer));
        withdraw_pol E run polAddress asgardAddress signer polLiquidity stolen fs assets w'
      })"

definition subsidizePoolWithSlashBondV92 ::
  "env \<Rightarrow> 'b bank \<Rightarrow> ('b world \<Rightarrow> internal_msg \<Rightarrow> 'b outcome) \<Rightarrow> coins \<Rightarrow> nat \<Rightarrow> nat \<Rightarrow> 'b world \<Rightarrow> 'b outcome" where
  "subsidizePoolWithSlashBondV92 E B run cs totalBaseStolen slashedAmount w =
     (if totalBaseStolen = 0 \<or> slashedAmount = 0 then Some (None, w)
      else case GetModuleAddress (E_sdk E) (E_codecs E) B ReserveName of
        Inl e \<Rightarrow> Some (Some e, w)
      | Inr polAddress \<Rightarrow> do {
          let k = W_kv w;
          polLiquidity \<leftarrow> CalcTotalBondableLiquidity (E_sdk E) (E_codecs E) k polAddress;
          let stolen = (if polLiquidity < totalBaseStolen then polLiquidity else totalBaseStolen);
          let fs = funds_to_subsidize E k cs;
          limit \<leftarrow> uint_mul (E_sdk E) stolen (uint64_cast (config E k ''SubsidizeReserveMultiplier''));
          and_then (if GetRuneBalanceOfModule B w ReserveName > limit then subsidize_pools E B fs w else Some (None, w))
            (\<lambda>w1. case GetModuleAddress (E_sdk E) (E_codecs E) B AsgardName of
               Inl e \<Rightarrow> Some (Some e, w1)
             | Inr asgardAddress \<Rightarrow>
                 (case ListActiveValidators (W_kv w1) of
                    [] \<Rightarrow> Some (fails ''dev err: no active node accounts'', w1)
                  | na # _ \<Rightarrow>
                      map_option (\<lambda>w2. (None, w2))
                        (withdraw_pol E run polAddress asgardAddress (NA_NodeAddress na) polLiquidity stolen fs
                          (GetLiquidityPools (K_version (W_kv w1))) w1)))
        })"

definition subsidizePoolsWithSlashBond ::
  "env \<Rightarrow> 'b bank \<Rightarrow> ('b world \<Rightarrow> internal_msg \<Rightarrow> 'b outcome) \<Rightarrow> coins \<Rightarrow> nat \<Rightarrow> nat \<Rightarrow> 'b world \<Rightarrow> 'b outcome" where
  "subsidizePoolsWithSlashBond E B run cs totalBaseStolen slashedAmount w =
     (if K_version (W_kv w) (1, 92, 0)
      then subsidizePoolWithSlashBondV92 E B run cs totalBaseStolen slashedAmount w
      else Some (fails ''bad version'', w))"

definition SlashVaultToLP ::
  "env \<Rightarrow> 'b bank \<Rightarrow> ('b world \<Rightarrow> internal_msg \<Rightarrow> 'b outcome) \<Rightarrow> 'b world \<Rightarrow> pub_key \<Rightarrow> coins \<Rightarrow> bool \<Rightarrow> 'b outcome" where
  "SlashVaultToLP E B run w vaultPK cs subsidize =
     (if Coins_IsEmpty cs then Some (None, w)
      else case GetVault (W_kv w) (E_height E) vaultPK of
        Inl e \<Rightarrow> Some (Some e, w)
      | Inr vault \<Rightarrow> do {
          let membership = Vault_GetMembership (E_sdk E) vault;
          totalBond \<leftarrow> membership_bond E (W_kv w) membership 0;
          (k1, toSlash, stolen) \<leftarrow> stolen_coins E vault cs (W_kv w, 0, 0);
          (k2, slashedSum) \<leftarrow> slash_members E B totalBond toSlash membership (k1, 0);
          if subsidize then subsidizePoolsWithSlashBond E B run cs stolen slashedSum (w\<lparr>W_kv := k2\<rparr>)
          else Some (None, w\<lparr>W_kv := k2\<rparr>)
        })"

section \<open>Refunding the bond of a node\<close>

text \<open>Each position of the provider gives back the units asked for, or all of those bonded to the node; the value
  of the units is computed with the pool of \<open>asset\<close>, not of the position.\<close>

fun unbond_positions ::
  "env \<Rightarrow> Asset \<Rightarrow> nat \<Rightarrow> acc_address \<Rightarrow> LiquidityProvider list \<Rightarrow> KVStore \<times> nat \<Rightarrow> ((go_error + nat) \<times> KVStore) option" where
  "unbond_positions E asset units node [] (k, withdrawn) = Some (Inr withdrawn, k)"
| "unbond_positions E asset units node (lp # lps) (k, withdrawn) =
     do {
       let withdrawUnits = (if units = 0 \<or> units > LP_Units lp then LP_GetUnitsBondedToNode lp node else units);
       r \<leftarrow> calcLiquidityInCacao E k asset withdrawUnits;
       case r of
         Inl e \<Rightarrow> Some (Inl e, k)
       | Inr value \<Rightarrow> do {
           t \<leftarrow> uint_add (E_sdk E) withdrawn value;
           lp' \<leftarrow> LP_Unbond (E_sdk E) lp node withdrawUnits;
           unbond_positions E asset units node lps (SetLiquidityProvider k lp', t)
         }
     }"

text \<open>The reward of the withdrawn part is paid from the bond module.\<close>

definition reward_item :: "Tx \<Rightarrow> address \<Rightarrow> nat \<Rightarrow> TxOutItem" where
  "reward_item tx toAddress amount =
     \<lparr>TOI_Chain = Asset_Chain BaseAsset, TOI_ToAddress = toAddress, TOI_VaultPubKey = '''',
      TOI_Coin = NewCoin BaseAsset amount, TOI_Memo = '''', TOI_MaxGas = [], TOI_GasRate = 0, TOI_InHash = Tx_ID tx,
      TOI_OutHash = '''', TOI_ModuleName = BondName, TOI_Aggregator = '''', TOI_AggregatorTargetAsset = '''',
      TOI_AggregatorTargetLimit = None\<rparr>"

type_synonym 'b bond_refund = "((check \<times> NodeAccount \<times> BondProviders) \<times> 'b world) option"

definition pay_reward ::
  "env \<Rightarrow> 'b txout_store \<Rightarrow> Tx \<Rightarrow> acc_address \<Rightarrow> nat \<Rightarrow> nat \<Rightarrow> NodeAccount \<Rightarrow> BondProviders \<Rightarrow> 'b world \<Rightarrow> 'b bond_refund" where
  "pay_reward E txout tx provider withdrawn nodeBond na bp w =
     (if NA_Reward na = 0 then Some ((None, na, bp), w)
      else case NewAddress (E_codecs E) (acc_string (E_sdk E) provider) of
        Inl e \<Rightarrow> Some ((Some e, na, bp), w)
      | Inr toAddress \<Rightarrow> do {
          let bondRewards = GetSafeShare (E_sdk E) withdrawn nodeBond (NA_Reward na);
          left \<leftarrow> SafeSub (E_sdk E) (NA_Reward na) bondRewards;
          (r, w') \<leftarrow> txout w (reward_item tx toAddress bondRewards) 0;
          Some ((case r of Inl e \<Rightarrow> Some e | Inr _ \<Rightarrow> None, na\<lparr>NA_Reward := left\<rparr>, bp), w')
        })"

definition refund_provider ::
  "env \<Rightarrow> 'b txout_store \<Rightarrow> Tx \<Rightarrow> acc_address \<Rightarrow> Asset \<Rightarrow> nat \<Rightarrow> nat \<Rightarrow> NodeAccount \<Rightarrow> BondProviders \<Rightarrow> 'b world
     \<Rightarrow> 'b bond_refund" where
  "refund_provider E txout tx acc asset units nodeBond na bp w =
     (let k = W_kv w; provider = BondProviders_Get bp acc;
          assets = (if Asset_IsEmpty asset then GetLiquidityPools (K_version k) else [asset]);
          owner = acc_string (E_sdk E) acc in
      if Asset_IsEmpty asset \<and> units \<noteq> 0 then Some ((fails ''units must be zero when asset is empty'', na, bp), w)
      else if BondProvider_IsEmpty provider \<or> nodeBond = 0 then Some ((None, na, bp), w)
      else do {
        (r, k1) \<leftarrow> unbond_positions E asset units (NA_NodeAddress na)
          (GetLiquidityProviderByAssets (E_codecs E) k assets owner) (k, 0);
        case r of
          Inl e \<Rightarrow> Some ((Some e, na, bp), w\<lparr>W_kv := k1\<rparr>)
        | Inr withdrawn \<Rightarrow>
            if withdrawn = 0 then Some ((None, na, bp), w\<lparr>W_kv := k1\<rparr>)
            else do {
              bonded \<leftarrow> CalcLPLiquidityBond (E_sdk E) (E_codecs E) k1 owner (NA_NodeAddress na);
              pay_reward E txout tx (BP_BondAddress provider) withdrawn nodeBond na
                (if bonded = withdrawn then BondProviders_Unbond bp (BP_BondAddress provider) else bp) (w\<lparr>W_kv := k1\<rparr>)
            }
      })"

definition yggdrasil_of :: "env \<Rightarrow> KVStore \<Rightarrow> NodeAccount \<Rightarrow> go_error + Vault" where
  "yggdrasil_of E k na =
     (let pk = Secp256k1 (NA_PubKeySet na) in
      if \<not> VaultExists k pk then Inr EmptyVault
      else case GetVault k (E_height E) pk of
        Inl e \<Rightarrow> Inl e
      | Inr ygg \<Rightarrow> if Vault_IsYggdrasil ygg then Inr ygg else Inl (GoError ''this is not a Yggdrasil vault''))"

text \<open>At the end the funds of the yggdrasil vault are accounted for and the vault is removed.\<close>

definition close_yggdrasil ::
  "env \<Rightarrow> 'b bank \<Rightarrow> ('b world \<Rightarrow> internal_msg \<Rightarrow> 'b outcome) \<Rightarrow> Vault \<Rightarrow> nat \<Rightarrow> nat \<Rightarrow> 'b world \<Rightarrow> 'b outcome" where
  "close_yggdrasil E B run ygg yggRune slashedAmount w =
     do {
       (_, w1) \<leftarrow> subsidizePoolsWithSlashBond E B run (V_Coins ygg) yggRune slashedAmount w;
       ygg' \<leftarrow> Vault_SubFunds (E_sdk E) ygg (V_Coins ygg);
       case SetVault (E_sdk E) (W_kv w1) ygg' of
         Inl e \<Rightarrow> Some (Some e, w1)
       | Inr k \<Rightarrow>
           Some (case DeleteVault (E_sdk E) k (E_height E) (V_PubKey ygg') of
                   Inl e \<Rightarrow> (Some e, w1\<lparr>W_kv := k\<rparr>) | Inr k' \<Rightarrow> (None, w1\<lparr>W_kv := k'\<rparr>))
     }"

definition refundBondV105 ::
  "env \<Rightarrow> 'b bank \<Rightarrow> ('b world \<Rightarrow> internal_msg \<Rightarrow> 'b outcome) \<Rightarrow> 'b txout_store \<Rightarrow> Tx \<Rightarrow> acc_address \<Rightarrow> Asset \<Rightarrow> nat
     \<Rightarrow> NodeAccount \<Rightarrow> 'b world \<Rightarrow> ((check \<times> NodeAccount) \<times> 'b world) option" where
  "refundBondV105 E B run txout tx acc asset units na w =
     (if NA_Status na = NodeStatus_Active \<or> NA_Status na = NodeStatus_Ready then Some ((None, na), w)
      else do {
        let S = E_sdk E; let k = W_kv w;
        nodeBond \<leftarrow> CalcNodeLiquidityBond E k na;
        case yggdrasil_of E k na of
          Inl e \<Rightarrow> Some ((Some e, na), w)
        | Inr ygg \<Rightarrow> do {
            yggRune \<leftarrow> getTotalYggValueInRune E k ygg;
            (r, k1) \<leftarrow> SlashNodeAccountLP E B k na
              (min (GetUncappedShare S (uint64_cast (config E k ''SlashPenalty'')) 10000 yggRune) nodeBond);
            case r of
              Inl e \<Rightarrow> Some ((Some e, na), w\<lparr>W_kv := k1\<rparr>)
            | Inr (slashedAmount, _) \<Rightarrow> do {
                ((e, na1, bp), w2) \<leftarrow> refund_provider E txout tx acc asset units nodeBond na
                  (GetBondProviders S k (NA_NodeAddress na)) (w\<lparr>W_kv := k1\<rparr>);
                case e of
                  Some er \<Rightarrow> Some ((Some er, na1), w2)
                | None \<Rightarrow> do {
                    let na2 = (if NA_RequestedToLeave na1 then NodeAccount_UpdateStatus na1 NodeStatus_Disabled (E_height E) else na1);
                    let k3 = SetBondProviders S (SetNodeAccount S (W_kv w2) (E_height E) na2) bp;
                    (e', w') \<leftarrow> close_yggdrasil E B run ygg yggRune slashedAmount (w2\<lparr>W_kv := k3\<rparr>);
                    Some ((e', na2), w')
                  }
              }
          }
      })"

section \<open>Liquidity units are moved, never created\<close>

definition kv_sum :: "('v \<Rightarrow> nat) \<Rightarrow> 'v kv \<Rightarrow> nat" where
  "kv_sum f t = sum_list (map f (kv_values t))"

lemma kv_sum_updated:
  "kv_invar t \<Longrightarrow> kv_sum f (kv_set t key v) + (case kv_get t key of None \<Rightarrow> 0 | Some u \<Rightarrow> f u) = kv_sum f t + f v"
proof (induction t key v rule: kv_set.induct)
  case (2 k' v' t k v)
  have "k < k' \<Longrightarrow> map_of t k = None" using "2.prems" by (fastforce simp: kv_invar_def map_of_eq_None_iff)
  then show ?case using 2 by (auto simp: kv_sum_def kv_values_def kv_get_def kv_invar_def)
qed (simp add: kv_sum_def kv_values_def kv_get_def)

definition units_of :: "Asset \<Rightarrow> LiquidityProvider \<Rightarrow> nat" where
  "units_of a lp = (if LP_Asset lp = a then LP_Units lp else 0)"

definition stored_units :: "KVStore \<Rightarrow> Asset \<Rightarrow> nat" where
  "stored_units k a = kv_sum (units_of a) (K_liquidityProviders k)"

text \<open>The record of an address is stored under the key it is looked up with.\<close>

definition lp_readable :: "codecs \<Rightarrow> KVStore \<Rightarrow> Asset \<Rightarrow> address \<Rightarrow> bool" where
  "lp_readable L k asset addr \<longleftrightarrow>
     LP_Asset (GetLiquidityProvider L k asset addr) = asset
     \<and> lp_key (GetLiquidityProvider L k asset addr) = lp_key (empty_provider L asset addr)"

lemma lp_key_cong:
  "LP_Asset lp = LP_Asset lp' \<Longrightarrow> LP_CacaoAddress lp = LP_CacaoAddress lp' \<Longrightarrow> LP_AssetAddress lp = LP_AssetAddress lp'
    \<Longrightarrow> lp_key lp = lp_key lp'"
  by (simp add: lp_key_def LP_Key_def LP_GetAddress_def)

lemma units_read:
  "(case kv_get (K_liquidityProviders k) (lp_key (empty_provider L asset addr)) of None \<Rightarrow> 0 | Some u \<Rightarrow> units_of a u)
    = units_of a (GetLiquidityProvider L k asset addr)"
proof -
  have "LP_Units (empty_provider L asset addr) = 0" by (simp add: empty_provider_def)
  then show ?thesis
    by (simp add: GetLiquidityProvider_def units_of_def decode_provider_def Let_def split: option.split)
qed

lemma read_other:
  "lp_key lp \<noteq> lp_key (empty_provider L asset addr)
    \<Longrightarrow> GetLiquidityProvider L (SetLiquidityProvider k lp) asset addr = GetLiquidityProvider L k asset addr"
  by (simp add: GetLiquidityProvider_def SetLiquidityProvider_def kv_get_set)

lemma read_preset:
  "LP_CacaoAddress (GetLiquidityProvider L k asset addr) = '''' \<Longrightarrow> LP_CacaoAddress (empty_provider L asset addr) = ''''"
  "LP_AssetAddress (GetLiquidityProvider L k asset addr) = '''' \<Longrightarrow> LP_AssetAddress (empty_provider L asset addr) = ''''"
  by (auto simp: GetLiquidityProvider_def decode_provider_def Let_def split: option.splits if_splits)

text \<open>A record that was read and stored again with other units is still readable.\<close>

lemma read_same:
  assumes r: "lp_readable L k asset addr"
    and lp: "LP_Asset lp = LP_Asset (GetLiquidityProvider L k asset addr)"
      "LP_CacaoAddress lp = LP_CacaoAddress (GetLiquidityProvider L k asset addr)"
      "LP_AssetAddress lp = LP_AssetAddress (GetLiquidityProvider L k asset addr)"
  shows "lp_key lp = lp_key (empty_provider L asset addr)" "LP_Asset lp = asset"
    "lp_readable L (SetLiquidityProvider k lp) asset addr"
proof -
  show key: "lp_key lp = lp_key (empty_provider L asset addr)" and a: "LP_Asset lp = asset"
    using r lp_key_cong [OF lp] lp(1) by (auto simp: lp_readable_def)
  let ?p = "empty_provider L asset addr"
  have "GetLiquidityProvider L (SetLiquidityProvider k lp) asset addr = decode_provider ?p lp"
    by (simp add: GetLiquidityProvider_def SetLiquidityProvider_def kv_get_set key)
  moreover have "decode_provider ?p lp = lp"
    using lp read_preset [of L k asset addr] by (cases lp) (auto simp: decode_provider_def)
  ultimately show "lp_readable L (SetLiquidityProvider k lp) asset addr" by (simp add: lp_readable_def key a)
qed

lemma stored_units_set:
  assumes "kv_invar (K_liquidityProviders k)" and "lp_key lp = lp_key (empty_provider L asset addr)"
  shows "stored_units (SetLiquidityProvider k lp) a + units_of a (GetLiquidityProvider L k asset addr)
    = stored_units k a + units_of a lp"
  using kv_sum_updated [OF assms(1), of "units_of a" "lp_key lp" lp] units_read [where k = k and L = L and asset = asset and addr = addr and a = a] assms(2)
  by (simp add: stored_units_def SetLiquidityProvider_def)

lemma LP_Unbond_identity:
  "LP_Unbond S lp node units = Some lp'
    \<Longrightarrow> LP_Asset lp' = LP_Asset lp \<and> LP_CacaoAddress lp' = LP_CacaoAddress lp
      \<and> LP_AssetAddress lp' = LP_AssetAddress lp \<and> LP_Units lp' = LP_Units lp"
  by (auto simp: LP_Unbond_def Let_def split: if_splits)


text \<open>What the loops of the slash rely on: the pools and the positions of the bond providers and of the reserve are stored
  under their own keys, which differ.\<close>

definition slash_ready :: "codecs \<Rightarrow> KVStore \<Rightarrow> Asset list \<Rightarrow> address list \<Rightarrow> bool" where
  "slash_ready L k assets addrs \<longleftrightarrow>
     kv_invar (K_liquidityProviders k)
     \<and> distinct (map (\<lambda>(a, x). lp_key (empty_provider L a x)) (List.product assets addrs))
     \<and> list_all (\<lambda>a. Pool_Asset (GetPool k a) = a) assets
     \<and> list_all (\<lambda>(a, x). lp_readable L k a x) (List.product assets addrs)"

lemma slash_ready_keys:
  assumes "slash_ready L k assets addrs" and "a \<in> set assets" "x \<in> set addrs" "b \<in> set assets" "y \<in> set addrs"
    and "lp_key (empty_provider L a x) = lp_key (empty_provider L b y)"
  shows "a = b \<and> x = y"
proof -
  have "inj_on (\<lambda>(a, x). lp_key (empty_provider L a x)) (set (List.product assets addrs))"
    using assms(1) by (simp add: slash_ready_def distinct_map)
  from inj_onD [OF this, of "(a, x)" "(b, y)"] show ?thesis using assms by simp
qed

lemma slash_ready_read: "slash_ready L k assets addrs \<Longrightarrow> a \<in> set assets \<Longrightarrow> x \<in> set addrs \<Longrightarrow> lp_readable L k a x"
  by (auto simp: slash_ready_def list_all_iff)

text \<open>A record read, changed and stored again: the table stays ready, the other positions are as before.\<close>

lemma slash_ready_set:
  assumes r: "slash_ready L k assets addrs" and a: "a \<in> set assets" "x \<in> set addrs"
    and lp: "LP_Asset lp = LP_Asset (GetLiquidityProvider L k a x)"
      "LP_CacaoAddress lp = LP_CacaoAddress (GetLiquidityProvider L k a x)"
      "LP_AssetAddress lp = LP_AssetAddress (GetLiquidityProvider L k a x)"
  shows "slash_ready L (SetLiquidityProvider k lp) assets addrs"
    and "b \<in> set assets \<Longrightarrow> y \<in> set addrs \<Longrightarrow> (b, y) \<noteq> (a, x)
      \<Longrightarrow> GetLiquidityProvider L (SetLiquidityProvider k lp) b y = GetLiquidityProvider L k b y"
    and "stored_units (SetLiquidityProvider k lp) c + units_of c (GetLiquidityProvider L k a x)
      = stored_units k c + units_of c lp"
proof -
  note ra = slash_ready_read [OF r a] and key = read_same(1) [OF slash_ready_read [OF r a] lp]
  show other: "b \<in> set assets \<Longrightarrow> y \<in> set addrs \<Longrightarrow> (b, y) \<noteq> (a, x)
      \<Longrightarrow> GetLiquidityProvider L (SetLiquidityProvider k lp) b y = GetLiquidityProvider L k b y" for b y
    using slash_ready_keys [OF r a, of b y] by (intro read_other) (auto simp: key)
  have "lp_readable L (SetLiquidityProvider k lp) b y" if "b \<in> set assets" "y \<in> set addrs" for b y
    using other [OF that] read_same(3) [OF ra lp] slash_ready_read [OF r that]
    by (cases "(b, y) = (a, x)") (auto simp: lp_readable_def)
  moreover have "GetPool (SetLiquidityProvider k lp) b = GetPool k b" for b
    by (simp add: GetPool_def SetLiquidityProvider_def)
  ultimately show "slash_ready L (SetLiquidityProvider k lp) assets addrs"
    using r by (auto simp: slash_ready_def list_all_iff kv_set_invar SetLiquidityProvider_def)
  show "stored_units (SetLiquidityProvider k lp) c + units_of c (GetLiquidityProvider L k a x)
      = stored_units k c + units_of c lp"
    using r by (intro stored_units_set [OF _ key]) (simp add: slash_ready_def)
qed


text \<open>What a step of the slash keeps.\<close>

definition slash_keeps :: "codecs \<Rightarrow> Asset list \<Rightarrow> address list \<Rightarrow> KVStore \<Rightarrow> KVStore \<Rightarrow> bool" where
  "slash_keeps L assets addrs k k' \<longleftrightarrow>
     slash_ready L k' assets addrs \<and> (\<forall>c. stored_units k' c = stored_units k c)
     \<and> (\<exists>t. k' = k\<lparr>K_liquidityProviders := t\<rparr>)"

lemma slash_keeps_refl: "slash_ready L k assets addrs \<Longrightarrow> slash_keeps L assets addrs k k"
  by (auto simp: slash_keeps_def intro: exI [of _ "K_liquidityProviders k"])

lemma slash_keeps_trans:
  "slash_keeps L assets addrs k k1 \<Longrightarrow> slash_keeps L assets addrs k1 k2 \<Longrightarrow> slash_keeps L assets addrs k k2"
  by (auto simp: slash_keeps_def)

lemma slash_position_moves:
  assumes S: "cosmos_sdk (E_sdk E)" and r: "slash_ready (E_codecs E) k assets addrs"
    and a: "a \<in> set assets" "owner \<in> set addrs" "pol \<in> set addrs" "owner \<noteq> pol"
    and step: "slash_position E pol node slash naBond (GetLiquidityProvider (E_codecs E) k a owner) (k, t) = Some (k', t')"
  shows "slash_keeps (E_codecs E) assets addrs k k'
    \<and> (\<forall>b\<in>set assets. b \<noteq> a
      \<longrightarrow> GetLiquidityProvider (E_codecs E) k' b owner = GetLiquidityProvider (E_codecs E) k b owner)"
proof (cases "k' = k")
  case True
  then show ?thesis using slash_keeps_refl [OF r] by simp
next
  case False
  let ?L = "E_codecs E" let ?lp = "GetLiquidityProvider ?L k a owner" let ?pol = "GetLiquidityProvider ?L k a pol"
  let ?s = "GetSafeShare (E_sdk E) slash naBond (LP_GetUnitsBondedToNode ?lp node)"
  have la: "LP_Asset ?lp = a" "LP_Asset ?pol = a" "Pool_Asset (GetPool k a) = a"
    using slash_ready_read [OF r a(1,2)] slash_ready_read [OF r a(1,3)] r a(1)
    by (auto simp: lp_readable_def slash_ready_def list_all_iff)
  obtain lp1 where u: "LP_Unbond (E_sdk E) ?lp node ?s = Some lp1" and le: "?s \<le> LP_Units lp1"
    and k': "k' = SetLiquidityProvider (SetLiquidityProvider k (lp1\<lparr>LP_Units := LP_Units lp1 - ?s\<rparr>))
      (?pol\<lparr>LP_Units := LP_Units ?pol + ?s\<rparr>)"
    using step False
    by (auto simp: slash_position_def Let_def la bind_Some_iff cosmos_sdk.uint_Some [OF S] SetLiquidityProviders_def
        split: if_splits prod.splits)
  let ?lp' = "lp1\<lparr>LP_Units := LP_Units lp1 - ?s\<rparr>" let ?k1 = "SetLiquidityProvider k ?lp'"
  note id = LP_Unbond_identity [OF u]
  have e: "LP_Asset ?lp' = LP_Asset ?lp" "LP_CacaoAddress ?lp' = LP_CacaoAddress ?lp" "LP_AssetAddress ?lp' = LP_AssetAddress ?lp"
    by (simp_all add: id)
  note s1 = slash_ready_set [OF r a(1,2) e]
  have p: "GetLiquidityProvider ?L ?k1 a pol = ?pol" using s1(2) a by auto
  let ?pol' = "?pol\<lparr>LP_Units := LP_Units ?pol + ?s\<rparr>"
  have e2: "LP_Asset ?pol' = LP_Asset ?pol" "LP_CacaoAddress ?pol' = LP_CacaoAddress ?pol"
    "LP_AssetAddress ?pol' = LP_AssetAddress ?pol" by simp_all
  note s2 = slash_ready_set [OF s1(1) a(1,3), unfolded p, OF e2]
  have "stored_units k' c = stored_units k c" for c
    using s1(3) [of c] s2(3) [of c] le by (auto simp: k' units_of_def la id split: if_splits)
  moreover have "GetLiquidityProvider ?L k' b owner = GetLiquidityProvider ?L k b owner" if "b \<in> set assets" "b \<noteq> a" for b
    using s1(2) [OF that(1) a(2)] s2(2) [OF that(1) a(2)] that(2) by (auto simp: k')
  moreover have "\<exists>t. k' = k\<lparr>K_liquidityProviders := t\<rparr>" by (auto simp: k' SetLiquidityProvider_def)
  ultimately show ?thesis using s2(1) by (simp add: slash_keeps_def k')
qed

lemma slash_positions_move:
  assumes "cosmos_sdk (E_sdk E)" and "owner \<in> set addrs" "pol \<in> set addrs" "owner \<noteq> pol"
  shows "set as \<subseteq> set assets \<Longrightarrow> distinct as \<Longrightarrow> slash_ready (E_codecs E) k assets addrs
    \<Longrightarrow> \<forall>a\<in>set as. GetLiquidityProvider (E_codecs E) k a owner = GetLiquidityProvider (E_codecs E) k0 a owner
    \<Longrightarrow> slash_positions E pol node slash naBond (GetLiquidityProviderByAssets (E_codecs E) k0 as owner) (k, t) = Some (k', t')
    \<Longrightarrow> slash_keeps (E_codecs E) assets addrs k k'"
proof (induction as arbitrary: k t)
  case Nil
  then show ?case by (simp add: GetLiquidityProviderByAssets_def slash_keeps_refl)
next
  case (Cons a as)
  let ?lp = "GetLiquidityProvider (E_codecs E) k0 a owner"
  show ?case
  proof (cases "LP_Units ?lp > 0")
    case False
    then show ?thesis using Cons.IH [of k t] Cons.prems by (simp add: GetLiquidityProviderByAssets_def)
  next
    case True
    then obtain k1 t1 where 1: "slash_position E pol node slash naBond ?lp (k, t) = Some (k1, t1)"
      and rest: "slash_positions E pol node slash naBond (GetLiquidityProviderByAssets (E_codecs E) k0 as owner) (k1, t1) = Some (k', t')"
      using Cons.prems(5) by (auto simp: GetLiquidityProviderByAssets_def bind_Some_iff)
    have lp: "?lp = GetLiquidityProvider (E_codecs E) k a owner" using Cons.prems(4) by simp
    have a: "a \<in> set assets" using Cons.prems(1) by simp
    note s = slash_position_moves [OF assms(1) Cons.prems(3) a assms(2-4) 1 [unfolded lp]]
    have "slash_keeps (E_codecs E) assets addrs k1 k'"
      using Cons.prems s rest by (intro Cons.IH) (auto simp: slash_keeps_def)
    then show ?thesis using s slash_keeps_trans by blast
  qed
qed

lemma slash_providers_move:
  assumes "cosmos_sdk (E_sdk E)" and "pol \<in> set addrs"
  shows "slash_ready (E_codecs E) k (GetLiquidityPools (K_version k)) addrs
    \<Longrightarrow> \<forall>b\<in>set bs. acc_string (E_sdk E) (BP_BondAddress b) \<in> set addrs - {pol}
    \<Longrightarrow> slash_providers E pol node slash naBond bs (k, t) = Some (k', t')
    \<Longrightarrow> slash_keeps (E_codecs E) (GetLiquidityPools (K_version k)) addrs k k'"
proof (induction bs arbitrary: k t)
  case Nil
  then show ?case by (simp add: slash_keeps_refl)
next
  case (Cons b bs)
  let ?a = "GetLiquidityPools (K_version k)"
  obtain k1 t1 where 1: "slash_positions E pol node slash naBond
        (GetLiquidityProviderByAssets (E_codecs E) k ?a (acc_string (E_sdk E) (BP_BondAddress b))) (k, t) = Some (k1, t1)"
    and rest: "slash_providers E pol node slash naBond bs (k1, t1) = Some (k', t')"
    using Cons.prems(3) by (auto simp: bind_Some_iff)
  have d: "distinct ?a"
    by (simp add: GetLiquidityPools_def LiquidityPoolsV105_def LiquidityPoolsV104_def BTCAsset_def BNBAsset_def ETHAsset_def RUNEAsset_def
        BTCChain_def BNBChain_def ETHChain_def THORChain_def mk_asset_def)
  have s: "slash_keeps (E_codecs E) ?a addrs k k1"
    by (rule slash_positions_move [OF assms(1) _ assms(2) _ _ d Cons.prems(1) _ 1]) (use Cons.prems(2) in auto)
  then have "K_version k1 = K_version k" by (auto simp: slash_keeps_def)
  then have "slash_keeps (E_codecs E) ?a addrs k1 k'"
    using Cons.IH [of k1 t1] Cons.prems(2) s rest by (auto simp: slash_keeps_def)
  then show ?case using s slash_keeps_trans by blast
qed

lemma SlashNodeAccountLP_moves:
  assumes "cosmos_sdk (E_sdk E)" and pol: "GetModuleAddress (E_sdk E) (E_codecs E) B ReserveName = Inr pol"
    and owners: "owners = map (\<lambda>b. acc_string (E_sdk E) (BP_BondAddress b)) (BPS_Providers (GetBondProviders (E_sdk E) k (NA_NodeAddress na)))"
    and r: "slash_ready (E_codecs E) k (GetLiquidityPools (K_version k)) (pol # owners)"
    and slash: "SlashNodeAccountLP E B k na slash = Some (res, k')"
  shows "slash_keeps (E_codecs E) (GetLiquidityPools (K_version k)) (pol # owners) k k'"
proof (cases "k' = k")
  case True
  then show ?thesis using r slash_keeps_refl by blast
next
  case False
  then obtain s nb t where "slash_providers E pol (NA_NodeAddress na) s nb
      (BPS_Providers (GetBondProviders (E_sdk E) k (NA_NodeAddress na))) (k, 0, []) = Some (k', t)"
    using slash by (auto simp: SlashNodeAccountLP_def pol bind_Some_iff Let_def split: if_splits)
  moreover have "distinct (pol # owners)"
    using r by (auto simp: slash_ready_def GetLiquidityPools_def LiquidityPoolsV105_def LiquidityPoolsV104_def distinct_map inj_on_def
        split: if_splits)
  ultimately show ?thesis using r by (intro slash_providers_move [OF assms(1)]) (auto simp: owners)
qed


text \<open>C16: slashing a node moves liquidity units from its bond providers to the reserve: for every asset the units over
  all stored positions are the same afterwards, and nothing but the positions changes. The providers and the reserve
  have to have different keys, and the pools and positions have to be stored under their own keys.\<close>

theorem SlashNodeAccountLP_conserves:
  assumes "cosmos_sdk (E_sdk E)" and "GetModuleAddress (E_sdk E) (E_codecs E) B ReserveName = Inr pol"
    and "slash_ready (E_codecs E) k (GetLiquidityPools (K_version k))
      (pol # map (\<lambda>b. acc_string (E_sdk E) (BP_BondAddress b)) (BPS_Providers (GetBondProviders (E_sdk E) k (NA_NodeAddress na))))"
    and "SlashNodeAccountLP E B k na slash = Some (res, k')"
  shows "stored_units k' a = stored_units k a \<and> k' = k\<lparr>K_liquidityProviders := K_liquidityProviders k'\<rparr>"
  using SlashNodeAccountLP_moves [OF assms(1,2) refl assms(3,4)] by (auto simp: slash_keeps_def)

definition slash_store :: KVStore where
  "slash_store = bonded_store\<lparr>K_pools := map (\<lambda>a. (pool_key a, bonded_pool\<lparr>Pool_Asset := a\<rparr>)) [BTCAsset, RUNEAsset, ETHAsset]\<rparr>"

definition slash_bank :: "ledger bank" where
  "slash_bank = ledger_bank\<lparr>bank_GetModuleAddress := (\<lambda>m. ''maya'' @ m)\<rparr>"

definition slash_node :: NodeAccount where
  "slash_node = (sample_node [])\<lparr>NA_NodeAddress := ''n1''\<rparr>"

lemma slash_sample_addresses:
  "GetModuleAddress sdk256 sample_codecs slash_bank ReserveName = Inr ''mayareserve''"
  "is_genesis_node sample_codecs (NA_BondAddress slash_node) = False"
  by (simp add: GetModuleAddress_def slash_bank_def sdk256_def ReserveName_def) code_simp+

lemma slash_sample_keys:
  "distinct (map (\<lambda>(a, x). lp_key (empty_provider sample_codecs a x))
     (List.product [BTCAsset, RUNEAsset, ETHAsset] [''mayareserve'', ''maya1'']))"
  by code_simp


lemma slash_sample_pools:
  "a \<in> {BTCAsset, RUNEAsset, ETHAsset} \<Longrightarrow> GetPool slash_store a = bonded_pool\<lparr>Pool_Asset := a\<rparr>"
proof -
  have "distinct (map pool_key [BTCAsset, RUNEAsset, ETHAsset])" by code_simp
  then show "a \<in> {BTCAsset, RUNEAsset, ETHAsset} \<Longrightarrow> GetPool slash_store a = bonded_pool\<lparr>Pool_Asset := a\<rparr>"
    by (auto simp: GetPool_def kv_get_def slash_store_def decode_pool_def bonded_pool_def sample_pool_def NewPool_def)
qed

lemma slash_sample_read:
  assumes "a \<in> {BTCAsset, RUNEAsset, ETHAsset}" and "x \<in> {''mayareserve'', ''maya1''}"
  shows "GetLiquidityProvider sample_codecs slash_store a x =
     (if a = BTCAsset \<and> x = ''maya1'' then sample_lp else empty_provider sample_codecs a x)"
proof -
  have d: "decode_provider (empty_provider sample_codecs BTCAsset ''maya1'') sample_lp = sample_lp"
    by (simp add: decode_provider_def sample_lp_def)
  have "GetLiquidityProvider sample_codecs slash_store a x =
     (if lp_key (empty_provider sample_codecs a x) = lp_key sample_lp
      then decode_provider (empty_provider sample_codecs a x) sample_lp else empty_provider sample_codecs a x)"
    by (simp add: GetLiquidityProvider_def kv_get_def slash_store_def bonded_store_def)
  then show ?thesis using assms slash_sample_keys bonded_keys(1) [symmetric] d by auto
qed

lemma slash_sample_ready: "slash_ready sample_codecs slash_store [BTCAsset, RUNEAsset, ETHAsset] [''mayareserve'', ''maya1'']"
proof -
  have a: "LP_Asset (empty_provider sample_codecs a x) = a" "LP_Asset sample_lp = BTCAsset" for a x
    by (simp_all add: empty_provider_def sample_lp_def)
  have "lp_readable sample_codecs slash_store a x"
    if "a \<in> {BTCAsset, RUNEAsset, ETHAsset}" "x \<in> {''mayareserve'', ''maya1''}" for a x
    using bonded_keys(1) by (simp add: lp_readable_def slash_sample_read [OF that] a)
  moreover have "kv_invar (K_liquidityProviders slash_store)" by (simp add: slash_store_def bonded_store_def kv_invar_def)
  ultimately show ?thesis using slash_sample_keys slash_sample_pools by (simp add: slash_ready_def)
qed

lemma slash_sample_owners:
  "GetBondProviders sdk256 slash_store (NA_NodeAddress slash_node) =
     \<lparr>BPS_NodeAddress = ''n1'', BPS_NodeOperatorFee = 0,
      BPS_Providers = [\<lparr>BP_BondAddress = ''maya1'', BP_Bonded = True\<rparr>]\<rparr>"
  "GetLiquidityPools (K_version slash_store) = [BTCAsset, RUNEAsset, ETHAsset]"
  by (simp_all add: GetBondProviders_def kv_get_def slash_store_def bonded_store_def slash_node_def GetLiquidityPools_def
      LiquidityPoolsV105_def empty_store_def)

lemma slash_sample_positions:
  "GetLiquidityProviderByAssets sample_codecs slash_store [BTCAsset, RUNEAsset, ETHAsset] ''maya1'' = [sample_lp]"
proof -
  have "BTCAsset \<noteq> RUNEAsset" "BTCAsset \<noteq> ETHAsset" by code_simp+
  then show ?thesis by (simp add: GetLiquidityProviderByAssets_def slash_sample_read empty_provider_def sample_lp_def)
qed

lemma slash_sample_bond: "CalcNodeLiquidityBond (sample_env 5) slash_store slash_node = Some 6000"
proof -
  have p: "GetPool slash_store BTCAsset = bonded_pool\<lparr>Pool_Asset := BTCAsset\<rparr>" using slash_sample_pools by simp
  have "units_bonded_to ''n1'' sample_lp = 30" "NA_NodeAddress slash_node = ''n1''" "LP_Asset sample_lp = BTCAsset"
    "acc_string sdk256 ''maya1'' = ''maya1''" "K_version slash_store (1, 105, 0)"
    by (simp_all add: units_bonded_to_def sample_lp_def slash_node_def sdk256_def slash_store_def bonded_store_def empty_store_def)
  then show ?thesis
    using slash_sample_positions slash_sample_owners
    by (simp add: CalcNodeLiquidityBond_def CalcLPLiquidityBond_def calcLPLiquidityBondV105_def p add_unit_value_def bonded_pool_def
        sample_pool_def NewPool_def GetSafeShare_def GetUncappedShare_def Pool_AssetValueInRune_def
        sdk256_def round_div_def dec_one_def)
qed

lemma slash_sample_run:
  "\<exists>amounts lp. SlashNodeAccountLP (sample_env 5) slash_bank slash_store slash_node 3000 = Some (Inr (3000, amounts),
    SetLiquidityProviders slash_store [lp, (empty_provider sample_codecs BTCAsset ''mayareserve'')\<lparr>LP_Units := 15\<rparr>])"
proof -
  have p: "GetPool slash_store BTCAsset = bonded_pool\<lparr>Pool_Asset := BTCAsset\<rparr>" using slash_sample_pools by simp
  have sh: "GetSafeShare sdk256 3000 6000 30 = 15" "GetSafeShare sdk256 3000 6000 6000 = 3000"
    by (simp_all add: GetSafeShare_def GetUncappedShare_def sdk256_def round_div_def dec_one_def)
  have pol: "GetLiquidityProvider sample_codecs slash_store BTCAsset ''mayareserve'' = empty_provider sample_codecs BTCAsset ''mayareserve''"
    by (simp add: slash_sample_read)
  have f: "NA_NodeAddress slash_node = ''n1''" "LP_Asset sample_lp = BTCAsset" "acc_string sdk256 ''maya1'' = ''maya1''"
    "LP_GetUnitsBondedToNode sample_lp ''n1'' = 30" "LP_Units sample_lp = 100"
    "LP_Units (empty_provider sample_codecs BTCAsset ''mayareserve'') = 0" "Pool_IsAvailable (bonded_pool\<lparr>Pool_Asset := BTCAsset\<rparr>)"
    by (simp_all add: LP_GetUnitsBondedToNode_def sample_lp_def slash_node_def sdk256_def empty_provider_def Pool_IsAvailable_def
        bonded_pool_def sample_pool_def NewPool_def)
  obtain lp1 where u: "LP_Unbond sdk256 sample_lp ''n1'' 15 = Some lp1"
    by (simp add: LP_Unbond_def sample_lp_def sdk256.SafeSub_eq)
  have "LP_Units lp1 = 100" using LP_Unbond_identity [OF u] f by simp
  then show ?thesis
    using slash_sample_owners slash_sample_positions slash_sample_bond slash_sample_addresses u
    by (auto simp: SlashNodeAccountLP_def slash_position_def p sh pol f sdk256.uint_laws)
qed

theorem SlashNodeAccountLP_conserves_witness:
  "\<exists>amounts k'. SlashNodeAccountLP (sample_env 5) slash_bank slash_store slash_node 3000 = Some (Inr (3000, amounts), k')
    \<and> LP_Units (GetLiquidityProvider sample_codecs k' BTCAsset ''mayareserve'') = 15 \<and> stored_units k' BTCAsset = 100"
proof -
  let ?pol = "(empty_provider sample_codecs BTCAsset ''mayareserve'')\<lparr>LP_Units := 15\<rparr>"
  obtain amounts lp where run: "SlashNodeAccountLP (sample_env 5) slash_bank slash_store slash_node 3000
      = Some (Inr (3000, amounts), SetLiquidityProviders slash_store [lp, ?pol])" (is "_ = Some (_, ?k)")
    using slash_sample_run by blast
  have "stored_units ?k BTCAsset = stored_units slash_store BTCAsset"
    using SlashNodeAccountLP_conserves [of "sample_env 5" slash_bank "''mayareserve''" slash_store slash_node 3000, OF _ _ _ run]
      slash_sample_ready slash_sample_owners slash_sample_addresses sdk256.cosmos_sdk_axioms by (simp add: sdk256_def)
  also have "\<dots> = 100"
    by (simp add: stored_units_def kv_sum_def kv_values_def slash_store_def bonded_store_def units_of_def sample_lp_def)
  finally have "stored_units ?k BTCAsset = 100" .
  moreover have "lp_key ?pol = lp_key (empty_provider sample_codecs BTCAsset ''mayareserve'')"
    by (rule lp_key_cong) simp_all
  then have "LP_Units (GetLiquidityProvider sample_codecs ?k BTCAsset ''mayareserve'') = 15"
    by (simp add: GetLiquidityProvider_def SetLiquidityProviders_def SetLiquidityProvider_def kv_get_set decode_provider_def Let_def)
  ultimately show ?thesis using run by blast
qed

section \<open>Refunding all bonds\<close>

lemma rounds_to_zero: "2 * \<bar>x * y\<bar> \<le> \<bar>y\<bar> \<Longrightarrow> y \<noteq> 0 \<Longrightarrow> x = 0" for x y :: int
proof (rule ccontr)
  assume "2 * \<bar>x * y\<bar> \<le> \<bar>y\<bar>" "y \<noteq> 0" "x \<noteq> 0"
  moreover have "1 * \<bar>y\<bar> \<le> \<bar>x\<bar> * \<bar>y\<bar>" using \<open>x \<noteq> 0\<close> by (intro mult_right_mono) auto
  ultimately show False by (simp add: abs_mult)
qed

context cosmos_sdk
begin

lemma share_of_nothing: "GetUncappedShare S x y 0 = 0"
proof (rule ccontr)
  assume n: "GetUncappedShare S x y 0 \<noteq> 0"
  then have "x \<noteq> 0" "y \<noteq> 0" by (auto intro: ccontr)
  with n obtain aD tD pD q res r where s: "dec_from_str S 0 = Some aD" "dec_quo S tD pD = Some q" "dec_quo S aD q = Some res"
    "dec_round S res = Some r" "uint_of_int S r = Some (GetUncappedShare S x y 0)"
    by (auto simp: GetUncappedShare_def bind_Some_iff split: option.splits)
  have "aD = 0" using dec_from_str [OF s(1)] by simp
  then have "2 * \<bar>res * q\<bar> \<le> \<bar>q\<bar>" "q \<noteq> 0" using dec_quo_near [OF s(3)] by simp_all
  then have "res = 0" by (rule rounds_to_zero)
  then have "2 * \<bar>r * dec_one\<bar> \<le> \<bar>dec_one\<bar>" using dec_round_near [OF s(4)] by simp
  then have "r = 0" by (rule rounds_to_zero) simp
  then show False using s(5) n by (simp add: uint_of_int)
qed

lemma LP_Unbond_defined: "\<exists>lp'. LP_Unbond S lp node units = Some lp'"
proof -
  have "\<exists>bs'. unbond_units S node units bs = Some bs'" for bs
    by (induction bs) (auto simp: SafeSub_eq)
  then show ?thesis by (auto simp: LP_Unbond_def SafeSub_eq Let_def)
qed

end

text \<open>Without a pool under the name of the empty asset, no unit has a value there: the first position with
  units of the node ends the refund.\<close>

lemma unbond_positions_nameless:
  assumes "cosmos_sdk (E_sdk E)" and "\<exists>lp\<in>set lps. LP_GetUnitsBondedToNode lp node > 0"
  shows "kv_get (K_pools k) (pool_key asset) = None
    \<Longrightarrow> \<exists>e k'. unbond_positions E asset 0 node lps (k, 0) = Some (Inl e, k')"
  using assms(2)
proof (induction lps arbitrary: k)
  case (Cons lp lps)
  have p: "GetPool k asset = NewPool" using Cons.prems(1) by (simp add: GetPool_def)
  show ?case
  proof (cases "LP_GetUnitsBondedToNode lp node > 0")
    case True
    then show ?thesis by (simp add: calcLiquidityInCacao_def p NewPool_def)
  next
    case False
    obtain lp' where "LP_Unbond (E_sdk E) lp node 0 = Some lp'" using cosmos_sdk.LP_Unbond_defined [OF assms(1)] by blast
    moreover have "kv_get (K_pools (SetLiquidityProvider k lp')) (pool_key asset) = None"
      using Cons.prems(1) by (simp add: SetLiquidityProvider_def)
    moreover have "calcLiquidityInCacao E k asset 0 = Some (Inr 0)"
      by (simp add: calcLiquidityInCacao_def p NewPool_def GetSafeShare_def Pool_AssetValueInRune_def Let_def
          cosmos_sdk.share_zero [OF assms(1)] cosmos_sdk.uint_laws [OF assms(1)])
    ultimately show ?thesis
      using Cons.IH [of "SetLiquidityProvider k lp'"] Cons.prems(2) False by (auto simp: cosmos_sdk.uint_laws [OF assms(1)])
  qed
qed simp



end
