(* ===== verification/NodeHandlers.thy ===== *)
theory NodeHandlers
  imports Slasher
begin

text \<open>
  The handlers of the messages that node operators send, \<open>x/mayachain/handler_*.go\<close>: ban, network fee, mimir, node pause
  chain, node keys, aztec address, forgive slash, and the names of \<open>handler_manage_mayaname.go\<close>. Each has the
  validation and the work of the current version and the \<open>Run\<close> that composes them. Events are not modelled; the
  parameters of the IBC transfer module are a pair of flags.
\<close>

section \<open>Validating and handling\<close>

definition Run :: "check option \<Rightarrow> 'b outcome \<Rightarrow> 'b world \<Rightarrow> 'b outcome" where
  "Run validate handle w = do { e \<leftarrow> validate; case e of Some er \<Rightarrow> Some (Some er, w) | None \<Rightarrow> handle }"

definition since :: "KVStore \<Rightarrow> nat \<times> nat \<times> nat \<Rightarrow> check option \<Rightarrow> check option" where
  "since k ver c = (if K_version k ver then c else Some (fails ''bad version''))"

definition handled_since :: "'b world \<Rightarrow> nat \<times> nat \<times> nat \<Rightarrow> 'b outcome \<Rightarrow> 'b outcome" where
  "handled_since w ver r = (if K_version (W_kv w) ver then r else Some (fails ''bad version'', w))"

definition and_check :: "check \<Rightarrow> check \<Rightarrow> check" where
  "and_check a b = (case a of Some e \<Rightarrow> Some e | None \<Rightarrow> b)"

definition unless_active_signers :: "env \<Rightarrow> 'b bank \<Rightarrow> KVStore \<Rightarrow> acc_address list \<Rightarrow> check" where
  "unless_active_signers E B k signers =
     (if isSignedByActiveNodeAccounts E B k signers then None else fails ''not authorized'')"

text \<open>The cost of a message, and the test for it: building a coin with a negative amount panics.\<close>

definition native_cost :: "env \<Rightarrow> KVStore \<Rightarrow> int" where
  "native_cost E k =
     (let c = mimir E k ''NativeTransactionFee'' in if c < 0 then C_int64 (E_cv E) ''NativeTransactionFee'' else c)"

definition has_cost :: "env \<Rightarrow> 'b bank \<Rightarrow> 'b world \<Rightarrow> acc_address \<Rightarrow> bool option" where
  "has_cost E B w signer =
     (let c = native_cost E (W_kv w) in
      if c < 0 then None else Some (int (bank_GetBalance B (W_bank w) signer (Asset_Native BaseNative)) \<ge> c))"

definition pay_cost :: "env \<Rightarrow> 'b bank \<Rightarrow> 'b world \<Rightarrow> acc_address \<Rightarrow> 'b outcome" where
  "pay_cost E B w signer =
     SendFromAccountToModule B w signer ReserveName [NewCoin BaseAsset (uint64_cast (native_cost E (W_kv w)))]"

definition pay_cost_unless_zero :: "env \<Rightarrow> 'b bank \<Rightarrow> 'b world \<Rightarrow> acc_address \<Rightarrow> 'b outcome" where
  "pay_cost_unless_zero E B w signer =
     (if uint64_cast (native_cost E (W_kv w)) = 0 then Some (None, w) else pay_cost E B w signer)"

section \<open>Ban\<close>

definition BanHandler_validate :: "env \<Rightarrow> 'b bank \<Rightarrow> 'b world \<Rightarrow> MsgBan \<Rightarrow> check option" where
  "BanHandler_validate E B w m =
     since (W_kv w) (0, 1, 0)
       (Some (and_check (MsgBan_ValidateBasic m) (unless_active_signers E B (W_kv w) [MBan_Signer m])))"

text \<open>A new voter pays a tenth of a percent of the minimum bond.\<close>

definition charge_banner :: "env \<Rightarrow> 'b bank \<Rightarrow> KVStore \<Rightarrow> NodeAccount \<Rightarrow> acc_address \<Rightarrow> BanVoter \<Rightarrow> (check \<times> KVStore) option" where
  "charge_banner E B k banner signer voter =
     do {
       bannerBond \<leftarrow> CalcNodeLiquidityBond E k banner;
       if BanVoter_HasSigned (E_sdk E) voter signer \<or> BV_BlockHeight voter \<noteq> 0 then Some (None, k)
       else do {
         let minBond = mimir E k ''MinimumBondInCacao'';
         slashAmount \<leftarrow> uint_quo (E_sdk E)
           (uint64_cast (if minBond < 0 then C_int64 (E_cv E) ''MinimumBondInCacao'' else minBond)) 1000;
         (r, k') \<leftarrow> SlashNodeAccountLP E B k banner (if slashAmount > bannerBond then bannerBond else slashAmount);
         Some (case r of Inl e \<Rightarrow> Some e | Inr _ \<Rightarrow> None, k')
       }
     }"

definition vote_ban :: "env \<Rightarrow> KVStore \<Rightarrow> node_accounts \<Rightarrow> NodeAccount \<Rightarrow> BanVoter \<Rightarrow> acc_address \<Rightarrow> KVStore" where
  "vote_ban E k active toBan voter signer =
     (let S = E_sdk E; voter1 = BanVoter_Sign S voter signer; k1 = SetBanVoter S k voter1 in
      if \<not> BanVoter_HasConsensus S voter1 active \<or> BV_BlockHeight voter1 > 0 then k1
      else SetNodeAccount S (SetBanVoter S k1 (voter1\<lparr>BV_BlockHeight := E_height E\<rparr>)) (E_height E)
             (toBan\<lparr>NA_ForcedToLeave := True, NA_LeaveScore := 1\<rparr>))"

definition BanHandler_handleV90 :: "env \<Rightarrow> 'b bank \<Rightarrow> KVStore \<Rightarrow> MsgBan \<Rightarrow> (check \<times> KVStore) option" where
  "BanHandler_handleV90 E B k m =
     (let S = E_sdk E; toBan = GetNodeAccount S k (E_height E) (MBan_NodeAddress m);
          banner = GetNodeAccount S k (E_height E) (MBan_Signer m);
          voter = GetBanVoter S k (MBan_NodeAddress m) in
      if NodeAccount_Valid toBan \<noteq> None then Some (NodeAccount_Valid toBan, k)
      else if NA_ForcedToLeave toBan then Some (None, k)
      else if NA_Status toBan \<notin> {NodeStatus_Active, NodeStatus_Standby}
      then Some (fails ''cannot ban a node account that is not currently active or standby'', k)
      else if NodeAccount_Valid banner \<noteq> None then Some (NodeAccount_Valid banner, k)
      else do {
        (e, k1) \<leftarrow> charge_banner E B k banner (MBan_Signer m) voter;
        case e of
          Some er \<Rightarrow> Some (Some er, k1)
        | None \<Rightarrow> Some (None, vote_ban E k1 (ListActiveValidators k) toBan voter (MBan_Signer m))
      })"

definition BanHandler_Run :: "env \<Rightarrow> 'b bank \<Rightarrow> 'b world \<Rightarrow> MsgBan \<Rightarrow> 'b outcome" where
  "BanHandler_Run E B w m =
     Run (BanHandler_validate E B w m)
       (handled_since w (1, 90, 0)
         (map_option (\<lambda>(e, k). (e, w\<lparr>W_kv := k\<rparr>)) (BanHandler_handleV90 E B (W_kv w) m))) w"

section \<open>Network fee\<close>

definition NetworkFeeHandler_validate :: "env \<Rightarrow> 'b bank \<Rightarrow> 'b world \<Rightarrow> MsgNetworkFee \<Rightarrow> check option" where
  "NetworkFeeHandler_validate E B w m =
     since (W_kv w) (0, 1, 0)
       (Some (and_check (MsgNetworkFee_ValidateBasic m) (unless_active_signers E B (W_kv w) [MNF_Signer m])))"

definition reported_network_fee :: "MsgNetworkFee \<Rightarrow> NetworkFee" where
  "reported_network_fee m = NewNetworkFee (MNF_Chain m) (MNF_TransactionSize m) (MNF_TransactionFeeRate m)"

definition NetworkFeeHandler_handleV47 :: "env \<Rightarrow> KVStore \<Rightarrow> MsgNetworkFee \<Rightarrow> check \<times> KVStore" where
  "NetworkFeeHandler_handleV47 E k m =
     (let S = E_sdk E; active = ListActiveValidators k;
          voter = GetObservedNetworkFeeVoter k (MNF_BlockHeight m) (MNF_Chain m) (wrap64 (int (MNF_TransactionFeeRate m)));
          points = C_int64 (E_cv E) ''ObserveSlashPoints''; flex = C_int64 (E_cv E) ''ObservationDelayFlexibility'';
          k1 = IncSlashPoints S k points [MNF_Signer m];
          (new, voter1) = NetworkFeeVoter_Sign S voter (MNF_Signer m);
          k2 = SetObservedNetworkFeeVoter k1 voter1 in
      if \<not> new then (None, k1)
      else if \<not> NetworkFeeVoter_HasConsensus S voter1 active then (None, k2)
      else if NV_BlockHeight voter1 > 0
      then (None, if NV_BlockHeight voter1 + flex \<ge> E_height E then DecSlashPoints S k2 points [MNF_Signer m] else k2)
      else
        let voter2 = voter1\<lparr>NV_BlockHeight := E_height E\<rparr>;
            k3 = DecSlashPoints S (SetObservedNetworkFeeVoter k2 voter2) points (NetworkFeeVoter_GetSigners S voter2)
        in case SaveNetworkFee k3 (MNF_Chain m) (reported_network_fee m) of
             Inl e \<Rightarrow> (fails ''fail to save network fee'', k3) | Inr k4 \<Rightarrow> (None, k4))"

definition NetworkFeeHandler_Run :: "env \<Rightarrow> 'b bank \<Rightarrow> 'b world \<Rightarrow> MsgNetworkFee \<Rightarrow> 'b outcome" where
  "NetworkFeeHandler_Run E B w m =
     Run (NetworkFeeHandler_validate E B w m)
       (handled_since w (0, 47, 0)
         (let (e, k) = NetworkFeeHandler_handleV47 E (W_kv w) m in Some (e, w\<lparr>W_kv := k\<rparr>))) w"

section \<open>Mimir\<close>

text \<open>The administrators of the build for the main network.\<close>

definition ADMINS :: "string list" where
  "ADMINS =
     [''maya1tqn0l6spm9fukjv6az9nhffm40k0003rlqp5xt'', ''maya18z343fsdlav47chtkyp0aawqt6sgxsh3vjy2vz'',
      ''maya1a7gg93dgwlulsrqf6qtage985ujhpu068zllw7'']"

definition isAdmin :: "sdk \<Rightarrow> acc_address \<Rightarrow> bool" where
  "isAdmin S acc \<longleftrightarrow> list_ex (\<lambda>admin. acc_from_bech32 S admin = Some acc) ADMINS"

text \<open>The regular expression \<open>^[a-zA-Z0-9-]+$\<close>.\<close>

definition mimir_key_char :: "char \<Rightarrow> bool" where
  "mimir_key_char c \<longleftrightarrow> c = CHR ''-'' \<or> (let n = of_char c :: nat in
     48 \<le> n \<and> n \<le> 57 \<or> 65 \<le> n \<and> n \<le> 90 \<or> 97 \<le> n \<and> n \<le> 122)"

definition mimirValidKeyV95 :: "string \<Rightarrow> bool" where
  "mimirValidKeyV95 key \<longleftrightarrow> key \<noteq> '''' \<and> list_all mimir_key_char key"

definition MimirHandler_validate :: "env \<Rightarrow> 'b bank \<Rightarrow> 'b world \<Rightarrow> MsgMimir \<Rightarrow> check option" where
  "MimirHandler_validate E B w m =
     since (W_kv w) (1, 95, 0)
       (Some (and_check (MsgMimir_ValidateBasic m)
         (if \<not> mimirValidKeyV95 (MM_Key m) \<or> length (MM_Key m) > 64 then fails ''invalid mimir key''
          else if isAdmin (E_sdk E) (MM_Signer m) then None
          else unless_active_signers E B (W_kv w) [MM_Signer m])))"

text \<open>The flags of the IBC transfer module, receive and send. The key is compared as it was sent.\<close>

definition ibc_flag :: "int \<Rightarrow> bool \<Rightarrow> bool" where
  "ibc_flag v old = (if v = 1 then True else if v = 0 then False else old)"

definition setIBCTransfer :: "string \<Rightarrow> int \<Rightarrow> bool \<times> bool \<Rightarrow> bool \<times> bool" where
  "setIBCTransfer key v params =
     (if key = ''IBCRECEIVEENABLED'' then (ibc_flag v (fst params), snd params)
      else if key = ''IBCSENDENABLED'' then (fst params, ibc_flag v (snd params))
      else params)"

definition admin_mimir :: "KVStore \<Rightarrow> MsgMimir \<Rightarrow> bool \<times> bool \<Rightarrow> KVStore \<times> bool \<times> bool" where
  "admin_mimir k m ibc =
     (if MM_Value m < 0 then (DeleteMimir k (MM_Key m), ibc)
      else (SetMimir k (MM_Key m) (MM_Value m),
            if toUpper (MM_Key m) \<in> {''IBCRECEIVEENABLED'', ''IBCSENDENABLED''}
            then setIBCTransfer (MM_Key m) (MM_Value m) ibc else ibc))"

text \<open>The votes are counted over a Go map; a super majority does not depend on its order.\<close>

definition lock_in_votes ::
  "env \<Rightarrow> int \<Rightarrow> MsgMimir \<Rightarrow> KVStore \<Rightarrow> KVStore" where
  "lock_in_votes E currentMimirValue m k =
     (let (v, has) = hd (NodeMimirs_HasSuperMajority (E_sdk E) (GetNodeMimirs k (MM_Key m)) (MM_Key m)
            (NodeAccounts_GetNodeAddresses (ListActiveValidators k))) in
      if MM_Value m = currentMimirValue \<or> \<not> has \<or> currentMimirValue = v then k
      else SetMimir k (MM_Key m) v)"

definition MimirHandler_handleV92 ::
  "env \<Rightarrow> 'b bank \<Rightarrow> 'b world \<Rightarrow> bool \<times> bool \<Rightarrow> MsgMimir
     \<Rightarrow> ((check \<times> bool \<times> bool) \<times> 'b world) option" where
  "MimirHandler_handleV92 E B w ibc m =
     (let currentMimirValue = mimir E (W_kv w) (MM_Key m) in
      if isAdmin (E_sdk E) (MM_Signer m)
      then let (k, ibc') = admin_mimir (W_kv w) m ibc in Some ((None, ibc'), w\<lparr>W_kv := k\<rparr>)
      else do {
        let na = GetNodeAccount (E_sdk E) (W_kv w) (E_height E) (MM_Signer m);
        (e, w1) \<leftarrow> pay_cost_unless_zero E B w (NA_NodeAddress na);
        case e of
          Some er \<Rightarrow> Some ((Some er, ibc), w1)
        | None \<Rightarrow>
            let k = SetNodeMimir (W_kv w1) (MM_Key m) (MM_Value m) (MM_Signer m)
            in Some ((None, ibc), w1\<lparr>W_kv := lock_in_votes E currentMimirValue m k\<rparr>)
      })"

definition MimirHandler_Run ::
  "env \<Rightarrow> 'b bank \<Rightarrow> 'b world \<Rightarrow> bool \<times> bool \<Rightarrow> MsgMimir
     \<Rightarrow> ((check \<times> bool \<times> bool) \<times> 'b world) option" where
  "MimirHandler_Run E B w ibc m =
     do {
       e \<leftarrow> MimirHandler_validate E B w m;
       case e of
         Some er \<Rightarrow> Some ((Some er, ibc), w)
       | None \<Rightarrow> if K_version (W_kv w) (1, 92, 0) then MimirHandler_handleV92 E B w ibc m
                 else Some ((fails ''bad version'', ibc), w)
     }"

section \<open>Pausing all chains\<close>

definition NodePauseChainHandler_validate :: "env \<Rightarrow> 'b bank \<Rightarrow> 'b world \<Rightarrow> MsgNodePauseChain \<Rightarrow> check option" where
  "NodePauseChainHandler_validate E B w m =
     since (W_kv w) (0, 1, 0)
       (Some (and_check (MsgNodePauseChain_ValidateBasic m) (unless_active_signers E B (W_kv w) [MNP_Signer m])))"

definition last_churn :: "Vault list \<Rightarrow> int" where
  "last_churn vs = foldl (\<lambda>h v. if V_StatusSince v > h then V_StatusSince v else h) (- 1) vs"

text \<open>The new height of the pause, and whether the node has used its turn.\<close>

definition pause_height :: "int \<Rightarrow> int \<Rightarrow> int \<Rightarrow> int \<Rightarrow> int \<times> bool" where
  "pause_height v height pauseHeight blocks =
     (if v > 0 then (if pauseHeight > height then wrap64 (pauseHeight + blocks) else wrap64 (height + blocks), True)
      else if v < 0 \<and> pauseHeight > height then (wrap64 (pauseHeight - blocks), True)
      else (pauseHeight, False))"

definition NodePauseChainHandler_handleV87 :: "env \<Rightarrow> KVStore \<Rightarrow> MsgNodePauseChain \<Rightarrow> check \<times> KVStore" where
  "NodePauseChainHandler_handleV87 E k m =
     (case GetAsgardVaultsByStatus (E_sdk E) k (E_height E) VaultStatus_ActiveVault of
        Inl e \<Rightarrow> (Some e, k)
      | Inr active \<Rightarrow>
          if GetNodePauseChain (E_sdk E) k (MNP_Signer m) > last_churn active
          then (fails ''node has already chosen pause/resume since the last churn'', k)
          else
            let blocks = mimir E k ''NodePauseChainBlocks'';
                (pauseHeight, used) = pause_height (MNP_Value m) (E_height E) (mimir E k ''NodePauseChainGlobal'')
                  (if blocks < 0 then C_int64 (E_cv E) ''NodePauseChainBlocks'' else blocks)
            in (None, SetMimir (if used then SetNodePauseChain (E_sdk E) k (E_height E) (MNP_Signer m) else k)
                        ''NodePauseChainGlobal'' pauseHeight))"

text \<open>The older version differs in the events only; without a version nothing is done.\<close>

definition NodePauseChainHandler_Run :: "env \<Rightarrow> 'b bank \<Rightarrow> 'b world \<Rightarrow> MsgNodePauseChain \<Rightarrow> 'b outcome" where
  "NodePauseChainHandler_Run E B w m =
     Run (NodePauseChainHandler_validate E B w m)
       (if K_version (W_kv w) (0, 1, 0)
        then let (e, k) = NodePauseChainHandler_handleV87 E (W_kv w) m in Some (e, w\<lparr>W_kv := k\<rparr>)
        else Some (None, w)) w"

section \<open>Keys and addresses of a node\<close>

definition SetNodeKeysHandler_validate ::
  "env \<Rightarrow> 'b bank \<Rightarrow> (string \<Rightarrow> bool) \<Rightarrow> 'b world \<Rightarrow> MsgSetNodeKeys \<Rightarrow> check option" where
  "SetNodeKeysHandler_validate E B consOk w m =
     since (W_kv w) (0, 64, 0) (do {
       let k = W_kv w; let na = GetNodeAccount (E_sdk E) k (E_height E) (MSK_Signer m);
       if MsgSetNodeKeys_ValidateBasic consOk m \<noteq> None then Some (MsgSetNodeKeys_ValidateBasic consOk m)
       else if NodeAccount_IsEmpty na then Some (fails ''unauthorized account'')
       else do {
         enough \<leftarrow> has_cost E B w (MSK_Signer m);
         Some (and_check
           (first_error
             [(\<not> enough, ''not enough balance''),
              (NA_Status na = NodeStatus_Active, ''node is active, so it can't update itself''),
              (NA_Status na = NodeStatus_Disabled, ''node is disabled, so it can't update itself'')])
           (and_check (EnsureNodeKeysUnique k (MSK_ValidatorConsPubKey m) (MSK_PubKeySetSet m))
             (if PubKeySet_IsEmpty (NA_PubKeySet na) then None else fails ''node already has pubkey set assigned'')))
       }
     })"

definition SetNodeKeysHandler_handleV57 :: "env \<Rightarrow> 'b bank \<Rightarrow> 'b world \<Rightarrow> MsgSetNodeKeys \<Rightarrow> 'b outcome" where
  "SetNodeKeysHandler_handleV57 E B w m =
     (let S = E_sdk E; cost = uint64_cast (native_cost E (W_kv w));
          na = NodeAccount_UpdateStatus (GetNodeAccount S (W_kv w) (E_height E) (MSK_Signer m)) NodeStatus_Standby (E_height E);
          na' = na\<lparr>NA_PubKeySet := MSK_PubKeySetSet m, NA_ValidatorConsPubKey := MSK_ValidatorConsPubKey m\<rparr> in
      and_then (pay_cost E B w (MSK_Signer m)) (\<lambda>w1.
        let w2 = w1\<lparr>W_kv := SetNodeAccount S (W_kv w1) (E_height E) na'\<rparr>
        in if cost = 0 then Some (None, w2)
           else SendFromModuleToModule B w2 BondName ReserveName [NewCoin BaseNative cost]))"

definition SetNodeKeysHandler_Run ::
  "env \<Rightarrow> 'b bank \<Rightarrow> (string \<Rightarrow> bool) \<Rightarrow> 'b world \<Rightarrow> MsgSetNodeKeys \<Rightarrow> 'b outcome" where
  "SetNodeKeysHandler_Run E B consOk w m =
     Run (SetNodeKeysHandler_validate E B consOk w m)
       (handled_since w (0, 57, 0) (SetNodeKeysHandler_handleV57 E B w m)) w"

definition SetAztecAddressHandler_validate ::
  "env \<Rightarrow> 'b bank \<Rightarrow> 'b world \<Rightarrow> MsgSetAztecAddress \<Rightarrow> check option" where
  "SetAztecAddressHandler_validate E B w m =
     since (W_kv w) (1, 89, 0) (do {
       let k = W_kv w; let na = GetNodeAccount (E_sdk E) k (E_height E) (MSA_Signer m);
       if MsgSetAztecAddress_ValidateBasic (E_codecs E) m \<noteq> None
       then Some (MsgSetAztecAddress_ValidateBasic (E_codecs E) m)
       else if NodeAccount_IsEmpty na then Some (fails ''unauthorized account'')
       else do {
         enough \<leftarrow> has_cost E B w (MSA_Signer m);
         Some (and_check
           (first_error
             [(\<not> enough, ''not enough balance''),
              (NA_Status na = NodeStatus_Disabled, ''node is disabled, so it can't update itself''),
              (\<not> Address_IsEmpty (NA_AztecAddress na), ''node already has aztec address set'')])
           (EnsureAztecAddressUnique k (MSA_AztecAddress m)))
       }
     })"

definition SetAztecAddressHandler_handleV89 :: "env \<Rightarrow> 'b bank \<Rightarrow> 'b world \<Rightarrow> MsgSetAztecAddress \<Rightarrow> 'b outcome" where
  "SetAztecAddressHandler_handleV89 E B w m =
     (let S = E_sdk E;
          na = NodeAccount_UpdateStatus (GetNodeAccount S (W_kv w) (E_height E) (MSA_Signer m)) NodeStatus_Standby (E_height E) in
      and_then (pay_cost E B w (MSA_Signer m)) (\<lambda>w1.
        Some (None, w1\<lparr>W_kv := SetNodeAccount S (W_kv w1) (E_height E) (na\<lparr>NA_AztecAddress := MSA_AztecAddress m\<rparr>)\<rparr>)))"

definition SetAztecAddressHandler_Run :: "env \<Rightarrow> 'b bank \<Rightarrow> 'b world \<Rightarrow> MsgSetAztecAddress \<Rightarrow> 'b outcome" where
  "SetAztecAddressHandler_Run E B w m =
     Run (SetAztecAddressHandler_validate E B w m)
       (handled_since w (1, 89, 0) (SetAztecAddressHandler_handleV89 E B w m)) w"

section \<open>Forgiving slash points\<close>

definition ForgiveSlash_validate :: "env \<Rightarrow> 'b bank \<Rightarrow> 'b world \<Rightarrow> MsgForgiveSlash \<Rightarrow> check option" where
  "ForgiveSlash_validate E B w m =
     since (W_kv w) (0, 1, 0)
       (Some (and_check (MsgForgiveSlash_ValidateBasic m) (unless_active_signers E B (W_kv w) [MFS_Signer m])))"

definition forgivable :: "env \<Rightarrow> KVStore \<Rightarrow> acc_address \<Rightarrow> check" where
  "forgivable E k addr =
     (let na = GetNodeAccount (E_sdk E) k (E_height E) addr in
      if addr = [] then None
      else and_check (NodeAccount_Valid na)
             (if NA_Status na \<in> {NodeStatus_Active, NodeStatus_Standby} then None
              else fails ''cannot forgive slash of a node account that is not currently active or standby''))"

definition vote_forgive :: "env \<Rightarrow> KVStore \<Rightarrow> MsgForgiveSlash \<Rightarrow> KVStore" where
  "vote_forgive E k m =
     (let S = E_sdk E; active = ListActiveValidators k; v0 = GetForgiveSlashVoter S k (MFS_NodeAddress m);
          v1 = (if \<not> ForgiveSlashVoter_HasSigned S v0 (MFS_Signer m) \<and> FV_ProposedBlockHeight v0 = 0
                then v0\<lparr>FV_ProposedBlockHeight := E_height E\<rparr> else v0) in
      if ForgiveSlashVoter_HasExpired v1 (E_height E) then k
      else
        let v2 = ForgiveSlashVoter_Sign S v1 (MFS_Signer m); k1 = SetForgiveSlashVoter S k v2 in
        if \<not> ForgiveSlashVoter_HasConsensus S v2 active \<or> FV_BlockHeight v2 > 0 then k1
        else DecSlashPoints S (SetForgiveSlashVoter S k1 (v2\<lparr>FV_BlockHeight := E_height E\<rparr>))
               (wrap64 (int (MFS_Blocks m mod 2 ^ 64)))
               (if MFS_NodeAddress m \<noteq> [] then [MFS_NodeAddress m] else map NA_NodeAddress active))"

definition ForgiveSlash_handleV1 :: "env \<Rightarrow> KVStore \<Rightarrow> MsgForgiveSlash \<Rightarrow> check \<times> KVStore" where
  "ForgiveSlash_handleV1 E k m =
     (case and_check (forgivable E k (MFS_NodeAddress m))
             (NodeAccount_Valid (GetNodeAccount (E_sdk E) k (E_height E) (MFS_Signer m))) of
        Some e \<Rightarrow> (Some e, k) | None \<Rightarrow> (None, vote_forgive E k m))"

definition ForgiveSlash_Run :: "env \<Rightarrow> 'b bank \<Rightarrow> 'b world \<Rightarrow> MsgForgiveSlash \<Rightarrow> 'b outcome" where
  "ForgiveSlash_Run E B w m =
     Run (ForgiveSlash_validate E B w m)
       (handled_since w (0, 1, 0) (let (e, k) = ForgiveSlash_handleV1 E (W_kv w) m in Some (e, w\<lparr>W_kv := k\<rparr>))) w"

section \<open>Names\<close>

text \<open>The regular expression \<open>^[a-zA-Z0-9+_-]+$\<close>.\<close>

definition name_char :: "char \<Rightarrow> bool" where
  "name_char c \<longleftrightarrow> c \<in> {CHR ''+'', CHR ''_''} \<or> mimir_key_char c"

definition IsValidMAYANameV1 :: "string \<Rightarrow> bool" where
  "IsValidMAYANameV1 n \<longleftrightarrow> n \<noteq> '''' \<and> list_all name_char n"

definition validateNameV1 :: "string \<Rightarrow> check" where
  "validateNameV1 n = first_error
     [(length n > 30, ''MAYAName cannot exceed 30 characters''), (\<not> IsValidMAYANameV1 n, ''invalid MAYAName'')]"

definition ManageMAYANameHandler_validateV1 :: "env \<Rightarrow> KVStore \<Rightarrow> MsgManageMAYAName \<Rightarrow> check" where
  "ManageMAYANameHandler_validateV1 E k m =
     and_check (MsgManageMAYAName_ValidateBasic (E_codecs E) m)
       (if \<not> MAYANameExists k (E_height E) (MMN_Name m)
        then and_check (validateNameV1 (MMN_Name m))
               (if Coin_Amount (MMN_Coin m) \<le> uint64_cast (C_int64 (E_cv E) ''TNSRegisterFee'')
                then fails ''not enough funds'' else None)
        else case GetMAYAName k (E_height E) (MMN_Name m) of
               Inl e \<Rightarrow> Some e
             | Inr name \<Rightarrow> first_error
                 [(MN_Owner name \<noteq> MMN_Signer m \<and> E_height E \<le> MN_ExpireBlockHeight name, ''no authorization''),
                  (MN_ExpireBlockHeight name < MMN_ExpireBlockHeight m, ''cannot artificially inflate expire block height'')])"

definition ManageMAYANameHandler_validate :: "env \<Rightarrow> 'b world \<Rightarrow> MsgManageMAYAName \<Rightarrow> check option" where
  "ManageMAYANameHandler_validate E w m =
     since (W_kv w) (0, 1, 0) (Some (ManageMAYANameHandler_validateV1 E (W_kv w) m))"

text \<open>The blocks that a payment buys: a registration comes with a year, the rest of the coin is divided by the fee per
  block. A fee of zero and an amount of more than 64 bits panic.\<close>

definition extend_name :: "env \<Rightarrow> KVStore \<Rightarrow> bool \<Rightarrow> nat \<Rightarrow> MAYAName \<Rightarrow> MAYAName option" where
  "extend_name E k exists amount tn =
     do {
       rest \<leftarrow> (if exists then Some amount
                else SafeSub (E_sdk E) amount (uint64_cast (config E k ''TNSRegisterFee'')));
       n \<leftarrow> uint64_of rest;
       let feePerBlock = config E k ''TNSFeePerBlock'';
       let free = (if exists then 0 else C_int64 (E_cv E) ''BlocksPerYear'');
       let addBlocks = wrap64 (free + quot64 (wrap64 (int n)) feePerBlock);
       if feePerBlock = 0 then None
       else Some (tn\<lparr>MN_ExpireBlockHeight :=
         wrap64 ((if MN_ExpireBlockHeight tn < E_height E then E_height E else MN_ExpireBlockHeight tn) + addBlocks)\<rparr>)
     }"

definition update_name :: "MsgManageMAYAName \<Rightarrow> MAYAName \<Rightarrow> MAYAName" where
  "update_name m tn =
     (let t1 = (if MMN_ExpireBlockHeight m > 0 \<and> MMN_ExpireBlockHeight m < MN_ExpireBlockHeight tn
                then tn\<lparr>MN_ExpireBlockHeight := MMN_ExpireBlockHeight m\<rparr> else tn);
          t2 = (if \<not> Asset_Equals (MN_PreferredAsset t1) (MMN_PreferredAsset m) \<and> \<not> Asset_IsEmpty (MMN_PreferredAsset m)
                then t1\<lparr>MN_PreferredAsset := MMN_PreferredAsset m\<rparr> else t1);
          t3 = MAYAName_SetAlias t2 (MMN_Chain m) (MMN_Address m)
      in if MMN_Owner m \<noteq> [] then t3\<lparr>MN_Owner := MMN_Owner m\<rparr> else t3)"

definition ManageMAYANameHandler_handleV1 :: "env \<Rightarrow> KVStore \<Rightarrow> MsgManageMAYAName \<Rightarrow> (check \<times> KVStore) option" where
  "ManageMAYANameHandler_handleV1 E k m =
     (if mimir E k ''MAYANames'' = 0 then Some (fails ''MAYANames are currently disabled'', k)
      else
        let exists = MAYANameExists k (E_height E) (MMN_Name m); amount = Coin_Amount (MMN_Coin m) in
        case (if exists then GetMAYAName k (E_height E) (MMN_Name m)
              else Inr ((EmptyMAYAName (MMN_Name m))\<lparr>MN_Owner := MMN_Signer m\<rparr>)) of
          Inl e \<Rightarrow> Some (Some e, k)
        | Inr tn \<Rightarrow>
            if amount \<noteq> 0 \<and> validateNameV1 (MMN_Name m) \<noteq> None then Some (validateNameV1 (MMN_Name m), k)
            else do {
              tn' \<leftarrow> (if amount = 0 then Some tn else extend_name E k exists amount tn);
              Some (None, SetMAYAName k (update_name m tn'))
            })"

definition ManageMAYANameHandler_Run :: "env \<Rightarrow> 'b world \<Rightarrow> MsgManageMAYAName \<Rightarrow> 'b outcome" where
  "ManageMAYANameHandler_Run E w m =
     Run (ManageMAYANameHandler_validate E w m)
       (handled_since w (0, 1, 0)
         (map_option (\<lambda>(e, k). (e, w\<lparr>W_kv := k\<rparr>)) (ManageMAYANameHandler_handleV1 E (W_kv w) m))) w"

section \<open>Votes on configuration values\<close>

definition counter_at :: "(int \<times> nat) list \<Rightarrow> int \<Rightarrow> nat" where
  "counter_at c v = (case map_of c v of None \<Rightarrow> 0 | Some n \<Rightarrow> n)"

lemma counter_at_incr: "counter_at (counter_incr c w) v = counter_at c v + (if v = w then 1 else 0)"
  by (induction c w rule: counter_incr.induct) (auto simp: counter_at_def)

lemma counter_at_signer:
  "counter_at (count_signer x active c) v = counter_at c v + (if v = NM_Value x then count_list active (NM_Signer x) else 0)"
  by (induction x active c rule: count_signer.induct) (auto simp: counter_at_incr)

text \<open>The active nodes that are still to be counted and whose vote is \<open>v\<close>.\<close>

definition voters_for :: "acc_address list \<Rightarrow> acc_address list \<Rightarrow> node_mimirs \<Rightarrow> string \<Rightarrow> int \<Rightarrow> acc_address set" where
  "voters_for active vs m key v = {a \<in> set active. a \<notin> set vs \<and> NodeMimirs_Get m key a = (v, True)}"

lemma NodeMimirs_Get_Cons:
  "NodeMimirs_Get (x # m) key a = (if mimir_match key a x then (NM_Value x, True) else NodeMimirs_Get m key a)"
  by (simp add: NodeMimirs_Get_def)

lemma count_votes_at:
  assumes "distinct active" and inj: "inj_on (acc_string S) (set active)"
  shows "set vs \<subseteq> set active \<Longrightarrow>
    counter_at (count_votes S key active m c (map (acc_string S) vs)) v
      = counter_at c v + card (voters_for active vs m key v)"
proof (induction m arbitrary: c vs)
  case Nil
  then show ?case by (simp add: voters_for_def NodeMimirs_Get_def)
next
  case (Cons x m)
  let ?s = "NM_Signer x"
  have mm: "mimir_match key a x \<longleftrightarrow> equalFold (NM_Key x) key \<and> ?s = a" for a by (auto simp: mimir_match_def)
  have inj': "acc_string S ?s \<in> acc_string S ` set vs \<longleftrightarrow> ?s \<in> set vs" if "?s \<in> set active"
    using inj Cons.prems that by (auto simp: inj_on_def)
  consider "\<not> equalFold (NM_Key x) key" | "?s \<notin> set active" | "equalFold (NM_Key x) key" "?s \<in> set vs"
    | "equalFold (NM_Key x) key" "?s \<in> set active" "?s \<notin> set vs" by blast
  then show ?case
  proof cases
    case 1
    then have "voters_for active vs (x # m) key v = voters_for active vs m key v"
      by (simp add: voters_for_def NodeMimirs_Get_Cons mm)
    then show ?thesis using 1 Cons.IH [OF Cons.prems] by simp
  next
    case 2
    then have "voters_for active vs (x # m) key v = voters_for active vs m key v"
      by (auto simp: voters_for_def NodeMimirs_Get_Cons mm)
    then show ?thesis using 2 Cons.IH [OF Cons.prems] by (simp add: counter_at_signer count_list_0_iff)
  next
    case 3
    then have "voters_for active vs (x # m) key v = voters_for active vs m key v"
      by (auto simp: voters_for_def NodeMimirs_Get_Cons mm)
    then show ?thesis using 3 Cons.IH [OF Cons.prems] by simp
  next
    case 4
    have "voters_for active vs (x # m) key v
        = voters_for active (?s # vs) m key v \<union> (if v = NM_Value x then {?s} else {})"
      using 4 by (auto simp: voters_for_def NodeMimirs_Get_Cons mm)
    moreover have "?s \<notin> voters_for active (?s # vs) m key v" "finite (voters_for active (?s # vs) m key v)"
      by (auto simp: voters_for_def)
    ultimately have "card (voters_for active vs (x # m) key v)
        = card (voters_for active (?s # vs) m key v) + (if v = NM_Value x then 1 else 0)" by (cases "v = NM_Value x") simp_all
    moreover have "count_list active ?s = 1"
      using assms(1) 4(2) by (induction active) (auto simp: count_list_0_iff)
    ultimately show ?thesis
      using 4 Cons.IH [of "?s # vs" "count_signer x active c"] Cons.prems inj' by (simp add: counter_at_signer)
  qed
qed


lemma super_majority_voters:
  assumes "distinct active" and "inj_on (acc_string S) (set active)"
    and "hd (NodeMimirs_HasSuperMajority S m key active) = (v, True)"
  shows "HasSuperMajority (int (card {a \<in> set active. NodeMimirs_Get m key a = (v, True)})) (int (length active))"
proof -
  let ?c = "count_votes S key active m [] []"
  let ?ws = "filter (\<lambda>(v, n). HasSuperMajority (int n) (int (length active))) ?c"
  have "?ws \<noteq> []" and "hd (map (\<lambda>(val, count). (val, True)) ?ws) = (v, True)"
    using assms(3) by (auto simp: NodeMimirs_HasSuperMajority_def countActive_def Let_def split: if_splits)
  then obtain n where "(v, n) \<in> set ?ws" by (cases ?ws) auto
  then have n: "(v, n) \<in> set ?c" "HasSuperMajority (int n) (int (length active))" by auto
  have "distinct (map fst ?c)" using count_votes_total [of S key active m] by simp
  then have "counter_at ?c v = n" using n(1) by (simp add: counter_at_def)
  then have "n = card (voters_for active [] m key v)"
    using count_votes_at [OF assms(1,2), of "[]" key m "[]" v] by (simp add: counter_at_def)
  then show ?thesis using n(2) by (simp add: voters_for_def)
qed

lemma SetNodeMimir_kv [simp]:
  "K_int64 (SetNodeMimir k key v acc) = K_int64 k" "K_version (SetNodeMimir k key v acc) = K_version k"
  "K_nodeAccounts (SetNodeMimir k key v acc) = K_nodeAccounts k"
  by (simp_all add: SetNodeMimir_def Let_def)

lemma GetMimir_cong:
  "K_version k (1, 92, 0) \<Longrightarrow> K_int64 k' = K_int64 k \<Longrightarrow> K_version k' = K_version k \<Longrightarrow> GetMimir S k' key = GetMimir S k key"
  by (simp add: GetMimir_def haveKraken_def getInt64_def)



definition vote_nodes :: node_accounts where
  "vote_nodes = map (\<lambda>a. (sample_node [])\<lparr>NA_NodeAddress := a, NA_BondAddress := ''maya1''\<rparr>) [''na'', ''nb'', ''nc'']"

definition vote_world :: "ledger world" where
  "vote_world = \<lparr>W_kv = empty_store
     \<lparr>K_nodeAccounts := map (\<lambda>na. (node_key sdk256 (NA_NodeAddress na), na)) vote_nodes,
      K_int64 := [(mimir_key ''NativeTransactionFee'', 0)],
      K_nodeMimirs := [(node_mimir_key ''KEY'', [\<lparr>NM_Key = ''KEY'', NM_Value = 7, NM_Signer = ''na''\<rparr>])]\<rparr>,
     W_bank = empty_ledger\<rparr>"

lemma vote_active:
  "ListActiveValidators (W_kv vote_world) = vote_nodes" "K_version (W_kv vote_world) = (\<lambda>_. True)"
  "K_int64 (W_kv vote_world) = [(mimir_key ''NativeTransactionFee'', 0)]"
  by (simp_all add: ListActiveValidators_def ListValidatorsByStatus_def vote_world_def vote_nodes_def kv_values_def sample_node_def
      NewNodeAccount_def NodeAccount_UpdateStatus_def empty_store_def)

lemma vote_account:
  "a \<in> {''na'', ''nb'', ''nc''} \<Longrightarrow> GetNodeAccount sdk256 (W_kv vote_world) h a = (sample_node [])\<lparr>NA_NodeAddress := a, NA_BondAddress := ''maya1''\<rparr>"
proof -
  have "distinct (map (node_key sdk256) [''na'', ''nb'', ''nc''])" by (simp add: node_key_def sdk256_def GetKey_def toUpper_def) code_simp
  then show "a \<in> {''na'', ''nb'', ''nc''} \<Longrightarrow> GetNodeAccount sdk256 (W_kv vote_world) h a = (sample_node [])\<lparr>NA_NodeAddress := a, NA_BondAddress := ''maya1''\<rparr>"
    by (auto simp: GetNodeAccount_def kv_get_def vote_world_def vote_nodes_def)
qed

lemma vote_keys:
  "mimir_key ''KEY'' \<noteq> mimir_key ''NativeTransactionFee''" "mimir_key KRAKEN \<noteq> mimir_key ''NativeTransactionFee''"
  "toUpper ''KEY'' \<noteq> toUpper KRAKEN" "toUpper ''KEY'' = ''KEY''" "mimirValidKeyV95 ''KEY''"
  by code_simp+

lemma vote_mimirs:
  "GetMimir sdk256 (W_kv vote_world) ''KEY'' = - 1" "GetMimir sdk256 (W_kv vote_world) ''NativeTransactionFee'' = 0"
  "\<not> haveKraken (W_kv vote_world)"
  using vote_keys(1,2) by (simp_all add: GetMimir_def haveKraken_def getInt64_def kv_get_def vote_active)


lemma vote_run:
  "\<exists>w'. MimirHandler_Run (sample_env 5) ledger_bank vote_world (False, False) \<lparr>MM_Key = ''KEY'', MM_Value = 7, MM_Signer = ''nb''\<rparr>
      = Some ((None, (False, False)), w') \<and> GetMimir sdk256 (W_kv w') ''KEY'' = 7"
proof -
  let ?m = "\<lparr>MM_Key = ''KEY'', MM_Value = 7, MM_Signer = ''nb''\<rparr>" let ?k = "W_kv vote_world"
  let ?k1 = "SetNodeMimir ?k ''KEY'' 7 ''nb''"
  have adm: "\<not> isAdmin sdk256 ''nb''" by (simp add: isAdmin_def ADMINS_def sdk256_def)
  have act: "isSignedByActiveNodeAccounts (sample_env 5) ledger_bank ?k [''nb'']"
    by (simp add: isSignedByActiveNodeAccounts_def active_signer_def vote_account NodeAccount_IsEmpty_def sample_node_def NewNodeAccount_def
        NodeAccount_UpdateStatus_def)
  have val: "MimirHandler_validate (sample_env 5) ledger_bank vote_world ?m = Some None"
    by (simp add: MimirHandler_validate_def since_def vote_active and_check_def MsgMimir_ValidateBasic_def vote_keys
        unless_active_signers_def act)
  have cost: "pay_cost_unless_zero (sample_env 5) ledger_bank vote_world a = Some (None, vote_world)" for a
    by (simp add: pay_cost_unless_zero_def native_cost_def mimir_def vote_mimirs uint64_cast_def)
  have g: "kv_get (K_nodeMimirs ?k) (node_mimir_key ''KEY'') = Some [\<lparr>NM_Key = ''KEY'', NM_Value = 7, NM_Signer = ''na''\<rparr>]"
    by (simp add: kv_get_def vote_world_def)
  have "GetNodeMimirs ?k1 ''KEY'' = NodeMimirs_Set [\<lparr>NM_Key = ''KEY'', NM_Value = 7, NM_Signer = ''na''\<rparr>] (toUpper ''KEY'') 7 ''nb''"
    unfolding GetNodeMimirs_def SetNodeMimir_def g Let_def by (simp add: kv_get_set NodeMimirs_Set_def)
  then have nm: "GetNodeMimirs ?k1 ''KEY'' = [\<lparr>NM_Key = ''KEY'', NM_Value = 7, NM_Signer = ''na''\<rparr>, \<lparr>NM_Key = ''KEY'', NM_Value = 7, NM_Signer = ''nb''\<rparr>]"
    unfolding vote_keys(4) by (simp add: NodeMimirs_Set_def mimir_match_def)
  have la: "NodeAccounts_GetNodeAddresses (ListActiveValidators ?k1) = [''na'', ''nb'', ''nc'']"
    by (simp add: NodeAccounts_GetNodeAddresses_def ListActiveValidators_def ListValidatorsByStatus_def)
      (simp add: vote_active(1) [unfolded ListActiveValidators_def ListValidatorsByStatus_def] vote_nodes_def)
  have maj: "hd (NodeMimirs_HasSuperMajority sdk256 (GetNodeMimirs ?k1 ''KEY'') ''KEY'' [''na'', ''nb'', ''nc'']) = (7, True)"
    by (simp add: nm NodeMimirs_HasSuperMajority_def countActive_def sdk256_def HasSuperMajority_def)
  have "lock_in_votes (sample_env 5) (- 1) ?m ?k1 = SetMimir ?k1 ''KEY'' 7"
    by (simp add: lock_in_votes_def la maj)
  then have "MimirHandler_Run (sample_env 5) ledger_bank vote_world (False, False) ?m
      = Some ((None, (False, False)), vote_world\<lparr>W_kv := SetMimir ?k1 ''KEY'' 7\<rparr>)"
    by (simp add: MimirHandler_Run_def val MimirHandler_handleV92_def vote_active adm cost mimir_def vote_mimirs)
  moreover have "GetMimir sdk256 (SetMimir ?k1 ''KEY'' 7) ''KEY'' = 7"
    using GetMimir_SetMimir [of ?k1 "''KEY''" sdk256 7 "''KEY''"] vote_keys(3) vote_mimirs(3)
    by (simp add: vote_active haveKraken_def getInt64_def)
  ultimately show ?thesis by simp
qed


section \<open>Keys of names\<close>

text \<open>The bytes of a valid name in lower case.\<close>

definition name_byte :: "nat \<Rightarrow> bool" where
  "name_byte n \<longleftrightarrow> n = 43 \<or> n = 45 \<or> n = 95 \<or> 48 \<le> n \<and> n \<le> 57 \<or> 97 \<le> n \<and> n \<le> 122"

lemma name_byte_lower: "name_char c \<Longrightarrow> name_byte (of_char (char_lower c))"
proof -
  assume "name_char c"
  then consider "c = CHR ''+''" | "c = CHR ''_''" | "c = CHR ''-''"
    | "48 \<le> (of_char c :: nat) \<and> of_char c \<le> (57::nat) \<or> 97 \<le> (of_char c :: nat) \<and> of_char c \<le> (122::nat)"
    | "65 \<le> (of_char c :: nat)" "of_char c \<le> (90::nat)"
    by (auto simp: name_char_def mimir_key_char_def Let_def)
  then show ?thesis
    by cases (auto simp: name_byte_def char_lower_def Let_def)
qed

text \<open>A digit of the encoding in upper case stands for two digits, 26 apart, when it is a letter.\<close>

lemma up64_code:
  "i < 64 \<Longrightarrow> of_char (char_upper (b64_char i)) =
     (if i < 26 then 65 + i else if i < 52 then 39 + i else if i < 62 then i - 4 else if i = 62 then 43 else 47 :: nat)"
  by (auto simp: b64_char_def char_upper_def Let_def)

lemma up64_eq:
  assumes "char_upper (b64_char i) = char_upper (b64_char j)" and "i < 64" "j < 64"
  shows "i = j \<or> i < 26 \<and> j = i + 26 \<or> j < 26 \<and> i = j + 26"
proof -
  have "(of_char (char_upper (b64_char i)) :: nat) = of_char (char_upper (b64_char j))" using assms(1) by simp
  then show ?thesis unfolding up64_code [OF assms(2)] up64_code [OF assms(3)] using assms(2,3) by (auto split: if_splits)
qed

lemma up64_inj:
  assumes "char_upper (b64_char i) = char_upper (b64_char j)" and "i < 64" "j < 64"
    and "10 \<le> i \<and> i < 32 \<and> 10 \<le> j \<and> j < 32 \<or> 26 \<le> i \<and> 26 \<le> j"
  shows "i = j"
  using up64_eq [OF assms(1-3)] assms(4) by auto

lemma name_byte_range: "name_byte a \<Longrightarrow> 43 \<le> a \<and> a \<le> 122" by (auto simp: name_byte_def)

lemma name_byte_mod:
  assumes "name_byte a"
  shows "26 \<le> a mod 64"
proof (cases "a < 64")
  case True
  then show ?thesis using name_byte_range [OF assms] by simp
next
  case False
  then obtain b where b: "a = b + 64" by (metis add.commute le_Suc_ex not_less)
  then have "31 \<le> b" "b < 64" using assms by (auto simp: name_byte_def)
  then show ?thesis by (simp add: b)
qed

lemma name_byte_div:
  assumes "name_byte a"
  shows "10 \<le> a div 4" "a div 4 < 32" "2 \<le> a div 16" "a div 16 < 8" "a div 64 < 2"
proof -
  have "43 div 4 \<le> a div 4" "a div 4 \<le> 122 div 4" "43 div 16 \<le> a div 16" "a div 16 \<le> 122 div 16" "a div 64 \<le> 122 div 64"
    using name_byte_range [OF assms] by (auto intro: div_le_mono)
  then show "10 \<le> a div 4" "a div 4 < 32" "2 \<le> a div 16" "a div 16 < 8" "a div 64 < 2" by simp_all
qed

lemma group_second:
  assumes "x < 4" "x' < 4" "y < 8" "y' < 8" "2 \<le> y \<and> 2 \<le> y' \<or> y = 0 \<and> y' = (0::nat)"
    and "char_upper (b64_char (x * 16 + y)) = char_upper (b64_char (x' * 16 + y'))"
  shows "x = x' \<and> y = y'"
proof -
  have "x * 16 + y < 64" "x' * 16 + y' < 64" using assms by auto
  then have "x * 16 + y = x' * 16 + y' \<or> x' * 16 + y' = x * 16 + y + 26 \<or> x * 16 + y = x' * 16 + y' + 26"
    using up64_eq [OF assms(6)] by auto
  moreover have "x * 16 + y \<noteq> x' * 16 + y' + 26" using assms(3-5) by (cases "x' + 2 \<le> x"; elim disjE; linarith)
  moreover have "x' * 16 + y' \<noteq> x * 16 + y + 26" using assms(3-5) by (cases "x + 2 \<le> x'"; elim disjE; linarith)
  ultimately show ?thesis using assms(3,4) by (cases "x = x'"; cases "x < x'") auto
qed

lemma group_third:
  assumes "x < 16" "x' < 16" "y < 2" "y' < 2"
    and "char_upper (b64_char (x * 4 + y)) = char_upper (b64_char (x' * 4 + y'))"
  shows "x = x' \<and> y = y'"
proof -
  have "x * 4 + y < 64" "x' * 4 + y' < 64" using assms by auto
  then have "x * 4 + y = x' * 4 + y' \<or> x' * 4 + y' = x * 4 + y + 26 \<or> x * 4 + y = x' * 4 + y' + 26"
    using up64_eq [OF assms(5)] by auto
  moreover have "x * 4 + y \<noteq> x' * 4 + y' + 26" using assms(3,4) by (cases "x' + 7 \<le> x") auto
  moreover have "x' * 4 + y' \<noteq> x * 4 + y + 26" using assms(3,4) by (cases "x + 7 \<le> x'") auto
  ultimately show ?thesis using assms(3,4) by (cases "x = x'"; cases "x < x'") auto
qed

lemma not_padding: "char_upper (b64_char i) \<noteq> CHR ''=''"
proof (cases "i < 64")
  case True
  have "(of_char (char_upper (b64_char i)) :: nat) \<noteq> 61" unfolding up64_code [OF True] by auto
  then show ?thesis by auto
next
  case False
  then show ?thesis by (simp add: b64_char_def char_upper_def)
qed


lemma upper_padding: "char_upper CHR ''='' = CHR ''=''" by code_simp

lemma div_mod_same: "a div n = a' div n \<Longrightarrow> a mod n = a' mod n \<Longrightarrow> a = a'" for a :: nat
  by (metis div_mult_mod_eq)

lemma group_ab:
  assumes "name_byte a" "name_byte a'" "char_upper (b64_char (a div 4)) = char_upper (b64_char (a' div 4))"
    and "char_upper (b64_char (a mod 4 * 16 + y)) = char_upper (b64_char (a' mod 4 * 16 + y'))"
    and "y < 8" "y' < 8" "2 \<le> y \<and> 2 \<le> y' \<or> y = 0 \<and> y' = 0"
  shows "a = a' \<and> y = y'"
proof -
  have "a div 4 = a' div 4"
    using name_byte_div [OF assms(1)] name_byte_div [OF assms(2)] by (intro up64_inj [OF assms(3)]) auto
  moreover have "a mod 4 = a' mod 4 \<and> y = y'" by (rule group_second [OF _ _ assms(5-7) assms(4)]) simp_all
  ultimately show ?thesis using div_mod_same by blast
qed

lemma b64_upper_inj:
  "list_all name_byte xs \<Longrightarrow> list_all name_byte ys \<Longrightarrow> toUpper (b64_encode xs) = toUpper (b64_encode ys) \<Longrightarrow> xs = ys"
proof (induction xs arbitrary: ys rule: b64_encode.induct)
  case 1
  then show ?case by (cases ys rule: b64_encode.cases) auto
next
  case (2 a)
  then show ?case
    by (cases ys rule: b64_encode.cases)
       (auto simp: upper_padding not_padding not_padding [symmetric] dest: group_ab [where y = 0 and y' = 0, simplified])
next
  case (3 a b)
  show ?case
  proof (cases ys rule: b64_encode.cases)
    case (3 a' b')
    have p: "name_byte a" "name_byte b" "name_byte a'" "name_byte b'" using "3.prems" 3 by auto
    have e: "char_upper (b64_char (a div 4)) = char_upper (b64_char (a' div 4))"
      "char_upper (b64_char (a mod 4 * 16 + b div 16)) = char_upper (b64_char (a' mod 4 * 16 + b' div 16))"
      "char_upper (b64_char (b mod 16 * 4 + 0)) = char_upper (b64_char (b' mod 16 * 4 + 0))"
      using "3.prems"(3) 3 by simp_all
    have "a = a' \<and> b div 16 = b' div 16" by (rule group_ab [OF p(1,3) e(1,2)]) (use p in \<open>simp_all add: name_byte_div\<close>)
    moreover have "b mod 16 = b' mod 16" using group_third [OF _ _ _ _ e(3)] by simp
    ultimately show ?thesis using 3 div_mod_same [of b 16 b'] by simp
  qed (use "3.prems" in \<open>auto simp: upper_padding not_padding not_padding [symmetric]\<close>)
next
  case (4 a b c bs)
  show ?case
  proof (cases ys rule: b64_encode.cases)
    case (4 a' b' c' bs')
    have p: "name_byte a" "name_byte b" "name_byte c" "name_byte a'" "name_byte b'" "name_byte c'" using "4.prems" 4 by auto
    have e: "char_upper (b64_char (a div 4)) = char_upper (b64_char (a' div 4))"
      "char_upper (b64_char (a mod 4 * 16 + b div 16)) = char_upper (b64_char (a' mod 4 * 16 + b' div 16))"
      "char_upper (b64_char (b mod 16 * 4 + c div 64)) = char_upper (b64_char (b' mod 16 * 4 + c' div 64))"
      "char_upper (b64_char (c mod 64)) = char_upper (b64_char (c' mod 64))"
      using "4.prems"(3) 4 by simp_all
    have ab: "a = a' \<and> b div 16 = b' div 16" by (rule group_ab [OF p(1,4) e(1,2)]) (use p in \<open>simp_all add: name_byte_div\<close>)
    have bc: "b mod 16 = b' mod 16 \<and> c div 64 = c' div 64" by (rule group_third [OF _ _ _ _ e(3)]) (use p in \<open>simp_all add: name_byte_div\<close>)
    have "c mod 64 = c' mod 64" by (rule up64_inj [OF e(4)]) (use p in \<open>simp_all add: name_byte_mod\<close>)
    then have "c = c'" "b = b'" using ab bc div_mod_same by blast+
    then show ?thesis using ab 4 "4.IH" [of bs'] "4.prems" by simp
  qed (use "4.prems" in \<open>auto simp: upper_padding not_padding not_padding [symmetric]\<close>)
qed

text \<open>C39: the store keeps a name under the base 64 form of its lower case, and upper-cases the key, which for arbitrary
  strings maps different names to one key. For names that pass the validation of the handler it does not: two names share a
  key exactly when they are equal up to letter case.\<close>

theorem mayaname_key_valid_names:
  assumes "IsValidMAYANameV1 n" and "IsValidMAYANameV1 n'"
  shows "mayaname_key n = mayaname_key n' \<longleftrightarrow> toLower n = toLower n'"
proof
  have b: "list_all name_byte (map of_char (toLower n))" if "IsValidMAYANameV1 n" for n
    using that name_byte_lower by (auto simp: IsValidMAYANameV1_def toLower_def list_all_iff)
  assume "mayaname_key n = mayaname_key n'"
  then have "toUpper (b64_encode (map of_char (toLower n))) = toUpper (b64_encode (map of_char (toLower n')))"
    by (simp add: mayaname_key_def GetKey_def MAYAName_Key_def)
  then have "(map of_char (toLower n) :: nat list) = map of_char (toLower n')"
    by (rule b64_upper_inj [OF b [OF assms(1)] b [OF assms(2)]])
  then show "toLower n = toLower n'" by (simp add: inj_map_eq_map inj_of_char)
qed (simp add: mayaname_key_def MAYAName_Key_def)

theorem mayaname_key_valid_names_witness:
  "mayaname_key ''Alice'' = mayaname_key ''alice'' \<and> mayaname_key ''alice'' \<noteq> mayaname_key ''alicf''"
proof -
  have v: "IsValidMAYANameV1 ''Alice''" "IsValidMAYANameV1 ''alice''" "IsValidMAYANameV1 ''alicf''" by code_simp+
  have l: "toLower ''Alice'' = toLower ''alice''" "toLower ''alice'' \<noteq> toLower ''alicf''" by code_simp+
  show ?thesis using mayaname_key_valid_names [OF v(1,2)] mayaname_key_valid_names [OF v(2,3)] l by simp
qed

section \<open>Names belong to their owners\<close>

definition names_keyed :: "KVStore \<Rightarrow> bool" where
  "names_keyed k \<longleftrightarrow> (\<forall>key n. kv_get (K_mayaNames k) key = Some n \<longrightarrow> key = mayaname_key (MN_Name n))"

lemma update_name_id [simp]: "MN_Name (update_name m tn) = MN_Name tn"
  by (simp add: update_name_def MAYAName_SetAlias_def Let_def)

lemma extend_name_id: "extend_name E k x amount tn = Some tn' \<Longrightarrow> MN_Name tn' = MN_Name tn"
  by (auto simp: extend_name_def bind_Some_iff Let_def split: if_splits)

text \<open>What a successful message does to the table of names.\<close>

lemma ManageMAYAName_effect:
  assumes "names_keyed (W_kv w)" and run: "ManageMAYANameHandler_Run E w m = Some (None, w')"
  obtains tn where "W_kv w' = SetMAYAName (W_kv w) tn" and "mayaname_key (MN_Name tn) = mayaname_key (MMN_Name m)"
    and "\<And>n. kv_get (K_mayaNames (W_kv w)) (mayaname_key (MMN_Name m)) = Some n \<Longrightarrow> E_height E \<le> MN_ExpireBlockHeight n
      \<Longrightarrow> MN_Owner n = MMN_Signer m"
proof -
  let ?k = "W_kv w" let ?x = "MAYANameExists ?k (E_height E) (MMN_Name m)"
  have v: "ManageMAYANameHandler_validateV1 E ?k m = None" and h: "ManageMAYANameHandler_handleV1 E ?k m = Some (None, W_kv w')"
    using run by (auto simp: ManageMAYANameHandler_Run_def Run_def ManageMAYANameHandler_validate_def since_def handled_since_def
        split: if_splits option.splits)
  let ?r = "if ?x then GetMAYAName ?k (E_height E) (MMN_Name m) else Inr ((EmptyMAYAName (MMN_Name m))\<lparr>MN_Owner := MMN_Signer m\<rparr>)"
  obtain tn where tn: "?r = Inr tn"
    using h by (cases ?r) (auto simp: ManageMAYANameHandler_handleV1_def Let_def split: if_splits)
  obtain tn' where tn': "tn' = tn \<or> extend_name E ?k ?x (Coin_Amount (MMN_Coin m)) tn = Some tn'"
    and k': "W_kv w' = SetMAYAName ?k (update_name m tn')"
  proof (cases "Coin_Amount (MMN_Coin m) = 0")
    case True
    then have "W_kv w' = SetMAYAName ?k (update_name m tn)"
      using h unfolding ManageMAYANameHandler_handleV1_def Let_def tn by (simp split: if_splits)
    then show thesis using that by blast
  next
    case False
    then have "\<exists>tn'. extend_name E ?k ?x (Coin_Amount (MMN_Coin m)) tn = Some tn' \<and> SetMAYAName ?k (update_name m tn') = W_kv w'"
      using h unfolding ManageMAYANameHandler_handleV1_def Let_def tn by (auto simp: bind_Some_iff split: if_splits)
    then show thesis using that by metis
  qed
  have key: "mayaname_key (MN_Name tn) = mayaname_key (MMN_Name m)"
    using tn assms(1) by (auto simp: EmptyMAYAName_def GetMAYAName_def names_keyed_def split: if_splits option.splits)
  have "MN_Owner n = MMN_Signer m"
    if n: "kv_get (K_mayaNames ?k) (mayaname_key (MMN_Name m)) = Some n" "E_height E \<le> MN_ExpireBlockHeight n" for n
  proof -
    have "?x" using n by (simp add: MAYANameExists_def GetMAYAName_def)
    then show ?thesis using v n
      by (auto simp: ManageMAYANameHandler_validateV1_def GetMAYAName_def and_check_def split: option.splits if_splits)
  qed
  moreover have "MN_Name (update_name m tn') = MN_Name tn" using tn' extend_name_id by auto
  ultimately show thesis using that [OF k'] key by simp
qed

text \<open>C18: a registered name that has not expired is changed by its owner only. A message signed by somebody else that
  succeeds leaves its record as it is, whatever name it carries; and the records stay under the keys of their names.\<close>

theorem ManageMAYAName_owner_only:
  assumes "names_keyed (W_kv w)" and "ManageMAYANameHandler_Run E w m = Some (None, w')"
    and "kv_get (K_mayaNames (W_kv w)) key = Some n" and "E_height E \<le> MN_ExpireBlockHeight n" and "MN_Owner n \<noteq> MMN_Signer m"
  shows "kv_get (K_mayaNames (W_kv w')) key = Some n \<and> names_keyed (W_kv w')"
proof -
  obtain tn where k': "W_kv w' = SetMAYAName (W_kv w) tn" and key: "mayaname_key (MN_Name tn) = mayaname_key (MMN_Name m)"
    and own: "\<And>n. kv_get (K_mayaNames (W_kv w)) (mayaname_key (MMN_Name m)) = Some n \<Longrightarrow> E_height E \<le> MN_ExpireBlockHeight n
      \<Longrightarrow> MN_Owner n = MMN_Signer m"
    using ManageMAYAName_effect [OF assms(1,2)] by metis
  have "key \<noteq> mayaname_key (MMN_Name m)" using own assms(3-5) by blast
  then show ?thesis using assms(1,3) by (auto simp: k' key SetMAYAName_def kv_get_set names_keyed_def)
qed

definition name_record :: MAYAName where
  "name_record = \<lparr>MN_Name = ''alice'', MN_ExpireBlockHeight = 100, MN_Owner = ''n1'', MN_PreferredAsset = EmptyAsset,
     MN_Aliases = [\<lparr>MNA_Chain = BASEChain, MNA_Address = ''maya1''\<rparr>]\<rparr>"

definition name_world :: "ledger world" where
  "name_world = \<lparr>W_kv = empty_store\<lparr>K_mayaNames := [(mayaname_key ''alice'', name_record)]\<rparr>, W_bank = empty_ledger\<rparr>"

definition name_msg :: MsgManageMAYAName where
  "name_msg = \<lparr>MMN_Name = ''bob'', MMN_Chain = BASEChain, MMN_Address = ''maya2'', MMN_Coin = NewCoin BaseNative (10 ^ 15),
     MMN_ExpireBlockHeight = 0, MMN_PreferredAsset = EmptyAsset, MMN_Owner = [], MMN_Signer = ''n2''\<rparr>"

lemma name_run: "\<exists>w'. ManageMAYANameHandler_Run (sample_env 5) name_world name_msg = Some (None, w')"
proof -
  let ?k = "W_kv name_world"
  have x: "\<not> MAYANameExists ?k 5 ''bob''"
  proof -
    have "mayaname_key ''bob'' \<noteq> mayaname_key ''alice''" by code_simp
    then show ?thesis by (simp add: MAYANameExists_def name_world_def kv_get_def)
  qed
  have ver: "K_version ?k = (\<lambda>_. True)" "K_int64 ?k = []" by (simp_all add: name_world_def empty_store_def)
  have c: "config (sample_env 5) ?k key = C_int64 sample_accessor key" for key
    using fetchConfigInt64_unset [OF ver(2,1)] by (simp add: config_def)
  have mim: "mimir (sample_env 5) ?k ''MAYANames'' = - 1" using GetMimir_unset [OF ver(2,1)] by (simp add: mimir_def)
  have fees: "C_int64 sample_accessor ''TNSRegisterFee'' = 100000000000" "C_int64 sample_accessor ''TNSFeePerBlock'' = 2000"
    by code_simp+
  have "\<not> Chain_IsEmpty BASEChain" "\<not> Address_IsEmpty ''maya2''" "Address_IsChain sample_codecs ''maya2'' BASEChain"
    "Asset_IsNativeBase BaseNative" by code_simp+
  then have basic: "MsgManageMAYAName_ValidateBasic sample_codecs name_msg = None"
    by (simp add: MsgManageMAYAName_ValidateBasic_def name_msg_def NewCoin_def)
  have name: "validateNameV1 ''bob'' = None" by code_simp
  have msg: "MMN_Name name_msg = ''bob''" "Coin_Amount (MMN_Coin name_msg) = 10 ^ 15"
    by (simp_all add: name_msg_def NewCoin_def)
  have ext: "\<exists>tn'. extend_name (sample_env 5) ?k False (10 ^ 15) tn = Some tn'" for tn
    by (simp add: extend_name_def c fees uint64_cast_def sdk256.SafeSub_eq uint64_of_def)
  obtain tn' where "extend_name (sample_env 5) ?k False (10 ^ 15) ((EmptyMAYAName ''bob'')\<lparr>MN_Owner := MMN_Signer name_msg\<rparr>) = Some tn'"
    using ext by blast
  then show ?thesis
    using x
    by (auto simp: ManageMAYANameHandler_Run_def Run_def ManageMAYANameHandler_validate_def since_def handled_since_def ver
        ManageMAYANameHandler_validateV1_def and_check_def basic name uint64_cast_def
        ManageMAYANameHandler_handleV1_def mim msg fees)
qed

theorem ManageMAYAName_owner_only_witness:
  "\<exists>w'. ManageMAYANameHandler_Run (sample_env 5) name_world name_msg = Some (None, w')
    \<and> kv_get (K_mayaNames (W_kv w')) (mayaname_key ''alice'') = Some name_record"
proof -
  obtain w' where w': "ManageMAYANameHandler_Run (sample_env 5) name_world name_msg = Some (None, w')" using name_run by blast
  have p: "names_keyed (W_kv name_world)" "kv_get (K_mayaNames (W_kv name_world)) (mayaname_key ''alice'') = Some name_record"
    "E_height (sample_env 5) \<le> MN_ExpireBlockHeight name_record" "MN_Owner name_record \<noteq> MMN_Signer name_msg"
    by (auto simp: names_keyed_def name_world_def kv_get_def name_record_def name_msg_def split: if_splits)
  show ?thesis using ManageMAYAName_owner_only [OF p(1) w' p(2-4)] w' by blast
qed

end
