(* ===== verification/Withdraw.thy ===== *)
theory Withdraw
  imports LiquidityMath Gas
begin

text \<open>
  Withdrawal of liquidity, \<open>x/mayachain/withdraw_current.go\<close> (\<open>withdrawV105\<close>). The function is split
  where the source assigns its intermediate values: the refund of pending liquidity, the protection
  against impermanent loss, the gas withheld from the last provider and the settlement of pool and
  provider. The five results are the CACAO and the asset paid, the protection, the units withdrawn
  and the gas.
\<close>

type_synonym withdrawal = "nat \<times> nat \<times> nat \<times> nat \<times> nat"

type_synonym 'b withdraw_result = "((go_error + withdrawal) \<times> 'b world) option"

definition validateWithdrawV105 :: "env \<Rightarrow> KVStore \<Rightarrow> MsgWithdrawLiquidity \<Rightarrow> check option" where
  "validateWithdrawV105 E k msg =
     (if Address_IsEmpty (MW_WithdrawAddress msg) then Some (fails ''empty withdraw address'')
      else if TxID_IsEmpty (Tx_ID (MW_Tx msg)) then Some (fails ''request tx hash is empty'')
      else if Asset_IsEmpty (MW_Asset msg) then Some (fails ''empty asset'')
      else if \<not> MW_BasisPoints msg > 0 \<or> MW_BasisPoints msg > MaxWithdrawBasisPoints
        then Some (fails ''withdraw basis points is invalid'')
      else if \<not> PoolExist k (MW_Asset msg) then Some (fails ''pool doesn't exist'')
      else do {
        let lp = GetLiquidityProvider (E_codecs E) k (MW_Asset msg) (MW_WithdrawAddress msg);
        let unitsToClaim = GetSafeShare (E_sdk E) (MW_BasisPoints msg) MaxWithdrawBasisPoints (LP_Units lp);
        remainingUnits \<leftarrow> LP_GetRemainingUnits (E_sdk E) lp;
        Some (if unitsToClaim > remainingUnits then fails ''some units are bonded'' else None)
      })"

text \<open>The limit of withdrawals per day in the days after the liquidity auction.\<close>

definition checkWithdrawLimit :: "env \<Rightarrow> KVStore \<Rightarrow> MsgWithdrawLiquidity \<Rightarrow> LiquidityProvider \<Rightarrow> LiquidityProvider result" where
  "checkWithdrawLimit E k msg lp =
     (if \<not> isWithinWithdrawDaysLimit E k (LP_CacaoAddress lp) \<or> RagnarokInProgress k
         \<or> Tx_Memo (MW_Tx msg) = ''Ragnarok''
      then ok lp
      else do {
        let blockThreshold = uint64_cast (LP_LastWithdrawCounterHeight lp + C_int64 (E_cv E) ''BlocksPerDay'');
        let currentBlock = uint64_cast (E_height E);
        addRune0 \<leftarrow> uint_add (E_sdk E) (LP_WithdrawCounter lp) (MW_BasisPoints msg);
        let (lp1, addRune) =
          (if LP_WithdrawCounter lp = 0 then (lp\<lparr>LP_LastWithdrawCounterHeight := E_height E\<rparr>, addRune0)
           else if \<not> currentBlock < blockThreshold
           then (lp\<lparr>LP_WithdrawCounter := 0, LP_LastWithdrawCounterHeight := E_height E\<rparr>, MW_BasisPoints msg)
           else (lp, addRune0));
        let withdrawLimit = uint64_cast (getWithdrawLimit E k (LP_CacaoAddress lp1));
        if LP_WithdrawCounter lp1 \<ge> withdrawLimit then err ''address already reached the max amount of withdraw''
        else if addRune > withdrawLimit then err ''max amount to withdraw exceeded''
        else ok (lp1\<lparr>LP_WithdrawCounter := addRune\<rparr>)
      })"

definition assetToWithdrawV89 :: "MsgWithdrawLiquidity \<Rightarrow> LiquidityProvider \<Rightarrow> int \<Rightarrow> Asset" where
  "assetToWithdrawV89 msg lp pauseAsym =
     (if Address_IsEmpty (LP_CacaoAddress lp) then MW_Asset msg
      else if Address_IsEmpty (LP_AssetAddress lp) then BaseAsset
      else if pauseAsym > 0 then EmptyAsset
      else MW_WithdrawalAsset msg)"

section \<open>Pending liquidity\<close>

definition withdraw_pending :: "env \<Rightarrow> 'b world \<Rightarrow> Pool \<Rightarrow> LiquidityProvider \<Rightarrow> 'b withdraw_result" where
  "withdraw_pending E w pool lp =
     (if LP_PendingCacao lp = 0 \<and> LP_PendingAsset lp = 0
      then Some (Inl (GoError ''nothing to withdraw''), w)
      else if isLiquidityAuction E (W_kv w)
              \<and> GetLiquidityAuctionTier (E_codecs E) (W_kv w) (LP_CacaoAddress lp) = C_int64 (E_cv E) ''WithdrawTier1''
      then Some (Inl (GoError ''tier1 cannot withdraw during liquidity auction''), w)
      else do {
        let k1 = RemoveLiquidityProvider (W_kv w) lp;
        pc \<leftarrow> SafeSub (E_sdk E) (Pool_PendingInboundCacao pool) (LP_PendingCacao lp);
        pa \<leftarrow> SafeSub (E_sdk E) (Pool_PendingInboundAsset pool) (LP_PendingAsset lp);
        let k2 = (case SetPool k1 (pool\<lparr>Pool_PendingInboundCacao := pc, Pool_PendingInboundAsset := pa\<rparr>) of
                    Inl _ \<Rightarrow> k1 | Inr k' \<Rightarrow> k');
        asset \<leftarrow> RoundToDecimal (E_sdk E) (LP_PendingAsset lp) (Pool_Decimals pool);
        Some (Inr (LP_PendingCacao lp, asset, 0, LP_Units lp, 0), w\<lparr>W_kv := k2\<rparr>)
      })"

section \<open>Protection\<close>

text \<open>The deposit values of a provider that has none yet.\<close>

definition init_deposit :: "sdk \<Rightarrow> Pool \<Rightarrow> LiquidityProvider \<Rightarrow> LiquidityProvider option" where
  "init_deposit S pool lp =
     (if Pool_Status pool = PoolStatus_Available \<and> LP_CacaoDepositValue lp = 0 \<and> LP_AssetDepositValue lp = 0
      then do {
        units \<leftarrow> Pool_GetPoolUnits S pool;
        c \<leftarrow> uint_add S (LP_CacaoDepositValue lp) (GetSafeShare S (LP_Units lp) units (Pool_BalanceCacao pool));
        a \<leftarrow> uint_add S (LP_AssetDepositValue lp) (GetSafeShare S (LP_Units lp) units (Pool_BalanceAsset pool));
        Some (lp\<lparr>LP_CacaoDepositValue := c, LP_AssetDepositValue := a\<rparr>)
      }
      else Some lp)"

text \<open>The protection and the extra units it is worth, with the pool that counts them.\<close>

definition grant_protection ::
  "env \<Rightarrow> KVStore \<Rightarrow> MsgWithdrawLiquidity \<Rightarrow> Pool \<Rightarrow> LiquidityProvider \<Rightarrow> (nat \<times> nat \<times> Pool) result" where
  "grant_protection E k msg pool lp =
     (let S = E_sdk E;
          fullProtectionLine = config E k ''FullImpLossProtectionBlocks'';
          ilpDisabled = mimir E k (''ILP-DISABLED-'' @ Asset_String (Pool_Asset pool))
      in if fullProtectionLine > 0 \<and> Pool_Status pool = PoolStatus_Available
            \<and> \<not> (ilpDisabled > 0 \<and> \<not> Asset_IsVaultAsset (Pool_Asset pool))
         then do {
           let lastAddHeight = (if LP_LastAddHeight lp < Pool_StatusSince pool then Pool_StatusSince pool
                                else LP_LastAddHeight lp);
           (protection, _, _) \<leftarrow> calcImpLossV102 E k lastAddHeight lp (MW_BasisPoints msg) fullProtectionLine pool;
           if protection = 0 then ok (0, 0, pool)
           else do {
             units \<leftarrow> Pool_GetPoolUnits S pool;
             r \<leftarrow> calculatePoolUnitsV1 S units (Pool_BalanceCacao pool) (Pool_BalanceAsset pool) protection 0;
             case r of
               Inl e \<Rightarrow> Some (Inl e)
             | Inr (_, extraUnits) \<Rightarrow> do {
                 lpUnits \<leftarrow> uint_add S (Pool_LPUnits pool) extraUnits;
                 ok (protection, extraUnits, pool\<lparr>Pool_LPUnits := lpUnits\<rparr>)
               }
           }
         }
         else ok (0, 0, pool))"

section \<open>Gas of the last provider\<close>

text \<open>CACAO lives on its own chain, so the branch for a pool of BNB with CACAO elsewhere is never taken.\<close>

definition withhold_gas :: "env \<Rightarrow> KVStore \<Rightarrow> Pool \<Rightarrow> nat \<Rightarrow> (nat \<times> nat) option" where
  "withhold_gas E k pool withDrawAsset =
     do {
       maxGas \<leftarrow> GetMaxGas E k (Asset_GetChain (Pool_Asset pool));
       if Asset_IsBNB (Pool_Asset pool) \<and> \<not> Chain_Equals (Asset_Chain BaseAsset) BASEChain then
         do {
           twice \<leftarrow> uint_mul (E_sdk E) (Coin_Amount maxGas) 2;
           rest \<leftarrow> SafeSub (E_sdk E) withDrawAsset twice;
           g \<leftarrow> uint_sub (E_sdk E) withDrawAsset rest;
           Some (rest, g)
         }
       else if Asset_Equals (Chain_GetGasAsset (Asset_GetChain (Pool_Asset pool))) (Pool_Asset pool) then
         do {
           let g = (if Coin_Amount maxGas > withDrawAsset then withDrawAsset else Coin_Amount maxGas);
           rest \<leftarrow> SafeSub (E_sdk E) withDrawAsset g;
           Some (rest, g)
         }
       else Some (withDrawAsset, 0)
     }"

section \<open>Settlement\<close>

definition settle_lp :: "env \<Rightarrow> MsgWithdrawLiquidity \<Rightarrow> LiquidityProvider \<Rightarrow> nat \<Rightarrow> LiquidityProvider option" where
  "settle_lp E msg lp unitAfter =
     (let S = E_sdk E; bp = MW_BasisPoints msg in
      do {
        c \<leftarrow> SafeSub S (LP_CacaoDepositValue lp) (GetSafeShare S bp MaxWithdrawBasisPoints (LP_CacaoDepositValue lp));
        a \<leftarrow> SafeSub S (LP_AssetDepositValue lp) (GetSafeShare S bp MaxWithdrawBasisPoints (LP_AssetDepositValue lp));
        Some (lp\<lparr>LP_LastWithdrawHeight := E_height E, LP_CacaoDepositValue := c, LP_AssetDepositValue := a,
                 LP_Units := unitAfter\<rparr>)
      })"

definition store_lp :: "sdk \<Rightarrow> KVStore \<Rightarrow> LiquidityProvider \<Rightarrow> KVStore option" where
  "store_lp S k lp =
     (if RagnarokInProgress k then Some (SetLiquidityProvider k lp)
      else do {
        x \<leftarrow> uint_add S (LP_Units lp) (LP_PendingAsset lp);
        y \<leftarrow> uint_add S x (LP_PendingCacao lp);
        Some (if y \<noteq> 0 then SetLiquidityProvider k lp else RemoveLiquidityProvider k lp)
      })"

text \<open>The pool, the provider and the payment of the protection from the reserve.\<close>

definition store_withdraw :: "sdk \<Rightarrow> 'b bank \<Rightarrow> 'b world \<Rightarrow> Pool \<Rightarrow> LiquidityProvider \<Rightarrow> nat \<Rightarrow> 'b outcome" where
  "store_withdraw S B w pool lp protection =
     (case SetPool (W_kv w) pool of
        Inl _ \<Rightarrow> Some (fails ''fail to save pool'', w)
      | Inr k1 \<Rightarrow> do {
          k2 \<leftarrow> store_lp S k1 lp;
          if protection = 0 then Some (None, w\<lparr>W_kv := k2\<rparr>)
          else do {
            (e, w2) \<leftarrow> SendFromModuleToModule B (w\<lparr>W_kv := k2\<rparr>) ReserveName AsgardName [NewCoin BaseAsset protection];
            Some (if e \<noteq> None then fails ''fail to move imp loss protection rune from the reserve to asgard'' else None, w2)
          }
        })"

definition stage_if_empty :: "Pool \<Rightarrow> Pool" where
  "stage_if_empty pool =
     (if Pool_BalanceAsset pool = 0 \<or> Pool_BalanceCacao pool = 0
      then pool\<lparr>Pool_Status := PoolStatus_Staged\<rparr> else pool)"

text \<open>The units and balances the pool keeps.\<close>

definition settle_pool :: "sdk \<Rightarrow> Pool \<Rightarrow> nat \<Rightarrow> nat \<Rightarrow> nat \<Rightarrow> nat \<Rightarrow> nat \<Rightarrow> nat \<Rightarrow> Pool option" where
  "settle_pool S pool originalUnits extraUnits protection withdrawCacao withDrawAsset unitAfter =
     do {
       fUnits \<leftarrow> uint_add S originalUnits extraUnits;
       out \<leftarrow> SafeSub S fUnits unitAfter;
       lpUnits \<leftarrow> SafeSub S (Pool_LPUnits pool) out;
       poolCacao \<leftarrow> uint_add S (Pool_BalanceCacao pool) protection;
       cacao \<leftarrow> SafeSub S poolCacao withdrawCacao;
       asset \<leftarrow> SafeSub S (Pool_BalanceAsset pool) withDrawAsset;
       Some (pool\<lparr>Pool_LPUnits := lpUnits, Pool_BalanceCacao := cacao, Pool_BalanceAsset := asset\<rparr>)
     }"

text \<open>The formatting of the failed sanity check converts both unit counts to 64 bits.\<close>

definition settle_withdraw ::
  "env \<Rightarrow> 'b bank \<Rightarrow> 'b world \<Rightarrow> MsgWithdrawLiquidity \<Rightarrow> Pool \<Rightarrow> LiquidityProvider \<Rightarrow> nat \<Rightarrow> nat \<Rightarrow> nat \<Rightarrow> nat \<Rightarrow> nat
    \<Rightarrow> nat \<Rightarrow> nat \<Rightarrow> 'b withdraw_result" where
  "settle_withdraw E B w msg pool lp originalUnits extraUnits protection withdrawCacao withDrawAsset unitAfter gasAsset =
     (let S = E_sdk E in
      do {
        pool1 \<leftarrow> settle_pool S pool originalUnits extraUnits protection withdrawCacao withDrawAsset unitAfter;
        _ \<leftarrow> Pool_GetPoolUnits S pool1;
        lp1 \<leftarrow> settle_lp E msg lp unitAfter;
        if unitAfter \<ge> originalUnits then
          do {
            _ \<leftarrow> uint64_of originalUnits;
            _ \<leftarrow> uint64_of unitAfter;
            Some (Inl (GoError ''sanity check: LP units cannot increase during a withdrawal''), w)
          }
        else do {
          (e, w2) \<leftarrow> store_withdraw S B w (stage_if_empty pool1) lp1 protection;
          case e of
            Some er \<Rightarrow> Some (Inl er, w2)
          | None \<Rightarrow> do {
              units \<leftarrow> SafeSub S originalUnits unitAfter;
              Some (Inr (withdrawCacao, withDrawAsset, protection, units, gasAsset), w2)
            }
        }
      })"

text \<open>A withdrawal of all of one side only is refused.\<close>

definition one_sided :: "nat \<Rightarrow> nat \<Rightarrow> nat \<Rightarrow> nat \<Rightarrow> bool" where
  "one_sided withdrawCacao poolCacao withDrawAsset poolAsset \<longleftrightarrow>
     (withdrawCacao = poolCacao \<and> withDrawAsset \<noteq> poolAsset) \<or> (withdrawCacao \<noteq> poolCacao \<and> withDrawAsset = poolAsset)"

definition withdraw_amounts ::
  "env \<Rightarrow> MsgWithdrawLiquidity \<Rightarrow> Pool \<Rightarrow> nat \<Rightarrow> nat \<Rightarrow> nat \<Rightarrow> Asset \<Rightarrow> (nat \<times> nat \<times> nat) result" where
  "withdraw_amounts E msg pool poolCacao originalUnits extraUnits assetToWithdraw =
     (let S = E_sdk E in
      do {
        units \<leftarrow> Pool_GetPoolUnits S pool;
        if Asset_IsVaultAsset (Pool_Asset pool) then
          map_option Inr (calculateVaultWithdrawV1 S units (Pool_BalanceAsset pool) originalUnits (MW_BasisPoints msg))
        else
          calculateWithdrawV102 S units poolCacao (Pool_BalanceAsset pool) originalUnits extraUnits
            (MW_BasisPoints msg) assetToWithdraw
      })"

definition withdraw_units ::
  "env \<Rightarrow> 'b bank \<Rightarrow> 'b world \<Rightarrow> MsgWithdrawLiquidity \<Rightarrow> Pool \<Rightarrow> LiquidityProvider \<Rightarrow> 'b withdraw_result" where
  "withdraw_units E B w msg pool0 lp0 =
     (let S = E_sdk E; k = W_kv w; failure = (\<lambda>m. Some (Inl (GoError m), w)) in
      do {
        _ \<leftarrow> Pool_GetPoolUnits S pool0;
        let pauseAsym = mimir E k (''PauseAsymWithdrawal-'' @ Chain_String (Asset_GetChain (Pool_Asset pool0)));
        let assetToWithdraw = assetToWithdrawV89 msg lp0 pauseAsym;
        lp1 \<leftarrow> init_deposit S pool0 lp0;
        g \<leftarrow> grant_protection E k msg pool0 lp1;
        case g of
          Inl e \<Rightarrow> Some (Inl e, w)
        | Inr (protection, extraUnits, pool) \<Rightarrow> do {
            poolCacao \<leftarrow> uint_add S (Pool_BalanceCacao pool) protection;
            amounts \<leftarrow> withdraw_amounts E msg pool poolCacao (LP_Units lp0) extraUnits assetToWithdraw;
            case amounts of
              Inl _ \<Rightarrow> failure ''fail to withdraw''
            | Inr (withdrawCacao, asset0, unitAfter) \<Rightarrow>
                if \<not> Asset_IsVaultAsset (Pool_Asset pool)
                   \<and> one_sided withdrawCacao poolCacao asset0 (Pool_BalanceAsset pool)
                then failure ''fail to withdraw''
                else do {
                  l \<leftarrow> checkWithdrawLimit E k msg lp1;
                  case l of
                    Inl e \<Rightarrow> Some (Inl e, w)
                  | Inr lp2 \<Rightarrow> do {
                      asset1 \<leftarrow> RoundToDecimal S asset0 (Pool_Decimals pool);
                      units \<leftarrow> Pool_GetPoolUnits S pool;
                      fUnits \<leftarrow> uint_add S (LP_Units lp0) extraUnits;
                      rest \<leftarrow> SafeSub S units fUnits;
                      left \<leftarrow> uint_add S rest unitAfter;
                      (withDrawAsset, gasAsset) \<leftarrow> (if left = 0 then withhold_gas E k pool asset1 else Some (asset1, 0));
                      settle_withdraw E B w msg pool lp2 (LP_Units lp0) extraUnits protection withdrawCacao
                        withDrawAsset unitAfter gasAsset
                    }
                }
          }
      })"

definition withdrawV105 :: "env \<Rightarrow> 'b bank \<Rightarrow> 'b world \<Rightarrow> MsgWithdrawLiquidity \<Rightarrow> 'b withdraw_result" where
  "withdrawV105 E B w msg =
     do {
       v \<leftarrow> validateWithdrawV105 E (W_kv w) msg;
       case v of
         Some e \<Rightarrow> Some (Inl e, w)
       | None \<Rightarrow> do {
           let pool0 = GetPool (W_kv w) (MW_Asset msg);
           synthSupply \<leftarrow> GetTotalSupply B w (Asset_GetSyntheticAsset (Pool_Asset pool0));
           (_, pool) \<leftarrow> Pool_CalcUnits (E_sdk E) (K_version (W_kv w)) pool0 synthSupply;
           let lp = GetLiquidityProvider (E_codecs E) (W_kv w) (MW_Asset msg) (MW_WithdrawAddress msg);
           if LP_Units lp = 0 then withdraw_pending E w pool lp
           else if E_height E < wrap64 (LP_LastAddHeight lp + C_int64 (E_cv E) ''LiquidityLockUpBlocks'')
           then Some (Inl (GoError ''you cannot withdraw for 24 hours after providing liquidity for this blockchain''), w)
           else withdraw_units E B w msg pool lp
         }
     }"

section \<open>Conservation\<close>

text \<open>A step that returns a value took the branch without an error.\<close>

lemma case_result_Inr [simp]:
  "(case r of Inl e \<Rightarrow> Some (Inl (h e)) | Inr y \<Rightarrow> f y) = Some (Inr z) \<longleftrightarrow> (\<exists>y. r = Inr y \<and> f y = Some (Inr z))"
  "(case r of Inl e \<Rightarrow> Some (Inl (h e), w) | Inr y \<Rightarrow> f' y) = Some (Inr z, w') \<longleftrightarrow> (\<exists>y. r = Inr y \<and> f' y = Some (Inr z, w'))"
  by (auto split: sum.splits)

lemma LP_store_pools [simp]:
  "K_pools (SetLiquidityProvider k lp) = K_pools k" "K_pools (RemoveLiquidityProvider k lp) = K_pools k"
  by (simp_all add: SetLiquidityProvider_def RemoveLiquidityProvider_def)

lemma store_lp_pools: "store_lp S k lp = Some k' \<Longrightarrow> K_pools k' = K_pools k"
  unfolding store_lp_def by (simp only: bind_Some_iff option.inject split: if_splits) force+

text \<open>The payment of the protection moves it from the reserve to Asgard.\<close>

definition protection_paid :: "'b bank \<Rightarrow> 'b world \<Rightarrow> 'b world \<Rightarrow> nat \<Rightarrow> bool" where
  "protection_paid B w w' p \<longleftrightarrow>
     GetRuneBalanceOfModule B w ReserveName = GetRuneBalanceOfModule B w' ReserveName + p
     \<and> GetRuneBalanceOfModule B w' AsgardName = GetRuneBalanceOfModule B w AsgardName + p"

lemma store_withdraw_effect:
  assumes "bank_keeper B" and "store_withdraw S B w pool lp p = Some (None, w')"
  shows "protection_paid B w w' p \<and> (\<exists>k1. SetPool (W_kv w) pool = Inr k1 \<and> K_pools (W_kv w') = K_pools k1)"
proof -
  obtain k1 k2 where k1: "SetPool (W_kv w) pool = Inr k1" and k2: "store_lp S k1 lp = Some k2"
    and pay: "if p = 0 then w' = w\<lparr>W_kv := k2\<rparr>
      else SendFromModuleToModule B (w\<lparr>W_kv := k2\<rparr>) ReserveName AsgardName [NewCoin BaseAsset p] = Some (None, w')"
    using assms(2) by (auto simp: store_withdraw_def bind_Some_iff split: sum.splits if_splits)
  have "W_kv w' = k2 \<and> protection_paid B w w' p"
  proof (cases "p = 0")
    case True
    then show ?thesis using pay by (simp add: protection_paid_def GetRuneBalanceOfModule_def GetBalanceOfModule_def)
  next
    case False
    then have s: "SendFromModuleToModule B (w\<lparr>W_kv := k2\<rparr>) ReserveName AsgardName [NewCoin BaseAsset p] = Some (None, w')"
      using pay by simp
    have ne: "ReserveName \<noteq> AsgardName" using module_names_distinct by metis
    have same: "GetBalanceOfModule B (w\<lparr>W_kv := k2\<rparr>) m d = GetBalanceOfModule B w m d" for m d
      by (simp add: GetBalanceOfModule_def)
    from bank_keeper.SendFromModuleToModule_moves [OF assms(1) s ne] show ?thesis
      by (simp add: protection_paid_def GetRuneBalanceOfModule_def same BaseAsset_def)
  qed
  then show ?thesis using k1 store_lp_pools [OF k2] by auto
qed

lemma settle_pool_eq:
  assumes "cosmos_sdk S" and "settle_pool S pool orig extra prot wc wa after = Some pool1"
  shows "pool1 = pool\<lparr>Pool_LPUnits := Pool_LPUnits pool - (orig + extra - after),
      Pool_BalanceCacao := Pool_BalanceCacao pool + prot - wc, Pool_BalanceAsset := Pool_BalanceAsset pool - wa\<rparr>"
  using assms(2)
  by (simp add: settle_pool_def bind_Some_iff cosmos_sdk.uint_Some [OF assms(1)] cosmos_sdk.SafeSub_eq [OF assms(1)])

lemma settle_effect:
  assumes "cosmos_sdk (E_sdk E)" and "bank_keeper B"
    and "settle_withdraw E B w msg pool lp orig extra prot wc wa after gasA = Some (Inr (c, a, p, u, g), w')"
  shows "c = wc \<and> a = wa \<and> p = prot \<and> u = orig - after \<and> after < orig \<and> g = gasA \<and> protection_paid B w w' prot
    \<and> (\<exists>pool1 k1. settle_pool (E_sdk E) pool orig extra prot wc wa after = Some pool1
        \<and> SetPool (W_kv w) (stage_if_empty pool1) = Inr k1 \<and> K_pools (W_kv w') = K_pools k1)"
proof -
  obtain pool1 lp1 r where p1: "settle_pool (E_sdk E) pool orig extra prot wc wa after = Some pool1"
    and after: "after < orig"
    and st: "store_withdraw (E_sdk E) B w (stage_if_empty pool1) lp1 prot = Some r"
    and res: "(case r of (e, w2) \<Rightarrow> case e of Some er \<Rightarrow> Some (Inl er, w2)
          | None \<Rightarrow> do { units \<leftarrow> SafeSub (E_sdk E) orig after; Some (Inr (wc, wa, prot, units, gasA), w2) })
        = Some (Inr (c, a, p, u, g), w')"
    using assms(3) unfolding settle_withdraw_def Let_def bind_Some_iff
    by (cases "orig \<le> after") (auto simp: bind_Some_iff not_le)
  have out: "r = (None, w')" "c = wc" "a = wa" "p = prot" "u = orig - after" "g = gasA"
    using res by (auto simp: cosmos_sdk.SafeSub_eq [OF assms(1)] split: prod.splits option.splits)
  from store_withdraw_effect [OF assms(2) st [unfolded out(1)]] show ?thesis
    using p1 after out by simp
qed

lemma grant_protection_pool:
  assumes "cosmos_sdk (E_sdk E)" and "grant_protection E k msg pool lp = ok (p, x, pool')"
  shows "pool' = pool\<lparr>Pool_LPUnits := Pool_LPUnits pool + x\<rparr>"
proof -
  have same: "pool\<lparr>Pool_LPUnits := Pool_LPUnits pool\<rparr> = pool" by simp
  show ?thesis
    using assms(2) same
    by (auto simp: grant_protection_def Let_def bind_Some_iff cosmos_sdk.uint_Some [OF assms(1)]
        split: if_split_asm)
qed

lemma withdraw_amounts_le:
  assumes "cosmos_sdk (E_sdk E)" and "withdraw_amounts E msg pool cacao orig extra wa = ok (r, a, after)"
    and "orig + extra \<le> Pool_LPUnits pool"
  shows "r \<le> cacao"
proof -
  obtain units where u: "Pool_GetPoolUnits (E_sdk E) pool = Some units"
    using assms(2) by (auto simp: withdraw_amounts_def Let_def bind_Some_iff)
  then have le: "orig + extra \<le> units"
    using assms(3) by (simp add: Pool_GetPoolUnits_def cosmos_sdk.uint_Some [OF assms(1)])
  show ?thesis
  proof (cases "Asset_IsVaultAsset (Pool_Asset pool)")
    case True
    then show ?thesis
      using assms(2) u by (auto simp: withdraw_amounts_def calculateVaultWithdrawV1_def bind_Some_iff Let_def split: if_splits)
  next
    case False
    then have "calculateWithdrawV102 (E_sdk E) units cacao (Pool_BalanceAsset pool) orig extra (MW_BasisPoints msg) wa
        = ok (r, a, after)"
      using assms(2) u by (simp add: withdraw_amounts_def)
    then show ?thesis using calculateWithdraw_le [OF assms(1) _ le] by blast
  qed
qed

lemma calc_units_balances:
  assumes "Pool_CalcUnits S ver m s = Some (u, m')"
  shows "Pool_BalanceCacao m' = Pool_BalanceCacao m" "Pool_BalanceAsset m' = Pool_BalanceAsset m"
    "Pool_LPUnits m' = Pool_LPUnits m" "Pool_Asset m' = Pool_Asset m"
  using assms
  by (auto simp: Pool_CalcUnits_def Pool_CalcUnitsV80_def bind_Some_iff Let_def split: if_splits)

lemma withdraw_units_effect:
  assumes "cosmos_sdk (E_sdk E)" and "bank_keeper B" and "LP_Units lp \<le> Pool_LPUnits pool"
    and "withdraw_units E B w msg pool lp = Some (Inr (c, a, p, u, g), w')"
  shows "u \<le> LP_Units lp \<and> 0 < u \<and> protection_paid B w w' p \<and> c \<le> Pool_BalanceCacao pool + p
    \<and> (\<exists>pool1 k1. Pool_BalanceCacao pool1 = Pool_BalanceCacao pool + p - c \<and> Pool_BalanceAsset pool1 = Pool_BalanceAsset pool - a
        \<and> Pool_Asset pool1 = Pool_Asset pool \<and> SetPool (W_kv w) pool1 = Inr k1 \<and> K_pools (W_kv w') = K_pools k1)"
proof -
  obtain lp1 x pool2 cacao asset after lp2 wa prot wc gasA aw where
    gp: "grant_protection E (W_kv w) msg pool lp1 = ok (prot, x, pool2)"
    and am: "withdraw_amounts E msg pool2 cacao (LP_Units lp) x aw = ok (wc, asset, after)"
    and ca: "uint_add (E_sdk E) (Pool_BalanceCacao pool2) prot = Some cacao"
    and se: "settle_withdraw E B w msg pool2 lp2 (LP_Units lp) x prot wc wa after gasA = Some (Inr (c, a, p, u, g), w')"
    using assms(4) by (simp add: withdraw_units_def Let_def bind_Some_iff split: if_split_asm) blast
  note p2 = grant_protection_pool [OF assms(1) gp]
  note eff = settle_effect [OF assms(1,2) se]
  then obtain pool1 k1 where s1: "settle_pool (E_sdk E) pool2 (LP_Units lp) x prot wc wa after = Some pool1"
    and k1: "SetPool (W_kv w) (stage_if_empty pool1) = Inr k1" "K_pools (W_kv w') = K_pools k1" by blast
  have "LP_Units lp + x \<le> Pool_LPUnits pool2" using assms(3) by (simp add: p2)
  from withdraw_amounts_le [OF assms(1) am this] have "wc \<le> Pool_BalanceCacao pool + prot"
    using ca by (simp add: cosmos_sdk.uint_Some [OF assms(1)] p2)
  then show ?thesis
    using eff k1 settle_pool_eq [OF assms(1) s1]
    by (intro conjI exI [of _ "stage_if_empty pool1"] exI [of _ k1]) (auto simp: p2 stage_if_empty_def)
qed

text \<open>C9: a withdrawal conserves CACAO. When a provider with units withdraws, the CACAO paid out is
  what the pools lose, up to the protection against impermanent loss, which the reserve pays to
  Asgard for it; and some of the provider's units, no more than the provider has, are withdrawn.\<close>

theorem withdraw_conserves:
  assumes "cosmos_sdk (E_sdk E)" and "bank_keeper B" and "pools_keyed (W_kv w)"
    and "GetLiquidityProvider (E_codecs E) (W_kv w) (MW_Asset msg) (MW_WithdrawAddress msg) = lp"
    and "0 < LP_Units lp" and "LP_Units lp \<le> Pool_LPUnits (GetPool (W_kv w) (MW_Asset msg))"
    and "withdrawV105 E B w msg = Some (Inr (c, a, p, u, g), w')"
  shows "cacao_in_pools (W_kv w') + c = cacao_in_pools (W_kv w) + p \<and> protection_paid B w w' p
    \<and> 0 < u \<and> u \<le> LP_Units lp"
proof -
  let ?k = "W_kv w"
  obtain pool un s where "validateWithdrawV105 E ?k msg = Some None"
    and cu: "Pool_CalcUnits (E_sdk E) (K_version ?k) (GetPool ?k (MW_Asset msg)) s = Some (un, pool)"
    and wu: "withdraw_units E B w msg pool lp = Some (Inr (c, a, p, u, g), w')"
    using assms(4,5,7) by (auto simp: withdrawV105_def bind_Some_iff Let_def split: if_split_asm option.split_asm)
  then have "PoolExist ?k (MW_Asset msg)" by (auto simp: validateWithdrawV105_def split: if_split_asm)
  then obtain p0 where p0: "kv_get (K_pools ?k) (pool_key (MW_Asset msg)) = Some p0"
    and gp: "GetPool ?k (MW_Asset msg) = decode_pool p0" by (auto simp: PoolExist_def GetPool_def)
  have key: "pool_key (Pool_Asset p0) = pool_key (MW_Asset msg)"
    using assms(3) p0 by (auto simp: pools_keyed_def list_all_iff kv_get_def dest!: map_of_SomeD)
  note bal = calc_units_balances [OF cu, unfolded gp]
  have dec: "Pool_BalanceCacao (decode_pool p0) = Pool_BalanceCacao p0" "Pool_Asset (decode_pool p0) = Pool_Asset p0"
    by (simp_all add: decode_pool_def)
  have "LP_Units lp \<le> Pool_LPUnits pool" using assms(6) bal by (simp add: gp)
  from withdraw_units_effect [OF assms(1,2) this wu] obtain pool1 k1 where
    eff: "0 < u" "u \<le> LP_Units lp" "protection_paid B w w' p" "c \<le> Pool_BalanceCacao pool + p"
    and b1: "Pool_BalanceCacao pool1 = Pool_BalanceCacao pool + p - c" and a1: "Pool_Asset pool1 = Pool_Asset pool"
    and k1: "SetPool ?k pool1 = Inr k1" "K_pools (W_kv w') = K_pools k1" by blast
  have "kv_get (K_pools ?k) (pool_key (Pool_Asset pool1)) = Some p0" using p0 key a1 bal dec by simp
  from cacao_after_SetPool [OF assms(3) this k1(1)] show ?thesis
    using eff b1 bal dec k1(2) by (simp add: cacao_in_pools_def GetPools_def)
qed

definition withdraw_pool :: Pool where
  "withdraw_pool = sample_pool\<lparr>Pool_Status := PoolStatus_Staged\<rparr>"

definition withdraw_world :: "ledger world" where
  "withdraw_world =
     \<lparr>W_kv = empty_store\<lparr>K_pools := [(pool_key BTCAsset, withdraw_pool)],
        K_liquidityProviders := [(lp_key sample_lp, sample_lp)]\<rparr>, W_bank = empty_ledger\<rparr>"

definition withdraw_msg :: MsgWithdrawLiquidity where
  "withdraw_msg = NewMsgWithdrawLiquidity (GetRagnarokTx BTCChain ''maya1'' ''maya2'') ''maya1'' 5000 BTCAsset EmptyAsset ''n''"

lemma withdraw_lookups:
  "GetLiquidityProvider sample_codecs (W_kv withdraw_world) BTCAsset ''maya1'' = sample_lp"
  "GetPool (W_kv withdraw_world) BTCAsset = withdraw_pool"
  "PoolExist (W_kv withdraw_world) BTCAsset"
  "pools_keyed (W_kv withdraw_world)"
  "GetTotalSupply ledger_bank withdraw_world (Asset_GetSyntheticAsset BTCAsset) = Some 0"
  "\<not> RagnarokInProgress (W_kv withdraw_world)" "K_version (W_kv withdraw_world) = (\<lambda>_. True)"
  "K_int64 (W_kv withdraw_world) = []"
proof -
  have "lp_key (empty_provider sample_codecs BTCAsset ''maya1'') = lp_key sample_lp" by code_simp
  then show "GetLiquidityProvider sample_codecs (W_kv withdraw_world) BTCAsset ''maya1'' = sample_lp"
    by (simp add: GetLiquidityProvider_def withdraw_world_def kv_get_def decode_provider_def sample_lp_def Let_def)
qed (simp_all add: withdraw_world_def withdraw_pool_def empty_store_def GetPool_def PoolExist_def kv_get_def
    decode_pool_def sample_pool_def NewPool_def pools_keyed_def kv_invar_def GetTotalSupply_def
    GetPoolRagnarokStart_def getInt64_def ledger_bank_def empty_ledger_def uint64_of_def
    RagnarokInProgress_def GetRagnarokBlockHeight_def getRagnarokValue_def)

lemma withdraw_msg_checks:
  "\<not> Address_IsEmpty ''maya1''" "\<not> TxID_IsEmpty BlankTxID" "\<not> Asset_IsEmpty BTCAsset" "Asset_IsEmpty EmptyAsset"
  "\<not> Address_IsEmpty ''bc1''" "\<not> Asset_IsVaultAsset BTCAsset"
  "wrap64 (1 + C_int64 sample_accessor ''LiquidityLockUpBlocks'') \<le> 1000000"
  by (code_simp | rule conjI)+

lemma withdraw_steps:
  "validateWithdrawV105 (sample_env 1000000) (W_kv withdraw_world) withdraw_msg = Some None"
  "Pool_CalcUnits sdk256 ver withdraw_pool 0 = Some (1000, withdraw_pool)"
  "withdraw_amounts (sample_env 1000000) withdraw_msg withdraw_pool 10000 100 0 EmptyAsset = ok (500, 5, 50)"
proof -
  show "validateWithdrawV105 (sample_env 1000000) (W_kv withdraw_world) withdraw_msg = Some None"
    by (simp add: validateWithdrawV105_def withdraw_msg_def NewMsgWithdrawLiquidity_def GetRagnarokTx_def
        withdraw_msg_checks withdraw_lookups MaxWithdrawBasisPoints_def sample_lp_def LP_GetRemainingUnits_def
        GetSafeShare_def GetUncappedShare_def SafeSub_def sdk256_def round_div_def dec_one_def)
qed (simp_all add: withdraw_msg_def NewMsgWithdrawLiquidity_def withdraw_msg_checks
    withdraw_pool_def sample_pool_def NewPool_def Pool_CalcUnits_def Pool_CalcUnitsV80_def Pool_GetPoolUnits_def
    sdk256.uint_laws sdk256.SafeSub_eq Let_def withdraw_amounts_def calculateWithdrawV102_def GetSafeShare_def
    GetUncappedShare_def MaxWithdrawBasisPoints_def SafeSub_def sdk256_def round_div_def dec_one_def)

lemma withdraw_sample_parts:
  "LP_Units sample_lp = 100" "LP_LastAddHeight sample_lp = 1" "Pool_Asset withdraw_pool = BTCAsset"
  "MW_Asset withdraw_msg = BTCAsset" "MW_WithdrawAddress withdraw_msg = ''maya1''"
  "Tx_Memo (MW_Tx withdraw_msg) = ''Ragnarok''" "Pool_Status withdraw_pool = PoolStatus_Staged"
  "Pool_GetPoolUnits sdk256 withdraw_pool = Some 1000" "RoundToDecimal sdk256 5 (Pool_Decimals withdraw_pool) = Some 5"
  "Pool_BalanceCacao withdraw_pool = 10000" "Pool_BalanceAsset withdraw_pool = 100"
  "mimir (sample_env 1000000) (W_kv withdraw_world) key = -1"
proof -
  show "mimir (sample_env 1000000) (W_kv withdraw_world) key = -1"
    using withdraw_lookups(7,8) by (simp add: mimir_def GetMimir_unset)
qed (simp_all add: sample_lp_def withdraw_pool_def sample_pool_def NewPool_def withdraw_msg_def GetRagnarokTx_def
    NewMsgWithdrawLiquidity_def Pool_GetPoolUnits_def sdk256.uint_laws RoundToDecimal_def)

lemma withdraw_settles:
  "\<exists>w'. settle_withdraw (sample_env 1000000) ledger_bank withdraw_world withdraw_msg withdraw_pool sample_lp 100 0 0 500 5 50 0
    = Some (Inr (500, 5, 0, 50, 0), w')"
proof -
  let ?p = "withdraw_pool\<lparr>Pool_LPUnits := 950, Pool_BalanceCacao := 9500, Pool_BalanceAsset := 95\<rparr>"
  have p: "settle_pool sdk256 withdraw_pool 100 0 0 500 5 50 = Some ?p"
    by (simp add: settle_pool_def sdk256.uint_laws sdk256.SafeSub_eq withdraw_pool_def sample_pool_def NewPool_def)
  have u: "Pool_GetPoolUnits sdk256 ?p = Some 950"
    by (simp add: Pool_GetPoolUnits_def sdk256.uint_laws withdraw_pool_def sample_pool_def NewPool_def)
  have l: "settle_lp (sample_env 1000000) withdraw_msg sample_lp 50
      = Some (sample_lp\<lparr>LP_LastWithdrawHeight := 1000000, LP_Units := 50\<rparr>)"
    by (simp add: settle_lp_def sdk256.SafeSub_eq sample_lp_def Let_def)
  have "SetPool (W_kv withdraw_world) (stage_if_empty ?p)
      = Inr (W_kv withdraw_world\<lparr>K_pools := kv_set (K_pools (W_kv withdraw_world)) (pool_key BTCAsset) ?p\<rparr>)"
    by (simp add: SetPool_def stage_if_empty_def withdraw_msg_checks withdraw_sample_parts)
  then have "\<exists>w'. store_withdraw sdk256 ledger_bank withdraw_world (stage_if_empty ?p)
      (sample_lp\<lparr>LP_LastWithdrawHeight := 1000000, LP_Units := 50\<rparr>) 0 = Some (None, w')"
    by (simp add: store_withdraw_def store_lp_def sample_lp_def sdk256.uint_laws)
  then show ?thesis by (auto simp: settle_withdraw_def p u l sdk256.SafeSub_eq Let_def)
qed

lemma withdraw_sample:
  "\<exists>w'. withdrawV105 (sample_env 1000000) ledger_bank withdraw_world withdraw_msg = Some (Inr (500, 5, 0, 50, 0), w')"
proof -
  have a: "assetToWithdrawV89 withdraw_msg sample_lp (-1) = EmptyAsset"
    using withdraw_msg_checks by (simp add: assetToWithdrawV89_def sample_lp_def withdraw_msg_def NewMsgWithdrawLiquidity_def)
  have "withdraw_units (sample_env 1000000) ledger_bank withdraw_world withdraw_msg withdraw_pool sample_lp
      = settle_withdraw (sample_env 1000000) ledger_bank withdraw_world withdraw_msg withdraw_pool sample_lp 100 0 0 500 5 50 0"
    by (simp add: withdraw_units_def withdraw_sample_parts a init_deposit_def grant_protection_def Let_def
        sdk256.uint_laws sdk256.SafeSub_eq withdraw_steps one_sided_def checkWithdrawLimit_def withdraw_msg_checks)
  then show ?thesis
    using withdraw_settles withdraw_steps withdraw_msg_checks
    by (simp add: withdrawV105_def withdraw_sample_parts withdraw_lookups Let_def)
qed

theorem withdraw_conserves_witness:
  "\<exists>w'. withdrawV105 (sample_env 1000000) ledger_bank withdraw_world withdraw_msg = Some (Inr (500, 5, 0, 50, 0), w')
    \<and> cacao_in_pools (W_kv w') + 500 = cacao_in_pools (W_kv withdraw_world)"
proof -
  obtain w' where w: "withdrawV105 (sample_env 1000000) ledger_bank withdraw_world withdraw_msg
      = Some (Inr (500, 5, 0, 50, 0), w')" using withdraw_sample by blast
  have "Pool_LPUnits withdraw_pool = 1000" by (simp add: withdraw_pool_def sample_pool_def NewPool_def)
  then show ?thesis
    using w withdraw_conserves [OF _ ledger.bank_keeper_axioms withdraw_lookups(4) _ _ _ w, of sample_lp]
      sdk256.cosmos_sdk_axioms
    by (simp add: withdraw_lookups withdraw_sample_parts)
qed

end
