(* ===== verification/LiquidityHandlers.thy ===== *)
theory LiquidityHandlers
  imports NodeHandlers Withdraw
begin

text \<open>
  The handlers of swaps, deposits, withdrawals and donations: \<open>handler_swap.go\<close>, \<open>handler_add_liquidity.go\<close>,
  \<open>handler_withdraw.go\<close>, \<open>handler_donate.go\<close> and \<open>aggregators/\<close>. Each has the validation and the work of the
  current version; the archived versions that run below it are not modelled. The outbound store is the argument \<open>txout\<close>,
  and \<open>showd\<close> prints a \<open>Uint\<close> with the verb of the format, which is code of the SDK. Events are not modelled.
\<close>

section \<open>Aggregators\<close>

text \<open>The build for the main network.\<close>

definition uniswap_aggregators :: "(chain \<times> string) list" where
  "uniswap_aggregators =
     [(ETHChain, ''0xd31f7e39afECEc4855fecc51b693F9A0Cec49fd2''), (ETHChain, ''0x7C38b8B2efF28511ECc14a621e263857Fb5771d3'')]"

definition sushi_aggregators :: "(chain \<times> string) list" where
  "sushi_aggregators =
     [(ETHChain, ''0x3660dE6C56cFD31998397652941ECe42118375DA''), (ETHChain, ''0x0F2CD5dF82959e00BE7AfeeF8245900FC4414199'')]"

definition rango_aggregators :: "(chain \<times> string) list" where
  "rango_aggregators =
     [(ETHChain, ''0x2a7813412b8da8d18Ce56FE763B9eb264D8e28a8''), (ETHChain, ''0xbB8De86F3b041B3C084431dcf3159fE4827c5F0D'')]"

definition DexAggregators :: "version \<Rightarrow> (chain \<times> string) list" where
  "DexAggregators ver =
     (let v3 = [(ETHChain, ''0x0747c681e5ADa7936Ad915CcfF6cD3bd71DBF121''), (ETHChain, ''0xd1ea5F7cE9dA98D0bd7B1F4e3E05985E88b1EF10''),
                (ETHChain, ''0x94a852F0a21E473078846cf88382dd8d15bD1Dfb'')];
          old3 = [(ETHChain, ''0x1C0Ee4030f771a1BB8f72C86150730d063f6b3ff''), (ETHChain, ''0x96ab925EFb957069507894CD941F40734f0288ad''),
                  (ETHChain, ''0xE308B9562de7689B2d31C76a41649933F38ab761'')]
      in if ver (1, 96, 1) then []
         else if ver (1, 96, 0)
         then uniswap_aggregators @ v3 @ sushi_aggregators @ rango_aggregators
                @ [(AVAXChain, ''0x7a68c37D8AFA3078f3Ad51D98eA23Fe57a8Ae21a'')]
         else if ver (1, 94, 0) then uniswap_aggregators @ v3 @ sushi_aggregators @ rango_aggregators
         else if ver (1, 93, 0) then uniswap_aggregators @ old3 @ sushi_aggregators @ rango_aggregators
         else uniswap_aggregators @ old3 @ sushi_aggregators)"

definition FetchDexAggregator :: "version \<Rightarrow> chain \<Rightarrow> string \<Rightarrow> go_error + string" where
  "FetchDexAggregator ver c sfx =
     (case find (\<lambda>(ac, address). Chain_Equals c ac \<and> hasSuffix address sfx) (DexAggregators ver) of
        None \<Rightarrow> Inl (GoError ''aggregator not found'') | Some (_, address) \<Rightarrow> Inr address)"

section \<open>Swaps: validation\<close>

definition liquidity_total :: "env \<Rightarrow> (Asset \<Rightarrow> bool) \<Rightarrow> KVStore \<Rightarrow> nat option" where
  "liquidity_total E ignored k =
     sum_uints (E_sdk E)
       (map Pool_BalanceCacao (filter (\<lambda>p. Pool_Status p \<noteq> PoolStatus_Suspended \<and> \<not> ignored (Pool_Asset p)) (GetPools k))) 0"

definition getTotalLiquidityRUNE :: "env \<Rightarrow> KVStore \<Rightarrow> nat option" where
  "getTotalLiquidityRUNE E k = liquidity_total E Asset_IsNative k"

definition nonneg_config :: "env \<Rightarrow> KVStore \<Rightarrow> constant_name \<Rightarrow> int" where
  "nonneg_config E k key =
     (let v = mimir E k (ConstantName_String key) in if v < 0 then C_int64 (E_cv E) key else v)"

text \<open>The liquidity with the incoming coin, when it is below the limit and the synthetic supply is covered by the pool.\<close>

definition synth_room :: "env \<Rightarrow> 'b bank \<Rightarrow> 'b world \<Rightarrow> MsgSwap \<Rightarrow> nat result" where
  "synth_room E B w m =
     (let S = E_sdk E; k = W_kv w; target = MS_TargetAsset m; limit = nonneg_config E k ''MaximumLiquidityCacao'';
          pool = GetPool k (Asset_GetLayer1Asset target) in
      do {
        t0 \<leftarrow> getTotalLiquidityRUNE E k;
        t \<leftarrow> (case Tx_Coins (MS_Tx m) of
                [] \<Rightarrow> Some t0
              | coin # _ \<Rightarrow>
                  uint_add S t0
                    (if Asset_IsBase (Coin_Asset coin) then Coin_Amount coin
                     else Pool_AssetValueInRune S (GetPool k (Asset_GetLayer1Asset (Coin_Asset coin))) (Coin_Amount coin)));
        if limit > 0 \<and> t > uint64_cast limit then err ''add liquidity rune is over limit''
        else do {
          supply \<leftarrow> GetTotalSupply B w (Asset_GetSyntheticAsset target);
          if Pool_BalanceAsset pool = 0 then err ''pool has zero asset balance''
          else do {
            n \<leftarrow> uint_mul S supply MaxWithdrawBasisPoints;
            q \<leftarrow> uint_quo S n (Pool_BalanceAsset pool);
            coverage \<leftarrow> uint64_of q;
            if coverage > uint64_cast (nonneg_config E k ''MaxSynthPerAssetDepth'')
            then err ''synth quantity is too high relative to asset depth of related pool''
            else ok t
          }
        }
      })"

definition dex_check :: "env \<Rightarrow> KVStore \<Rightarrow> MsgSwap \<Rightarrow> check" where
  "dex_check E k m =
     (let target = MS_TargetAsset m in
      if MS_Aggregator m = '''' then None
      else if config E k ''SwapOutDexAggregationDisabled'' > 0 then fails ''swap out dex integration disabled''
      else if \<not> Asset_Equals target (Chain_GetGasAsset (Asset_Chain target))
        then fails ''target asset is not gas asset, can't use dex feature''
      else case FetchDexAggregator (K_version k) (Asset_Chain target) (MS_Aggregator m) of
             Inl e \<Rightarrow> Some e
           | Inr addr \<Rightarrow> first_error
               [(addr = '''', ''aggregator address is empty''),
                (MS_AggregatorTargetAddress m = '''', ''aggregator target address is empty'')])"

definition SwapHandler_validateV101 :: "env \<Rightarrow> 'b bank \<Rightarrow> 'b world \<Rightarrow> MsgSwap \<Rightarrow> check option" where
  "SwapHandler_validateV101 E B w m =
     (let k = W_kv w in
      case and_check (MsgSwap_ValidateBasicV63 (E_codecs E) m)
             (first_error
               [(isTradingHalt E k (Trade_Swap m), ''trading is halted, can't process swap''),
                (isLiquidityAuction E k, ''liquidity auction is in progress, can't process swap'')]) of
        Some e \<Rightarrow> Some (Some e)
      | None \<Rightarrow>
          if \<not> Asset_IsSyntheticAsset (MS_TargetAsset m) then Some (dex_check E k m)
          else do {
            r \<leftarrow> synth_room E B w m;
            case r of
              Inl e \<Rightarrow> Some (Some e)
            | Inr t \<Rightarrow>
                if \<not> C_bool (E_cv E) ''StrictBondLiquidityRatio'' then Some None
                else do {
                  securityBond \<leftarrow> getEffectiveSecurityBond E k (ListActiveValidators k);
                  if t > securityBond then Some (fails ''add liquidity rune is more than bond'') else Some (dex_check E k m)
                }
          })"

text \<open>A swap that a deposit or a withdrawal queues.\<close>

definition queue_swap :: "env \<Rightarrow> 'b bank \<Rightarrow> 'b world \<Rightarrow> MsgSwap \<Rightarrow> 'b outcome" where
  "queue_swap E B w swapMsg =
     do {
       e \<leftarrow> SwapHandler_validateV101 E B w swapMsg;
       case e of
         Some er \<Rightarrow> Some (Some er, w)
       | None \<Rightarrow> Some (None, w\<lparr>W_kv := SetSwapQueueItem (W_kv w) swapMsg 0\<rparr>)
     }"

section \<open>Deposits\<close>

definition needsSwap :: "MsgAddLiquidity \<Rightarrow> bool" where
  "needsSwap m \<longleftrightarrow>
     (case Tx_Coins (MA_Tx m) of
        [coin] \<Rightarrow> \<not> Asset_IsNativeBase (Coin_Asset coin) \<and> \<not> Asset_Equals (MA_Asset m) (Coin_Asset coin)
      | _ \<Rightarrow> False)"

definition getTotalLiquidityBase :: "env \<Rightarrow> KVStore \<Rightarrow> nat option" where
  "getTotalLiquidityBase E k = liquidity_total E Asset_IsVaultAsset k"

fun validators_with_bond :: "env \<Rightarrow> KVStore \<Rightarrow> node_accounts \<Rightarrow> node_accounts option" where
  "validators_with_bond E k [] = Some []"
| "validators_with_bond E k (na # nas) =
     do {
       bond \<leftarrow> CalcNodeLiquidityBond E k na;
       rest \<leftarrow> validators_with_bond E k nas;
       Some (if NA_Type na = NodeType_TypeValidator \<and> bond \<noteq> 0 then na # rest else rest)
     }"

definition ListValidatorsWithBond :: "env \<Rightarrow> KVStore \<Rightarrow> node_accounts option" where
  "ListValidatorsWithBond E k = validators_with_bond E k (kv_values (K_nodeAccounts k))"

definition getTotalActiveBond :: "env \<Rightarrow> KVStore \<Rightarrow> nat option" where
  "getTotalActiveBond E k =
     do {
       nas \<leftarrow> ListValidatorsWithBond E k;
       bonds \<leftarrow> those (map (CalcNodeLiquidityBond E k) (filter (\<lambda>na. NA_Status na = NodeStatus_Active) nas));
       sum_uints (E_sdk E) bonds 0
     }"

text \<open>A genesis node takes no liquidity; an address that does not parse is an error.\<close>

fun not_genesis :: "sdk \<Rightarrow> acc_address \<Rightarrow> string list \<Rightarrow> check" where
  "not_genesis S node [] = None"
| "not_genesis S node (g # gs) =
     (case acc_from_bech32 S g of
        None \<Rightarrow> fails ''fail to parse genesis node address''
      | Some a \<Rightarrow> if a = node then fails ''cannot add liquidity to genesis node'' else not_genesis S node gs)"

definition bonder_check :: "env \<Rightarrow> KVStore \<Rightarrow> MsgAddLiquidity \<Rightarrow> check option" where
  "bonder_check E k m =
     (let node = LP_NodeBondAddress (GetLiquidityProvider (E_codecs E) k (MA_Asset m) (MA_CacaoAddress m));
          na = GetNodeAccount (E_sdk E) k (E_height E) node; maxBond = mimir E k ''MaximumBondInRune'' in
      if \<not> Assets_Contains (GetLiquidityPools (K_version k)) (MA_Asset m) \<or> node = [] then Some None
      else case and_check (not_genesis (E_sdk E) node GenesisNodes)
                  (first_error
                    [(NA_Status na = NodeStatus_Ready, ''cannot add bond while node is ready status''),
                     (config E k ''PauseBond'' > 0, ''bonding has been paused'')]) of
             Some e \<Rightarrow> Some (Some e)
           | None \<Rightarrow> do {
               liquidityBond \<leftarrow> CalcNodeLiquidityBond E k na;
               bond \<leftarrow> uint_add (E_sdk E) liquidityBond (MA_CacaoAmount m);
               Some (if maxBond > 0 \<and> bond > uint64_cast maxBond then fails ''too much bond'' else None)
             })"

definition basic_deposit_checks :: "env \<Rightarrow> KVStore \<Rightarrow> MsgAddLiquidity \<Rightarrow> check" where
  "basic_deposit_checks E k m =
     (let L = E_codecs E; asset = MA_Asset m; vault = Asset_IsVaultAsset asset in
      if MsgAddLiquidity_ValidateBasicV63 L m \<noteq> None then fails ''fail to validate add liquidity''
      else first_error
        [(vault \<and> \<not> Asset_IsGasAsset (Asset_GetLayer1Asset asset), ''asset must be a gas asset for the layer1 protocol''),
         (vault \<and> \<not> Address_IsChain L (MA_AssetAddress m) BASEChain, ''asset address must be a thor address''),
         (vault \<and> MA_CacaoAmount m \<noteq> 0, ''cannot deposit rune into a vault''),
         (\<not> Address_IsEmpty (MA_CacaoAddress m) \<and> \<not> Address_IsChain L (MA_CacaoAddress m) BASEChain,
          ''fail to validate add liquidity''),
         (needsSwap m \<and> \<not> vault, ''swap & add liquidity is only available for synthetic pools''),
         (needsSwap m \<and> \<not> Asset_Equals (Asset_GetLayer1Asset asset) (Coin_Asset (hd (Tx_Coins (MA_Tx m)))),
          ''deposit asset must be the layer1 equivalent for the synthetic asset''),
         (Pool_EnsureValidPoolStatus (GetPool k asset) False \<noteq> None, ''invalid pool status''),
         (isChainHalted E k (Asset_Chain asset) \<or> isLPPaused E k (Asset_Chain asset),
          ''unable to add liquidity while chain has paused LP actions'')])"

text \<open>The liquidity that is not of the nodes must not exceed the bond of the active nodes.\<close>

definition economic_check :: "env \<Rightarrow> KVStore \<Rightarrow> MsgAddLiquidity \<Rightarrow> check option" where
  "economic_check E k m =
     (let S = E_sdk E; v = mimir E k ''EnsureLiquidityNoLargerThanBond'';
          strict = (if v < 0 then C_bool (E_cv E) ''StrictBondLiquidityRatio'' else v = 1);
          limit = nonneg_config E k ''MaximumLiquidityCacao'' in
      if Asset_IsVaultAsset (MA_Asset m) \<or> \<not> strict then Some None
      else do {
        t0 \<leftarrow> getTotalLiquidityBase E k;
        t1 \<leftarrow> uint_add S t0 (MA_CacaoAmount m);
        t2 \<leftarrow> uint_add S t1 (Pool_AssetValueInRune S (GetPool k (MA_Asset m)) (MA_AssetAmount m));
        if limit > 0 \<and> t2 > uint64_cast limit then Some (fails ''add liquidity rune is over limit'')
        else do {
          bond \<leftarrow> getTotalActiveBond E k;
          rest \<leftarrow> SafeSub S t2 bond;
          Some (if rest > bond then fails ''add liquidity rune is more than bond'' else None)
        }
      })"

definition AddLiquidityHandler_validateV96 :: "env \<Rightarrow> KVStore \<Rightarrow> MsgAddLiquidity \<Rightarrow> check option" where
  "AddLiquidityHandler_validateV96 E k m =
     (case basic_deposit_checks E k m of
        Some e \<Rightarrow> Some (Some e)
      | None \<Rightarrow> do {
          e \<leftarrow> bonder_check E k m;
          case e of Some er \<Rightarrow> Some (Some er) | None \<Rightarrow> economic_check E k m
        })"

definition validateAddLiquidityMessage :: "KVStore \<Rightarrow> Asset \<Rightarrow> Tx \<Rightarrow> address \<Rightarrow> address \<Rightarrow> check" where
  "validateAddLiquidityMessage k asset tx runeAddr assetAddr = first_error
     [(Asset_IsEmpty asset, ''asset is empty''),
      (TxID_IsEmpty (Tx_ID tx), ''request tx hash is empty''),
      (Address_IsEmpty runeAddr \<and> Address_IsEmpty assetAddr, ''rune address and asset address is empty''),
      (\<not> PoolExist k asset, ''asset doesn't exist''),
      (Pool_Status (GetPool k asset) = PoolStatus_Staged \<and> (Address_IsEmpty runeAddr \<or> Address_IsEmpty assetAddr),
       ''cannot add single sided liquidity while a pool is staged'')]"

text \<open>The status of a pool without units.\<close>

definition initial_status :: "env \<Rightarrow> KVStore \<Rightarrow> nat \<Rightarrow> Pool \<Rightarrow> Pool" where
  "initial_status E k originalUnits pool =
     (if originalUnits \<noteq> 0 then pool
      else pool\<lparr>Pool_Status :=
        if Asset_Equals (Pool_Asset pool) (Chain_GetGasAsset (Asset_GetChain (Pool_Asset pool))) \<or> isLiquidityAuction E k
        then PoolStatus_Available else GetPoolStatus (C_string (E_cv E) ''DefaultPoolStatus'')\<rparr>)"

text \<open>The position a deposit goes to: a new one takes the addresses of the deposit, an old one must have them.\<close>

definition claim_position :: "int \<Rightarrow> Asset \<Rightarrow> address \<Rightarrow> address \<Rightarrow> LiquidityProvider \<Rightarrow> go_error + LiquidityProvider" where
  "claim_position height asset runeAddr assetAddr lp =
     (let vault = Asset_IsVaultAsset asset;
          su = lp\<lparr>LP_LastAddHeight := height\<rparr>;
          su1 = (if LP_Units su = 0 \<and> TxID_IsEmpty (LP_PendingTxID su)
                 then su\<lparr>LP_CacaoAddress := if Address_IsEmpty (LP_CacaoAddress su) then runeAddr else LP_CacaoAddress su,
                         LP_AssetAddress := if Address_IsEmpty (LP_AssetAddress su) then assetAddr else LP_AssetAddress su\<rparr>
                 else su);
          su2 = (if LP_Units su = 0 \<and> vault then su1\<lparr>LP_AssetAddress := assetAddr, LP_CacaoAddress := ''''\<rparr> else su1) in
      if LP_Units su = 0 \<and> \<not> vault
         \<and> (\<not> Address_Equals runeAddr (LP_CacaoAddress su2) \<or> \<not> Address_Equals assetAddr (LP_AssetAddress su2))
      then Inl (GoError ''mismatch of address'')
      else if \<not> Address_IsEmpty assetAddr \<and> \<not> Address_Equals (LP_AssetAddress su2) assetAddr \<and> \<not> vault
      then Inl (GoError ''mismatch of address'')
      else Inr su2)"

text \<open>A one-sided deposit that waits for its other side. A failed write of the pool is logged.\<close>

definition stage_deposit :: "KVStore \<Rightarrow> LiquidityProvider \<Rightarrow> Pool \<Rightarrow> KVStore" where
  "stage_deposit k su pool =
     (let k' = SetLiquidityProvider k su in case SetPool k' pool of Inl _ \<Rightarrow> k' | Inr k'' \<Rightarrow> k'')"

definition auction_tier :: "env \<Rightarrow> int \<Rightarrow> int \<Rightarrow> int" where
  "auction_tier E oldTier tier =
     (let tier1 = C_int64 (E_cv E) ''WithdrawTier1''; tier3 = C_int64 (E_cv E) ''WithdrawTier3'' in
      if oldTier \<noteq> 0 \<and> tier > oldTier then oldTier else if tier < tier1 \<or> tier > tier3 then tier3 else tier)"

definition stage_cacao :: "env \<Rightarrow> KVStore \<Rightarrow> Tx \<Rightarrow> nat \<Rightarrow> nat \<Rightarrow> LiquidityProvider \<Rightarrow> Pool \<Rightarrow> KVStore option" where
  "stage_cacao E k tx addCacaoAmount pendingCacaoAmt su pool =
     do {
       p \<leftarrow> uint_add (E_sdk E) (Pool_PendingInboundCacao pool) addCacaoAmount;
       Some (stage_deposit k (su\<lparr>LP_PendingCacao := pendingCacaoAmt, LP_PendingTxID := Tx_ID tx\<rparr>)
               (pool\<lparr>Pool_PendingInboundCacao := p\<rparr>))
     }"

definition stage_asset :: "env \<Rightarrow> KVStore \<Rightarrow> Tx \<Rightarrow> nat \<Rightarrow> nat \<Rightarrow> address \<Rightarrow> int \<Rightarrow> LiquidityProvider \<Rightarrow> Pool \<Rightarrow> KVStore option" where
  "stage_asset E k tx addAssetAmount pendingAssetAmt runeAddr tier su pool =
     do {
       p \<leftarrow> uint_add (E_sdk E) (Pool_PendingInboundAsset pool) addAssetAmount;
       let k1 = stage_deposit k (su\<lparr>LP_PendingAsset := pendingAssetAmt, LP_PendingTxID := Tx_ID tx\<rparr>)
                  (pool\<lparr>Pool_PendingInboundAsset := p\<rparr>);
       Some (if isLiquidityAuction E k1
             then SetLiquidityAuctionTier k1 runeAddr
                    (auction_tier E (GetLiquidityAuctionTier (E_codecs E) k1 (LP_CacaoAddress su)) tier)
             else k1)
     }"

text \<open>The value of a deposit that the protection against impermanent loss starts from.\<close>

definition deposit_value :: "sdk \<Rightarrow> Pool \<Rightarrow> nat \<Rightarrow> LiquidityProvider \<Rightarrow> LiquidityProvider option" where
  "deposit_value S pool liquidityUnits su =
     (if Pool_Status pool \<noteq> PoolStatus_Available then Some su
      else do {
        poolUnits \<leftarrow> Pool_GetPoolUnits S pool;
        if LP_AssetDepositValue su = 0 \<and> LP_CacaoDepositValue su = 0
        then Some (su\<lparr>LP_CacaoDepositValue := GetSafeShare S (LP_Units su) poolUnits (Pool_BalanceCacao pool),
                      LP_AssetDepositValue := GetSafeShare S (LP_Units su) poolUnits (Pool_BalanceAsset pool)\<rparr>)
        else do {
          c \<leftarrow> uint_add S (LP_CacaoDepositValue su) (GetSafeShare S liquidityUnits poolUnits (Pool_BalanceCacao pool));
          a \<leftarrow> uint_add S (LP_AssetDepositValue su) (GetSafeShare S liquidityUnits poolUnits (Pool_BalanceAsset pool));
          Some (su\<lparr>LP_CacaoDepositValue := c, LP_AssetDepositValue := a\<rparr>)
        }
      })"

definition deposit_units :: "sdk \<Rightarrow> Asset \<Rightarrow> Pool \<Rightarrow> nat \<Rightarrow> nat \<Rightarrow> nat result" where
  "deposit_units S asset pool addCacao addAsset =
     do {
       oldPoolUnits \<leftarrow> Pool_GetPoolUnits S pool;
       if Asset_IsVaultAsset asset
       then map_option (Inr \<circ> snd) (calculateVaultUnitsV1 S oldPoolUnits (Pool_BalanceAsset pool) addAsset)
       else map_option (case_sum Inl (Inr \<circ> snd))
              (calculatePoolUnitsV1 S oldPoolUnits (Pool_BalanceCacao pool) (Pool_BalanceAsset pool) addCacao addAsset)
     }"

definition grow_pool :: "sdk \<Rightarrow> Pool \<Rightarrow> nat \<Rightarrow> nat \<Rightarrow> nat \<Rightarrow> Pool option" where
  "grow_pool S pool units addCacao addAsset =
     do {
       poolRune \<leftarrow> uint_add S (Pool_BalanceCacao pool) addCacao;
       poolAsset \<leftarrow> uint_add S (Pool_BalanceAsset pool) addAsset;
       lpUnits \<leftarrow> uint_add S (Pool_LPUnits pool) units;
       Some (pool\<lparr>Pool_LPUnits := lpUnits, Pool_BalanceCacao := poolRune, Pool_BalanceAsset := poolAsset\<rparr>)
     }"

definition track_pol :: "env \<Rightarrow> 'b bank \<Rightarrow> KVStore \<Rightarrow> address \<Rightarrow> nat \<Rightarrow> (check \<times> KVStore) option" where
  "track_pol E B k cacaoAddress amount =
     (case GetModuleAddress (E_sdk E) (E_codecs E) B ReserveName of
        Inl e \<Rightarrow> Some (Some e, k)
      | Inr polAddress \<Rightarrow>
          if \<not> Address_Equals polAddress cacaoAddress then Some (None, k)
          else do {
            d \<leftarrow> uint_add (E_sdk E) (POL_CacaoDeposited (GetPOL k)) amount;
            Some (None, SetPOL k ((GetPOL k)\<lparr>POL_CacaoDeposited := d\<rparr>))
          })"

definition commit_deposit ::
  "env \<Rightarrow> 'b bank \<Rightarrow> KVStore \<Rightarrow> Asset \<Rightarrow> nat \<Rightarrow> nat \<Rightarrow> LiquidityProvider \<Rightarrow> Pool \<Rightarrow> (check \<times> KVStore) option" where
  "commit_deposit E B k asset pendingCacaoAmt pendingAssetAmt su pool =
     (let S = E_sdk E; addCacao = (if Asset_IsVaultAsset asset then 0 else pendingCacaoAmt) in
      do {
        pc \<leftarrow> SafeSub S (Pool_PendingInboundCacao pool) (LP_PendingCacao su);
        pa \<leftarrow> SafeSub S (Pool_PendingInboundAsset pool) (LP_PendingAsset su);
        let pool1 = pool\<lparr>Pool_PendingInboundCacao := pc, Pool_PendingInboundAsset := pa\<rparr>;
        let su1 = su\<lparr>LP_PendingAsset := 0, LP_PendingCacao := 0, LP_PendingTxID := ''''\<rparr>;
        r \<leftarrow> deposit_units S asset pool1 addCacao pendingAssetAmt;
        case r of
          Inl e \<Rightarrow> Some (Some e, k)
        | Inr liquidityUnits \<Rightarrow> do {
            pool2 \<leftarrow> grow_pool S pool1 liquidityUnits addCacao pendingAssetAmt;
            if (Pool_BalanceCacao pool2 = 0 \<and> \<not> Asset_IsVaultAsset asset) \<or> Pool_BalanceAsset pool2 = 0
            then Some (fails ''pool cannot have zero rune or asset balance'', k)
            else case SetPool k pool2 of
                   Inl e \<Rightarrow> Some (Some e, k)
                 | Inr k1 \<Rightarrow> do {
                     u \<leftarrow> uint_add S (LP_Units su1) liquidityUnits;
                     su2 \<leftarrow> deposit_value S pool2 liquidityUnits (su1\<lparr>LP_Units := u\<rparr>);
                     track_pol E B (SetLiquidityProvider k1 su2) (LP_CacaoAddress su2) addCacao
                   }
          }
      })"

text \<open>A deposit once its position is claimed: it waits for its other side, or is committed with what waits.\<close>

definition place_deposit ::
  "env \<Rightarrow> 'b bank \<Rightarrow> KVStore \<Rightarrow> Asset \<Rightarrow> nat \<Rightarrow> nat \<Rightarrow> address \<Rightarrow> Tx \<Rightarrow> bool \<Rightarrow> int \<Rightarrow> LiquidityProvider \<Rightarrow> Pool
    \<Rightarrow> (check \<times> KVStore) option" where
  "place_deposit E B k asset addCacaoAmount addAssetAmount runeAddr tx stage tier su pool =
     do {
       pendingCacaoAmt \<leftarrow> uint_add (E_sdk E) (LP_PendingCacao su) addCacaoAmount;
       pendingAssetAmt \<leftarrow> uint_add (E_sdk E) (LP_PendingAsset su) addAssetAmount;
       if stage \<and> pendingAssetAmt = 0
       then map_option (Pair None) (stage_cacao E k tx addCacaoAmount pendingCacaoAmt su pool)
       else if stage \<and> pendingCacaoAmt = 0
       then map_option (Pair None) (stage_asset E k tx addAssetAmount pendingAssetAmt runeAddr tier su pool)
       else commit_deposit E B k asset pendingCacaoAmt pendingAssetAmt su pool
     }"

definition addLiquidityV105 ::
  "env \<Rightarrow> 'b bank \<Rightarrow> 'b world \<Rightarrow> Asset \<Rightarrow> nat \<Rightarrow> nat \<Rightarrow> address \<Rightarrow> address \<Rightarrow> Tx \<Rightarrow> bool \<Rightarrow> int \<Rightarrow> (check \<times> KVStore) option" where
  "addLiquidityV105 E B w asset addCacaoAmount addAssetAmount runeAddr assetAddr tx stage tier =
     (let S = E_sdk E; k = W_kv w in
      case validateAddLiquidityMessage k asset tx runeAddr assetAddr of
        Some e \<Rightarrow> Some (Some e, k)
      | None \<Rightarrow> do {
          synthSupply \<leftarrow> GetTotalSupply B w (Asset_GetSyntheticAsset (Pool_Asset (GetPool k asset)));
          (originalUnits, pool0) \<leftarrow> Pool_CalcUnits S (K_version k) (GetPool k asset) synthSupply;
          let pool = initial_status E k originalUnits pool0;
          let lp = GetLiquidityProvider (E_codecs E) k asset (if Address_IsEmpty runeAddr then assetAddr else runeAddr);
          case claim_position (E_height E) asset runeAddr assetAddr lp of
            Inl e \<Rightarrow> Some (Some e, k)
          | Inr su \<Rightarrow> place_deposit E B k asset addCacaoAmount addAssetAmount runeAddr tx stage tier su pool
        })"

text \<open>The pool of a deposit is created when there is none, and takes the decimals of the first coin that has any.\<close>

definition ensure_pool :: "KVStore \<Rightarrow> MsgAddLiquidity \<Rightarrow> go_error + KVStore" where
  "ensure_pool k m =
     (let pool = GetPool k (MA_Asset m);
          pool1 = (if Pool_IsEmpty pool then pool\<lparr>Pool_Asset := MA_Asset m\<rparr> else pool);
          coin = Coins_GetCoin (Tx_Coins (MA_Tx m)) (Pool_Asset pool1) in
      case (if Pool_IsEmpty pool then SetPool k pool1 else Inr k) of
        Inl e \<Rightarrow> Inl e
      | Inr k1 \<Rightarrow>
          if Pool_Decimals pool1 = 0 \<and> \<not> Coin_IsEmpty coin
          then SetPool k1 (if Coin_Decimals coin > 0 then pool1\<lparr>Pool_Decimals := Coin_Decimals coin\<rparr> else pool1)
          else Inr k1)"

definition staged_deposit :: "MsgAddLiquidity \<Rightarrow> bool" where
  "staged_deposit m \<longleftrightarrow>
     \<not> Asset_IsVaultAsset (MA_Asset m)
     \<and> ((\<not> Address_IsEmpty (MA_AssetAddress m) \<and> MA_AssetAmount m = 0)
        \<or> (\<not> Address_IsEmpty (MA_CacaoAddress m) \<and> MA_CacaoAmount m = 0))"

definition AddLiquidityHandler_swapV93 ::
  "env \<Rightarrow> 'b bank \<Rightarrow> (nat \<Rightarrow> string) \<Rightarrow> 'b world \<Rightarrow> MsgAddLiquidity \<Rightarrow> 'b outcome" where
  "AddLiquidityHandler_swapV93 E B showd w m =
     (let asset = Asset_String (MA_Asset m); aff = MA_AffiliateAddress m in
      if HasSwapQueueItem (W_kv w) (Tx_ID (MA_Tx m)) 0 then Some (fails ''txn hash conflict'', w)
      else if CHR '':'' \<in> set (asset @ aff) then Some (fails ''illegal character'', w)
      else queue_swap E B w
        (NewMsgSwap ((MA_Tx m)\<lparr>Tx_Memo := ''+:'' @ asset @ ''::'' @ aff @ '':'' @ showd (MA_AffiliateBasisPoints m)\<rparr>)
          (MA_Asset m) NoopAddress 0 '''' 0 '''' '''' None OrderType_market (MA_Signer m)))"

text \<open>The share of the affiliate is deposited after that of the user; its error is only logged.\<close>

definition AddLiquidityHandler_handleV96 ::
  "env \<Rightarrow> 'b bank \<Rightarrow> (nat \<Rightarrow> string) \<Rightarrow> 'b world \<Rightarrow> MsgAddLiquidity \<Rightarrow> 'b outcome" where
  "AddLiquidityHandler_handleV96 E B showd w m =
     (let S = E_sdk E; points = MA_AffiliateBasisPoints m;
          add = (\<lambda>k cacao a runeAddr assetAddr.
                   addLiquidityV105 E B (w\<lparr>W_kv := k\<rparr>) (MA_Asset m) cacao a runeAddr assetAddr (MA_Tx m) (staged_deposit m)
                     (MA_LiquidityAuctionTier m)) in
      if needsSwap m then AddLiquidityHandler_swapV93 E B showd w m
      else case ensure_pool (W_kv w) m of
        Inl e \<Rightarrow> Some (Some e, w)
      | Inr k \<Rightarrow>
          if points = 0
          then do {
            (e, k') \<leftarrow> add k (MA_CacaoAmount m) (MA_AssetAmount m) (MA_CacaoAddress m) (MA_AssetAddress m);
            Some (e, w\<lparr>W_kv := k'\<rparr>)
          }
          else do {
            let affiliateRune = GetSafeShare S points 10000 (MA_CacaoAmount m);
            let affiliateAsset = GetSafeShare S points 10000 (MA_AssetAmount m);
            userRune \<leftarrow> SafeSub S (MA_CacaoAmount m) affiliateRune;
            userAsset \<leftarrow> SafeSub S (MA_AssetAmount m) affiliateAsset;
            (e, k1) \<leftarrow> add k userRune userAsset (MA_CacaoAddress m) (MA_AssetAddress m);
            case e of
              Some er \<Rightarrow> Some (Some er, w\<lparr>W_kv := k1\<rparr>)
            | None \<Rightarrow> do {
                (_, k2) \<leftarrow> add k1 affiliateRune affiliateAsset (MA_AffiliateAddress m) '''';
                Some (None, w\<lparr>W_kv := k2\<rparr>)
              }
          })"

definition AddLiquidityHandler_Run ::
  "env \<Rightarrow> 'b bank \<Rightarrow> (nat \<Rightarrow> string) \<Rightarrow> 'b world \<Rightarrow> MsgAddLiquidity \<Rightarrow> 'b outcome" where
  "AddLiquidityHandler_Run E B showd w m =
     Run (since (W_kv w) (1, 96, 0) (AddLiquidityHandler_validateV96 E (W_kv w) m))
       (AddLiquidityHandler_handleV96 E B showd w m) w"

section \<open>Swaps\<close>

text \<open>After a swap whose memo is that of a deposit, the asset is deposited.\<close>

definition deposit_swapped ::
  "env \<Rightarrow> 'b bank \<Rightarrow> (nat \<Rightarrow> string) \<Rightarrow> 'b world \<Rightarrow> MsgSwap \<Rightarrow> nat \<Rightarrow> Memo \<Rightarrow> 'b outcome" where
  "deposit_swapped E B showd w m emit memo =
     (case memo of
        AddLiquidityMemo asset addr affAddr affPts _ \<Rightarrow>
          let asset' = fuzzyAssetMatch (W_kv w) asset in
          AddLiquidityHandler_Run E B showd w
            (getMsgAddLiquidityFromMemo asset' addr affAddr affPts 0
              (EmptyObservedTx\<lparr>OT_Tx := (MS_Tx m)\<lparr>Tx_Coins := [NewCoin asset' emit]\<rparr>\<rparr>) (MS_Signer m))
      | _ \<Rightarrow> Some (None, w))"

definition SwapHandler_handleV95 ::
  "env \<Rightarrow> keys \<Rightarrow> 'b bank \<Rightarrow> (nat \<Rightarrow> string) \<Rightarrow> 'b txout_store \<Rightarrow> GasMgr \<Rightarrow> 'b world \<Rightarrow> MsgSwap \<Rightarrow> 'b outcome" where
  "SwapHandler_handleV95 E Y B showd txout gm w m =
     (let L = E_codecs E; k = W_kv w; dest = MS_Destination m; target = MS_TargetAsset m in
      if \<not> ChainNetwork_SoftEquals (Y_net Y) (Address_GetNetwork L (Y_net Y) (K_version k) dest (Address_GetChain L dest))
      then Some (fails ''address is not same network'', w)
      else do {
        transactionFee \<leftarrow> GetFee E k gm (Address_GetChain L dest) BaseAsset;
        if Asset_IsBase target \<and> \<not> Asset_IsNativeBase target then Some (fails ''wrong target asset'', w)
        else case (if MS_Aggregator m = '''' then Inr ''''
                   else FetchDexAggregator (K_version k) (Asset_Chain target) (MS_Aggregator m)) of
               Inl e \<Rightarrow> Some (Some e, w)
             | Inr dexAgg \<Rightarrow> do {
                 ((emit, _, e), w1) \<leftarrow> Swap (E_sdk E) B (Address_IsChain L) txout w (E_height E) (MS_Tx m) target dest
                   (MS_TradeTarget m) dexAgg (MS_AggregatorTargetAddress m) (MS_AggregatorTargetLimit m) transactionFee
                   (synth_depth_mult E k);
                 case e of
                   Some er \<Rightarrow> Some (Some er, w1)
                 | None \<Rightarrow>
                     (case ParseMemoWithMAYANames E (W_kv w1) (Tx_Memo (MS_Tx m)) of
                        Inl er \<Rightarrow> Some (Some er, w1)
                      | Inr memo \<Rightarrow> deposit_swapped E B showd w1 m emit memo)
               }
      })"

definition SwapHandler_Run ::
  "env \<Rightarrow> keys \<Rightarrow> 'b bank \<Rightarrow> (nat \<Rightarrow> string) \<Rightarrow> 'b txout_store \<Rightarrow> GasMgr \<Rightarrow> 'b world \<Rightarrow> MsgSwap \<Rightarrow> 'b outcome" where
  "SwapHandler_Run E Y B showd txout gm w m =
     Run (SwapHandler_validateV101 E B w m)
       (if Tx_Coins (MS_Tx m) = [] then None
        else handled_since w (1, 95, 0) (SwapHandler_handleV95 E Y B showd txout gm w m)) w"

section \<open>Withdrawals\<close>

definition WithdrawLiquidityHandler_validateV105 :: "env \<Rightarrow> KVStore \<Rightarrow> MsgWithdrawLiquidity \<Rightarrow> check" where
  "WithdrawLiquidityHandler_validateV105 E k m =
     (let asset = MW_Asset m; pool = GetPool k asset; ragnarok = TxID_Equals (Tx_ID (MW_Tx m)) BlankTxID;
          lp = GetLiquidityProvider (E_codecs E) k asset (MW_WithdrawAddress m) in
      first_error
        [(MsgWithdrawLiquidity_ValidateBasic m \<noteq> None, ''fail to validate withdraw''),
         (Pool_EnsureValidPoolStatus pool False \<noteq> None, ''invalid pool status''),
         (Pool_Status pool \<noteq> PoolStatus_Available \<and> \<not> Asset_IsEmpty (MW_WithdrawalAsset m) \<and> \<not> ragnarok,
          ''cannot specify a withdrawal asset while the pool is not available''),
         (isChainHalted E k (Asset_Chain asset) \<or> isLPPaused E k (Asset_Chain asset),
          ''unable to withdraw liquidity while chain is halted or paused LP actions''),
         (\<not> Chain_Equals (Tx_Chain (MW_Tx m)) BASEChain \<and> Address_IsChain (E_codecs E) (MW_WithdrawAddress m) BASEChain
            \<and> \<not> ragnarok \<and> \<not> Address_Equals (LP_AssetAddress lp) (Tx_FromAddress (MW_Tx m)),
          ''mismatch of address'')])"

definition WithdrawLiquidityHandler_swapV93 ::
  "env \<Rightarrow> 'b bank \<Rightarrow> 'b world \<Rightarrow> MsgWithdrawLiquidity \<Rightarrow> Coin \<Rightarrow> address \<Rightarrow> 'b outcome" where
  "WithdrawLiquidityHandler_swapV93 E B w m coin addr =
     (let target = Chain_GetGasAsset (Address_GetChain (E_codecs E) addr) in
      if HasSwapQueueItem (W_kv w) (Tx_ID (MW_Tx m)) 0 then Some (fails ''txn hash conflict'', w)
      else queue_swap E B w
        (NewMsgSwap ((MW_Tx m)\<lparr>Tx_Memo := ''=:'' @ Asset_String target @ '':'' @ addr, Tx_Coins := [coin]\<rparr>)
          target addr 0 '''' 0 '''' '''' None OrderType_market (MW_Signer m)))"

text \<open>The outbound of a withdrawal. A withdrawal that pays its own gas sets the gas of the outbound.\<close>

definition withdraw_item ::
  "env \<Rightarrow> KVStore \<Rightarrow> MsgWithdrawLiquidity \<Rightarrow> nat \<Rightarrow> Coin \<Rightarrow> address \<Rightarrow> TxOutItem option" where
  "withdraw_item E k m gasAsset coin addr =
     (let asset = MW_Asset m; gasOf = Chain_GetGasAsset (Asset_GetChain asset);
          toi = \<lparr>TOI_Chain = Asset_GetChain (Coin_Asset coin), TOI_ToAddress = addr, TOI_VaultPubKey = '''', TOI_Coin = coin,
                 TOI_Memo = (if TxID_Equals (Tx_ID (MW_Tx m)) BlankTxID then RagnarokMemo_String (E_height E) else ''''),
                 TOI_MaxGas = [], TOI_GasRate = 0, TOI_InHash = Tx_ID (MW_Tx m), TOI_OutHash = '''', TOI_ModuleName = '''',
                 TOI_Aggregator = '''', TOI_AggregatorTargetAsset = '''', TOI_AggregatorTargetLimit = None\<rparr> in
      if gasAsset = 0 then Some toi
      else do {
        half \<leftarrow> uint_quo (E_sdk E) gasAsset 2;
        rate \<leftarrow> GetGasRate E k (Asset_GetChain asset);
        r \<leftarrow> uint64_of rate;
        let maxGas = (if Asset_IsBNB asset then [NewCoin (Chain_GetGasAsset (Asset_GetChain BaseAsset)) half]
                      else if Asset_Equals gasOf asset then [NewCoin gasOf gasAsset] else []);
        Some (toi\<lparr>TOI_MaxGas := maxGas, TOI_GasRate := wrap64 (int r)\<rparr>)
      })"

definition withdraw_transfer ::
  "env \<Rightarrow> 'b txout_store \<Rightarrow> 'b world \<Rightarrow> MsgWithdrawLiquidity \<Rightarrow> nat \<Rightarrow> Coin \<Rightarrow> address \<Rightarrow> 'b outcome" where
  "withdraw_transfer E txout w m gasAsset coin addr =
     do {
       toi \<leftarrow> withdraw_item E (W_kv w) m gasAsset coin addr;
       (r, w') \<leftarrow> txout w toi 0;
       Some (case r of Inl e \<Rightarrow> Some e | Inr added \<Rightarrow> if added then None else fails ''fail to add outbound tx'', w')
     }"

fun genesis_address :: "codecs \<Rightarrow> address \<Rightarrow> string list \<Rightarrow> go_error + bool" where
  "genesis_address L addr [] = Inr False"
| "genesis_address L addr (g # gs) =
     (case NewAddress L g of
        Inl e \<Rightarrow> Inl e | Inr a \<Rightarrow> if Address_Equals addr a then Inr True else genesis_address L addr gs)"

definition withdraw_asset_out ::
  "env \<Rightarrow> 'b bank \<Rightarrow> 'b txout_store \<Rightarrow> MsgWithdrawLiquidity \<Rightarrow> LiquidityProvider \<Rightarrow> nat \<Rightarrow> nat \<Rightarrow> 'b world \<Rightarrow> 'b outcome" where
  "withdraw_asset_out E B txout m lp gasAsset assetAmt w =
     (let coin = NewCoin (MW_Asset m) assetAmt in
      if assetAmt = 0 then Some (None, w)
      else if \<not> Asset_IsNativeBase (MW_Asset m) \<and> \<not> Address_IsChain (E_codecs E) (LP_AssetAddress lp) (Asset_Chain (MW_Asset m))
      then WithdrawLiquidityHandler_swapV93 E B w m coin (LP_AssetAddress lp)
      else withdraw_transfer E txout w m gasAsset coin (LP_AssetAddress lp))"

text \<open>The CACAO of a withdrawal; what a genesis node withdraws goes to the reserve, and what the reserve withdraws is counted.\<close>

definition withdraw_cacao_out ::
  "env \<Rightarrow> 'b txout_store \<Rightarrow> MsgWithdrawLiquidity \<Rightarrow> address \<Rightarrow> LiquidityProvider \<Rightarrow> nat \<Rightarrow> nat \<Rightarrow> 'b world \<Rightarrow> 'b outcome" where
  "withdraw_cacao_out E txout m polAddress lp gasAsset runeAmt w =
     (if runeAmt = 0 then Some (None, w)
      else case genesis_address (E_codecs E) (LP_CacaoAddress lp) GenesisNodes of
             Inl e \<Rightarrow> Some (Some e, w)
           | Inr genesis \<Rightarrow>
               let to = (if genesis then polAddress else LP_CacaoAddress lp) in
               and_then (withdraw_transfer E txout w m gasAsset (NewCoin BaseAsset runeAmt) to)
                 (\<lambda>w1. if Address_Equals polAddress to \<and> \<not> genesis
                       then do {
                         d \<leftarrow> uint_add (E_sdk E) (POL_CacaoWithdrawn (GetPOL (W_kv w1))) runeAmt;
                         Some (None, w1\<lparr>W_kv := SetPOL (W_kv w1) ((GetPOL (W_kv w1))\<lparr>POL_CacaoWithdrawn := d\<rparr>)\<rparr>)
                       }
                       else Some (None, w1)))"

definition WithdrawLiquidityHandler_handleV105 ::
  "env \<Rightarrow> 'b bank \<Rightarrow> 'b txout_store \<Rightarrow> 'b world \<Rightarrow> MsgWithdrawLiquidity \<Rightarrow> 'b outcome" where
  "WithdrawLiquidityHandler_handleV105 E B txout w m =
     (let lp = GetLiquidityProvider (E_codecs E) (W_kv w) (MW_Asset m) (MW_WithdrawAddress m);
          reserveCoin = Coins_GetCoin (Tx_Coins (MW_Tx m)) BaseAsset in
      do {
        (r, w1) \<leftarrow> withdrawV105 E B w m;
        case r of
          Inl e \<Rightarrow> Some (Some e, w1)
        | Inr (runeAmt, assetAmt, _, _, gasAsset) \<Rightarrow>
            and_then (withdraw_asset_out E B txout m lp gasAsset assetAmt w1)
              (\<lambda>w2. case GetModuleAddress (E_sdk E) (E_codecs E) B ReserveName of
                      Inl e \<Rightarrow> Some (Some e, w2)
                    | Inr polAddress \<Rightarrow>
                        and_then (withdraw_cacao_out E txout m polAddress lp gasAsset runeAmt w2)
                          (\<lambda>w3. if Coin_IsEmpty reserveCoin then Some (None, w3)
                                else AddPoolFeeToReserve B w3 (Coin_Amount reserveCoin)))
      })"

definition WithdrawLiquidityHandler_Run ::
  "env \<Rightarrow> 'b bank \<Rightarrow> 'b txout_store \<Rightarrow> 'b world \<Rightarrow> MsgWithdrawLiquidity \<Rightarrow> 'b outcome" where
  "WithdrawLiquidityHandler_Run E B txout w m =
     Run (Some (WithdrawLiquidityHandler_validateV105 E (W_kv w) m)) (WithdrawLiquidityHandler_handleV105 E B txout w m) w"

section \<open>Donations\<close>

definition DonateHandler_validateV90 :: "env \<Rightarrow> KVStore \<Rightarrow> MsgDonate \<Rightarrow> check" where
  "DonateHandler_validateV90 E k m =
     and_check (MsgDonate_ValidateBasic m)
       (first_error
         [(Asset_IsSyntheticAsset (MD_Asset m), ''invalid message''),
          (isLiquidityAuction E k \<and> Pool_Status (GetPool k (MD_Asset m)) \<noteq> PoolStatus_Available, ''invalid pool status'')])"

definition GetLiquidityProviderIterator :: "KVStore \<Rightarrow> Asset \<Rightarrow> LiquidityProvider list" where
  "GetLiquidityProviderIterator k asset =
     map snd (filter (\<lambda>(key, _). hasPrefix key (GetKey (dbPrefix ''prefixLiquidityProvider'') (Asset_String asset @ ''/'')))
       (K_liquidityProviders k))"

text \<open>The donations of a liquidity auction: the position, its tier and its share of the CACAO.\<close>

type_synonym donation = "LiquidityProvider \<times> int \<times> nat"

definition donations :: "env \<Rightarrow> KVStore \<Rightarrow> MsgDonate \<Rightarrow> Pool \<Rightarrow> donation list" where
  "donations E k m pool =
     map (\<lambda>lp. (lp, GetLiquidityAuctionTier (E_codecs E) k (LP_CacaoAddress lp),
                GetSafeShare (E_sdk E) (LP_PendingAsset lp) (Pool_PendingInboundAsset pool) (MD_CacaoAmount m)))
       (filter (\<lambda>lp. LP_PendingAsset lp \<noteq> 0 \<and> LP_NodeBondAddress lp = []
                 \<and> 1 \<le> GetLiquidityAuctionTier (E_codecs E) k (LP_CacaoAddress lp)
                 \<and> GetLiquidityAuctionTier (E_codecs E) k (LP_CacaoAddress lp) \<le> 3)
         (GetLiquidityProviderIterator k (MD_Asset m)))"

definition tier_total :: "sdk \<Rightarrow> int \<Rightarrow> donation list \<Rightarrow> nat option" where
  "tier_total S tier ds = sum_uints S (map (snd \<circ> snd) (filter (\<lambda>d. fst (snd d) = tier) ds)) 0"

text \<open>The lower tiers give a part of their claims to the first one. A case of the switch that repeats an earlier value is
  not reached.\<close>

definition tier_claim :: "env \<Rightarrow> int \<Rightarrow> nat \<Rightarrow> nat \<times> nat \<times> nat \<Rightarrow> nat \<times> nat \<times> nat \<Rightarrow> nat option" where
  "tier_claim E tier claim totals shares =
     (let S = E_sdk E; (t1, t2, t3) = totals; (s1, s2, s3) = shares in
      if tier = C_int64 (E_cv E) ''WithdrawTier1'' then uint_add S claim (GetSafeShare S claim t1 s1)
      else if tier = C_int64 (E_cv E) ''WithdrawTier2'' then uint_sub S claim (GetSafeShare S claim t2 s2)
      else if tier = C_int64 (E_cv E) ''WithdrawTier3'' then uint_sub S claim (GetSafeShare S claim t3 s3)
      else Some claim)"

definition donate_one ::
  "env \<Rightarrow> MsgDonate \<Rightarrow> nat \<Rightarrow> LiquidityProvider \<Rightarrow> nat \<Rightarrow> KVStore \<times> Pool \<Rightarrow> (KVStore \<times> Pool) option" where
  "donate_one E m totalPendingAsset lp claim st =
     (let S = E_sdk E; (k, pool) = st in
      if claim = 0 then Some st
      else do {
        pa \<leftarrow> SafeSub S (Pool_PendingInboundAsset pool) (LP_PendingAsset lp);
        c \<leftarrow> uint_add S (Pool_BalanceCacao pool) claim;
        a \<leftarrow> uint_add S (Pool_BalanceAsset pool) (LP_PendingAsset lp);
        u \<leftarrow> uint_add S (Pool_LPUnits pool) claim;
        Some (SetLiquidityProvider k
                (lp\<lparr>LP_Units := claim, LP_CacaoDepositValue := claim,
                    LP_AssetDepositValue := GetSafeShare S claim (MD_CacaoAmount m) totalPendingAsset,
                    LP_PendingAsset := 0, LP_PendingTxID := '''', LP_LastAddHeight := E_height E\<rparr>),
              pool\<lparr>Pool_PendingInboundAsset := pa, Pool_BalanceCacao := c, Pool_BalanceAsset := a, Pool_LPUnits := u\<rparr>)
      })"

fun donate_all ::
  "env \<Rightarrow> MsgDonate \<Rightarrow> nat \<Rightarrow> nat \<times> nat \<times> nat \<Rightarrow> nat \<times> nat \<times> nat \<Rightarrow> donation list \<Rightarrow> KVStore \<times> Pool \<Rightarrow> (KVStore \<times> Pool) option" where
  "donate_all E m pending totals shares [] st = Some st"
| "donate_all E m pending totals shares ((lp, tier, claim) # ds) st =
     do {
       c \<leftarrow> tier_claim E tier claim totals shares;
       st' \<leftarrow> donate_one E m pending lp c st;
       donate_all E m pending totals shares ds st'
     }"

definition addLiquidityFromDonateV102 :: "env \<Rightarrow> KVStore \<Rightarrow> MsgDonate \<Rightarrow> Pool \<Rightarrow> (check \<times> KVStore) option" where
  "addLiquidityFromDonateV102 E k m pool =
     (let S = E_sdk E; ds = donations E k m pool in
      do {
        t1 \<leftarrow> tier_total S 1 ds;
        t2 \<leftarrow> tier_total S 2 ds;
        t3 \<leftarrow> tier_total S 3 ds;
        let s2 = GetSafeShare S 1000 10000 t2;
        let s3 = GetSafeShare S 3300 10000 t3;
        s1 \<leftarrow> uint_add S s2 s3;
        (k1, pool1) \<leftarrow> donate_all E m (Pool_PendingInboundAsset pool) (t1, t2, t3) (s1, s2, s3) ds (k, pool);
        Some (case SetPool k1 pool1 of Inl e \<Rightarrow> (Some e, k1) | Inr k2 \<Rightarrow> (None, k2))
      })"

text \<open>In an auction the liquidity is added before the signer is checked; the error discards the change.\<close>

definition DonateHandler_handleV101 :: "env \<Rightarrow> KVStore \<Rightarrow> MsgDonate \<Rightarrow> (check \<times> KVStore) option" where
  "DonateHandler_handleV101 E k m =
     (let S = E_sdk E; pool = GetPool k (MD_Asset m) in
      if Asset_IsEmpty (Pool_Asset pool) then Some (fails ''pool not exist'', k)
      else if isLiquidityAuction E k
      then do {
        (e, k1) \<leftarrow> addLiquidityFromDonateV102 E k m pool;
        Some (if \<exists>a \<in> set ADMINS. acc_from_bech32 S a = None then fails ''decoding bech32 failed''
              else if \<not> isAdmin S (MD_Signer m) then fails ''only admin can donate to liquidity auction'' else e, k1)
      }
      else do {
        a \<leftarrow> uint_add S (Pool_BalanceAsset pool) (MD_AssetAmount m);
        c \<leftarrow> uint_add S (Pool_BalanceCacao pool) (MD_CacaoAmount m);
        Some (case SetPool k (pool\<lparr>Pool_BalanceAsset := a, Pool_BalanceCacao := c\<rparr>) of Inl e \<Rightarrow> (Some e, k) | Inr k' \<Rightarrow> (None, k'))
      })"

definition DonateHandler_Run :: "env \<Rightarrow> 'b world \<Rightarrow> MsgDonate \<Rightarrow> 'b outcome" where
  "DonateHandler_Run E w m =
     Run (Some (DonateHandler_validateV90 E (W_kv w) m))
       (map_option (\<lambda>(e, k). (e, w\<lparr>W_kv := k\<rparr>)) (DonateHandler_handleV101 E (W_kv w) m)) w"

end
