(* ===== verification/LiquidityBooks.thy ===== *)
theory LiquidityBooks
  imports LiquidityHandlers
begin

text \<open>
  The books of a pool. The units and the pending amounts that a pool counts are those of its stored positions together;
  deposits and withdrawals, in any order, keep them so, and a deposit grows the pool by exactly its amounts.
\<close>

section \<open>The books of a pool\<close>

text \<open>What the stored positions of a pool hold together, and the invariant: the units and the pending amounts of the pool are
  those of its positions.\<close>

definition stored_sum :: "(LiquidityProvider \<Rightarrow> nat) \<Rightarrow> KVStore \<Rightarrow> Asset \<Rightarrow> nat" where
  "stored_sum f k a = kv_sum (\<lambda>lp. if LP_Asset lp = a then f lp else 0) (K_liquidityProviders k)"

definition books_ok :: "KVStore \<Rightarrow> Asset \<Rightarrow> bool" where
  "books_ok k a \<longleftrightarrow>
     (let p = GetPool k a in
      kv_invar (K_liquidityProviders k) \<and> Pool_Asset p = a
      \<and> stored_sum LP_Units k a = Pool_LPUnits p
      \<and> stored_sum LP_PendingCacao k a = Pool_PendingInboundCacao p
      \<and> stored_sum LP_PendingAsset k a = Pool_PendingInboundAsset p)"

text \<open>The amounts of a position that the books count: an empty position has none, and the decoding leaves them alone.\<close>

definition lp_field :: "(LiquidityProvider \<Rightarrow> nat) \<Rightarrow> bool" where
  "lp_field f \<longleftrightarrow> f = LP_Units \<or> f = LP_PendingCacao \<or> f = LP_PendingAsset"

lemma lp_fields: "lp_field LP_Units" "lp_field LP_PendingCacao" "lp_field LP_PendingAsset"
  by (simp_all add: lp_field_def)

lemma lp_field_neutral [simp]: "lp_field f \<Longrightarrow> f (empty_provider L a x) = 0" "lp_field f \<Longrightarrow> f (decode_provider p lp) = f lp"
  by (auto simp: lp_field_def empty_provider_def decode_provider_def)

lemma decode_provider_asset [simp]: "LP_Asset (decode_provider p lp) = LP_Asset lp"
  by (simp add: decode_provider_def)

lemma field_read:
  assumes "lp_field f"
  shows "(case kv_get (K_liquidityProviders k) (lp_key (empty_provider L a x)) of
            None \<Rightarrow> 0 | Some u \<Rightarrow> if LP_Asset u = a then f u else 0)
    = (if LP_Asset (GetLiquidityProvider L k a x) = a then f (GetLiquidityProvider L k a x) else 0)"
  using assms
  by (auto simp: GetLiquidityProvider_def Let_def split: option.split)

lemma stored_sum_set:
  assumes "kv_invar (K_liquidityProviders k)" and "lp_field f" and "lp_readable L k a x"
    and "lp_key lp = lp_key (empty_provider L a x)" and "LP_Asset lp = a"
  shows "stored_sum f (SetLiquidityProvider k lp) a + f (GetLiquidityProvider L k a x) = stored_sum f k a + f lp"
  using kv_sum_updated [OF assms(1), of "\<lambda>lp. if LP_Asset lp = a then f lp else 0" "lp_key lp" lp]
    field_read [OF assms(2), where k = k and L = L and a = a and x = x] assms(3-5)
  by (simp add: stored_sum_def SetLiquidityProvider_def lp_readable_def)

lemma stored_sum_ge:
  assumes "kv_invar (K_liquidityProviders k)" and "lp_field f" and "lp_readable L k a x"
  shows "f (GetLiquidityProvider L k a x) \<le> stored_sum f k a"
proof -
  let ?g = "\<lambda>lp. if LP_Asset lp = a then f lp else 0"
  have "?g u \<le> stored_sum f k a" if "kv_get (K_liquidityProviders k) key = Some u" for key u
    using that unfolding stored_sum_def
    by (force simp: kv_sum_def kv_values_def kv_get_def dest!: map_of_SomeD intro!: member_le_sum_list)
  then show ?thesis
    using field_read [OF assms(2), where k = k and L = L and a = a and x = x] assms(3)
    by (cases "kv_get (K_liquidityProviders k) (lp_key (empty_provider L a x))") (fastforce simp: lp_readable_def)+
qed

lemma stored_sum_same: "K_liquidityProviders k' = K_liquidityProviders k \<Longrightarrow> stored_sum f k' = stored_sum f k"
  by (simp add: stored_sum_def fun_eq_iff)

text \<open>A position that a deposit claims keeps its key.\<close>

lemma no_address: "Address_IsEmpty []"
  by (simp add: Address_IsEmpty_def trimSpace_def)

lemma empty_provider_address: "\<not> Address_IsEmpty x \<Longrightarrow> LP_GetAddress (empty_provider L a x) = x"
  using no_address by (simp add: LP_GetAddress_def empty_provider_def)

lemma claim_position_keeps:
  assumes "claim_position h a runeAddr assetAddr lp = Inr su" and "\<not> Asset_IsVaultAsset a"
    and "lp = GetLiquidityProvider L k a x" and "x = (if Address_IsEmpty runeAddr then assetAddr else runeAddr)"
    and "\<not> Address_IsEmpty x" and "lp_readable L k a x"
  shows "lp_key su = lp_key (empty_provider L a x) \<and> LP_Asset su = a \<and> LP_Units su = LP_Units lp
    \<and> LP_PendingCacao su = LP_PendingCacao lp \<and> LP_PendingAsset su = LP_PendingAsset lp"
proof -
  have r: "LP_Asset lp = a" "LP_Key lp = LP_Key (empty_provider L a x) \<or> lp_key lp = lp_key (empty_provider L a x)"
    using assms(3,6) by (auto simp: lp_readable_def)
  have key: "lp_key lp = lp_key (empty_provider L a x)" using assms(3,6) by (simp add: lp_readable_def)
  have su: "LP_Asset su = a" "LP_GetAddress su = LP_GetAddress lp \<or> LP_GetAddress su = x"
    using assms(1,2,4,5) r(1)
    by (auto simp: claim_position_def Let_def LP_GetAddress_def split: if_splits)
  have "LP_GetAddress (empty_provider L a x) = x" using assms(5) by (rule empty_provider_address)
  moreover have "LP_Asset (empty_provider L a x) = a" by (simp add: empty_provider_def)
  ultimately have "lp_key su = lp_key (empty_provider L a x)"
    using su r(1) key by (auto simp: lp_key_def LP_Key_def)
  then show ?thesis
    using assms(1) su(1) by (auto simp: claim_position_def Let_def split: if_splits)
qed

lemma decode_pool_fields [simp]:
  "Pool_Asset (decode_pool p) = Pool_Asset p" "Pool_LPUnits (decode_pool p) = Pool_LPUnits p"
  "Pool_BalanceCacao (decode_pool p) = Pool_BalanceCacao p" "Pool_BalanceAsset (decode_pool p) = Pool_BalanceAsset p"
  "Pool_PendingInboundCacao (decode_pool p) = Pool_PendingInboundCacao p"
  "Pool_PendingInboundAsset (decode_pool p) = Pool_PendingInboundAsset p"
  by (simp_all add: decode_pool_def)

lemma SetPool_providers: "SetPool k p = Inr k' \<Longrightarrow> K_liquidityProviders k' = K_liquidityProviders k"
  by (auto simp: SetPool_def split: if_splits)

lemma set_provider_pools [simp]:
  "GetPool (SetLiquidityProvider k lp) a = GetPool k a" "GetPOL (SetLiquidityProvider k lp) = GetPOL k"
  by (simp_all add: SetLiquidityProvider_def GetPool_def GetPOL_def)

text \<open>A store in which one position was replaced, and with it the pool: the books stay right when the changes agree.\<close>

definition position_replaced :: "KVStore \<Rightarrow> KVStore \<Rightarrow> Asset \<Rightarrow> LiquidityProvider \<Rightarrow> LiquidityProvider \<Rightarrow> bool" where
  "position_replaced k k' a old lp \<longleftrightarrow>
     kv_invar (K_liquidityProviders k') \<and> (\<forall>f. lp_field f \<longrightarrow> stored_sum f k' a + f old = stored_sum f k a + f lp)"

lemma position_set:
  assumes "kv_invar (K_liquidityProviders k)" and "lp_readable L k a x"
    and "lp_key lp = lp_key (empty_provider L a x)" and "LP_Asset lp = a"
    and "K_liquidityProviders k' = K_liquidityProviders (SetLiquidityProvider k lp)"
  shows "position_replaced k k' a (GetLiquidityProvider L k a x) lp"
  using assms stored_sum_set [OF assms(1) _ assms(2-4)] stored_sum_same [OF assms(5)]
  by (simp add: position_replaced_def SetLiquidityProvider_def kv_set_invar)

lemma books_update:
  assumes b: "books_ok k a" and r: "position_replaced k k' a old lp" and p: "Pool_Asset p = a" "GetPool k' a = decode_pool p"
    and u: "LP_Units lp + Pool_LPUnits (GetPool k a) = LP_Units old + Pool_LPUnits p"
    and c: "LP_PendingCacao lp + Pool_PendingInboundCacao (GetPool k a) = LP_PendingCacao old + Pool_PendingInboundCacao p"
    and s: "LP_PendingAsset lp + Pool_PendingInboundAsset (GetPool k a) = LP_PendingAsset old + Pool_PendingInboundAsset p"
  shows "books_ok k' a"
proof -
  have "stored_sum f k' a + f old = stored_sum f k a + f lp" if "lp_field f" for f
    using r that by (simp add: position_replaced_def)
  from this [OF lp_fields(1)] this [OF lp_fields(2)] this [OF lp_fields(3)] show ?thesis
    using b p u c s r by (simp add: books_ok_def position_replaced_def Let_def)
qed

lemma stage_deposit_result:
  assumes "\<not> Asset_IsEmpty (Pool_Asset p)"
  shows "K_liquidityProviders (stage_deposit k lp p) = K_liquidityProviders (SetLiquidityProvider k lp)"
    "GetPool (stage_deposit k lp p) (Pool_Asset p) = decode_pool p"
  using assms by (auto simp: stage_deposit_def SetPool_def GetPool_def SetLiquidityProvider_def Let_def)

lemma tier_keeps:
  "K_liquidityProviders (SetLiquidityAuctionTier k x t) = K_liquidityProviders k" "GetPool (SetLiquidityAuctionTier k x t) a = GetPool k a"
  by (simp_all add: SetLiquidityAuctionTier_def GetPool_def)

lemma track_pol_keeps:
  assumes "track_pol E B k x n = Some (e, k')"
  shows "K_liquidityProviders k' = K_liquidityProviders k" "GetPool k' a = GetPool k a"
  using assms by (auto simp: track_pol_def SetPOL_def GetPool_def bind_Some_iff split: sum.splits if_splits)

lemma deposit_value_sets:
  assumes "deposit_value S p u lp = Some lp'"
  obtains c d where "lp' = lp\<lparr>LP_CacaoDepositValue := c, LP_AssetDepositValue := d\<rparr>"
proof -
  have "lp' = lp\<lparr>LP_CacaoDepositValue := LP_CacaoDepositValue lp', LP_AssetDepositValue := LP_AssetDepositValue lp'\<rparr>"
    using assms by (auto simp: deposit_value_def bind_Some_iff split: if_splits)
  then show thesis by (rule that)
qed

lemma deposit_value_keeps:
  assumes "deposit_value S p u lp = Some lp'"
  shows "lp_key lp' = lp_key lp" "LP_Asset lp' = LP_Asset lp" "LP_Units lp' = LP_Units lp"
    "LP_PendingCacao lp' = LP_PendingCacao lp" "LP_PendingAsset lp' = LP_PendingAsset lp"
proof -
  obtain c d where e: "lp' = lp\<lparr>LP_CacaoDepositValue := c, LP_AssetDepositValue := d\<rparr>" by (rule deposit_value_sets [OF assms])
  show "lp_key lp' = lp_key lp" "LP_Asset lp' = LP_Asset lp" "LP_Units lp' = LP_Units lp"
    "LP_PendingCacao lp' = LP_PendingCacao lp" "LP_PendingAsset lp' = LP_PendingAsset lp"
    by (simp_all add: e lp_key_def LP_Key_def LP_GetAddress_def)
qed

lemma commit_deposit_effect:
  assumes "cosmos_sdk (E_sdk E)" and "\<not> Asset_IsVaultAsset a"
    and "commit_deposit E B k a pc pa su pool = Some (None, k')" and "Pool_Asset pool = a"
  obtains lp p n where "K_liquidityProviders k' = K_liquidityProviders (SetLiquidityProvider k lp)" "GetPool k' a = decode_pool p"
    "lp_key lp = lp_key su" "LP_Asset lp = LP_Asset su" "LP_PendingCacao lp = 0" "LP_PendingAsset lp = 0"
    "LP_Units lp = LP_Units su + n" "Pool_LPUnits p = Pool_LPUnits pool + n" "Pool_Asset p = a"
    "Pool_PendingInboundCacao p = Pool_PendingInboundCacao pool - LP_PendingCacao su"
    "Pool_PendingInboundAsset p = Pool_PendingInboundAsset pool - LP_PendingAsset su"
    "Pool_BalanceCacao p = Pool_BalanceCacao pool + pc" "Pool_BalanceAsset p = Pool_BalanceAsset pool + pa"
proof -
  let ?S = "E_sdk E" and ?su = "su\<lparr>LP_PendingAsset := 0, LP_PendingCacao := 0, LP_PendingTxID := ''''\<rparr>"
  let ?p = "pool\<lparr>Pool_PendingInboundCacao := Pool_PendingInboundCacao pool - LP_PendingCacao su,
      Pool_PendingInboundAsset := Pool_PendingInboundAsset pool - LP_PendingAsset su\<rparr>"
  obtain n p k1 u lp where g: "grow_pool ?S ?p n pc pa = Some p" and sp: "SetPool k p = Inr k1"
    and u: "uint_add ?S (LP_Units ?su) n = Some u" and lp: "deposit_value ?S p n (?su\<lparr>LP_Units := u\<rparr>) = Some lp"
    and tr: "track_pol E B (SetLiquidityProvider k1 lp) (LP_CacaoAddress lp) pc = Some (None, k')"
    using assms(2,3)
    by (auto simp: commit_deposit_def cosmos_sdk.SafeSub_eq [OF assms(1)] bind_Some_iff case_sum_Some_iff Let_def split: if_splits)
  have p: "p = ?p\<lparr>Pool_LPUnits := Pool_LPUnits pool + n, Pool_BalanceCacao := Pool_BalanceCacao pool + pc,
      Pool_BalanceAsset := Pool_BalanceAsset pool + pa\<rparr>"
    using g by (auto simp: grow_pool_def bind_Some_iff cosmos_sdk.uint_add_Some [OF assms(1)])
  have k1: "K_liquidityProviders k1 = K_liquidityProviders k" "GetPool k1 a = decode_pool p"
    using SetPool_providers [OF sp] GetPool_after_SetPool [OF sp, of a] p assms(4) by simp_all
  show thesis
  proof (rule that [of lp p n])
    show "K_liquidityProviders k' = K_liquidityProviders (SetLiquidityProvider k lp)"
      using track_pol_keeps(1) [OF tr] k1(1) by (simp add: SetLiquidityProvider_def)
    show "GetPool k' a = decode_pool p" using track_pol_keeps(2) [OF tr, of a] k1(2) by simp
    show "lp_key lp = lp_key su" using deposit_value_keeps(1) [OF lp] by (simp add: lp_key_def LP_Key_def LP_GetAddress_def)
  qed (use deposit_value_keeps [OF lp] u p assms(4) in \<open>simp_all add: cosmos_sdk.uint_add_Some [OF assms(1)]\<close>)
qed

lemma stage_cacao_effect:
  assumes "cosmos_sdk (E_sdk E)" and "stage_cacao E k tx c pc su pool = Some k'" and "\<not> Asset_IsEmpty (Pool_Asset pool)"
  obtains lp p where "K_liquidityProviders k' = K_liquidityProviders (SetLiquidityProvider k lp)" "GetPool k' (Pool_Asset pool) = decode_pool p"
    "lp = su\<lparr>LP_PendingCacao := pc, LP_PendingTxID := Tx_ID tx\<rparr>"
    "p = pool\<lparr>Pool_PendingInboundCacao := Pool_PendingInboundCacao pool + c\<rparr>"
proof -
  let ?lp = "su\<lparr>LP_PendingCacao := pc, LP_PendingTxID := Tx_ID tx\<rparr>"
  let ?p = "pool\<lparr>Pool_PendingInboundCacao := Pool_PendingInboundCacao pool + c\<rparr>"
  have "k' = stage_deposit k ?lp ?p"
    using assms(2) by (auto simp: stage_cacao_def bind_Some_iff cosmos_sdk.uint_add_Some [OF assms(1)])
  then show thesis using stage_deposit_result [of ?p k ?lp] assms(3) by (intro that [of ?lp ?p]) simp_all
qed

lemma stage_asset_effect:
  assumes "cosmos_sdk (E_sdk E)" and "stage_asset E k tx c pc x tier su pool = Some k'" and "\<not> Asset_IsEmpty (Pool_Asset pool)"
  obtains lp p where "K_liquidityProviders k' = K_liquidityProviders (SetLiquidityProvider k lp)" "GetPool k' (Pool_Asset pool) = decode_pool p"
    "lp = su\<lparr>LP_PendingAsset := pc, LP_PendingTxID := Tx_ID tx\<rparr>"
    "p = pool\<lparr>Pool_PendingInboundAsset := Pool_PendingInboundAsset pool + c\<rparr>"
proof -
  let ?lp = "su\<lparr>LP_PendingAsset := pc, LP_PendingTxID := Tx_ID tx\<rparr>"
  let ?p = "pool\<lparr>Pool_PendingInboundAsset := Pool_PendingInboundAsset pool + c\<rparr>"
  let ?k = "stage_deposit k ?lp ?p"
  have "k' = ?k \<or> (\<exists>t. k' = SetLiquidityAuctionTier ?k x t)"
    using assms(2) by (auto simp: stage_asset_def Let_def bind_Some_iff cosmos_sdk.uint_add_Some [OF assms(1)] split: if_splits)
  then show thesis using stage_deposit_result [of ?p k ?lp] assms(3) by (intro that [of ?lp ?p]) (auto simp: tier_keeps)
qed

text \<open>Two pools with the same books, and a pool that grows, pending amounts included, by a deposit.\<close>

definition same_books :: "Pool \<Rightarrow> Pool \<Rightarrow> bool" where
  "same_books p q \<longleftrightarrow> Pool_Asset p = Pool_Asset q \<and> Pool_LPUnits p = Pool_LPUnits q
     \<and> Pool_BalanceCacao p = Pool_BalanceCacao q \<and> Pool_BalanceAsset p = Pool_BalanceAsset q
     \<and> Pool_PendingInboundCacao p = Pool_PendingInboundCacao q \<and> Pool_PendingInboundAsset p = Pool_PendingInboundAsset q"

definition grows_by :: "KVStore \<Rightarrow> KVStore \<Rightarrow> Asset \<Rightarrow> nat \<Rightarrow> nat \<Rightarrow> bool" where
  "grows_by k k' a c s \<longleftrightarrow>
     Pool_BalanceCacao (GetPool k' a) + Pool_PendingInboundCacao (GetPool k' a)
       = Pool_BalanceCacao (GetPool k a) + Pool_PendingInboundCacao (GetPool k a) + c
     \<and> Pool_BalanceAsset (GetPool k' a) + Pool_PendingInboundAsset (GetPool k' a)
       = Pool_BalanceAsset (GetPool k a) + Pool_PendingInboundAsset (GetPool k a) + s"

lemma place_deposit_books:
  assumes S: "cosmos_sdk (E_sdk E)" and nv: "\<not> Asset_IsVaultAsset a" and b: "books_ok k a" and r: "lp_readable L k a x"
    and ne: "\<not> Asset_IsEmpty a" and key: "lp_key su = lp_key (empty_provider L a x)" "LP_Asset su = a"
    and lp: "LP_Units su = LP_Units (GetLiquidityProvider L k a x)" "LP_PendingCacao su = LP_PendingCacao (GetLiquidityProvider L k a x)"
      "LP_PendingAsset su = LP_PendingAsset (GetLiquidityProvider L k a x)"
    and pool: "same_books pool (GetPool k a)"
    and d: "place_deposit E B k a addCacao addAsset runeAddr tx stage tier su pool = Some (None, k')"
  shows "books_ok k' a \<and> grows_by k k' a addCacao addAsset"
proof -
  let ?lp = "GetLiquidityProvider L k a x" and ?pc = "LP_PendingCacao su + addCacao" and ?pa = "LP_PendingAsset su + addAsset"
  have i: "kv_invar (K_liquidityProviders k)" and pa: "Pool_Asset (GetPool k a) = a"
    using b by (simp_all add: books_ok_def Let_def)
  have le: "LP_PendingCacao ?lp \<le> Pool_PendingInboundCacao (GetPool k a)"
    "LP_PendingAsset ?lp \<le> Pool_PendingInboundAsset (GetPool k a)"
    using stored_sum_ge [OF i lp_fields(2) r] stored_sum_ge [OF i lp_fields(3) r] b by (simp_all add: books_ok_def Let_def)
  have pl: "Pool_Asset pool = a" using pool pa by (simp add: same_books_def)
  note facts = pool [unfolded same_books_def] le lp pa
  consider (cacao) "?pa = 0" "stage_cacao E k tx addCacao ?pc su pool = Some k'"
    | (asset) "?pc = 0" "stage_asset E k tx addAsset ?pa runeAddr tier su pool = Some k'"
    | (both) "commit_deposit E B k a ?pc ?pa su pool = Some (None, k')"
    using d by (auto simp: place_deposit_def bind_Some_iff cosmos_sdk.uint_add_Some [OF S] split: if_splits)
  then show ?thesis
  proof cases
    case cacao
    obtain q p where e: "K_liquidityProviders k' = K_liquidityProviders (SetLiquidityProvider k q)" "GetPool k' (Pool_Asset pool) = decode_pool p"
      "q = su\<lparr>LP_PendingCacao := ?pc, LP_PendingTxID := Tx_ID tx\<rparr>"
      "p = pool\<lparr>Pool_PendingInboundCacao := Pool_PendingInboundCacao pool + addCacao\<rparr>"
      by (rule stage_cacao_effect [OF S cacao(2)]) (use pl ne in simp_all)
    have "lp_key q = lp_key su" by (simp add: e(3) lp_key_def LP_Key_def LP_GetAddress_def)
    then have "books_ok k' a"
      by (intro books_update [where p = p, OF b position_set [OF i r _ _ e(1)]]) (use key facts e pl in simp_all)
    then show ?thesis using e(2,4) facts pl cacao(1) by (simp add: grows_by_def)
  next
    case asset
    obtain q p where e: "K_liquidityProviders k' = K_liquidityProviders (SetLiquidityProvider k q)" "GetPool k' (Pool_Asset pool) = decode_pool p"
      "q = su\<lparr>LP_PendingAsset := ?pa, LP_PendingTxID := Tx_ID tx\<rparr>"
      "p = pool\<lparr>Pool_PendingInboundAsset := Pool_PendingInboundAsset pool + addAsset\<rparr>"
      by (rule stage_asset_effect [OF S asset(2)]) (use pl ne in simp_all)
    have "lp_key q = lp_key su" by (simp add: e(3) lp_key_def LP_Key_def LP_GetAddress_def)
    then have "books_ok k' a"
      by (intro books_update [where p = p, OF b position_set [OF i r _ _ e(1)]]) (use key facts e pl in simp_all)
    then show ?thesis using e(2,4) facts pl asset(1) by (simp add: grows_by_def)
  next
    case both
    obtain q p n where e: "K_liquidityProviders k' = K_liquidityProviders (SetLiquidityProvider k q)" "GetPool k' a = decode_pool p"
      "lp_key q = lp_key su" "LP_Asset q = LP_Asset su" "LP_PendingCacao q = 0" "LP_PendingAsset q = 0"
      "LP_Units q = LP_Units su + n" "Pool_LPUnits p = Pool_LPUnits pool + n" "Pool_Asset p = a"
      "Pool_PendingInboundCacao p = Pool_PendingInboundCacao pool - LP_PendingCacao su"
      "Pool_PendingInboundAsset p = Pool_PendingInboundAsset pool - LP_PendingAsset su"
      "Pool_BalanceCacao p = Pool_BalanceCacao pool + ?pc" "Pool_BalanceAsset p = Pool_BalanceAsset pool + ?pa"
      by (rule commit_deposit_effect [OF S nv both pl])
    have "books_ok k' a"
      by (intro books_update [where p = p, OF b position_set [OF i r _ _ e(1)]]) (use key facts e in simp_all)
    then show ?thesis using e(2) e(10-13) facts by (simp add: grows_by_def)
  qed
qed

lemma add_liquidity_books:
  assumes "cosmos_sdk (E_sdk E)" and "\<not> Asset_IsVaultAsset a" and "books_ok (W_kv w) a"
    and "lp_readable (E_codecs E) (W_kv w) a (if Address_IsEmpty runeAddr then assetAddr else runeAddr)"
    and "addLiquidityV105 E B w a addCacao addAsset runeAddr assetAddr tx stage tier = Some (None, k')"
  shows "books_ok k' a \<and> grows_by (W_kv w) k' a addCacao addAsset"
proof -
  let ?k = "W_kv w" and ?x = "if Address_IsEmpty runeAddr then assetAddr else runeAddr"
  let ?lp = "GetLiquidityProvider (E_codecs E) ?k a ?x" and ?p0 = "GetPool ?k a"
  have v: "validateAddLiquidityMessage ?k a tx runeAddr assetAddr = None"
    using assms(5) by (auto simp: addLiquidityV105_def Let_def split: option.splits)
  then have ne: "\<not> Asset_IsEmpty a" "\<not> Address_IsEmpty ?x" by (auto simp: validateAddLiquidityMessage_def split: if_splits)
  obtain n pool0 s where cu: "Pool_CalcUnits (E_sdk E) (K_version ?k) ?p0 s = Some (n, pool0)"
    and rest: "(case claim_position (E_height E) a runeAddr assetAddr ?lp of Inl e \<Rightarrow> Some (Some e, ?k)
       | Inr su \<Rightarrow> place_deposit E B ?k a addCacao addAsset runeAddr tx stage tier su (initial_status E ?k n pool0))
       = Some (None, k')"
    using assms(5) v by (auto simp: addLiquidityV105_def Let_def bind_Some_iff)
  obtain su where cl: "claim_position (E_height E) a runeAddr assetAddr ?lp = Inr su"
    and pd: "place_deposit E B ?k a addCacao addAsset runeAddr tx stage tier su (initial_status E ?k n pool0) = Some (None, k')"
    using rest by (cases "claim_position (E_height E) a runeAddr assetAddr ?lp") auto
  note same = claim_position_keeps [OF cl assms(2) refl refl ne(2) assms(4)]
  have pool: "same_books (initial_status E ?k n pool0) ?p0"
    using CalcUnits_keeps [OF cu] by (auto simp: same_books_def initial_status_def)
  show ?thesis using place_deposit_books [OF assms(1-4) ne(1) _ _ _ _ _ pool pd] same by blast
qed

section \<open>The books after a withdrawal\<close>

lemma kv_sum_deleted:
  "kv_invar t \<Longrightarrow> kv_sum f (kv_delete t key) + (case kv_get t key of None \<Rightarrow> 0 | Some u \<Rightarrow> f u) = kv_sum f t"
proof (induction t)
  case (Cons e t)
  have "fst e = key \<Longrightarrow> map_of t key = None" using Cons.prems by (force simp: kv_invar_def map_of_eq_None_iff)
  then show ?case
    using Cons by (cases e) (auto simp: kv_sum_def kv_values_def kv_get_def kv_invar_def kv_delete_def split: option.split)
qed (simp add: kv_sum_def kv_values_def kv_get_def kv_delete_def)

lemma position_removed:
  assumes i: "kv_invar (K_liquidityProviders k)" and r: "lp_readable L k a x"
    and key: "lp_key lp = lp_key (empty_provider L a x)"
    and zero: "LP_Units lp = 0" "LP_PendingCacao lp = 0" "LP_PendingAsset lp = 0"
    and k': "K_liquidityProviders k' = K_liquidityProviders (RemoveLiquidityProvider k old)" "lp_key old = lp_key lp"
  shows "position_replaced k k' a (GetLiquidityProvider L k a x) lp"
proof -
  have "stored_sum f k' a + f (GetLiquidityProvider L k a x) = stored_sum f k a + f lp" if f: "lp_field f" for f
    using kv_sum_deleted [OF i, of "\<lambda>lp. if LP_Asset lp = a then f lp else 0" "lp_key lp"]
      field_read [OF f, where k = k and L = L and a = a and x = x] key k' r zero f
    by (auto simp: stored_sum_def RemoveLiquidityProvider_def lp_readable_def lp_field_def)
  then show ?thesis using i k' by (simp add: position_replaced_def RemoveLiquidityProvider_def kv.del_invar)
qed

definition same_position :: "LiquidityProvider \<Rightarrow> LiquidityProvider \<Rightarrow> bool" where
  "same_position lp lp' \<longleftrightarrow> lp_key lp' = lp_key lp \<and> LP_Asset lp' = LP_Asset lp
     \<and> LP_PendingCacao lp' = LP_PendingCacao lp \<and> LP_PendingAsset lp' = LP_PendingAsset lp"

lemmas position_defs = same_position_def lp_key_def LP_Key_def LP_GetAddress_def

lemma init_deposit_keeps: "init_deposit S pool lp = Some lp' \<Longrightarrow> same_position lp lp'"
  by (auto simp: init_deposit_def position_defs bind_Some_iff split: if_splits)

lemma same_position_counters [simp]:
  "same_position lp lp" "same_position lp (q\<lparr>LP_WithdrawCounter := n\<rparr>) = same_position lp q"
  "same_position lp (q\<lparr>LP_LastWithdrawCounterHeight := h\<rparr>) = same_position lp q"
  by (simp_all add: position_defs)

lemma checkWithdrawLimit_keeps:
  assumes "checkWithdrawLimit E k msg lp = ok lp'"
  shows "same_position lp lp'"
proof (cases "\<not> isWithinWithdrawDaysLimit E k (LP_CacaoAddress lp) \<or> RagnarokInProgress k \<or> Tx_Memo (MW_Tx msg) = ''Ragnarok''")
  case True
  then have "lp' = lp" using assms by (simp add: checkWithdrawLimit_def)
  then show ?thesis by simp
next
  case False
  let ?block = "uint64_cast (E_height E)" and ?due = "uint64_cast (LP_LastWithdrawCounterHeight lp + C_int64 (E_cv E) ''BlocksPerDay'')"
  define sel where "sel n = (if LP_WithdrawCounter lp = 0 then (lp\<lparr>LP_LastWithdrawCounterHeight := E_height E\<rparr>, n)
    else if \<not> ?block < ?due then (lp\<lparr>LP_WithdrawCounter := 0, LP_LastWithdrawCounterHeight := E_height E\<rparr>, MW_BasisPoints msg)
    else (lp, n))" for n
  have sel: "same_position lp (fst (sel n))" for n by (simp add: sel_def)
  obtain n m where "lp' = fst (sel n)\<lparr>LP_WithdrawCounter := m\<rparr>"
    using assms False unfolding checkWithdrawLimit_def Let_def sel_def [symmetric]
    by (auto simp: case_prod_beta bind_Some_iff split: if_split_asm)
  then show ?thesis using sel by simp
qed

lemma settle_lp_keeps: "settle_lp E msg lp n = Some lp' \<Longrightarrow> same_position lp lp' \<and> LP_Units lp' = n"
  by (auto simp: settle_lp_def position_defs bind_Some_iff Let_def)

lemma store_lp_replaces:
  assumes "cosmos_sdk S" and i: "kv_invar (K_liquidityProviders k)" and r: "lp_readable L k a x"
    and key: "lp_key lp = lp_key (empty_provider L a x)" "LP_Asset lp = a"
    and k1: "K_liquidityProviders k1 = K_liquidityProviders k" and s: "store_lp S k1 lp = Some k'"
  shows "position_replaced k k' a (GetLiquidityProvider L k a x) lp"
proof -
  consider (set) "k' = SetLiquidityProvider k1 lp"
    | (remove) "k' = RemoveLiquidityProvider k1 lp" "LP_Units lp = 0" "LP_PendingCacao lp = 0" "LP_PendingAsset lp = 0"
    using s by (auto simp: store_lp_def bind_Some_iff cosmos_sdk.uint_add_Some [OF assms(1)] split: if_splits)
  then show ?thesis
  proof cases
    case set
    then have "K_liquidityProviders k' = K_liquidityProviders (SetLiquidityProvider k lp)" by (simp add: SetLiquidityProvider_def k1)
    then show ?thesis by (rule position_set [OF i r key])
  next
    case remove
    then have "K_liquidityProviders k' = K_liquidityProviders (RemoveLiquidityProvider k lp)" by (simp add: RemoveLiquidityProvider_def k1)
    then show ?thesis by (intro position_removed [OF i r key(1) remove(2-4)]) simp_all
  qed
qed

lemma store_withdraw_store:
  assumes "bank_keeper B" and "store_withdraw S B w pool lp p = Some (None, w')"
  obtains k1 where "SetPool (W_kv w) pool = Inr k1" "store_lp S k1 lp = Some (W_kv w')"
proof -
  obtain k1 k2 where k: "SetPool (W_kv w) pool = Inr k1" "store_lp S k1 lp = Some k2"
    and pay: "if p = 0 then w' = w\<lparr>W_kv := k2\<rparr>
      else SendFromModuleToModule B (w\<lparr>W_kv := k2\<rparr>) ReserveName AsgardName [NewCoin BaseAsset p] = Some (None, w')"
    using assms(2) by (auto simp: store_withdraw_def bind_Some_iff split: sum.splits if_splits)
  have "ReserveName \<noteq> AsgardName" using module_names_distinct by metis
  then have "W_kv w' = k2"
    using pay bank_keeper.SendFromModuleToModule_moves [OF assms(1), of "w\<lparr>W_kv := k2\<rparr>" ReserveName AsgardName _ w']
    by (cases "p = 0") auto
  then show thesis using that k by simp
qed

lemma settle_stores:
  assumes "cosmos_sdk (E_sdk E)"
    and "settle_withdraw E B w msg pool lp orig extra prot wc wa after gasA = Some (Inr (c, s, p, u, g), w')"
  obtains pool1 lp1 where "settle_pool (E_sdk E) pool orig extra prot wc wa after = Some pool1" "settle_lp E msg lp after = Some lp1"
    "store_withdraw (E_sdk E) B w (stage_if_empty pool1) lp1 prot = Some (None, w')" "after < orig" "u = orig - after"
proof -
  obtain pool1 lp1 r where p1: "settle_pool (E_sdk E) pool orig extra prot wc wa after = Some pool1"
    and lp1: "settle_lp E msg lp after = Some lp1" and after: "after < orig"
    and st: "store_withdraw (E_sdk E) B w (stage_if_empty pool1) lp1 prot = Some r"
    and res: "(case r of (e, w2) \<Rightarrow> case e of Some er \<Rightarrow> Some (Inl er, w2)
          | None \<Rightarrow> do { units \<leftarrow> SafeSub (E_sdk E) orig after; Some (Inr (wc, wa, prot, units, gasA), w2) })
        = Some (Inr (c, s, p, u, g), w')"
    using assms(2) unfolding settle_withdraw_def Let_def bind_Some_iff
    by (cases "orig \<le> after") (auto simp: bind_Some_iff not_le)
  have "r = (None, w')" "u = orig - after"
    using res by (auto simp: cosmos_sdk.SafeSub_eq [OF assms(1)] split: prod.splits option.splits)
  then show thesis using that [OF p1 lp1 _ after] st by simp
qed

lemma stage_if_empty_fields [simp]:
  "Pool_Asset (stage_if_empty p) = Pool_Asset p" "Pool_LPUnits (stage_if_empty p) = Pool_LPUnits p"
  "Pool_PendingInboundCacao (stage_if_empty p) = Pool_PendingInboundCacao p"
  "Pool_PendingInboundAsset (stage_if_empty p) = Pool_PendingInboundAsset p"
  by (simp_all add: stage_if_empty_def)

lemma store_lp_pool: "store_lp S k lp = Some k' \<Longrightarrow> GetPool k' a = GetPool k a"
  by (simp add: GetPool_def store_lp_pools)

lemma withdraw_units_books:
  assumes S: "cosmos_sdk (E_sdk E)" and B: "bank_keeper B" and b: "books_ok (W_kv w) a" and r: "lp_readable L (W_kv w) a x"
    and lp: "lp = GetLiquidityProvider L (W_kv w) a x" and pool: "same_books pool (GetPool (W_kv w) a)"
    and d: "withdraw_units E B w msg pool lp = Some (Inr (c, s, p, u, g), w')"
  shows "books_ok (W_kv w') a \<and> stored_sum LP_Units (W_kv w') a + u = stored_sum LP_Units (W_kv w) a"
proof -
  let ?k = "W_kv w"
  obtain lp1 y pool2 wc after lp2 wa prot gasA where i1: "init_deposit (E_sdk E) pool lp = Some lp1"
    and gp: "grant_protection E ?k msg pool lp1 = ok (prot, y, pool2)" and l2: "checkWithdrawLimit E ?k msg lp1 = ok lp2"
    and se: "settle_withdraw E B w msg pool2 lp2 (LP_Units lp) y prot wc wa after gasA = Some (Inr (c, s, p, u, g), w')"
    using d by (simp add: withdraw_units_def Let_def bind_Some_iff split: if_split_asm) blast
  obtain pool3 lp3 where p3: "settle_pool (E_sdk E) pool2 (LP_Units lp) y prot wc wa after = Some pool3"
    and lp3: "settle_lp E msg lp2 after = Some lp3"
    and st: "store_withdraw (E_sdk E) B w (stage_if_empty pool3) lp3 prot = Some (None, w')" and after: "after < LP_Units lp" "u = LP_Units lp - after"
    by (rule settle_stores [OF S se])
  obtain k1 where k1: "SetPool ?k (stage_if_empty pool3) = Inr k1" and k': "store_lp (E_sdk E) k1 lp3 = Some (W_kv w')"
    by (rule store_withdraw_store [OF B st])
  have same: "same_position lp lp3" "LP_Units lp3 = after"
    using init_deposit_keeps [OF i1] checkWithdrawLimit_keeps [OF l2] settle_lp_keeps [OF lp3] by (simp_all add: same_position_def)
  have i: "kv_invar (K_liquidityProviders ?k)" using b by (simp add: books_ok_def Let_def)
  have pa: "Pool_Asset pool = a" using b pool by (simp add: books_ok_def same_books_def Let_def)
  have p3': "pool3 = pool2\<lparr>Pool_LPUnits := Pool_LPUnits pool2 - (LP_Units lp + y - after),
      Pool_BalanceCacao := Pool_BalanceCacao pool2 + prot - wc, Pool_BalanceAsset := Pool_BalanceAsset pool2 - wa\<rparr>"
    by (rule settle_pool_eq [OF S p3])
  note p2 = grant_protection_pool [OF S gp]
  have le: "LP_Units lp \<le> Pool_LPUnits (GetPool ?k a)"
    using stored_sum_ge [OF i lp_fields(1) r] b lp by (simp add: books_ok_def Let_def)
  have key: "lp_key lp3 = lp_key (empty_provider L a x)" "LP_Asset lp3 = a"
    using same r lp by (simp_all add: same_position_def lp_readable_def)
  have rep: "position_replaced ?k (W_kv w') a lp lp3"
    unfolding lp by (rule store_lp_replaces [OF S i r key SetPool_providers [OF k1] k'])
  have gp': "GetPool (W_kv w') a = decode_pool (stage_if_empty pool3)"
    using store_lp_pool [OF k', of a] GetPool_after_SetPool [OF k1, of a] pa by (simp add: p3' p2)
  have "books_ok (W_kv w') a"
    by (rule books_update [OF b rep _ gp']) (use pool le after same pa in \<open>simp_all add: p3' p2 same_books_def same_position_def\<close>)
  moreover have "stored_sum LP_Units (W_kv w') a + u = stored_sum LP_Units ?k a"
    using rep after same(2) lp_fields(1) by (auto simp: position_replaced_def)
  ultimately show ?thesis by simp
qed

lemma withdraw_pending_books:
  assumes S: "cosmos_sdk (E_sdk E)" and b: "books_ok (W_kv w) a" and r: "lp_readable L (W_kv w) a x"
    and lp: "lp = GetLiquidityProvider L (W_kv w) a x" and pool: "same_books pool (GetPool (W_kv w) a)" and ne: "\<not> Asset_IsEmpty a"
    and zero: "LP_Units lp = 0" and d: "withdraw_pending E w pool lp = Some (Inr (c, s, p, u, g), w')"
  shows "books_ok (W_kv w') a \<and> stored_sum LP_Units (W_kv w') a + u = stored_sum LP_Units (W_kv w) a"
proof -
  let ?k = "W_kv w" and ?q = "lp\<lparr>LP_PendingCacao := 0, LP_PendingAsset := 0\<rparr>"
  let ?p = "pool\<lparr>Pool_PendingInboundCacao := Pool_PendingInboundCacao pool - LP_PendingCacao lp,
      Pool_PendingInboundAsset := Pool_PendingInboundAsset pool - LP_PendingAsset lp\<rparr>"
  have i: "kv_invar (K_liquidityProviders ?k)" using b by (simp add: books_ok_def Let_def)
  have pa: "Pool_Asset pool = a" using b pool by (simp add: books_ok_def same_books_def Let_def)
  have le: "LP_PendingCacao lp \<le> Pool_PendingInboundCacao (GetPool ?k a)" "LP_PendingAsset lp \<le> Pool_PendingInboundAsset (GetPool ?k a)"
    using stored_sum_ge [OF i lp_fields(2) r] stored_sum_ge [OF i lp_fields(3) r] b lp by (simp_all add: books_ok_def Let_def)
  obtain k2 where k2: "SetPool (RemoveLiquidityProvider ?k lp) ?p = Inr k2" using ne pa by (simp add: SetPool_def)
  then have w': "W_kv w' = k2" "u = 0"
    using d zero by (auto simp: withdraw_pending_def cosmos_sdk.SafeSub_eq [OF S] bind_Some_iff Let_def split: if_split_asm)
  have "lp_key lp = lp_key ?q" by (simp add: lp_key_def LP_Key_def LP_GetAddress_def)
  then have key: "lp_key ?q = lp_key (empty_provider L a x)" "lp_key lp = lp_key ?q" using r lp by (simp_all add: lp_readable_def)
  have rep: "position_replaced ?k k2 a lp ?q"
    by (rule position_removed [OF i r, folded lp, where lp = ?q and old = lp]) (use key zero SetPool_providers [OF k2] in simp_all)
  have gp': "GetPool k2 a = decode_pool ?p" using GetPool_after_SetPool [OF k2, of a] pa by simp
  have "books_ok k2 a"
    by (rule books_update [OF b rep _ gp']) (use pool le pa in \<open>simp_all add: same_books_def\<close>)
  moreover have "stored_sum LP_Units k2 a = stored_sum LP_Units ?k a"
    using rep zero lp_fields(1) by (auto simp: position_replaced_def)
  ultimately show ?thesis using w' by simp
qed

lemma withdraw_books:
  assumes "cosmos_sdk (E_sdk E)" and "bank_keeper B" and "books_ok (W_kv w) (MW_Asset msg)"
    and "lp_readable (E_codecs E) (W_kv w) (MW_Asset msg) (MW_WithdrawAddress msg)" and "\<not> Asset_IsEmpty (MW_Asset msg)"
    and "withdrawV105 E B w msg = Some (Inr (c, s, p, u, g), w')"
  shows "books_ok (W_kv w') (MW_Asset msg) \<and> stored_sum LP_Units (W_kv w') (MW_Asset msg) + u = stored_sum LP_Units (W_kv w) (MW_Asset msg)"
proof -
  let ?k = "W_kv w" and ?lp = "GetLiquidityProvider (E_codecs E) (W_kv w) (MW_Asset msg) (MW_WithdrawAddress msg)"
  obtain n pool sy where cu: "Pool_CalcUnits (E_sdk E) (K_version ?k) (GetPool ?k (MW_Asset msg)) sy = Some (n, pool)"
    and d: "if LP_Units ?lp = 0 then withdraw_pending E w pool ?lp = Some (Inr (c, s, p, u, g), w')
      else withdraw_units E B w msg pool ?lp = Some (Inr (c, s, p, u, g), w')"
    using assms(6) by (auto simp: withdrawV105_def bind_Some_iff Let_def split: if_split_asm option.split_asm)
  have pool: "same_books pool (GetPool ?k (MW_Asset msg))" using CalcUnits_keeps [OF cu] by (auto simp: same_books_def)
  show ?thesis
    using withdraw_pending_books [OF assms(1,3,4) refl pool assms(5)] withdraw_units_books [OF assms(1-4) refl pool] d
    by (auto split: if_split_asm)
qed

text \<open>The life of a pool: deposits and withdrawals at any height, in any order.\<close>

inductive pool_step :: "env \<Rightarrow> 'b bank \<Rightarrow> Asset \<Rightarrow> 'b world \<Rightarrow> 'b world \<Rightarrow> bool" for E B a where
  deposit:
    "lp_readable (E_codecs E) (W_kv w) a (if Address_IsEmpty runeAddr then assetAddr else runeAddr) \<Longrightarrow>
     addLiquidityV105 (E\<lparr>E_height := h\<rparr>) B w a addCacao addAsset runeAddr assetAddr tx stage tier = Some (None, k') \<Longrightarrow>
     pool_step E B a w (w\<lparr>W_kv := k'\<rparr>)"
| withdrawal:
    "MW_Asset msg = a \<Longrightarrow> lp_readable (E_codecs E) (W_kv w) a (MW_WithdrawAddress msg) \<Longrightarrow>
     withdrawV105 (E\<lparr>E_height := h\<rparr>) B w msg = Some (Inr r, w') \<Longrightarrow> pool_step E B a w w'"
| bank:
    "pool_step E B a w (w\<lparr>W_bank := b\<rparr>)"

lemma pool_step_books:
  assumes "cosmos_sdk (E_sdk E)" and "bank_keeper B" and "\<not> Asset_IsVaultAsset a" and "\<not> Asset_IsEmpty a"
    and "pool_step E B a w w'" and "books_ok (W_kv w) a"
  shows "books_ok (W_kv w') a"
  using assms(5,6)
proof cases
  case (deposit runeAddr assetAddr h addCacao addAsset tx stage tier k')
  then show ?thesis
    using add_liquidity_books [of "E\<lparr>E_height := h\<rparr>", OF _ assms(3,6)] assms(1) by simp
next
  case (withdrawal msg h r)
  then show ?thesis
    using withdraw_books [of "E\<lparr>E_height := h\<rparr>" B w msg] assms(1,2,4,6) by (cases r) auto
qed simp

text \<open>C11: the books of a pool are an invariant: after any deposits and withdrawals the units of the pool, and its pending
  CACAO and asset, are those of its positions together.\<close>

theorem pool_life_keeps_books:
  assumes "cosmos_sdk (E_sdk E)" and "bank_keeper B" and "\<not> Asset_IsVaultAsset a" and "\<not> Asset_IsEmpty a"
    and "(pool_step E B a)\<^sup>*\<^sup>* w w'" and "books_ok (W_kv w) a"
  shows "books_ok (W_kv w') a"
  using assms(5,6) by (induction rule: rtranclp_induct) (use pool_step_books [OF assms(1-4)] in blast)+


section \<open>A deposit to a sample pool\<close>

text \<open>A pool whose hundred units are those of one position, and a deposit to it.\<close>

definition books_world :: "ledger world" where
  "books_world =
     \<lparr>W_kv = empty_store\<lparr>K_pools := [(pool_key BTCAsset, bonded_pool)],
        K_liquidityProviders := [(lp_key sample_lp, sample_lp)]\<rparr>, W_bank = empty_ledger\<rparr>"

definition sample_deposit :: Tx where
  "sample_deposit = GetRagnarokTx BTCChain ''bc1'' ''bc9''"

lemma books_lookups:
  "GetLiquidityProvider sample_codecs (W_kv books_world) BTCAsset ''maya1'' = sample_lp"
  "GetPool (W_kv books_world) BTCAsset = bonded_pool" "PoolExist (W_kv books_world) BTCAsset"
  "GetTotalSupply ledger_bank books_world (Asset_GetSyntheticAsset BTCAsset) = Some 0"
  "lp_readable sample_codecs (W_kv books_world) BTCAsset ''maya1''"
proof -
  show g: "GetLiquidityProvider sample_codecs (W_kv books_world) BTCAsset ''maya1'' = sample_lp"
    using bonded_keys(1)
    by (simp add: GetLiquidityProvider_def books_world_def kv_get_def decode_provider_def sample_lp_def Let_def)
  show "lp_readable sample_codecs (W_kv books_world) BTCAsset ''maya1''"
    using bonded_keys(1) by (simp add: lp_readable_def g) (simp add: sample_lp_def)
qed (simp_all add: books_world_def bonded_pool_def empty_store_def GetPool_def PoolExist_def kv_get_def decode_pool_def
    sample_pool_def NewPool_def GetTotalSupply_def ledger_bank_def empty_ledger_def uint64_of_def)

lemma books_world_ok: "books_ok (W_kv books_world) BTCAsset"
  by (simp add: books_ok_def books_lookups) (simp add: stored_sum_def kv_sum_def kv_values_def kv_invar_def books_world_def
      bonded_pool_def sample_pool_def NewPool_def sample_lp_def)

lemma commit_parts:
  "deposit_units sdk256 BTCAsset bonded_pool 1000 10 = ok 10"
  "grow_pool sdk256 bonded_pool 10 1000 10
    = Some (bonded_pool\<lparr>Pool_LPUnits := 110, Pool_BalanceCacao := 11000, Pool_BalanceAsset := 110\<rparr>)"
  by (simp_all add: deposit_units_def grow_pool_def bonded_pool_def sample_pool_def NewPool_def Pool_GetPoolUnits_def
      withdraw_msg_checks sdk256.uint_laws calculatePoolUnitsV1_def slip_adjustment_def dec_sub_def NewDec_def sdk256_def round_div_def
      dec_one_def Let_def)

lemma reserve_address: "GetModuleAddress sdk256 sample_codecs ledger_bank ReserveName = Inr ''mayareserve''"
  by (simp add: GetModuleAddress_def NewAddress_def ledger_bank_def module_account_def ReserveName_def sdk256_def sample_codecs_def
      is_alpha_num_def hasPrefix_def)

lemma reserve_other: "\<not> Address_Equals ''mayareserve'' ''maya1''"
  by (simp add: Address_Equals_def equalFold_def toUpper_def)

lemma sample_lp_fields: "LP_Units sample_lp = 100" "LP_PendingCacao sample_lp = 0" "LP_PendingAsset sample_lp = 0"
  "LP_CacaoAddress sample_lp = ''maya1''" "LP_AssetAddress sample_lp = ''bc1''"
  "LP_CacaoDepositValue sample_lp = 0" "LP_AssetDepositValue sample_lp = 0"
  by (simp_all add: sample_lp_def)

lemma bonded_pool_fields: "Pool_PendingInboundCacao bonded_pool = 0" "Pool_PendingInboundAsset bonded_pool = 0"
  "Pool_Asset bonded_pool = BTCAsset" "bonded_pool\<lparr>Pool_PendingInboundCacao := 0, Pool_PendingInboundAsset := 0\<rparr> = bonded_pool"
  "Pool_SynthUnits bonded_pool = 0"
  by (simp_all add: bonded_pool_def sample_pool_def NewPool_def)

lemma commit_sample:
  "\<exists>k. commit_deposit (sample_env 1000) ledger_bank (W_kv books_world) BTCAsset 1000 10 (sample_lp\<lparr>LP_LastAddHeight := 1000\<rparr>) bonded_pool
    = Some (None, k)"
proof -
  let ?p = "bonded_pool\<lparr>Pool_LPUnits := 110, Pool_BalanceCacao := 11000, Pool_BalanceAsset := 110\<rparr>"
  let ?l = "sample_lp\<lparr>LP_LastAddHeight := 1000, LP_PendingAsset := 0, LP_PendingCacao := 0, LP_PendingTxID := '''', LP_Units := 110\<rparr>"
  have "\<exists>v. deposit_value sdk256 ?p 10 lp = Some v \<and> LP_CacaoAddress v = LP_CacaoAddress lp"
    if "LP_CacaoDepositValue lp = 0" "LP_AssetDepositValue lp = 0" for lp
    using that by (simp add: deposit_value_def Pool_GetPoolUnits_def sdk256.uint_laws bonded_pool_fields)
  from this [of ?l] obtain v where v: "deposit_value sdk256 ?p 10 ?l = Some v" "LP_CacaoAddress v = ''maya1''"
    by (auto simp: sample_lp_fields)
  show ?thesis
    by (simp add: commit_deposit_def withdraw_msg_checks sdk256.SafeSub_eq sample_lp_fields bonded_pool_fields commit_parts
        SetPool_def sdk256.uint_laws v track_pol_def reserve_address reserve_other Let_def)
qed

lemma deposit_sample:
  "\<exists>k. addLiquidityV105 (sample_env 1000) ledger_bank books_world BTCAsset 1000 10 ''maya1'' ''bc1'' sample_deposit False 0 = Some (None, k)"
proof -
  have v: "validateAddLiquidityMessage (W_kv books_world) BTCAsset sample_deposit ''maya1'' ''bc1'' = None"
    by (simp add: validateAddLiquidityMessage_def withdraw_msg_checks books_lookups sample_deposit_def GetRagnarokTx_def)
  have c: "claim_position 1000 BTCAsset ''maya1'' ''bc1'' sample_lp = Inr (sample_lp\<lparr>LP_LastAddHeight := 1000\<rparr>)"
    by (simp add: claim_position_def sample_lp_fields Address_Equals_def)
  have u: "Pool_CalcUnits sdk256 ver bonded_pool 0 = Some (100, bonded_pool)" for ver
    by (simp add: Pool_CalcUnits_def Pool_CalcUnitsV80_def Pool_GetPoolUnits_def sdk256.uint_laws sdk256.SafeSub_eq Let_def withdraw_msg_checks
        bonded_pool_def sample_pool_def NewPool_def)
  show ?thesis
    using commit_sample
    by (simp add: addLiquidityV105_def v c u books_lookups bonded_pool_fields initial_status_def withdraw_msg_checks
        place_deposit_def sample_lp_fields sdk256.uint_laws)
qed

text \<open>C10: a deposit keeps the books of its pool: the units and the pending amounts of the pool stay those of the positions
  together, and what the pool holds of either side, pending or not, grows by exactly the amounts deposited, whether
  the deposit is committed or waits for its other side.\<close>

theorem addLiquidity_keeps_books:
  assumes "cosmos_sdk (E_sdk E)" and "\<not> Asset_IsVaultAsset a" and "books_ok (W_kv w) a"
    and "lp_readable (E_codecs E) (W_kv w) a (if Address_IsEmpty runeAddr then assetAddr else runeAddr)"
    and "addLiquidityV105 E B w a addCacao addAsset runeAddr assetAddr tx stage tier = Some (None, k')"
  shows "books_ok k' a
    \<and> Pool_BalanceCacao (GetPool k' a) + Pool_PendingInboundCacao (GetPool k' a)
      = Pool_BalanceCacao (GetPool (W_kv w) a) + Pool_PendingInboundCacao (GetPool (W_kv w) a) + addCacao
    \<and> Pool_BalanceAsset (GetPool k' a) + Pool_PendingInboundAsset (GetPool k' a)
      = Pool_BalanceAsset (GetPool (W_kv w) a) + Pool_PendingInboundAsset (GetPool (W_kv w) a) + addAsset"
  using add_liquidity_books [OF assms] by (simp add: grows_by_def)

theorem addLiquidity_keeps_books_witness:
  "\<exists>k'. addLiquidityV105 (sample_env 1000) ledger_bank books_world BTCAsset 1000 10 ''maya1'' ''bc1'' sample_deposit False 0 = Some (None, k')
    \<and> books_ok k' BTCAsset \<and> Pool_BalanceAsset (GetPool k' BTCAsset) + Pool_PendingInboundAsset (GetPool k' BTCAsset) = 110"
proof -
  obtain k' where k': "addLiquidityV105 (sample_env 1000) ledger_bank books_world BTCAsset 1000 10 ''maya1'' ''bc1'' sample_deposit False 0
      = Some (None, k')" using deposit_sample by blast
  then show ?thesis
    using addLiquidity_keeps_books [OF _ _ books_world_ok _ k'] books_lookups(5) withdraw_msg_checks(1,6) sdk256.cosmos_sdk_axioms
    by (simp add: books_lookups bonded_pool_def sample_pool_def NewPool_def)
qed

theorem pool_life_keeps_books_witness:
  "\<exists>w. pool_step (sample_env 1) ledger_bank BTCAsset books_world w \<and> w \<noteq> books_world \<and> books_ok (W_kv w) BTCAsset"
proof -
  obtain k' where k': "addLiquidityV105 (sample_env 1000) ledger_bank books_world BTCAsset 1000 10 ''maya1'' ''bc1'' sample_deposit False 0
      = Some (None, k')" using deposit_sample by blast
  let ?w = "books_world\<lparr>W_kv := k'\<rparr>"
  have e: "(sample_env 1)\<lparr>E_height := 1000\<rparr> = sample_env 1000" by (simp add: sample_env_def)
  have step: "pool_step (sample_env 1) ledger_bank BTCAsset books_world ?w"
    by (rule pool_step.deposit [where E = "sample_env 1" and h = 1000, unfolded e, OF _ k']) (simp add: books_lookups withdraw_msg_checks)
  then have r: "(pool_step (sample_env 1) ledger_bank BTCAsset)\<^sup>*\<^sup>* books_world ?w" by blast
  have "grows_by (W_kv books_world) k' BTCAsset 1000 10"
    using add_liquidity_books [OF _ _ books_world_ok _ k'] books_lookups(5) withdraw_msg_checks(1,6) sdk256.cosmos_sdk_axioms by simp
  then have "?w \<noteq> books_world" by (auto simp: grows_by_def books_world_def)
  then show ?thesis
    using step pool_life_keeps_books [OF _ ledger.bank_keeper_axioms withdraw_msg_checks(6,3) r books_world_ok]
      sdk256.cosmos_sdk_axioms by (intro exI [of _ ?w]) simp
qed

end
