(* ===== verification/SwapService.thy ===== *)
theory SwapService
  imports LiquidityHandlers
begin

text \<open>
  The queue of swaps with the program's own handler and outbound store. The queue of \<open>SwapQueue\<close> takes both as arguments and
  relies on one law, that they leave the queue alone; here the swap handler, with the deposits it makes, and the outbound
  store are shown to obey it, so that what holds of the queue holds of the composed program.
\<close>

section \<open>What a swap leaves alone\<close>

lemma burn_each_kv: "burn_each B w cs = Some (e, w') \<Longrightarrow> W_kv w' = W_kv w"
  by (induction cs arbitrary: w) (auto simp: bind_Some_iff dest!: bank_keeps_kv split: option.splits if_splits)

lemma burnCoins_kv: "burnCoins B w cs = Some (e, w') \<Longrightarrow> W_kv w' = W_kv w"
  by (auto simp: burnCoins_def bind_Some_iff dest!: bank_keeps_kv burn_each_kv split: option.splits)

lemma SetPool_queue: "SetPool k p = Inr k' \<Longrightarrow> K_swapQueue k' = K_swapQueue k"
  by (auto simp: SetPool_def split: if_splits)

lemma swap_settle_queue:
  assumes "swap_settle S B w tx source target pool X x Y emit = Some (e, w')"
  shows "K_swapQueue (W_kv w') = K_swapQueue (W_kv w)"
proof -
  have store: "K_swapQueue (W_kv w') = K_swapQueue (W_kv w)"
    if "(case SetPool (W_kv w1) p of Inl _ \<Rightarrow> Some (fails m, w1) | Inr kv \<Rightarrow> Some (None, w1\<lparr>W_kv := kv\<rparr>)) = Some (e, w')"
      "W_kv w1 = W_kv w" for w1 p m
    using that by (auto dest: SetPool_queue split: sum.splits)
  show ?thesis
    using assms unfolding swap_settle_def Let_def
    by (auto simp: bind_Some_iff split: if_split_asm option.split_asm dest!: burnCoins_kv intro: store)
qed

lemma swapOne_queue:
  assumes "swapOne S B w tx target st fee vm = Some (r, w')"
  shows "K_swapQueue (W_kv w') = K_swapQueue (W_kv w)"
  using assms unfolding swapOne_def Let_def
  by (auto simp: bind_Some_iff split: if_split_asm option.split_asm list.split_asm dest!: swap_settle_queue)

lemma AddToLiquidityFees_queue: "AddToLiquidityFees S k h a fee = Some k' \<Longrightarrow> K_swapQueue k' = K_swapQueue k"
  by (auto simp: AddToLiquidityFees_def bind_Some_iff Let_def setUint64_def split: if_splits)

lemma add_fees_queue: "add_fees S w h es = Some w' \<Longrightarrow> K_swapQueue (W_kv w') = K_swapQueue (W_kv w)"
  by (induction es arbitrary: w) (auto simp: bind_Some_iff dest!: AddToLiquidityFees_queue)

lemma swap_finish_queue:
  assumes "outbound_keeps_queue txout" and "swap_finish S txout w h tx target dest st da dt dl fee amt evs = Some (r, w')"
  shows "K_swapQueue (W_kv w') = K_swapQueue (W_kv w)"
proof -
  have out: "K_swapQueue (W_kv w2) = K_swapQueue (W_kv w1)" if "txout w1 t n = Some (x, w2)" for w1 t n x w2
    using assms(1) that unfolding outbound_keeps_queue_def by blast
  have pair: "w' = w2" if "(case x of Inl y \<Rightarrow> (f y, w2) | Inr z \<Rightarrow> (g z, w2)) = (r, w')" for x :: "go_error + bool" and f g w2
    using that by (cases x) auto
  show ?thesis
    using assms(2) unfolding swap_finish_def Let_def
    by (auto simp: bind_Some_iff split: if_split_asm dest!: add_fees_queue out pair)
qed

lemma Swap_queue:
  assumes "outbound_keeps_queue txout" and "Swap S B isChain txout w h tx target dest st da dt dl fee vm = Some (r, w')"
  shows "K_swapQueue (W_kv w') = K_swapQueue (W_kv w)"
  using assms(2) unfolding Swap_def Let_def
  by (auto simp: bind_Some_iff case_sum_Some_iff split: if_split_asm option.split_asm list.split_asm
      dest!: swapOne_queue swap_finish_queue [OF assms(1)])

section \<open>What a deposit leaves alone\<close>

lemma provider_tables_queue [simp]:
  "K_swapQueue (SetLiquidityProvider k lp) = K_swapQueue k" "K_swapQueue (SetLiquidityAuctionTier k x t) = K_swapQueue k"
  "K_swapQueue (SetPOL k p) = K_swapQueue k"
  by (simp_all add: SetLiquidityProvider_def SetLiquidityAuctionTier_def SetPOL_def)

lemma stage_deposit_queue [simp]: "K_swapQueue (stage_deposit k lp p) = K_swapQueue k"
  by (auto simp: stage_deposit_def Let_def dest: SetPool_queue split: sum.splits)

lemma track_pol_queue: "track_pol E B k x n = Some (e, k') \<Longrightarrow> K_swapQueue k' = K_swapQueue k"
  by (auto simp: track_pol_def bind_Some_iff split: sum.splits if_splits)

lemma commit_deposit_queue: "commit_deposit E B k a pc pa su pool = Some (e, k') \<Longrightarrow> K_swapQueue k' = K_swapQueue k"
  unfolding commit_deposit_def Let_def
  by (auto simp: bind_Some_iff case_sum_Some_iff split: if_split_asm dest!: track_pol_queue SetPool_queue)

lemma addLiquidity_queue:
  assumes "addLiquidityV105 E B w a c s x y tx stage tier = Some (e, k')"
  shows "K_swapQueue k' = K_swapQueue (W_kv w)"
proof -
  have "K_swapQueue k' = K_swapQueue k" if "place_deposit E B k a c s x tx stage tier su pool = Some (e, k')" for k su pool
    using that unfolding place_deposit_def stage_cacao_def stage_asset_def Let_def
    by (auto simp: bind_Some_iff split: if_split_asm dest!: commit_deposit_queue)
  then show ?thesis
    using assms unfolding addLiquidityV105_def Let_def
    by (auto simp: bind_Some_iff case_sum_Some_iff split: option.split_asm)
qed

lemma ensure_pool_queue: "ensure_pool k m = Inr k' \<Longrightarrow> K_swapQueue k' = K_swapQueue k"
  by (auto simp: ensure_pool_def Let_def dest!: SetPool_queue split: sum.split_asm if_split_asm)

lemma AddLiquidityHandler_queue:
  assumes "\<not> needsSwap m" and "AddLiquidityHandler_Run E B showd w m = Some (e, w')"
  shows "K_swapQueue (W_kv w') = K_swapQueue (W_kv w)"
proof -
  have "K_swapQueue (W_kv w') = K_swapQueue (W_kv w)" if "AddLiquidityHandler_handleV96 E B showd w m = Some (e, w')"
    using that assms(1) unfolding AddLiquidityHandler_handleV96_def Let_def
    by (auto simp: bind_Some_iff case_sum_Some_iff split: if_split_asm option.split_asm
        dest!: addLiquidity_queue ensure_pool_queue)
  then show ?thesis using assms(2) by (auto simp: AddLiquidityHandler_Run_def Run_def bind_Some_iff split: option.splits)
qed

text \<open>The deposit after a swap is made in the asset that was swapped to, so that it never queues another swap.\<close>

lemma deposit_swapped_queue:
  assumes "deposit_swapped E B showd w m emit memo = Some (e, w')"
  shows "K_swapQueue (W_kv w') = K_swapQueue (W_kv w)"
proof (cases memo)
  case (AddLiquidityMemo asset addr affAddr affPts tier)
  let ?a = "fuzzyAssetMatch (W_kv w) asset"
  let ?m = "getMsgAddLiquidityFromMemo ?a addr affAddr affPts 0
      (EmptyObservedTx\<lparr>OT_Tx := (MS_Tx m)\<lparr>Tx_Coins := [NewCoin ?a emit]\<rparr>\<rparr>) (MS_Signer m)"
  have "\<not> needsSwap ?m"
    by (simp add: needsSwap_def getMsgAddLiquidityFromMemo_def NewMsgAddLiquidity_def NewCoin_def Let_def)
  then show ?thesis
    using assms AddLiquidityMemo by (auto simp: deposit_swapped_def Let_def dest!: AddLiquidityHandler_queue [rotated])
qed (use assms in \<open>auto simp: deposit_swapped_def\<close>)

section \<open>The handler of swaps\<close>

lemma SwapHandler_handle_queue:
  assumes "outbound_keeps_queue txout" and "SwapHandler_handleV95 E Y B showd txout gm w m = Some (e, w')"
  shows "K_swapQueue (W_kv w') = K_swapQueue (W_kv w)"
  using assms(2) unfolding SwapHandler_handleV95_def Let_def
  by (auto simp: bind_Some_iff case_sum_Some_iff split: if_split_asm option.split_asm
      dest!: Swap_queue [OF assms(1)] deposit_swapped_queue)

lemma SwapHandler_keeps_queue:
  assumes "outbound_keeps_queue txout"
  shows "keeps_queue (SwapHandler_Run E Y B showd txout gm)"
  by (auto simp: keeps_queue_def SwapHandler_Run_def Run_def handled_since_def bind_Some_iff
      split: option.split_asm if_split_asm dest!: SwapHandler_handle_queue [OF assms])

section \<open>The contract of the queue\<close>



lemma program_queue_drains:
  assumes "cosmos_sdk S" and "keeps_queue run" and "swap_queue_ok (W_kv w)" and "length (K_swapQueue (W_kv w)) \<le> n"
    and "quiet_blocks S (\<lambda>E. TryAddTxOutItem E Y B tokens run)
      (\<lambda>E gm. SwapHandler_Run E Y B showd (TryAddTxOutItem E Y B tokens run gm) gm) n w w'"
  shows "K_swapQueue (W_kv w') = []"
proof -
  have "serves_queue S (\<lambda>E. TryAddTxOutItem E Y B tokens run)
      (\<lambda>E gm. SwapHandler_Run E Y B showd (TryAddTxOutItem E Y B tokens run gm) gm)"
    using assms(1,2) TryAddTxOutItem_keeps_queue SwapHandler_keeps_queue unfolding serves_queue_def by blast
  from quiet_blocks_length [OF assms(5) this assms(3)] show ?thesis using assms(4) by simp
qed

end
