(* ===== verification/Spec2Isabelle.thy ===== *)
theory Spec2Isabelle
  imports Inflation LiquidityBooks SwapService
begin

text \<open>
  A verification development for the MAYAChain node (\<open>mayanode\<close>, Go).

  \<^bold>\<open>The program.\<close> The nodes of the network watch external chains, vote on what they see, and hold
  funds in vaults that they control together. A transaction that two thirds of the active nodes
  report becomes an action of the state machine \<open>x/mayachain\<close>: a swap against a liquidity pool, a
  change of bond, a vote on a configuration value (mimir). Outbound transactions are planned,
  signed by the nodes of a vault and observed again. All state lies in a key-value store that the
  keeper (\<open>x/mayachain/keeper/v1\<close>) reads and writes; the data types and the voting rules are in
  \<open>x/mayachain/types\<close>, assets, coins and arithmetic in \<open>common\<close>, constants in \<open>constants\<close>.

  \<^bold>\<open>The theories\<close>, each one importing those it calls:

  \<^item> \<open>Prelude\<close>: result types, the Go string functions, lemmas on lists, options, division.
  \<^item> \<open>Cosmos_SDK\<close>: what the code uses of the SDK (\<open>Uint\<close>, \<open>Dec\<close>, bech32 addresses) as the record
    \<open>sdk\<close>, with the documented behaviour as the locale \<open>cosmos_sdk\<close>: a \<open>Uint\<close> operation panics
    exactly outside 256 bits, a \<open>Dec\<close> operation has an error of at most half a unit of
    \<open>10^-18\<close>, the string of an address determines it. \<open>sdk256\<close> is an instance, so the laws are
    consistent; the witnesses run on it.
  \<^item> \<open>Common_Math\<close> (\<open>common/type_convert.go\<close>, \<open>common/cosmos/cosmos.go\<close>): \<open>SafeSub\<close>,
    \<open>GetUncappedShare\<close> with the recovered panic, \<open>GetSafeShare\<close>, \<open>RoundToDecimal\<close>. A share stays
    below the allocation and within one unit of the exact proportion.
  \<^item> \<open>Assets\<close> (\<open>common/asset.go\<close>, \<open>common/chain.go\<close>, tickers, symbols): parsing and printing are
    inverse; comparison is up to letter case.
  \<^item> \<open>Coins\<close> (\<open>common/coin.go\<close>, \<open>common/gas.go\<close>): sums are conserved asset by asset; the locale
    \<open>coin_holder\<close> is the contract of whatever holds coins, met by coin lists and by vaults.
  \<^item> \<open>Constants\<close> (\<open>constants/\<close>): the names with their positions, and the tables.
  \<^item> \<open>Nodes\<close> (\<open>type_node_account.go\<close>, public keys, bond providers, jail).
  \<^item> \<open>Voters\<close> (\<open>types.go\<close>, the voters for bans, errata, forgiven slashes, solvency, network fees,
    key generation and key signing failures): the majorities, and the locales \<open>signed_voter\<close> and
    \<open>counting_voter\<close>, the contract all voters share, interpreted for each of them.
  \<^item> \<open>Txs\<close> (\<open>common/tx.go\<close>, \<open>type_tx_out.go\<close>) and \<open>Observations\<close> (\<open>type_observed_tx.go\<close>): the vote
    on an observed transaction, whose life is the step relation \<open>voter_step\<close>; what the nodes agree
    on has two thirds of the signatures, does not depend on the order of the reports while fewer
    than a third sign twice, and the outbounds recorded match planned actions.
  \<^item> \<open>Pools\<close> (\<open>type_pool.go\<close>), \<open>Mimirs\<close> (\<open>type_mimir.go\<close>), \<open>Vaults\<close> (\<open>type_vault.go\<close>), \<open>Records\<close>
    (the other stored records: liquidity providers and their bonds, network, names, keygens,
    metrics) and \<open>Messages\<close> (the messages with their \<open>ValidateBasic\<close>).
  \<^item> \<open>Addresses\<close> (\<open>common/address.go\<close>) and \<open>Keys\<close> (\<open>common/pubkey.go\<close>): the addresses of the chains
    and those of a public key, over the libraries of the chains; \<open>Keys\<close> also has the order of
    the vaults by security (\<open>keeper_vault.go\<close>).
  \<^item> \<open>KVStore\<close>, \<open>Keeper\<close> and \<open>Bank\<close> (\<open>keeper/v1\<close>): the store is a record of typed tables, association
    lists from keys to records; \<open>kv_table\<close> is the contract of a table, interpreted for these
    lists. A value that can be stored is read back as it was written, except where the encoding
    itself shows (a stored zero under a preset default, an unknown status). \<open>Bank\<close> has the transfers,
    mint and burn over the bank of the SDK, whose contract is the locale \<open>bank_keeper\<close>, interpreted
    for a ledger.
  \<^item> \<open>Helpers\<close> (\<open>helpers.go\<close>): halts, authorisation, prices, bonds. Minting beyond the cap halts the
    network; any two thirds of the bonded nodes have the effective security bond.
  \<^item> \<open>Swapper\<close> (\<open>swap_current.go\<close>): the constant product formulas, \<open>swapOne\<close> and \<open>Swap\<close>;
    \<open>SwapQueue\<close> (\<open>manager_swap_queue_current.go\<close>): a queue without new swaps drains, in the order of
    the slip.
  \<^item> \<open>LiquidityMath\<close> and \<open>Withdraw\<close> (\<open>withdraw_current.go\<close>, the units of a deposit): a deposit earns no
    more than its share, a withdrawal conserves CACAO and never pays more than the pool holds.
  \<^item> \<open>Gas\<close> (\<open>manager_gas_current.go\<close>) and \<open>Inflation\<close> (\<open>keeper_network_fee.go\<close>): what pools are paid
    for gas and by inflation is backed by transfers.
  \<^item> \<open>Memos\<close> (\<open>memo/\<close>) and \<open>Dispatch\<close> (\<open>handler.go\<close>): from the memo of an observed transaction to the
    message of the state machine. Printing and parsing are inverse; an asset is completed to that
    of the deepest pool.
  \<^item> \<open>TxOutStore\<close> (\<open>manager_txout_current.go\<close>): the vaults that pay an outbound share its amount
    without loss, and an accepted outbound is scheduled in one block within the configured delay,
    for at least the minimum that the caller asked for.
  \<^item> \<open>Slasher\<close> (\<open>manager_slasher_current.go\<close>, slashing and refund of bonds in \<open>helpers.go\<close>): slashing
    conserves liquidity units; refunding all bonds at once ends with an error.
  \<^item> \<open>NodeHandlers\<close> (the handlers of ban, network fee, mimir, node pause, node keys, Aztec address,
    forgiveness and names): a configuration value changes by a super majority only, a name by its
    owner only.
  \<^item> \<open>LiquidityHandlers\<close> (\<open>handler_swap.go\<close>, \<open>handler_add_liquidity.go\<close>, \<open>handler_withdraw.go\<close>,
    \<open>handler_donate.go\<close>): the handlers of swaps, deposits, withdrawals and donations.
    \<open>LiquidityBooks\<close>: the units and pending amounts of a pool are those of its positions together
    after any deposits and withdrawals, the steps of \<open>pool_step\<close>. \<open>SwapService\<close>: the swap handler and
    the outbound store obey the contract of the swap queue (\<open>serves_queue\<close>), so that it drains with
    them.

  \<^bold>\<open>Conventions.\<close> A Go function that can panic returns an option (\<open>None\<close> is the panic), one that
  returns an error a sum (\<open>Inl\<close> is the error), both \<open>None\<close>/\<open>Inl\<close>/\<open>Inr\<close>. A method with a pointer
  receiver returns the changed receiver. \<open>Uint\<close> is \<open>nat\<close> with the 256-bit limit in the operations of
  \<open>sdk\<close>; \<open>int64\<close> is \<open>int\<close> with the wrap-around written out where a sum or difference is taken.
  Where the Go code ranges over a map, whose order the language leaves open, the definition returns
  the list of the possible results. Error values carry the fixed part of their message. No loop
  needs fuel: each one runs over a list, except the search for a block in \<open>CalcTxOutHeight\<close>, whose
  counter is bounded by the delay in the configuration and is the argument of the recursion.

  \<^bold>\<open>Parameters.\<close> Besides \<open>sdk\<close>: the bank of the SDK (\<open>bank\<close>, over an abstract state), the address
  codecs of the libraries of other chains (\<open>codecs\<close>), the derivation of addresses from public keys
  (\<open>keys\<close>) and of consensus addresses, the generated lists of tokens, the outbound store where the
  swapper and the refunds call it through an interface, and the handler of an internal message
  (\<open>run\<close>) where the outbound manager dispatches to it. \<open>TryAddTxOutItem\<close> is the outbound store of the
  program; that it leaves the swap queue alone is proved, as the swap queue relies on it. The
  binary codec of the store is taken to be faithful; the tables hold the records themselves. The
  two flags of the IBC transfer module are a pair of the mimir handler, and \<open>showd\<close> prints a \<open>Uint\<close>
  in the memo of a swap.

  \<^bold>\<open>Not modelled.\<close> Events, logs, telemetry and queries, which do not change the state; genesis and
  store migrations, which are one-off changes of data; archived versions of the handlers and
  managers; the process \<open>bifrost\<close> that watches chains and signs, mostly input and output; the
  order book, the network and validator managers, and the handlers of observations and bonds,
  whose votes, formulas and records are modelled but not their composition.
\<close>

end
